(* ===== verification/Prelude.thy ===== *)
theory Prelude
  imports Complex_Main "HOL-Library.Sublist" "HOL-Library.List_Lexorder" "HOL-Library.Char_ord"
begin

text \<open>
  Shared vocabulary of the development: the result type of the Rust sources, sequences of
  fail-fast checks, the part of \<open>str\<close> the sources use, ordered maps, and the two locales
  several components are built on.

  A Rust \<open>str\<close> is its UTF-8 byte sequence, as an Isabelle \<^typ>\<open>string\<close>: \<open>len()\<close> is
  \<open>length\<close>, comparisons are bytewise, and \<open>trim()\<close> recognises the UTF-8 encodings of every
  Unicode \<open>White_Space\<close> character.  A \<open>Result\<close> is a sum with the error on the left.
\<close>

named_theorems validated "what a successful validation establishes"

section \<open>Results and fail-fast checks\<close>

abbreviation Ok :: "'a \<Rightarrow> 'e + 'a" where "Ok \<equiv> Inr"
abbreviation Err :: "'e \<Rightarrow> 'e + 'a" where "Err \<equiv> Inl"

text \<open>
  \<open>if cond { return Err(e) }\<close> is \<open>fail_if cond e\<close>; a body that is a sequence of such statements
  and of \<open>validate()?\<close> calls is \<open>checks\<close> of the list of them: the first error wins.
\<close>

definition fail_if :: "bool \<Rightarrow> 'e \<Rightarrow> 'e + unit" where
  "fail_if b e = (if b then Err e else Ok ())"

primrec checks :: "('e + unit) list \<Rightarrow> 'e + unit" where
  "checks [] = Ok ()"
| "checks (c # cs) = (case c of Inl e \<Rightarrow> Err e | Inr _ \<Rightarrow> checks cs)"

primrec is_ok :: "'e + 'a \<Rightarrow> bool" where
  "is_ok (Inl _) = False"
| "is_ok (Inr _) = True"

definition map_err :: "('e \<Rightarrow> 'f) \<Rightarrow> 'e + 'a \<Rightarrow> 'f + 'a" where
  "map_err f r = (case r of Inl e \<Rightarrow> Err (f e) | Inr a \<Rightarrow> Ok a)"

lemma fail_if_ok [simp]: "fail_if b e = Inr u \<longleftrightarrow> \<not> b"
  by (simp add: fail_if_def)

lemma fail_if_err [simp]: "fail_if b e = Inl e' \<longleftrightarrow> b \<and> e' = e"
  by (auto simp: fail_if_def)

lemma checks_ok [simp]: "checks cs = Inr u \<longleftrightarrow> list_all (\<lambda>c. c = Inr ()) cs"
  by (induction cs) (auto split: sum.splits)

lemma is_ok_iff [simp]: "is_ok (r :: 'e + unit) \<longleftrightarrow> r = Inr ()"
  by (cases r) auto

lemma map_err_ok [simp]: "map_err f r = Inr a \<longleftrightarrow> r = Inr a"
  by (auto simp: map_err_def split: sum.splits)

lemma checks_err: "checks cs = Inl e \<Longrightarrow> Inl e \<in> set cs"
  by (induction cs) (auto split: sum.splits)

text \<open>Which check of a sequence produced the error: the one after a successful prefix.\<close>

lemma checks_append:
  "checks (as @ bs) = (case checks as of Inl e \<Rightarrow> Inl e | Inr _ \<Rightarrow> checks bs)"
  by (induction as) (auto simp del: checks_ok split: sum.splits)

text \<open>From here on a sequence of checks is reasoned about as a whole, by \<open>checks_ok\<close>.\<close>

declare checks.simps(2) [simp del]

text \<open>The operator \<open>?\<close>: \<open>Result::and_then\<close> and \<open>Option::ok_or\<close>.\<close>

definition and_then :: "'e + 'a \<Rightarrow> ('a \<Rightarrow> 'e + 'b) \<Rightarrow> 'e + 'b" where
  "and_then r f = (case r of Inl e \<Rightarrow> Err e | Inr a \<Rightarrow> f a)"

definition ok_or :: "'a option \<Rightarrow> 'e \<Rightarrow> 'e + 'a" where
  "ok_or x e = (case x of None \<Rightarrow> Err e | Some a \<Rightarrow> Ok a)"

lemma and_then_ok [simp]: "and_then r f = Inr b \<longleftrightarrow> (\<exists>a. r = Inr a \<and> f a = Inr b)"
  by (cases r) (simp_all add: and_then_def)

lemma ok_or_ok [simp]: "ok_or x e = Inr a \<longleftrightarrow> x = Some a"
  by (cases x) (simp_all add: ok_or_def)

lemma and_then_simps [simp]: "and_then (Inl e) f = Inl e" "and_then (Inr a) f = f a"
  by (simp_all add: and_then_def)

lemma ok_or_simps [simp]: "ok_or None e = Inl e" "ok_or (Some a) e = Inr a"
  by (simp_all add: ok_or_def)

lemma and_then_cong [fundef_cong, cong]:
  "r = s \<Longrightarrow> (\<And>a. s = Inr a \<Longrightarrow> f a = g a) \<Longrightarrow> and_then r f = and_then s g"
  by (cases s) simp_all

section \<open>Strings\<close>

definition ws1 :: "char \<Rightarrow> bool" where
  "ws1 c \<longleftrightarrow> c \<in> set [CHR 0x09, CHR 0x0A, CHR 0x0B, CHR 0x0C, CHR 0x0D, CHR 0x20]"

definition ws2 :: "char \<Rightarrow> char \<Rightarrow> bool" where
  "ws2 a b \<longleftrightarrow> a = CHR 0xC2 \<and> b \<in> set [CHR 0x85, CHR 0xA0]"

definition ws3 :: "char \<Rightarrow> char \<Rightarrow> char \<Rightarrow> bool" where
  "ws3 a b c \<longleftrightarrow> (a, b, c) \<in> set
     [(CHR 0xE1, CHR 0x9A, CHR 0x80),
      (CHR 0xE2, CHR 0x80, CHR 0x80), (CHR 0xE2, CHR 0x80, CHR 0x81),
      (CHR 0xE2, CHR 0x80, CHR 0x82), (CHR 0xE2, CHR 0x80, CHR 0x83),
      (CHR 0xE2, CHR 0x80, CHR 0x84), (CHR 0xE2, CHR 0x80, CHR 0x85),
      (CHR 0xE2, CHR 0x80, CHR 0x86), (CHR 0xE2, CHR 0x80, CHR 0x87),
      (CHR 0xE2, CHR 0x80, CHR 0x88), (CHR 0xE2, CHR 0x80, CHR 0x89),
      (CHR 0xE2, CHR 0x80, CHR 0x8A), (CHR 0xE2, CHR 0x80, CHR 0xA8),
      (CHR 0xE2, CHR 0x80, CHR 0xA9), (CHR 0xE2, CHR 0x80, CHR 0xAF),
      (CHR 0xE2, CHR 0x81, CHR 0x9F), (CHR 0xE3, CHR 0x80, CHR 0x80)]"

text \<open>Drop one white-space character at the front, and one at the end of the reversed string.\<close>

definition skip_ws :: "string \<Rightarrow> string option" where
  "skip_ws s =
     (case s of
        [] \<Rightarrow> None
      | a # as \<Rightarrow> if ws1 a then Some as else
         (case as of
            [] \<Rightarrow> None
          | b # bs \<Rightarrow> if ws2 a b then Some bs else
             (case bs of [] \<Rightarrow> None | c # cs \<Rightarrow> if ws3 a b c then Some cs else None)))"

definition skip_ws_rev :: "string \<Rightarrow> string option" where
  "skip_ws_rev s =
     (case s of
        [] \<Rightarrow> None
      | c # cs \<Rightarrow> if ws1 c then Some cs else
         (case cs of
            [] \<Rightarrow> None
          | b # bs \<Rightarrow> if ws2 b c then Some bs else
             (case bs of [] \<Rightarrow> None | a # as \<Rightarrow> if ws3 a b c then Some as else None)))"

lemma skip_ws_less: "skip_ws s = Some r \<Longrightarrow> length r < length s"
  by (auto simp: skip_ws_def split: list.splits if_splits)

lemma skip_ws_rev_less: "skip_ws_rev s = Some r \<Longrightarrow> length r < length s"
  by (auto simp: skip_ws_rev_def split: list.splits if_splits)

function trim_start :: "string \<Rightarrow> string" where
  "trim_start s = (case skip_ws s of None \<Rightarrow> s | Some r \<Rightarrow> trim_start r)"
  by pat_completeness auto
termination
  by (relation "measure length") (auto dest: skip_ws_less)

function trim_end_rev :: "string \<Rightarrow> string" where
  "trim_end_rev s = (case skip_ws_rev s of None \<Rightarrow> s | Some r \<Rightarrow> trim_end_rev r)"
  by pat_completeness auto
termination
  by (relation "measure length") (auto dest: skip_ws_rev_less)

declare trim_start.simps [simp del] trim_end_rev.simps [simp del]

definition trim :: "string \<Rightarrow> string" where
  "trim s = rev (trim_end_rev (rev (trim_start s)))"

text \<open>\<open>value.trim().is_empty()\<close>, the test every identifier check of the sources uses.\<close>

definition is_blank :: "string \<Rightarrow> bool" where
  "is_blank s \<longleftrightarrow> trim s = []"

lemma ws2_lead: "ws2 a b \<Longrightarrow> \<not> ws1 a"
  by (auto simp: ws1_def ws2_def)

lemma ws3_lead: "ws3 a b c \<Longrightarrow> a \<in> {CHR 0xE1, CHR 0xE2, CHR 0xE3}"
  by (auto simp: ws3_def)

lemma ws3_not_ws12: "ws3 a b c \<Longrightarrow> \<not> ws1 a \<and> \<not> ws2 a b"
  by (drule ws3_lead) (auto simp: ws1_def ws2_def)

lemma skip_ws_rev_SomeD:
  "skip_ws_rev s = Some r \<Longrightarrow> \<exists>t. rev s = rev r @ t \<and> t \<noteq> [] \<and> skip_ws t = Some []"
  by (auto simp: skip_ws_rev_def skip_ws_def ws2_lead ws3_not_ws12 split: list.splits if_splits)

lemma skip_ws_append: "skip_ws t = Some r \<Longrightarrow> skip_ws (t @ u) = Some (r @ u)"
  by (auto simp: skip_ws_def split: list.splits if_splits)

lemma trim_end_rev_Nil: "trim_end_rev (rev s) = [] \<Longrightarrow> skip_ws s = None \<Longrightarrow> s = []"
proof (induction "length s" arbitrary: s rule: less_induct)
  case less
  show ?case
  proof (cases "skip_ws_rev (rev s)")
    case None
    with less.prems show ?thesis by (simp add: trim_end_rev.simps [of "rev s"])
  next
    case (Some r)
    then obtain t where t: "s = rev r @ t" "t \<noteq> []" "skip_ws t = Some []"
      by (auto dest: skip_ws_rev_SomeD)
    have "trim_end_rev (rev (rev r)) = []"
      using less.prems(1) Some by (simp add: trim_end_rev.simps [of "rev s"])
    moreover have "skip_ws (rev r) = None"
      using less.prems(2) skip_ws_append t(1) by (metis not_None_eq)
    ultimately have "rev r = []"
      using less.hyps [of "rev r"] t by simp
    then show ?thesis
      using less.prems(2) t by simp
  qed
qed

lemma skip_ws_trim_start: "skip_ws (trim_start s) = None"
proof (induction s rule: trim_start.induct)
  case (1 s)
  then show ?case by (cases "skip_ws s") (simp_all add: trim_start.simps [of s])
qed

lemma trim_start_trim: "trim_start s = [] \<longleftrightarrow> trim s = []"
proof
  assume "trim_start s = []"
  moreover have "trim_end_rev [] = []"
    by (simp add: trim_end_rev.simps skip_ws_rev_def)
  ultimately show "trim s = []" by (simp add: trim_def)
next
  assume "trim s = []"
  then show "trim_start s = []"
    using trim_end_rev_Nil [of "trim_start s"] skip_ws_trim_start [of s]
    by (simp add: trim_def)
qed

lemma is_blank_start: "is_blank s \<longleftrightarrow> trim_start s = []"
  by (simp add: is_blank_def trim_start_trim)

lemma is_blank_Nil [simp]: "is_blank []"
  by (simp add: is_blank_start trim_start.simps skip_ws_def)

text \<open>Evaluation: a string that starts with no white-space lead byte is not blank.\<close>

lemma is_blank_Cons [simp]:
  "a \<notin> set [CHR 0x09, CHR 0x0A, CHR 0x0B, CHR 0x0C, CHR 0x0D, CHR 0x20,
             CHR 0xC2, CHR 0xE1, CHR 0xE2, CHR 0xE3] \<Longrightarrow> \<not> is_blank (a # s)"
  by (auto simp: is_blank_start trim_start.simps [of "a # s"] skip_ws_def ws1_def ws2_def ws3_def
           split: list.splits)

lemma not_blank_not_empty: "\<not> is_blank s \<Longrightarrow> s \<noteq> []"
  by auto

text \<open>\<open>as_deref().is_none_or(str::is_empty)\<close>.\<close>

definition none_or_empty :: "string option \<Rightarrow> bool" where
  "none_or_empty x \<longleftrightarrow> (case x of None \<Rightarrow> True | Some s \<Rightarrow> s = [])"

lemma none_or_empty_simps [simp]:
  "none_or_empty None" "none_or_empty (Some s) \<longleftrightarrow> s = []"
  by (simp_all add: none_or_empty_def)

definition lower_char :: "char \<Rightarrow> char" where
  "lower_char c =
     (case map_of (zip ''ABCDEFGHIJKLMNOPQRSTUVWXYZ'' ''abcdefghijklmnopqrstuvwxyz'') c of
        Some d \<Rightarrow> d | None \<Rightarrow> c)"

definition to_ascii_lowercase :: "string \<Rightarrow> string" where
  "to_ascii_lowercase s = map lower_char s"

definition eq_ignore_ascii_case :: "string \<Rightarrow> string \<Rightarrow> bool" where
  "eq_ignore_ascii_case a b \<longleftrightarrow> to_ascii_lowercase a = to_ascii_lowercase b"

definition ascii_hexdigit :: "char \<Rightarrow> bool" where
  "ascii_hexdigit c \<longleftrightarrow> c \<in> set ''0123456789abcdefABCDEF''"

definition is_hex :: "nat \<Rightarrow> string \<Rightarrow> bool" where
  "is_hex n s \<longleftrightarrow> length s = n \<and> list_all ascii_hexdigit s"

definition is_lower_hex :: "nat \<Rightarrow> string \<Rightarrow> bool" where
  "is_lower_hex n s \<longleftrightarrow> is_hex n s \<and> s = to_ascii_lowercase s"

text \<open>\<open>haystack.contains(needle)\<close> on bytes.\<close>

fun str_contains :: "string \<Rightarrow> string \<Rightarrow> bool" where
  "str_contains [] n \<longleftrightarrow> n = []"
| "str_contains (c # cs) n \<longleftrightarrow> prefix n (c # cs) \<or> str_contains cs n"

lemma str_contains_iff: "str_contains h n \<longleftrightarrow> (\<exists>a b. h = a @ n @ b)"
proof (induction h)
  case Nil
  then show ?case by auto
next
  case (Cons c cs)
  show ?case
  proof
    assume "str_contains (c # cs) n"
    then consider "prefix n (c # cs)" | "str_contains cs n" by auto
    then show "\<exists>a b. c # cs = a @ n @ b"
    proof cases
      case 1
      then obtain b where "c # cs = [] @ n @ b" by (auto simp: prefix_def)
      then show ?thesis by blast
    next
      case 2
      then obtain a b where "cs = a @ n @ b" using Cons by blast
      then have "c # cs = (c # a) @ n @ b" by simp
      then show ?thesis by blast
    qed
  next
    assume "\<exists>a b. c # cs = a @ n @ b"
    then obtain a b where ab: "c # cs = a @ n @ b" by blast
    show "str_contains (c # cs) n"
    proof (cases a)
      case Nil
      then have "prefix n (c # cs)" using ab by (simp add: prefix_def)
      then show ?thesis by simp
    next
      case (Cons x xs)
      then show ?thesis using ab Cons.IH by auto
    qed
  qed
qed

definition starts_with :: "string \<Rightarrow> string \<Rightarrow> bool" where
  "starts_with s p \<longleftrightarrow> take (length p) s = p"

definition ends_with :: "string \<Rightarrow> string \<Rightarrow> bool" where
  "ends_with s p \<longleftrightarrow> take (length p) (rev s) = rev p"

lemma starts_with_iff: "starts_with s p \<longleftrightarrow> (\<exists>r. s = p @ r)"
  unfolding starts_with_def by (metis append_eq_conv_conj append_take_drop_id)

lemma ends_with_iff: "ends_with s p \<longleftrightarrow> (\<exists>r. s = r @ p)"
proof -
  have "ends_with s p \<longleftrightarrow> (\<exists>r. rev s = rev p @ r)"
    unfolding ends_with_def by (metis append_eq_conv_conj append_take_drop_id length_rev)
  also have "\<dots> \<longleftrightarrow> (\<exists>r. s = r @ p)"
    by (metis rev_append rev_rev_ident)
  finally show ?thesis .
qed

definition strip_prefix :: "string \<Rightarrow> string \<Rightarrow> string option" where
  "strip_prefix p s = (if starts_with s p then Some (drop (length p) s) else None)"

lemma strip_prefix_append [simp]: "strip_prefix p (p @ r) = Some r"
  by (simp add: strip_prefix_def starts_with_def)

text \<open>\<open>split_once\<close> and \<open>split\<close> at a one-byte separator.\<close>

fun split_once :: "char \<Rightarrow> string \<Rightarrow> (string \<times> string) option" where
  "split_once d [] = None"
| "split_once d (c # cs) =
     (if c = d then Some ([], cs)
      else (case split_once d cs of None \<Rightarrow> None | Some (a, b) \<Rightarrow> Some (c # a, b)))"

lemma split_once_append [simp]: "d \<notin> set a \<Longrightarrow> split_once d (a @ d # b) = Some (a, b)"
  by (induction a) auto

lemma split_once_SomeD:
  "split_once d s = Some (a, b) \<Longrightarrow> s = a @ d # b \<and> d \<notin> set a"
  by (induction d s arbitrary: a b rule: split_once.induct)
     (auto split: if_splits option.splits)

fun split_by :: "(char \<Rightarrow> bool) \<Rightarrow> string \<Rightarrow> string list" where
  "split_by p [] = [[]]"
| "split_by p (c # cs) =
     (if p c then [] # split_by p cs
      else (case split_by p cs of [] \<Rightarrow> [[c]] | w # ws \<Rightarrow> (c # w) # ws))"

lemma split_by_nonempty [simp]: "split_by p s \<noteq> []"
  by (cases s) (auto split: list.splits)

text \<open>Decimal display of an unsigned integer.\<close>

fun decimal :: "nat \<Rightarrow> string" where
  "decimal n =
     (if n < 10 then [''0123456789'' ! n] else decimal (n div 10) @ [''0123456789'' ! (n mod 10)])"

declare decimal.simps [simp del]

text \<open>\<open>Path::is_absolute\<close> on the Unix targets.\<close>

definition is_absolute :: "string \<Rightarrow> bool" where
  "is_absolute p \<longleftrightarrow> starts_with p ''/''"

section \<open>Integers at their width\<close>

definition i64_max :: int where "i64_max = 2 ^ 63 - 1"
definition i64_min :: int where "i64_min = - (2 ^ 63)"
definition u64_max :: nat where "u64_max = 2 ^ 64 - 1"
definition u32_max :: nat where "u32_max = 2 ^ 32 - 1"
definition i32_max :: int where "i32_max = 2 ^ 31 - 1"
definition i32_min :: int where "i32_min = - (2 ^ 31)"

definition i64_saturate :: "int \<Rightarrow> int" where
  "i64_saturate x = max i64_min (min i64_max x)"

definition saturating_sub :: "int \<Rightarrow> int \<Rightarrow> int" where
  "saturating_sub a b = i64_saturate (a - b)"

definition saturating_add :: "int \<Rightarrow> int \<Rightarrow> int" where
  "saturating_add a b = i64_saturate (a + b)"

text \<open>
  Unchecked \<open>+\<close> and \<open>-\<close> panic in the \<open>dev\<close> profile when the result leaves the type (the
  workspace sets no \<open>overflow-checks\<close> for \<open>release\<close>): an operation that can do so returns
  \<open>None\<close> for the panic.
\<close>

definition checked_u64_add :: "nat \<Rightarrow> nat \<Rightarrow> nat option" where
  "checked_u64_add a b = (if a + b \<le> u64_max then Some (a + b) else None)"

definition checked_u32_add :: "nat \<Rightarrow> nat \<Rightarrow> nat option" where
  "checked_u32_add a b = (if a + b \<le> u32_max then Some (a + b) else None)"

definition checked_i32_sub :: "int \<Rightarrow> int \<Rightarrow> int option" where
  "checked_i32_sub a b = (if i32_min \<le> a - b \<and> a - b \<le> i32_max then Some (a - b) else None)"

lemma saturating_sub_exact:
  "i64_min \<le> a - b \<Longrightarrow> a - b \<le> i64_max \<Longrightarrow> saturating_sub a b = a - b"
  by (simp add: saturating_sub_def i64_saturate_def)

lemma saturating_sub_mono: "a \<le> a' \<Longrightarrow> saturating_sub a b \<le> saturating_sub a' b"
  by (simp add: saturating_sub_def i64_saturate_def)

section \<open>Ordered maps\<close>

text \<open>
  \<open>BTreeMap<K, V>\<close> as the list of its entries in key order, which is also its iteration order;
  \<open>get\<close> is \<open>map_of\<close>.
\<close>

fun btree_insert :: "'k::linorder \<Rightarrow> 'v \<Rightarrow> ('k \<times> 'v) list \<Rightarrow> ('k \<times> 'v) list" where
  "btree_insert k v [] = [(k, v)]"
| "btree_insert k v ((k', v') # m) =
     (if k < k' then (k, v) # (k', v') # m
      else if k = k' then (k, v) # m
      else (k', v') # btree_insert k v m)"

definition btree_inv :: "('k::linorder \<times> 'v) list \<Rightarrow> bool" where
  "btree_inv m \<longleftrightarrow> sorted_wrt (<) (map fst m)"

lemma btree_insert_keys [simp]: "fst ` set (btree_insert k v m) = insert k (fst ` set m)"
  by (induction m rule: btree_insert.induct) auto

lemma btree_inv_Nil [simp]: "btree_inv []"
  by (simp add: btree_inv_def)

lemma btree_inv_Cons: "btree_inv ((k, v) # m) \<longleftrightarrow> (\<forall>k' \<in> fst ` set m. k < k') \<and> btree_inv m"
  by (auto simp: btree_inv_def)

lemma btree_insert_inv [simp]: "btree_inv m \<Longrightarrow> btree_inv (btree_insert k v m)"
proof (induction k v m rule: btree_insert.induct)
  case (1 k v)
  then show ?case by (simp add: btree_inv_Cons)
next
  case (2 k v k' v' m)
  consider "k < k'" | "k = k'" | "k' < k" by (rule linorder_cases)
  then show ?case
  proof cases
    case 1
    with "2.prems" show ?thesis by (auto simp: btree_inv_Cons dest: less_trans)
  next
    case 2
    with "2.prems" show ?thesis by (simp add: btree_inv_Cons)
  next
    case 3
    with 2 have "btree_inv (btree_insert k v m)"
      by (simp add: btree_inv_Cons)
    with 3 "2.prems" show ?thesis
      by (auto simp: btree_inv_Cons)
  qed
qed

lemma btree_get_insert [simp]: "map_of (btree_insert k v m) = (map_of m)(k \<mapsto> v)"
  by (induction k v m rule: btree_insert.induct) auto

lemma btree_distinct: "btree_inv m \<Longrightarrow> distinct (map fst m)"
  by (auto simp: btree_inv_def strict_sorted_iff)

lemma btree_entries: "btree_inv m \<Longrightarrow> (k, v) \<in> set m \<longleftrightarrow> map_of m k = Some v"
  using btree_distinct [of m] by auto

lemma btree_values_ex:
  "btree_inv m \<Longrightarrow> list_ex (\<lambda>(_, v). P v) m \<longleftrightarrow> (\<exists>k v. map_of m k = Some v \<and> P v)"
  by (auto simp: list_ex_iff btree_entries [symmetric] simp del: map_of_eq_Some_iff)

text \<open>Two maps with the same lookups are the same map: the list form is canonical.\<close>

lemma btree_ext:
  "btree_inv m \<Longrightarrow> btree_inv n \<Longrightarrow> map_of m = map_of n \<Longrightarrow> m = n"
proof -
  assume m: "btree_inv m" and n: "btree_inv n" and eq: "map_of m = map_of n"
  have set: "set m = set n"
    using btree_entries [OF m] btree_entries [OF n] eq by auto
  have "sorted (map fst m)" "distinct (map fst m)" "sorted (map fst n)" "distinct (map fst n)"
    using m n by (auto simp: btree_inv_def strict_sorted_iff)
  then have "map fst m = map fst n"
    using set sorted_distinct_set_unique [of "map fst m" "map fst n"] by simp
  moreover have "inj_on fst (set m \<union> set n)"
    using \<open>distinct (map fst m)\<close> set by (simp add: distinct_map)
  ultimately show "m = n"
    by (rule map_inj_on)
qed

text \<open>\<open>if let Some(v) = map.get_mut(k) { *v = f(v) }\<close>.\<close>

definition btree_modify :: "'k \<Rightarrow> ('v \<Rightarrow> 'v) \<Rightarrow> ('k \<times> 'v) list \<Rightarrow> ('k \<times> 'v) list" where
  "btree_modify k f m = map (\<lambda>(k', v). (k', if k' = k then f v else v)) m"

lemma btree_modify_keys [simp]: "map fst (btree_modify k f m) = map fst m"
  by (auto simp: btree_modify_def)

lemma btree_modify_inv [simp]: "btree_inv (btree_modify k f m) \<longleftrightarrow> btree_inv m"
  by (simp add: btree_inv_def)

lemma btree_get_modify [simp]:
  "map_of (btree_modify k f m) k' = (if k' = k then map_option f (map_of m k) else map_of m k')"
  by (induction m) (auto simp: btree_modify_def)

text \<open>
  The interface the components use of an ordered map: what a lookup returns after an insert and
  that iteration visits exactly the stored entries.
\<close>

locale keyed_store =
  fixes empty :: "'m"
    and get :: "'m \<Rightarrow> 'k \<Rightarrow> 'v option"
    and put :: "'k \<Rightarrow> 'v \<Rightarrow> 'm \<Rightarrow> 'm"
    and entries :: "'m \<Rightarrow> ('k \<times> 'v) list"
    and invar :: "'m \<Rightarrow> bool"
  assumes get_empty: "get empty k = None"
    and get_put: "invar m \<Longrightarrow> get (put k v m) k' = (if k' = k then Some v else get m k')"
    and entries_get: "invar m \<Longrightarrow> (k, v) \<in> set (entries m) \<longleftrightarrow> get m k = Some v"
    and invar_empty: "invar empty"
    and invar_put: "invar m \<Longrightarrow> invar (put k v m)"
begin

lemma values_put:
  assumes "invar m" and "(k', w) \<in> set (entries (put k v m))"
  shows "k' = k \<and> w = v \<or> k' \<noteq> k \<and> (k', w) \<in> set (entries m)"
  using assms by (auto simp: entries_get invar_put get_put split: if_splits)

lemma put_values_preserve:
  assumes "invar m" and "P k v" and "\<And>k' w. get m k' = Some w \<Longrightarrow> P k' w"
    and "get (put k v m) k' = Some w"
  shows "P k' w"
  using assms by (auto simp: get_put split: if_splits)

lemma get_put_fresh:
  assumes "invar m" and "get m k = None" and "get m k' = Some w"
  shows "get (put k v m) k' = Some w"
  using assms by (auto simp: get_put)

end

interpretation btree: keyed_store
  "[] :: ('k::linorder \<times> 'v) list" map_of btree_insert "\<lambda>m. m" btree_inv
  by unfold_locales (auto simp: btree_entries simp del: map_of_eq_Some_iff)

section \<open>Fail-stop transition systems\<close>

text \<open>
  The typed state machines of the coordination crate share one contract: a transition either
  yields the next state or an error, and terminal states refuse every event.  The lemmas about
  runs are proved once here and interpreted for each machine.
\<close>

fun run_events :: "('s \<Rightarrow> 'e \<Rightarrow> 'x + 's) \<Rightarrow> 's \<Rightarrow> 'e list \<Rightarrow> 'x + 's" where
  "run_events step s [] = Ok s"
| "run_events step s (e # es) =
     (case step s e of Inl x \<Rightarrow> Err x | Inr t \<Rightarrow> run_events step t es)"

lemma run_events_Cons_ok:
  "run_events step s (e # es) = Inr u \<longleftrightarrow> (\<exists>t. step s e = Inr t \<and> run_events step t es = Inr u)"
  by (auto split: sum.splits)

lemma run_events_append:
  "run_events step s (es @ fs) =
     (case run_events step s es of Inl x \<Rightarrow> Inl x | Inr t \<Rightarrow> run_events step t fs)"
  by (induction es arbitrary: s) (auto split: sum.splits)

lemma run_events_snoc:
  "run_events step s (es @ [e]) = Inr u \<longleftrightarrow>
     (\<exists>t. run_events step s es = Inr t \<and> step t e = Inr u)"
  by (auto simp: run_events_append split: sum.splits)

lemma run_events_invariant:
  assumes "run_events step s es = Inr t" and "I s"
    and "\<And>s e t. I s \<Longrightarrow> step s e = Inr t \<Longrightarrow> I t"
  shows "I t"
  using assms(1,2)
  by (induction es arbitrary: s) (auto split: sum.splits intro: assms(3))

text \<open>
  A path requirement: every run into a state carries, in order, the events that \<open>need\<close> lists for
  it, provided each single transition extends the list its source already carries.
\<close>

lemma run_events_subseq:
  assumes "\<And>s e t. step s e = Inr t \<Longrightarrow> subseq (need t) (need s @ [e])"
    and "run_events step s es = Inr t" and "need s = []"
  shows "subseq (need t) es"
  using assms(2)
proof (induction es arbitrary: t rule: rev_induct)
  case Nil
  then show ?case using assms(3) by simp
next
  case (snoc e es)
  then obtain u where "run_events step s es = Inr u" "step u e = Inr t"
    by (auto simp: run_events_snoc)
  then have "subseq (need u) es" "subseq (need t) (need u @ [e])"
    using snoc.IH assms(1) by auto
  then show ?case
    by (meson list_emb_append_mono subseq_order.dual_order.trans subseq_order.order_refl)
qed

locale lifecycle =
  fixes step :: "'s \<Rightarrow> 'e \<Rightarrow> 'x + 's"
    and terminal :: "'s \<Rightarrow> bool"
  assumes terminal_stops: "terminal s \<Longrightarrow> step s e \<noteq> Inr t"
    and progress: "\<not> terminal s \<Longrightarrow> \<exists>e t. step s e = Inr t"
begin

lemma terminal_run:
  assumes "terminal s" and "run_events step s es = Inr t"
  shows "es = [] \<and> t = s"
  using assms by (cases es) (auto split: sum.splits dest: terminal_stops)

lemma terminal_iff: "terminal s \<longleftrightarrow> (\<forall>e t. step s e \<noteq> Inr t)"
  using terminal_stops progress by metis

end

text \<open>An acyclic machine also has a rank that every transition increases, which bounds all runs.\<close>

locale ranked_lifecycle = lifecycle +
  fixes rank :: "'a \<Rightarrow> nat" and bound :: nat
  assumes rank_step: "step s e = Inr t \<Longrightarrow> rank s < rank t"
    and rank_bound: "rank s \<le> bound"
begin

lemma run_rank: "run_events step s es = Inr t \<Longrightarrow> rank s + length es \<le> rank t"
proof (induction es arbitrary: s)
  case Nil
  then show ?case by simp
next
  case (Cons e es)
  then obtain u where "step s e = Inr u" "run_events step u es = Inr t"
    by (auto split: sum.splits)
  then show ?case using Cons.IH rank_step [of s e u] by fastforce
qed

lemma run_length_bound:
  assumes "run_events step s es = Inr t"
  shows "length es \<le> bound - rank s"
  using run_rank [OF assms] rank_bound [of t] by simp

end

end
