(* ===== verification/Roles.thy ===== *)
theory Roles
  imports Prelude
begin

text \<open>
  Roles, actions and the capability boundary of \<open>ascodex-coordination/src/lib.rs\<close>: the enums
  \<open>Role\<close>, \<open>Action\<close> and \<open>CoordinationError\<close>, the solver-profile role names, and
  \<open>authorize_action\<close>.
\<close>

definition SCHEMA_VERSION :: string where
  "SCHEMA_VERSION = ''ascodex-coordination/v1''"

datatype Role = Chief | Solver | Monitor | Intel | JudgeAnalyst | RedTeam

datatype Action = ReadEvidence | Decide | SpawnChild | RunLocalSmoke | WriteWorkspace
  | RequestSubmission | SubmitAttempt | MonitorReadOnly | TransitionAgent

datatype CoordinationError =
    Unauthorized Role Action
  | InvalidExperiment string
  | InvalidReport string
  | InvalidDecision string

definition is_read_only :: "Role \<Rightarrow> bool" where
  "is_read_only r \<longleftrightarrow> r \<in> set [Monitor, Intel, JudgeAnalyst, RedTeam]"

definition approved_solver_role_name :: "Role \<Rightarrow> string option" where
  "approved_solver_role_name r =
     (case r of
        Solver \<Rightarrow> Some ''bohrium-solver''
      | Intel \<Rightarrow> Some ''bohrium-intel''
      | JudgeAnalyst \<Rightarrow> Some ''bohrium-judge-analyst''
      | RedTeam \<Rightarrow> Some ''bohrium-red-team''
      | Monitor \<Rightarrow> Some ''bohrium-monitor''
      | Chief \<Rightarrow> None)"

definition role_from_solver_role_name :: "string \<Rightarrow> Role option" where
  "role_from_solver_role_name s =
     (if s = ''bohrium-solver'' then Some Solver
      else if s = ''bohrium-intel'' then Some Intel
      else if s = ''bohrium-judge-analyst'' then Some JudgeAnalyst
      else if s = ''bohrium-red-team'' then Some RedTeam
      else if s = ''bohrium-monitor'' then Some Monitor
      else None)"

definition is_approved_solver_role :: "string \<Rightarrow> bool" where
  "is_approved_solver_role s \<longleftrightarrow>
     s \<in> set [''bohrium-solver'', ''bohrium-intel'', ''bohrium-judge-analyst'',
               ''bohrium-red-team'', ''bohrium-monitor'']"

definition authorize_action :: "Role \<Rightarrow> Action \<Rightarrow> CoordinationError + unit" where
  "authorize_action r a =
     (let allowed =
        (case r of
           Chief \<Rightarrow> a \<in> set [ReadEvidence, Decide, SpawnChild, TransitionAgent]
         | Solver \<Rightarrow> a \<in> set [ReadEvidence, RunLocalSmoke, WriteWorkspace, RequestSubmission,
                                TransitionAgent]
         | _ \<Rightarrow> a \<in> set [ReadEvidence, MonitorReadOnly])
      in if allowed then Ok () else Err (Unauthorized r a))"

section \<open>Lemmas\<close>

lemma authorize_ok:
  "authorize_action r a = Ok () \<longleftrightarrow>
     a = ReadEvidence
     \<or> r = Chief \<and> (a = Decide \<or> a = SpawnChild \<or> a = TransitionAgent)
     \<or> r = Solver \<and> (a = RunLocalSmoke \<or> a = WriteWorkspace \<or> a = RequestSubmission \<or> a = TransitionAgent)
     \<or> is_read_only r \<and> a = MonitorReadOnly"
  by (cases r; cases a) (auto simp: authorize_action_def is_read_only_def)

lemma authorize_decide [simp]: "authorize_action r Decide = Ok () \<longleftrightarrow> r = Chief"
  by (simp add: authorize_ok)

lemma authorize_transition_agent [simp]:
  "authorize_action r TransitionAgent = Ok () \<longleftrightarrow> r = Chief \<or> r = Solver"
  by (auto simp: authorize_ok)

lemma authorize_err: "authorize_action r a = Err e \<Longrightarrow> e = Unauthorized r a"
  by (auto simp: authorize_action_def Let_def split: if_splits)

section \<open>Properties\<close>

text \<open>
  The capability boundary is fail-closed: no role is ever authorised to submit an attempt;
  a read-only role is authorised for nothing but reading evidence and read-only monitoring; the
  chief is never authorised for solver work (local runs, workspace writes, submission requests);
  and deciding and spawning are the chief's alone.
\<close>

theorem capability_boundary:
  assumes "authorize_action r a = Ok ()"
  shows "a \<noteq> SubmitAttempt
    \<and> (is_read_only r \<longrightarrow> a = ReadEvidence \<or> a = MonitorReadOnly)
    \<and> (r = Chief \<longrightarrow> a \<notin> {RunLocalSmoke, WriteWorkspace, RequestSubmission})
    \<and> (a \<in> {Decide, SpawnChild} \<longrightarrow> r = Chief)"
  using assms by (auto simp: authorize_ok is_read_only_def)

theorem capability_boundary_witness:
  "authorize_action Monitor MonitorReadOnly = Ok () \<and> is_read_only Monitor
   \<and> MonitorReadOnly \<noteq> SubmitAttempt"
proof -
  have "authorize_action Monitor MonitorReadOnly = Ok ()"
    by (simp add: authorize_action_def)
  from capability_boundary [OF this] this show ?thesis
    by (simp add: is_read_only_def)
qed

text \<open>
  The three role-name functions describe one bijection: parsing a name is the inverse of
  printing a role, a name is approved exactly when it parses, and the chief has no solver name.
\<close>

lemma solver_role_names_agree:
  "(role_from_solver_role_name s = Some r \<longleftrightarrow> approved_solver_role_name r = Some s)
   \<and> (is_approved_solver_role s \<longleftrightarrow> role_from_solver_role_name s \<noteq> None)
   \<and> role_from_solver_role_name s \<noteq> Some Chief"
  by (cases r)
     (auto simp: role_from_solver_role_name_def approved_solver_role_name_def
                 is_approved_solver_role_def)

end
