(* ===== verification/Lifecycles.thy ===== *)
theory Lifecycles
  imports Roles
begin

text \<open>
  The typed state machines of \<open>ascodex-coordination/src/lib.rs\<close>: campaigns, agents, attempts and
  message receipts.  Each \<open>transition\<close> is one definition over the source's enums; the locales
  \<open>lifecycle\<close> and \<open>ranked_lifecycle\<close> are interpreted on them.
\<close>

section \<open>Campaigns\<close>

datatype CampaignState = New | Intake | Oriented | Planned | Executing | EvidenceReady | Preflight
  | Submitting | AwaitingScore | Observed | ScoreVerified | ClosureReview | Replan | Closed | Aborted

datatype CampaignEvent = IntakeAccepted | VerifierFrozen | PlanApproved | ExecutionStarted
  | EvidenceReady | PreflightPassed | TransportAccepted | SubmissionDispatched | ScoreObserved
  | ScoreVerified | ReplanRequired | ClosureReviewStarted | ClosureApproved | Abort

text \<open>The derived \<open>Debug\<close> names, which the coordinator stores in its event log.\<close>

definition campaign_event_debug :: "CampaignEvent \<Rightarrow> string" where
  "campaign_event_debug e =
     (case e of
        CampaignEvent.IntakeAccepted \<Rightarrow> ''IntakeAccepted''
      | CampaignEvent.VerifierFrozen \<Rightarrow> ''VerifierFrozen''
      | CampaignEvent.PlanApproved \<Rightarrow> ''PlanApproved''
      | CampaignEvent.ExecutionStarted \<Rightarrow> ''ExecutionStarted''
      | CampaignEvent.EvidenceReady \<Rightarrow> ''EvidenceReady''
      | CampaignEvent.PreflightPassed \<Rightarrow> ''PreflightPassed''
      | CampaignEvent.TransportAccepted \<Rightarrow> ''TransportAccepted''
      | CampaignEvent.SubmissionDispatched \<Rightarrow> ''SubmissionDispatched''
      | CampaignEvent.ScoreObserved \<Rightarrow> ''ScoreObserved''
      | CampaignEvent.ScoreVerified \<Rightarrow> ''ScoreVerified''
      | CampaignEvent.ReplanRequired \<Rightarrow> ''ReplanRequired''
      | CampaignEvent.ClosureReviewStarted \<Rightarrow> ''ClosureReviewStarted''
      | CampaignEvent.ClosureApproved \<Rightarrow> ''ClosureApproved''
      | CampaignEvent.Abort \<Rightarrow> ''Abort'')"

definition campaign_state_debug :: "CampaignState \<Rightarrow> string" where
  "campaign_state_debug s =
     (case s of
        CampaignState.New \<Rightarrow> ''New''
      | CampaignState.Intake \<Rightarrow> ''Intake''
      | CampaignState.Oriented \<Rightarrow> ''Oriented''
      | CampaignState.Planned \<Rightarrow> ''Planned''
      | CampaignState.Executing \<Rightarrow> ''Executing''
      | CampaignState.EvidenceReady \<Rightarrow> ''EvidenceReady''
      | CampaignState.Preflight \<Rightarrow> ''Preflight''
      | CampaignState.Submitting \<Rightarrow> ''Submitting''
      | CampaignState.AwaitingScore \<Rightarrow> ''AwaitingScore''
      | CampaignState.Observed \<Rightarrow> ''Observed''
      | CampaignState.ScoreVerified \<Rightarrow> ''ScoreVerified''
      | CampaignState.ClosureReview \<Rightarrow> ''ClosureReview''
      | CampaignState.Replan \<Rightarrow> ''Replan''
      | CampaignState.Closed \<Rightarrow> ''Closed''
      | CampaignState.Aborted \<Rightarrow> ''Aborted'')"

definition campaign_event_from_debug :: "string \<Rightarrow> CampaignEvent option" where
  "campaign_event_from_debug l =
     (if l = ''IntakeAccepted'' then Some CampaignEvent.IntakeAccepted
      else if l = ''VerifierFrozen'' then Some CampaignEvent.VerifierFrozen
      else if l = ''PlanApproved'' then Some CampaignEvent.PlanApproved
      else if l = ''ExecutionStarted'' then Some CampaignEvent.ExecutionStarted
      else if l = ''EvidenceReady'' then Some CampaignEvent.EvidenceReady
      else if l = ''PreflightPassed'' then Some CampaignEvent.PreflightPassed
      else if l = ''TransportAccepted'' then Some CampaignEvent.TransportAccepted
      else if l = ''SubmissionDispatched'' then Some CampaignEvent.SubmissionDispatched
      else if l = ''ScoreObserved'' then Some CampaignEvent.ScoreObserved
      else if l = ''ScoreVerified'' then Some CampaignEvent.ScoreVerified
      else if l = ''ReplanRequired'' then Some CampaignEvent.ReplanRequired
      else if l = ''ClosureReviewStarted'' then Some CampaignEvent.ClosureReviewStarted
      else if l = ''ClosureApproved'' then Some CampaignEvent.ClosureApproved
      else if l = ''Abort'' then Some CampaignEvent.Abort
      else None)"

lemma campaign_event_debug_roundtrip [simp]:
  "campaign_event_from_debug (campaign_event_debug e) = Some e"
  by (cases e) (simp_all add: campaign_event_debug_def campaign_event_from_debug_def)

definition campaign_transition ::
  "CampaignState \<Rightarrow> CampaignEvent \<Rightarrow> CoordinationError + CampaignState" where
  "campaign_transition s e =
     (case (s, e) of
        (CampaignState.New, CampaignEvent.IntakeAccepted) \<Rightarrow> Ok CampaignState.Intake
      | (CampaignState.Intake, CampaignEvent.VerifierFrozen) \<Rightarrow> Ok CampaignState.Oriented
      | (CampaignState.Oriented, CampaignEvent.PlanApproved) \<Rightarrow> Ok CampaignState.Planned
      | (CampaignState.Planned, CampaignEvent.ExecutionStarted) \<Rightarrow> Ok CampaignState.Executing
      | (CampaignState.Executing, CampaignEvent.EvidenceReady) \<Rightarrow> Ok CampaignState.EvidenceReady
      | (CampaignState.EvidenceReady, CampaignEvent.PreflightPassed) \<Rightarrow> Ok CampaignState.Preflight
      | (CampaignState.Preflight, CampaignEvent.TransportAccepted) \<Rightarrow> Ok CampaignState.Submitting
      | (CampaignState.Submitting, CampaignEvent.SubmissionDispatched) \<Rightarrow> Ok CampaignState.AwaitingScore
      | (CampaignState.AwaitingScore, CampaignEvent.ScoreObserved) \<Rightarrow> Ok CampaignState.Observed
      | (CampaignState.Observed, CampaignEvent.ScoreVerified) \<Rightarrow> Ok CampaignState.ScoreVerified
      | (CampaignState.Observed, CampaignEvent.ReplanRequired) \<Rightarrow> Ok CampaignState.Replan
      | (CampaignState.ScoreVerified, CampaignEvent.ReplanRequired) \<Rightarrow> Ok CampaignState.Replan
      | (CampaignState.Replan, CampaignEvent.PlanApproved) \<Rightarrow> Ok CampaignState.Planned
      | (CampaignState.ScoreVerified, CampaignEvent.ClosureReviewStarted) \<Rightarrow> Ok CampaignState.ClosureReview
      | (CampaignState.ClosureReview, CampaignEvent.ClosureApproved) \<Rightarrow> Ok CampaignState.Closed
      | _ \<Rightarrow>
          if e = CampaignEvent.Abort \<and> s \<in> set
               [CampaignState.New, CampaignState.Intake, CampaignState.Oriented, CampaignState.Planned,
                CampaignState.Executing, CampaignState.EvidenceReady, CampaignState.Preflight,
                CampaignState.Submitting, CampaignState.AwaitingScore, CampaignState.Observed,
                CampaignState.ScoreVerified, CampaignState.ClosureReview, CampaignState.Replan]
          then Ok CampaignState.Aborted
          else Err (InvalidDecision (''illegal campaign transition: '' @ campaign_state_debug s
                 @ '' + '' @ campaign_event_debug e)))"

definition campaign_terminal :: "CampaignState \<Rightarrow> bool" where
  "campaign_terminal s \<longleftrightarrow> s = CampaignState.Closed \<or> s = CampaignState.Aborted"

interpretation campaign: lifecycle campaign_transition campaign_terminal
proof unfold_locales
  fix s e t
  assume "campaign_terminal s"
  then show "campaign_transition s e \<noteq> Inr t"
    by (cases e) (auto simp: campaign_terminal_def campaign_transition_def)
next
  fix s
  assume "\<not> campaign_terminal s"
  then have "campaign_transition s CampaignEvent.Abort = Inr CampaignState.Aborted"
    by (cases s) (auto simp: campaign_terminal_def campaign_transition_def)
  then show "\<exists>e t. campaign_transition s e = Inr t" by blast
qed

text \<open>The events every run into a campaign state must carry, in order.\<close>

definition campaign_need :: "CampaignState \<Rightarrow> CampaignEvent list" where
  "campaign_need s =
     (let path = [CampaignEvent.IntakeAccepted, CampaignEvent.VerifierFrozen,
        CampaignEvent.PlanApproved, CampaignEvent.ExecutionStarted, CampaignEvent.EvidenceReady,
        CampaignEvent.PreflightPassed, CampaignEvent.TransportAccepted,
        CampaignEvent.SubmissionDispatched, CampaignEvent.ScoreObserved,
        CampaignEvent.ScoreVerified, CampaignEvent.ClosureReviewStarted,
        CampaignEvent.ClosureApproved]
      in case s of
        CampaignState.New \<Rightarrow> []
      | CampaignState.Intake \<Rightarrow> take 1 path
      | CampaignState.Oriented \<Rightarrow> take 2 path
      | CampaignState.Planned \<Rightarrow> take 3 path
      | CampaignState.Executing \<Rightarrow> take 4 path
      | CampaignState.EvidenceReady \<Rightarrow> take 5 path
      | CampaignState.Preflight \<Rightarrow> take 6 path
      | CampaignState.Submitting \<Rightarrow> take 7 path
      | CampaignState.AwaitingScore \<Rightarrow> take 8 path
      | CampaignState.Observed \<Rightarrow> take 9 path
      | CampaignState.ScoreVerified \<Rightarrow> take 10 path
      | CampaignState.ClosureReview \<Rightarrow> take 11 path
      | CampaignState.Closed \<Rightarrow> path
      | CampaignState.Replan \<Rightarrow> take 9 path @ [CampaignEvent.ReplanRequired]
      | CampaignState.Aborted \<Rightarrow> [CampaignEvent.Abort])"

lemma campaign_need_step:
  "campaign_transition s e = Inr t \<Longrightarrow> subseq (campaign_need t) (campaign_need s @ [e])"
  by (cases s; cases e) (auto simp: campaign_transition_def campaign_need_def)

section \<open>Agents\<close>

datatype AgentState = Registered | Briefed | Active | WaitingInput | WaitingScore | HandoffPending
  | EndProposed | EndAccepted | Suspended | Crashed | Recovering | Aborted

datatype AgentEvent = Brief | Activate | WaitInput | WaitScore | RequestHandoff | ProposeEnd
  | AcceptEnd | Suspend | Crash | Recover | Abort

definition agent_event_debug :: "AgentEvent \<Rightarrow> string" where
  "agent_event_debug e =
     (case e of
        AgentEvent.Brief \<Rightarrow> ''Brief''
      | AgentEvent.Activate \<Rightarrow> ''Activate''
      | AgentEvent.WaitInput \<Rightarrow> ''WaitInput''
      | AgentEvent.WaitScore \<Rightarrow> ''WaitScore''
      | AgentEvent.RequestHandoff \<Rightarrow> ''RequestHandoff''
      | AgentEvent.ProposeEnd \<Rightarrow> ''ProposeEnd''
      | AgentEvent.AcceptEnd \<Rightarrow> ''AcceptEnd''
      | AgentEvent.Suspend \<Rightarrow> ''Suspend''
      | AgentEvent.Crash \<Rightarrow> ''Crash''
      | AgentEvent.Recover \<Rightarrow> ''Recover''
      | AgentEvent.Abort \<Rightarrow> ''Abort'')"

definition agent_state_debug :: "AgentState \<Rightarrow> string" where
  "agent_state_debug s =
     (case s of
        AgentState.Registered \<Rightarrow> ''Registered''
      | AgentState.Briefed \<Rightarrow> ''Briefed''
      | AgentState.Active \<Rightarrow> ''Active''
      | AgentState.WaitingInput \<Rightarrow> ''WaitingInput''
      | AgentState.WaitingScore \<Rightarrow> ''WaitingScore''
      | AgentState.HandoffPending \<Rightarrow> ''HandoffPending''
      | AgentState.EndProposed \<Rightarrow> ''EndProposed''
      | AgentState.EndAccepted \<Rightarrow> ''EndAccepted''
      | AgentState.Suspended \<Rightarrow> ''Suspended''
      | AgentState.Crashed \<Rightarrow> ''Crashed''
      | AgentState.Recovering \<Rightarrow> ''Recovering''
      | AgentState.Aborted \<Rightarrow> ''Aborted'')"

definition agent_event_from_debug :: "string \<Rightarrow> AgentEvent option" where
  "agent_event_from_debug l =
     (if l = ''Brief'' then Some AgentEvent.Brief
      else if l = ''Activate'' then Some AgentEvent.Activate
      else if l = ''WaitInput'' then Some AgentEvent.WaitInput
      else if l = ''WaitScore'' then Some AgentEvent.WaitScore
      else if l = ''RequestHandoff'' then Some AgentEvent.RequestHandoff
      else if l = ''ProposeEnd'' then Some AgentEvent.ProposeEnd
      else if l = ''AcceptEnd'' then Some AgentEvent.AcceptEnd
      else if l = ''Suspend'' then Some AgentEvent.Suspend
      else if l = ''Crash'' then Some AgentEvent.Crash
      else if l = ''Recover'' then Some AgentEvent.Recover
      else if l = ''Abort'' then Some AgentEvent.Abort
      else None)"

lemma agent_event_debug_roundtrip [simp]:
  "agent_event_from_debug (agent_event_debug e) = Some e"
  by (cases e) (simp_all add: agent_event_debug_def agent_event_from_debug_def)

definition agent_transition :: "AgentState \<Rightarrow> AgentEvent \<Rightarrow> CoordinationError + AgentState" where
  "agent_transition s e =
     (case (s, e) of
        (AgentState.Registered, AgentEvent.Brief) \<Rightarrow> Ok AgentState.Briefed
      | (AgentState.Briefed, AgentEvent.Activate) \<Rightarrow> Ok AgentState.Active
      | (AgentState.Recovering, AgentEvent.Activate) \<Rightarrow> Ok AgentState.Active
      | (AgentState.Active, AgentEvent.WaitInput) \<Rightarrow> Ok AgentState.WaitingInput
      | (AgentState.Active, AgentEvent.WaitScore) \<Rightarrow> Ok AgentState.WaitingScore
      | (AgentState.Active, AgentEvent.RequestHandoff) \<Rightarrow> Ok AgentState.HandoffPending
      | (AgentState.HandoffPending, AgentEvent.ProposeEnd) \<Rightarrow> Ok AgentState.EndProposed
      | (AgentState.EndProposed, AgentEvent.AcceptEnd) \<Rightarrow> Ok AgentState.EndAccepted
      | _ \<Rightarrow>
          if e = AgentEvent.Suspend
             \<and> s \<in> set [AgentState.Active, AgentState.WaitingInput, AgentState.WaitingScore]
          then Ok AgentState.Suspended
          else if e = AgentEvent.Crash
             \<and> s \<in> set [AgentState.Active, AgentState.WaitingInput, AgentState.WaitingScore]
          then Ok AgentState.Crashed
          else if e = AgentEvent.Recover \<and> s \<in> set [AgentState.Crashed, AgentState.Suspended]
          then Ok AgentState.Recovering
          else if e = AgentEvent.Abort \<and> s \<in> set
               [AgentState.Registered, AgentState.Briefed, AgentState.Active,
                AgentState.WaitingInput, AgentState.WaitingScore, AgentState.HandoffPending,
                AgentState.EndProposed, AgentState.Suspended, AgentState.Crashed,
                AgentState.Recovering]
          then Ok AgentState.Aborted
          else Err (InvalidDecision (''illegal agent transition: '' @ agent_state_debug s
                 @ '' + '' @ agent_event_debug e)))"

definition agent_terminal :: "AgentState \<Rightarrow> bool" where
  "agent_terminal s \<longleftrightarrow> s = AgentState.EndAccepted \<or> s = AgentState.Aborted"

interpretation agent: lifecycle agent_transition agent_terminal
proof unfold_locales
  fix s e t
  assume "agent_terminal s"
  then show "agent_transition s e \<noteq> Inr t"
    by (cases e) (auto simp: agent_terminal_def agent_transition_def)
next
  fix s
  assume "\<not> agent_terminal s"
  then have "agent_transition s AgentEvent.Abort = Inr AgentState.Aborted"
    by (cases s) (auto simp: agent_terminal_def agent_transition_def)
  then show "\<exists>e t. agent_transition s e = Inr t" by blast
qed

definition agent_need :: "AgentState \<Rightarrow> AgentEvent list" where
  "agent_need s =
     (let live = [AgentEvent.Brief, AgentEvent.Activate]
      in case s of
        AgentState.Registered \<Rightarrow> []
      | AgentState.Briefed \<Rightarrow> [AgentEvent.Brief]
      | AgentState.HandoffPending \<Rightarrow> live @ [AgentEvent.RequestHandoff]
      | AgentState.EndProposed \<Rightarrow> live @ [AgentEvent.RequestHandoff, AgentEvent.ProposeEnd]
      | AgentState.EndAccepted \<Rightarrow>
          live @ [AgentEvent.RequestHandoff, AgentEvent.ProposeEnd, AgentEvent.AcceptEnd]
      | AgentState.Aborted \<Rightarrow> [AgentEvent.Abort]
      | _ \<Rightarrow> live)"

lemma agent_need_step:
  "agent_transition s e = Inr t \<Longrightarrow> subseq (agent_need t) (agent_need s @ [e])"
  by (cases s; cases e) (auto simp: agent_transition_def agent_need_def)

section \<open>Attempts\<close>

datatype AttemptState = Candidate | Preflight | Reserved | TransportSent | PendingParse
  | ScoreObserved | PendingReview | Backfilled | LeaderboardConfirmed | OfficialConfirmed | Stuck
  | FailedRetryable | FailedTerminal | Released | Committed

datatype AttemptEvent = PreflightStarted | ReservationHeld | TransportAccepted | ParsePending
  | ScoreReceived | ReviewPending | BackfillReceived | LeaderboardSeen | OfficialConfirm | Commit
  | Release | RetryableFailure | TerminalFailure | Stuck

definition attempt_state_debug :: "AttemptState \<Rightarrow> string" where
  "attempt_state_debug s =
     (case s of
        AttemptState.Candidate \<Rightarrow> ''Candidate''
      | AttemptState.Preflight \<Rightarrow> ''Preflight''
      | AttemptState.Reserved \<Rightarrow> ''Reserved''
      | AttemptState.TransportSent \<Rightarrow> ''TransportSent''
      | AttemptState.PendingParse \<Rightarrow> ''PendingParse''
      | AttemptState.ScoreObserved \<Rightarrow> ''ScoreObserved''
      | AttemptState.PendingReview \<Rightarrow> ''PendingReview''
      | AttemptState.Backfilled \<Rightarrow> ''Backfilled''
      | AttemptState.LeaderboardConfirmed \<Rightarrow> ''LeaderboardConfirmed''
      | AttemptState.OfficialConfirmed \<Rightarrow> ''OfficialConfirmed''
      | AttemptState.Stuck \<Rightarrow> ''Stuck''
      | AttemptState.FailedRetryable \<Rightarrow> ''FailedRetryable''
      | AttemptState.FailedTerminal \<Rightarrow> ''FailedTerminal''
      | AttemptState.Released \<Rightarrow> ''Released''
      | AttemptState.Committed \<Rightarrow> ''Committed'')"

definition attempt_event_debug :: "AttemptEvent \<Rightarrow> string" where
  "attempt_event_debug e =
     (case e of
        AttemptEvent.PreflightStarted \<Rightarrow> ''PreflightStarted''
      | AttemptEvent.ReservationHeld \<Rightarrow> ''ReservationHeld''
      | AttemptEvent.TransportAccepted \<Rightarrow> ''TransportAccepted''
      | AttemptEvent.ParsePending \<Rightarrow> ''ParsePending''
      | AttemptEvent.ScoreReceived \<Rightarrow> ''ScoreReceived''
      | AttemptEvent.ReviewPending \<Rightarrow> ''ReviewPending''
      | AttemptEvent.BackfillReceived \<Rightarrow> ''BackfillReceived''
      | AttemptEvent.LeaderboardSeen \<Rightarrow> ''LeaderboardSeen''
      | AttemptEvent.OfficialConfirm \<Rightarrow> ''OfficialConfirm''
      | AttemptEvent.Commit \<Rightarrow> ''Commit''
      | AttemptEvent.Release \<Rightarrow> ''Release''
      | AttemptEvent.RetryableFailure \<Rightarrow> ''RetryableFailure''
      | AttemptEvent.TerminalFailure \<Rightarrow> ''TerminalFailure''
      | AttemptEvent.Stuck \<Rightarrow> ''Stuck'')"

definition attempt_transition ::
  "AttemptState \<Rightarrow> AttemptEvent \<Rightarrow> CoordinationError + AttemptState" where
  "attempt_transition s e =
     (let early = [AttemptState.Candidate, AttemptState.Preflight, AttemptState.Reserved];
          unscored = early @ [AttemptState.TransportSent, AttemptState.PendingParse]
      in case (s, e) of
        (AttemptState.Candidate, AttemptEvent.PreflightStarted) \<Rightarrow> Ok AttemptState.Preflight
      | (AttemptState.Preflight, AttemptEvent.ReservationHeld) \<Rightarrow> Ok AttemptState.Reserved
      | (AttemptState.Reserved, AttemptEvent.TransportAccepted) \<Rightarrow> Ok AttemptState.TransportSent
      | (AttemptState.TransportSent, AttemptEvent.ParsePending) \<Rightarrow> Ok AttemptState.PendingParse
      | (AttemptState.PendingParse, AttemptEvent.ScoreReceived) \<Rightarrow> Ok AttemptState.ScoreObserved
      | (AttemptState.ScoreObserved, AttemptEvent.ReviewPending) \<Rightarrow> Ok AttemptState.PendingReview
      | (AttemptState.PendingReview, AttemptEvent.BackfillReceived) \<Rightarrow> Ok AttemptState.Backfilled
      | (AttemptState.ScoreObserved, AttemptEvent.LeaderboardSeen) \<Rightarrow> Ok AttemptState.LeaderboardConfirmed
      | (AttemptState.Backfilled, AttemptEvent.LeaderboardSeen) \<Rightarrow> Ok AttemptState.LeaderboardConfirmed
      | (AttemptState.LeaderboardConfirmed, AttemptEvent.OfficialConfirm) \<Rightarrow> Ok AttemptState.OfficialConfirmed
      | (AttemptState.OfficialConfirmed, AttemptEvent.Commit) \<Rightarrow> Ok AttemptState.Committed
      | _ \<Rightarrow>
          if e = AttemptEvent.Release \<and> s \<in> set early then Ok AttemptState.Released
          else if e = AttemptEvent.RetryableFailure \<and> s \<in> set unscored
          then Ok AttemptState.FailedRetryable
          else if e = AttemptEvent.TerminalFailure \<and> s \<in> set unscored
          then Ok AttemptState.FailedTerminal
          else if e = AttemptEvent.Stuck
             \<and> s \<in> set (early @ [AttemptState.PendingParse, AttemptState.PendingReview])
          then Ok AttemptState.Stuck
          else Err (InvalidReport (''illegal attempt transition: '' @ attempt_state_debug s
                 @ '' + '' @ attempt_event_debug e)))"

definition attempt_terminal :: "AttemptState \<Rightarrow> bool" where
  "attempt_terminal s \<longleftrightarrow> s \<in> set [AttemptState.Committed, AttemptState.Released,
     AttemptState.FailedRetryable, AttemptState.FailedTerminal, AttemptState.Stuck]"

definition attempt_rank :: "AttemptState \<Rightarrow> nat" where
  "attempt_rank s =
     (case s of
        AttemptState.Candidate \<Rightarrow> 0 | AttemptState.Preflight \<Rightarrow> 1 | AttemptState.Reserved \<Rightarrow> 2
      | AttemptState.TransportSent \<Rightarrow> 3 | AttemptState.PendingParse \<Rightarrow> 4
      | AttemptState.ScoreObserved \<Rightarrow> 5 | AttemptState.PendingReview \<Rightarrow> 6
      | AttemptState.Backfilled \<Rightarrow> 7 | AttemptState.LeaderboardConfirmed \<Rightarrow> 8
      | AttemptState.OfficialConfirmed \<Rightarrow> 9 | _ \<Rightarrow> 10)"

interpretation attempt: ranked_lifecycle attempt_transition attempt_terminal attempt_rank 10
proof unfold_locales
  fix s e t
  assume "attempt_terminal s"
  then consider "s = AttemptState.Committed" | "s = AttemptState.Released"
    | "s = AttemptState.FailedRetryable" | "s = AttemptState.FailedTerminal" | "s = AttemptState.Stuck"
    by (auto simp: attempt_terminal_def)
  then show "attempt_transition s e \<noteq> Inr t"
    by cases (cases e; simp add: attempt_transition_def Let_def)+
next
  fix s :: AttemptState
  define es where "es = [AttemptEvent.PreflightStarted, AttemptEvent.ReservationHeld,
    AttemptEvent.TransportAccepted, AttemptEvent.ParsePending, AttemptEvent.ScoreReceived,
    AttemptEvent.LeaderboardSeen, AttemptEvent.BackfillReceived, AttemptEvent.OfficialConfirm,
    AttemptEvent.Commit]"
  assume "\<not> attempt_terminal s"
  then have "\<exists>e \<in> set es. \<exists>t. attempt_transition s e = Inr t"
    by (cases s) (auto simp: attempt_terminal_def attempt_transition_def es_def Let_def)
  then show "\<exists>e t. attempt_transition s e = Inr t" by blast
next
  fix s e t
  assume "attempt_transition s e = Inr t"
  then show "attempt_rank s < attempt_rank t"
    by (cases s; cases e) (auto simp: attempt_transition_def attempt_rank_def Let_def)
next
  fix s
  show "attempt_rank s \<le> 10"
    by (cases s) (auto simp: attempt_rank_def)
qed

definition attempt_need :: "AttemptState \<Rightarrow> AttemptEvent list" where
  "attempt_need s =
     (let path = [AttemptEvent.PreflightStarted, AttemptEvent.ReservationHeld,
        AttemptEvent.TransportAccepted, AttemptEvent.ParsePending, AttemptEvent.ScoreReceived,
        AttemptEvent.LeaderboardSeen, AttemptEvent.OfficialConfirm, AttemptEvent.Commit]
      in case s of
        AttemptState.Preflight \<Rightarrow> take 1 path
      | AttemptState.Reserved \<Rightarrow> take 2 path
      | AttemptState.TransportSent \<Rightarrow> take 3 path
      | AttemptState.PendingParse \<Rightarrow> take 4 path
      | AttemptState.ScoreObserved \<Rightarrow> take 5 path
      | AttemptState.PendingReview \<Rightarrow> take 5 path
      | AttemptState.Backfilled \<Rightarrow> take 5 path
      | AttemptState.LeaderboardConfirmed \<Rightarrow> take 6 path
      | AttemptState.OfficialConfirmed \<Rightarrow> take 7 path
      | AttemptState.Committed \<Rightarrow> path
      | _ \<Rightarrow> [])"

lemma attempt_need_step:
  "attempt_transition s e = Inr t \<Longrightarrow> subseq (attempt_need t) (attempt_need s @ [e])"
  by (cases s; cases e) (auto simp: attempt_transition_def attempt_need_def Let_def)

section \<open>Message receipts\<close>

datatype ReceiptStatus = Accepted | Delivered | Acked | Applied | Rejected | Expired

datatype ReceiptEvent = Deliver | Ack | Apply | Reject | Expire

definition receipt_status_debug :: "ReceiptStatus \<Rightarrow> string" where
  "receipt_status_debug s =
     (case s of Accepted \<Rightarrow> ''Accepted'' | Delivered \<Rightarrow> ''Delivered'' | Acked \<Rightarrow> ''Acked''
      | Applied \<Rightarrow> ''Applied'' | Rejected \<Rightarrow> ''Rejected'' | Expired \<Rightarrow> ''Expired'')"

definition receipt_event_debug :: "ReceiptEvent \<Rightarrow> string" where
  "receipt_event_debug e =
     (case e of Deliver \<Rightarrow> ''Deliver'' | Ack \<Rightarrow> ''Ack'' | Apply \<Rightarrow> ''Apply''
      | Reject \<Rightarrow> ''Reject'' | Expire \<Rightarrow> ''Expire'')"

definition receipt_transition ::
  "ReceiptStatus \<Rightarrow> ReceiptEvent \<Rightarrow> CoordinationError + ReceiptStatus" where
  "receipt_transition s e =
     (case (s, e) of
        (Accepted, Deliver) \<Rightarrow> Ok Delivered
      | (Delivered, Ack) \<Rightarrow> Ok Acked
      | (Acked, Apply) \<Rightarrow> Ok Applied
      | _ \<Rightarrow>
          if e = Reject \<and> s \<in> set [Accepted, Delivered] then Ok Rejected
          else if e = Expire \<and> s \<in> set [Accepted, Delivered] then Ok Expired
          else Err (InvalidDecision (''illegal receipt transition: '' @ receipt_status_debug s
                 @ '' + '' @ receipt_event_debug e)))"

definition receipt_terminal :: "ReceiptStatus \<Rightarrow> bool" where
  "receipt_terminal s \<longleftrightarrow> s \<in> set [Applied, Rejected, Expired]"

definition receipt_rank :: "ReceiptStatus \<Rightarrow> nat" where
  "receipt_rank s = (case s of Accepted \<Rightarrow> 0 | Delivered \<Rightarrow> 1 | Acked \<Rightarrow> 2 | _ \<Rightarrow> 3)"

interpretation receipt: ranked_lifecycle receipt_transition receipt_terminal receipt_rank 3
proof unfold_locales
  fix s e t
  assume "receipt_terminal s"
  then show "receipt_transition s e \<noteq> Inr t"
    by (cases e) (auto simp: receipt_terminal_def receipt_transition_def)
next
  fix s
  assume "\<not> receipt_terminal s"
  then have "\<exists>e \<in> {Deliver, Ack, Apply}. \<exists>t. receipt_transition s e = Inr t"
    by (cases s) (auto simp: receipt_terminal_def receipt_transition_def)
  then show "\<exists>e t. receipt_transition s e = Inr t" by blast
next
  fix s e t
  assume "receipt_transition s e = Inr t"
  then show "receipt_rank s < receipt_rank t"
    by (cases s; cases e) (auto simp: receipt_transition_def receipt_rank_def)
next
  fix s
  show "receipt_rank s \<le> 3"
    by (cases s) (auto simp: receipt_rank_def)
qed

definition receipt_path :: "ReceiptStatus \<Rightarrow> ReceiptEvent list" where
  "receipt_path s =
     (case s of Delivered \<Rightarrow> [Deliver] | Acked \<Rightarrow> [Deliver, Ack]
      | Applied \<Rightarrow> [Deliver, Ack, Apply] | _ \<Rightarrow> [])"

lemma receipt_path_step:
  "receipt_transition s e = Inr t \<Longrightarrow> t \<in> {Rejected, Expired} \<or> receipt_path t = receipt_path s @ [e]"
  by (cases s; cases e) (auto simp: receipt_transition_def receipt_path_def)

lemma receipt_path_exact:
  "run_events receipt_transition Accepted es = Inr t \<Longrightarrow>
   t \<in> {Rejected, Expired} \<or> es = receipt_path t"
proof (induction es arbitrary: t rule: rev_induct)
  case Nil
  then show ?case by (simp add: receipt_path_def)
next
  case (snoc e es)
  then obtain u where u: "run_events receipt_transition Accepted es = Inr u"
    "receipt_transition u e = Inr t"
    by (auto simp: run_events_snoc)
  then have "u \<notin> {Rejected, Expired}"
    using receipt.terminal_stops [of u e t] by (auto simp: receipt_terminal_def)
  with u snoc.IH receipt_path_step [of u e t] show ?case by auto
qed

section \<open>Properties\<close>

text \<open>
  C31. A queued or transported submission cannot be mistaken for an official score: every sequence
  of events that takes a fresh campaign to \<open>ScoreVerified\<close> contains, in this order, the intake,
  the frozen verifier, an approved plan, the execution, the evidence, the preflight, the transport
  acknowledgement, the dispatch, the score observation and the score verification; and a closed
  campaign has in addition gone through a started and an approved closure review.
\<close>

theorem campaign_score_discipline:
  assumes "run_events campaign_transition CampaignState.New es = Ok t"
    and "t = CampaignState.ScoreVerified \<or> t = CampaignState.Closed"
  shows "subseq [CampaignEvent.IntakeAccepted, CampaignEvent.VerifierFrozen,
      CampaignEvent.PlanApproved, CampaignEvent.ExecutionStarted, CampaignEvent.EvidenceReady,
      CampaignEvent.PreflightPassed, CampaignEvent.TransportAccepted,
      CampaignEvent.SubmissionDispatched, CampaignEvent.ScoreObserved,
      CampaignEvent.ScoreVerified] es
    \<and> (t = CampaignState.Closed \<longrightarrow>
        subseq [CampaignEvent.ScoreObserved, CampaignEvent.ScoreVerified,
                CampaignEvent.ClosureReviewStarted, CampaignEvent.ClosureApproved] es)"
proof -
  have need: "subseq (campaign_need t) es"
    using run_events_subseq [where need = campaign_need, OF campaign_need_step assms(1)] by (simp add: campaign_need_def)
  have sub: "subseq p es" if "subseq p (campaign_need t)" for p
    using that need by (rule subseq_order.order_trans)
  show ?thesis
    using assms(2) by (elim disjE) (auto intro!: sub simp: campaign_need_def)
qed

theorem campaign_score_discipline_witness:
  "\<exists>es. run_events campaign_transition CampaignState.New es = Ok CampaignState.Closed
     \<and> subseq [CampaignEvent.ScoreObserved, CampaignEvent.ScoreVerified,
                CampaignEvent.ClosureReviewStarted, CampaignEvent.ClosureApproved] es"
proof -
  define es where "es = campaign_need CampaignState.Closed"
  have run: "run_events campaign_transition CampaignState.New es = Ok CampaignState.Closed"
    by (simp add: es_def campaign_need_def campaign_transition_def)
  show ?thesis
    using campaign_score_discipline [OF run] run by auto
qed

text \<open>
  Closed and aborted campaigns, and ended or aborted agents, are final and nothing else is:
  a state refuses every event exactly when it is one of these, so no replayed event reopens a
  finished campaign or agent; and an agent's end is accepted only after it was briefed, activated,
  handed off and had proposed the end, in this order.
\<close>

theorem campaign_and_agent_finality:
  "((\<forall>e t. campaign_transition s e \<noteq> Ok t) \<longleftrightarrow> s = CampaignState.Closed \<or> s = CampaignState.Aborted)
   \<and> ((\<forall>e t. agent_transition a e \<noteq> Ok t) \<longleftrightarrow> a = AgentState.EndAccepted \<or> a = AgentState.Aborted)
   \<and> (run_events agent_transition AgentState.Registered es = Ok AgentState.EndAccepted \<longrightarrow>
        subseq [AgentEvent.Brief, AgentEvent.Activate, AgentEvent.RequestHandoff,
                AgentEvent.ProposeEnd, AgentEvent.AcceptEnd] es)"
  using campaign.terminal_iff [of s] agent.terminal_iff [of a]
    run_events_subseq [where need = agent_need and s = AgentState.Registered and es = es
      and t = AgentState.EndAccepted, OF agent_need_step]
  by (auto simp: campaign_terminal_def agent_terminal_def agent_need_def)

theorem campaign_and_agent_finality_witness:
  "run_events agent_transition AgentState.Registered
     [AgentEvent.Brief, AgentEvent.Activate, AgentEvent.Crash, AgentEvent.Recover,
      AgentEvent.Activate, AgentEvent.RequestHandoff, AgentEvent.ProposeEnd, AgentEvent.AcceptEnd]
     = Ok AgentState.EndAccepted
   \<and> subseq [AgentEvent.Brief, AgentEvent.Activate, AgentEvent.RequestHandoff,
        AgentEvent.ProposeEnd, AgentEvent.AcceptEnd]
       [AgentEvent.Brief, AgentEvent.Activate, AgentEvent.Crash, AgentEvent.Recover,
        AgentEvent.Activate, AgentEvent.RequestHandoff, AgentEvent.ProposeEnd, AgentEvent.AcceptEnd]"
proof -
  have run: "run_events agent_transition AgentState.Registered
     [AgentEvent.Brief, AgentEvent.Activate, AgentEvent.Crash, AgentEvent.Recover,
      AgentEvent.Activate, AgentEvent.RequestHandoff, AgentEvent.ProposeEnd, AgentEvent.AcceptEnd]
     = Ok AgentState.EndAccepted"
    by (simp add: agent_transition_def)
  show ?thesis
    using campaign_and_agent_finality run by blast
qed

text \<open>
  C39. An attempt's life is finite and a committed attempt is an officially confirmed one: no legal
  sequence of attempt events from \<open>Candidate\<close> is longer than ten, and a sequence that reaches
  \<open>Committed\<close> contains the preflight, the held reservation, the transport acknowledgement, the
  pending parse, the received score, the leaderboard sighting, the official confirmation and the
  commit, in this order.
\<close>

theorem attempt_lifecycle:
  assumes "run_events attempt_transition AttemptState.Candidate es = Ok t"
  shows "length es \<le> 10
    \<and> (t = AttemptState.Committed \<longrightarrow>
        subseq [AttemptEvent.PreflightStarted, AttemptEvent.ReservationHeld,
          AttemptEvent.TransportAccepted, AttemptEvent.ParsePending, AttemptEvent.ScoreReceived,
          AttemptEvent.LeaderboardSeen, AttemptEvent.OfficialConfirm, AttemptEvent.Commit] es)"
  using attempt.run_length_bound [OF assms] run_events_subseq [where need = attempt_need, OF attempt_need_step assms]
  by (auto simp: attempt_rank_def attempt_need_def)

theorem attempt_lifecycle_witness:
  "\<exists>es. run_events attempt_transition AttemptState.Candidate es = Ok AttemptState.Committed
     \<and> length es = 10"
proof -
  let ?es = "[AttemptEvent.PreflightStarted, AttemptEvent.ReservationHeld,
    AttemptEvent.TransportAccepted, AttemptEvent.ParsePending, AttemptEvent.ScoreReceived,
    AttemptEvent.ReviewPending, AttemptEvent.BackfillReceived, AttemptEvent.LeaderboardSeen,
    AttemptEvent.OfficialConfirm, AttemptEvent.Commit]"
  have run: "run_events attempt_transition AttemptState.Candidate ?es = Ok AttemptState.Committed"
    by (simp add: attempt_transition_def)
  from attempt_lifecycle [OF run] run show ?thesis
    by (intro exI [of _ ?es]) simp
qed

text \<open>
  A message is applied at most once and only after delivery and acknowledgement: the only event
  sequence that takes an accepted receipt to \<open>Applied\<close> is deliver, acknowledge, apply, and an
  applied, rejected or expired receipt accepts no further event.
\<close>

theorem receipt_applied_once:
  assumes "run_events receipt_transition Accepted es = Ok t"
  shows "(t = Applied \<longrightarrow> es = [Deliver, Ack, Apply])
    \<and> (t \<in> {Applied, Rejected, Expired} \<longrightarrow> (\<forall>e u. receipt_transition t e \<noteq> Ok u))"
  using receipt_path_exact [OF assms] receipt.terminal_stops [of t]
  by (auto simp: receipt_path_def receipt_terminal_def)

theorem receipt_applied_once_witness:
  "run_events receipt_transition Accepted [Deliver, Ack, Apply] = Ok Applied
   \<and> receipt_transition Applied Apply \<noteq> Ok Applied"
proof -
  have run: "run_events receipt_transition Accepted [Deliver, Ack, Apply] = Ok Applied"
    by (simp add: receipt_transition_def)
  from receipt_applied_once [OF run] run show ?thesis by blast
qed

end
