(* ===== verification/Float64.thy ===== *)
theory Float64
  imports Prelude "HOL-Library.Log_Nat"
begin

text \<open>
  The part of \<open>f64\<close> the sources use: classification, ordered comparison (false on NaN),
  \<open>RangeInclusive::contains\<close>, and addition and subtraction rounded to nearest, ties to even,
  as IEEE 754 binary64 prescribes.  A finite value is its exact rational value; the negative
  zero, which \<open>is_sign_negative\<close> can tell from zero, is a constructor of its own.
\<close>

datatype f64 = Fin rat | NegZero | Inf bool | NaN bool

definition is_nan :: "f64 \<Rightarrow> bool" where
  "is_nan x \<longleftrightarrow> (case x of NaN _ \<Rightarrow> True | _ \<Rightarrow> False)"

definition is_finite :: "f64 \<Rightarrow> bool" where
  "is_finite x \<longleftrightarrow> (case x of Fin _ \<Rightarrow> True | NegZero \<Rightarrow> True | _ \<Rightarrow> False)"

definition is_sign_negative :: "f64 \<Rightarrow> bool" where
  "is_sign_negative x \<longleftrightarrow>
     (case x of Fin q \<Rightarrow> q < 0 | NegZero \<Rightarrow> True | Inf s \<Rightarrow> s | NaN s \<Rightarrow> s)"

definition f64_val :: "f64 \<Rightarrow> rat" where
  "f64_val x = (case x of Fin q \<Rightarrow> q | _ \<Rightarrow> 0)"

text \<open>\<open>a <= b\<close>, \<open>a < b\<close> and \<open>a == b\<close> of the language.\<close>

definition f64_le :: "f64 \<Rightarrow> f64 \<Rightarrow> bool" where
  "f64_le a b \<longleftrightarrow> \<not> is_nan a \<and> \<not> is_nan b \<and>
     (a = Inf True \<or> b = Inf False \<or> is_finite a \<and> is_finite b \<and> f64_val a \<le> f64_val b)"

definition f64_lt :: "f64 \<Rightarrow> f64 \<Rightarrow> bool" where
  "f64_lt a b \<longleftrightarrow> \<not> is_nan a \<and> \<not> is_nan b \<and> \<not> f64_le b a"

definition f64_eq :: "f64 \<Rightarrow> f64 \<Rightarrow> bool" where
  "f64_eq a b \<longleftrightarrow> f64_le a b \<and> f64_le b a"

definition f64_in :: "rat \<Rightarrow> rat \<Rightarrow> f64 \<Rightarrow> bool" where
  "f64_in lo hi x \<longleftrightarrow> f64_le (Fin lo) x \<and> f64_le x (Fin hi)"

lemmas f64_class = is_nan_def is_finite_def is_sign_negative_def f64_val_def

lemma f64_class_simps [simp]:
  "\<not> is_nan (Fin q)" "\<not> is_nan NegZero" "\<not> is_nan (Inf s)" "is_nan (NaN s)"
  "is_finite (Fin q)" "is_finite NegZero" "\<not> is_finite (Inf s)" "\<not> is_finite (NaN s)"
  "is_sign_negative (Fin q) \<longleftrightarrow> q < 0" "is_sign_negative NegZero"
  "f64_val (Fin q) = q" "f64_val NegZero = 0"
  by (simp_all add: f64_class)

lemma f64_le_finite: "is_finite a \<Longrightarrow> is_finite b \<Longrightarrow> f64_le a b \<longleftrightarrow> f64_val a \<le> f64_val b"
  by (cases a; cases b) (auto simp: f64_le_def)

lemma f64_lt_finite: "is_finite a \<Longrightarrow> is_finite b \<Longrightarrow> f64_lt a b \<longleftrightarrow> f64_val a < f64_val b"
  by (cases a; cases b) (auto simp: f64_le_def f64_lt_def)

lemma f64_le_Fin [simp]: "f64_le (Fin a) (Fin b) \<longleftrightarrow> a \<le> b"
  by (simp add: f64_le_def)

lemma f64_lt_Fin [simp]: "f64_lt (Fin a) (Fin b) \<longleftrightarrow> a < b"
  by (simp add: f64_lt_finite)

lemma f64_eq_Fin [simp]: "f64_eq (Fin a) (Fin b) \<longleftrightarrow> a = b"
  by (auto simp: f64_eq_def)

lemma f64_in_Fin [simp]: "f64_in lo hi (Fin a) \<longleftrightarrow> lo \<le> a \<and> a \<le> hi"
  by (simp add: f64_in_def)

lemma f64_in_finite: "f64_in lo hi x \<longleftrightarrow> is_finite x \<and> lo \<le> f64_val x \<and> f64_val x \<le> hi"
  by (cases x) (auto simp: f64_in_def f64_le_def)

lemma f64_eq_finite: "is_finite a \<Longrightarrow> f64_eq a b \<longleftrightarrow> is_finite b \<and> f64_val a = f64_val b"
  by (cases a; cases b) (auto simp: f64_eq_def f64_le_def)

lemma f64_eq_sym: "f64_eq a b \<Longrightarrow> f64_eq b a"
  by (auto simp: f64_eq_def)

lemma f64_eq_refl: "f64_eq a a \<longleftrightarrow> \<not> is_nan a"
  by (cases a) (auto simp: f64_eq_def f64_le_def)

text \<open>The derived \<open>PartialEq\<close> of \<open>Option<f64>\<close>.\<close>

fun opt_f64_eq :: "f64 option \<Rightarrow> f64 option \<Rightarrow> bool" where
  "opt_f64_eq None None = True"
| "opt_f64_eq (Some a) (Some b) = f64_eq a b"
| "opt_f64_eq _ _ = False"

lemma opt_f64_eq_refl: "opt_f64_eq a a \<longleftrightarrow> (\<forall>x. a = Some x \<longrightarrow> \<not> is_nan x)"
  by (cases a) (auto simp: f64_eq_refl)

lemma opt_f64_eq_Some:
  "opt_f64_eq a (Some y) \<longleftrightarrow> (\<exists>x. a = Some x \<and> f64_eq x y)"
  by (cases a) auto

section \<open>Rounding\<close>

text \<open>\<open>binade q\<close> is the exponent of the leading bit of \<open>\<bar>q\<bar>\<close>.\<close>

definition binade :: "rat \<Rightarrow> int" where
  "binade q =
     (let (a, b) = quotient_of \<bar>q\<bar>;
          k = int (floorlog 2 (nat a)) - int (floorlog 2 (nat b))
      in if 2 powi k \<le> \<bar>q\<bar> then k else k - 1)"

definition round_half_even :: "rat \<Rightarrow> int" where
  "round_half_even q =
     (let f = \<lfloor>q\<rfloor>; d = q - of_int f
      in if d < 1 / 2 then f else if 1 / 2 < d then f + 1 else if even f then f else f + 1)"

text \<open>Exponent of the last place of the 53-bit significand, not below the subnormal one.\<close>

definition last_place :: "rat \<Rightarrow> int" where
  "last_place q = max (binade q - 52) (- 1074)"

definition f64_round :: "rat \<Rightarrow> f64" where
  "f64_round q =
     (if q = 0 then Fin 0
      else let e = last_place q; n = round_half_even (q / 2 powi e); r = of_int n * 2 powi e
           in if 2 powi 1024 \<le> \<bar>r\<bar> then Inf (q < 0)
              else if n = 0 then (if q < 0 then NegZero else Fin 0)
              else Fin r)"

definition f64_neg :: "f64 \<Rightarrow> f64" where
  "f64_neg x = (case x of
      Fin q \<Rightarrow> if q = 0 then NegZero else Fin (- q)
    | NegZero \<Rightarrow> Fin 0 | Inf s \<Rightarrow> Inf (\<not> s) | NaN s \<Rightarrow> NaN s)"

definition f64_add :: "f64 \<Rightarrow> f64 \<Rightarrow> f64" where
  "f64_add a b = (case (a, b) of
      (NaN s, _) \<Rightarrow> NaN s
    | (_, NaN s) \<Rightarrow> NaN s
    | (Inf s, Inf t) \<Rightarrow> if s = t then Inf s else NaN False
    | (Inf s, _) \<Rightarrow> Inf s
    | (_, Inf t) \<Rightarrow> Inf t
    | (NegZero, NegZero) \<Rightarrow> NegZero
    | _ \<Rightarrow> f64_round (f64_val a + f64_val b))"

definition f64_sub :: "f64 \<Rightarrow> f64 \<Rightarrow> f64" where
  "f64_sub a b = f64_add a (f64_neg b)"

lemma round_half_even_int [simp]: "round_half_even (of_int n) = n"
  by (simp add: round_half_even_def)

text \<open>A value that is a multiple of its last place is represented exactly.\<close>

lemma f64_round_exact:
  assumes "q = of_int n * 2 powi last_place q" and "\<bar>q\<bar> < 2 powi 1024"
  shows "f64_round q = Fin q"
proof (cases "q = 0")
  case True
  then show ?thesis by (simp add: f64_round_def)
next
  case False
  let ?e = "last_place q"
  have "q / 2 powi ?e = of_int n"
    using assms(1) by (metis nonzero_eq_divide_eq power_int_eq_0_iff zero_neq_numeral)
  then have "round_half_even (q / 2 powi ?e) = n"
    by simp
  moreover have "n \<noteq> 0"
    using False assms(1) by auto
  ultimately show ?thesis
    using False assms by (simp add: f64_round_def Let_def)
qed

lemma f64_add_finite:
  "is_finite a \<Longrightarrow> is_finite b \<Longrightarrow> \<not> (a = NegZero \<and> b = NegZero) \<Longrightarrow>
   f64_add a b = f64_round (f64_val a + f64_val b)"
  by (cases a; cases b) (auto simp: f64_add_def)

lemma f64_sub_Fin: "b \<noteq> 0 \<Longrightarrow> f64_sub (Fin a) (Fin b) = f64_round (a - b)"
  by (simp add: f64_sub_def f64_neg_def f64_add_finite)

text \<open>The leading exponent is the one that brackets the value.\<close>

lemma binade_bounds:
  assumes "q \<noteq> 0"
  shows "2 powi binade q \<le> \<bar>q\<bar>" and "\<bar>q\<bar> < 2 powi (binade q + 1)"
proof -
  obtain a b where ab: "quotient_of \<bar>q\<bar> = (a, b)" by fastforce
  have b: "0 < b" and q: "\<bar>q\<bar> = of_int a / of_int b"
    using ab by (auto dest: quotient_of_denom_pos quotient_of_div)
  have a: "0 < a"
  proof -
    have "0 < of_int a / (of_int b :: rat)"
      using assms by (simp flip: q)
    with b show ?thesis by (simp add: zero_less_divide_iff)
  qed
  define k where "k = int (floorlog 2 (nat a)) - int (floorlog 2 (nat b))"
  have lo: "2 powi (int (floorlog 2 n) - 1) \<le> (of_nat n :: rat)" and hi: "(of_nat n :: rat) < 2 powi int (floorlog 2 n)"
    if "0 < n" for n
  proof -
    have "2 ^ (floorlog 2 n - 1) \<le> n" "n < 2 ^ floorlog 2 n" "0 < floorlog 2 n"
      using that floorlog_bounds [of n 2] by (simp_all add: floorlog_def)
    moreover have "int (floorlog 2 n) - 1 = int (floorlog 2 n - 1)"
      using \<open>0 < floorlog 2 n\<close> by simp
    ultimately show "2 powi (int (floorlog 2 n) - 1) \<le> (of_nat n :: rat)" "(of_nat n :: rat) < 2 powi int (floorlog 2 n)"
      by (metis of_nat_le_iff of_nat_numeral of_nat_power power_int_of_nat)
         (metis \<open>n < 2 ^ floorlog 2 n\<close> of_nat_less_iff of_nat_numeral of_nat_power power_int_of_nat)
  qed
  have loi: "2 powi (int (floorlog 2 (nat n)) - 1) \<le> (of_int n :: rat)"
    and hii: "(of_int n :: rat) < 2 powi int (floorlog 2 (nat n))" if "0 < n" for n
    using lo [of "nat n"] hi [of "nat n"] that by simp_all
  have "2 powi (k - 1) * of_int b \<le> (2 powi (k - 1) * 2 powi int (floorlog 2 (nat b)) :: rat)"
    using hii [OF b] by (simp add: less_imp_le)
  also have "\<dots> = 2 powi (int (floorlog 2 (nat a)) - 1)"
    by (simp add: k_def del: power_int_of_nat flip: power_int_add)
  also have "\<dots> \<le> of_int a"
    by (rule loi [OF a])
  finally have l: "2 powi (k - 1) \<le> \<bar>q\<bar>"
    using b by (simp add: q pos_le_divide_eq)
  have "of_int a < (2 powi int (floorlog 2 (nat a)) :: rat)"
    by (rule hii [OF a])
  also have "\<dots> = 2 powi (k + 1) * 2 powi (int (floorlog 2 (nat b)) - 1)"
    by (simp add: k_def flip: power_int_add)
  also have "\<dots> \<le> 2 powi (k + 1) * of_int b"
    using loi [OF b] by simp
  finally have h: "\<bar>q\<bar> < 2 powi (k + 1)"
    using b by (simp add: q pos_divide_less_eq)
  have "binade q = (if 2 powi k \<le> \<bar>q\<bar> then k else k - 1)"
    by (simp add: binade_def ab k_def)
  then show "2 powi binade q \<le> \<bar>q\<bar>" "\<bar>q\<bar> < 2 powi (binade q + 1)"
    using l h by auto
qed

lemma binade_unique:
  assumes "2 powi k \<le> \<bar>q\<bar>" and "\<bar>q\<bar> < 2 powi (k + 1)"
  shows "binade q = k"
proof -
  have "q \<noteq> 0"
    using assms(1) by (metis abs_zero not_le zero_less_numeral zero_less_power_int)
  note b = binade_bounds [OF this]
  have less: "i < j + 1" if "2 powi i \<le> \<bar>q\<bar>" "\<bar>q\<bar> < 2 powi (j + 1)" for i j :: int
  proof (rule ccontr)
    assume "\<not> i < j + 1"
    then have "(2 :: rat) powi (j + 1) \<le> 2 powi i"
      by (intro power_int_increasing) auto
    with that show False by simp
  qed
  show ?thesis
    using less [OF assms(1) b(2)] less [OF b(1) assms(2)] by simp
qed

lemma last_place_eq:
  "2 powi k \<le> \<bar>q\<bar> \<Longrightarrow> \<bar>q\<bar> < 2 powi (k + 1) \<Longrightarrow> last_place q = max (k - 52) (- 1074)"
  by (simp add: last_place_def binade_unique)

lemma floor_cent: "\<lfloor>144115188075855872 / 25 :: rat\<rfloor> = 5764607523034234"
  by (simp add: floor_eq_iff)

lemma f64_round_cent: "f64_round (1 / 100) = Fin (5764607523034235 / 2 ^ 59)"
proof -
  have "last_place (1 / 100) = - 59"
    by (subst last_place_eq [where k = "- 7"]) simp_all
  moreover have "round_half_even ((1 / 100) / 2 powi (- 59)) = 5764607523034235"
    by (simp add: round_half_even_def Let_def floor_cent)
  ultimately show ?thesis
    by (simp add: f64_round_def Let_def)
qed

lemma f64_round_cent_exact: "f64_round (5764607523034235 / 2 ^ 59) = Fin (5764607523034235 / 2 ^ 59)"
proof -
  have "last_place (5764607523034235 / 2 ^ 59) = - 59"
    by (subst last_place_eq [where k = "- 7"]) simp_all
  then show ?thesis
    by (intro f64_round_exact [where n = 5764607523034235]) simp_all
qed


lemma f64_round_one [simp]: "f64_round 1 = Fin 1"
proof -
  have "last_place 1 = - 52"
    by (subst last_place_eq [where k = 0]) simp_all
  then show ?thesis
    by (intro f64_round_exact [where n = "2 ^ 52"]) simp_all
qed

lemma f64_round_zero [simp]: "f64_round 0 = Fin 0"
  by (simp add: f64_round_def)

lemma round_half_even_bounds:
  assumes "0 \<le> x" and "x \<le> of_int m"
  shows "0 \<le> round_half_even x" and "round_half_even x \<le> m"
proof -
  have f: "0 \<le> \<lfloor>x\<rfloor>" "\<lfloor>x\<rfloor> \<le> m"
    using assms by (simp_all add: floor_le_iff)
  have "round_half_even x = m" if "\<lfloor>x\<rfloor> = m"
  proof -
    have "x = of_int m"
      using that assms(2) of_int_floor_le [of x] by simp
    then show ?thesis by simp
  qed
  then show "0 \<le> round_half_even x" "round_half_even x \<le> m"
    using f by (cases "\<lfloor>x\<rfloor> = m"; auto simp: round_half_even_def Let_def)+
qed

text \<open>Rounding does not carry a value past an integer of at most 52 bits.\<close>

lemma f64_round_between:
  assumes "0 \<le> q" and "q \<le> of_int m" and "m < 2 ^ 52"
  shows "\<exists>r. f64_round q = Fin r \<and> 0 \<le> r \<and> r \<le> of_int m"
proof (cases "q = 0")
  case True
  then show ?thesis using assms by simp
next
  case False
  then have pos: "0 < q" using assms(1) by simp
  let ?e = "last_place q"
  have "2 powi binade q \<le> q"
    using binade_bounds(1) [of q] pos by simp
  also have "q < of_int (2 ^ 52)"
    using assms(2,3) by (meson of_int_less_iff order_le_less_trans)
  finally have less: "2 powi binade q < (2 ^ 52 :: rat)"
    by simp
  have "binade q < 52"
  proof (rule ccontr)
    assume "\<not> binade q < 52"
    then have "(2 :: rat) powi 52 \<le> 2 powi binade q"
      by (intro power_int_increasing) auto
    with less show False by simp
  qed
  then have e: "?e \<le> 0"
    by (simp add: last_place_def)
  define k where "k = nat (- ?e)"
  have pe: "(2 :: rat) powi ?e = 1 / 2 ^ k"
  proof -
    have "?e = - int k"
      using e by (simp add: k_def)
    then show ?thesis
      by (simp only: power_int_minus power_int_of_nat inverse_eq_divide)
  qed
  have m: "0 \<le> q / 2 powi ?e" "q / 2 powi ?e \<le> of_int (m * 2 ^ k)"
    using assms(1,2) by (simp_all add: pe)
  define n where "n = round_half_even (q / 2 powi ?e)"
  have n: "0 \<le> n" "n \<le> m * 2 ^ k"
    using round_half_even_bounds [OF m] by (simp_all add: n_def)
  have "(0 :: rat) \<le> of_int n" "(of_int n :: rat) \<le> of_int (m * 2 ^ k)"
    using n by (simp_all only: of_int_le_iff of_int_0_le_iff)
  then have r: "0 \<le> (of_int n * 2 powi ?e :: rat)" "(of_int n * 2 powi ?e :: rat) \<le> of_int m"
    by (simp_all add: pe divide_le_eq)
  have "(of_int m :: rat) < of_int (2 ^ 52)"
    using assms(3) by (simp only: of_int_less_iff)
  also have "\<dots> \<le> 2 powi 1024"
    using power_int_increasing [of 52 1024 "2 :: rat"] by simp
  finally have "\<not> 2 powi 1024 \<le> \<bar>of_int n * 2 powi ?e :: rat\<bar>"
    using r by simp
  then have "f64_round q = (if n = 0 then Fin 0 else Fin (of_int n * 2 powi ?e))"
    using pos by (simp add: f64_round_def Let_def n_def)
  then show ?thesis
    using r by auto
qed

end
