(* ===== verification/Evidence.thy ===== *)
theory Evidence
  imports Lifecycles Float64
begin

text \<open>
  Evidence-carrying records of \<open>ascodex-coordination/src/lib.rs\<close>: hashed evidence references,
  experiment plans, worker reports, decision records, platform observations and the confirmation
  of an attempt from them.
\<close>

section \<open>Evidence references\<close>

record EvidenceRef =
  ev_kind :: string
  ev_path :: string
  ev_sha256 :: "string option"

definition evidence_kinds :: "string list" where
  "evidence_kinds =
     [''attempt'', ''trace'', ''artifact'', ''score'', ''verifier'', ''baseline'', ''stage_brief'',
      ''worker_report'', ''platform_observation'', ''contract'', ''closure_falsifier'',
      ''closure_peer'', ''closure_historical'', ''closure_harbor'', ''closure_trace'',
      ''quota_snapshot'']"

text \<open>The loop of \<open>validate_evidence_refs\<close>; \<open>seen\<close> is its set \<open>unique\<close>.\<close>

fun validate_evidence_refs_from ::
  "(string \<times> string) list \<Rightarrow> EvidenceRef list \<Rightarrow> CoordinationError + unit" where
  "validate_evidence_refs_from seen [] = Ok ()"
| "validate_evidence_refs_from seen (r # rs) =
     (if ev_kind r \<notin> set evidence_kinds
         \<or> is_blank (ev_path r)
         \<or> str_contains (ev_path r) ''..''
         \<or> is_absolute (ev_path r)
         \<or> (ev_kind r, ev_path r) \<in> set seen
      then Err (InvalidReport ''evidence kind/path must be unique, relative, and recognized'')
      else case ev_sha256 r of
             Some h \<Rightarrow>
               if \<not> is_hex 64 h
               then Err (InvalidReport ''evidence sha256 must be a 64-character hexadecimal digest'')
               else validate_evidence_refs_from ((ev_kind r, ev_path r) # seen) rs
           | None \<Rightarrow> Err (InvalidReport ''evidence sha256 is required''))"

definition validate_evidence_refs :: "EvidenceRef list \<Rightarrow> CoordinationError + unit" where
  "validate_evidence_refs rs = validate_evidence_refs_from [] rs"

text \<open>What a reference must satisfy on its own.\<close>

definition evidence_ref_ok :: "EvidenceRef \<Rightarrow> bool" where
  "evidence_ref_ok r \<longleftrightarrow> ev_kind r \<in> set evidence_kinds \<and> \<not> is_blank (ev_path r)
     \<and> \<not> str_contains (ev_path r) ''..'' \<and> \<not> is_absolute (ev_path r)
     \<and> (\<exists>h. ev_sha256 r = Some h \<and> is_hex 64 h)"

abbreviation evidence_key :: "EvidenceRef \<Rightarrow> string \<times> string" where
  "evidence_key r \<equiv> (ev_kind r, ev_path r)"

lemma validate_evidence_refs_from_ok:
  "validate_evidence_refs_from seen rs = Ok () \<longleftrightarrow>
     list_all evidence_ref_ok rs \<and> distinct (map evidence_key rs)
     \<and> set (map evidence_key rs) \<inter> set seen = {}"
proof (induction seen rs rule: validate_evidence_refs_from.induct)
  case (1 seen)
  then show ?case by simp
next
  case (2 seen r rs)
  show ?case
  proof (cases "evidence_ref_ok r \<and> evidence_key r \<notin> set seen")
    case True
    then have "validate_evidence_refs_from seen (r # rs)
        = validate_evidence_refs_from (evidence_key r # seen) rs"
      by (auto simp: evidence_ref_ok_def)
    moreover obtain h where "ev_sha256 r = Some h" "is_hex 64 h" "ev_kind r \<in> set evidence_kinds"
      "\<not> is_blank (ev_path r)" "\<not> str_contains (ev_path r) ''..''" "\<not> is_absolute (ev_path r)"
      using True unfolding evidence_ref_ok_def by blast
    then have "validate_evidence_refs_from (evidence_key r # seen) rs = Ok () \<longleftrightarrow>
        list_all evidence_ref_ok rs \<and> distinct (map evidence_key rs)
        \<and> set (map evidence_key rs) \<inter> set (evidence_key r # seen) = {}"
      using True "2.IH" by blast
    ultimately show ?thesis using True by auto
  next
    case False
    then have "validate_evidence_refs_from seen (r # rs) \<noteq> Ok ()"
      by (auto simp: evidence_ref_ok_def split: option.splits)
    then show ?thesis using False by auto
  qed
qed

lemma validate_evidence_refs_ok [validated, simp]:
  "validate_evidence_refs rs = Ok () \<longleftrightarrow>
     list_all evidence_ref_ok rs \<and> distinct (map evidence_key rs)"
  by (simp add: validate_evidence_refs_def validate_evidence_refs_from_ok)

definition has_kind :: "EvidenceRef list \<Rightarrow> string \<Rightarrow> bool" where
  "has_kind rs k \<longleftrightarrow> list_ex (\<lambda>r. ev_kind r = k) rs"

definition count_kind :: "EvidenceRef list \<Rightarrow> string \<Rightarrow> nat" where
  "count_kind rs k = length (filter (\<lambda>r. ev_kind r = k) rs)"

lemma has_kind_iff: "has_kind rs k \<longleftrightarrow> k \<in> ev_kind ` set rs"
  by (auto simp: has_kind_def list_ex_iff)

lemma has_kindD:
  "has_kind rs k \<Longrightarrow> list_all evidence_ref_ok rs \<Longrightarrow> \<exists>r \<in> set rs. ev_kind r = k \<and> evidence_ref_ok r"
  by (auto simp: has_kind_def list_ex_iff list_all_iff)

text \<open>Two references of one kind that pass validation name two different files.\<close>

lemma count_kind_distinct_paths:
  assumes "distinct (map evidence_key rs)" and "2 \<le> count_kind rs k"
  shows "\<exists>a \<in> set rs. \<exists>b \<in> set rs. ev_kind a = k \<and> ev_kind b = k \<and> ev_path a \<noteq> ev_path b"
proof -
  let ?fs = "filter (\<lambda>r. ev_kind r = k) rs"
  obtain a b rest where fs: "?fs = a # b # rest"
    using assms(2) by (cases ?fs; cases "tl ?fs") (auto simp: count_kind_def)
  have "distinct (map evidence_key ?fs)"
    using assms(1) by (rule distinct_map_filter)
  then have "evidence_key a \<noteq> evidence_key b" using fs by simp
  moreover have "a \<in> set ?fs" "b \<in> set ?fs" using fs by simp_all
  ultimately show ?thesis by auto
qed

section \<open>Experiment plans\<close>

record ExperimentPlan =
  ep_schema_version :: string
  ep_challenge_id :: string
  ep_axis :: string
  ep_changed_fields :: "string list"
  ep_coupled_group :: "string option"
  ep_hypothesis :: string
  ep_expected_response :: string
  ep_decision_criterion :: string
  ep_parent_attempt_id :: "string option"

definition ExperimentPlan_validate :: "ExperimentPlan \<Rightarrow> CoordinationError + unit" where
  "ExperimentPlan_validate p = checks
     ([fail_if (ep_schema_version p \<noteq> SCHEMA_VERSION) (InvalidExperiment ''unsupported schema version'')]
      @ map (\<lambda>(name, val). fail_if (is_blank val) (InvalidExperiment (name @ '' is required'')))
          [(''challenge_id'', ep_challenge_id p), (''axis'', ep_axis p),
           (''hypothesis'', ep_hypothesis p), (''expected_response'', ep_expected_response p),
           (''decision_criterion'', ep_decision_criterion p)]
      @ [fail_if (ep_changed_fields p = [] \<or> list_ex is_blank (ep_changed_fields p))
           (InvalidExperiment ''changed_fields must contain at least one non-empty field''),
         fail_if (length (remdups (ep_changed_fields p)) \<noteq> length (ep_changed_fields p))
           (InvalidExperiment ''changed_fields must not contain duplicates''),
         fail_if (length (ep_changed_fields p) > 1 \<and> none_or_empty (ep_coupled_group p))
           (InvalidExperiment ''multiple changed fields require an explicit coupled_group'')])"

lemma ExperimentPlan_validate_ok [validated]:
  "ExperimentPlan_validate p = Ok () \<longleftrightarrow>
     ep_schema_version p = SCHEMA_VERSION \<and> \<not> is_blank (ep_challenge_id p) \<and> \<not> is_blank (ep_axis p)
     \<and> \<not> is_blank (ep_hypothesis p) \<and> \<not> is_blank (ep_expected_response p)
     \<and> \<not> is_blank (ep_decision_criterion p)
     \<and> ep_changed_fields p \<noteq> [] \<and> (\<forall>f \<in> set (ep_changed_fields p). \<not> is_blank f)
     \<and> distinct (ep_changed_fields p)
     \<and> (length (ep_changed_fields p) > 1 \<longrightarrow> \<not> none_or_empty (ep_coupled_group p))"
  by (auto simp: ExperimentPlan_validate_def list_ex_iff length_remdups_eq)

section \<open>Worker reports\<close>

datatype ReportStatus = Success | Blocked | EnvFailure | Timeout | Inconclusive

record WorkerReport =
  wr_schema_version :: string
  wr_role :: Role
  wr_status :: ReportStatus
  wr_challenge_id :: string
  wr_identity :: "string option"
  wr_attempt_id :: "string option"
  wr_harbor_reward :: "f64 option"
  wr_trace_score :: "f64 option"
  wr_judge_summary :: "string option"
  wr_evidence :: "EvidenceRef list"

text \<open>\<open>if let Some(score) = value { if !score.is_finite() || !(lo..=hi).contains(&score) { Err } }\<close>\<close>

definition score_check :: "rat \<Rightarrow> rat \<Rightarrow> f64 option \<Rightarrow> 'e \<Rightarrow> 'e + unit" where
  "score_check lo hi v e =
     (case v of None \<Rightarrow> Ok () | Some x \<Rightarrow> fail_if (\<not> is_finite x \<or> \<not> f64_in lo hi x) e)"

lemma score_check_ok [simp]:
  "score_check lo hi v e = Ok () \<longleftrightarrow> (\<forall>x. v = Some x \<longrightarrow> f64_in lo hi x)"
  by (auto simp: score_check_def f64_in_finite split: option.splits)

definition WorkerReport_validate :: "WorkerReport \<Rightarrow> CoordinationError + unit" where
  "WorkerReport_validate w = checks
     ([fail_if (wr_schema_version w \<noteq> SCHEMA_VERSION) (InvalidReport ''unsupported schema version''),
       fail_if (is_blank (wr_challenge_id w)) (InvalidReport ''challenge_id is required'')]
      @ (if wr_status w = Success then
          [fail_if (none_or_empty (wr_identity w) \<or> none_or_empty (wr_attempt_id w)
              \<or> wr_harbor_reward w = None \<or> wr_trace_score w = None
              \<or> none_or_empty (wr_judge_summary w))
             (InvalidReport ''success requires attempt_id, identity, harbor, trace, and judge evidence''),
           fail_if (wr_evidence w = [])
             (InvalidReport ''success requires at least one evidence reference''),
           validate_evidence_refs (wr_evidence w),
           fail_if (\<not> list_all (has_kind (wr_evidence w)) [''attempt'', ''trace'', ''artifact'', ''score''])
             (InvalidReport ''success requires attempt, trace, artifact, and score evidence'')]
         else [])
      @ [score_check 0 1 (wr_harbor_reward w)
           (InvalidReport ''harbor_reward must be finite and within 0..=1''),
         score_check 0 100 (wr_trace_score w)
           (InvalidReport ''trace_score must be finite and within 0..=100'')])"

lemma WorkerReport_validate_ok [validated]:
  "WorkerReport_validate w = Ok () \<longleftrightarrow>
     wr_schema_version w = SCHEMA_VERSION \<and> \<not> is_blank (wr_challenge_id w)
     \<and> (wr_status w = Success \<longrightarrow>
          \<not> none_or_empty (wr_identity w) \<and> \<not> none_or_empty (wr_attempt_id w)
          \<and> wr_harbor_reward w \<noteq> None \<and> wr_trace_score w \<noteq> None
          \<and> \<not> none_or_empty (wr_judge_summary w) \<and> wr_evidence w \<noteq> []
          \<and> list_all evidence_ref_ok (wr_evidence w) \<and> distinct (map evidence_key (wr_evidence w))
          \<and> (\<forall>k \<in> {''attempt'', ''trace'', ''artifact'', ''score''}. has_kind (wr_evidence w) k))
     \<and> (\<forall>x. wr_harbor_reward w = Some x \<longrightarrow> f64_in 0 1 x)
     \<and> (\<forall>x. wr_trace_score w = Some x \<longrightarrow> f64_in 0 100 x)"
  by (auto simp: WorkerReport_validate_def)

section \<open>Decision records\<close>

record DecisionRecord =
  dr_schema_version :: string
  dr_decision_id :: string
  dr_challenge_id :: string
  dr_rationale :: string
  dr_expected_outcome :: string
  dr_deadline_ms :: int
  dr_evidence :: "EvidenceRef list"

definition DecisionRecord_validate :: "DecisionRecord \<Rightarrow> int \<Rightarrow> CoordinationError + unit" where
  "DecisionRecord_validate d now_ms = checks
     [fail_if (dr_schema_version d \<noteq> SCHEMA_VERSION \<or> is_blank (dr_decision_id d)
         \<or> is_blank (dr_challenge_id d) \<or> is_blank (dr_rationale d) \<or> is_blank (dr_expected_outcome d))
        (InvalidDecision ''schema, identifiers, rationale, and expected_outcome are required''),
      fail_if (dr_deadline_ms d \<le> now_ms) (InvalidDecision ''deadline must be in the future''),
      fail_if (dr_evidence d = [])
        (InvalidDecision ''every decision must cite at least one evidence reference'')]"

section \<open>Platform observations\<close>

datatype EvidenceAvailability = Present | Redacted | Pending | Unavailable | NotApplicable

record PlatformObservation =
  po_attempt_id :: string
  po_challenge_id :: string
  po_route :: string
  po_observed_at_ms :: int
  po_response_sha256 :: string
  po_replay_status :: EvidenceAvailability
  po_results_status :: EvidenceAvailability
  po_scorecard_status :: EvidenceAvailability
  po_leaderboard_status :: EvidenceAvailability
  po_harbor_reward :: "f64 option"
  po_trace_score :: "f64 option"

definition PlatformObservation_validate ::
  "PlatformObservation \<Rightarrow> string \<Rightarrow> int \<Rightarrow> CoordinationError + unit" where
  "PlatformObservation_validate ob expected_challenge_id now_ms = checks
     [fail_if (is_blank (po_attempt_id ob) \<or> po_challenge_id ob \<noteq> expected_challenge_id
         \<or> is_blank (po_route ob) \<or> po_observed_at_ms ob < 0 \<or> po_observed_at_ms ob > now_ms
         \<or> \<not> is_hex 64 (po_response_sha256 ob)
         \<or> po_response_sha256 ob \<noteq> to_ascii_lowercase (po_response_sha256 ob)
         \<or> po_replay_status ob \<noteq> Present
         \<or> po_results_status ob \<notin> set [Present, Redacted]
         \<or> po_scorecard_status ob \<notin> set [Present, Redacted]
         \<or> po_leaderboard_status ob \<noteq> Present)
        (InvalidReport ''platform observation lacks a complete, bound, and non-future evidence set''),
      (case po_harbor_reward ob of
         None \<Rightarrow> Err (InvalidReport ''platform observation requires harbor_reward'')
       | Some x \<Rightarrow> fail_if (\<not> is_finite x \<or> \<not> f64_in 0 1 x)
           (InvalidReport ''platform harbor_reward must be finite and within 0..=1'')),
      score_check 0 100 (po_trace_score ob)
        (InvalidReport ''platform trace_score must be finite and within 0..=100'')]"

lemma PlatformObservation_validate_ok [validated]:
  "PlatformObservation_validate ob c now = Ok () \<longleftrightarrow>
     \<not> is_blank (po_attempt_id ob) \<and> po_challenge_id ob = c \<and> \<not> is_blank (po_route ob)
     \<and> 0 \<le> po_observed_at_ms ob \<and> po_observed_at_ms ob \<le> now
     \<and> is_lower_hex 64 (po_response_sha256 ob)
     \<and> po_replay_status ob = Present \<and> po_results_status ob \<in> {Present, Redacted}
     \<and> po_scorecard_status ob \<in> {Present, Redacted} \<and> po_leaderboard_status ob = Present
     \<and> (\<exists>x. po_harbor_reward ob = Some x \<and> f64_in 0 1 x)
     \<and> (\<forall>x. po_trace_score ob = Some x \<longrightarrow> f64_in 0 100 x)"
  by (cases "po_harbor_reward ob")
     (auto simp: PlatformObservation_validate_def is_lower_hex_def f64_in_finite)

lemma PlatformObservation_validate_later:
  "PlatformObservation_validate ob c now = Ok () \<Longrightarrow> now \<le> later \<Longrightarrow>
   PlatformObservation_validate ob c later = Ok ()"
  unfolding PlatformObservation_validate_ok by auto

definition confirm_attempt_observation ::
  "AttemptState \<Rightarrow> PlatformObservation \<Rightarrow> string \<Rightarrow> int \<Rightarrow> CoordinationError + AttemptState" where
  "confirm_attempt_observation s ob expected_challenge_id now_ms =
     (if s \<noteq> AttemptState.ScoreObserved
      then Err (InvalidReport ''only a score-observed attempt may be officially confirmed'')
      else case PlatformObservation_validate ob expected_challenge_id now_ms of
             Inl e \<Rightarrow> Err e
           | Inr _ \<Rightarrow> Ok AttemptState.LeaderboardConfirmed)"

record OfficialEvidence =
  oe_challenge_id :: string
  oe_replay_executed :: bool
  oe_results_populated :: bool
  oe_scorecard_populated :: bool
  oe_harbor_reward :: f64
  oe_leaderboard_seen :: bool
  oe_results_json_status :: "EvidenceAvailability option"
  oe_scorecard_status :: "EvidenceAvailability option"

definition availability_resolved :: "EvidenceAvailability option \<Rightarrow> bool \<Rightarrow> bool" where
  "availability_resolved status populated \<longleftrightarrow>
     (case status of None \<Rightarrow> populated | Some a \<Rightarrow> a \<in> set [Present, Redacted])"

definition OfficialEvidence_validate ::
  "OfficialEvidence \<Rightarrow> string \<Rightarrow> CoordinationError + unit" where
  "OfficialEvidence_validate e expected_challenge_id =
     fail_if (oe_challenge_id e \<noteq> expected_challenge_id \<or> \<not> oe_replay_executed e
         \<or> \<not> availability_resolved (oe_results_json_status e) (oe_results_populated e)
         \<or> \<not> availability_resolved (oe_scorecard_status e) (oe_scorecard_populated e)
         \<or> \<not> oe_leaderboard_seen e \<or> \<not> is_finite (oe_harbor_reward e)
         \<or> \<not> f64_in 0 1 (oe_harbor_reward e))
       (InvalidReport ''official confirmation requires challenge, replay, resolved results/scorecard status, reward, and leaderboard evidence'')"

definition confirm_attempt ::
  "AttemptState \<Rightarrow> OfficialEvidence \<Rightarrow> string \<Rightarrow> CoordinationError + AttemptState" where
  "confirm_attempt s e expected_challenge_id =
     (if s \<noteq> AttemptState.ScoreObserved
      then Err (InvalidReport ''legacy boolean confirmation is disabled; use typed platform observation'')
      else Err (InvalidReport ''legacy boolean confirmation is disabled; use typed platform observation''))"

section \<open>Properties\<close>

text \<open>Concrete records on which the properties are exercised.\<close>

definition digest :: "char \<Rightarrow> string" where
  "digest c = replicate 64 c"

lemma digest_hex [simp]:
  "ascii_hexdigit c \<Longrightarrow> is_hex 64 (digest c)"
  "ascii_hexdigit c \<Longrightarrow> lower_char c = c \<Longrightarrow> is_lower_hex 64 (digest c)"
  by (simp_all add: digest_def is_hex_def is_lower_hex_def to_ascii_lowercase_def list_all_iff)

lemma ascii_hexdigit_samples [simp]:
  "ascii_hexdigit CHR ''a''" "ascii_hexdigit CHR ''b''" "lower_char CHR ''a'' = CHR ''a''"
  "lower_char CHR ''b'' = CHR ''b''"
  by (simp_all add: ascii_hexdigit_def lower_char_def)

definition sample_ref :: "string \<Rightarrow> string \<Rightarrow> EvidenceRef" where
  "sample_ref k p = \<lparr> ev_kind = k, ev_path = p, ev_sha256 = Some (digest CHR ''a'') \<rparr>"

definition sample_report :: WorkerReport where
  "sample_report =
     \<lparr> wr_schema_version = SCHEMA_VERSION, wr_role = Solver, wr_status = Success,
       wr_challenge_id = ''c1'', wr_identity = Some ''id'', wr_attempt_id = Some ''a1'',
       wr_harbor_reward = Some (Fin 1), wr_trace_score = Some (Fin 80),
       wr_judge_summary = Some ''ok'',
       wr_evidence = [sample_ref ''attempt'' ''a'', sample_ref ''trace'' ''t'',
                      sample_ref ''artifact'' ''r'', sample_ref ''score'' ''s''] \<rparr>"

definition sample_observation :: PlatformObservation where
  "sample_observation =
     \<lparr> po_attempt_id = ''a1'', po_challenge_id = ''c1'', po_route = ''leaderboard'',
       po_observed_at_ms = 5, po_response_sha256 = digest CHR ''a'', po_replay_status = Present,
       po_results_status = Redacted, po_scorecard_status = Present, po_leaderboard_status = Present,
       po_harbor_reward = Some (Fin 1), po_trace_score = None \<rparr>"

lemma sample_ref_ok [simp]:
  "k \<in> set evidence_kinds \<Longrightarrow> \<not> is_blank p \<Longrightarrow> \<not> str_contains p ''..'' \<Longrightarrow> \<not> is_absolute p \<Longrightarrow>
   evidence_ref_ok (sample_ref k p)"
  by (simp add: evidence_ref_ok_def sample_ref_def)

lemma sample_ref_sel [simp]:
  "ev_kind (sample_ref k p) = k" "ev_path (sample_ref k p) = p"
  by (simp_all add: sample_ref_def)

text \<open>
  A worker report that validates as a success is backed by evidence: identity, attempt and judge
  summary are non-empty, the Harbor reward is a finite number in [0, 1] and the trace score one in
  [0, 100], and for each of attempt, trace, artifact and score the report cites a reference with a
  64-digit hexadecimal digest at a relative path without \<open>..\<close>.  No two references coincide.
\<close>

theorem successful_report_is_evidenced:
  assumes "WorkerReport_validate w = Ok ()" and "wr_status w = Success"
  shows "\<not> none_or_empty (wr_identity w) \<and> \<not> none_or_empty (wr_attempt_id w)
    \<and> \<not> none_or_empty (wr_judge_summary w)
    \<and> (\<exists>x. wr_harbor_reward w = Some x \<and> is_finite x \<and> 0 \<le> f64_val x \<and> f64_val x \<le> 1)
    \<and> (\<exists>x. wr_trace_score w = Some x \<and> is_finite x \<and> 0 \<le> f64_val x \<and> f64_val x \<le> 100)
    \<and> (\<forall>k \<in> {''attempt'', ''trace'', ''artifact'', ''score''}. \<exists>r \<in> set (wr_evidence w). ev_kind r = k
          \<and> (\<exists>h. ev_sha256 r = Some h \<and> is_hex 64 h)
          \<and> \<not> is_absolute (ev_path r) \<and> \<not> str_contains (ev_path r) ''..'')
    \<and> distinct (map (\<lambda>r. (ev_kind r, ev_path r)) (wr_evidence w))"
proof -
  have ok: "\<not> none_or_empty (wr_identity w)" "\<not> none_or_empty (wr_attempt_id w)"
    "\<not> none_or_empty (wr_judge_summary w)" "wr_harbor_reward w \<noteq> None" "wr_trace_score w \<noteq> None"
    "list_all evidence_ref_ok (wr_evidence w)" "distinct (map evidence_key (wr_evidence w))"
    "\<forall>k \<in> {''attempt'', ''trace'', ''artifact'', ''score''}. has_kind (wr_evidence w) k"
    "\<And>x. wr_harbor_reward w = Some x \<Longrightarrow> f64_in 0 1 x"
    "\<And>x. wr_trace_score w = Some x \<Longrightarrow> f64_in 0 100 x"
    using assms unfolding WorkerReport_validate_ok by blast+
  have "\<exists>r \<in> set (wr_evidence w). ev_kind r = k \<and> (\<exists>h. ev_sha256 r = Some h \<and> is_hex 64 h)
      \<and> \<not> is_absolute (ev_path r) \<and> \<not> str_contains (ev_path r) ''..''"
    if "k \<in> {''attempt'', ''trace'', ''artifact'', ''score''}" for k
    using has_kindD [OF bspec [OF ok(8) that] ok(6)] unfolding evidence_ref_ok_def by blast
  then show ?thesis
    using ok by (auto simp: f64_in_finite)
qed

theorem successful_report_is_evidenced_witness:
  "WorkerReport_validate sample_report = Ok () \<and> wr_status sample_report = Success
   \<and> (\<exists>r \<in> set (wr_evidence sample_report). ev_kind r = ''score'')"
proof -
  have ok: "WorkerReport_validate sample_report = Ok ()"
    unfolding WorkerReport_validate_ok
    by (simp add: sample_report_def evidence_kinds_def is_absolute_def starts_with_def has_kind_def)
  have st: "wr_status sample_report = Success"
    by (simp add: sample_report_def)
  from successful_report_is_evidenced [OF ok st] ok st show ?thesis by blast
qed

text \<open>
  Only a score-observed attempt is confirmed from a platform observation, and only to
  \<open>LeaderboardConfirmed\<close>, a state the attempt machine itself reaches from there with
  \<open>LeaderboardSeen\<close>; the observation is of the expected challenge, not from the future, carries a
  lower-case digest of the response, a present replay and leaderboard entry and a finite reward in
  [0, 1].  Conversely every such observation confirms a score-observed attempt, and the legacy
  boolean confirmation never succeeds.
\<close>

theorem observation_confirms:
  "(confirm_attempt_observation s ob c now = Ok t \<longleftrightarrow>
      s = AttemptState.ScoreObserved \<and> t = AttemptState.LeaderboardConfirmed
      \<and> attempt_transition s AttemptEvent.LeaderboardSeen = Ok t
      \<and> \<not> is_blank (po_attempt_id ob) \<and> po_challenge_id ob = c \<and> \<not> is_blank (po_route ob)
      \<and> po_observed_at_ms ob \<in> {0..now} \<and> is_lower_hex 64 (po_response_sha256 ob)
      \<and> po_replay_status ob = Present \<and> po_leaderboard_status ob = Present
      \<and> po_results_status ob \<in> {Present, Redacted} \<and> po_scorecard_status ob \<in> {Present, Redacted}
      \<and> (\<exists>x. po_harbor_reward ob = Some x \<and> f64_in 0 1 x)
      \<and> (case po_trace_score ob of None \<Rightarrow> True | Some x \<Rightarrow> f64_in 0 100 x))
   \<and> confirm_attempt s e c \<noteq> Ok t"
proof -
  have "attempt_transition AttemptState.ScoreObserved AttemptEvent.LeaderboardSeen
      = Ok AttemptState.LeaderboardConfirmed"
    by (simp add: attempt_transition_def)
  moreover have "confirm_attempt_observation s ob c now = Ok t \<longleftrightarrow>
      s = AttemptState.ScoreObserved \<and> t = AttemptState.LeaderboardConfirmed
      \<and> PlatformObservation_validate ob c now = Ok ()"
    by (auto simp: confirm_attempt_observation_def split: sum.splits)
  ultimately show ?thesis
    unfolding PlatformObservation_validate_ok confirm_attempt_def
    by (auto split: option.splits)
qed

lemma observation_confirms_sample:
  "confirm_attempt_observation AttemptState.ScoreObserved sample_observation ''c1'' 9
     = Ok AttemptState.LeaderboardConfirmed"
proof -
  have "PlatformObservation_validate sample_observation ''c1'' 9 = Ok ()"
    unfolding PlatformObservation_validate_ok by (simp add: sample_observation_def)
  then show ?thesis by (simp add: confirm_attempt_observation_def)
qed

end
