(* ===== verification/Leases.thy ===== *)
theory Leases
  imports Evidence
begin

text \<open>
  Runtime authority in \<open>ascodex-coordination/src/lib.rs\<close>: leases, the actor context that binds a
  caller to one, and message envelopes with their context-free and context-bound validation.
  Times are \<open>i64\<close> milliseconds; only comparisons are made on them, so they are plain integers.
\<close>

section \<open>Leases and actor contexts\<close>

record Lease =
  le_lease_id :: string
  le_campaign_id :: string
  le_challenge_id :: string
  le_owner_agent_id :: string
  le_role :: Role
  le_issued_at_ms :: int
  le_expires_at_ms :: int
  le_epoch :: nat
  le_allowed_actions :: "Action set"
  le_authorized_identity_classes :: "string set"
  le_operator_id :: string
  le_pool_epoch :: nat
  le_registration_allowed :: bool

record ActorContext =
  cx_agent_id :: string
  cx_session_id :: string
  cx_thread_id :: string
  cx_role :: Role
  cx_campaign_id :: string
  cx_challenge_id :: string
  cx_lease :: Lease

definition ActorContext_validate :: "ActorContext \<Rightarrow> Action \<Rightarrow> int \<Rightarrow> CoordinationError + unit" where
  "ActorContext_validate cx act now_ms =
     (let l = cx_lease cx in checks
       [authorize_action (cx_role cx) act,
        fail_if (list_ex is_blank
            [cx_agent_id cx, cx_session_id cx, cx_thread_id cx, cx_campaign_id cx,
             cx_challenge_id cx, le_lease_id l, le_operator_id l])
          (InvalidDecision ''actor context contains an empty identity field''),
        fail_if (le_owner_agent_id l \<noteq> cx_agent_id cx \<or> le_role l \<noteq> cx_role cx
            \<or> le_campaign_id l \<noteq> cx_campaign_id cx \<or> le_challenge_id l \<noteq> cx_challenge_id cx)
          (InvalidDecision ''actor context does not match its lease''),
        fail_if (le_issued_at_ms l < 0 \<or> le_expires_at_ms l \<le> le_issued_at_ms l
            \<or> now_ms < le_issued_at_ms l \<or> now_ms \<ge> le_expires_at_ms l)
          (InvalidDecision ''actor lease is outside its validity window''),
        fail_if (act \<notin> le_allowed_actions l) (Unauthorized (cx_role cx) act),
        fail_if (le_registration_allowed l)
          (InvalidDecision ''runtime leases cannot register new agents''),
        fail_if (le_authorized_identity_classes l = {} \<or> le_pool_epoch l = 0)
          (InvalidDecision ''lease identity pool is not frozen'')])"

text \<open>What does not depend on the clock: the caller is bound to the lease and the action granted.\<close>

definition lease_binds :: "ActorContext \<Rightarrow> Action \<Rightarrow> bool" where
  "lease_binds cx act \<longleftrightarrow>
     authorize_action (cx_role cx) act = Ok ()
     \<and> act \<in> le_allowed_actions (cx_lease cx)
     \<and> le_owner_agent_id (cx_lease cx) = cx_agent_id cx \<and> le_role (cx_lease cx) = cx_role cx
     \<and> le_campaign_id (cx_lease cx) = cx_campaign_id cx
     \<and> le_challenge_id (cx_lease cx) = cx_challenge_id cx
     \<and> \<not> is_blank (cx_agent_id cx) \<and> \<not> is_blank (cx_session_id cx) \<and> \<not> is_blank (cx_thread_id cx)
     \<and> \<not> is_blank (cx_campaign_id cx) \<and> \<not> is_blank (cx_challenge_id cx)
     \<and> \<not> is_blank (le_lease_id (cx_lease cx)) \<and> \<not> is_blank (le_operator_id (cx_lease cx))
     \<and> 0 \<le> le_issued_at_ms (cx_lease cx)
     \<and> \<not> le_registration_allowed (cx_lease cx)
     \<and> le_authorized_identity_classes (cx_lease cx) \<noteq> {} \<and> le_pool_epoch (cx_lease cx) \<noteq> 0"

lemma ActorContext_validate_ok [validated]:
  "ActorContext_validate cx act now = Ok () \<longleftrightarrow>
     lease_binds cx act \<and> le_issued_at_ms (cx_lease cx) \<le> now \<and> now < le_expires_at_ms (cx_lease cx)"
  by (auto simp: ActorContext_validate_def lease_binds_def Let_def)

lemma ActorContext_validate_role:
  "ActorContext_validate cx act now = Ok () \<Longrightarrow> authorize_action (cx_role cx) act = Ok ()"
  by (simp add: ActorContext_validate_ok lease_binds_def)

section \<open>Message envelopes\<close>

datatype MessageType = Command | Report | Event | Query | Response | Control

datatype Topic = Assignment | Experiment | Score | Stuck | Handoff | Shutdown

record Party =
  pa_session_id :: string
  pa_thread_id :: string
  pa_role :: Role

record MessageEvidence =
  me_artifact_id :: string
  me_sha256 :: string
  me_path :: string
  me_provenance :: string

record MessageEnvelope =
  en_schema_version :: string
  en_message_id :: string
  en_message_type :: MessageType
  en_topic :: Topic
  en_campaign_id :: string
  en_challenge_id :: "string option"
  en_sender :: Party
  en_recipient :: Party
  en_parent_message_id :: "string option"
  en_correlation_id :: string
  en_causation_id :: "string option"
  en_stream_seq :: nat
  en_issued_at_ms :: int
  en_expires_at_ms :: int
  en_priority :: nat
  en_requires_ack :: bool
  en_trigger_turn :: bool
  en_lease_id :: "string option"
  en_authority :: string
  en_expected_state_version :: nat
  en_idempotency_key :: string
  en_payload :: string
  en_evidence :: "MessageEvidence list"

definition message_evidence_ok :: "MessageEvidence \<Rightarrow> bool" where
  "message_evidence_ok v \<longleftrightarrow>
     \<not> (is_blank (me_artifact_id v) \<or> is_blank (me_provenance v) \<or> is_blank (me_path v)
        \<or> str_contains (me_path v) ''..'' \<or> is_absolute (me_path v)
        \<or> length (me_sha256 v) \<noteq> 64 \<or> me_sha256 v \<noteq> to_ascii_lowercase (me_sha256 v)
        \<or> \<not> list_all ascii_hexdigit (me_sha256 v))"

definition MessageEnvelope_validate :: "MessageEnvelope \<Rightarrow> int \<Rightarrow> CoordinationError + unit" where
  "MessageEnvelope_validate m now_ms = checks
     ([fail_if (en_schema_version m \<noteq> SCHEMA_VERSION \<or> is_blank (en_message_id m)
          \<or> is_blank (en_campaign_id m) \<or> is_blank (en_correlation_id m)
          \<or> is_blank (en_idempotency_key m) \<or> is_blank (en_authority m) \<or> is_blank (en_payload m)
          \<or> is_blank (pa_session_id (en_sender m)) \<or> is_blank (pa_thread_id (en_sender m))
          \<or> is_blank (pa_session_id (en_recipient m)) \<or> is_blank (pa_thread_id (en_recipient m)))
         (InvalidDecision ''message envelope identifiers and payload are required''),
       fail_if (en_challenge_id m = Some [])
         (InvalidDecision ''challenge_id cannot be empty when present''),
       fail_if (en_expires_at_ms m \<le> en_issued_at_ms m \<or> now_ms > en_expires_at_ms m)
         (InvalidDecision ''message is expired or has an invalid lifetime''),
       fail_if (en_priority m > 3) (InvalidDecision ''message priority must be within 0..=3''),
       fail_if (en_trigger_turn m \<and> en_message_type m \<notin> set [Command, Control])
         (InvalidDecision ''only command/control messages may trigger a turn''),
       fail_if (en_trigger_turn m \<and> en_authority m \<notin> set [''user'', ''chief''])
         (InvalidDecision ''triggering a turn requires user or chief authority'')]
      @ map (\<lambda>v. fail_if (\<not> message_evidence_ok v)
               (InvalidDecision ''message evidence must be hashed, relative, and provenance-bound''))
          (en_evidence m))"

definition envelope_action :: "Role \<Rightarrow> Action" where
  "envelope_action r = (case r of Chief \<Rightarrow> Decide | Solver \<Rightarrow> WriteWorkspace | _ \<Rightarrow> MonitorReadOnly)"

definition MessageEnvelope_validate_for_context ::
  "MessageEnvelope \<Rightarrow> ActorContext \<Rightarrow> int \<Rightarrow> CoordinationError + unit" where
  "MessageEnvelope_validate_for_context m cx now_ms = checks
     [MessageEnvelope_validate m now_ms,
      ActorContext_validate cx (envelope_action (cx_role cx)) now_ms,
      fail_if (pa_session_id (en_sender m) \<noteq> cx_session_id cx
          \<or> pa_thread_id (en_sender m) \<noteq> cx_thread_id cx
          \<or> pa_role (en_sender m) \<noteq> cx_role cx
          \<or> en_campaign_id m \<noteq> cx_campaign_id cx
          \<or> (case en_challenge_id m of Some c \<Rightarrow> c | None \<Rightarrow> []) \<noteq> cx_challenge_id cx
          \<or> en_lease_id m \<noteq> Some (le_lease_id (cx_lease cx))
          \<or> (en_trigger_turn m \<and> (cx_role cx \<noteq> Chief \<or> en_authority m \<noteq> ''chief'')))
        (Unauthorized (cx_role cx) Decide)]"

lemma MessageEnvelope_validate_ok [validated]:
  "MessageEnvelope_validate m now = Ok () \<longleftrightarrow>
     en_schema_version m = SCHEMA_VERSION \<and> \<not> is_blank (en_message_id m)
     \<and> \<not> is_blank (en_campaign_id m) \<and> \<not> is_blank (en_correlation_id m)
     \<and> \<not> is_blank (en_idempotency_key m) \<and> \<not> is_blank (en_authority m) \<and> \<not> is_blank (en_payload m)
     \<and> \<not> is_blank (pa_session_id (en_sender m)) \<and> \<not> is_blank (pa_thread_id (en_sender m))
     \<and> \<not> is_blank (pa_session_id (en_recipient m)) \<and> \<not> is_blank (pa_thread_id (en_recipient m))
     \<and> en_challenge_id m \<noteq> Some [] \<and> en_issued_at_ms m < en_expires_at_ms m
     \<and> now \<le> en_expires_at_ms m \<and> en_priority m \<le> 3
     \<and> (en_trigger_turn m \<longrightarrow> en_message_type m \<in> {Command, Control} \<and> en_authority m \<in> {''user'', ''chief''})
     \<and> list_all message_evidence_ok (en_evidence m)"
  unfolding MessageEnvelope_validate_def
  by (auto simp: list_all_iff)

lemma MessageEnvelope_validate_for_context_ok [validated]:
  "MessageEnvelope_validate_for_context m cx now = Ok () \<longleftrightarrow>
     MessageEnvelope_validate m now = Ok ()
     \<and> ActorContext_validate cx (envelope_action (cx_role cx)) now = Ok ()
     \<and> pa_session_id (en_sender m) = cx_session_id cx \<and> pa_thread_id (en_sender m) = cx_thread_id cx
     \<and> pa_role (en_sender m) = cx_role cx \<and> en_campaign_id m = cx_campaign_id cx
     \<and> en_challenge_id m = Some (cx_challenge_id cx)
     \<and> en_lease_id m = Some (le_lease_id (cx_lease cx))
     \<and> (en_trigger_turn m \<longrightarrow> cx_role cx = Chief \<and> en_authority m = ''chief'')"
proof (cases "en_challenge_id m")
  case None
  have "\<not> (ActorContext_validate cx (envelope_action (cx_role cx)) now = Ok () \<and> cx_challenge_id cx = [])"
    by (auto simp: ActorContext_validate_ok lease_binds_def)
  with None show ?thesis
    by (auto simp: MessageEnvelope_validate_for_context_def simp del: is_blank_Nil)
next
  case (Some c)
  then show ?thesis
    by (auto simp: MessageEnvelope_validate_for_context_def)
qed

section \<open>Properties\<close>

text \<open>
  A lease is a time-bounded capability.  If an actor context validates for an action at some
  moment, then it validates for that action at exactly the moments from issue up to but excluding
  expiry, the action is in the intersection of the role's capabilities and the lease's allowed
  actions, the lease is the caller's own (agent, role, campaign and challenge), it cannot register
  agents and its identity pool is frozen.
\<close>

theorem lease_is_a_bounded_capability:
  assumes "ActorContext_validate cx act now = Ok ()"
  shows "{t. ActorContext_validate cx act t = Ok ()}
      = {le_issued_at_ms (cx_lease cx) ..< le_expires_at_ms (cx_lease cx)}
    \<and> authorize_action (cx_role cx) act = Ok () \<and> act \<in> le_allowed_actions (cx_lease cx)
    \<and> le_owner_agent_id (cx_lease cx) = cx_agent_id cx \<and> le_role (cx_lease cx) = cx_role cx
    \<and> le_campaign_id (cx_lease cx) = cx_campaign_id cx
    \<and> le_challenge_id (cx_lease cx) = cx_challenge_id cx
    \<and> \<not> le_registration_allowed (cx_lease cx)
    \<and> le_authorized_identity_classes (cx_lease cx) \<noteq> {} \<and> le_pool_epoch (cx_lease cx) > 0"
  using assms unfolding ActorContext_validate_ok by (auto simp: lease_binds_def)

definition sample_context :: "Role \<Rightarrow> string \<Rightarrow> Action set \<Rightarrow> ActorContext" where
  "sample_context r aid acts =
     \<lparr> cx_agent_id = aid, cx_session_id = ''s1'', cx_thread_id = ''t1'', cx_role = r,
       cx_campaign_id = ''camp'', cx_challenge_id = ''chal'',
       cx_lease = \<lparr> le_lease_id = ''l1'', le_campaign_id = ''camp'', le_challenge_id = ''chal'',
         le_owner_agent_id = aid, le_role = r, le_issued_at_ms = 10, le_expires_at_ms = 100,
         le_epoch = 1, le_allowed_actions = acts, le_authorized_identity_classes = {''pool''},
         le_operator_id = ''op'', le_pool_epoch = 1, le_registration_allowed = False \<rparr> \<rparr>"

lemma sample_context_ok [simp]:
  "ActorContext_validate (sample_context r aid acts) act t = Ok () \<longleftrightarrow>
     authorize_action r act = Ok () \<and> act \<in> acts \<and> \<not> is_blank aid \<and> 10 \<le> t \<and> t < 100"
  by (auto simp: ActorContext_validate_ok lease_binds_def sample_context_def)

theorem lease_is_a_bounded_capability_witness:
  "ActorContext_validate (sample_context Chief ''chief'' {Decide}) Decide 50 = Ok ()
   \<and> ActorContext_validate (sample_context Chief ''chief'' {Decide}) Decide 100 \<noteq> Ok ()"
proof -
  have ok: "ActorContext_validate (sample_context Chief ''chief'' {Decide}) Decide 50 = Ok ()"
    by simp
  have "100 \<notin> {t. ActorContext_validate (sample_context Chief ''chief'' {Decide}) Decide t = Ok ()}"
    unfolding lease_is_a_bounded_capability [OF ok, THEN conjunct1] by (simp add: sample_context_def)
  with ok show ?thesis by blast
qed

text \<open>
  A message that passes the context-bound validation and triggers a turn was sent by the chief,
  in the chief's own session and thread, for the campaign and the challenge of the chief's lease,
  while that lease was live and granted \<open>Decide\<close>; it is a command or control message that has not
  expired.  No message of another role wakes a thread, whatever authority it claims.
\<close>

theorem only_the_leased_chief_triggers_turns:
  assumes "MessageEnvelope_validate_for_context m cx now = Ok ()" and "en_trigger_turn m"
  shows "cx_role cx = Chief \<and> pa_role (en_sender m) = Chief \<and> en_authority m = ''chief''
    \<and> Decide \<in> le_allowed_actions (cx_lease cx)
    \<and> le_issued_at_ms (cx_lease cx) \<le> now \<and> now < le_expires_at_ms (cx_lease cx)
    \<and> en_message_type m \<in> {Command, Control}
    \<and> now \<le> en_expires_at_ms m
    \<and> pa_session_id (en_sender m) = cx_session_id cx \<and> pa_thread_id (en_sender m) = cx_thread_id cx
    \<and> en_lease_id m = Some (le_lease_id (cx_lease cx))
    \<and> en_campaign_id m = le_campaign_id (cx_lease cx)
    \<and> en_challenge_id m = Some (le_challenge_id (cx_lease cx))"
  using assms unfolding MessageEnvelope_validate_for_context_ok MessageEnvelope_validate_ok
    ActorContext_validate_ok lease_binds_def
  by (auto simp: envelope_action_def)

definition sample_envelope :: MessageEnvelope where
  "sample_envelope =
     \<lparr> en_schema_version = SCHEMA_VERSION, en_message_id = ''m1'', en_message_type = Command,
       en_topic = Assignment, en_campaign_id = ''camp'', en_challenge_id = Some ''chal'',
       en_sender = \<lparr> pa_session_id = ''s1'', pa_thread_id = ''t1'', pa_role = Chief \<rparr>,
       en_recipient = \<lparr> pa_session_id = ''s2'', pa_thread_id = ''t2'', pa_role = Solver \<rparr>,
       en_parent_message_id = None, en_correlation_id = ''k'', en_causation_id = None,
       en_stream_seq = 0, en_issued_at_ms = 10, en_expires_at_ms = 90, en_priority = 1,
       en_requires_ack = True, en_trigger_turn = True, en_lease_id = Some ''l1'',
       en_authority = ''chief'', en_expected_state_version = 0, en_idempotency_key = ''i'',
       en_payload = ''go'', en_evidence = [] \<rparr>"

theorem only_the_leased_chief_triggers_turns_witness:
  "MessageEnvelope_validate_for_context sample_envelope (sample_context Chief ''chief'' {Decide}) 50 = Ok ()
   \<and> en_message_type sample_envelope \<in> {Command, Control}"
proof -
  have "ActorContext_validate (sample_context Chief ''chief'' {Decide})
      (envelope_action (cx_role (sample_context Chief ''chief'' {Decide}))) 50 = Ok ()"
    unfolding sample_context_ok by (simp add: sample_context_def envelope_action_def)
  moreover have "MessageEnvelope_validate sample_envelope 50 = Ok ()"
    unfolding MessageEnvelope_validate_ok by (simp add: sample_envelope_def)
  ultimately have ok: "MessageEnvelope_validate_for_context sample_envelope
      (sample_context Chief ''chief'' {Decide}) 50 = Ok ()"
    unfolding MessageEnvelope_validate_for_context_ok
    by (simp add: sample_envelope_def sample_context_def)
  moreover have "en_trigger_turn sample_envelope" by (simp add: sample_envelope_def)
  ultimately show ?thesis
    using only_the_leased_chief_triggers_turns by blast
qed

end
