(* ===== verification/Coordinator.thy ===== *)
theory Coordinator
  imports Leases
begin

text \<open>
  The event-sourced coordinator of \<open>ascodex-coordination/src/lib.rs\<close>: agent records, the event
  log, \<open>commit_event\<close> with its optimistic version check and idempotency keys, the campaign and
  agent transitions (role-only and context-bound), and restoring a coordinator from a snapshot by
  replaying its log.

  The only panic of the component, the \<open>expect\<close> of \<open>replay_idempotent\<close>, is \<open>None\<close>.  The \<open>u64\<close>
  version counts the entries of the event vector (\<open>coordinator_inv\<close>), whose length is at most
  \<open>isize::MAX\<close>, so its increment cannot wrap and is written \<open>+ 1\<close>.
\<close>

section \<open>State\<close>

record AgentRecord =
  ag_agent_id :: string
  ag_role :: Role
  ag_state :: AgentState
  ag_parent_agent_id :: "string option"
  ag_workspace :: string
  ag_lease_id :: "string option"

record CoordinatorEventRecord =
  er_event_id :: string
  er_idempotency_key :: string
  er_version :: nat
  er_actor :: Role
  er_aggregate :: string
  er_event :: string
  er_agent :: "AgentRecord option"

type_synonym agent_map = "(string \<times> AgentRecord) list"

record CoordinatorSnapshot =
  cs_schema_version :: string
  cs_campaign_id :: string
  cs_challenge_id :: string
  cs_campaign_state :: CampaignState
  cs_state_version :: nat
  cs_agents :: agent_map
  cs_events :: "CoordinatorEventRecord list"

record Coordinator =
  co_snapshot :: CoordinatorSnapshot
  co_applied_idempotency_keys :: "string set"

definition Coordinator_new :: "string \<Rightarrow> string \<Rightarrow> Coordinator" where
  "Coordinator_new campaign_id challenge_id =
     \<lparr> co_snapshot = \<lparr> cs_schema_version = SCHEMA_VERSION, cs_campaign_id = campaign_id,
         cs_challenge_id = challenge_id, cs_campaign_state = CampaignState.New,
         cs_state_version = 0, cs_agents = [], cs_events = [] \<rparr>,
       co_applied_idempotency_keys = {} \<rparr>"

section \<open>Committing events\<close>

type_synonym outcome = "((CoordinationError + nat) \<times> Coordinator) option"

definition commit_event ::
  "Coordinator \<Rightarrow> Role \<Rightarrow> nat \<Rightarrow> string \<Rightarrow> string \<Rightarrow> string \<Rightarrow> AgentRecord option \<Rightarrow>
   (CoordinatorSnapshot \<Rightarrow> CoordinatorSnapshot) \<Rightarrow> (CoordinationError + nat) \<times> Coordinator" where
  "commit_event c actor expected_version event_id idempotency_key event agent apply =
     (let s = co_snapshot c in
      if is_blank event_id \<or> is_blank idempotency_key
      then (Err (InvalidDecision ''event id and idempotency key are required''), c)
      else if idempotency_key \<in> co_applied_idempotency_keys c
      then (Ok (cs_state_version s), c)
      else if list_ex (\<lambda>r. er_event_id r = event_id) (cs_events s)
      then (Err (InvalidDecision ''event id was reused for a different operation''), c)
      else if expected_version \<noteq> cs_state_version s
      then (Err (InvalidDecision (''coordinator version conflict: expected '' @ decimal expected_version
               @ '', found '' @ decimal (cs_state_version s))), c)
      else
        let s1 = apply s;
            s2 = s1\<lparr> cs_state_version := cs_state_version s1 + 1 \<rparr>;
            s3 = s2\<lparr> cs_events := cs_events s2 @
              [\<lparr> er_event_id = event_id, er_idempotency_key = idempotency_key,
                 er_version = cs_state_version s2, er_actor = actor,
                 er_aggregate = cs_campaign_id s2, er_event = event, er_agent = agent \<rparr>] \<rparr>
        in (Ok (cs_state_version s3),
            \<lparr> co_snapshot = s3,
              co_applied_idempotency_keys = insert idempotency_key (co_applied_idempotency_keys c) \<rparr>))"

definition replay_idempotent ::
  "Coordinator \<Rightarrow> string \<Rightarrow> string \<Rightarrow> Role \<Rightarrow> string \<Rightarrow> AgentRecord option \<Rightarrow>
   (CoordinationError + nat) option" where
  "replay_idempotent c idempotency_key event_id actor event agent =
     (case List.find (\<lambda>r. er_idempotency_key r = idempotency_key) (cs_events (co_snapshot c)) of
        None \<Rightarrow> None
      | Some r \<Rightarrow> Some
          (if er_event_id r = event_id \<and> er_actor r = actor \<and> er_event r = event \<and> er_agent r = agent
           then Ok (cs_state_version (co_snapshot c))
           else Err (InvalidDecision ''idempotency key was reused with a different event'')))"

section \<open>Agents\<close>

definition validate_agent_registration :: "agent_map \<Rightarrow> AgentRecord \<Rightarrow> CoordinationError + unit" where
  "validate_agent_registration agents a =
     (let invalid_chief = ag_role a = Chief
            \<and> (ag_parent_agent_id a \<noteq> None \<or> ag_lease_id a \<noteq> None
               \<or> list_ex (\<lambda>(_, candidate). ag_role candidate = Chief) agents);
          invalid_child = ag_role a \<noteq> Chief
            \<and> (ag_parent_agent_id a = None \<or> none_or_empty (ag_lease_id a)
               \<or> \<not> (case map_of agents (case ag_parent_agent_id a of None \<Rightarrow> [] | Some p \<Rightarrow> p) of
                      None \<Rightarrow> False | Some parent \<Rightarrow> ag_role parent = Chief)
               \<or> list_ex (\<lambda>(_, candidate). ag_lease_id candidate = ag_lease_id a) agents)
      in fail_if (is_blank (ag_agent_id a) \<or> is_blank (ag_workspace a)
            \<or> ag_state a \<noteq> AgentState.Registered \<or> map_of agents (ag_agent_id a) \<noteq> None
            \<or> invalid_chief \<or> invalid_child)
          (InvalidDecision
             ''agent registration has invalid identity, state, lineage, workspace, or lease''))"

definition register_agent ::
  "Coordinator \<Rightarrow> Role \<Rightarrow> AgentRecord \<Rightarrow> nat \<Rightarrow> string \<Rightarrow> string \<Rightarrow> outcome" where
  "register_agent c actor a expected_version event_id idempotency_key =
     (if actor \<noteq> Chief then Some (Err (Unauthorized actor SpawnChild), c)
      else let event = ''agent:'' @ ag_agent_id a @ '':registered'' in
      if idempotency_key \<in> co_applied_idempotency_keys c
      then map_option (\<lambda>r. (r, c)) (replay_idempotent c idempotency_key event_id Chief event (Some a))
      else case validate_agent_registration (cs_agents (co_snapshot c)) a of
        Inl e \<Rightarrow> Some (Err e, c)
      | Inr _ \<Rightarrow> Some (commit_event c actor expected_version event_id idempotency_key event (Some a)
          (\<lambda>s. s\<lparr> cs_agents := btree_insert (ag_agent_id a) a (cs_agents s) \<rparr>)))"

definition agent_self_action :: "AgentEvent \<Rightarrow> bool" where
  "agent_self_action e \<longleftrightarrow> e \<in> set [AgentEvent.WaitInput, AgentEvent.WaitScore,
     AgentEvent.RequestHandoff, AgentEvent.ProposeEnd, AgentEvent.Crash]"

definition transition_agent ::
  "Coordinator \<Rightarrow> Role \<Rightarrow> string \<Rightarrow> AgentEvent \<Rightarrow> nat \<Rightarrow> string \<Rightarrow> string \<Rightarrow> outcome" where
  "transition_agent c actor agent_id e expected_version event_id idempotency_key =
     (let event_name = ''agent:'' @ agent_id @ '':'' @ agent_event_debug e in
      if idempotency_key \<in> co_applied_idempotency_keys c
      then map_option (\<lambda>r. (r, c)) (replay_idempotent c idempotency_key event_id actor event_name None)
      else case map_of (cs_agents (co_snapshot c)) agent_id of
        None \<Rightarrow> Some (Err (InvalidDecision ''agent is not registered''), c)
      | Some a \<Rightarrow>
          if agent_self_action e \<and> actor \<noteq> ag_role a then Some (Err (Unauthorized actor Decide), c)
          else if \<not> agent_self_action e \<and> actor \<noteq> Chief then Some (Err (Unauthorized actor Decide), c)
          else case agent_transition (ag_state a) e of
            Inl x \<Rightarrow> Some (Err x, c)
          | Inr next \<Rightarrow> Some (commit_event c actor expected_version event_id idempotency_key event_name None
              (\<lambda>s. s\<lparr> cs_agents := btree_modify agent_id (\<lambda>a. a\<lparr> ag_state := next \<rparr>) (cs_agents s) \<rparr>)))"

section \<open>Campaigns\<close>

definition campaign_event_permitted :: "CampaignEvent \<Rightarrow> Role \<Rightarrow> bool" where
  "campaign_event_permitted e actor \<longleftrightarrow>
     (case e of
        CampaignEvent.EvidenceReady \<Rightarrow> actor = Solver
      | CampaignEvent.TransportAccepted \<Rightarrow> actor = Solver
      | CampaignEvent.ScoreObserved \<Rightarrow> actor \<in> set [Monitor, JudgeAnalyst]
      | CampaignEvent.ScoreVerified \<Rightarrow> actor = JudgeAnalyst
      | _ \<Rightarrow> actor = Chief)"

definition transition_campaign ::
  "Coordinator \<Rightarrow> Role \<Rightarrow> CampaignEvent \<Rightarrow> nat \<Rightarrow> string \<Rightarrow> string \<Rightarrow> outcome" where
  "transition_campaign c actor e expected_version event_id idempotency_key =
     (if \<not> campaign_event_permitted e actor then Some (Err (Unauthorized actor Decide), c)
      else let event_name = ''campaign:'' @ campaign_event_debug e in
      if idempotency_key \<in> co_applied_idempotency_keys c
      then map_option (\<lambda>r. (r, c)) (replay_idempotent c idempotency_key event_id actor event_name None)
      else case campaign_transition (cs_campaign_state (co_snapshot c)) e of
        Inl x \<Rightarrow> Some (Err x, c)
      | Inr next \<Rightarrow> Some (commit_event c actor expected_version event_id idempotency_key event_name None
          (\<lambda>s. s\<lparr> cs_campaign_state := next \<rparr>)))"

section \<open>Context-bound entry points\<close>

definition transition_campaign_with_context ::
  "Coordinator \<Rightarrow> ActorContext \<Rightarrow> CampaignEvent \<Rightarrow> nat \<Rightarrow> string \<Rightarrow> string \<Rightarrow> int \<Rightarrow> outcome" where
  "transition_campaign_with_context c cx e expected_version event_id idempotency_key now_ms =
     (case ActorContext_validate cx Decide now_ms of
        Inl x \<Rightarrow> Some (Err x, c)
      | Inr _ \<Rightarrow>
          if cx_campaign_id cx \<noteq> cs_campaign_id (co_snapshot c)
             \<or> cx_challenge_id cx \<noteq> cs_challenge_id (co_snapshot c)
          then Some (Err (InvalidDecision
                 ''actor context is bound to a different campaign or challenge''), c)
          else transition_campaign c (cx_role cx) e expected_version event_id idempotency_key)"

definition transition_agent_with_context ::
  "Coordinator \<Rightarrow> ActorContext \<Rightarrow> string \<Rightarrow> AgentEvent \<Rightarrow> nat \<Rightarrow> string \<Rightarrow> string \<Rightarrow> int \<Rightarrow> outcome" where
  "transition_agent_with_context c cx agent_id e expected_version event_id idempotency_key now_ms =
     (case ActorContext_validate cx TransitionAgent now_ms of
        Inl x \<Rightarrow> Some (Err x, c)
      | Inr _ \<Rightarrow>
          if cx_campaign_id cx \<noteq> cs_campaign_id (co_snapshot c)
             \<or> cx_challenge_id cx \<noteq> cs_challenge_id (co_snapshot c)
          then Some (Err (InvalidDecision
                 ''actor context is bound to a different campaign or challenge''), c)
          else case map_of (cs_agents (co_snapshot c)) agent_id of
            None \<Rightarrow> Some (Err (InvalidDecision ''agent is not registered''), c)
          | Some target \<Rightarrow>
              if cx_role cx \<noteq> Chief \<and> cx_agent_id cx \<noteq> agent_id
              then Some (Err (Unauthorized (cx_role cx) TransitionAgent), c)
              else if cx_role cx = Chief \<and> ag_role target = Chief \<and> cx_agent_id cx \<noteq> agent_id
              then Some (Err (Unauthorized (cx_role cx) TransitionAgent), c)
              else transition_agent c (cx_role cx) agent_id e expected_version event_id idempotency_key)"

section \<open>Restoring from a snapshot\<close>

text \<open>
  The part of \<open>replay_event\<close> that decides and changes the replayed state, on the two fields it
  touches, and the method itself.
\<close>

type_synonym replayed = "CampaignState \<times> agent_map"

definition replay_state :: "replayed \<Rightarrow> CoordinatorEventRecord \<Rightarrow> CoordinationError + replayed" where
  "replay_state st r =
     (let (campaign_state, agents) = st in
      case er_agent r of
        Some a \<Rightarrow>
          if er_event r \<noteq> ''agent:'' @ ag_agent_id a @ '':registered'' \<or> er_actor r \<noteq> Chief
          then Err (InvalidDecision ''invalid agent registration event'')
          else (case validate_agent_registration agents a of
                  Inl x \<Rightarrow> Err x
                | Inr _ \<Rightarrow> Ok (campaign_state, btree_insert (ag_agent_id a) a agents))
      | None \<Rightarrow>
      (case strip_prefix ''campaign:'' (er_event r) of
        Some label \<Rightarrow>
          (case campaign_event_from_debug label of
             None \<Rightarrow> Err (InvalidDecision ''unknown campaign event in snapshot'')
           | Some e \<Rightarrow>
               if \<not> campaign_event_permitted e (er_actor r)
               then Err (InvalidDecision ''unauthorized campaign event in snapshot'')
               else (case campaign_transition campaign_state e of
                       Inl x \<Rightarrow> Err x | Inr next \<Rightarrow> Ok (next, agents)))
      | None \<Rightarrow>
      (case strip_prefix ''agent:'' (er_event r) of
        Some rest \<Rightarrow>
          (case split_once (CHR '':'') rest of
             None \<Rightarrow> Err (InvalidDecision ''malformed agent event in snapshot'')
           | Some (agent_id, label) \<Rightarrow>
               (case agent_event_from_debug label of
                  None \<Rightarrow> Err (InvalidDecision ''unknown agent event in snapshot'')
                | Some e \<Rightarrow>
                    (case map_of agents agent_id of
                       None \<Rightarrow> Err (InvalidDecision ''agent event references unknown agent'')
                     | Some a \<Rightarrow>
                         if agent_self_action e \<and> er_actor r \<noteq> ag_role a
                            \<or> \<not> agent_self_action e \<and> er_actor r \<noteq> Chief
                         then Err (InvalidDecision ''unauthorized agent event in snapshot'')
                         else (case agent_transition (ag_state a) e of
                                 Inl x \<Rightarrow> Err x
                               | Inr next \<Rightarrow>
                                   Ok (campaign_state,
                                       btree_modify agent_id (\<lambda>a. a\<lparr> ag_state := next \<rparr>) agents)))))
      | None \<Rightarrow> Err (InvalidDecision ''unknown event aggregate in snapshot''))))"

definition replay_event ::
  "Coordinator \<Rightarrow> CoordinatorEventRecord \<Rightarrow> CoordinationError + Coordinator" where
  "replay_event c r =
     (let s = co_snapshot c in
      case replay_state (cs_campaign_state s, cs_agents s) r of
        Inl x \<Rightarrow> Err x
      | Inr (campaign_state, agents) \<Rightarrow> Ok
          \<lparr> co_snapshot = s\<lparr> cs_campaign_state := campaign_state, cs_agents := agents,
              cs_state_version := cs_state_version s + 1, cs_events := cs_events s @ [r] \<rparr>,
            co_applied_idempotency_keys =
              insert (er_idempotency_key r) (co_applied_idempotency_keys c) \<rparr>)"

text \<open>The loop of \<open>from_snapshot\<close>: \<open>offset\<close>, the two sets of seen keys and ids, the replay.\<close>

fun replay_log ::
  "nat \<Rightarrow> string set \<Rightarrow> string set \<Rightarrow> Coordinator \<Rightarrow> CoordinatorEventRecord list \<Rightarrow>
   CoordinationError + string set \<times> Coordinator" where
  "replay_log offset applied event_ids replay [] = Ok (applied, replay)"
| "replay_log offset applied event_ids replay (r # rs) =
     (if er_version r \<noteq> offset + 1 \<or> is_blank (er_event_id r) \<or> is_blank (er_idempotency_key r)
         \<or> er_idempotency_key r \<in> applied \<or> er_event_id r \<in> event_ids
      then Err (InvalidDecision
             ''coordinator snapshot contains duplicate, empty, or non-contiguous events'')
      else case replay_event replay r of
             Inl x \<Rightarrow> Err x
           | Inr replay' \<Rightarrow> replay_log (offset + 1) (insert (er_idempotency_key r) applied)
               (insert (er_event_id r) event_ids) replay' rs)"

definition from_snapshot :: "CoordinatorSnapshot \<Rightarrow> CoordinationError + Coordinator" where
  "from_snapshot s =
     (if cs_schema_version s \<noteq> SCHEMA_VERSION \<or> is_blank (cs_campaign_id s) \<or> is_blank (cs_challenge_id s)
      then Err (InvalidDecision ''coordinator snapshot has invalid identifiers or schema'')
      else case replay_log 0 {} {} (Coordinator_new (cs_campaign_id s) (cs_challenge_id s)) (cs_events s) of
        Inl x \<Rightarrow> Err x
      | Inr (applied, replay) \<Rightarrow>
          if length (cs_events s) \<noteq> cs_state_version s
          then Err (InvalidDecision ''coordinator snapshot event count does not match state version'')
          else if cs_campaign_state (co_snapshot replay) \<noteq> cs_campaign_state s
             \<or> cs_agents (co_snapshot replay) \<noteq> cs_agents s
          then Err (InvalidDecision ''coordinator snapshot state does not match its event log'')
          else Ok \<lparr> co_snapshot = s, co_applied_idempotency_keys = applied \<rparr>)"

section \<open>The agent registry\<close>

text \<open>
  The registry invariant: records are stored under their own id, there is at most one chief, every
  other agent has the chief as its parent and holds a lease of its own.
\<close>

definition is_chief :: "agent_map \<Rightarrow> string \<Rightarrow> bool" where
  "is_chief m k \<longleftrightarrow> (\<exists>a. map_of m k = Some a \<and> ag_role a = Chief)"

definition agent_ok :: "agent_map \<Rightarrow> string \<Rightarrow> AgentRecord \<Rightarrow> bool" where
  "agent_ok m k a \<longleftrightarrow> ag_agent_id a = k \<and> \<not> is_blank k \<and> \<not> is_blank (ag_workspace a)
     \<and> (if ag_role a = Chief then ag_parent_agent_id a = None \<and> ag_lease_id a = None
        else \<not> none_or_empty (ag_lease_id a) \<and> (\<exists>p. ag_parent_agent_id a = Some p \<and> is_chief m p))"

definition agents_inv :: "agent_map \<Rightarrow> bool" where
  "agents_inv m \<longleftrightarrow> btree_inv m
     \<and> (\<forall>k a. map_of m k = Some a \<longrightarrow> agent_ok m k a)
     \<and> (\<forall>k k'. is_chief m k \<longrightarrow> is_chief m k' \<longrightarrow> k = k')
     \<and> (\<forall>k a k' a'. map_of m k = Some a \<longrightarrow> map_of m k' = Some a' \<longrightarrow>
          ag_lease_id a = ag_lease_id a' \<longrightarrow> ag_lease_id a \<noteq> None \<longrightarrow> k = k')"

lemma agents_inv_Nil [simp]: "agents_inv []"
  by (simp add: agents_inv_def is_chief_def)

lemma agents_invD:
  assumes "agents_inv m"
  shows "btree_inv m" "map_of m k = Some a \<Longrightarrow> agent_ok m k a"
    "is_chief m k \<Longrightarrow> is_chief m k' \<Longrightarrow> k = k'"
    "map_of m k = Some a \<Longrightarrow> map_of m k' = Some a' \<Longrightarrow> ag_lease_id a = ag_lease_id a' \<Longrightarrow>
     ag_lease_id a \<noteq> None \<Longrightarrow> k = k'"
  using assms unfolding agents_inv_def by blast+

lemma agent_ok_mono:
  "agent_ok m k a \<Longrightarrow> (\<And>p. is_chief m p \<Longrightarrow> is_chief m' p) \<Longrightarrow> agent_ok m' k a"
  by (auto simp: agent_ok_def split: if_splits)

lemma validate_agent_registration_ok:
  assumes "btree_inv m"
  shows "validate_agent_registration m a = Ok () \<longleftrightarrow>
     agent_ok m (ag_agent_id a) a \<and> ag_state a = AgentState.Registered
     \<and> map_of m (ag_agent_id a) = None
     \<and> (ag_role a = Chief \<longrightarrow> (\<forall>k. \<not> is_chief m k))
     \<and> (ag_role a \<noteq> Chief \<longrightarrow> (\<forall>k b. map_of m k = Some b \<longrightarrow> ag_lease_id b \<noteq> ag_lease_id a))"
  unfolding validate_agent_registration_def btree_values_ex [OF assms] Let_def agent_ok_def is_chief_def
  by (cases "ag_parent_agent_id a") (auto split: option.splits)

lemma agents_inv_register:
  assumes inv: "agents_inv m" and ok: "validate_agent_registration m a = Ok ()"
  shows "agents_inv (btree_insert (ag_agent_id a) a m)"
proof -
  let ?m = "btree_insert (ag_agent_id a) a m"
  note bt = agents_invD(1) [OF inv]
  note ok' = ok [unfolded validate_agent_registration_ok [OF bt]]
  have old: "map_of ?m k = Some b \<longleftrightarrow> (if k = ag_agent_id a then b = a else map_of m k = Some b)" for k b
    by auto
  have chiefs: "is_chief ?m k \<longleftrightarrow> k = ag_agent_id a \<and> ag_role a = Chief \<or> is_chief m k" for k
    using ok' unfolding is_chief_def old by (auto split: if_splits)
  have lease: "ag_lease_id b \<noteq> ag_lease_id a" if "map_of m k = Some b" "ag_lease_id a \<noteq> None" for k b
    using ok' that by (auto simp: agent_ok_def split: if_splits)
  show ?thesis
    unfolding agents_inv_def
  proof (intro conjI allI impI)
    show "btree_inv ?m" using bt by simp
  next
    fix k b assume "map_of ?m k = Some b"
    then have "agent_ok m k b"
      using ok' agents_invD(2) [OF inv] unfolding old by (auto split: if_splits)
    then show "agent_ok ?m k b" by (rule agent_ok_mono) (simp add: chiefs)
  next
    fix k k' assume "is_chief ?m k" "is_chief ?m k'"
    then show "k = k'" using ok' agents_invD(3) [OF inv] unfolding chiefs by blast
  next
    fix k b k' b'
    assume "map_of ?m k = Some b" "map_of ?m k' = Some b'" "ag_lease_id b = ag_lease_id b'"
      "ag_lease_id b \<noteq> None"
    then show "k = k'"
      using lease [of k b] lease [of k' b'] agents_invD(4) [OF inv, of k b k' b'] unfolding old
      by (auto split: if_splits)
  qed
qed

text \<open>A change of the lifecycle state alone keeps the registry invariant.\<close>

lemma agents_inv_state:
  assumes inv: "agents_inv m"
  shows "agents_inv (btree_modify k (\<lambda>a. a\<lparr> ag_state := x \<rparr>) m)"
proof -
  let ?m = "btree_modify k (\<lambda>a. a\<lparr> ag_state := x \<rparr>) m"
  have get: "\<exists>a y. map_of m j = Some a \<and> b = a\<lparr> ag_state := y \<rparr>" if "map_of ?m j = Some b" for j b
    using that by (cases "map_of m j") (auto split: if_splits intro: exI [of _ "ag_state b"])
  have chiefs: "is_chief ?m j \<longleftrightarrow> is_chief m j" for j
    unfolding is_chief_def by auto
  show ?thesis
    unfolding agents_inv_def
  proof (intro conjI allI impI)
    show "btree_inv ?m" using agents_invD(1) [OF inv] by simp
  next
    fix j b assume "map_of ?m j = Some b"
    then obtain a y where "map_of m j = Some a" "b = a\<lparr> ag_state := y \<rparr>" using get by blast
    then have "agent_ok m j b"
      using agents_invD(2) [OF inv] by (auto simp: agent_ok_def)
    then show "agent_ok ?m j b" by (rule agent_ok_mono) (simp add: chiefs)
  next
    fix j j' assume "is_chief ?m j" "is_chief ?m j'"
    then show "j = j'" using agents_invD(3) [OF inv] unfolding chiefs by blast
  next
    fix j b j' b'
    assume "map_of ?m j = Some b" "map_of ?m j' = Some b'" "ag_lease_id b = ag_lease_id b'"
      "ag_lease_id b \<noteq> None"
    then obtain a a' where "map_of m j = Some a" "map_of m j' = Some a'"
      "ag_lease_id a = ag_lease_id a'" "ag_lease_id a \<noteq> None"
      using get [of j b] get [of j' b'] by auto
    then show "j = j'" by (rule agents_invD(4) [OF inv])
  qed
qed

section \<open>Requests and the abstract specification\<close>

text \<open>
  A request to the coordinator is one of its three role-level operations with the caller's expected
  version, event id and idempotency key.  \<open>effect\<close> is the abstract specification: what an accepted
  request does to the campaign state and the registry, or why it is refused; it knows nothing of
  versions, keys or the log.
\<close>

datatype Request =
    RegisterAgent Role AgentRecord
  | TransitionCampaign Role CampaignEvent
  | TransitionAgent Role string AgentEvent

record Call =
  rq_body :: Request
  rq_expected_version :: nat
  rq_event_id :: string
  rq_key :: string

definition handle :: "Coordinator \<Rightarrow> Call \<Rightarrow> outcome" where
  "handle c q =
     (case rq_body q of
        RegisterAgent actor a \<Rightarrow>
          register_agent c actor a (rq_expected_version q) (rq_event_id q) (rq_key q)
      | TransitionCampaign actor e \<Rightarrow>
          transition_campaign c actor e (rq_expected_version q) (rq_event_id q) (rq_key q)
      | TransitionAgent actor k e \<Rightarrow>
          transition_agent c actor k e (rq_expected_version q) (rq_event_id q) (rq_key q))"

primrec request_actor :: "Request \<Rightarrow> Role" where
  "request_actor (RegisterAgent r a) = r"
| "request_actor (TransitionCampaign r e) = r"
| "request_actor (TransitionAgent r k e) = r"

primrec request_agent :: "Request \<Rightarrow> AgentRecord option" where
  "request_agent (RegisterAgent r a) = Some a"
| "request_agent (TransitionCampaign r e) = None"
| "request_agent (TransitionAgent r k e) = None"

primrec request_event :: "Request \<Rightarrow> string" where
  "request_event (RegisterAgent r a) = ''agent:'' @ ag_agent_id a @ '':registered''"
| "request_event (TransitionCampaign r e) = ''campaign:'' @ campaign_event_debug e"
| "request_event (TransitionAgent r k e) = ''agent:'' @ k @ '':'' @ agent_event_debug e"

primrec effect :: "replayed \<Rightarrow> Request \<Rightarrow> CoordinationError + replayed" where
  "effect st (RegisterAgent r a) =
     (if r \<noteq> Chief then Err (Unauthorized r SpawnChild)
      else case validate_agent_registration (snd st) a of
        Inl x \<Rightarrow> Err x | Inr _ \<Rightarrow> Ok (fst st, btree_insert (ag_agent_id a) a (snd st)))"
| "effect st (TransitionCampaign r e) =
     (if \<not> campaign_event_permitted e r then Err (Unauthorized r Decide)
      else case campaign_transition (fst st) e of
        Inl x \<Rightarrow> Err x | Inr next \<Rightarrow> Ok (next, snd st))"
| "effect st (TransitionAgent r k e) =
     (case map_of (snd st) k of
        None \<Rightarrow> Err (InvalidDecision ''agent is not registered'')
      | Some a \<Rightarrow>
          if r \<noteq> (if agent_self_action e then ag_role a else Chief) then Err (Unauthorized r Decide)
          else case agent_transition (ag_state a) e of
            Inl x \<Rightarrow> Err x
          | Inr next \<Rightarrow> Ok (fst st, btree_modify k (\<lambda>a. a\<lparr> ag_state := next \<rparr>) (snd st)))"

abbreviation version :: "Coordinator \<Rightarrow> nat" where
  "version c \<equiv> cs_state_version (co_snapshot c)"

abbreviation log :: "Coordinator \<Rightarrow> CoordinatorEventRecord list" where
  "log c \<equiv> cs_events (co_snapshot c)"

definition replayed_of :: "Coordinator \<Rightarrow> replayed" where
  "replayed_of c = (cs_campaign_state (co_snapshot c), cs_agents (co_snapshot c))"

definition record_of :: "Coordinator \<Rightarrow> Call \<Rightarrow> CoordinatorEventRecord" where
  "record_of c q =
     \<lparr> er_event_id = rq_event_id q, er_idempotency_key = rq_key q, er_version = version c + 1,
       er_actor = request_actor (rq_body q), er_aggregate = cs_campaign_id (co_snapshot c),
       er_event = request_event (rq_body q), er_agent = request_agent (rq_body q) \<rparr>"

definition appended :: "Coordinator \<Rightarrow> CoordinatorEventRecord \<Rightarrow> replayed \<Rightarrow> Coordinator" where
  "appended c r st =
     \<lparr> co_snapshot = (co_snapshot c)\<lparr> cs_campaign_state := fst st, cs_agents := snd st,
         cs_state_version := version c + 1, cs_events := log c @ [r] \<rparr>,
       co_applied_idempotency_keys = insert (er_idempotency_key r) (co_applied_idempotency_keys c) \<rparr>"

text \<open>A logged record that answers a repeated call.\<close>

definition record_matches :: "CoordinatorEventRecord \<Rightarrow> Call \<Rightarrow> bool" where
  "record_matches r q \<longleftrightarrow> er_event_id r = rq_event_id q \<and> er_actor r = request_actor (rq_body q)
     \<and> er_event r = request_event (rq_body q) \<and> er_agent r = request_agent (rq_body q)"

definition log_ok :: "CoordinatorEventRecord list \<Rightarrow> bool" where
  "log_ok es \<longleftrightarrow> map er_version es = [1 ..< Suc (length es)]
     \<and> distinct (map er_event_id es) \<and> distinct (map er_idempotency_key es)
     \<and> (\<forall>r \<in> set es. \<not> is_blank (er_event_id r) \<and> \<not> is_blank (er_idempotency_key r))"

definition coordinator_inv :: "Coordinator \<Rightarrow> bool" where
  "coordinator_inv c \<longleftrightarrow> cs_schema_version (co_snapshot c) = SCHEMA_VERSION
     \<and> version c = length (log c) \<and> log_ok (log c)
     \<and> co_applied_idempotency_keys c = er_idempotency_key ` set (log c)
     \<and> agents_inv (cs_agents (co_snapshot c))"

lemma coordinator_inv_new [simp]: "coordinator_inv (Coordinator_new a b)"
  by (simp add: coordinator_inv_def Coordinator_new_def log_ok_def)

lemma Coordinator_new_sel [simp]:
  "cs_campaign_id (co_snapshot (Coordinator_new a b)) = a"
  "cs_challenge_id (co_snapshot (Coordinator_new a b)) = b"
  "cs_agents (co_snapshot (Coordinator_new a b)) = []"
  "cs_events (co_snapshot (Coordinator_new a b)) = []"
  "replayed_of (Coordinator_new a b) = (CampaignState.New, [])"
  by (simp_all add: Coordinator_new_def replayed_of_def)

lemma find_by_key:
  "distinct (map f xs) \<Longrightarrow> List.find (\<lambda>x. f x = k) xs = Some x \<longleftrightarrow> x \<in> set xs \<and> f x = k"
  by (induction xs) auto

lemma replay_idempotent_ok:
  assumes "coordinator_inv c" and "k \<in> co_applied_idempotency_keys c"
  shows "\<exists>r \<in> set (log c). er_idempotency_key r = k
    \<and> replay_idempotent c k i act ev ag = Some
        (if er_event_id r = i \<and> er_actor r = act \<and> er_event r = ev \<and> er_agent r = ag
         then Ok (version c)
         else Err (InvalidDecision ''idempotency key was reused with a different event''))"
proof -
  obtain r where r: "r \<in> set (log c)" "er_idempotency_key r = k"
    using assms by (auto simp: coordinator_inv_def)
  moreover have "distinct (map er_idempotency_key (log c))"
    using assms(1) by (simp add: coordinator_inv_def log_ok_def)
  ultimately have "List.find (\<lambda>r. er_idempotency_key r = k) (log c) = Some r"
    by (simp add: find_by_key)
  with r show ?thesis by (auto simp: replay_idempotent_def)
qed

definition commit_call :: "Coordinator \<Rightarrow> Call \<Rightarrow> replayed \<Rightarrow> (CoordinationError + nat) \<times> Coordinator" where
  "commit_call c q st = commit_event c (request_actor (rq_body q)) (rq_expected_version q)
     (rq_event_id q) (rq_key q) (request_event (rq_body q)) (request_agent (rq_body q))
     (\<lambda>s. s\<lparr> cs_campaign_state := fst st, cs_agents := snd st \<rparr>)"

text \<open>
  The three operations have one shape: refuse by role, answer a known key from the log, refuse what
  the specification refuses, commit what it accepts.
\<close>

definition role_refused :: "Request \<Rightarrow> CoordinationError option" where
  "role_refused b =
     (case b of
        RegisterAgent r a \<Rightarrow> if r \<noteq> Chief then Some (Unauthorized r SpawnChild) else None
      | TransitionCampaign r e \<Rightarrow>
          if \<not> campaign_event_permitted e r then Some (Unauthorized r Decide) else None
      | TransitionAgent r k e \<Rightarrow> None)"

lemma handle_shape:
  "handle c q =
     (case role_refused (rq_body q) of
        Some x \<Rightarrow> Some (Err x, c)
      | None \<Rightarrow>
          if rq_key q \<in> co_applied_idempotency_keys c
          then map_option (\<lambda>r. (r, c)) (replay_idempotent c (rq_key q) (rq_event_id q)
                 (request_actor (rq_body q)) (request_event (rq_body q)) (request_agent (rq_body q)))
          else case effect (replayed_of c) (rq_body q) of
            Inl x \<Rightarrow> Some (Err x, c)
          | Inr st \<Rightarrow> Some (commit_call c q st))"
proof (cases "rq_body q")
  case (RegisterAgent r a)
  then show ?thesis
    by (auto simp: handle_def role_refused_def register_agent_def replayed_of_def commit_call_def
          commit_event_def Let_def split: sum.splits)
next
  case (TransitionCampaign r e)
  then show ?thesis
    by (auto simp: handle_def role_refused_def transition_campaign_def replayed_of_def commit_call_def
          commit_event_def Let_def split: sum.splits)
next
  case (TransitionAgent r k e)
  then show ?thesis
    by (auto simp: handle_def role_refused_def transition_agent_def replayed_of_def commit_call_def
          commit_event_def Let_def split: sum.splits option.splits)
qed

lemma commit_call_fresh:
  assumes "rq_key q \<notin> co_applied_idempotency_keys c"
  shows "(\<exists>x. commit_call c q st = (Err x, c))
    \<or> rq_expected_version q = version c \<and> \<not> is_blank (rq_event_id q) \<and> \<not> is_blank (rq_key q)
      \<and> rq_event_id q \<notin> er_event_id ` set (log c)
      \<and> commit_call c q st = (Ok (version c + 1), appended c (record_of c q) st)"
  using assms
  by (auto simp: commit_call_def commit_event_def Let_def appended_def record_of_def list_ex_iff image_iff)

lemma role_refused_effect: "role_refused b = Some x \<Longrightarrow> effect st b = Err x"
  by (cases b) (auto simp: role_refused_def split: if_splits)

text \<open>The outcomes of a call: refused, repeated, or committed.\<close>

lemma handle_cases:
  assumes inv: "coordinator_inv c"
  obtains (refused) x where "handle c q = Some (Err x, c)"
  | (repeated) r where "handle c q = Some (Ok (version c), c)" "r \<in> set (log c)"
      "er_idempotency_key r = rq_key q" "record_matches r q"
  | (committed) st where "handle c q = Some (Ok (version c + 1), appended c (record_of c q) st)"
      "effect (replayed_of c) (rq_body q) = Ok st" "rq_expected_version q = version c"
      "rq_key q \<notin> co_applied_idempotency_keys c" "rq_event_id q \<notin> er_event_id ` set (log c)"
      "\<not> is_blank (rq_event_id q)" "\<not> is_blank (rq_key q)"
proof (cases "role_refused (rq_body q)")
  case (Some x)
  then show ?thesis using refused by (simp add: handle_shape)
next
  case None
  show ?thesis
  proof (cases "rq_key q \<in> co_applied_idempotency_keys c")
    case True
    then obtain r where r: "r \<in> set (log c)" "er_idempotency_key r = rq_key q"
      "handle c q = Some (if record_matches r q then Ok (version c)
         else Err (InvalidDecision ''idempotency key was reused with a different event''), c)"
      using replay_idempotent_ok [OF inv True, of "rq_event_id q" "request_actor (rq_body q)"
          "request_event (rq_body q)" "request_agent (rq_body q)"] None
      by (auto simp: handle_shape record_matches_def)
    show ?thesis
    proof (cases "record_matches r q")
      case True
      with r show ?thesis using repeated by simp
    next
      case False
      with r show ?thesis using refused by simp
    qed
  next
    case fresh: False
    show ?thesis
    proof (cases "effect (replayed_of c) (rq_body q)")
      case (Inl x)
      with None fresh show ?thesis using refused by (simp add: handle_shape)
    next
      case (Inr st)
      with None fresh have "handle c q = Some (commit_call c q st)" by (simp add: handle_shape)
      with commit_call_fresh [OF fresh, of st] Inr fresh show ?thesis
        using refused committed by (metis (no_types))
    qed
  qed
qed

section \<open>Event sourcing\<close>

text \<open>
  The interface between the coordinator and its log.  A component with an append-only log keeps its
  invariant and only ever extends the log; an event-sourced one can in addition rebuild the state it
  shows from the log alone.
\<close>

locale append_only_log =
  fixes step :: "'c \<Rightarrow> 'q \<Rightarrow> 'c"
    and events :: "'c \<Rightarrow> 'r list"
    and inv :: "'c \<Rightarrow> bool"
    and admissible :: "'q \<Rightarrow> bool"
  assumes inv_step: "inv c \<Longrightarrow> admissible q \<Longrightarrow> inv (step c q)"
    and events_step: "inv c \<Longrightarrow> admissible q \<Longrightarrow> prefix (events c) (events (step c q))"
begin

lemma inv_steps: "inv c \<Longrightarrow> list_all admissible qs \<Longrightarrow> inv (foldl step c qs)"
  by (induction qs arbitrary: c) (auto intro: inv_step)

lemma events_steps:
  "inv c \<Longrightarrow> list_all admissible qs \<Longrightarrow> prefix (events c) (events (foldl step c qs))"
proof (induction qs arbitrary: c)
  case Nil
  then show ?case by simp
next
  case (Cons q qs)
  then have "prefix (events c) (events (step c q))" "inv (step c q)"
    by (simp_all add: events_step inv_step)
  with Cons show ?case by (auto intro: prefix_order.order_trans)
qed

end

locale event_sourced = append_only_log step events inv admissible
  for step :: "'c \<Rightarrow> 'q \<Rightarrow> 'c" and events :: "'c \<Rightarrow> 'r list" and inv admissible +
  fixes view :: "'c \<Rightarrow> 'p"
    and replay :: "'p \<Rightarrow> 'r \<Rightarrow> 'x + 'p"
    and init :: 'p
  assumes replay_step: "inv c \<Longrightarrow> admissible q \<Longrightarrow>
    run_events replay (view c) (drop (length (events c)) (events (step c q))) = Inr (view (step c q))"
begin

lemma replay_steps:
  assumes "inv c" and "list_all admissible qs"
    and "run_events replay init (events c) = Inr (view c)"
  shows "run_events replay init (events (foldl step c qs)) = Inr (view (foldl step c qs))"
  using assms
proof (induction qs arbitrary: c)
  case Nil
  then show ?case by simp
next
  case (Cons q qs)
  let ?d = "drop (length (events c)) (events (step c q))"
  have "events (step c q) = events c @ ?d"
    using Cons.prems events_step [of c q] by (auto simp: prefix_def)
  then have "run_events replay init (events (step c q)) = run_events replay init (events c @ ?d)"
    by simp
  also have "\<dots> = Inr (view (step c q))"
    using Cons.prems replay_step by (simp add: run_events_append)
  finally show ?case
    using Cons inv_step by simp
qed

end

definition after :: "Coordinator \<Rightarrow> Call \<Rightarrow> Coordinator" where
  "after c q = (case handle c q of Some (_, c') \<Rightarrow> c' | None \<Rightarrow> c)"

lemma appended_sel [simp]:
  "log (appended c r st) = log c @ [r]" "version (appended c r st) = version c + 1"
  "replayed_of (appended c r st) = st"
  "cs_campaign_id (co_snapshot (appended c r st)) = cs_campaign_id (co_snapshot c)"
  "cs_challenge_id (co_snapshot (appended c r st)) = cs_challenge_id (co_snapshot c)"
  "cs_schema_version (co_snapshot (appended c r st)) = cs_schema_version (co_snapshot c)"
  "cs_campaign_state (co_snapshot (appended c r st)) = fst st"
  "cs_agents (co_snapshot (appended c r st)) = snd st"
  "co_applied_idempotency_keys (appended c r st) =
     insert (er_idempotency_key r) (co_applied_idempotency_keys c)"
  by (simp_all add: appended_def replayed_of_def)

lemma effect_agents_inv: "effect st b = Ok st' \<Longrightarrow> agents_inv (snd st) \<Longrightarrow> agents_inv (snd st')"
  by (cases b) (auto split: if_splits sum.splits option.splits intro: agents_inv_register agents_inv_state)

lemma coordinator_inv_append:
  assumes "coordinator_inv c" and "agents_inv (snd st)"
    and "er_version r = version c + 1" and "er_idempotency_key r \<notin> co_applied_idempotency_keys c"
    and "er_event_id r \<notin> er_event_id ` set (log c)"
    and "\<not> is_blank (er_event_id r)" and "\<not> is_blank (er_idempotency_key r)"
  shows "coordinator_inv (appended c r st)"
  using assms by (auto simp: coordinator_inv_def log_ok_def)

lemma handle_inv:
  assumes inv: "coordinator_inv c" and h: "handle c q = Some (x, c')"
  shows "coordinator_inv c'"
  using inv
proof (cases rule: handle_cases [where q = q])
  case (committed st)
  have "agents_inv (snd st)"
    using effect_agents_inv [OF committed(2)] inv by (simp add: coordinator_inv_def replayed_of_def)
  then have "coordinator_inv (appended c (record_of c q) st)"
    using inv committed by (intro coordinator_inv_append) (simp_all add: record_of_def)
  then show ?thesis using committed(1) h by simp
qed (use h inv in simp_all)

lemma handle_total: "coordinator_inv c \<Longrightarrow> \<exists>x c'. handle c q = Some (x, c')"
  by (cases rule: handle_cases [where q = q]) auto

lemma after_log:
  assumes "coordinator_inv c"
  shows "after c q = c \<or> (\<exists>st. after c q = appended c (record_of c q) st
    \<and> effect (replayed_of c) (rq_body q) = Ok st)"
  using assms by (cases rule: handle_cases [where q = q]) (auto simp: after_def)

lemma after_inv: "coordinator_inv c \<Longrightarrow> coordinator_inv (after c q)"
  using handle_total [of c q] handle_inv [of c q] by (auto simp: after_def)

interpretation coordinator_log: append_only_log after log coordinator_inv "\<lambda>_. True"
proof unfold_locales
  fix c q assume inv: "coordinator_inv c"
  show "coordinator_inv (after c q)" using inv by (rule after_inv)
  show "prefix (log c) (log (after c q))" using after_log [OF inv, of q] by auto
qed

text \<open>
  The replay reads an agent event's id up to the first colon, so it agrees with the live operation
  for agent ids without one.
\<close>

definition colon_free :: "agent_map \<Rightarrow> bool" where
  "colon_free m \<longleftrightarrow> (\<forall>k \<in> fst ` set m. CHR '':'' \<notin> set k)"

definition colon_free_request :: "Request \<Rightarrow> bool" where
  "colon_free_request b \<longleftrightarrow>
     (case b of RegisterAgent r a \<Rightarrow> CHR '':'' \<notin> set (ag_agent_id a) | _ \<Rightarrow> True)"

lemma colon_free_get: "colon_free m \<Longrightarrow> map_of m k = Some a \<Longrightarrow> CHR '':'' \<notin> set k"
  by (force simp: colon_free_def dest: map_of_SomeD)

lemma colon_free_insert: "colon_free m \<Longrightarrow> CHR '':'' \<notin> set k \<Longrightarrow> colon_free (btree_insert k a m)"
  by (simp add: colon_free_def)

lemma colon_free_modify [simp]: "colon_free (btree_modify k f m) \<longleftrightarrow> colon_free m"
proof -
  have "fst ` set (btree_modify k f m) = fst ` set m"
    using btree_modify_keys [of k f m] by (metis set_map)
  then show ?thesis by (simp add: colon_free_def)
qed

lemma effect_colon_free:
  "effect st b = Ok st' \<Longrightarrow> colon_free (snd st) \<Longrightarrow> colon_free_request b \<Longrightarrow> colon_free (snd st')"
  by (cases b)
     (auto simp: colon_free_request_def intro: colon_free_insert split: if_splits sum.splits option.splits)

lemma effect_replay:
  assumes "effect (replayed_of c) (rq_body q) = Ok st" and "colon_free (snd (replayed_of c))"
  shows "replay_state (replayed_of c) (record_of c q) = Ok st"
proof (cases "rq_body q")
  case (RegisterAgent r a)
  with assms(1) show ?thesis
    by (auto simp: replay_state_def record_of_def split: if_splits sum.splits prod.splits)
next
  case (TransitionCampaign r e)
  have "strip_prefix ''campaign:'' (''campaign:'' @ campaign_event_debug e) = Some (campaign_event_debug e)"
    by (rule strip_prefix_append)
  with TransitionCampaign assms(1) show ?thesis
    by (auto simp: replay_state_def record_of_def split: if_splits sum.splits prod.splits)
next
  case (TransitionAgent r k e)
  with assms(1) obtain a nxt where a: "map_of (snd (replayed_of c)) k = Some a"
    "r = (if agent_self_action e then ag_role a else Chief)" "agent_transition (ag_state a) e = Inr nxt"
    "st = (fst (replayed_of c), btree_modify k (\<lambda>a. a\<lparr> ag_state := nxt \<rparr>) (snd (replayed_of c)))"
    by (auto split: option.splits sum.splits if_splits)
  have "split_once (CHR '':'') (k @ '':'' @ agent_event_debug e) = Some (k, agent_event_debug e)"
    using colon_free_get [OF assms(2) a(1)] by simp
  moreover have "strip_prefix ''agent:'' (request_event (rq_body q)) = Some (k @ '':'' @ agent_event_debug e)"
    using TransitionAgent strip_prefix_append [of "''agent:''" "k @ '':'' @ agent_event_debug e"] by simp
  moreover have "strip_prefix ''campaign:'' (request_event (rq_body q)) = None"
    using TransitionAgent by (simp add: strip_prefix_def starts_with_def)
  ultimately show ?thesis
    using TransitionAgent a
    by (simp add: replay_state_def record_of_def Let_def case_prod_unfold)
qed

abbreviation fresh_state :: replayed where
  "fresh_state \<equiv> (CampaignState.New, [])"

interpretation coordinator_sourced: event_sourced after log
  "\<lambda>c. coordinator_inv c \<and> colon_free (cs_agents (co_snapshot c))"
  "\<lambda>q :: Call. colon_free_request (rq_body q)" replayed_of replay_state fresh_state
proof unfold_locales
  fix c :: Coordinator and q :: Call
  assume c: "coordinator_inv c \<and> colon_free (cs_agents (co_snapshot c))"
    and q: "colon_free_request (rq_body q)"
  then have cf: "colon_free (snd (replayed_of c))" by (simp add: replayed_of_def)
  note cases = after_log [OF c [THEN conjunct1], of q]
  show "coordinator_inv (after c q) \<and> colon_free (cs_agents (co_snapshot (after c q)))"
    using cases c after_inv effect_colon_free [OF _ cf q] by auto
  show "prefix (log c) (log (after c q))" using cases by auto
  show "run_events replay_state (replayed_of c) (drop (length (log c)) (log (after c q)))
      = Inr (replayed_of (after c q))"
    using cases effect_replay [OF _ cf] by auto
qed

section \<open>What a snapshot must satisfy\<close>

lemma replay_event_eq:
  "replay_event c r = (case replay_state (replayed_of c) r of Inl x \<Rightarrow> Err x | Inr st \<Rightarrow> Ok (appended c r st))"
  by (auto simp: replay_event_def replayed_of_def appended_def Let_def split: sum.splits prod.splits)

lemma upt_Cons_Suc: "(v # vs = [n ..< n + Suc k]) \<longleftrightarrow> v = n \<and> vs = [Suc n ..< Suc n + k]"
  by (auto simp: upt_conv_Cons)

lemma replay_log_ok:
  "(\<exists>c'. replay_log off applied ids c es = Ok (applied', c') \<and> replayed_of c' = st) \<longleftrightarrow>
     map er_version es = [off + 1 ..< off + 1 + length es]
     \<and> distinct (map er_event_id es) \<and> distinct (map er_idempotency_key es)
     \<and> (\<forall>r \<in> set es. \<not> is_blank (er_event_id r) \<and> \<not> is_blank (er_idempotency_key r))
     \<and> er_event_id ` set es \<inter> ids = {} \<and> er_idempotency_key ` set es \<inter> applied = {}
     \<and> applied' = applied \<union> er_idempotency_key ` set es
     \<and> run_events replay_state (replayed_of c) es = Ok st"
proof (induction es arbitrary: off applied ids c)
  case Nil
  then show ?case by auto
next
  case (Cons r es)
  let ?ok = "er_version r = off + 1 \<and> \<not> is_blank (er_event_id r) \<and> \<not> is_blank (er_idempotency_key r)
    \<and> er_idempotency_key r \<notin> applied \<and> er_event_id r \<notin> ids"
  have ver: "map er_version (r # es) = [off + 1 ..< off + 1 + length (r # es)] \<longleftrightarrow>
      er_version r = off + 1 \<and> map er_version es = [off + 1 + 1 ..< off + 1 + 1 + length es]"
    using upt_Cons_Suc [of "er_version r" "map er_version es" "off + 1" "length es"] by simp
  consider (bad) "\<not> ?ok" | (stop) x where "?ok" "replay_state (replayed_of c) r = Inl x"
    | (go) st1 where "?ok" "replay_state (replayed_of c) r = Inr st1"
    by (cases "replay_state (replayed_of c) r") auto
  then show ?case
  proof cases
    case bad
    then show ?thesis unfolding ver by auto
  next
    case stop
    then show ?thesis by (simp add: replay_event_eq)
  next
    case go
    then have e1: "replay_log off applied ids c (r # es) = replay_log (off + 1)
        (insert (er_idempotency_key r) applied) (insert (er_event_id r) ids) (appended c r st1) es"
      by (simp add: replay_event_eq)
    have e2: "run_events replay_state (replayed_of c) (r # es)
        = run_events replay_state (replayed_of (appended c r st1)) es"
      using go by simp
    show ?thesis
      using go(1) unfolding e1 e2 ver Cons.IH by (auto simp del: upt_Suc appended_sel)
  qed
qed

lemma from_snapshot_ok:
  "from_snapshot s = Ok c \<longleftrightarrow>
     cs_schema_version s = SCHEMA_VERSION \<and> \<not> is_blank (cs_campaign_id s) \<and> \<not> is_blank (cs_challenge_id s)
     \<and> log_ok (cs_events s) \<and> cs_state_version s = length (cs_events s)
     \<and> run_events replay_state fresh_state (cs_events s) = Ok (cs_campaign_state s, cs_agents s)
     \<and> c = \<lparr> co_snapshot = s, co_applied_idempotency_keys = er_idempotency_key ` set (cs_events s) \<rparr>"
proof -
  let ?n = "Coordinator_new (cs_campaign_id s) (cs_challenge_id s)"
  have n: "replayed_of ?n = fresh_state" by simp
  have "from_snapshot s = Ok c \<longleftrightarrow>
     cs_schema_version s = SCHEMA_VERSION \<and> \<not> is_blank (cs_campaign_id s) \<and> \<not> is_blank (cs_challenge_id s)
     \<and> length (cs_events s) = cs_state_version s
     \<and> (\<exists>applied. (\<exists>c'. replay_log 0 {} {} ?n (cs_events s) = Ok (applied, c')
            \<and> replayed_of c' = (cs_campaign_state s, cs_agents s))
         \<and> c = \<lparr> co_snapshot = s, co_applied_idempotency_keys = applied \<rparr>)"
    by (auto simp: from_snapshot_def replayed_of_def split: sum.splits)
  then show ?thesis
    unfolding replay_log_ok n log_ok_def by auto
qed

lemma replay_state_agents_inv: "replay_state st r = Ok st' \<Longrightarrow> agents_inv (snd st) \<Longrightarrow> agents_inv (snd st')"
  by (cases st)
     (auto simp: replay_state_def split: option.splits if_splits sum.splits prod.splits
           intro: agents_inv_register agents_inv_state)

lemma from_snapshot_inv: "from_snapshot s = Ok c \<Longrightarrow> coordinator_inv c"
  using run_events_invariant [where I = "\<lambda>st. agents_inv (snd st)" and step = replay_state and s = fresh_state]
  by (fastforce simp: from_snapshot_ok coordinator_inv_def intro: replay_state_agents_inv)

text \<open>The campaign events of a log, with the role that performed each.\<close>

definition campaign_entry :: "CoordinatorEventRecord \<Rightarrow> (Role \<times> CampaignEvent) option" where
  "campaign_entry r =
     (case er_agent r of
        Some _ \<Rightarrow> None
      | None \<Rightarrow> (case strip_prefix ''campaign:'' (er_event r) of
          None \<Rightarrow> None
        | Some l \<Rightarrow> map_option (\<lambda>e. (er_actor r, e)) (campaign_event_from_debug l)))"

definition campaign_entries :: "CoordinatorEventRecord list \<Rightarrow> (Role \<times> CampaignEvent) list" where
  "campaign_entries es = List.map_filter campaign_entry es"

lemma replay_state_campaign:
  assumes "replay_state st r = Ok st'"
  shows "case campaign_entry r of
      None \<Rightarrow> fst st' = fst st
    | Some (a, e) \<Rightarrow> campaign_event_permitted e a \<and> campaign_transition (fst st) e = Ok (fst st')"
  using assms
  by (cases st)
     (auto simp: replay_state_def campaign_entry_def split: option.splits if_splits sum.splits prod.splits)

lemma campaign_entries_run:
  assumes "run_events replay_state st es = Ok st'"
  shows "run_events campaign_transition (fst st) (map snd (campaign_entries es)) = Ok (fst st')
    \<and> list_all (\<lambda>(a, e). campaign_event_permitted e a) (campaign_entries es)"
  using assms
proof (induction es arbitrary: st)
  case Nil
  then show ?case by (simp add: campaign_entries_def)
next
  case (Cons r es)
  then obtain st1 where st1: "replay_state st r = Ok st1" "run_events replay_state st1 es = Ok st'"
    by (auto split: sum.splits)
  with Cons.IH [OF st1(2)] replay_state_campaign [OF st1(1)] show ?case
    by (cases "campaign_entry r") (auto simp: campaign_entries_def)
qed

section \<open>Reachable coordinators\<close>

inductive reachable :: "Coordinator \<Rightarrow> bool" where
  fresh: "reachable (Coordinator_new campaign_id challenge_id)"
| restored: "from_snapshot s = Ok c \<Longrightarrow> reachable c"
| handled: "reachable c \<Longrightarrow> handle c q = Some (x, c') \<Longrightarrow> reachable c'"
| campaign_ctx: "reachable c \<Longrightarrow>
    transition_campaign_with_context c cx e v i k now = Some (x, c') \<Longrightarrow> reachable c'"
| agent_ctx: "reachable c \<Longrightarrow>
    transition_agent_with_context c cx aid ae v i k now = Some (x, c') \<Longrightarrow> reachable c'"

text \<open>The context-bound entry points refuse, or are a call of the role-level operation.\<close>

lemma transition_campaign_with_context_cases:
  "(\<exists>x. transition_campaign_with_context c cx e v i k now = Some (Err x, c))
   \<or> ActorContext_validate cx Decide now = Ok ()
     \<and> transition_campaign_with_context c cx e v i k now =
         handle c \<lparr> rq_body = TransitionCampaign (cx_role cx) e, rq_expected_version = v,
                    rq_event_id = i, rq_key = k \<rparr>"
  by (auto simp: transition_campaign_with_context_def handle_def split: sum.splits)

lemma transition_agent_with_context_cases:
  "(\<exists>x. transition_agent_with_context c cx aid e v i k now = Some (Err x, c))
   \<or> ActorContext_validate cx Action.TransitionAgent now = Ok ()
     \<and> transition_agent_with_context c cx aid e v i k now =
         handle c \<lparr> rq_body = TransitionAgent (cx_role cx) aid e, rq_expected_version = v,
                    rq_event_id = i, rq_key = k \<rparr>"
  by (auto simp: transition_agent_with_context_def handle_def split: sum.splits option.splits)

lemma reachable_inv: "reachable c \<Longrightarrow> coordinator_inv c"
proof (induction rule: reachable.induct)
  case (campaign_ctx c cx e v i k now x c')
  with transition_campaign_with_context_cases [of c cx e v i k now] show ?case
    by (metis handle_inv option.inject prod.inject)
next
  case (agent_ctx c cx aid ae v i k now x c')
  with transition_agent_with_context_cases [of c cx aid ae v i k now] show ?case
    by (metis handle_inv option.inject prod.inject)
qed (auto dest: from_snapshot_inv handle_inv)

lemma handle_repeat:
  assumes "coordinator_inv c" and "role_refused (rq_body q) = None"
    and "r \<in> set (log c)" and "er_idempotency_key r = rq_key q" and "record_matches r q"
  shows "handle c q = Some (Ok (version c), c)"
proof -
  have d: "distinct (map er_idempotency_key (log c))"
    using assms(1) by (simp add: coordinator_inv_def log_ok_def)
  have k: "rq_key q \<in> co_applied_idempotency_keys c"
    using assms(1,3) assms(4) [symmetric] by (simp add: coordinator_inv_def)
  have "List.find (\<lambda>r. er_idempotency_key r = rq_key q) (log c) = Some r"
    using d assms(3,4) by (simp add: find_by_key)
  then show ?thesis
    using assms(2,5) k by (simp add: handle_shape replay_idempotent_def record_matches_def)
qed

lemma handle_ok_recorded:
  assumes inv: "coordinator_inv c" and h: "handle c q = Some (Ok v, c')"
  shows "role_refused (rq_body q) = None
    \<and> (\<exists>r \<in> set (log c'). er_idempotency_key r = rq_key q \<and> record_matches r q)"
proof -
  have "role_refused (rq_body q) = None"
    using h by (auto simp: handle_shape split: option.splits)
  moreover have "\<exists>r \<in> set (log c'). er_idempotency_key r = rq_key q \<and> record_matches r q"
    using inv
  proof (cases rule: handle_cases [where q = q])
    case (committed st)
    then show ?thesis using h by (auto simp: record_matches_def record_of_def)
  qed (use h in auto)
  ultimately show ?thesis ..
qed

definition sample_agent :: "string \<Rightarrow> Role \<Rightarrow> AgentRecord" where
  "sample_agent k r =
     \<lparr> ag_agent_id = k, ag_role = r, ag_state = AgentState.Registered,
       ag_parent_agent_id = (if r = Chief then None else Some ''chief''),
       ag_workspace = ''ws'', ag_lease_id = (if r = Chief then None else Some k) \<rparr>"

definition sample_calls :: "string \<Rightarrow> Call list" where
  "sample_calls k =
     [\<lparr> rq_body = RegisterAgent Chief (sample_agent ''chief'' Chief), rq_expected_version = 0,
        rq_event_id = ''e1'', rq_key = ''k1'' \<rparr>,
      \<lparr> rq_body = RegisterAgent Chief (sample_agent k Solver), rq_expected_version = 1,
        rq_event_id = ''e2'', rq_key = ''k2'' \<rparr>,
      \<lparr> rq_body = TransitionAgent Chief k AgentEvent.Brief, rq_expected_version = 2,
        rq_event_id = ''e3'', rq_key = ''k3'' \<rparr>]"

section \<open>Properties\<close>

text \<open>
  C1. Every coordinator that the operations can produce, from a fresh start or a restored snapshot,
  under any interleaving of calls, has an intact log: the version is the number of logged events,
  the events carry the versions 1, 2, 3, ... without a gap, event ids and idempotency keys are never
  reused, and the key index is exactly the keys of the log.  Hence no call panics in the
  \<open>expect\<close> of \<open>replay_idempotent\<close>.
\<close>

theorem coordinator_log_integrity:
  assumes "reachable c"
  shows "version c = length (log c)
    \<and> map er_version (log c) = [1 ..< Suc (length (log c))]
    \<and> distinct (map er_event_id (log c)) \<and> distinct (map er_idempotency_key (log c))
    \<and> co_applied_idempotency_keys c = er_idempotency_key ` set (log c)
    \<and> handle c q \<noteq> None
    \<and> transition_campaign_with_context c cx e v i k now \<noteq> None
    \<and> transition_agent_with_context c cx aid ae v i k now \<noteq> None"
proof -
  note inv = reachable_inv [OF assms]
  have total: "handle c q \<noteq> None" for q using handle_total [OF inv, of q] by auto
  have "transition_campaign_with_context c cx e v i k now \<noteq> None"
    "transition_agent_with_context c cx aid ae v i k now \<noteq> None"
    using transition_campaign_with_context_cases [of c cx e v i k now]
      transition_agent_with_context_cases [of c cx aid ae v i k now] total by auto
  then show ?thesis
    using inv total unfolding coordinator_inv_def log_ok_def by blast
qed

lemma sample_handled:
  "handle (Coordinator_new ''camp'' ''chal'') (hd (sample_calls ''solver''))
     = Some (Ok 1, after (Coordinator_new ''camp'' ''chal'') (hd (sample_calls ''solver'')))"
  by code_simp

lemma sample_reachable:
  "reachable (after (Coordinator_new ''camp'' ''chal'') (hd (sample_calls ''solver'')))"
  by (rule reachable.handled [OF reachable.fresh sample_handled])

theorem coordinator_log_integrity_witness:
  "reachable (after (Coordinator_new ''camp'' ''chal'') (hd (sample_calls ''solver'')))
   \<and> version (after (Coordinator_new ''camp'' ''chal'') (hd (sample_calls ''solver''))) = 1
   \<and> length (log (after (Coordinator_new ''camp'' ''chal'') (hd (sample_calls ''solver'')))) = 1"
proof -
  have "version (after (Coordinator_new ''camp'' ''chal'') (hd (sample_calls ''solver''))) = 1"
    by code_simp
  with coordinator_log_integrity [OF sample_reachable] sample_reachable show ?thesis by metis
qed

text \<open>
  C2. The registry of every reachable coordinator has a sound lineage: records are stored under
  their own id, at most one agent is the chief and it has neither parent nor lease, every other
  agent has a registered chief as parent and a non-empty lease, and no two agents share a lease.
\<close>

theorem coordinator_registry_lineage:
  assumes "reachable c" and "map_of (cs_agents (co_snapshot c)) k = Some a"
  shows "ag_agent_id a = k
    \<and> (ag_role a = Chief \<longrightarrow> ag_parent_agent_id a = None \<and> ag_lease_id a = None)
    \<and> (ag_role a \<noteq> Chief \<longrightarrow> \<not> none_or_empty (ag_lease_id a)
        \<and> (\<exists>p b. ag_parent_agent_id a = Some p \<and> map_of (cs_agents (co_snapshot c)) p = Some b
             \<and> ag_role b = Chief))
    \<and> (\<forall>k' a'. map_of (cs_agents (co_snapshot c)) k' = Some a' \<and> k' \<noteq> k \<longrightarrow>
        \<not> (ag_role a = Chief \<and> ag_role a' = Chief)
        \<and> (ag_lease_id a = None \<or> ag_lease_id a' \<noteq> ag_lease_id a))"
proof -
  have inv: "agents_inv (cs_agents (co_snapshot c))"
    using reachable_inv [OF assms(1)] by (simp add: coordinator_inv_def)
  have "\<not> (ag_role a = Chief \<and> ag_role a' = Chief)
      \<and> (ag_lease_id a = None \<or> ag_lease_id a' \<noteq> ag_lease_id a)"
    if "map_of (cs_agents (co_snapshot c)) k' = Some a'" "k' \<noteq> k" for k' a'
    using agents_invD(3) [OF inv, of k k'] agents_invD(4) [OF inv assms(2) that(1)] assms(2) that
    by (auto simp: is_chief_def)
  then show ?thesis
    using agents_invD(2) [OF inv assms(2)] by (auto simp: agent_ok_def is_chief_def split: if_splits)
qed

theorem coordinator_registry_lineage_witness:
  "\<exists>c a. reachable c \<and> map_of (cs_agents (co_snapshot c)) ''chief'' = Some a
     \<and> ag_agent_id a = ''chief'' \<and> ag_role a = Chief \<and> ag_lease_id a = None"
proof -
  let ?c = "after (Coordinator_new ''camp'' ''chal'') (hd (sample_calls ''solver''))"
  have a: "map_of (cs_agents (co_snapshot ?c)) ''chief'' = Some (sample_agent ''chief'' Chief)"
    by code_simp
  have "ag_role (sample_agent ''chief'' Chief) = Chief" by (simp add: sample_agent_def)
  then show ?thesis
    using coordinator_registry_lineage [OF sample_reachable a] sample_reachable a by blast
qed

text \<open>
  C3. Calls implement the abstract specification with optimistic concurrency.  A refused call leaves
  the coordinator untouched.  A call that changes it named the current version and a fresh key, its
  effect on campaign state and registry is the one of the specification, the version grows by one
  and exactly one record, describing the call, is appended.  A call that succeeds without a change
  repeats one that the log already records.
\<close>

theorem coordinator_calls_refine_effect:
  assumes "reachable c" and "handle c q = Some (out, c')"
  shows "(\<forall>x. out = Err x \<longrightarrow> c' = c)
    \<and> (c' \<noteq> c \<longrightarrow> out = Ok (version c + 1) \<and> rq_expected_version q = version c
        \<and> version c' = version c + 1 \<and> log c' = log c @ [record_of c q]
        \<and> rq_key q \<notin> co_applied_idempotency_keys c
        \<and> effect (replayed_of c) (rq_body q) = Ok (replayed_of c'))
    \<and> (\<forall>v. out = Ok v \<and> c' = c \<longrightarrow> v = version c
        \<and> (\<exists>r \<in> set (log c). er_idempotency_key r = rq_key q \<and> record_matches r q))"
  using reachable_inv [OF assms(1)]
proof (cases rule: handle_cases [where q = q])
  case (committed st)
  then have "out = Ok (version c + 1)" "c' = appended c (record_of c q) st" using assms(2) by auto
  moreover have "appended c r st \<noteq> c" for r
    by (metis appended_sel(2) n_not_Suc_n Suc_eq_plus1)
  ultimately show ?thesis using committed by simp
qed (use assms in auto)

theorem coordinator_calls_refine_effect_witness:
  "effect (CampaignState.New, []) (rq_body (hd (sample_calls ''solver'')))
     = Ok (replayed_of (after (Coordinator_new ''camp'' ''chal'') (hd (sample_calls ''solver''))))"
proof -
  have "after (Coordinator_new ''camp'' ''chal'') (hd (sample_calls ''solver''))
      \<noteq> Coordinator_new ''camp'' ''chal''"
    by code_simp
  moreover have "replayed_of (Coordinator_new ''camp'' ''chal'') = fresh_state"
    by code_simp
  ultimately show ?thesis
    using coordinator_calls_refine_effect [OF reachable.fresh sample_handled] by simp
qed

text \<open>
  C6. Retries are safe.  Once a call has succeeded, repeating it with the same event id and key, at
  any expected version and after any further calls by anyone, succeeds with the current version and
  changes nothing.
\<close>

theorem coordinator_retry_is_idempotent:
  assumes "reachable c" and "handle c q = Some (Ok v, c')"
  shows "handle (foldl after c' qs) (q\<lparr> rq_expected_version := w \<rparr>)
    = Some (Ok (version (foldl after c' qs)), foldl after c' qs)"
proof -
  let ?d = "foldl after c' qs"
  have inv: "coordinator_inv c'"
    using handle_inv [OF reachable_inv [OF assms(1)] assms(2)] .
  obtain r where r: "r \<in> set (log c')" "er_idempotency_key r = rq_key q" "record_matches r q"
    and role: "role_refused (rq_body q) = None"
    using handle_ok_recorded [OF reachable_inv [OF assms(1)] assms(2)] by blast
  have "coordinator_inv ?d" and "prefix (log c') (log ?d)"
    using coordinator_log.inv_steps [OF inv, of qs] coordinator_log.events_steps [OF inv, of qs]
    by (simp_all add: list_all_iff)
  with r role show ?thesis
    by (intro handle_repeat) (auto simp: record_matches_def dest: set_mono_prefix)
qed

theorem coordinator_retry_is_idempotent_witness:
  "handle (foldl after (Coordinator_new ''camp'' ''chal'') (sample_calls ''solver''))
     (hd (sample_calls ''solver''))
   = Some (Ok 3, foldl after (Coordinator_new ''camp'' ''chal'') (sample_calls ''solver''))"
proof -
  let ?n = "Coordinator_new ''camp'' ''chal''" and ?q = "hd (sample_calls ''solver'')"
  have "foldl after ?n (sample_calls ''solver'') = foldl after (after ?n ?q) (tl (sample_calls ''solver''))"
    by (simp add: sample_calls_def)
  moreover have "version (foldl after ?n (sample_calls ''solver'')) = 3"
    by code_simp
  moreover have "?q\<lparr> rq_expected_version := 0 \<rparr> = ?q"
    by (simp add: sample_calls_def)
  ultimately show ?thesis
    using coordinator_retry_is_idempotent [OF reachable.fresh sample_handled,
        of "tl (sample_calls ''solver'')" 0] by metis
qed

text \<open>
  C4. Snapshots round-trip: a coordinator built from a fresh one (with non-blank campaign and
  challenge ids) by any sequence of calls that registers no agent with a colon in its id is restored
  from its own snapshot exactly as it was.
\<close>

theorem snapshot_roundtrip:
  assumes "\<not> is_blank campaign_id" and "\<not> is_blank challenge_id"
    and "list_all (\<lambda>q. colon_free_request (rq_body q)) qs"
  shows "from_snapshot (co_snapshot (foldl after (Coordinator_new campaign_id challenge_id) qs))
    = Ok (foldl after (Coordinator_new campaign_id challenge_id) qs)"
proof -
  let ?n = "Coordinator_new campaign_id challenge_id"
  let ?c = "foldl after ?n qs"
  have n: "coordinator_inv ?n \<and> colon_free (cs_agents (co_snapshot ?n))"
    by (simp add: colon_free_def)
  have inv: "coordinator_inv ?c"
    using coordinator_sourced.inv_steps [OF n assms(3)] by blast
  have ids: "cs_campaign_id (co_snapshot (foldl after c qs)) = cs_campaign_id (co_snapshot c)
      \<and> cs_challenge_id (co_snapshot (foldl after c qs)) = cs_challenge_id (co_snapshot c)"
    if "coordinator_inv c" for c
    using that
  proof (induction qs arbitrary: c)
    case (Cons q qs)
    have "coordinator_inv (after c q)" using Cons.prems by (rule after_inv)
    with Cons.IH show ?case using after_log [OF Cons.prems, of q] by auto
  qed simp
  have "run_events replay_state fresh_state (log ?c) = Ok (replayed_of ?c)"
    using coordinator_sourced.replay_steps [OF n assms(3)] by simp
  then show ?thesis
    using inv ids [OF coordinator_inv_new] assms(1,2) unfolding from_snapshot_ok
    by (simp add: coordinator_inv_def replayed_of_def)
qed

theorem snapshot_roundtrip_witness:
  "from_snapshot (co_snapshot (foldl after (Coordinator_new ''camp'' ''chal'') (sample_calls ''solver'')))
     = Ok (foldl after (Coordinator_new ''camp'' ''chal'') (sample_calls ''solver''))"
  by (rule snapshot_roundtrip)
     (simp_all add: sample_calls_def colon_free_request_def sample_agent_def)

text \<open>
  The side condition of C15 is needed: the coordinator accepts agent ids with a colon, and the
  snapshot it then writes can no longer be restored.  Registering \<open>a:b\<close> and briefing it succeeds
  three times, and \<open>from_snapshot\<close> rejects the result because it reads the agent id only up to the
  first colon.
\<close>

theorem colon_id_snapshot_unreadable:
  "(let c = foldl after (Coordinator_new ''camp'' ''chal'') (sample_calls ''a:b'')
    in version c = 3 \<and> from_snapshot (co_snapshot c)
         = Err (InvalidDecision ''unknown agent event in snapshot''))"
  by code_simp

text \<open>
  C5. A restored coordinator cannot claim a score it has no events for.  If a snapshot is accepted,
  the coordinator carries exactly that snapshot, the campaign state is the result of running the
  logged campaign events from \<open>New\<close>, each by a role permitted to perform it; and a campaign restored
  as \<open>ScoreVerified\<close> or \<open>Closed\<close> has in its log a transport acknowledgement by the solver, a score
  observation by the monitor or the judge and a score verification by the judge.
\<close>

theorem restored_state_is_earned:
  assumes "from_snapshot s = Ok c"
  shows "co_snapshot c = s
    \<and> run_events campaign_transition CampaignState.New (map snd (campaign_entries (cs_events s)))
        = Ok (cs_campaign_state s)
    \<and> list_all (\<lambda>(a, e). campaign_event_permitted e a) (campaign_entries (cs_events s))
    \<and> (cs_campaign_state s \<in> {CampaignState.ScoreVerified, CampaignState.Closed} \<longrightarrow>
        (Solver, CampaignEvent.TransportAccepted) \<in> set (campaign_entries (cs_events s))
        \<and> (\<exists>a \<in> {Monitor, JudgeAnalyst}. (a, CampaignEvent.ScoreObserved) \<in> set (campaign_entries (cs_events s)))
        \<and> (JudgeAnalyst, CampaignEvent.ScoreVerified) \<in> set (campaign_entries (cs_events s)))"
proof -
  let ?es = "campaign_entries (cs_events s)"
  have c: "co_snapshot c = s"
    and "run_events replay_state fresh_state (cs_events s) = Ok (cs_campaign_state s, cs_agents s)"
    using assms unfolding from_snapshot_ok by auto
  then have run: "run_events campaign_transition CampaignState.New (map snd ?es) = Ok (cs_campaign_state s)"
    and perm: "list_all (\<lambda>(a, e). campaign_event_permitted e a) ?es"
    using campaign_entries_run [of fresh_state "cs_events s"] by auto
  have "subseq (campaign_need (cs_campaign_state s)) (map snd ?es)"
    using run_events_subseq [where need = campaign_need, OF campaign_need_step run] by (simp add: campaign_need_def)
  then have need: "set (campaign_need (cs_campaign_state s)) \<subseteq> snd ` set ?es"
    by (fastforce elim: list_emb_set)
  have by_role: "\<exists>a. campaign_event_permitted e a \<and> (a, e) \<in> set ?es"
    if "e \<in> set (campaign_need (cs_campaign_state s))" for e
    using need that perm by (fastforce simp: list_all_iff)
  have "(Solver, CampaignEvent.TransportAccepted) \<in> set ?es
      \<and> (\<exists>a \<in> {Monitor, JudgeAnalyst}. (a, CampaignEvent.ScoreObserved) \<in> set ?es)
      \<and> (JudgeAnalyst, CampaignEvent.ScoreVerified) \<in> set ?es"
    if "cs_campaign_state s \<in> {CampaignState.ScoreVerified, CampaignState.Closed}"
  proof -
    have "CampaignEvent.TransportAccepted \<in> set (campaign_need (cs_campaign_state s))"
      "CampaignEvent.ScoreObserved \<in> set (campaign_need (cs_campaign_state s))"
      "CampaignEvent.ScoreVerified \<in> set (campaign_need (cs_campaign_state s))"
      using that by (auto simp: campaign_need_def)
    then show ?thesis
      using by_role by (fastforce simp: campaign_event_permitted_def)
  qed
  with c run perm show ?thesis by blast
qed

theorem restored_state_is_earned_witness:
  "\<exists>s c. from_snapshot s = Ok c \<and> co_snapshot c = s \<and> length (cs_events s) = 3"
proof -
  let ?c = "foldl after (Coordinator_new ''camp'' ''chal'') (sample_calls ''solver'')"
  have ok: "is_ok (map_err id (from_snapshot (co_snapshot ?c)))" and len: "length (log ?c) = 3"
    by code_simp+
  then obtain c where c: "from_snapshot (co_snapshot ?c) = Ok c"
    by (cases "from_snapshot (co_snapshot ?c)") (simp_all add: map_err_def)
  from restored_state_is_earned [OF c] c len show ?thesis by metis
qed

text \<open>Coordinators served through the context-bound entry points only.\<close>

inductive served :: "Coordinator \<Rightarrow> bool" where
  served_fresh: "served (Coordinator_new campaign_id challenge_id)"
| served_campaign: "served c \<Longrightarrow>
    transition_campaign_with_context c cx e v i k now = Some (x, c') \<Longrightarrow> served c'"
| served_agent: "served c \<Longrightarrow>
    transition_agent_with_context c cx aid ae v i k now = Some (x, c') \<Longrightarrow> served c'"

lemma served_reachable: "served c \<Longrightarrow> reachable c"
  by (induction rule: served.induct) (auto intro: reachable.intros)

definition early_campaign :: "CampaignState \<Rightarrow> bool" where
  "early_campaign s \<longleftrightarrow> s \<in> {CampaignState.New, CampaignState.Intake, CampaignState.Oriented,
     CampaignState.Planned, CampaignState.Executing, CampaignState.Aborted}"

lemma chief_keeps_early:
  "campaign_event_permitted e Chief \<Longrightarrow> campaign_transition s e = Ok t \<Longrightarrow> early_campaign s \<Longrightarrow>
   early_campaign t"
  by (cases s; cases e)
     (auto simp: campaign_event_permitted_def campaign_transition_def early_campaign_def)

lemma handle_campaign_state:
  assumes "coordinator_inv c" and "handle c q = Some (x, c')"
  shows "cs_campaign_state (co_snapshot c') = cs_campaign_state (co_snapshot c)
    \<or> (\<exists>r e. rq_body q = TransitionCampaign r e \<and> campaign_event_permitted e r
        \<and> campaign_transition (cs_campaign_state (co_snapshot c)) e = Ok (cs_campaign_state (co_snapshot c')))"
  using assms(1)
proof (cases rule: handle_cases [where q = q])
  case (committed st)
  then have "cs_campaign_state (co_snapshot c') = fst st" using assms(2) by auto
  with committed(2) show ?thesis
    by (cases "rq_body q") (auto simp: replayed_of_def split: if_splits sum.splits option.splits)
qed (use assms in auto)

text \<open>
  Through the public, context-bound entry points a campaign never gets past \<open>Executing\<close>:
  \<open>transition_campaign_with_context\<close> demands the \<open>Decide\<close> capability, which only the chief has,
  while the evidence, transport and score events are permitted only to the solver, the monitor and
  the judge.  So every coordinator served from a fresh start through these entry points is in one of
  the first five states or aborted.
\<close>

theorem public_campaign_stops_at_executing:
  assumes "served c"
  shows "cs_campaign_state (co_snapshot c) \<in> {CampaignState.New, CampaignState.Intake,
    CampaignState.Oriented, CampaignState.Planned, CampaignState.Executing, CampaignState.Aborted}"
proof -
  from assms have "early_campaign (cs_campaign_state (co_snapshot c))"
  proof (induction rule: served.induct)
    case (served_fresh a b)
    then show ?case by (simp add: Coordinator_new_def early_campaign_def)
  next
    case (served_campaign c cx e v i k now x c')
    note inv = reachable_inv [OF served_reachable [OF served_campaign.hyps(1)]]
    from transition_campaign_with_context_cases [of c cx e v i k now] show ?case
    proof (elim disjE conjE)
      assume "ActorContext_validate cx Decide now = Ok ()"
      then have "cx_role cx = Chief" using ActorContext_validate_role by fastforce
      moreover assume "transition_campaign_with_context c cx e v i k now =
        handle c \<lparr> rq_body = TransitionCampaign (cx_role cx) e, rq_expected_version = v,
                   rq_event_id = i, rq_key = k \<rparr>"
      ultimately have "handle c \<lparr> rq_body = TransitionCampaign Chief e, rq_expected_version = v,
          rq_event_id = i, rq_key = k \<rparr> = Some (x, c')"
        using served_campaign.hyps(2) by simp
      from handle_campaign_state [OF inv this] show ?thesis
        using served_campaign.IH chief_keeps_early by auto
    qed (use served_campaign in auto)
  next
    case (served_agent c cx aid ae v i k now x c')
    note inv = reachable_inv [OF served_reachable [OF served_agent.hyps(1)]]
    from transition_agent_with_context_cases [of c cx aid ae v i k now] show ?case
      using handle_campaign_state [OF inv] served_agent by fastforce
  qed
  then show ?thesis by (simp add: early_campaign_def)
qed

theorem public_campaign_stops_at_executing_witness:
  "\<exists>c. served c \<and> cs_campaign_state (co_snapshot c) = CampaignState.Intake"
proof -
  let ?n = "Coordinator_new ''camp'' ''chal''" and ?cx = "sample_context Chief ''chief'' {Decide}"
  let ?r = "transition_campaign_with_context ?n ?cx CampaignEvent.IntakeAccepted 0 ''e'' ''k'' 50"
  have "map_option (\<lambda>(_, c). cs_campaign_state (co_snapshot c)) ?r = Some CampaignState.Intake"
    by code_simp
  then obtain x c where c: "?r = Some (x, c)" and st: "cs_campaign_state (co_snapshot c) = CampaignState.Intake"
    by auto
  have "served c" by (rule served.served_campaign [OF served.served_fresh c])
  from public_campaign_stops_at_executing [OF this] this st show ?thesis by blast
qed

end
