(* ===== verification/Ooda.thy ===== *)
theory Ooda
  imports Evidence
begin

text \<open>
  The decision loop of \<open>ascodex-coordination/src/lib.rs\<close>: OODA cycle records, the evidence a closure
  needs, and the detection of stuck campaigns.
\<close>

section \<open>OODA cycles\<close>

datatype OodaPhase = Observe | Orient | Decide | Act | Review

datatype CycleDirective = Continue | Replan | DispatchJudgeAnalyst | DispatchRedTeam
  | EscalateStuckReview | ClosureReview | ApproveClosure | Abort

datatype StuckTrigger = SameAxisNoProgress | RepeatedJudgePhrase | GapWithoutProgress

record OodaCycleRecord =
  oc_schema_version :: string
  oc_cycle_id :: string
  oc_campaign_id :: string
  oc_challenge_id :: string
  oc_phase :: OodaPhase
  oc_actor_role :: Role
  oc_directive :: CycleDirective
  oc_rationale :: string
  oc_expected_state_version :: nat
  oc_deadline_ms :: int
  oc_stuck_triggers :: "StuckTrigger list"
  oc_evidence :: "EvidenceRef list"

definition OodaCycleRecord_validate :: "OodaCycleRecord \<Rightarrow> int \<Rightarrow> CoordinationError + unit" where
  "OodaCycleRecord_validate o' now_ms = checks
     [fail_if (oc_schema_version o' \<noteq> SCHEMA_VERSION \<or> is_blank (oc_cycle_id o')
         \<or> is_blank (oc_campaign_id o') \<or> is_blank (oc_challenge_id o') \<or> is_blank (oc_rationale o')
         \<or> oc_deadline_ms o' \<le> now_ms)
        (InvalidDecision ''OODA cycle requires valid identifiers, rationale, and a future deadline''),
      fail_if (oc_evidence o' = []) (InvalidDecision ''OODA cycle must cite evidence''),
      validate_evidence_refs (oc_evidence o'),
      fail_if (oc_actor_role o' \<noteq> Chief \<or> oc_phase o' \<notin> set [OodaPhase.Decide, OodaPhase.Review])
        (Unauthorized (oc_actor_role o') Action.Decide),
      fail_if (oc_stuck_triggers o' \<noteq> []
          \<and> oc_directive o' \<notin> set [CycleDirective.Replan, CycleDirective.EscalateStuckReview,
                                      CycleDirective.Abort])
        (InvalidDecision ''stuck evidence requires replan, abort, or an atomic heterogeneous review''),
      fail_if (oc_directive o' \<in> set [CycleDirective.ClosureReview, CycleDirective.ApproveClosure]
          \<and> oc_phase o' \<noteq> OodaPhase.Review)
        (InvalidDecision ''closure review is only valid in the review phase''),
      fail_if (oc_directive o' = CycleDirective.Abort \<and> oc_actor_role o' \<noteq> Chief)
        (Unauthorized (oc_actor_role o') Action.Decide)]"

lemma OodaCycleRecord_validate_ok [validated]:
  "OodaCycleRecord_validate o' now = Ok () \<longleftrightarrow>
     oc_schema_version o' = SCHEMA_VERSION \<and> \<not> is_blank (oc_cycle_id o')
     \<and> \<not> is_blank (oc_campaign_id o') \<and> \<not> is_blank (oc_challenge_id o') \<and> \<not> is_blank (oc_rationale o')
     \<and> now < oc_deadline_ms o' \<and> oc_evidence o' \<noteq> []
     \<and> list_all evidence_ref_ok (oc_evidence o') \<and> distinct (map evidence_key (oc_evidence o'))
     \<and> oc_actor_role o' = Chief \<and> oc_phase o' \<in> {OodaPhase.Decide, OodaPhase.Review}
     \<and> (oc_stuck_triggers o' \<noteq> [] \<longrightarrow> oc_directive o' \<in> {CycleDirective.Replan,
          CycleDirective.EscalateStuckReview, CycleDirective.Abort})
     \<and> (oc_directive o' \<in> {CycleDirective.ClosureReview, CycleDirective.ApproveClosure} \<longrightarrow>
          oc_phase o' = OodaPhase.Review)"
  unfolding OodaCycleRecord_validate_def by auto

section \<open>Closure evidence\<close>

record ClosureEvidence =
  ce_top_peer_checked :: bool
  ce_independent_falsifiers :: nat
  ce_historical_ceiling_checked :: bool
  ce_dual_track_verified :: bool
  ce_budget_stop_requested :: bool
  ce_top_peer_reward :: "f64 option"
  ce_current_reward :: "f64 option"
  ce_historical_best_reward :: "f64 option"
  ce_evidence :: "EvidenceRef list"

definition required_reward :: "string \<Rightarrow> f64 option \<Rightarrow> CoordinationError + unit" where
  "required_reward name v =
     (case v of
        None \<Rightarrow> Err (InvalidDecision (name @ '' is required for a ceiling decision''))
      | Some x \<Rightarrow> fail_if (\<not> is_finite x \<or> \<not> f64_in 0 1 x)
          (InvalidDecision (name @ '' must be finite and within 0..=1'')))"

text \<open>
  \<open>a.expect(..) > b.expect(..)\<close>: by the checks before it both values are present, so the
  \<open>expect\<close>s cannot panic.
\<close>

definition exceeds :: "f64 option \<Rightarrow> f64 option \<Rightarrow> bool" where
  "exceeds a b \<longleftrightarrow> (case (a, b) of (Some x, Some y) \<Rightarrow> f64_lt y x | _ \<Rightarrow> False)"

definition ClosureEvidence_validate :: "ClosureEvidence \<Rightarrow> CoordinationError + unit" where
  "ClosureEvidence_validate c = checks
     ([fail_if (\<not> ce_top_peer_checked c \<or> ce_independent_falsifiers c < 2
          \<or> \<not> ce_historical_ceiling_checked c \<or> \<not> ce_dual_track_verified c)
         (InvalidDecision ''closure requires peer, two independent falsifiers, historical ceiling, and dual-track checks''),
       fail_if (ce_evidence c = []) (InvalidDecision ''closure requires hashed evidence references''),
       validate_evidence_refs (ce_evidence c),
       required_reward ''top_peer_reward'' (ce_top_peer_reward c),
       required_reward ''current_reward'' (ce_current_reward c),
       required_reward ''historical_best_reward'' (ce_historical_best_reward c),
       fail_if (exceeds (ce_top_peer_reward c) (ce_current_reward c)
          \<or> exceeds (ce_historical_best_reward c) (ce_current_reward c))
         (InvalidDecision ''closure cannot override a higher peer or historical result'')]
      @ map (\<lambda>k. fail_if (\<not> has_kind (ce_evidence c) k)
               (InvalidDecision ''closure requires typed peer, historical, Harbor, and Trace evidence''))
          [''closure_peer'', ''closure_historical'', ''closure_harbor'', ''closure_trace'']
      @ [fail_if (count_kind (ce_evidence c) ''closure_falsifier'' < 2)
           (InvalidDecision ''closure requires two distinct falsifier evidence records''),
         fail_if (ce_budget_stop_requested c \<and> \<not> has_kind (ce_evidence c) ''quota_snapshot'')
           (InvalidDecision ''budget stop requires a typed quota snapshot'')])"

lemma required_reward_ok [simp]:
  "required_reward n v = Ok () \<longleftrightarrow> (\<exists>x. v = Some x \<and> f64_in 0 1 x)"
  by (auto simp: required_reward_def f64_in_finite split: option.splits)

lemma ClosureEvidence_validate_ok [validated]:
  "ClosureEvidence_validate c = Ok () \<longleftrightarrow>
     ce_top_peer_checked c \<and> 2 \<le> ce_independent_falsifiers c \<and> ce_historical_ceiling_checked c
     \<and> ce_dual_track_verified c \<and> ce_evidence c \<noteq> []
     \<and> list_all evidence_ref_ok (ce_evidence c) \<and> distinct (map evidence_key (ce_evidence c))
     \<and> (\<exists>p x h. ce_top_peer_reward c = Some p \<and> ce_current_reward c = Some x
          \<and> ce_historical_best_reward c = Some h \<and> f64_in 0 1 p \<and> f64_in 0 1 x \<and> f64_in 0 1 h
          \<and> \<not> f64_lt x p \<and> \<not> f64_lt x h)
     \<and> (\<forall>k \<in> {''closure_peer'', ''closure_historical'', ''closure_harbor'', ''closure_trace''}.
          has_kind (ce_evidence c) k)
     \<and> 2 \<le> count_kind (ce_evidence c) ''closure_falsifier''
     \<and> (ce_budget_stop_requested c \<longrightarrow> has_kind (ce_evidence c) ''quota_snapshot'')"
  unfolding ClosureEvidence_validate_def
  by (cases "ce_top_peer_reward c"; cases "ce_current_reward c"; cases "ce_historical_best_reward c")
     (auto simp: exceeds_def)

section \<open>Stuck detection\<close>

record ExperimentOutcome =
  eo_challenge_id :: string
  eo_axis :: string
  eo_attempt_id :: "string option"
  eo_harbor_reward :: "f64 option"
  eo_judge_phrase :: "string option"
  eo_completed_at_ms :: int

record StuckPolicy =
  sp_same_axis_attempts :: nat
  sp_repeated_phrase_count :: nat
  sp_required_gap_bands :: int
  sp_no_progress_window_ms :: int

definition StuckPolicy_default :: StuckPolicy where
  "StuckPolicy_default =
     \<lparr> sp_same_axis_attempts = 3, sp_repeated_phrase_count = 2, sp_required_gap_bands = 2,
       sp_no_progress_window_ms = 2 * 60 * 60 * 1000 \<rparr>"

text \<open>\<open>Iterator::max_by_key\<close>: the last of the maximal elements.\<close>

fun max_by_key :: "('a \<Rightarrow> int) \<Rightarrow> 'a list \<Rightarrow> 'a option" where
  "max_by_key f [] = None"
| "max_by_key f (x # xs) =
     (case max_by_key f xs of None \<Rightarrow> Some x | Some m \<Rightarrow> if f x > f m then Some x else Some m)"

definition active_challenge :: "ExperimentOutcome list \<Rightarrow> string option" where
  "active_challenge os = map_option eo_challenge_id (max_by_key eo_completed_at_ms os)"

text \<open>The outcomes of the active challenge in time order; \<open>sort_by_key\<close> is stable, as \<open>sort_key\<close> is.\<close>

definition scoped_outcomes :: "ExperimentOutcome list \<Rightarrow> ExperimentOutcome list" where
  "scoped_outcomes os =
     (let active = active_challenge os in
      sort_key eo_completed_at_ms
        (filter (\<lambda>x. case active of None \<Rightarrow> True | Some c \<Rightarrow> eo_challenge_id x = c) os))"

text \<open>\<open>entry(axis).or_default().push(outcome)\<close> for each outcome.\<close>

definition axis_groups :: "ExperimentOutcome list \<Rightarrow> (string \<times> ExperimentOutcome list) list" where
  "axis_groups os = foldl (\<lambda>m x. btree_insert (eo_axis x)
     ((case map_of m (eo_axis x) of None \<Rightarrow> [] | Some xs \<Rightarrow> xs) @ [x]) m) [] os"

definition same_axis_no_progress :: "nat \<Rightarrow> ExperimentOutcome list \<Rightarrow> bool" where
  "same_axis_no_progress n items \<longleftrightarrow>
     (let scored = take n (rev (List.map_filter eo_harbor_reward items))
      in length scored = n \<and> successively f64_eq scored)"

definition repeated_phrase :: "nat \<Rightarrow> ExperimentOutcome list \<Rightarrow> bool" where
  "repeated_phrase n os \<longleftrightarrow>
     (case map (\<lambda>p. to_ascii_lowercase (trim p)) (List.map_filter eo_judge_phrase (rev os)) of
        [] \<Rightarrow> False
      | first # rest \<Rightarrow> length (takeWhile (\<lambda>p. p = first) (first # rest)) \<ge> n)"

text \<open>The loop over \<open>(best, last_progress)\<close>.\<close>

fun last_progress :: "f64 option \<Rightarrow> int option \<Rightarrow> ExperimentOutcome list \<Rightarrow> int option" where
  "last_progress best lst [] = lst"
| "last_progress best lst (x # xs) =
     (case eo_harbor_reward x of
        None \<Rightarrow> last_progress best lst xs
      | Some reward \<Rightarrow>
          if (case best of None \<Rightarrow> True | Some current \<Rightarrow> f64_lt current reward)
          then last_progress (Some reward) (Some (eo_completed_at_ms x)) xs
          else last_progress best lst xs)"

definition no_progress_since :: "int \<Rightarrow> int \<Rightarrow> ExperimentOutcome list \<Rightarrow> bool" where
  "no_progress_since now_ms window os \<longleftrightarrow>
     saturating_sub now_ms (case last_progress None None os of None \<Rightarrow> now_ms | Some t \<Rightarrow> t) \<ge> window"

definition detect_stuck ::
  "ExperimentOutcome list \<Rightarrow> int \<Rightarrow> int \<Rightarrow> int \<Rightarrow> StuckPolicy \<Rightarrow> StuckTrigger list option" where
  "detect_stuck os own_band field_highest_band now_ms p =
     (let scoped = scoped_outcomes os;
          t1 = (if sp_same_axis_attempts p > 0
                  \<and> list_ex (\<lambda>(_, items). same_axis_no_progress (sp_same_axis_attempts p) items)
                      (axis_groups scoped)
                then [SameAxisNoProgress] else []);
          t2 = (if sp_repeated_phrase_count p > 0 \<and> repeated_phrase (sp_repeated_phrase_count p) scoped
                then [RepeatedJudgePhrase] else [])
      in case checked_i32_sub field_highest_band own_band of
           None \<Rightarrow> None
         | Some gap \<Rightarrow> Some (t1 @ t2 @
             (if gap \<ge> sp_required_gap_bands p
                 \<and> no_progress_since now_ms (sp_no_progress_window_ms p) scoped
              then [GapWithoutProgress] else [])))"

lemma max_by_key_None [simp]: "max_by_key f xs = None \<longleftrightarrow> xs = []"
  by (cases xs) (auto split: option.splits)

lemma max_by_key_max: "max_by_key f xs = Some m \<Longrightarrow> m \<in> set xs \<and> (\<forall>y \<in> set xs. f y \<le> f m)"
proof (induction xs arbitrary: m)
  case (Cons x xs)
  then show ?case by (cases "max_by_key f xs") (fastforce split: if_splits)+
qed simp

lemma max_by_key_filter:
  "max_by_key f xs = Some m \<Longrightarrow> P m \<Longrightarrow> max_by_key f (filter P xs) = Some m"
proof (induction xs arbitrary: m)
  case Nil
  then show ?case by simp
next
  case (Cons x xs)
  show ?case
  proof (cases "max_by_key f xs")
    case None
    then show ?thesis using Cons.prems by simp
  next
    case (Some k)
    show ?thesis
    proof (cases "f x > f k")
      case True
      then have "m = x" using Cons.prems Some by simp
      moreover have "f j < f x" if "max_by_key f (filter P xs) = Some j" for j
        using max_by_key_max [OF that] max_by_key_max [OF Some] True by fastforce
      ultimately show ?thesis using Cons.prems by (auto split: option.splits)
    next
      case False
      then have "m = k" using Cons.prems Some by simp
      with Cons.IH [OF Some] Cons.prems False show ?thesis by auto
    qed
  qed
qed

lemma scoped_outcomes_filter:
  assumes "active_challenge os = Some c"
  shows "scoped_outcomes (filter (\<lambda>x. eo_challenge_id x = c) os) = scoped_outcomes os"
proof -
  obtain m where m: "max_by_key eo_completed_at_ms os = Some m" "eo_challenge_id m = c"
    using assms by (auto simp: active_challenge_def)
  have "active_challenge (filter (\<lambda>x. eo_challenge_id x = c) os) = Some c"
    using max_by_key_filter [OF m(1), of "\<lambda>x. eo_challenge_id x = c"] m(2)
    by (simp add: active_challenge_def)
  then show ?thesis by (simp add: scoped_outcomes_def assms)
qed

lemma axis_groups_get:
  "btree_inv (axis_groups os) \<and> map_of (axis_groups os) a =
     (let xs = filter (\<lambda>x. eo_axis x = a) os in if xs = [] then None else Some xs)"
proof (induction os arbitrary: a rule: rev_induct)
  case Nil
  then show ?case by (simp add: axis_groups_def)
next
  case (snoc x os)
  have step: "axis_groups (os @ [x]) = btree_insert (eo_axis x)
      ((case map_of (axis_groups os) (eo_axis x) of None \<Rightarrow> [] | Some xs \<Rightarrow> xs) @ [x]) (axis_groups os)"
    by (simp add: axis_groups_def)
  show ?case
    unfolding step using snoc.IH [of a] snoc.IH [of "eo_axis x"]
    by (auto simp: Let_def)
qed

lemma axis_groups_ex:
  assumes "n > 0"
  shows "list_ex (\<lambda>(_, items). same_axis_no_progress n items) (axis_groups os) \<longleftrightarrow>
    (\<exists>a. same_axis_no_progress n (filter (\<lambda>x. eo_axis x = a) os))"
proof -
  have nil: "\<not> same_axis_no_progress n []"
    using assms by (simp add: same_axis_no_progress_def map_filter_simps)
  have "list_ex (\<lambda>(_, items). same_axis_no_progress n items) (axis_groups os) \<longleftrightarrow>
      (\<exists>a items. map_of (axis_groups os) a = Some items \<and> same_axis_no_progress n items)"
    using axis_groups_get [of os] by (intro btree_values_ex) blast
  also have "\<dots> \<longleftrightarrow> (\<exists>a. same_axis_no_progress n (filter (\<lambda>x. eo_axis x = a) os))"
    using axis_groups_get [of os] nil by (auto simp: Let_def split: if_splits) (metis option.inject)+
  finally show ?thesis .
qed

text \<open>The last improvement: a scored outcome that no later one beats.\<close>

lemma last_progress_from:
  assumes "last_progress best lst xs = Some t"
  shows "lst = Some t \<and> (\<forall>y \<in> set xs. \<forall>s. eo_harbor_reward y = Some s \<longrightarrow> (\<exists>b. best = Some b \<and> \<not> f64_lt b s))
    \<or> (\<exists>pre x post r. xs = pre @ x # post \<and> eo_harbor_reward x = Some r \<and> eo_completed_at_ms x = t
        \<and> (\<forall>y \<in> set post. \<forall>s. eo_harbor_reward y = Some s \<longrightarrow> \<not> f64_lt r s))"
  using assms
proof (induction best lst xs rule: last_progress.induct)
  case (1 best lst)
  then show ?case by simp
next
  case (2 best lst x xs)
  have cons: ?case if "\<exists>pre z post r. xs = pre @ z # post \<and> eo_harbor_reward z = Some r
      \<and> eo_completed_at_ms z = t \<and> (\<forall>y \<in> set post. \<forall>s. eo_harbor_reward y = Some s \<longrightarrow> \<not> f64_lt r s)"
    using that by (metis append_Cons)
  show ?case
  proof (cases "eo_harbor_reward x")
    case None
    with 2 show ?thesis using cons by auto
  next
    case (Some r)
    show ?thesis
    proof (cases "case best of None \<Rightarrow> True | Some current \<Rightarrow> f64_lt current r")
      case True
      with 2 Some have "last_progress (Some r) (Some (eo_completed_at_ms x)) xs = Some t" by simp
      from "2.IH"(2) [OF Some True this] show ?thesis
      proof
        assume "Some (eo_completed_at_ms x) = Some t
          \<and> (\<forall>y\<in>set xs. \<forall>s. eo_harbor_reward y = Some s \<longrightarrow> (\<exists>b. Some r = Some b \<and> \<not> f64_lt b s))"
        then have "x # xs = [] @ x # xs \<and> eo_harbor_reward x = Some r \<and> eo_completed_at_ms x = t
          \<and> (\<forall>y \<in> set xs. \<forall>s. eo_harbor_reward y = Some s \<longrightarrow> \<not> f64_lt r s)"
          using Some by auto
        then show ?thesis by blast
      qed (rule cons)
    next
      case False
      with 2 Some have "last_progress best lst xs = Some t" by simp
      from "2.IH"(3) [OF Some False this] False Some cons show ?thesis
        by (auto split: option.splits)
    qed
  qed
qed

lemma no_progress_since_window:
  assumes "no_progress_since now w os" and "0 < w" and "w \<le> i64_max"
  shows "\<exists>pre x post r. os = pre @ x # post \<and> eo_harbor_reward x = Some r
    \<and> eo_completed_at_ms x + w \<le> now
    \<and> (\<forall>y \<in> set post. \<forall>s. eo_harbor_reward y = Some s \<longrightarrow> \<not> f64_lt r s)"
proof (cases "last_progress None None os")
  case None
  with assms show ?thesis
    by (simp add: no_progress_since_def saturating_sub_def i64_saturate_def i64_max_def i64_min_def)
next
  case (Some t)
  have "t + w \<le> now"
    using assms Some
    by (simp add: no_progress_since_def saturating_sub_def i64_saturate_def i64_min_def)
  with last_progress_from [OF Some] show ?thesis by auto
qed

lemma same_axis_no_progress_iff:
  "same_axis_no_progress n items \<longleftrightarrow>
     (let rs = List.map_filter eo_harbor_reward items
      in n \<le> length rs \<and> successively f64_eq (drop (length rs - n) rs))"
proof -
  have eq: "(\<lambda>x y. f64_eq y x) = f64_eq"
    by (intro ext) (metis f64_eq_sym)
  have flip: "successively (\<lambda>x y. f64_eq y x) xs = successively f64_eq xs" for xs
    by (rule arg_cong [OF eq, of "\<lambda>P. successively P xs"])
  show ?thesis
    by (auto simp: same_axis_no_progress_def Let_def take_rev flip)
qed

section \<open>Properties\<close>

text \<open>
  A closure cannot override a better result.  Validated closure evidence has finite current,
  peer and historical rewards in [0, 1] of which the current one is the largest, hashed references
  for the peer, historical, Harbor and Trace claims, falsifier references to two different files,
  and a quota snapshot when the stop is for budget.
\<close>

theorem closure_is_at_the_ceiling:
  assumes "ClosureEvidence_validate c = Ok ()"
  shows "(\<exists>p x h. ce_top_peer_reward c = Some p \<and> ce_current_reward c = Some x
      \<and> ce_historical_best_reward c = Some h \<and> is_finite p \<and> is_finite x \<and> is_finite h
      \<and> 0 \<le> f64_val p \<and> 0 \<le> f64_val h \<and> max (f64_val p) (f64_val h) \<le> f64_val x \<and> f64_val x \<le> 1)
    \<and> (\<forall>k \<in> {''closure_peer'', ''closure_historical'', ''closure_harbor'', ''closure_trace''}.
        \<exists>r \<in> set (ce_evidence c). ev_kind r = k \<and> evidence_ref_ok r)
    \<and> (\<exists>a \<in> set (ce_evidence c). \<exists>b \<in> set (ce_evidence c). ev_kind a = ''closure_falsifier''
        \<and> ev_kind b = ''closure_falsifier'' \<and> ev_path a \<noteq> ev_path b)
    \<and> (ce_budget_stop_requested c \<longrightarrow> (\<exists>r \<in> set (ce_evidence c). ev_kind r = ''quota_snapshot''))"
proof -
  obtain p x h where r: "ce_top_peer_reward c = Some p" "ce_current_reward c = Some x"
      "ce_historical_best_reward c = Some h" "f64_in 0 1 p" "f64_in 0 1 x" "f64_in 0 1 h"
      "\<not> f64_lt x p" "\<not> f64_lt x h"
    and e: "list_all evidence_ref_ok (ce_evidence c)" "distinct (map evidence_key (ce_evidence c))"
      "\<forall>k \<in> {''closure_peer'', ''closure_historical'', ''closure_harbor'', ''closure_trace''}.
          has_kind (ce_evidence c) k"
      "2 \<le> count_kind (ce_evidence c) ''closure_falsifier''"
      "ce_budget_stop_requested c \<longrightarrow> has_kind (ce_evidence c) ''quota_snapshot''"
    using assms unfolding ClosureEvidence_validate_ok by (elim conjE exE) (rule that)
  have "max (f64_val p) (f64_val h) \<le> f64_val x"
    using r by (auto simp: f64_in_finite f64_lt_finite)
  moreover have "\<exists>r \<in> set (ce_evidence c). ev_kind r = k \<and> evidence_ref_ok r"
    if "k \<in> {''closure_peer'', ''closure_historical'', ''closure_harbor'', ''closure_trace''}" for k
    using has_kindD [OF bspec [OF e(3) that] e(1)] .
  moreover have "ce_budget_stop_requested c \<longrightarrow> (\<exists>r \<in> set (ce_evidence c). ev_kind r = ''quota_snapshot'')"
    using e(5) has_kindD [OF _ e(1)] by blast
  ultimately show ?thesis
    using r count_kind_distinct_paths [OF e(2,4)] by (auto simp: f64_in_finite)
qed

definition sample_closure :: ClosureEvidence where
  "sample_closure =
     \<lparr> ce_top_peer_checked = True, ce_independent_falsifiers = 2, ce_historical_ceiling_checked = True,
       ce_dual_track_verified = True, ce_budget_stop_requested = False,
       ce_top_peer_reward = Some (Fin (1/2)), ce_current_reward = Some (Fin (3/4)),
       ce_historical_best_reward = Some (Fin (3/4)),
       ce_evidence = [sample_ref ''closure_peer'' ''p'', sample_ref ''closure_historical'' ''h'',
         sample_ref ''closure_harbor'' ''b'', sample_ref ''closure_trace'' ''t'',
         sample_ref ''closure_falsifier'' ''f1'', sample_ref ''closure_falsifier'' ''f2''] \<rparr>"

theorem closure_is_at_the_ceiling_witness:
  "ClosureEvidence_validate sample_closure = Ok ()
   \<and> (\<exists>a \<in> set (ce_evidence sample_closure). \<exists>b \<in> set (ce_evidence sample_closure).
        ev_kind a = ''closure_falsifier'' \<and> ev_kind b = ''closure_falsifier'' \<and> ev_path a \<noteq> ev_path b)"
proof -
  have "ClosureEvidence_validate sample_closure = Ok ()"
    unfolding ClosureEvidence_validate_ok
    by (simp add: sample_closure_def evidence_kinds_def is_absolute_def starts_with_def has_kind_def
          count_kind_def)
  from closure_is_at_the_ceiling [OF this] this show ?thesis by blast
qed

text \<open>
  One campaign's history cannot make another one look stuck: stuck detection reads nothing but
  the outcomes of the challenge with the most recent outcome.  It fails (an arithmetic panic) only
  when the difference of the two bands leaves the 32-bit range.
\<close>

theorem stuck_detection_is_scoped:
  assumes "active_challenge os = Some c"
  shows "detect_stuck (filter (\<lambda>x. eo_challenge_id x = c) os) own field now p = detect_stuck os own field now p
    \<and> (detect_stuck os own field now p = None \<longleftrightarrow> \<not> (i32_min \<le> field - own \<and> field - own \<le> i32_max))"
  by (auto simp: detect_stuck_def scoped_outcomes_filter [OF assms] checked_i32_sub_def Let_def)

definition sample_outcome :: "string \<Rightarrow> int \<Rightarrow> ExperimentOutcome" where
  "sample_outcome c t =
     \<lparr> eo_challenge_id = c, eo_axis = ''lr'', eo_attempt_id = None, eo_harbor_reward = Some (Fin (1/2)),
       eo_judge_phrase = None, eo_completed_at_ms = t \<rparr>"

theorem stuck_detection_is_scoped_witness:
  "detect_stuck [sample_outcome ''a'' 1, sample_outcome ''b'' 2, sample_outcome ''b'' 3] 0 1 9 StuckPolicy_default
     = detect_stuck [sample_outcome ''b'' 2, sample_outcome ''b'' 3] 0 1 9 StuckPolicy_default"
proof -
  let ?os = "[sample_outcome ''a'' 1, sample_outcome ''b'' 2, sample_outcome ''b'' 3]"
  have "active_challenge ?os = Some ''b''"
    by (simp add: active_challenge_def sample_outcome_def)
  from stuck_detection_is_scoped [OF this, THEN conjunct1] show ?thesis
    by (simp add: sample_outcome_def)
qed

text \<open>
  What the triggers mean.  With \<open>n = same_axis_attempts > 0\<close>, the same-axis trigger is raised
  exactly when on some axis the last \<open>n\<close> scored outcomes exist and carry equal rewards.  With a
  positive window, the gap trigger is raised only if the field leads by the required bands and the
  last improving outcome is at least a window old and no later one beats it.
\<close>

theorem stuck_triggers_mean:
  assumes "detect_stuck os own field now p = Some ts"
  shows "(0 < sp_same_axis_attempts p \<longrightarrow>
      (SameAxisNoProgress \<in> set ts \<longleftrightarrow>
        (\<exists>axis. let rs = List.map_filter eo_harbor_reward (filter (\<lambda>x. eo_axis x = axis) (scoped_outcomes os))
          in sp_same_axis_attempts p \<le> length rs
             \<and> successively f64_eq (drop (length rs - sp_same_axis_attempts p) rs))))
    \<and> (GapWithoutProgress \<in> set ts \<and> 0 < sp_no_progress_window_ms p
          \<and> sp_no_progress_window_ms p \<le> i64_max \<longrightarrow>
        sp_required_gap_bands p \<le> field - own
        \<and> (\<exists>pre x post r. scoped_outcomes os = pre @ x # post \<and> eo_harbor_reward x = Some r
            \<and> eo_completed_at_ms x + sp_no_progress_window_ms p \<le> now
            \<and> (\<forall>y \<in> set post. \<forall>s. eo_harbor_reward y = Some s \<longrightarrow> \<not> f64_lt r s)))"
proof -
  obtain gap where gap: "checked_i32_sub field own = Some gap" "gap = field - own"
    using assms by (auto simp: detect_stuck_def checked_i32_sub_def Let_def split: if_splits)
  have same: "SameAxisNoProgress \<in> set ts \<longleftrightarrow> 0 < sp_same_axis_attempts p
      \<and> list_ex (\<lambda>(_, items). same_axis_no_progress (sp_same_axis_attempts p) items)
          (axis_groups (scoped_outcomes os))"
    and no: "GapWithoutProgress \<in> set ts \<longleftrightarrow> sp_required_gap_bands p \<le> gap
      \<and> no_progress_since now (sp_no_progress_window_ms p) (scoped_outcomes os)"
    using assms gap(1) by (auto simp: detect_stuck_def Let_def)
  show ?thesis
    using no_progress_since_window [of now "sp_no_progress_window_ms p" "scoped_outcomes os"] no gap
      same axis_groups_ex [of "sp_same_axis_attempts p" "scoped_outcomes os"]
    unfolding same_axis_no_progress_iff by auto
qed

theorem stuck_triggers_mean_witness:
  "detect_stuck (map (sample_outcome ''b'') [1, 2, 3]) 0 2 7200003 StuckPolicy_default
     = Some [SameAxisNoProgress, GapWithoutProgress]
   \<and> sp_required_gap_bands StuckPolicy_default \<le> 2 - 0"
proof -
  have run: "detect_stuck (map (sample_outcome ''b'') [1, 2, 3]) 0 2 7200003 StuckPolicy_default
     = Some [SameAxisNoProgress, GapWithoutProgress]"
    by code_simp
  moreover have "0 < sp_no_progress_window_ms StuckPolicy_default
      \<and> sp_no_progress_window_ms StuckPolicy_default \<le> i64_max"
    by (simp add: StuckPolicy_default_def i64_max_def)
  ultimately show ?thesis using stuck_triggers_mean [OF run] by simp
qed

text \<open>
  A stuck campaign cannot carry on as usual: a valid cycle record is the chief's, in the decide
  or the review phase, with unique hashed evidence and a future deadline; if it carries stuck
  triggers its directive is to replan, to escalate to a stuck review or to abort, and a closure
  directive occurs in the review phase only.
\<close>

theorem ooda_cycle_discipline:
  assumes "OodaCycleRecord_validate r now = Ok ()"
  shows "oc_actor_role r = Chief \<and> oc_phase r \<in> {OodaPhase.Decide, OodaPhase.Review}
    \<and> now < oc_deadline_ms r \<and> oc_evidence r \<noteq> [] \<and> (\<forall>v \<in> set (oc_evidence r). evidence_ref_ok v)
    \<and> (oc_stuck_triggers r \<noteq> [] \<longrightarrow> oc_directive r \<in> {CycleDirective.Replan,
        CycleDirective.EscalateStuckReview, CycleDirective.Abort})
    \<and> (oc_directive r \<in> {CycleDirective.ClosureReview, CycleDirective.ApproveClosure} \<longrightarrow>
        oc_phase r = OodaPhase.Review \<and> oc_stuck_triggers r = [])"
  using assms unfolding OodaCycleRecord_validate_ok list_all_iff by auto

definition sample_cycle :: OodaCycleRecord where
  "sample_cycle =
     \<lparr> oc_schema_version = SCHEMA_VERSION, oc_cycle_id = ''o1'', oc_campaign_id = ''camp'',
       oc_challenge_id = ''chal'', oc_phase = OodaPhase.Review, oc_actor_role = Chief,
       oc_directive = CycleDirective.Replan, oc_rationale = ''stuck'', oc_expected_state_version = 1,
       oc_deadline_ms = 100, oc_stuck_triggers = [SameAxisNoProgress],
       oc_evidence = [sample_ref ''score'' ''s''] \<rparr>"

theorem ooda_cycle_discipline_witness:
  "OodaCycleRecord_validate sample_cycle 50 = Ok () \<and> oc_stuck_triggers sample_cycle \<noteq> []
   \<and> oc_directive sample_cycle \<noteq> CycleDirective.Continue"
proof -
  have ok: "OodaCycleRecord_validate sample_cycle 50 = Ok ()"
    unfolding OodaCycleRecord_validate_ok
    by (simp add: sample_cycle_def evidence_kinds_def is_absolute_def starts_with_def)
  moreover have st: "oc_stuck_triggers sample_cycle \<noteq> []" by (simp add: sample_cycle_def)
  ultimately show ?thesis using ooda_cycle_discipline [OF ok] by auto
qed

end
