(* ===== verification/Contract.thy ===== *)
theory Contract
  imports Evidence
begin

text \<open>
  Challenge contracts (\<open>ascodex-coordination/src/contract.rs\<close>): the fingerprint of the canonical
  contract input, validation against the clock, and formal admission.

  SHA-256 comes from the crate \<open>sha2\<close> and is the parameter \<open>sha256\<close>, from bytes to bytes; that its
  digests have 32 bytes is the hypothesis \<open>sha256_length\<close>.
\<close>

section \<open>Hexadecimal output\<close>

definition hex_digit :: "nat \<Rightarrow> char" where
  "hex_digit n = ''0123456789abcdef'' ! n"

text \<open>\<open>format!("{byte:02x}")\<close>.\<close>

definition hex_byte :: "char \<Rightarrow> string" where
  "hex_byte b = [hex_digit (of_char b div 16), hex_digit (of_char b mod 16)]"

definition hex_bytes :: "string \<Rightarrow> string" where
  "hex_bytes bs = concat (map hex_byte bs)"

definition sha256_length :: "(string \<Rightarrow> string) \<Rightarrow> bool" where
  "sha256_length sha256 \<longleftrightarrow> (\<forall>x. length (sha256 x) = 32)"

lemma hex_digit_lower: "n < 16 \<Longrightarrow> ascii_hexdigit (hex_digit n) \<and> lower_char (hex_digit n) = hex_digit n"
proof -
  have "\<forall>k < 16. ascii_hexdigit (hex_digit k) \<and> lower_char (hex_digit k) = hex_digit k"
    by code_simp
  then show "n < 16 \<Longrightarrow> ?thesis" by blast
qed

lemma char_nibbles [simp]: "(of_char b :: nat) div 16 < 16" "(of_char b :: nat) mod 16 < 16"
  using less_mult_imp_div_less [of "of_char b" 16 16] by simp_all

lemma hex_byte_lower:
  "length (hex_byte b) = 2" "list_all ascii_hexdigit (hex_byte b)" "map lower_char (hex_byte b) = hex_byte b"
  by (simp_all add: hex_byte_def hex_digit_lower)

lemma hex_bytes_lower: "is_lower_hex (2 * length bs) (hex_bytes bs)"
proof -
  have "length (hex_bytes bs) = 2 * length bs" "list_all ascii_hexdigit (hex_bytes bs)"
    "map lower_char (hex_bytes bs) = hex_bytes bs"
    by (induction bs) (auto simp: hex_bytes_def hex_byte_lower)
  then show ?thesis
    by (simp add: is_lower_hex_def is_hex_def to_ascii_lowercase_def)
qed

lemma hex_digit_inj: "m < 16 \<Longrightarrow> n < 16 \<Longrightarrow> hex_digit m = hex_digit n \<Longrightarrow> m = n"
proof -
  have "\<forall>m < 16. \<forall>n < 16. hex_digit m = hex_digit n \<longrightarrow> m = n"
    by code_simp
  then show "m < 16 \<Longrightarrow> n < 16 \<Longrightarrow> hex_digit m = hex_digit n \<Longrightarrow> m = n" by blast
qed

lemma hex_byte_inj: "hex_byte a = hex_byte b \<Longrightarrow> a = b"
proof -
  assume eq: "hex_byte a = hex_byte b"
  let ?a = "of_char a :: nat" and ?b = "of_char b :: nat"
  have "?a div 16 = ?b div 16" "?a mod 16 = ?b mod 16"
    using eq by (auto simp: hex_byte_def intro: hex_digit_inj)
  then have "?a = ?b" by (metis div_mult_mod_eq)
  then show "a = b" by simp
qed

lemma hex_bytes_inj: "hex_bytes as = hex_bytes bs \<Longrightarrow> as = bs"
proof (induction as arbitrary: bs)
  case Nil
  then show ?case by (cases bs) (auto simp: hex_bytes_def hex_byte_def)
next
  case (Cons a as)
  then obtain b cs where bs: "bs = b # cs" by (cases bs) (auto simp: hex_bytes_def hex_byte_def)
  with Cons.prems have "hex_byte a @ hex_bytes as = hex_byte b @ hex_bytes cs" by (simp add: hex_bytes_def)
  then have "hex_byte a = hex_byte b" "hex_bytes as = hex_bytes cs"
    by (simp_all add: append_eq_append_conv hex_byte_lower)
  with bs Cons.IH show ?case by (simp add: hex_byte_inj)
qed

section \<open>Contracts\<close>

datatype ContractStatus = Known | Unknown | Unreachable

record ChallengeContract =
  cc_schema_version :: string
  cc_challenge_id :: string
  cc_contract_version :: string
  cc_fingerprint :: string
  cc_required_submission :: string
  cc_status :: ContractStatus
  cc_adapter_id :: "string option"
  cc_round_start_ms :: "int option"
  cc_round_end_ms :: "int option"

definition contract_invalid :: "string \<Rightarrow> CoordinationError" where
  "contract_invalid msg = InvalidDecision (''challenge contract is invalid: '' @ msg)"

definition verify_fingerprint_input ::
  "(string \<Rightarrow> string) \<Rightarrow> ChallengeContract \<Rightarrow> string \<Rightarrow> CoordinationError + unit" where
  "verify_fingerprint_input sha256 c canonical_input =
     (let fingerprint = hex_bytes (take 8 (sha256 canonical_input)) in
      if cc_fingerprint c \<noteq> [] \<and> cc_fingerprint c = fingerprint then Ok ()
      else Err (contract_invalid ''fingerprint does not match the canonical contract input''))"

definition ChallengeContract_validate ::
  "ChallengeContract \<Rightarrow> string \<Rightarrow> int \<Rightarrow> CoordinationError + unit" where
  "ChallengeContract_validate c expected_challenge_id now_ms = checks
     [fail_if (cc_schema_version c \<noteq> SCHEMA_VERSION \<or> cc_challenge_id c \<noteq> expected_challenge_id
         \<or> is_blank (cc_challenge_id c) \<or> is_blank (cc_contract_version c)
         \<or> is_blank (cc_required_submission c) \<or> length (cc_fingerprint c) \<noteq> 16
         \<or> cc_fingerprint c \<noteq> to_ascii_lowercase (cc_fingerprint c)
         \<or> \<not> list_all ascii_hexdigit (cc_fingerprint c))
        (contract_invalid ''contract identity, version, submission schema, and fingerprint are required''),
      (case (cc_round_start_ms c, cc_round_end_ms c) of
         (Some start, Some stop) \<Rightarrow> fail_if (start < 0 \<or> stop \<le> start \<or> now_ms < start)
           (contract_invalid ''contract round window is invalid or not yet open'')
       | _ \<Rightarrow> Ok ()),
      fail_if (case cc_round_end_ms c of None \<Rightarrow> False | Some stop \<Rightarrow> now_ms \<ge> stop)
        (contract_invalid ''contract round window has closed''),
      (case cc_status c of
         Known \<Rightarrow> fail_if (none_or_empty (cc_adapter_id c))
           (contract_invalid ''known contract requires an exact adapter id'')
       | Unknown \<Rightarrow> fail_if (cc_adapter_id c \<noteq> None)
           (contract_invalid ''unknown contract cannot claim an adapter'')
       | Unreachable \<Rightarrow> fail_if (cc_adapter_id c \<noteq> None)
           (contract_invalid ''unreachable contract cannot claim an adapter''))]"

definition formal_admission :: "ChallengeContract \<Rightarrow> string \<Rightarrow> int \<Rightarrow> CoordinationError + unit" where
  "formal_admission c expected_challenge_id now_ms = checks
     [ChallengeContract_validate c expected_challenge_id now_ms,
      fail_if (cc_status c \<noteq> Known)
        (contract_invalid ''formal admission requires a known, fingerprint-matched contract'')]"

lemma ChallengeContract_validate_ok [validated]:
  "ChallengeContract_validate c i now = Ok () \<longleftrightarrow>
     cc_schema_version c = SCHEMA_VERSION \<and> cc_challenge_id c = i \<and> \<not> is_blank i
     \<and> \<not> is_blank (cc_contract_version c) \<and> \<not> is_blank (cc_required_submission c)
     \<and> is_lower_hex 16 (cc_fingerprint c)
     \<and> (\<forall>start stop. cc_round_start_ms c = Some start \<longrightarrow> cc_round_end_ms c = Some stop \<longrightarrow>
          0 \<le> start \<and> start < stop \<and> start \<le> now)
     \<and> (\<forall>stop. cc_round_end_ms c = Some stop \<longrightarrow> now < stop)
     \<and> (if cc_status c = Known then \<not> none_or_empty (cc_adapter_id c) else cc_adapter_id c = None)"
  unfolding ChallengeContract_validate_def
  by (cases "cc_round_start_ms c"; cases "cc_round_end_ms c"; cases "cc_status c")
     (auto simp: is_lower_hex_def is_hex_def)

section \<open>Properties\<close>

text \<open>
  C40. Formal admission is fail-closed: it succeeds only for a known contract of the expected
  challenge with a non-empty adapter id and a canonical 16-digit lower-case fingerprint, never at or
  after the end of the round, and, when the round has both a start and an end, only inside it.  An
  unknown or unreachable contract is never admitted.
\<close>

theorem formal_admission_fail_closed:
  assumes "formal_admission c i now = Ok ()"
  shows "cc_status c = Known \<and> cc_challenge_id c = i \<and> \<not> none_or_empty (cc_adapter_id c)
    \<and> is_lower_hex 16 (cc_fingerprint c)
    \<and> (\<forall>stop. cc_round_end_ms c = Some stop \<longrightarrow> now < stop
        \<and> (\<forall>start. cc_round_start_ms c = Some start \<longrightarrow> 0 \<le> start \<and> start \<le> now))"
  using assms unfolding formal_admission_def
  by (auto simp: ChallengeContract_validate_ok)

definition sample_contract :: "int option \<Rightarrow> int option \<Rightarrow> ChallengeContract" where
  "sample_contract start stop =
     \<lparr> cc_schema_version = SCHEMA_VERSION, cc_challenge_id = ''c1'', cc_contract_version = ''v1'',
       cc_fingerprint = replicate 16 CHR ''a'', cc_required_submission = ''zip'', cc_status = Known,
       cc_adapter_id = Some ''adapter'', cc_round_start_ms = start, cc_round_end_ms = stop \<rparr>"

lemma sample_contract_admitted [simp]:
  "formal_admission (sample_contract start stop) ''c1'' now = Ok () \<longleftrightarrow>
     (\<forall>a b. start = Some a \<longrightarrow> stop = Some b \<longrightarrow> 0 \<le> a \<and> a < b \<and> a \<le> now)
     \<and> (\<forall>b. stop = Some b \<longrightarrow> now < b)"
  unfolding formal_admission_def
  by (simp add: ChallengeContract_validate_ok)
     (auto simp: sample_contract_def is_lower_hex_def is_hex_def to_ascii_lowercase_def list_all_iff)

theorem formal_admission_fail_closed_witness:
  "formal_admission (sample_contract (Some 10) (Some 90)) ''c1'' 50 = Ok ()
   \<and> cc_status (sample_contract (Some 10) (Some 90)) = Known"
proof -
  have "formal_admission (sample_contract (Some 10) (Some 90)) ''c1'' 50 = Ok ()" by simp
  from formal_admission_fail_closed [OF this] this show ?thesis by blast
qed

text \<open>
  The start of the round is enforced only together with an end: a contract whose round starts in
  the future and has no end recorded is formally admitted before the start.
\<close>

theorem open_ended_round_admitted_early:
  "\<exists>c start. cc_round_start_ms c = Some start \<and> (50 :: int) < start \<and> formal_admission c ''c1'' 50 = Ok ()"
  by (rule exI [of _ "sample_contract (Some 100) None"], rule exI [of _ 100])
     (simp, simp add: sample_contract_def)

text \<open>
  The fingerprint identifies the contract input up to the first eight digest bytes: an input
  verifies exactly when the contract's fingerprint is the hexadecimal form of those bytes, such a
  fingerprint always has the canonical form validation asks for, and two inputs that verify against
  one contract agree in them.
\<close>

theorem fingerprint_identifies_input:
  assumes "sha256_length sha256" and "verify_fingerprint_input sha256 c x = Ok ()"
  shows "is_lower_hex 16 (cc_fingerprint c)
    \<and> (verify_fingerprint_input sha256 c y = Ok () \<longleftrightarrow> take 8 (sha256 y) = take 8 (sha256 x))"
proof -
  have fp: "cc_fingerprint c = hex_bytes (take 8 (sha256 x))" "cc_fingerprint c \<noteq> []"
    using assms(2) by (auto simp: verify_fingerprint_input_def Let_def split: if_splits)
  have "length (take 8 (sha256 x)) = 8"
    using assms(1) by (simp add: sha256_length_def)
  then have "is_lower_hex 16 (cc_fingerprint c)"
    using hex_bytes_lower [of "take 8 (sha256 x)"] fp by simp
  moreover have "verify_fingerprint_input sha256 c y = Ok () \<longleftrightarrow> take 8 (sha256 y) = take 8 (sha256 x)"
    using fp hex_bytes_inj [of "take 8 (sha256 x)" "take 8 (sha256 y)"]
    by (auto simp: verify_fingerprint_input_def Let_def)
  ultimately show ?thesis ..
qed

theorem fingerprint_identifies_input_witness:
  "sha256_length (\<lambda>x. replicate 32 CHR 0xAA)
   \<and> verify_fingerprint_input (\<lambda>x. replicate 32 CHR 0xAA) (sample_contract None None) ''in'' = Ok ()
   \<and> is_lower_hex 16 (cc_fingerprint (sample_contract None None))"
proof -
  let ?h = "\<lambda>x :: string. replicate 32 CHR 0xAA"
  have len: "sha256_length ?h" by (simp add: sha256_length_def)
  have ok: "verify_fingerprint_input ?h (sample_contract None None) ''in'' = Ok ()"
    by code_simp
  from fingerprint_identifies_input [OF len ok] len ok show ?thesis by blast
qed

end
