(* ===== verification/StageBrief.thy ===== *)
theory StageBrief
  imports Evidence
begin

text \<open>
  Stage briefs (\<open>ascodex-coordination/src/stage_brief.rs\<close>): the bounded, hashed skill selection a
  role receives for a research stage, and the route table it must match exactly.
\<close>

definition MAX_STAGE_BRIEF_BYTES :: nat where
  "MAX_STAGE_BRIEF_BYTES = 1229"

datatype ResearchStage = Intake | SolverExperiment | MonitorObservation | IntelObservation | PreSubmit
  | StuckJudge | StuckRedTeam | JudgeAnalysis | Closure | CloudCompute | Handover

record SkillRef =
  sk_name :: string
  sk_source_path :: string
  sk_sha256 :: string
  sk_selection_reason :: string

record StageBrief =
  sb_schema_version :: string
  sb_brief_id :: string
  sb_campaign_id :: string
  sb_challenge_id :: string
  sb_challenge_workspace_root :: string
  sb_stage :: ResearchStage
  sb_target_role :: Role
  sb_generated_at_ms :: int
  sb_expires_at_ms :: int
  sb_max_bytes :: nat
  sb_estimated_bytes :: nat
  sb_skills :: "SkillRef list"
  sb_selection_reason :: string
  sb_capability_map_sha256 :: string
  sb_clean_room :: bool

definition brief_invalid :: "string \<Rightarrow> CoordinationError" where
  "brief_invalid msg = InvalidDecision (''stage brief is invalid: '' @ msg)"

definition validate_digest :: "string \<Rightarrow> string \<Rightarrow> CoordinationError + unit" where
  "validate_digest val label = fail_if (length val \<noteq> 64 \<or> \<not> list_all ascii_hexdigit val)
     (brief_invalid (label @ '' sha256 must be a 64-character hexadecimal digest''))"

definition route :: "ResearchStage \<Rightarrow> Role list \<times> string list \<times> bool" where
  "route stage =
     (case stage of
        Intake \<Rightarrow> ([Chief, Intel, JudgeAnalyst],
          [''playground-solve-optimal'', ''platform-scorecard-analyze''], False)
      | SolverExperiment \<Rightarrow> ([Solver],
          [''playground-solve-optimal'', ''platform-scorecard-analyze''], False)
      | MonitorObservation \<Rightarrow> ([Monitor], [''oracle-probe''], False)
      | IntelObservation \<Rightarrow> ([Intel], [''competition-coordinate''], False)
      | PreSubmit \<Rightarrow> ([Solver],
          [''real-trace-capture'', ''trace-contamination-redline'', ''trace-maximize'',
           ''submit-attempt''], False)
      | StuckJudge \<Rightarrow> ([JudgeAnalyst],
          [''platform-scorecard-analyze'', ''oracle-probe'', ''differential-scoring'',
           ''judge-field-audit''], False)
      | JudgeAnalysis \<Rightarrow> ([JudgeAnalyst],
          [''platform-scorecard-analyze'', ''oracle-probe'', ''differential-scoring'',
           ''judge-field-audit''], False)
      | StuckRedTeam \<Rightarrow> ([RedTeam], [''unstuck-switch-angle'', ''red-team-review''], True)
      | Closure \<Rightarrow> ([Chief, Solver], [''closure-evidence-standard''], False)
      | CloudCompute \<Rightarrow> ([Solver], [''bohrium-bohr''], False)
      | Handover \<Rightarrow> ([Chief, Solver, JudgeAnalyst, RedTeam], [''competition-coordinate''], False))"

definition is_separator :: "char \<Rightarrow> bool" where
  "is_separator c \<longleftrightarrow> c = CHR ''/'' \<or> c = CHR 0x5C"

text \<open>\<open>source_path.replace('\\', "/")\<close>.\<close>

definition normalized_path :: "string \<Rightarrow> string" where
  "normalized_path p = map (\<lambda>c. if c = CHR 0x5C then CHR ''/'' else c) p"

definition skill_checks :: "SkillRef \<Rightarrow> (CoordinationError + unit) list" where
  "skill_checks k =
     [fail_if (eq_ignore_ascii_case (sk_name k) ''worker-submit-chain''
         \<or> str_contains (to_ascii_lowercase (sk_source_path k)) ''worker-submit-chain'')
        (brief_invalid ''the retired worker-submit-chain skill is forbidden''),
      fail_if (is_absolute (sk_source_path k)
         \<or> list_ex (\<lambda>part. part = ''..'') (split_by is_separator (sk_source_path k))
         \<or> normalized_path (sk_source_path k) \<noteq> ''.agents/skills/'' @ sk_name k @ ''/SKILL.md'')
        (brief_invalid ''skill source paths must be canonical workspace-relative paths''),
      validate_digest (sk_sha256 k) ''skill'']"

text \<open>The loop over the skills; \<open>names\<close> and \<open>paths\<close> are the two sets it fills.\<close>

fun validate_skills :: "string list \<Rightarrow> string list \<Rightarrow> SkillRef list \<Rightarrow> CoordinationError + string list" where
  "validate_skills names paths [] = Ok names"
| "validate_skills names paths (k # ks) =
     (if is_blank (sk_name k) \<or> is_blank (sk_selection_reason k)
         \<or> sk_name k \<in> set names \<or> sk_source_path k \<in> set paths
      then Err (brief_invalid ''skill names, paths, and reasons must be non-empty and unique'')
      else case checks (skill_checks k) of
             Inl e \<Rightarrow> Err e
           | Inr _ \<Rightarrow> validate_skills (sk_name k # names) (sk_source_path k # paths) ks)"

definition StageBrief_validate :: "StageBrief \<Rightarrow> int \<Rightarrow> CoordinationError + unit" where
  "StageBrief_validate b now_ms =
     (let (allowed_roles, required_skills, clean_room) = route (sb_stage b) in checks
       [fail_if (sb_schema_version b \<noteq> SCHEMA_VERSION \<or> is_blank (sb_brief_id b)
           \<or> is_blank (sb_campaign_id b) \<or> is_blank (sb_challenge_id b)
           \<or> is_blank (sb_selection_reason b) \<or> \<not> is_absolute (sb_challenge_workspace_root b))
          (brief_invalid ''brief identifiers and selection reason are required''),
        fail_if (sb_generated_at_ms b < 0 \<or> sb_expires_at_ms b \<le> sb_generated_at_ms b
           \<or> now_ms < sb_generated_at_ms b \<or> now_ms \<ge> sb_expires_at_ms b)
          (brief_invalid ''brief is outside its validity window''),
        fail_if (sb_max_bytes b = 0 \<or> sb_max_bytes b > MAX_STAGE_BRIEF_BYTES
           \<or> sb_estimated_bytes b = 0 \<or> sb_estimated_bytes b > sb_max_bytes b)
          (brief_invalid ''brief exceeds the bounded context budget''),
        validate_digest (sb_capability_map_sha256 b) ''capability map'',
        fail_if (sb_target_role b \<notin> set allowed_roles \<or> sb_clean_room b \<noteq> clean_room)
          (brief_invalid ''brief target role or clean-room flag does not match its stage''),
        fail_if (sb_skills b = []) (brief_invalid ''brief must select at least one skill''),
        (case validate_skills [] [] (sb_skills b) of
           Inl e \<Rightarrow> Err e
         | Inr names \<Rightarrow> fail_if (set names \<noteq> set required_skills)
             (brief_invalid ''brief skill set does not exactly match the stage route''))])"

section \<open>Lemmas\<close>

lemma validate_digest_ok [simp]: "validate_digest v l = Ok () \<longleftrightarrow> is_hex 64 v"
  by (auto simp: validate_digest_def is_hex_def)

definition skill_ok :: "SkillRef \<Rightarrow> bool" where
  "skill_ok k \<longleftrightarrow> \<not> is_blank (sk_name k) \<and> \<not> is_blank (sk_selection_reason k)
     \<and> checks (skill_checks k) = Ok ()"

lemma skill_okD:
  assumes "skill_ok k"
  shows "is_hex 64 (sk_sha256 k)" "\<not> is_absolute (sk_source_path k)"
    "''..'' \<notin> set (split_by is_separator (sk_source_path k))"
    "normalized_path (sk_source_path k) = ''.agents/skills/'' @ sk_name k @ ''/SKILL.md''"
  using assms by (auto simp: skill_ok_def skill_checks_def list_ex_iff)

lemma validate_skills_ok:
  "validate_skills names paths ks = Ok out \<longleftrightarrow>
     list_all skill_ok ks \<and> distinct (map sk_name ks) \<and> distinct (map sk_source_path ks)
     \<and> sk_name ` set ks \<inter> set names = {} \<and> sk_source_path ` set ks \<inter> set paths = {}
     \<and> out = rev (map sk_name ks) @ names"
proof (induction names paths ks rule: validate_skills.induct)
  case (1 names paths)
  then show ?case by auto
next
  case (2 names paths k ks)
  let ?g = "is_blank (sk_name k) \<or> is_blank (sk_selection_reason k)
    \<or> sk_name k \<in> set names \<or> sk_source_path k \<in> set paths"
  consider (bad) "?g" | (err) e where "\<not> ?g" "checks (skill_checks k) = Inl e"
    | (go) "\<not> ?g" "checks (skill_checks k) = Inr ()"
    by (cases "checks (skill_checks k)") auto
  then show ?case
  proof cases
    case bad
    then show ?thesis by (auto simp: skill_ok_def simp del: checks_ok)
  next
    case err
    then show ?thesis by (auto simp: skill_ok_def simp del: checks_ok)
  next
    case go
    then have step: "validate_skills names paths (k # ks) =
        validate_skills (sk_name k # names) (sk_source_path k # paths) ks"
      by (simp del: checks_ok)
    have "skill_ok k" using go by (simp add: skill_ok_def del: checks_ok)
    then show ?thesis
      unfolding step "2.IH" [OF go] using go(1) by auto
  qed
qed

lemma StageBrief_validate_ok [validated]:
  "StageBrief_validate b now = Ok () \<longleftrightarrow>
     sb_schema_version b = SCHEMA_VERSION \<and> \<not> is_blank (sb_brief_id b) \<and> \<not> is_blank (sb_campaign_id b)
     \<and> \<not> is_blank (sb_challenge_id b) \<and> \<not> is_blank (sb_selection_reason b)
     \<and> is_absolute (sb_challenge_workspace_root b)
     \<and> 0 \<le> sb_generated_at_ms b \<and> sb_generated_at_ms b \<le> now \<and> now < sb_expires_at_ms b
     \<and> 0 < sb_max_bytes b \<and> sb_max_bytes b \<le> MAX_STAGE_BRIEF_BYTES
     \<and> 0 < sb_estimated_bytes b \<and> sb_estimated_bytes b \<le> sb_max_bytes b
     \<and> is_hex 64 (sb_capability_map_sha256 b)
     \<and> sb_target_role b \<in> set (fst (route (sb_stage b)))
     \<and> sb_clean_room b = snd (snd (route (sb_stage b)))
     \<and> sb_skills b \<noteq> [] \<and> list_all skill_ok (sb_skills b)
     \<and> distinct (map sk_name (sb_skills b)) \<and> distinct (map sk_source_path (sb_skills b))
     \<and> sk_name ` set (sb_skills b) = set (fst (snd (route (sb_stage b))))"
proof (cases "validate_skills [] [] (sb_skills b)")
  case (Inl e)
  then have "\<not> (list_all skill_ok (sb_skills b) \<and> distinct (map sk_name (sb_skills b))
      \<and> distinct (map sk_source_path (sb_skills b)))"
    using validate_skills_ok [of "[]" "[]" "sb_skills b" "rev (map sk_name (sb_skills b))"] by auto
  with Inl show ?thesis
    unfolding StageBrief_validate_def by (simp split: prod.splits) blast
next
  case (Inr names)
  then have *: "list_all skill_ok (sb_skills b)" "distinct (map sk_name (sb_skills b))"
      "distinct (map sk_source_path (sb_skills b))" "set names = sk_name ` set (sb_skills b)"
    unfolding validate_skills_ok by auto
  show ?thesis
    unfolding StageBrief_validate_def using Inr * by (auto split: prod.splits)
qed

section \<open>Properties\<close>

text \<open>
  A valid brief hands a role exactly the skills of its stage and nothing else: the skill set is
  the route's, each skill is the hashed \<open>SKILL.md\<close> of its own directory under \<open>.agents/skills\<close>, no
  path is absolute or climbs with \<open>..\<close>, the brief fits the 1229-byte budget and is inside its
  validity window.  In particular only a solver in the pre-submit stage is ever handed
  \<open>submit-attempt\<close>, and nobody the retired \<open>worker-submit-chain\<close>.
\<close>

theorem brief_hands_out_exactly_the_route:
  assumes "StageBrief_validate b now = Ok ()"
  shows "sk_name ` set (sb_skills b) = set (fst (snd (route (sb_stage b))))
    \<and> (\<forall>k \<in> set (sb_skills b). is_hex 64 (sk_sha256 k) \<and> \<not> is_absolute (sk_source_path k)
        \<and> ''..'' \<notin> set (split_by is_separator (sk_source_path k))
        \<and> normalized_path (sk_source_path k) = ''.agents/skills/'' @ sk_name k @ ''/SKILL.md'')
    \<and> sb_estimated_bytes b \<le> MAX_STAGE_BRIEF_BYTES
    \<and> now \<in> {sb_generated_at_ms b ..< sb_expires_at_ms b}
    \<and> (''submit-attempt'' \<in> sk_name ` set (sb_skills b) \<longrightarrow>
        sb_stage b = PreSubmit \<and> sb_target_role b = Solver)
    \<and> ''worker-submit-chain'' \<notin> sk_name ` set (sb_skills b)"
proof -
  have b: "sk_name ` set (sb_skills b) = set (fst (snd (route (sb_stage b))))"
    "sb_target_role b \<in> set (fst (route (sb_stage b)))" "\<forall>k \<in> set (sb_skills b). skill_ok k"
    "sb_estimated_bytes b \<le> sb_max_bytes b" "sb_max_bytes b \<le> MAX_STAGE_BRIEF_BYTES"
    "sb_generated_at_ms b \<le> now" "now < sb_expires_at_ms b"
    using assms unfolding StageBrief_validate_ok list_all_iff by blast+
  have routes: "(''submit-attempt'' \<in> set (fst (snd (route s))) \<longrightarrow> s = PreSubmit)
      \<and> fst (route PreSubmit) = [Solver] \<and> ''worker-submit-chain'' \<notin> set (fst (snd (route s)))" for s
    by (cases s) (auto simp: route_def)
  show ?thesis
    using b routes [of "sb_stage b"] skill_okD by auto
qed

definition sample_brief :: StageBrief where
  "sample_brief =
     \<lparr> sb_schema_version = SCHEMA_VERSION, sb_brief_id = ''b1'', sb_campaign_id = ''camp'',
       sb_challenge_id = ''chal'', sb_challenge_workspace_root = ''/w'', sb_stage = CloudCompute,
       sb_target_role = Solver, sb_generated_at_ms = 10, sb_expires_at_ms = 90, sb_max_bytes = 1229,
       sb_estimated_bytes = 600,
       sb_skills = [\<lparr> sk_name = ''bohrium-bohr'', sk_source_path = ''.agents/skills/bohrium-bohr/SKILL.md'',
         sk_sha256 = digest CHR ''a'', sk_selection_reason = ''compute'' \<rparr>],
       sb_selection_reason = ''compute'', sb_capability_map_sha256 = digest CHR ''b'', sb_clean_room = False \<rparr>"

lemma sample_brief_valid: "StageBrief_validate sample_brief 50 = Ok ()"
  by code_simp

theorem brief_hands_out_exactly_the_route_witness:
  "StageBrief_validate sample_brief 50 = Ok ()
   \<and> sk_name ` set (sb_skills sample_brief) = {''bohrium-bohr''}"
proof -
  have "set (fst (snd (route (sb_stage sample_brief)))) = {''bohrium-bohr''}"
    by (simp add: sample_brief_def route_def)
  with brief_hands_out_exactly_the_route [OF sample_brief_valid] sample_brief_valid show ?thesis by simp
qed

text \<open>
  Who may be briefed as clean-room: a valid brief carries the clean-room flag exactly in the
  stage \<open>StuckRedTeam\<close>, whose only role is the red team.  Consequently a red-team brief for a handover
  is valid only without the flag.
\<close>

theorem clean_room_flag_is_the_stage:
  assumes "StageBrief_validate b now = Ok ()"
  shows "(sb_clean_room b \<longleftrightarrow> sb_stage b = StuckRedTeam)
    \<and> (sb_clean_room b \<longrightarrow> sb_target_role b = RedTeam)
    \<and> (sb_target_role b = RedTeam \<longrightarrow> sb_stage b = StuckRedTeam \<or> sb_stage b = Handover \<and> \<not> sb_clean_room b)"
proof -
  have "sb_target_role b \<in> set (fst (route (sb_stage b)))" "sb_clean_room b = snd (snd (route (sb_stage b)))"
    using assms unfolding StageBrief_validate_ok by blast+
  then show ?thesis by (cases "sb_stage b") (auto simp: route_def)
qed

theorem clean_room_flag_is_the_stage_witness:
  "StageBrief_validate sample_brief 50 = Ok () \<and> \<not> sb_clean_room sample_brief"
proof -
  have "sb_stage sample_brief \<noteq> StuckRedTeam" by (simp add: sample_brief_def)
  with clean_room_flag_is_the_stage [OF sample_brief_valid] sample_brief_valid show ?thesis by blast
qed

end
