(* ===== verification/WorkspaceAcl.thy ===== *)
theory WorkspaceAcl
  imports Roles
begin

text \<open>
  Role-specific workspace boundaries (\<open>ascodex-coordination/src/workspace_acl.rs\<close>).

  The file system is the parameter \<open>fs\<close>: \<open>fs::canonicalize\<close> and the two file-type tests.  Paths are
  byte strings; \<open>Path::starts_with\<close> and path equality compare the component sequences of the Unix
  targets (\<open>components\<close>).
\<close>

section \<open>Paths\<close>

definition components :: "string \<Rightarrow> string list" where
  "components p =
     (let parts = split_by (\<lambda>c. c = CHR ''/'') p;
          normal = filter (\<lambda>s. s \<noteq> [] \<and> s \<noteq> ''.'') parts
      in if is_absolute p then ''/'' # normal
         else if hd parts = ''.'' then ''.'' # normal else normal)"

definition path_starts_with :: "string \<Rightarrow> string \<Rightarrow> bool" where
  "path_starts_with p base \<longleftrightarrow> prefix (components base) (components p)"

definition path_eq :: "string \<Rightarrow> string \<Rightarrow> bool" where
  "path_eq p q \<longleftrightarrow> components p = components q"

text \<open>\<open>Path::join\<close>.\<close>

definition path_join :: "string \<Rightarrow> string \<Rightarrow> string" where
  "path_join p q =
     (if is_absolute q then q
      else if p = [] \<or> ends_with p ''/'' then p @ q
      else p @ ''/'' @ q)"

lemma path_starts_with_refl [simp]: "path_starts_with p p"
  by (simp add: path_starts_with_def)

lemma path_starts_with_trans:
  "path_starts_with p q \<Longrightarrow> path_starts_with q r \<Longrightarrow> path_starts_with p r"
  by (auto simp: path_starts_with_def intro: prefix_order.order_trans)

text \<open>Two directories that contain one path are nested.\<close>

lemma path_starts_with_nested:
  "path_starts_with p a \<Longrightarrow> path_starts_with p b \<Longrightarrow> path_starts_with a b \<or> path_starts_with b a"
  by (auto simp: path_starts_with_def dest: prefix_same_cases)

record FileSystem =
  fs_canonicalize :: "string \<Rightarrow> string option"
  fs_is_dir :: "string \<Rightarrow> bool"
  fs_is_file :: "string \<Rightarrow> bool"

section \<open>The boundary\<close>

datatype WorkspaceAclError = InvalidChallengeRoot | MissingCleanRoomInputs | MissingEvidenceRoots
  | MissingParentRoots | CleanRoomOverlapsParent

record WorkspaceAcl =
  wa_role :: Role
  wa_challenge_root :: string
  wa_cwd :: string
  wa_readable_roots :: "string list"
  wa_writable_roots :: "string list"

definition push_existing :: "FileSystem \<Rightarrow> string \<Rightarrow> string \<Rightarrow> string list \<Rightarrow> string list" where
  "push_existing fs wroot relative destination =
     (case fs_canonicalize fs (path_join wroot relative) of
        None \<Rightarrow> destination
      | Some canonical \<Rightarrow>
          if (fs_is_dir fs canonical \<or> fs_is_file fs canonical) \<and> path_starts_with canonical wroot
             \<and> \<not> list_ex (\<lambda>existing. path_eq existing canonical) destination
          then destination @ [canonical] else destination)"

definition push_all :: "FileSystem \<Rightarrow> string \<Rightarrow> string list \<Rightarrow> string list" where
  "push_all fs wroot relatives = foldl (\<lambda>d r. push_existing fs wroot r d) [] relatives"

definition for_role :: "FileSystem \<Rightarrow> string \<Rightarrow> Role \<Rightarrow> WorkspaceAclError + WorkspaceAcl" where
  "for_role fs challenge_root role =
     (if \<not> is_absolute challenge_root then Err InvalidChallengeRoot
      else case fs_canonicalize fs challenge_root of
        None \<Rightarrow> Err InvalidChallengeRoot
      | Some wroot \<Rightarrow>
          if \<not> fs_is_dir fs wroot then Err InvalidChallengeRoot
          else
            let acl = (\<lambda>readable writable. Ok
                  \<lparr> wa_role = role, wa_challenge_root = wroot, wa_cwd = wroot,
                    wa_readable_roots = readable, wa_writable_roots = writable \<rparr>)
            in case role of
                 Solver \<Rightarrow> acl [wroot] [wroot]
               | RedTeam \<Rightarrow>
                   let readable = push_all fs wroot [''knowledge'', ''src'', ''characterization.json'']
                   in if readable = [] then Err MissingCleanRoomInputs else acl readable []
               | Chief \<Rightarrow> acl [wroot] []
               | _ \<Rightarrow>
                   let readable = push_all fs wroot [''outputs'', ''execution/results'', ''trace'',
                         ''knowledge'', ''arm_manifest.json'', ''characterization.json'']
                   in if readable = [] then Err MissingEvidenceRoots else acl readable [])"

definition is_within_any :: "FileSystem \<Rightarrow> string \<Rightarrow> string list \<Rightarrow> bool" where
  "is_within_any fs p roots \<longleftrightarrow>
     (case fs_canonicalize fs p of
        None \<Rightarrow> False
      | Some canonical \<Rightarrow> list_ex (\<lambda>wroot. path_starts_with canonical wroot) roots)"

definition can_read :: "FileSystem \<Rightarrow> WorkspaceAcl \<Rightarrow> string \<Rightarrow> bool" where
  "can_read fs acl p \<longleftrightarrow> is_within_any fs p (wa_readable_roots acl)"

definition can_write :: "FileSystem \<Rightarrow> WorkspaceAcl \<Rightarrow> string \<Rightarrow> bool" where
  "can_write fs acl p \<longleftrightarrow> wa_writable_roots acl \<noteq> [] \<and> is_within_any fs p (wa_writable_roots acl)"

text \<open>The loop of \<open>validate_clean_room_isolation\<close> over the parent roots.\<close>

fun clean_room_isolated :: "FileSystem \<Rightarrow> string \<Rightarrow> string list \<Rightarrow> WorkspaceAclError + unit" where
  "clean_room_isolated fs wroot [] = Ok ()"
| "clean_room_isolated fs wroot (p # ps) =
     (case fs_canonicalize fs p of
        None \<Rightarrow> Err MissingParentRoots
      | Some parent \<Rightarrow>
          if path_starts_with wroot parent \<or> path_starts_with parent wroot
          then Err CleanRoomOverlapsParent
          else clean_room_isolated fs wroot ps)"

definition validate_clean_room_isolation ::
  "FileSystem \<Rightarrow> WorkspaceAcl \<Rightarrow> string list \<Rightarrow> WorkspaceAclError + unit" where
  "validate_clean_room_isolation fs acl parent_roots =
     (if wa_role acl \<noteq> RedTeam then Ok ()
      else if parent_roots = [] then Err MissingParentRoots
      else clean_room_isolated fs (wa_challenge_root acl) parent_roots)"

section \<open>Lemmas\<close>

lemma push_existing_set:
  "x \<in> set (push_existing fs wroot r d) \<Longrightarrow>
     x \<in> set d \<or> fs_canonicalize fs (path_join wroot r) = Some x \<and> path_starts_with x wroot"
  by (auto simp: push_existing_def split: option.splits if_splits)

lemma push_all_set:
  "x \<in> set (push_all fs wroot rs) \<Longrightarrow>
     \<exists>r \<in> set rs. fs_canonicalize fs (path_join wroot r) = Some x \<and> path_starts_with x wroot"
proof (induction rs rule: rev_induct)
  case Nil
  then show ?case by (simp add: push_all_def)
next
  case (snoc r rs)
  then show ?case
    using push_existing_set [of x fs wroot r "push_all fs wroot rs"] by (auto simp: push_all_def)
qed

text \<open>The relative locations a role may read.\<close>

definition role_inputs :: "Role \<Rightarrow> string list" where
  "role_inputs r =
     (case r of
        RedTeam \<Rightarrow> [''knowledge'', ''src'', ''characterization.json'']
      | Solver \<Rightarrow> [] | Chief \<Rightarrow> []
      | _ \<Rightarrow> [''outputs'', ''execution/results'', ''trace'', ''knowledge'', ''arm_manifest.json'',
              ''characterization.json''])"

lemma for_role_ok:
  assumes "for_role fs p role = Ok acl"
  shows "wa_role acl = role \<and> fs_canonicalize fs p = Some (wa_challenge_root acl)
    \<and> wa_writable_roots acl = (if role = Solver then [wa_challenge_root acl] else [])
    \<and> (if role \<in> {Solver, Chief} then wa_readable_roots acl = [wa_challenge_root acl]
       else wa_readable_roots acl = push_all fs (wa_challenge_root acl) (role_inputs role)
            \<and> wa_readable_roots acl \<noteq> [])"
  using assms
  by (cases role) (auto simp: for_role_def role_inputs_def Let_def split: if_splits option.splits)

lemma readable_in_root:
  assumes "for_role fs p role = Ok acl" and "x \<in> set (wa_readable_roots acl)"
  shows "path_starts_with x (wa_challenge_root acl)"
  using for_role_ok [OF assms(1)] assms(2) push_all_set by (auto split: if_splits)

lemma can_read_in_root:
  assumes "for_role fs p role = Ok acl" and "can_read fs acl q" and "fs_canonicalize fs q = Some x"
  shows "path_starts_with x (wa_challenge_root acl)"
  using assms readable_in_root
  by (auto simp: can_read_def is_within_any_def list_ex_iff intro: path_starts_with_trans)

lemma clean_room_isolated_ok:
  "clean_room_isolated fs wroot ps = Ok () \<longleftrightarrow>
     (\<forall>p \<in> set ps. \<exists>q. fs_canonicalize fs p = Some q \<and> \<not> path_starts_with wroot q \<and> \<not> path_starts_with q wroot)"
  by (induction fs wroot ps rule: clean_room_isolated.induct) (auto split: option.splits)

text \<open>Nothing that resolves inside a parent workspace resolves inside an isolated one.\<close>

lemma isolated_from_parents:
  assumes "for_role fs p RedTeam = Ok acl"
    and "validate_clean_room_isolation fs acl parents = Ok ()"
    and "parent \<in> set parents" and "fs_canonicalize fs parent = Some base"
    and "fs_canonicalize fs q = Some x" and "path_starts_with x base"
  shows "\<not> can_read fs acl q"
proof
  assume "can_read fs acl q"
  then have "path_starts_with x (wa_challenge_root acl)"
    using can_read_in_root [OF assms(1) _ assms(5)] by blast
  then have "path_starts_with base (wa_challenge_root acl) \<or> path_starts_with (wa_challenge_root acl) base"
    using path_starts_with_nested assms(6) by blast
  moreover have "wa_role acl = RedTeam" using for_role_ok [OF assms(1)] by simp
  ultimately show False
    using assms(2,3,4)
    by (auto simp: validate_clean_room_isolation_def clean_room_isolated_ok split: if_splits)
qed

section \<open>Properties\<close>

text \<open>
  A role's boundary is confined to its challenge workspace.  Whatever a role can read resolves
  inside the canonical challenge root; only the solver can write anything, and only inside it; and
  the red team and the evidence readers read only what resolves inside one of the locations listed
  for their role.
\<close>

theorem role_boundary_is_confined:
  assumes "for_role fs p role = Ok acl"
  shows "(can_read fs acl q \<longrightarrow> (\<exists>x. fs_canonicalize fs q = Some x \<and> path_starts_with x (wa_challenge_root acl)))
    \<and> (can_write fs acl q \<longrightarrow> role = Solver
        \<and> (\<exists>x. fs_canonicalize fs q = Some x \<and> path_starts_with x (wa_challenge_root acl)))
    \<and> (role \<notin> {Solver, Chief} \<and> can_read fs acl q \<longrightarrow>
        (\<exists>r \<in> set (role_inputs role). \<exists>base x.
           fs_canonicalize fs (path_join (wa_challenge_root acl) r) = Some base
           \<and> fs_canonicalize fs q = Some x \<and> path_starts_with x base))"
proof -
  note ok = for_role_ok [OF assms]
  have reads: "\<exists>x. fs_canonicalize fs q = Some x" if "can_read fs acl q"
    using that by (auto simp: can_read_def is_within_any_def split: option.splits)
  have writes: "role = Solver \<and> can_read fs acl q" if "can_write fs acl q"
    using that ok by (auto simp: can_write_def can_read_def is_within_any_def split: if_splits option.splits)
  have "\<exists>r \<in> set (role_inputs role). \<exists>base x.
      fs_canonicalize fs (path_join (wa_challenge_root acl) r) = Some base
      \<and> fs_canonicalize fs q = Some x \<and> path_starts_with x base"
    if rl: "role \<notin> {Solver, Chief}" and rd: "can_read fs acl q"
  proof -
    obtain x base where "fs_canonicalize fs q = Some x" "base \<in> set (wa_readable_roots acl)"
      "path_starts_with x base"
      using rd by (auto simp: can_read_def is_within_any_def list_ex_iff split: option.splits)
    moreover have "wa_readable_roots acl = push_all fs (wa_challenge_root acl) (role_inputs role)"
      using ok rl by (simp split: if_splits)
    ultimately show ?thesis
      using push_all_set [of base fs "wa_challenge_root acl" "role_inputs role"] by auto
  qed
  then show ?thesis
    using reads writes can_read_in_root [OF assms] by blast
qed

text \<open>A file system with a workspace whose \<open>src\<close> is a symbolic link to \<open>target\<close>.\<close>

definition sample_fs :: "string \<Rightarrow> FileSystem" where
  "sample_fs target =
     \<lparr> fs_canonicalize = (\<lambda>p. if p = ''/w/src'' then Some target
          else if p \<in> set [''/w'', ''/w/outputs'', ''/w/outputs/answer'', ''/w/code'', ''/w/code/a'', ''/s'']
          then Some p else None),
       fs_is_dir = (\<lambda>p. p \<in> set [''/w'', ''/w/outputs'', ''/w/code'', ''/s'']),
       fs_is_file = (\<lambda>p. p \<in> set [''/w/outputs/answer'', ''/w/code/a'']) \<rparr>"

definition sample_acl :: "string \<Rightarrow> WorkspaceAcl" where
  "sample_acl target =
     \<lparr> wa_role = RedTeam, wa_challenge_root = ''/w'', wa_cwd = ''/w'', wa_readable_roots = [target],
       wa_writable_roots = [] \<rparr>"

lemma sample_for_role: "for_role (sample_fs ''/w/code'') ''/w'' RedTeam = Ok (sample_acl ''/w/code'')"
  by code_simp

theorem role_boundary_is_confined_witness:
  "for_role (sample_fs ''/w/code'') ''/w'' RedTeam = Ok (sample_acl ''/w/code'')
   \<and> can_read (sample_fs ''/w/code'') (sample_acl ''/w/code'') ''/w/code/a''
   \<and> \<not> can_write (sample_fs ''/w/code'') (sample_acl ''/w/code'') ''/w/code/a''"
proof -
  have "can_read (sample_fs ''/w/code'') (sample_acl ''/w/code'') ''/w/code/a''" by code_simp
  with role_boundary_is_confined [OF sample_for_role, of "''/w/code/a''"] sample_for_role show ?thesis
    by auto
qed

text \<open>
  Clean-room isolation is real: if the isolation check of a red-team boundary passes against the
  parent workspaces, then nothing that resolves inside a parent workspace is readable through the
  boundary, whatever symbolic links exist.
\<close>

theorem clean_room_reads_nothing_of_the_parents:
  assumes "for_role fs p RedTeam = Ok acl"
    and "validate_clean_room_isolation fs acl parents = Ok ()"
    and "parent \<in> set parents" and "fs_canonicalize fs parent = Some base"
    and "fs_canonicalize fs q = Some x" and "path_starts_with x base"
  shows "\<not> can_read fs acl q"
  by (rule isolated_from_parents [OF assms])

theorem clean_room_reads_nothing_of_the_parents_witness:
  "validate_clean_room_isolation (sample_fs ''/w/code'') (sample_acl ''/w/code'') [''/s''] = Ok ()
   \<and> \<not> can_read (sample_fs ''/w/code'') (sample_acl ''/w/code'') ''/s''"
proof -
  let ?fs = "sample_fs ''/w/code''"
  have iso: "validate_clean_room_isolation ?fs (sample_acl ''/w/code'') [''/s''] = Ok ()" by code_simp
  have canon: "fs_canonicalize ?fs ''/s'' = Some ''/s''" by code_simp
  have "\<not> can_read ?fs (sample_acl ''/w/code'') ''/s''"
    by (rule clean_room_reads_nothing_of_the_parents [OF sample_for_role iso _ canon canon]) simp_all
  with iso show ?thesis ..
qed

text \<open>
  The list of raw inputs is a list of names, not of contents: a clean-room workspace whose
  \<open>src\<close> is a symbolic link to its own \<open>outputs\<close> directory, or to the workspace itself, gives the red
  team read access to the outputs.
\<close>

theorem clean_room_link_exposes_outputs:
  "for_role (sample_fs ''/w/outputs'') ''/w'' RedTeam = Ok (sample_acl ''/w/outputs'')
   \<and> can_read (sample_fs ''/w/outputs'') (sample_acl ''/w/outputs'') ''/w/outputs/answer''
   \<and> for_role (sample_fs ''/w'') ''/w'' RedTeam = Ok (sample_acl ''/w'')
   \<and> can_read (sample_fs ''/w'') (sample_acl ''/w'') ''/w/outputs/answer''"
  by code_simp

end
