(* ===== verification/AutoPush.thy ===== *)
theory AutoPush
  imports Ooda
begin

text \<open>
  The chief-first push decision (\<open>ascodex-coordination/src/auto_push.rs\<close>): whether a worker's end
  report is accepted as a closure or pushed back.  The unchecked \<open>push_round + 1\<close> on \<open>u32\<close> is the
  only operation that can panic; the panic is \<open>None\<close>.
\<close>

datatype AutoPushDecision =
    AcceptClosure
  | Push nat bool string
  | WaitForInterval int

record AutoPushInput =
  ai_closure :: "ClosureEvidence option"
  ai_report :: "WorkerReport option"
  ai_peer_higher :: bool
  ai_historical_best :: "f64 option"
  ai_push_round :: nat
  ai_max_pushes :: nat
  ai_min_push_interval_ms :: int
  ai_last_push_at_ms :: "int option"
  ai_now_ms :: int

definition AutoPushInput_default :: AutoPushInput where
  "AutoPushInput_default =
     \<lparr> ai_closure = None, ai_report = None, ai_peer_higher = False, ai_historical_best = None,
       ai_push_round = 0, ai_max_pushes = 2, ai_min_push_interval_ms = 30 * 60 * 1000,
       ai_last_push_at_ms = None, ai_now_ms = 0 \<rparr>"

definition is_strong_closure :: "AutoPushInput \<Rightarrow> bool" where
  "is_strong_closure i \<longleftrightarrow>
     (case ai_report i of
        None \<Rightarrow> False
      | Some report \<Rightarrow>
          if none_or_empty (wr_attempt_id report) then False
          else case ai_closure i of
            None \<Rightarrow> False
          | Some closure \<Rightarrow>
              if \<not> is_ok (ClosureEvidence_validate closure) then False
              else if ai_peer_higher i then False
              else \<not> exceeds (ai_historical_best i) (ce_current_reward closure))"

definition weak_reason :: "AutoPushInput \<Rightarrow> string" where
  "weak_reason i =
     (case ai_report i of
        None \<Rightarrow> ''worker ended with no end report''
      | Some report \<Rightarrow>
          if none_or_empty (wr_attempt_id report) then ''worker ended without a verifiable attempt''
          else if (case ai_closure i of None \<Rightarrow> True | Some c \<Rightarrow> \<not> is_ok (ClosureEvidence_validate c))
          then ''closure evidence is incomplete (peer/falsifiers/ceiling/dual-track)''
          else if ai_peer_higher i then ''a higher score is currently on the field''
          else if exceeds (ai_historical_best i)
                 (case ai_closure i of None \<Rightarrow> None | Some c \<Rightarrow> ce_current_reward c)
          then ''historical best is higher than the current result''
          else ''weak closure with no stronger rationale'')"

definition evaluate_auto_push :: "AutoPushInput \<Rightarrow> AutoPushDecision option" where
  "evaluate_auto_push i =
     (if is_strong_closure i then Some AcceptClosure
      else
        let push = (\<lambda>red_team. map_option (\<lambda>r. Push r red_team (weak_reason i))
                      (checked_u32_add (ai_push_round i) 1))
        in if ai_push_round i \<ge> ai_max_pushes i then push True
           else case ai_last_push_at_ms i of
             None \<Rightarrow> push False
           | Some last_push \<Rightarrow>
               let next_push = saturating_add last_push (ai_min_push_interval_ms i)
               in if ai_now_ms i < next_push then Some (WaitForInterval next_push) else push False)"

definition should_force_push :: "int \<Rightarrow> int \<Rightarrow> int \<Rightarrow> bool \<Rightarrow> bool" where
  "should_force_push now_ms end_proposed_at_ms chief_window_ms chief_responded \<longleftrightarrow>
     (if chief_responded then False
      else if chief_window_ms \<le> 0 then False
      else saturating_sub now_ms end_proposed_at_ms \<ge> chief_window_ms)"

definition AUTO_PUSH_SCHEMA_VERSION :: string where
  "AUTO_PUSH_SCHEMA_VERSION = ''ascodex-auto-push-request/v1''"

record AutoPushRequest =
  ap_schema_version :: string
  ap_push_id :: string
  ap_campaign_id :: string
  ap_challenge_id :: string
  ap_agent_id :: string
  ap_round :: nat
  ap_red_team :: bool
  ap_reason :: string
  ap_issued_at_ms :: int
  ap_platform_write_attempted :: bool

definition AutoPushRequest_validate :: "AutoPushRequest \<Rightarrow> string + unit" where
  "AutoPushRequest_validate r =
     fail_if (ap_schema_version r \<noteq> AUTO_PUSH_SCHEMA_VERSION \<or> is_blank (ap_push_id r)
         \<or> is_blank (ap_campaign_id r) \<or> is_blank (ap_challenge_id r) \<or> is_blank (ap_agent_id r)
         \<or> ap_round r = 0 \<or> is_blank (ap_reason r) \<or> ap_issued_at_ms r \<le> 0
         \<or> ap_platform_write_attempted r)
       ''auto push request is missing required fields or violates the read-only contract''"

section \<open>Lemmas\<close>

lemma is_strong_closureE:
  assumes "is_strong_closure i"
  obtains w c where "ai_report i = Some w" "\<not> none_or_empty (wr_attempt_id w)" "ai_closure i = Some c"
    "ClosureEvidence_validate c = Ok ()" "\<not> ai_peer_higher i"
    "\<not> exceeds (ai_historical_best i) (ce_current_reward c)"
  using assms by (auto simp: is_strong_closure_def split: option.splits if_splits)

text \<open>A weak closure always has one of the specific reasons.\<close>

lemma weak_reason_specific:
  assumes "\<not> is_strong_closure i"
  shows "weak_reason i \<in> set [''worker ended with no end report'',
    ''worker ended without a verifiable attempt'',
    ''closure evidence is incomplete (peer/falsifiers/ceiling/dual-track)'',
    ''a higher score is currently on the field'',
    ''historical best is higher than the current result'']"
  using assms
  by (cases "ai_report i"; cases "ai_closure i")
     (auto simp add: is_strong_closure_def weak_reason_def simp del: is_ok_iff split: if_splits)

lemma not_is_blank_reason: "\<not> is_strong_closure i \<Longrightarrow> \<not> is_blank (weak_reason i)"
  using weak_reason_specific [of i] by auto

text \<open>Every evaluation is one of four cases.\<close>

lemma evaluate_auto_push_eq:
  assumes "ai_push_round i < u32_max"
  shows "evaluate_auto_push i = Some
    (if is_strong_closure i then AcceptClosure
     else if ai_push_round i \<ge> ai_max_pushes i then Push (ai_push_round i + 1) True (weak_reason i)
     else case ai_last_push_at_ms i of
       None \<Rightarrow> Push (ai_push_round i + 1) False (weak_reason i)
     | Some t \<Rightarrow>
         if ai_now_ms i < saturating_add t (ai_min_push_interval_ms i)
         then WaitForInterval (saturating_add t (ai_min_push_interval_ms i))
         else Push (ai_push_round i + 1) False (weak_reason i))"
proof -
  have "checked_u32_add (ai_push_round i) 1 = Some (ai_push_round i + 1)"
    using assms by (simp add: checked_u32_add_def)
  then show ?thesis
    by (auto simp: evaluate_auto_push_def Let_def split: option.splits)
qed

section \<open>Properties\<close>

text \<open>
  Only a strong closure is accepted.  When the decision is to accept, there is a report that
  names an attempt and validated closure evidence, no higher score is on the field, and the current
  reward is a finite number that neither the peer, nor the historical reward of the evidence, nor
  the ledger's own historical best exceeds.
\<close>

theorem accepted_closure_is_strong:
  assumes "evaluate_auto_push i = Some AcceptClosure"
  shows "\<exists>w c x. ai_report i = Some w \<and> \<not> none_or_empty (wr_attempt_id w) \<and> ai_closure i = Some c
    \<and> ClosureEvidence_validate c = Ok () \<and> \<not> ai_peer_higher i
    \<and> ce_current_reward c = Some x \<and> is_finite x
    \<and> (\<forall>y. ce_top_peer_reward c = Some y \<or> ce_historical_best_reward c = Some y
            \<or> ai_historical_best i = Some y \<longrightarrow> \<not> f64_lt x y)"
proof -
  have "is_strong_closure i"
    using assms by (auto simp: evaluate_auto_push_def Let_def split: if_splits option.splits)
  then obtain w c where wc: "ai_report i = Some w" "\<not> none_or_empty (wr_attempt_id w)"
    "ai_closure i = Some c" "ClosureEvidence_validate c = Ok ()" "\<not> ai_peer_higher i"
    "\<not> exceeds (ai_historical_best i) (ce_current_reward c)"
    by (rule is_strong_closureE)
  obtain p x h where pxh: "ce_top_peer_reward c = Some p" "ce_current_reward c = Some x"
    "ce_historical_best_reward c = Some h" "f64_in 0 1 x" "\<not> f64_lt x p" "\<not> f64_lt x h"
    using wc(4) unfolding ClosureEvidence_validate_ok by (elim conjE exE) (rule that)
  have "\<not> f64_lt x y" if "ai_historical_best i = Some y" for y
    using wc(6) pxh(2) that by (simp add: exceeds_def)
  with wc pxh show ?thesis by (auto simp: f64_in_finite)
qed

definition sample_input :: "ReportStatus \<Rightarrow> AutoPushInput" where
  "sample_input st = AutoPushInput_default\<lparr> ai_report := Some (sample_report\<lparr> wr_status := st \<rparr>),
     ai_closure := Some sample_closure, ai_historical_best := Some (Fin (1/2)) \<rparr>"

lemma sample_closure_valid: "ClosureEvidence_validate sample_closure = Ok ()"
  unfolding ClosureEvidence_validate_ok
  by (simp add: sample_closure_def evidence_kinds_def is_absolute_def starts_with_def has_kind_def
        count_kind_def)

lemma sample_input_accepted: "evaluate_auto_push (sample_input st) = Some AcceptClosure"
proof -
  have "is_strong_closure (sample_input st)"
    using sample_closure_valid
    by (simp add: is_strong_closure_def sample_input_def AutoPushInput_default_def sample_report_def
          exceeds_def) (simp add: sample_closure_def)
  then show ?thesis by (simp add: evaluate_auto_push_def)
qed

theorem accepted_closure_is_strong_witness:
  "evaluate_auto_push (sample_input Success) = Some AcceptClosure
   \<and> (\<exists>c. ai_closure (sample_input Success) = Some c \<and> ClosureEvidence_validate c = Ok ())"
  using accepted_closure_is_strong [OF sample_input_accepted [of Success]]
    sample_input_accepted [of Success] by blast

text \<open>
  The status of the report is not part of the decision: reports that say blocked, timed out or
  inconclusive are accepted as closures with the same evidence, although the description of a strong
  closure asks for a successful report.
\<close>

theorem unsuccessful_report_is_accepted:
  "evaluate_auto_push (sample_input Blocked) = Some AcceptClosure
   \<and> (\<exists>w. ai_report (sample_input Blocked) = Some w \<and> wr_status w \<noteq> Success)"
  using sample_input_accepted [of Blocked] by (simp add: sample_input_def)

text \<open>
  A weak closure is always pushed in the end.  Short of \<open>u32\<close> exhaustion the evaluation returns;
  a weak closure is never accepted; a wait ends exactly at the announced time, when the same input is
  pushed; pushes count up by one, carry one of the five specific reasons, and switch to the red team
  exactly when the allowed number of pushes is used up.
\<close>

theorem weak_closure_is_pushed:
  assumes "\<not> is_strong_closure i" and "ai_push_round i < u32_max"
  shows "\<exists>d. evaluate_auto_push i = Some d \<and> d \<noteq> AcceptClosure
    \<and> (\<forall>r red why. d = Push r red why \<longrightarrow> r = ai_push_round i + 1
        \<and> (red \<longleftrightarrow> ai_max_pushes i \<le> ai_push_round i) \<and> \<not> is_blank why)
    \<and> (\<forall>t. d = WaitForInterval t \<longrightarrow> ai_now_ms i < t
        \<and> (\<forall>later. later \<ge> t \<longrightarrow> evaluate_auto_push (i\<lparr> ai_now_ms := later \<rparr>)
             = Some (Push (ai_push_round i + 1) False (weak_reason i))))"
proof -
  have same: "is_strong_closure (i\<lparr> ai_now_ms := t \<rparr>) = is_strong_closure i"
    "weak_reason (i\<lparr> ai_now_ms := t \<rparr>) = weak_reason i" for t
    by (simp_all add: is_strong_closure_def weak_reason_def cong: option.case_cong if_cong)
  show ?thesis
    using assms not_is_blank_reason [OF assms(1)]
    by (auto simp: evaluate_auto_push_eq same split: option.splits if_splits)
qed

theorem weak_closure_is_pushed_witness:
  "\<exists>d. evaluate_auto_push AutoPushInput_default = Some d \<and> d \<noteq> AcceptClosure"
proof -
  have "\<not> is_strong_closure AutoPushInput_default" "ai_push_round AutoPushInput_default < u32_max"
    by (simp_all add: is_strong_closure_def AutoPushInput_default_def u32_max_def)
  from weak_closure_is_pushed [OF this] show ?thesis by blast
qed

end
