(* ===== verification/ResearchCycle.thy ===== *)
theory ResearchCycle
  imports Ooda Contract StageBrief
begin

text \<open>
  Research cycles (\<open>ascodex-coordination/src/research_cycle.rs\<close>): the record that ties stage briefs,
  plan, report, observation, contract and closure evidence to one chief directive, its validation,
  and the successor relation between persisted cycles.  The long \<open>validate\<close> is split along its
  sections; the order of the checks is the source's.
\<close>

datatype CycleOutcome = Progress | Completed | Blocked | EnvFailure | Timeout | Inconclusive
  | FailedRetryable | FailedTerminal | Stuck | ClosureCandidate | ClosureReview

datatype ChiefDirective = Continue | Replan | EscalateStuckReview | BeginClosureReview
  | ApproveClosure | Abort

record ResearchCycleRecord =
  rc_schema_version :: string
  rc_cycle_id :: string
  rc_campaign_id :: string
  rc_challenge_id :: string
  rc_expected_state_version :: nat
  rc_deadline_ms :: int
  rc_verifier_spec_sha256 :: string
  rc_baseline_sha256 :: string
  rc_stage_briefs :: "StageBrief list"
  rc_experiment_plan :: "ExperimentPlan option"
  rc_worker_report :: "WorkerReport option"
  rc_observation :: "PlatformObservation option"
  rc_contract :: "ChallengeContract option"
  rc_facts :: "string list"
  rc_inferences :: "string list"
  rc_outcome :: CycleOutcome
  rc_directive :: ChiefDirective
  rc_closure_evidence :: "ClosureEvidence option"
  rc_quota_cost :: f64
  rc_evidence :: "EvidenceRef list"
  rc_ooda :: OodaCycleRecord

definition cycle_invalid :: "string \<Rightarrow> CoordinationError" where
  "cycle_invalid msg = InvalidDecision (''research cycle is invalid: '' @ msg)"

definition cycle_digest :: "string \<Rightarrow> string \<Rightarrow> CoordinationError + unit" where
  "cycle_digest val label = fail_if (length val \<noteq> 64 \<or> \<not> list_all ascii_hexdigit val)
     (cycle_invalid (label @ '' must be a 64-character hexadecimal digest''))"

definition cycle_header :: "ResearchCycleRecord \<Rightarrow> int \<Rightarrow> (CoordinationError + unit) list" where
  "cycle_header r now_ms =
     [fail_if (rc_schema_version r \<noteq> SCHEMA_VERSION \<or> is_blank (rc_cycle_id r)
         \<or> is_blank (rc_campaign_id r) \<or> is_blank (rc_challenge_id r) \<or> rc_deadline_ms r \<le> now_ms
         \<or> rc_facts r = [] \<or> rc_inferences r = []
         \<or> list_ex is_blank (rc_facts r) \<or> list_ex is_blank (rc_inferences r))
        (cycle_invalid ''cycle identifiers, future deadline, facts, and inferences are required''),
      cycle_digest (rc_verifier_spec_sha256 r) ''verifier/spec'',
      cycle_digest (rc_baseline_sha256 r) ''baseline'',
      fail_if (\<not> is_finite (rc_quota_cost r) \<or> is_sign_negative (rc_quota_cost r))
        (cycle_invalid ''quota cost must be finite and non-negative''),
      fail_if (rc_stage_briefs r = []) (cycle_invalid ''cycle must contain at least one stage brief'')]"

fun cycle_briefs ::
  "ResearchCycleRecord \<Rightarrow> int \<Rightarrow> string list \<Rightarrow> Role list \<Rightarrow> StageBrief list \<Rightarrow> CoordinationError + unit" where
  "cycle_briefs r now_ms ids roles [] = Ok ()"
| "cycle_briefs r now_ms ids roles (b # bs) =
     (if sb_campaign_id b \<noteq> rc_campaign_id r \<or> sb_challenge_id b \<noteq> rc_challenge_id r
         \<or> sb_brief_id b \<in> set ids \<or> sb_target_role b \<in> set roles
      then Err (cycle_invalid
             ''stage briefs must have unique ids and roles bound to this campaign and challenge'')
      else case StageBrief_validate b now_ms of
             Inl e \<Rightarrow> Err e
           | Inr _ \<Rightarrow> cycle_briefs r now_ms (sb_brief_id b # ids) (sb_target_role b # roles) bs)"

definition expected_ooda :: "ChiefDirective \<Rightarrow> CycleDirective" where
  "expected_ooda d =
     (case d of
        ChiefDirective.Continue \<Rightarrow> CycleDirective.Continue
      | ChiefDirective.Replan \<Rightarrow> CycleDirective.Replan
      | ChiefDirective.EscalateStuckReview \<Rightarrow> CycleDirective.EscalateStuckReview
      | ChiefDirective.BeginClosureReview \<Rightarrow> CycleDirective.ClosureReview
      | ChiefDirective.ApproveClosure \<Rightarrow> CycleDirective.ApproveClosure
      | ChiefDirective.Abort \<Rightarrow> CycleDirective.Abort)"

definition cycle_ooda :: "ResearchCycleRecord \<Rightarrow> int \<Rightarrow> (CoordinationError + unit) list" where
  "cycle_ooda r now_ms =
     (let od = rc_ooda r in
      [fail_if (oc_campaign_id od \<noteq> rc_campaign_id r \<or> oc_challenge_id od \<noteq> rc_challenge_id r
          \<or> oc_expected_state_version od \<noteq> rc_expected_state_version r
          \<or> oc_actor_role od \<noteq> Chief \<or> oc_phase od \<notin> set [OodaPhase.Decide, OodaPhase.Review])
         (cycle_invalid ''OODA record is not a chief decision for this cycle''),
       OodaCycleRecord_validate od now_ms,
       fail_if (oc_directive od \<noteq> expected_ooda (rc_directive r))
         (cycle_invalid ''chief directive and OODA directive disagree''),
       validate_evidence_refs (rc_evidence r)])"

definition cycle_parts :: "ResearchCycleRecord \<Rightarrow> int \<Rightarrow> (CoordinationError + unit) list" where
  "cycle_parts r now_ms =
     (case rc_experiment_plan r of
        None \<Rightarrow> []
      | Some plan \<Rightarrow> [ExperimentPlan_validate plan,
          fail_if (ep_challenge_id plan \<noteq> rc_challenge_id r)
            (cycle_invalid ''experiment plan challenge does not match cycle'')])
     @ (case rc_worker_report r of
          None \<Rightarrow> []
        | Some report \<Rightarrow> [WorkerReport_validate report,
            fail_if (wr_challenge_id report \<noteq> rc_challenge_id r)
              (cycle_invalid ''worker report challenge does not match cycle'')])
     @ (case rc_observation r of
          None \<Rightarrow> [] | Some ob \<Rightarrow> [PlatformObservation_validate ob (rc_challenge_id r) now_ms])
     @ (case rc_contract r of
          None \<Rightarrow> [] | Some c \<Rightarrow> [ChallengeContract_validate c (rc_challenge_id r) now_ms])
     @ map (\<lambda>k. fail_if (\<not> has_kind (rc_evidence r) k)
              (cycle_invalid ''cycle is missing a typed verifier, baseline, or brief reference''))
         [''verifier'', ''baseline'', ''stage_brief'']
     @ [fail_if (count_kind (rc_evidence r) ''stage_brief'' \<noteq> length (rc_stage_briefs r))
          (cycle_invalid ''each routed stage brief requires one typed evidence reference'')]"

definition outcome_completed :: "ResearchCycleRecord \<Rightarrow> int \<Rightarrow> (CoordinationError + unit) list" where
  "outcome_completed r now_ms =
     (case rc_worker_report r of
        None \<Rightarrow> [Err (cycle_invalid ''completed work requires a successful worker report'')]
      | Some report \<Rightarrow>
     (case rc_observation r of
        None \<Rightarrow> [Err (cycle_invalid ''completed work requires a complete platform observation'')]
      | Some ob \<Rightarrow>
     (case rc_contract r of
        None \<Rightarrow> [Err (cycle_invalid ''completed work requires a bound challenge contract'')]
      | Some c \<Rightarrow>
          [formal_admission c (rc_challenge_id r) now_ms,
           fail_if (rc_experiment_plan r = None \<or> wr_status report \<noteq> ReportStatus.Success
               \<or> wr_attempt_id report \<noteq> Some (po_attempt_id ob))
             (cycle_invalid ''completed work must bind its experiment, successful report, and observed attempt''),
           fail_if (\<not> has_kind (rc_evidence r) ''platform_observation'')
             (cycle_invalid ''completed work requires a hashed platform observation reference''),
           fail_if (\<not> has_kind (rc_evidence r) ''contract'')
             (cycle_invalid ''completed work requires a hashed contract reference''),
           fail_if (rc_directive r \<notin> set [ChiefDirective.Continue, ChiefDirective.Replan,
               ChiefDirective.BeginClosureReview])
             (cycle_invalid ''completed work permits only continue, replan, or closure review'')])))"

definition outcome_stuck :: "ResearchCycleRecord \<Rightarrow> (CoordinationError + unit) list" where
  "outcome_stuck r =
     [fail_if (rc_directive r \<notin> set [ChiefDirective.EscalateStuckReview, ChiefDirective.Abort])
        (cycle_invalid ''stuck requires an atomic judge plus clean-room red-team review''),
      fail_if (rc_directive r = ChiefDirective.EscalateStuckReview
          \<and> (set (map (\<lambda>b. (sb_stage b, sb_target_role b, sb_clean_room b)) (rc_stage_briefs r))
               \<noteq> set [(ResearchStage.StuckJudge, JudgeAnalyst, False),
                        (ResearchStage.StuckRedTeam, RedTeam, True)]
             \<or> length (rc_stage_briefs r) \<noteq> 2))
        (cycle_invalid ''stuck escalation requires exactly one judge brief and one clean-room red-team brief'')]"

text \<open>
  The two closure branches differ only in directive and messages (the candidate branch also asks
  for one falsifier reference before counting two).
\<close>

definition outcome_closure ::
  "ChiefDirective \<Rightarrow> string \<Rightarrow> string \<Rightarrow> string \<Rightarrow> string \<Rightarrow> string \<Rightarrow> ResearchCycleRecord \<Rightarrow> int \<Rightarrow>
   (CoordinationError + unit) list" where
  "outcome_closure d m1 m2 m3 m4 m5 r now_ms =
     fail_if (rc_directive r \<noteq> d \<or> oc_phase (rc_ooda r) \<noteq> OodaPhase.Review) (cycle_invalid m1)
     # (case rc_closure_evidence r of
          None \<Rightarrow> [Err (cycle_invalid m2)]
        | Some closure \<Rightarrow>
       (case rc_contract r of
          None \<Rightarrow> [Err (cycle_invalid m3)]
        | Some c \<Rightarrow>
            [formal_admission c (rc_challenge_id r) now_ms,
             fail_if (\<not> has_kind (rc_evidence r) ''contract'') (cycle_invalid m4),
             ClosureEvidence_validate closure,
             fail_if (count_kind (rc_evidence r) ''closure_falsifier'' < 2) (cycle_invalid m5)]))"

definition cycle_outcome :: "ResearchCycleRecord \<Rightarrow> int \<Rightarrow> (CoordinationError + unit) list" where
  "cycle_outcome r now_ms =
     (case rc_outcome r of
        CycleOutcome.Progress \<Rightarrow>
          [fail_if (rc_experiment_plan r = None \<or> rc_worker_report r = None)
             (cycle_invalid ''progress requires an experiment plan and worker report''),
           fail_if (rc_directive r \<noteq> ChiefDirective.Continue \<and> rc_directive r \<noteq> ChiefDirective.Replan
               \<and> rc_directive r \<noteq> ChiefDirective.BeginClosureReview)
             (cycle_invalid ''progress permits only continue, replan, or closure review'')]
      | CycleOutcome.Completed \<Rightarrow> outcome_completed r now_ms
      | CycleOutcome.FailedTerminal \<Rightarrow>
          [fail_if (rc_directive r \<notin> set [ChiefDirective.Replan, ChiefDirective.Abort])
             (cycle_invalid ''terminal failure permits only replan or abort'')]
      | CycleOutcome.Stuck \<Rightarrow> outcome_stuck r
      | CycleOutcome.ClosureCandidate \<Rightarrow> outcome_closure ChiefDirective.BeginClosureReview
          ''closure candidate must begin a separate review phase''
          ''closure requires structured evidence'' ''closure requires a bound challenge contract''
          ''closure requires a hashed contract reference''
          ''closure requires two typed falsifier references'' r now_ms
      | CycleOutcome.ClosureReview \<Rightarrow> outcome_closure ChiefDirective.ApproveClosure
          ''closure review can only approve or replan/abort in a new cycle''
          ''approval requires structured closure evidence''
          ''approval requires a bound challenge contract''
          ''approval requires a hashed contract reference''
          ''approval requires two typed falsifier references'' r now_ms
      | _ \<Rightarrow>
          [fail_if (rc_directive r \<in> set [ChiefDirective.Continue, ChiefDirective.BeginClosureReview,
               ChiefDirective.ApproveClosure])
             (cycle_invalid ''non-success outcomes cannot continue or close'')])"

definition ResearchCycleRecord_validate :: "ResearchCycleRecord \<Rightarrow> int \<Rightarrow> CoordinationError + unit" where
  "ResearchCycleRecord_validate r now_ms = checks
     (cycle_header r now_ms
      @ [cycle_briefs r now_ms [] [] (rc_stage_briefs r)]
      @ cycle_ooda r now_ms
      @ cycle_parts r now_ms
      @ cycle_outcome r now_ms
      @ [fail_if (rc_directive r = ChiefDirective.EscalateStuckReview \<and> rc_outcome r \<noteq> CycleOutcome.Stuck)
           (cycle_invalid ''stuck escalation is only valid for a stuck outcome''),
         fail_if (rc_directive r = ChiefDirective.ApproveClosure \<and> rc_outcome r \<noteq> CycleOutcome.ClosureReview)
           (cycle_invalid ''approval cannot occur in the same record as a closure candidate'')])"

text \<open>
  The successor check; \<open>None\<close> is the arithmetic panic of \<open>expected_state_version + 1\<close>.  The final
  \<open>match\<close> lists its arms in the source's order.
\<close>

definition successor_match ::
  "CycleOutcome \<Rightarrow> ChiefDirective \<Rightarrow> ChiefDirective \<Rightarrow> CoordinationError + unit" where
  "successor_match prev_outcome prev_directive directive =
     (if prev_outcome = CycleOutcome.Stuck \<and> prev_directive = ChiefDirective.EscalateStuckReview
         \<and> directive \<in> set [ChiefDirective.Continue, ChiefDirective.Replan, ChiefDirective.Abort]
      then Ok ()
      else if prev_directive = ChiefDirective.BeginClosureReview \<and> directive = ChiefDirective.ApproveClosure
      then Ok ()
      else if prev_directive = ChiefDirective.ApproveClosure
      then Err (cycle_invalid ''closure approval must immediately follow closure review'')
      else Ok ())"

definition validate_successor ::
  "ResearchCycleRecord \<Rightarrow> ResearchCycleRecord \<Rightarrow> int \<Rightarrow> (CoordinationError + unit) option" where
  "validate_successor previous current now_ms =
     (case checks
        [ResearchCycleRecord_validate current now_ms,
         fail_if (rc_campaign_id previous \<noteq> rc_campaign_id current
             \<or> rc_challenge_id previous \<noteq> rc_challenge_id current)
           (cycle_invalid ''successor changes campaign or challenge''),
         fail_if (rc_cycle_id previous = rc_cycle_id current)
           (cycle_invalid ''successor must have a distinct cycle id'')] of
        Inl e \<Rightarrow> Some (Err e)
      | Inr _ \<Rightarrow>
          (case checked_u64_add (rc_expected_state_version previous) 1 of
             None \<Rightarrow> None
           | Some next_version \<Rightarrow> Some (checks
               [fail_if (rc_expected_state_version current \<noteq> next_version)
                  (cycle_invalid ''successor must advance state version exactly once''),
                fail_if (rc_outcome previous = CycleOutcome.ClosureReview
                    \<and> rc_directive previous = ChiefDirective.ApproveClosure)
                  (cycle_invalid ''a closed cycle cannot have a successor''),
                fail_if (rc_directive previous = ChiefDirective.Abort)
                  (cycle_invalid ''an aborted cycle cannot have a successor''),
                successor_match (rc_outcome previous) (rc_directive previous) (rc_directive current)])))"

section \<open>Lemmas\<close>

lemma cycle_briefs_ok:
  assumes "cycle_briefs r now ids roles bs = Ok ()"
  shows "\<forall>b \<in> set bs. StageBrief_validate b now = Ok () \<and> sb_challenge_id b = rc_challenge_id r"
    and "distinct (map sb_target_role bs)" and "distinct (map sb_brief_id bs)"
    and "set (map sb_target_role bs) \<inter> set roles = {}" and "set (map sb_brief_id bs) \<inter> set ids = {}"
  using assms
  by (induction r now ids roles bs rule: cycle_briefs.induct)
     (auto simp del: validated split: if_splits sum.splits)

lemma ResearchCycleRecord_validate_parts:
  assumes "ResearchCycleRecord_validate r now = Ok ()"
  shows "list_all (\<lambda>c. c = Ok ()) (cycle_header r now)"
    "cycle_briefs r now [] [] (rc_stage_briefs r) = Ok ()"
    "list_all (\<lambda>c. c = Ok ()) (cycle_ooda r now)" "list_all (\<lambda>c. c = Ok ()) (cycle_parts r now)"
    "list_all (\<lambda>c. c = Ok ()) (cycle_outcome r now)"
    "rc_directive r = ChiefDirective.EscalateStuckReview \<longrightarrow> rc_outcome r = CycleOutcome.Stuck"
    "rc_directive r = ChiefDirective.ApproveClosure \<longrightarrow> rc_outcome r = CycleOutcome.ClosureReview"
  using assms unfolding ResearchCycleRecord_validate_def by auto

lemma cycle_ooda_ok:
  assumes "ResearchCycleRecord_validate r now = Ok ()"
  shows "OodaCycleRecord_validate (rc_ooda r) now = Ok ()"
    "oc_directive (rc_ooda r) = expected_ooda (rc_directive r)"
    "list_all evidence_ref_ok (rc_evidence r)" "distinct (map evidence_key (rc_evidence r))"
  using ResearchCycleRecord_validate_parts(3) [OF assms] unfolding cycle_ooda_def Let_def by auto

lemma formal_admission_known: "formal_admission c i now = Ok () \<Longrightarrow> cc_status c = Known"
  by (simp add: formal_admission_def)

lemma outcome_closure_ok:
  "list_all (\<lambda>c. c = Ok ()) (outcome_closure d m1 m2 m3 m4 m5 r now) \<longleftrightarrow>
     rc_directive r = d \<and> oc_phase (rc_ooda r) = OodaPhase.Review
     \<and> (\<exists>cl c. rc_closure_evidence r = Some cl \<and> rc_contract r = Some c
          \<and> formal_admission c (rc_challenge_id r) now = Ok () \<and> has_kind (rc_evidence r) ''contract''
          \<and> ClosureEvidence_validate cl = Ok () \<and> 2 \<le> count_kind (rc_evidence r) ''closure_falsifier'')"
  unfolding outcome_closure_def by (auto split: option.splits)

lemma validate_successor_ok:
  "validate_successor p c now = Some (Ok ()) \<longleftrightarrow>
     ResearchCycleRecord_validate c now = Ok ()
     \<and> rc_campaign_id p = rc_campaign_id c \<and> rc_challenge_id p = rc_challenge_id c
     \<and> rc_cycle_id p \<noteq> rc_cycle_id c
     \<and> rc_expected_state_version p + 1 \<le> u64_max
     \<and> rc_expected_state_version c = rc_expected_state_version p + 1
     \<and> rc_directive p \<noteq> ChiefDirective.ApproveClosure \<and> rc_directive p \<noteq> ChiefDirective.Abort"
proof -
  let ?pre = "checks
    [ResearchCycleRecord_validate c now,
     fail_if (rc_campaign_id p \<noteq> rc_campaign_id c \<or> rc_challenge_id p \<noteq> rc_challenge_id c)
       (cycle_invalid ''successor changes campaign or challenge''),
     fail_if (rc_cycle_id p = rc_cycle_id c)
       (cycle_invalid ''successor must have a distinct cycle id'')]"
  have pre: "?pre = Ok () \<longleftrightarrow> ResearchCycleRecord_validate c now = Ok ()
      \<and> rc_campaign_id p = rc_campaign_id c \<and> rc_challenge_id p = rc_challenge_id c
      \<and> rc_cycle_id p \<noteq> rc_cycle_id c"
    by auto
  show ?thesis
  proof (cases ?pre)
    case (Inl e)
    with pre show ?thesis unfolding validate_successor_def Inl by auto
  next
    case (Inr u)
    then have "?pre = Ok ()" by simp
    with pre have all: "ResearchCycleRecord_validate c now = Ok ()" "rc_campaign_id p = rc_campaign_id c"
      "rc_challenge_id p = rc_challenge_id c" "rc_cycle_id p \<noteq> rc_cycle_id c"
      by blast+
    show ?thesis
      unfolding validate_successor_def Inr using all
      by (auto simp: checked_u64_add_def successor_match_def split: if_splits)
  qed
qed

text \<open>A chain of persisted cycles: each was accepted as the successor of the one before it.\<close>

definition successor_chain :: "ResearchCycleRecord list \<Rightarrow> bool" where
  "successor_chain rs \<longleftrightarrow> successively (\<lambda>p c. \<exists>now. validate_successor p c now = Some (Ok ())) rs"

lemma successor_chain_Cons:
  "successor_chain (p # c # rs) \<longleftrightarrow>
     (\<exists>now. validate_successor p c now = Some (Ok ())) \<and> successor_chain (c # rs)"
  by (simp add: successor_chain_def)

lemma successor_chain_versions:
  "successor_chain (r # rs) \<Longrightarrow>
     map rc_expected_state_version (r # rs)
       = [rc_expected_state_version r ..< rc_expected_state_version r + length (r # rs)]
     \<and> (\<forall>x \<in> set rs. rc_campaign_id x = rc_campaign_id r \<and> rc_challenge_id x = rc_challenge_id r)"
proof (induction rs arbitrary: r)
  case Nil
  then show ?case by simp
next
  case (Cons c rs)
  then have step: "rc_expected_state_version c = rc_expected_state_version r + 1"
      "rc_campaign_id c = rc_campaign_id r" "rc_challenge_id c = rc_challenge_id r"
    and "successor_chain (c # rs)"
    by (auto simp: successor_chain_Cons validate_successor_ok)
  from Cons.IH [OF this(4)] step show ?case
    by (simp add: upt_conv_Cons del: upt_Suc)
qed

lemma successor_chain_last:
  "successor_chain rs \<Longrightarrow> r \<in> set (butlast rs) \<Longrightarrow>
     rc_directive r \<noteq> ChiefDirective.ApproveClosure \<and> rc_directive r \<noteq> ChiefDirective.Abort"
proof (induction rs)
  case (Cons p rs)
  then show ?case
    by (cases rs) (auto simp: successor_chain_Cons validate_successor_ok split: if_splits)
qed simp

section \<open>Properties\<close>

text \<open>
  C38. Approving a closure needs the whole closure case: a valid cycle whose directive is to approve
  has the outcome closure review, a chief's review-phase OODA record without stuck triggers, a known
  and formally admitted contract, validated closure evidence and hashed references to two different
  falsifier files.
\<close>

theorem approval_needs_the_closure_case:
  assumes "ResearchCycleRecord_validate r now = Ok ()" and "rc_directive r = ChiefDirective.ApproveClosure"
  shows "rc_outcome r = CycleOutcome.ClosureReview \<and> oc_phase (rc_ooda r) = OodaPhase.Review
    \<and> oc_actor_role (rc_ooda r) = Chief \<and> oc_stuck_triggers (rc_ooda r) = []
    \<and> (\<exists>c. rc_contract r = Some c \<and> cc_status c = Known
        \<and> formal_admission c (rc_challenge_id r) now = Ok ())
    \<and> (\<exists>cl. rc_closure_evidence r = Some cl \<and> ClosureEvidence_validate cl = Ok ())
    \<and> (\<exists>a \<in> set (rc_evidence r). \<exists>b \<in> set (rc_evidence r). ev_kind a = ''closure_falsifier''
        \<and> ev_kind b = ''closure_falsifier'' \<and> ev_path a \<noteq> ev_path b
        \<and> evidence_ref_ok a \<and> evidence_ref_ok b)"
proof -
  note parts = ResearchCycleRecord_validate_parts [OF assms(1)] and od = cycle_ooda_ok [OF assms(1)]
  have out: "rc_outcome r = CycleOutcome.ClosureReview" using parts(7) assms(2) by blast
  obtain cl c where c: "rc_closure_evidence r = Some cl" "rc_contract r = Some c"
    "formal_admission c (rc_challenge_id r) now = Ok ()" "ClosureEvidence_validate cl = Ok ()"
    "2 \<le> count_kind (rc_evidence r) ''closure_falsifier''" "oc_phase (rc_ooda r) = OodaPhase.Review"
    using parts(5) out unfolding cycle_outcome_def by (auto simp: outcome_closure_ok)
  have "oc_actor_role (rc_ooda r) = Chief \<and> oc_stuck_triggers (rc_ooda r) = []"
    using od(1,2) assms(2) unfolding OodaCycleRecord_validate_ok by (auto simp: expected_ooda_def)
  moreover have "cc_status c = Known" using formal_admission_known [OF c(3)] .
  ultimately show ?thesis
    using out c count_kind_distinct_paths [OF od(4) c(5)] od(3) by (fastforce simp: list_all_iff)
qed

definition sample_record :: "nat \<Rightarrow> CycleOutcome \<Rightarrow> ChiefDirective \<Rightarrow> ResearchCycleRecord" where
  "sample_record v out d =
     \<lparr> rc_schema_version = SCHEMA_VERSION, rc_cycle_id = ''cycle'' @ decimal v, rc_campaign_id = ''camp'',
       rc_challenge_id = ''c1'', rc_expected_state_version = v, rc_deadline_ms = 100,
       rc_verifier_spec_sha256 = digest CHR ''a'', rc_baseline_sha256 = digest CHR ''b'',
       rc_stage_briefs = [sample_brief\<lparr> sb_challenge_id := ''c1'' \<rparr>],
       rc_experiment_plan = Some \<lparr> ep_schema_version = SCHEMA_VERSION, ep_challenge_id = ''c1'',
         ep_axis = ''lr'', ep_changed_fields = [''lr''], ep_coupled_group = None, ep_hypothesis = ''h'',
         ep_expected_response = ''up'', ep_decision_criterion = ''reward'', ep_parent_attempt_id = None \<rparr>,
       rc_worker_report = Some sample_report, rc_observation = None,
       rc_contract = Some (sample_contract None None), rc_facts = [''f''], rc_inferences = [''i''],
       rc_outcome = out, rc_directive = d, rc_closure_evidence = Some sample_closure,
       rc_quota_cost = Fin 1,
       rc_evidence = [sample_ref ''verifier'' ''v'', sample_ref ''baseline'' ''b'',
         sample_ref ''stage_brief'' ''s'', sample_ref ''contract'' ''c'',
         sample_ref ''closure_falsifier'' ''f1'', sample_ref ''closure_falsifier'' ''f2''],
       rc_ooda = sample_cycle\<lparr> oc_challenge_id := ''c1'', oc_expected_state_version := v,
         oc_directive := expected_ooda d, oc_stuck_triggers := [] \<rparr> \<rparr>"

lemma sample_approval_valid:
  "ResearchCycleRecord_validate (sample_record 2 CycleOutcome.ClosureReview ChiefDirective.ApproveClosure) 50 = Ok ()"
  by code_simp

lemma sample_progress_valid:
  "ResearchCycleRecord_validate (sample_record 1 CycleOutcome.Progress ChiefDirective.Continue) 50 = Ok ()"
  by code_simp

theorem approval_needs_the_closure_case_witness:
  "\<exists>r. ResearchCycleRecord_validate r 50 = Ok () \<and> rc_directive r = ChiefDirective.ApproveClosure
     \<and> rc_outcome r = CycleOutcome.ClosureReview"
proof -
  let ?r = "sample_record 2 CycleOutcome.ClosureReview ChiefDirective.ApproveClosure"
  have d: "rc_directive ?r = ChiefDirective.ApproveClosure" by (simp add: sample_record_def)
  from approval_needs_the_closure_case [OF sample_approval_valid d] sample_approval_valid d
  show ?thesis by blast
qed

text \<open>
  A stuck campaign gets an independent second opinion: a valid cycle escalates exactly with a
  stuck outcome's escalation directive, and then carries exactly two briefs, one for the judge
  analyst and one for a clean-room red team.  Conversely a stuck outcome admits nothing but that
  escalation or an abort.
\<close>

theorem stuck_escalation_is_heterogeneous:
  assumes "ResearchCycleRecord_validate r now = Ok ()"
  shows "(rc_directive r = ChiefDirective.EscalateStuckReview \<longrightarrow>
      rc_outcome r = CycleOutcome.Stuck \<and> length (rc_stage_briefs r) = 2
      \<and> (\<exists>b \<in> set (rc_stage_briefs r). sb_stage b = StuckJudge \<and> sb_target_role b = JudgeAnalyst)
      \<and> (\<exists>b \<in> set (rc_stage_briefs r). sb_stage b = StuckRedTeam \<and> sb_target_role b = RedTeam
           \<and> sb_clean_room b))
    \<and> (rc_outcome r = CycleOutcome.Stuck \<longrightarrow>
        rc_directive r \<in> {ChiefDirective.EscalateStuckReview, ChiefDirective.Abort})
    \<and> (\<forall>b \<in> set (rc_stage_briefs r). StageBrief_validate b now = Ok ())
    \<and> distinct (map sb_target_role (rc_stage_briefs r))"
proof -
  note parts = ResearchCycleRecord_validate_parts [OF assms]
  have stuck: "list_all (\<lambda>c. c = Ok ()) (outcome_stuck r)" if "rc_outcome r = CycleOutcome.Stuck"
    using parts(5) that by (simp add: cycle_outcome_def)
  have routes: "(\<lambda>b. (sb_stage b, sb_target_role b, sb_clean_room b)) ` set (rc_stage_briefs r)
      = {(StuckJudge, JudgeAnalyst, False), (StuckRedTeam, RedTeam, True)}
      \<and> length (rc_stage_briefs r) = 2"
    if "rc_directive r = ChiefDirective.EscalateStuckReview"
    using stuck parts(6) that by (simp add: outcome_stuck_def)
  have "(\<exists>b \<in> set (rc_stage_briefs r). sb_stage b = StuckJudge \<and> sb_target_role b = JudgeAnalyst)
      \<and> (\<exists>b \<in> set (rc_stage_briefs r). sb_stage b = StuckRedTeam \<and> sb_target_role b = RedTeam \<and> sb_clean_room b)"
    if "rc_directive r = ChiefDirective.EscalateStuckReview"
  proof -
    have "(StuckJudge, JudgeAnalyst, False) \<in> (\<lambda>b. (sb_stage b, sb_target_role b, sb_clean_room b)) ` set (rc_stage_briefs r)"
      "(StuckRedTeam, RedTeam, True) \<in> (\<lambda>b. (sb_stage b, sb_target_role b, sb_clean_room b)) ` set (rc_stage_briefs r)"
      using routes [OF that] by auto
    then show ?thesis by (auto simp: image_iff) metis+
  qed
  moreover have "rc_outcome r = CycleOutcome.Stuck \<longrightarrow>
      rc_directive r \<in> {ChiefDirective.EscalateStuckReview, ChiefDirective.Abort}"
    using stuck by (auto simp: outcome_stuck_def)
  ultimately show ?thesis
    using routes parts(6) cycle_briefs_ok(1,2) [OF parts(2)] by blast
qed

definition routed_brief :: "ResearchStage \<Rightarrow> Role \<Rightarrow> string \<Rightarrow> StageBrief" where
  "routed_brief st r i = sample_brief\<lparr> sb_brief_id := i, sb_challenge_id := ''c1'', sb_stage := st,
     sb_target_role := r, sb_clean_room := snd (snd (route st)),
     sb_skills := map (\<lambda>n. \<lparr> sk_name = n, sk_source_path = ''.agents/skills/'' @ n @ ''/SKILL.md'',
       sk_sha256 = digest CHR ''a'', sk_selection_reason = ''route'' \<rparr>) (fst (snd (route st))) \<rparr>"

definition sample_escalation :: ResearchCycleRecord where
  "sample_escalation =
     (sample_record 3 CycleOutcome.Stuck ChiefDirective.EscalateStuckReview)
       \<lparr> rc_stage_briefs := [routed_brief StuckJudge JudgeAnalyst ''j'', routed_brief StuckRedTeam RedTeam ''r''],
         rc_evidence := [sample_ref ''verifier'' ''v'', sample_ref ''baseline'' ''b'',
           sample_ref ''stage_brief'' ''s1'', sample_ref ''stage_brief'' ''s2''] \<rparr>"

theorem stuck_escalation_is_heterogeneous_witness:
  "ResearchCycleRecord_validate sample_escalation 50 = Ok ()
   \<and> (\<exists>b \<in> set (rc_stage_briefs sample_escalation). sb_target_role b = RedTeam \<and> sb_clean_room b)"
proof -
  have ok: "ResearchCycleRecord_validate sample_escalation 50 = Ok ()" by code_simp
  have "rc_directive sample_escalation = ChiefDirective.EscalateStuckReview"
    by (simp add: sample_escalation_def sample_record_def)
  with stuck_escalation_is_heterogeneous [OF ok] ok show ?thesis by blast
qed

text \<open>
  Persisted cycles form one line: along any chain of accepted successors the campaign and the
  challenge stay the same, the expected versions are consecutive, and an approved or aborted cycle
  can only be the last one.
\<close>

theorem cycle_chain_is_linear:
  assumes "successor_chain (r # rs)"
  shows "map rc_expected_state_version (r # rs)
      = [rc_expected_state_version r ..< rc_expected_state_version r + length (r # rs)]
    \<and> (\<forall>x \<in> set rs. rc_campaign_id x = rc_campaign_id r \<and> rc_challenge_id x = rc_challenge_id r)
    \<and> (\<forall>x \<in> set (butlast (r # rs)). rc_directive x \<noteq> ChiefDirective.ApproveClosure
         \<and> rc_directive x \<noteq> ChiefDirective.Abort)"
  using successor_chain_versions [OF assms] successor_chain_last [OF assms] by blast

lemma sample_successor:
  "validate_successor (sample_record 1 CycleOutcome.Progress ChiefDirective.Continue)
     (sample_record 2 CycleOutcome.ClosureReview ChiefDirective.ApproveClosure) 50 = Some (Ok ())"
  using sample_approval_valid unfolding validate_successor_ok
  by (simp add: sample_record_def decimal.simps u64_max_def)

theorem cycle_chain_is_linear_witness:
  "\<exists>a b. successor_chain [a, b] \<and> map rc_expected_state_version [a, b] = [1, 2]"
proof -
  let ?a = "sample_record 1 CycleOutcome.Progress ChiefDirective.Continue"
  let ?b = "sample_record 2 CycleOutcome.ClosureReview ChiefDirective.ApproveClosure"
  have chain: "successor_chain [?a, ?b]"
    using sample_successor by (auto simp: successor_chain_def)
  have "rc_expected_state_version ?a = 1" by (simp add: sample_record_def)
  then have "map rc_expected_state_version [?a, ?b] = [1, 2]"
    using cycle_chain_is_linear [OF chain, THEN conjunct1] by (simp add: upt_rec)
  with chain show ?thesis by (intro exI conjI)
qed

text \<open>
  Approval need not follow a closure review: a valid progress cycle with the directive to
  continue is accepted as the predecessor of a cycle that approves the closure.  The arm of
  \<open>validate_successor\<close> that reports such a sequence tests the directive of the predecessor instead of
  the successor's.
\<close>

theorem approval_accepted_without_review:
  "ResearchCycleRecord_validate (sample_record 1 CycleOutcome.Progress ChiefDirective.Continue) 50 = Ok ()
   \<and> validate_successor (sample_record 1 CycleOutcome.Progress ChiefDirective.Continue)
       (sample_record 2 CycleOutcome.ClosureReview ChiefDirective.ApproveClosure) 50 = Some (Ok ())
   \<and> rc_directive (sample_record 1 CycleOutcome.Progress ChiefDirective.Continue)
       \<noteq> ChiefDirective.BeginClosureReview
   \<and> rc_directive (sample_record 2 CycleOutcome.ClosureReview ChiefDirective.ApproveClosure)
       = ChiefDirective.ApproveClosure"
  using sample_progress_valid sample_successor by (simp add: sample_record_def)

end
