(* ===== verification/RecoveryCanary.thy ===== *)
theory RecoveryCanary
  imports Contract
begin

text \<open>
  Process recovery (\<open>ascodex-coordination/src/recovery_canary.rs\<close>): the append-only trace of a
  recovery attempt, its validation, and the two authorisations it can give; and the trace builder of
  the automatic runner (\<open>solver-guard/src/lib.rs\<close>, \<open>build_recovery_canary_trace\<close>).

  SHA-256 is the parameter \<open>sha256\<close>, as in the theory of contracts.
\<close>

section \<open>Data\<close>

datatype RecoveryPhase = Boot | LedgerChecked | CanarySpawned | InitialTurnCompleted
  | ContinuationTurnCompleted | CanaryPassed | Rehydrated | Active | Failed

record RecoveryCanaryTurn =
  tu_child_thread_id :: string
  tu_session_id :: string
  tu_turn_id :: string
  tu_nonce :: string
  tu_last_agent_message :: string
  tu_response_sha256 :: string
  tu_started_at_ms :: int
  tu_completed_at_ms :: int
  tu_parent_observed_at_ms :: int

record Spawned =
  sp_root_thread_id :: string
  sp_child_thread_id :: string
  sp_session_id :: string
  sp_effective_model_route :: string
  sp_permission_profile_sha256 :: string
  sp_ephemeral :: bool
  sp_network_disabled :: bool
  sp_filesystem_write_disabled :: bool

datatype RecoveryCanaryEvidence =
    Boot
  | LedgerChecked string
  | CanarySpawned Spawned
  | InitialTurnCompleted RecoveryCanaryTurn
  | ContinuationTurnCompleted RecoveryCanaryTurn
  | CanaryPassed bool
  | Rehydrated string "string list"
  | Active
  | Failed RecoveryPhase string

definition phase :: "RecoveryCanaryEvidence \<Rightarrow> RecoveryPhase" where
  "phase e =
     (case e of
        RecoveryCanaryEvidence.Boot \<Rightarrow> RecoveryPhase.Boot
      | RecoveryCanaryEvidence.LedgerChecked _ \<Rightarrow> RecoveryPhase.LedgerChecked
      | RecoveryCanaryEvidence.CanarySpawned _ \<Rightarrow> RecoveryPhase.CanarySpawned
      | RecoveryCanaryEvidence.InitialTurnCompleted _ \<Rightarrow> RecoveryPhase.InitialTurnCompleted
      | RecoveryCanaryEvidence.ContinuationTurnCompleted _ \<Rightarrow> RecoveryPhase.ContinuationTurnCompleted
      | RecoveryCanaryEvidence.CanaryPassed _ \<Rightarrow> RecoveryPhase.CanaryPassed
      | RecoveryCanaryEvidence.Rehydrated _ _ \<Rightarrow> RecoveryPhase.Rehydrated
      | RecoveryCanaryEvidence.Active \<Rightarrow> RecoveryPhase.Active
      | RecoveryCanaryEvidence.Failed _ _ \<Rightarrow> RecoveryPhase.Failed)"

record RecoveryCanaryEvent =
  re_event_id :: string
  re_observed_at_ms :: int
  re_evidence :: RecoveryCanaryEvidence

record RecoveryCanaryTrace =
  tr_schema_version :: string
  tr_recovery_id :: string
  tr_runtime_instance_id :: string
  tr_recovery_attempt :: nat
  tr_started_at_ms :: int
  tr_deadline_ms :: int
  tr_events :: "RecoveryCanaryEvent list"

definition canary_invalid :: "string \<Rightarrow> CoordinationError" where
  "canary_invalid msg = InvalidDecision (''recovery canary is invalid: '' @ msg)"

definition lower_hexdigit :: "char \<Rightarrow> bool" where
  "lower_hexdigit c \<longleftrightarrow> c \<in> set ''0123456789abcdef''"

definition canary_digest :: "string \<Rightarrow> string \<Rightarrow> CoordinationError + unit" where
  "canary_digest val label = fail_if (length val \<noteq> 64 \<or> \<not> list_all lower_hexdigit val)
     (canary_invalid (label @ '' must be a 64-character hexadecimal digest''))"

text \<open>
  \<open>chars().any(char::is_whitespace)\<close>: the lead bytes of the white-space characters never occur
  inside another character of a UTF-8 string, so every position may be tried.
\<close>

fun any_whitespace :: "string \<Rightarrow> bool" where
  "any_whitespace [] \<longleftrightarrow> False"
| "any_whitespace (c # cs) \<longleftrightarrow> skip_ws (c # cs) \<noteq> None \<or> any_whitespace cs"

section \<open>Validation\<close>

definition validate_turn ::
  "(string \<Rightarrow> string) \<Rightarrow> RecoveryCanaryTurn \<Rightarrow> int \<Rightarrow> string \<Rightarrow> string \<Rightarrow> CoordinationError + unit" where
  "validate_turn sha256 t observed_at_ms child_thread_id session_id = checks
     [fail_if (tu_child_thread_id t \<noteq> child_thread_id \<or> tu_session_id t \<noteq> session_id
         \<or> is_blank (tu_turn_id t) \<or> length (tu_nonce t) < 16 \<or> any_whitespace (tu_nonce t)
         \<or> is_blank (tu_last_agent_message t) \<or> \<not> str_contains (tu_last_agent_message t) (tu_nonce t)
         \<or> tu_started_at_ms t < 0 \<or> tu_completed_at_ms t < tu_started_at_ms t
         \<or> tu_parent_observed_at_ms t < tu_completed_at_ms t
         \<or> observed_at_ms \<noteq> tu_parent_observed_at_ms t)
        (canary_invalid ''turn evidence must bind the spawned child/session, ordered lifecycle times, and an echoed nonce''),
      canary_digest (tu_response_sha256 t) ''canary response'',
      fail_if (tu_response_sha256 t \<noteq> hex_bytes (sha256 (tu_last_agent_message t)))
        (canary_invalid ''canary response digest does not match the terminal model message'')]"

text \<open>The state of the loop in \<open>validate_evidence\<close>.\<close>

record EvidenceState =
  es_ledger_digest :: "string option"
  es_spawned :: "(string \<times> string) option"
  es_first_turn :: "RecoveryCanaryTurn option"

definition evidence_step ::
  "(string \<Rightarrow> string) \<Rightarrow> EvidenceState \<Rightarrow> RecoveryCanaryEvent \<Rightarrow> CoordinationError + EvidenceState" where
  "evidence_step sha256 s ev =
     (case re_evidence ev of
        RecoveryCanaryEvidence.LedgerChecked d \<Rightarrow>
          (case canary_digest d ''ledger state'' of
             Inl e \<Rightarrow> Err e | Inr _ \<Rightarrow> Ok (s\<lparr> es_ledger_digest := Some d \<rparr>))
      | RecoveryCanaryEvidence.CanarySpawned p \<Rightarrow>
          (case checks
             [fail_if (list_ex is_blank [sp_root_thread_id p, sp_child_thread_id p, sp_session_id p,
                   sp_effective_model_route p]
                 \<or> sp_root_thread_id p = sp_child_thread_id p \<or> \<not> sp_ephemeral p
                 \<or> \<not> sp_network_disabled p \<or> \<not> sp_filesystem_write_disabled p)
                (canary_invalid ''canary must use a distinct isolated ephemeral child and record its effective model route''),
              canary_digest (sp_permission_profile_sha256 p) ''permission profile''] of
             Inl e \<Rightarrow> Err e
           | Inr _ \<Rightarrow> Ok (s\<lparr> es_spawned := Some (sp_child_thread_id p, sp_session_id p) \<rparr>))
      | RecoveryCanaryEvidence.InitialTurnCompleted t \<Rightarrow>
          (case es_spawned s of
             None \<Rightarrow> Err (canary_invalid ''initial turn has no matching spawned child'')
           | Some (child, session) \<Rightarrow>
               (case validate_turn sha256 t (re_observed_at_ms ev) child session of
                  Inl e \<Rightarrow> Err e | Inr _ \<Rightarrow> Ok (s\<lparr> es_first_turn := Some t \<rparr>)))
      | RecoveryCanaryEvidence.ContinuationTurnCompleted t \<Rightarrow>
          (case es_spawned s of
             None \<Rightarrow> Err (canary_invalid ''continuation turn has no matching spawned child'')
           | Some (child, session) \<Rightarrow>
               (case validate_turn sha256 t (re_observed_at_ms ev) child session of
                  Inl e \<Rightarrow> Err e
                | Inr _ \<Rightarrow>
                    (case es_first_turn s of
                       None \<Rightarrow> Err (canary_invalid ''continuation requires a completed initial turn'')
                     | Some first \<Rightarrow>
                         if tu_turn_id t = tu_turn_id first \<or> tu_nonce t = tu_nonce first
                            \<or> tu_started_at_ms t < tu_parent_observed_at_ms first
                         then Err (canary_invalid ''continuation must be a distinct turn started after the parent observed the initial completion'')
                         else Ok s)))
      | RecoveryCanaryEvidence.CanaryPassed child_shutdown_observed \<Rightarrow>
          if \<not> child_shutdown_observed
          then Err (canary_invalid ''canary pass requires observing clean child shutdown'') else Ok s
      | RecoveryCanaryEvidence.Rehydrated d ids \<Rightarrow>
          (case checks
             [canary_digest d ''rehydrated ledger state'',
              fail_if (es_ledger_digest s \<noteq> Some d)
                (canary_invalid ''canonical ledger state changed while the isolated canary ran''),
              fail_if (length (remdups ids) \<noteq> length ids \<or> list_ex is_blank ids
                  \<or> (case es_spawned s of None \<Rightarrow> False | Some (child, _) \<Rightarrow> list_ex (\<lambda>i. i = child) ids))
                (canary_invalid ''rehydrated thread ids must be unique and cannot include the disposable canary'')] of
             Inl e \<Rightarrow> Err e | Inr _ \<Rightarrow> Ok s)
      | _ \<Rightarrow> Ok s)"

definition validate_evidence ::
  "(string \<Rightarrow> string) \<Rightarrow> RecoveryCanaryEvent list \<Rightarrow> CoordinationError + EvidenceState" where
  "validate_evidence sha256 evs = run_events (evidence_step sha256)
     \<lparr> es_ledger_digest = None, es_spawned = None, es_first_turn = None \<rparr> evs"

definition successful_order :: "RecoveryPhase list" where
  "successful_order = [RecoveryPhase.Boot, RecoveryPhase.LedgerChecked, RecoveryPhase.CanarySpawned,
     RecoveryPhase.InitialTurnCompleted, RecoveryPhase.ContinuationTurnCompleted,
     RecoveryPhase.CanaryPassed, RecoveryPhase.Rehydrated, RecoveryPhase.Active]"

text \<open>The loop over the events; its state is the seen ids, the last timestamp, the phases so far and
  whether a failure was recorded.\<close>

record OrderState =
  os_ids :: "string list"
  os_previous :: int
  os_phases :: "RecoveryPhase list"
  os_failed :: bool

definition last_phase :: "RecoveryPhase list \<Rightarrow> RecoveryPhase option" where
  "last_phase ps = (if ps = [] then None else Some (last ps))"

definition nth_phase :: "nat \<Rightarrow> RecoveryPhase option" where
  "nth_phase n = (if n < length successful_order then Some (successful_order ! n) else None)"

definition order_step ::
  "int \<Rightarrow> int \<Rightarrow> OrderState \<Rightarrow> RecoveryCanaryEvent \<Rightarrow> CoordinationError + OrderState" where
  "order_step deadline_ms now_ms s ev =
     (if is_blank (re_event_id ev) \<or> re_event_id ev \<in> set (os_ids s)
      then Err (canary_invalid ''event ids must be non-empty and unique'')
      else if re_observed_at_ms ev < os_previous s \<or> re_observed_at_ms ev > deadline_ms
         \<or> re_observed_at_ms ev > now_ms
      then Err (canary_invalid ''event timestamps must be monotonic, observed, and inside the recovery deadline'')
      else
        let s' = s\<lparr> os_ids := re_event_id ev # os_ids s, os_previous := re_observed_at_ms ev \<rparr>
        in case re_evidence ev of
             RecoveryCanaryEvidence.Failed after_phase reason \<Rightarrow>
               if os_failed s \<or> is_blank reason
                  \<or> after_phase \<in> set [RecoveryPhase.Active, RecoveryPhase.Failed]
                  \<or> last_phase (os_phases s) \<noteq> Some after_phase
               then Err (canary_invalid ''failure must be terminal, explained, and attached to the last successful phase'')
               else Ok (s'\<lparr> os_failed := True \<rparr>)
           | evidence \<Rightarrow>
               if os_failed s then Err (canary_invalid ''failure is terminal'')
               else if nth_phase (length (os_phases s)) \<noteq> Some (phase evidence)
               then Err (canary_invalid ''recovery phases cannot be skipped or reordered'')
               else Ok (s'\<lparr> os_phases := os_phases s @ [phase evidence] \<rparr>))"

definition RecoveryCanaryTrace_validate ::
  "(string \<Rightarrow> string) \<Rightarrow> RecoveryCanaryTrace \<Rightarrow> int \<Rightarrow> CoordinationError + unit" where
  "RecoveryCanaryTrace_validate sha256 t now_ms =
     (if tr_schema_version t \<noteq> SCHEMA_VERSION \<or> is_blank (tr_recovery_id t)
         \<or> is_blank (tr_runtime_instance_id t) \<or> tr_recovery_attempt t = 0 \<or> tr_started_at_ms t < 0
         \<or> tr_deadline_ms t \<le> tr_started_at_ms t \<or> tr_events t = []
      then Err (canary_invalid ''schema, recovery/runtime ids, positive attempt, deadline, and events are required'')
      else case run_events (order_step (tr_deadline_ms t) now_ms)
             \<lparr> os_ids = [], os_previous = tr_started_at_ms t, os_phases = [], os_failed = False \<rparr>
             (tr_events t) of
        Inl e \<Rightarrow> Err e
      | Inr s \<Rightarrow>
          if now_ms > tr_deadline_ms t \<and> \<not> os_failed s
             \<and> last_phase (os_phases s) \<noteq> Some RecoveryPhase.Active
          then Err (canary_invalid ''expired recovery must record a terminal failure'')
          else (case validate_evidence sha256 (tr_events t) of Inl e \<Rightarrow> Err e | Inr _ \<Rightarrow> Ok ()))"

definition ends_in :: "RecoveryPhase \<Rightarrow> RecoveryCanaryTrace \<Rightarrow> bool" where
  "ends_in p t \<longleftrightarrow> tr_events t \<noteq> [] \<and> phase (re_evidence (last (tr_events t))) = p"

definition activation_allowed :: "(string \<Rightarrow> string) \<Rightarrow> RecoveryCanaryTrace \<Rightarrow> int \<Rightarrow> bool" where
  "activation_allowed sha256 t now_ms \<longleftrightarrow>
     is_ok (RecoveryCanaryTrace_validate sha256 t now_ms) \<and> ends_in RecoveryPhase.Active t"

definition rehydration_allowed :: "(string \<Rightarrow> string) \<Rightarrow> RecoveryCanaryTrace \<Rightarrow> int \<Rightarrow> bool" where
  "rehydration_allowed sha256 t now_ms \<longleftrightarrow>
     is_ok (RecoveryCanaryTrace_validate sha256 t now_ms) \<and> ends_in RecoveryPhase.CanaryPassed t"

section \<open>The trace of the automatic runner\<close>

definition canary_turn ::
  "(string \<Rightarrow> string) \<Rightarrow> string \<Rightarrow> string \<Rightarrow> string \<Rightarrow> string \<Rightarrow> int \<Rightarrow> int \<Rightarrow> RecoveryCanaryTurn" where
  "canary_turn sha256 child_thread_id session_id turn_id nonce started_at_ms observed_at_ms =
     \<lparr> tu_child_thread_id = child_thread_id, tu_session_id = session_id, tu_turn_id = turn_id,
       tu_nonce = nonce, tu_last_agent_message = ''ASCodex recovery healthy '' @ nonce,
       tu_response_sha256 = hex_bytes (sha256 (''ASCodex recovery healthy '' @ nonce)),
       tu_started_at_ms = started_at_ms, tu_completed_at_ms = started_at_ms + 10,
       tu_parent_observed_at_ms = observed_at_ms \<rparr>"

text \<open>\<open>None\<close> is the arithmetic panic of the largest sum, \<open>started_at_ms + 130\<close>.\<close>

definition build_recovery_canary_trace ::
  "(string \<Rightarrow> string) \<Rightarrow> string \<Rightarrow> string \<Rightarrow> nat \<Rightarrow> int \<Rightarrow> int \<Rightarrow> string \<Rightarrow> string \<Rightarrow> string \<Rightarrow> string \<Rightarrow>
   RecoveryCanaryTrace option" where
  "build_recovery_canary_trace sha256 recovery_id runtime_instance_id recovery_attempt started_at_ms
     deadline_ms child_thread_id session_id first_nonce second_nonce =
     (if started_at_ms + 130 > i64_max then None
      else
        let event = (\<lambda>i t e. \<lparr> re_event_id = i, re_observed_at_ms = t, re_evidence = e \<rparr>);
            turn = canary_turn sha256 child_thread_id session_id
        in Some
         \<lparr> tr_schema_version = SCHEMA_VERSION, tr_recovery_id = recovery_id,
           tr_runtime_instance_id = runtime_instance_id, tr_recovery_attempt = recovery_attempt,
           tr_started_at_ms = started_at_ms, tr_deadline_ms = deadline_ms,
           tr_events =
             [event ''boot'' started_at_ms RecoveryCanaryEvidence.Boot,
              event ''ledger'' (started_at_ms + 10)
                (RecoveryCanaryEvidence.LedgerChecked (hex_bytes (sha256 recovery_id))),
              event ''spawn'' (started_at_ms + 20)
                (RecoveryCanaryEvidence.CanarySpawned
                  \<lparr> sp_root_thread_id = ''root-'' @ child_thread_id,
                    sp_child_thread_id = child_thread_id, sp_session_id = session_id,
                    sp_effective_model_route = ''provider/model/default'',
                    sp_permission_profile_sha256 = hex_bytes (sha256 session_id),
                    sp_ephemeral = True, sp_network_disabled = True,
                    sp_filesystem_write_disabled = True \<rparr>),
              event ''turn-1'' (started_at_ms + 60)
                (RecoveryCanaryEvidence.InitialTurnCompleted
                  (turn ''turn-1'' first_nonce (started_at_ms + 40) (started_at_ms + 60))),
              event ''turn-2'' (started_at_ms + 110)
                (RecoveryCanaryEvidence.ContinuationTurnCompleted
                  (turn ''turn-2'' second_nonce (started_at_ms + 90) (started_at_ms + 110))),
              event ''passed'' (started_at_ms + 130) (RecoveryCanaryEvidence.CanaryPassed True)] \<rparr>)"

section \<open>Lemmas\<close>

lemma phase_simps [simp]:
  "phase e = RecoveryPhase.Boot \<longleftrightarrow> e = RecoveryCanaryEvidence.Boot"
  "phase e = RecoveryPhase.LedgerChecked \<longleftrightarrow> (\<exists>d. e = RecoveryCanaryEvidence.LedgerChecked d)"
  "phase e = RecoveryPhase.CanarySpawned \<longleftrightarrow> (\<exists>p. e = RecoveryCanaryEvidence.CanarySpawned p)"
  "phase e = RecoveryPhase.InitialTurnCompleted \<longleftrightarrow> (\<exists>t. e = RecoveryCanaryEvidence.InitialTurnCompleted t)"
  "phase e = RecoveryPhase.ContinuationTurnCompleted \<longleftrightarrow> (\<exists>t. e = RecoveryCanaryEvidence.ContinuationTurnCompleted t)"
  "phase e = RecoveryPhase.CanaryPassed \<longleftrightarrow> (\<exists>b. e = RecoveryCanaryEvidence.CanaryPassed b)"
  "phase e = RecoveryPhase.Rehydrated \<longleftrightarrow> (\<exists>d ids. e = RecoveryCanaryEvidence.Rehydrated d ids)"
  "phase e = RecoveryPhase.Active \<longleftrightarrow> e = RecoveryCanaryEvidence.Active"
  "phase e = RecoveryPhase.Failed \<longleftrightarrow> (\<exists>p r. e = RecoveryCanaryEvidence.Failed p r)"
  by (cases e; simp add: phase_def)+

text \<open>One accepted step of the ordering loop.\<close>

lemma order_step_ok:
  "order_step dl now s ev = Ok s' \<longleftrightarrow>
     \<not> is_blank (re_event_id ev) \<and> re_event_id ev \<notin> set (os_ids s)
     \<and> os_previous s \<le> re_observed_at_ms ev \<and> re_observed_at_ms ev \<le> dl \<and> re_observed_at_ms ev \<le> now
     \<and> \<not> os_failed s
     \<and> (if phase (re_evidence ev) = RecoveryPhase.Failed
        then (\<exists>p r. re_evidence ev = RecoveryCanaryEvidence.Failed p r \<and> \<not> is_blank r
                \<and> p \<noteq> RecoveryPhase.Active \<and> p \<noteq> RecoveryPhase.Failed \<and> last_phase (os_phases s) = Some p)
             \<and> s' = s\<lparr> os_ids := re_event_id ev # os_ids s, os_previous := re_observed_at_ms ev, os_failed := True \<rparr>
        else nth_phase (length (os_phases s)) = Some (phase (re_evidence ev))
             \<and> s' = s\<lparr> os_ids := re_event_id ev # os_ids s, os_previous := re_observed_at_ms ev,
                       os_phases := os_phases s @ [phase (re_evidence ev)] \<rparr>)"
  by (cases "re_evidence ev") (auto simp: order_step_def Let_def)

lemma order_run_phases:
  assumes "run_events (order_step dl now) s evs = Ok s'" and "\<not> os_failed s"
  shows "(\<not> os_failed s' \<longrightarrow> os_phases s' = os_phases s @ map (\<lambda>e. phase (re_evidence e)) evs)
    \<and> (os_failed s' \<longrightarrow> evs \<noteq> [] \<and> phase (re_evidence (last evs)) = RecoveryPhase.Failed)"
  using assms
proof (induction evs arbitrary: s' rule: rev_induct)
  case Nil
  then show ?case by simp
next
  case (snoc e evs)
  then obtain t where t: "run_events (order_step dl now) s evs = Ok t" "order_step dl now t e = Ok s'"
    by (auto simp: run_events_snoc)
  have "\<not> os_failed t" using t(2) unfolding order_step_ok by blast
  with snoc.IH [OF t(1) snoc.prems(2)] t(2) show ?case
    unfolding order_step_ok by (auto split: if_splits)
qed

lemma order_run_take:
  assumes "run_events (order_step dl now) s evs = Ok s'"
    and "os_phases s = take (length (os_phases s)) successful_order"
  shows "os_phases s' = take (length (os_phases s')) successful_order"
  using assms
proof (rule run_events_invariant [where I = "\<lambda>s. os_phases s = take (length (os_phases s)) successful_order"])
  fix s e t
  assume s: "os_phases s = take (length (os_phases s)) successful_order" and "order_step dl now s e = Ok t"
  then show "os_phases t = take (length (os_phases t)) successful_order"
    unfolding order_step_ok
    by (auto simp: nth_phase_def take_Suc_conv_app_nth split: if_splits)
qed

text \<open>Timestamps are observed, ordered and inside the deadline; ids are distinct.\<close>

lemma order_run_times:
  assumes "run_events (order_step dl now) s evs = Ok s'"
  shows "sorted (os_previous s # map re_observed_at_ms evs)
    \<and> (\<forall>e \<in> set evs. re_observed_at_ms e \<le> dl \<and> re_observed_at_ms e \<le> now)
    \<and> distinct (map re_event_id evs)"
proof -
  have "(\<forall>e \<in> set evs. os_previous s \<le> re_observed_at_ms e \<and> re_observed_at_ms e \<le> dl \<and> re_observed_at_ms e \<le> now
        \<and> re_event_id e \<notin> set (os_ids s))
      \<and> sorted (map re_observed_at_ms evs) \<and> distinct (map re_event_id evs)"
    using assms
  proof (induction evs arbitrary: s)
    case Nil
    then show ?case by simp
  next
    case (Cons e evs)
    then obtain t where t: "order_step dl now s e = Ok t" "run_events (order_step dl now) t evs = Ok s'"
      by (auto split: sum.splits)
    from t(1) have e: "re_event_id e \<notin> set (os_ids s)" "os_previous s \<le> re_observed_at_ms e"
      "re_observed_at_ms e \<le> dl" "re_observed_at_ms e \<le> now"
      and t': "os_previous t = re_observed_at_ms e" "os_ids t = re_event_id e # os_ids s"
      unfolding order_step_ok by (auto split: if_splits)
    from Cons.IH [OF t(2)] e t' show ?case by fastforce
  qed
  then show ?thesis by auto
qed

lemma validate_trace_ok:
  assumes "RecoveryCanaryTrace_validate sha256 t now = Ok ()"
  obtains s es where "run_events (order_step (tr_deadline_ms t) now)
      \<lparr> os_ids = [], os_previous = tr_started_at_ms t, os_phases = [], os_failed = False \<rparr> (tr_events t) = Ok s"
    "validate_evidence sha256 (tr_events t) = Ok es"
    "0 \<le> tr_started_at_ms t" "tr_events t \<noteq> []"
    "tr_deadline_ms t < now \<longrightarrow> os_failed s \<or> last_phase (os_phases s) = Some RecoveryPhase.Active"
  using assms unfolding RecoveryCanaryTrace_validate_def
  by (auto split: if_splits sum.splits)

text \<open>A valid trace that does not end in a failure is a prefix of the successful order.\<close>

lemma valid_trace_phases:
  assumes "RecoveryCanaryTrace_validate sha256 t now = Ok ()"
    and "phase (re_evidence (last (tr_events t))) \<noteq> RecoveryPhase.Failed"
  shows "map (\<lambda>e. phase (re_evidence e)) (tr_events t) = take (length (tr_events t)) successful_order"
proof -
  obtain s es where s: "run_events (order_step (tr_deadline_ms t) now)
      \<lparr> os_ids = [], os_previous = tr_started_at_ms t, os_phases = [], os_failed = False \<rparr> (tr_events t) = Ok s"
    using assms(1) by (rule validate_trace_ok)
  have "os_phases s = map (\<lambda>e. phase (re_evidence e)) (tr_events t)"
    using order_run_phases [OF s] assms(2) by auto
  moreover have "os_phases s = take (length (os_phases s)) successful_order"
    using order_run_take [OF s] by simp
  ultimately show ?thesis by simp
qed

lemma take_order_length:
  assumes "map f xs = take (length xs) successful_order" and "xs \<noteq> []" and "f (last xs) = p"
  shows "p = RecoveryPhase.CanaryPassed \<Longrightarrow> length xs = 6" "p = RecoveryPhase.Active \<Longrightarrow> length xs = 8"
proof -
  let ?n = "length xs"
  have len: "?n \<le> 8" using arg_cong [OF assms(1), of length] by (simp add: successful_order_def)
  have "last (take ?n successful_order) = p"
    using assms by (metis last_map)
  moreover have "?n \<noteq> 0" using assms(2) by simp
  ultimately show "p = RecoveryPhase.CanaryPassed \<Longrightarrow> ?n = 6" "p = RecoveryPhase.Active \<Longrightarrow> ?n = 8"
    using len by (auto simp: successful_order_def numeral_eq_Suc le_Suc_eq)
qed

text \<open>What each kind of evidence establishes, for the state before and after it.\<close>

lemma evidence_step_ok:
  "re_evidence ev = RecoveryCanaryEvidence.Boot \<Longrightarrow> evidence_step h s ev = Ok s' \<longleftrightarrow> s' = s"
  "re_evidence ev = RecoveryCanaryEvidence.Active \<Longrightarrow> evidence_step h s ev = Ok s' \<longleftrightarrow> s' = s"
  "re_evidence ev = RecoveryCanaryEvidence.LedgerChecked d \<Longrightarrow> evidence_step h s ev = Ok s' \<longleftrightarrow>
     canary_digest d ''ledger state'' = Ok () \<and> s' = s\<lparr> es_ledger_digest := Some d \<rparr>"
  "re_evidence ev = RecoveryCanaryEvidence.InitialTurnCompleted t \<Longrightarrow> es_spawned s = Some (child, session) \<Longrightarrow>
     evidence_step h s ev = Ok s' \<longleftrightarrow>
     validate_turn h t (re_observed_at_ms ev) child session = Ok () \<and> s' = s\<lparr> es_first_turn := Some t \<rparr>"
  "re_evidence ev = RecoveryCanaryEvidence.ContinuationTurnCompleted t \<Longrightarrow> es_spawned s = Some (child, session) \<Longrightarrow>
     es_first_turn s = Some first \<Longrightarrow> evidence_step h s ev = Ok s' \<longleftrightarrow>
     validate_turn h t (re_observed_at_ms ev) child session = Ok () \<and> tu_turn_id t \<noteq> tu_turn_id first
     \<and> tu_nonce t \<noteq> tu_nonce first \<and> tu_parent_observed_at_ms first \<le> tu_started_at_ms t \<and> s' = s"
  "re_evidence ev = RecoveryCanaryEvidence.CanaryPassed b \<Longrightarrow> evidence_step h s ev = Ok s' \<longleftrightarrow> b \<and> s' = s"
  by (auto simp: evidence_step_def split: sum.splits)

lemma evidence_step_spawned:
  assumes "re_evidence ev = RecoveryCanaryEvidence.CanarySpawned p"
  shows "evidence_step h s ev = Ok s' \<longleftrightarrow>
     \<not> is_blank (sp_root_thread_id p) \<and> \<not> is_blank (sp_child_thread_id p) \<and> \<not> is_blank (sp_session_id p)
     \<and> \<not> is_blank (sp_effective_model_route p) \<and> sp_root_thread_id p \<noteq> sp_child_thread_id p
     \<and> sp_ephemeral p \<and> sp_network_disabled p \<and> sp_filesystem_write_disabled p
     \<and> canary_digest (sp_permission_profile_sha256 p) ''permission profile'' = Ok ()
     \<and> s' = s\<lparr> es_spawned := Some (sp_child_thread_id p, sp_session_id p) \<rparr>"
proof -
  let ?cs = "[fail_if (list_ex is_blank [sp_root_thread_id p, sp_child_thread_id p, sp_session_id p,
        sp_effective_model_route p] \<or> sp_root_thread_id p = sp_child_thread_id p \<or> \<not> sp_ephemeral p
      \<or> \<not> sp_network_disabled p \<or> \<not> sp_filesystem_write_disabled p)
      (canary_invalid ''canary must use a distinct isolated ephemeral child and record its effective model route''),
    canary_digest (sp_permission_profile_sha256 p) ''permission profile'']"
  have "evidence_step h s ev = Ok s' \<longleftrightarrow>
      checks ?cs = Ok () \<and> s' = s\<lparr> es_spawned := Some (sp_child_thread_id p, sp_session_id p) \<rparr>"
    using assms by (auto simp: evidence_step_def simp del: checks_ok split: sum.splits)
  then show ?thesis by auto
qed

lemma evidence_step_rehydrated:
  assumes "re_evidence ev = RecoveryCanaryEvidence.Rehydrated d ids" and "es_spawned s = Some (child, session)"
  shows "evidence_step h s ev = Ok s' \<longleftrightarrow>
     canary_digest d ''rehydrated ledger state'' = Ok () \<and> es_ledger_digest s = Some d
     \<and> distinct ids \<and> (\<forall>i \<in> set ids. \<not> is_blank i) \<and> child \<notin> set ids \<and> s' = s"
proof -
  let ?cs = "[canary_digest d ''rehydrated ledger state'',
    fail_if (es_ledger_digest s \<noteq> Some d)
      (canary_invalid ''canonical ledger state changed while the isolated canary ran''),
    fail_if (length (remdups ids) \<noteq> length ids \<or> list_ex is_blank ids
        \<or> (case es_spawned s of None \<Rightarrow> False | Some (child, _) \<Rightarrow> list_ex (\<lambda>i. i = child) ids))
      (canary_invalid ''rehydrated thread ids must be unique and cannot include the disposable canary'')]"
  have "evidence_step h s ev = Ok s' \<longleftrightarrow> checks ?cs = Ok () \<and> s' = s"
    using assms(1) by (auto simp: evidence_step_def simp del: checks_ok split: sum.splits)
  then show ?thesis using assms(2) by (auto simp: list_ex_iff length_remdups_eq)
qed

text \<open>
  What the first six events of a successful recovery prove: an isolated child, distinct from its
  root, answered two turns, each with its own nonce, and the second began only after the first had
  been observed.
\<close>

definition turn_proved :: "(string \<Rightarrow> string) \<Rightarrow> Spawned \<Rightarrow> RecoveryCanaryTurn \<Rightarrow> bool" where
  "turn_proved h p t \<longleftrightarrow> tu_child_thread_id t = sp_child_thread_id p \<and> tu_session_id t = sp_session_id p
     \<and> 16 \<le> length (tu_nonce t) \<and> str_contains (tu_last_agent_message t) (tu_nonce t)
     \<and> tu_response_sha256 t = hex_bytes (h (tu_last_agent_message t))
     \<and> tu_started_at_ms t \<le> tu_completed_at_ms t \<and> tu_completed_at_ms t \<le> tu_parent_observed_at_ms t"

definition canary_proved ::
  "(string \<Rightarrow> string) \<Rightarrow> string \<Rightarrow> Spawned \<Rightarrow> RecoveryCanaryTurn \<Rightarrow> RecoveryCanaryTurn \<Rightarrow> bool" where
  "canary_proved h d p t1 t2 \<longleftrightarrow> sp_root_thread_id p \<noteq> sp_child_thread_id p
     \<and> sp_ephemeral p \<and> sp_network_disabled p \<and> sp_filesystem_write_disabled p
     \<and> turn_proved h p t1 \<and> turn_proved h p t2
     \<and> tu_turn_id t1 \<noteq> tu_turn_id t2 \<and> tu_nonce t1 \<noteq> tu_nonce t2
     \<and> tu_parent_observed_at_ms t1 \<le> tu_started_at_ms t2"

lemma validate_turn_proved:
  "validate_turn h t obs (sp_child_thread_id p) (sp_session_id p) = Ok () \<Longrightarrow> turn_proved h p t"
  by (auto simp: validate_turn_def turn_proved_def)

lemma canary_six:
  assumes "map (\<lambda>e. phase (re_evidence e)) evs = take 6 successful_order"
    and "validate_evidence h evs = Ok s"
  obtains d p t1 t2 where "map re_evidence evs = [RecoveryCanaryEvidence.Boot,
      RecoveryCanaryEvidence.LedgerChecked d, RecoveryCanaryEvidence.CanarySpawned p,
      RecoveryCanaryEvidence.InitialTurnCompleted t1, RecoveryCanaryEvidence.ContinuationTurnCompleted t2,
      RecoveryCanaryEvidence.CanaryPassed True]"
    "canary_proved h d p t1 t2" "es_ledger_digest s = Some d"
    "es_spawned s = Some (sp_child_thread_id p, sp_session_id p)"
proof -
  from assms(1) obtain e1 e2 e3 e4 e5 e6 d p t1 t2 b where evs: "evs = [e1, e2, e3, e4, e5, e6]"
    and k: "re_evidence e1 = RecoveryCanaryEvidence.Boot" "re_evidence e2 = RecoveryCanaryEvidence.LedgerChecked d"
      "re_evidence e3 = RecoveryCanaryEvidence.CanarySpawned p"
      "re_evidence e4 = RecoveryCanaryEvidence.InitialTurnCompleted t1"
      "re_evidence e5 = RecoveryCanaryEvidence.ContinuationTurnCompleted t2"
      "re_evidence e6 = RecoveryCanaryEvidence.CanaryPassed b"
    by (auto simp: successful_order_def map_eq_Cons_conv)
  have facts: "sp_root_thread_id p \<noteq> sp_child_thread_id p" "sp_ephemeral p" "sp_network_disabled p"
    "sp_filesystem_write_disabled p" "b" "tu_turn_id t2 \<noteq> tu_turn_id t1" "tu_nonce t2 \<noteq> tu_nonce t1"
    "tu_parent_observed_at_ms t1 \<le> tu_started_at_ms t2"
    "validate_turn h t1 (re_observed_at_ms e4) (sp_child_thread_id p) (sp_session_id p) = Ok ()"
    "validate_turn h t2 (re_observed_at_ms e5) (sp_child_thread_id p) (sp_session_id p) = Ok ()"
    "s = \<lparr> es_ledger_digest = Some d, es_spawned = Some (sp_child_thread_id p, sp_session_id p),
           es_first_turn = Some t1 \<rparr>"
    using assms(2) k unfolding validate_evidence_def evs run_events_Cons_ok
    by (simp_all add: evidence_step_ok evidence_step_spawned)
  have "canary_proved h d p t1 t2"
    unfolding canary_proved_def using facts(1-8) validate_turn_proved [OF facts(9)]
      validate_turn_proved [OF facts(10)] by simp
  then show ?thesis
    using that [of d p t1 t2] evs k facts(5,11) by simp
qed

section \<open>Properties\<close>

text \<open>
  C37. Formal threads are rehydrated only after a live canary: a trace that allows rehydration consists
  of exactly the six phases from boot to the passed canary, in order, all observed inside the
  deadline and not in the future; in it an ephemeral child without network and write access, distinct
  from its root, completed two turns that echo two different nonces, with responses whose SHA-256
  digests match, the second started after the first was observed.
\<close>

theorem rehydration_needs_a_live_canary:
  assumes "rehydration_allowed sha256 t now"
  shows "\<exists>d p t1 t2. map re_evidence (tr_events t) = [RecoveryCanaryEvidence.Boot,
      RecoveryCanaryEvidence.LedgerChecked d, RecoveryCanaryEvidence.CanarySpawned p,
      RecoveryCanaryEvidence.InitialTurnCompleted t1, RecoveryCanaryEvidence.ContinuationTurnCompleted t2,
      RecoveryCanaryEvidence.CanaryPassed True]
    \<and> canary_proved sha256 d p t1 t2
    \<and> sorted (tr_started_at_ms t # map re_observed_at_ms (tr_events t))
    \<and> (\<forall>e \<in> set (tr_events t). re_observed_at_ms e \<le> tr_deadline_ms t \<and> re_observed_at_ms e \<le> now)
    \<and> now \<le> tr_deadline_ms t"
proof -
  have ok: "RecoveryCanaryTrace_validate sha256 t now = Ok ()"
    and ends: "tr_events t \<noteq> []" "phase (re_evidence (last (tr_events t))) = RecoveryPhase.CanaryPassed"
    using assms unfolding rehydration_allowed_def ends_in_def is_ok_iff by blast+
  from ok obtain s es where run: "run_events (order_step (tr_deadline_ms t) now)
      \<lparr> os_ids = [], os_previous = tr_started_at_ms t, os_phases = [], os_failed = False \<rparr> (tr_events t) = Ok s"
    and ev: "validate_evidence sha256 (tr_events t) = Ok es"
    and late: "tr_deadline_ms t < now \<longrightarrow> os_failed s \<or> last_phase (os_phases s) = Some RecoveryPhase.Active"
    by (rule validate_trace_ok) (rule that)
  have phases: "map (\<lambda>e. phase (re_evidence e)) (tr_events t) = take (length (tr_events t)) successful_order"
    by (rule valid_trace_phases [OF ok]) (use ends(2) in auto)
  have "length (tr_events t) = 6"
    using take_order_length(1) [OF phases ends(1)] ends(2) by blast
  with phases have six: "map (\<lambda>e. phase (re_evidence e)) (tr_events t) = take 6 successful_order" by simp
  have "\<not> os_failed s" "os_phases s = take 6 successful_order"
    using order_run_phases [OF run] ends(2) six by auto
  then have "now \<le> tr_deadline_ms t"
    using late by (auto simp: last_phase_def successful_order_def not_le [symmetric])
  moreover obtain d p t1 t2 where "map re_evidence (tr_events t) = [RecoveryCanaryEvidence.Boot,
      RecoveryCanaryEvidence.LedgerChecked d, RecoveryCanaryEvidence.CanarySpawned p,
      RecoveryCanaryEvidence.InitialTurnCompleted t1, RecoveryCanaryEvidence.ContinuationTurnCompleted t2,
      RecoveryCanaryEvidence.CanaryPassed True]" "canary_proved sha256 d p t1 t2"
    using six ev by (rule canary_six)
  ultimately show ?thesis
    using order_run_times [OF run] by auto
qed

definition sample_sha :: "string \<Rightarrow> string" where
  "sample_sha x = replicate 32 CHR ''a''"

definition sample_trace :: RecoveryCanaryTrace where
  "sample_trace = the (build_recovery_canary_trace sample_sha ''r'' ''i'' 1 0 1000 ''c'' ''s''
     ''0123456789abcdef'' ''fedcba9876543210'')"

lemma sample_trace_rehydrates: "rehydration_allowed sample_sha sample_trace 500"
  by code_simp

theorem rehydration_needs_a_live_canary_witness:
  "rehydration_allowed sample_sha sample_trace 500 \<and> length (tr_events sample_trace) = 6"
proof -
  from rehydration_needs_a_live_canary [OF sample_trace_rehydrates]
  have "length (map re_evidence (tr_events sample_trace)) = 6" by auto
  with sample_trace_rehydrates show ?thesis by simp
qed

text \<open>
  A recovered agent becomes active only on an unchanged ledger: a trace that allows activation has
  the six canary phases followed by a rehydration whose ledger digest is the one checked before the
  canary ran, of distinct non-blank threads among which the disposable child is not, and the
  activation.  No trace allows both, and a trace that records a failure allows neither.
\<close>

theorem activation_needs_an_unchanged_ledger:
  assumes "activation_allowed sha256 t now"
  shows "(\<exists>d p t1 t2 ids. map re_evidence (tr_events t) = [RecoveryCanaryEvidence.Boot,
      RecoveryCanaryEvidence.LedgerChecked d, RecoveryCanaryEvidence.CanarySpawned p,
      RecoveryCanaryEvidence.InitialTurnCompleted t1, RecoveryCanaryEvidence.ContinuationTurnCompleted t2,
      RecoveryCanaryEvidence.CanaryPassed True, RecoveryCanaryEvidence.Rehydrated d ids,
      RecoveryCanaryEvidence.Active]
    \<and> canary_proved sha256 d p t1 t2
    \<and> distinct ids \<and> sp_child_thread_id p \<notin> set ids)
    \<and> \<not> rehydration_allowed sha256 t now
    \<and> (\<forall>e \<in> set (tr_events t). phase (re_evidence e) \<noteq> RecoveryPhase.Failed)"
proof -
  have ok: "RecoveryCanaryTrace_validate sha256 t now = Ok ()"
    and ends: "tr_events t \<noteq> []" "phase (re_evidence (last (tr_events t))) = RecoveryPhase.Active"
    using assms unfolding activation_allowed_def ends_in_def is_ok_iff by blast+
  from ok obtain s es where ev: "validate_evidence sha256 (tr_events t) = Ok es"
    by (rule validate_trace_ok)
  have phases: "map (\<lambda>e. phase (re_evidence e)) (tr_events t) = take (length (tr_events t)) successful_order"
    by (rule valid_trace_phases [OF ok]) (use ends(2) in auto)
  have "length (tr_events t) = 8"
    using take_order_length(2) [OF phases ends(1)] ends(2) by blast
  with phases have eight: "map (\<lambda>e. phase (re_evidence e)) (tr_events t) = take 8 successful_order" by simp
  define six two where "six = take 6 (tr_events t)" and "two = drop 6 (tr_events t)"
  have split: "tr_events t = six @ two" by (simp add: six_def two_def)
  have "map (\<lambda>e. phase (re_evidence e)) six = take 6 successful_order"
    "map (\<lambda>e. phase (re_evidence e)) two = [RecoveryPhase.Rehydrated, RecoveryPhase.Active]"
    using eight unfolding six_def two_def take_map [symmetric] drop_map [symmetric]
    by (simp_all add: successful_order_def)
  then obtain e7 e8 ids d' where two: "two = [e7, e8]" "re_evidence e7 = RecoveryCanaryEvidence.Rehydrated d' ids"
    "re_evidence e8 = RecoveryCanaryEvidence.Active"
    and six: "map (\<lambda>e. phase (re_evidence e)) six = take 6 successful_order"
    by (auto simp: map_eq_Cons_conv)
  obtain s6 where s6: "validate_evidence sha256 six = Ok s6" "run_events (evidence_step sha256) s6 two = Ok es"
    using ev unfolding split validate_evidence_def run_events_append by (auto split: sum.splits)
  obtain d p t1 t2 where core: "map re_evidence six = [RecoveryCanaryEvidence.Boot,
      RecoveryCanaryEvidence.LedgerChecked d, RecoveryCanaryEvidence.CanarySpawned p,
      RecoveryCanaryEvidence.InitialTurnCompleted t1, RecoveryCanaryEvidence.ContinuationTurnCompleted t2,
      RecoveryCanaryEvidence.CanaryPassed True]" "canary_proved sha256 d p t1 t2"
    "es_ledger_digest s6 = Some d" "es_spawned s6 = Some (sp_child_thread_id p, sp_session_id p)"
    using six s6(1) by (rule canary_six)
  have "d' = d" "distinct ids" "sp_child_thread_id p \<notin> set ids"
    using s6(2) core(3) unfolding two(1) run_events_Cons_ok
    by (auto simp: evidence_step_rehydrated [OF two(2) core(4)])
  moreover have "\<forall>e \<in> set (tr_events t). phase (re_evidence e) \<noteq> RecoveryPhase.Failed"
  proof -
    have "(\<lambda>e. phase (re_evidence e)) ` set (tr_events t) \<subseteq> set successful_order"
      using arg_cong [OF eight, of set] set_take_subset [of 8 successful_order] by auto
    then show ?thesis by (force simp: successful_order_def)
  qed
  moreover have "\<not> rehydration_allowed sha256 t now"
    using ends(2) by (auto simp: rehydration_allowed_def ends_in_def)
  ultimately show ?thesis
    using core(1,2) two split by auto
qed

definition sample_active :: RecoveryCanaryTrace where
  "sample_active = sample_trace\<lparr> tr_events := tr_events sample_trace @
     [\<lparr> re_event_id = ''rehydrated'', re_observed_at_ms = 200,
        re_evidence = RecoveryCanaryEvidence.Rehydrated (hex_bytes (sample_sha ''r'')) [''t1''] \<rparr>,
      \<lparr> re_event_id = ''active'', re_observed_at_ms = 210, re_evidence = RecoveryCanaryEvidence.Active \<rparr>] \<rparr>"

theorem activation_needs_an_unchanged_ledger_witness:
  "activation_allowed sample_sha sample_active 500 \<and> \<not> rehydration_allowed sample_sha sample_active 500"
proof -
  have "activation_allowed sample_sha sample_active 500" by code_simp
  from activation_needs_an_unchanged_ledger [OF this] this show ?thesis by blast
qed

lemma hex_digit_lower_hex: "n < 16 \<Longrightarrow> lower_hexdigit (hex_digit n)"
proof -
  have "\<forall>k < 16. lower_hexdigit (hex_digit k)" by code_simp
  then show "n < 16 \<Longrightarrow> lower_hexdigit (hex_digit n)" by blast
qed

lemma hex_bytes_canary_digest:
  assumes "sha256_length h"
  shows "canary_digest (hex_bytes (h x)) l = Ok ()"
proof -
  have "list_all lower_hexdigit (hex_bytes bs)" for bs
    by (induction bs) (simp_all add: hex_bytes_def hex_byte_def hex_digit_lower_hex)
  moreover have "length (hex_bytes (h x)) = 64"
    using hex_bytes_lower [of "h x"] assms by (simp add: is_lower_hex_def is_hex_def sha256_length_def)
  ultimately show ?thesis by (simp add: canary_digest_def)
qed

lemma canary_turn_sel [simp]:
  "tu_turn_id (canary_turn h c s i n a b) = i" "tu_nonce (canary_turn h c s i n a b) = n"
  "tu_started_at_ms (canary_turn h c s i n a b) = a"
  "tu_parent_observed_at_ms (canary_turn h c s i n a b) = b"
  by (simp_all add: canary_turn_def)

lemma canary_turn_valid:
  assumes "sha256_length h" and "\<not> is_blank tid" and "16 \<le> length nonce" and "\<not> any_whitespace nonce"
    and "0 \<le> start" and "start + 10 \<le> obs"
  shows "validate_turn h (canary_turn h child session tid nonce start obs) obs child session = Ok ()"
proof -
  have "str_contains (''ASCodex recovery healthy '' @ nonce) nonce"
    unfolding str_contains_iff by (rule exI [of _ "''ASCodex recovery healthy ''"], rule exI [of _ "[]"]) simp
  then show ?thesis
    using assms hex_bytes_canary_digest [OF assms(1)]
    by (simp add: validate_turn_def canary_turn_def del: str_contains.simps)
qed

text \<open>
  The automatic runner's trace does what it is built for: for non-blank ids, a positive attempt,
  two different nonces of at least 16 bytes without white space, and a deadline at least 130 ms after
  the start, the built trace allows rehydration at every moment from its last event to the deadline.
  It ends with the passed canary, so it never allows activation.
\<close>

theorem built_trace_rehydrates:
  assumes "sha256_length sha256"
    and "\<not> is_blank recovery_id" and "\<not> is_blank instance_id" and "0 < attempt"
    and "\<not> is_blank child" and "\<not> is_blank session"
    and "16 \<le> length n1" and "16 \<le> length n2" and "\<not> any_whitespace n1" and "\<not> any_whitespace n2"
    and "n1 \<noteq> n2" and "0 \<le> started" and "deadline \<le> i64_max"
    and "started + 130 \<le> now" and "now \<le> deadline"
  shows "\<exists>t. build_recovery_canary_trace sha256 recovery_id instance_id attempt started deadline
      child session n1 n2 = Some t
    \<and> rehydration_allowed sha256 t now \<and> \<not> activation_allowed sha256 t now"
proof -
  obtain t where t: "build_recovery_canary_trace sha256 recovery_id instance_id attempt started deadline
      child session n1 n2 = Some t"
    using assms unfolding build_recovery_canary_trace_def Let_def by auto
  have fields: "tr_schema_version t = SCHEMA_VERSION" "tr_recovery_id t = recovery_id"
    "tr_runtime_instance_id t = instance_id" "tr_recovery_attempt t = attempt"
    "tr_started_at_ms t = started" "tr_deadline_ms t = deadline"
    "tr_events t \<noteq> []"
    using t by (auto simp: build_recovery_canary_trace_def Let_def split: if_splits)
  have order: "\<exists>s. run_events (order_step deadline now)
      \<lparr> os_ids = [], os_previous = started, os_phases = [], os_failed = False \<rparr> (tr_events t) = Ok s"
    using t assms unfolding build_recovery_canary_trace_def Let_def
    by (auto simp: order_step_def nth_phase_def successful_order_def phase_def split: if_splits)
  have neq: "''root-'' @ child \<noteq> child" by (metis append_self_conv2 list.discI)
  have evidence: "\<exists>s. validate_evidence sha256 (tr_events t) = Ok s"
    using t assms neq hex_bytes_canary_digest [OF assms(1)] canary_turn_valid [OF assms(1)]
    unfolding build_recovery_canary_trace_def Let_def validate_evidence_def
    by (auto simp: run_events_Cons_ok evidence_step_ok evidence_step_spawned
          split: if_splits simp del: run_events.simps(2))
  have "RecoveryCanaryTrace_validate sha256 t now = Ok ()"
    using order evidence fields assms
    by (auto simp: RecoveryCanaryTrace_validate_def)
  moreover have "ends_in RecoveryPhase.CanaryPassed t" "\<not> ends_in RecoveryPhase.Active t"
    using t by (auto simp: ends_in_def build_recovery_canary_trace_def Let_def split: if_splits)
  ultimately show ?thesis
    using t by (simp add: rehydration_allowed_def activation_allowed_def)
qed

theorem built_trace_rehydrates_witness:
  "\<exists>t. build_recovery_canary_trace sample_sha ''r'' ''i'' 1 0 1000 ''c'' ''s'' ''0123456789abcdef''
      ''fedcba9876543210'' = Some t \<and> rehydration_allowed sample_sha t 500
      \<and> \<not> activation_allowed sample_sha t 500"
proof (rule built_trace_rehydrates)
  show "sha256_length sample_sha" by (simp add: sha256_length_def sample_sha_def)
  show "\<not> any_whitespace ''0123456789abcdef''" "\<not> any_whitespace ''fedcba9876543210''"
    by code_simp+
qed (simp_all add: i64_max_def)

end
