(* ===== verification/Reconciliation.thy ===== *)
theory Reconciliation
  imports Evidence
begin

text \<open>
  The offline reducer for platform facts (\<open>ascodex-coordination/src/reconciliation.rs\<close>): cursors,
  page items and their facts, the snapshot with its validation, \<open>apply\<close>, and the reconciliation of
  ambiguous local submissions.

  Derived \<open>PartialEq\<close> compares \<open>f64\<close> fields numerically, so the replay test on items is \<open>item_eq\<close>
  and not HOL equality.
\<close>

section \<open>Facts\<close>

definition RECONCILIATION_SCHEMA_VERSION :: string where
  "RECONCILIATION_SCHEMA_VERSION = ''ascodex-platform-reconciliation/v1''"

definition rec_invalid :: "string \<Rightarrow> CoordinationError" where
  "rec_invalid msg = InvalidReport msg"

definition is_sha256 :: "string \<Rightarrow> bool" where
  "is_sha256 v \<longleftrightarrow> length v = 64 \<and> list_all ascii_hexdigit v \<and> v = to_ascii_lowercase v"

record ReconciliationCursor =
  cu_stream_id :: string
  cu_position :: nat

definition ReconciliationCursor_validate ::
  "ReconciliationCursor \<Rightarrow> string \<Rightarrow> CoordinationError + unit" where
  "ReconciliationCursor_validate c expected_stream =
     fail_if (is_blank expected_stream \<or> cu_stream_id c \<noteq> expected_stream \<or> is_blank (cu_stream_id c))
       (rec_invalid ''reconciliation cursor is not bound to the feed'')"

datatype LeaderboardScope = UnifiedOverallAndSeason

datatype AntiCheatMode = WeightedThreeSignals

record AntiCheatSignal =
  as_name :: string
  as_weight :: f64
  as_availability :: EvidenceAvailability

record AntiCheatEvidence =
  ac_mode :: AntiCheatMode
  ac_signals :: "AntiCheatSignal list"

datatype AnonymousSubmissionAccess = Closed | Open

record ChallengePageEvidence =
  cp_challenge_section :: EvidenceAvailability
  cp_my_submissions_section :: EvidenceAvailability
  cp_leaderboard_section :: EvidenceAvailability
  cp_share_route :: "string option"
  cp_share_route_status :: EvidenceAvailability
  cp_attachment_status :: EvidenceAvailability

record PenaltyBasis =
  pb_object :: string
  pb_reason :: string
  pb_rewritten_score :: f64

datatype BundleRescoreStatus = NotApplicable | Pending | Completed | Failed

record ReconciliationFacts =
  rf_raw_score :: "f64 option"
  rf_effective_score :: "f64 option"
  rf_penalty :: "f64 option"
  rf_penalty_applied :: bool
  rf_penalty_basis :: "PenaltyBasis option"
  rf_credited_owner :: "string option"
  rf_bundle_revision :: "string option"
  rf_rescore_status :: "BundleRescoreStatus option"
  rf_trace_evidence :: "EvidenceAvailability option"
  rf_score_evidence :: "EvidenceAvailability option"
  rf_penalty_evidence :: "EvidenceAvailability option"
  rf_credited_owner_evidence :: "EvidenceAvailability option"
  rf_bundle_evidence :: "EvidenceAvailability option"
  rf_leaderboard_scope :: "LeaderboardScope option"
  rf_anti_cheat :: "AntiCheatEvidence option"
  rf_anonymous_other_submission_access :: "AnonymousSubmissionAccess option"
  rf_challenge_page :: "ChallengePageEvidence option"

definition require_present_if ::
  "bool \<Rightarrow> EvidenceAvailability option \<Rightarrow> string \<Rightarrow> CoordinationError + unit" where
  "require_present_if has_value availability name =
     fail_if (has_value \<and> availability \<noteq> Some EvidenceAvailability.Present)
       (rec_invalid (name @ '' value requires present evidence''))"

definition blank_if_present :: "string option \<Rightarrow> bool" where
  "blank_if_present x \<longleftrightarrow> (case x of None \<Rightarrow> False | Some s \<Rightarrow> is_blank s)"

definition score_facts :: "ReconciliationFacts \<Rightarrow> (CoordinationError + unit) list" where
  "score_facts f =
     map (\<lambda>(name, v). fail_if (case v of None \<Rightarrow> False | Some x \<Rightarrow> \<not> is_finite x)
            (rec_invalid (name @ '' must be finite'')))
       [(''raw_score'', rf_raw_score f), (''effective_score'', rf_effective_score f),
        (''penalty'', rf_penalty f)]
     @ [fail_if (case rf_raw_score f of None \<Rightarrow> False | Some x \<Rightarrow> \<not> f64_in 0 100 x)
          (rec_invalid ''raw_score must be within 0..=100''),
        fail_if (case rf_effective_score f of None \<Rightarrow> False | Some x \<Rightarrow> \<not> f64_in (-1) 100 x)
          (rec_invalid ''effective_score must be within -1..=100''),
        fail_if (case rf_penalty f of None \<Rightarrow> False | Some x \<Rightarrow> \<not> f64_in (-1) 0 x)
          (rec_invalid ''penalty must be within -1..=0'')]"

definition penalty_facts :: "ReconciliationFacts \<Rightarrow> (CoordinationError + unit) list" where
  "penalty_facts f =
     (if rf_penalty_applied f then
        [(case rf_penalty_basis f of
            None \<Rightarrow> Err (rec_invalid ''an applied penalty must include its object, reason, and score rewrite'')
          | Some basis \<Rightarrow>
              (case rf_raw_score f of
                 None \<Rightarrow> Err (rec_invalid ''an applied penalty requires the preserved raw score'')
               | Some raw \<Rightarrow>
                   fail_if (\<not> opt_f64_eq (rf_penalty f) (Some (Fin (-1)))
                       \<or> \<not> opt_f64_eq (rf_effective_score f) (Some (f64_sub raw (Fin 1)))
                       \<or> is_blank (pb_object basis) \<or> is_blank (pb_reason basis)
                       \<or> \<not> f64_eq (pb_rewritten_score basis) (f64_sub raw (Fin 1)))
                     (rec_invalid ''an applied penalty must subtract exactly one point from the raw score and preserve a complete basis'')))]
      else
        [fail_if (case rf_penalty f of None \<Rightarrow> False | Some x \<Rightarrow> f64_lt x (Fin 0))
           (rec_invalid ''negative penalty must be marked as applied'')])
     @ [fail_if (\<not> rf_penalty_applied f \<and> rf_penalty_basis f \<noteq> None)
          (rec_invalid ''penalty basis requires an applied penalty'')]"

definition ownership_facts :: "ReconciliationFacts \<Rightarrow> bool \<Rightarrow> (CoordinationError + unit) list" where
  "ownership_facts f observation =
     [fail_if (blank_if_present (rf_credited_owner f)) (rec_invalid ''credited owner cannot be empty''),
      fail_if (blank_if_present (rf_bundle_revision f)) (rec_invalid ''bundle revision cannot be empty''),
      fail_if (rf_bundle_revision f \<noteq> None \<and> rf_rescore_status f = None)
        (rec_invalid ''bundle revision requires an explicit rescore status'')]
     @ (if observation then
         [require_present_if (rf_raw_score f \<noteq> None \<or> rf_effective_score f \<noteq> None)
            (rf_score_evidence f) ''score'',
          require_present_if (rf_penalty f \<noteq> None \<or> rf_penalty_applied f \<or> rf_penalty_basis f \<noteq> None)
            (rf_penalty_evidence f) ''penalty'',
          require_present_if (rf_credited_owner f \<noteq> None) (rf_credited_owner_evidence f) ''credited owner'',
          require_present_if (rf_bundle_revision f \<noteq> None \<or> rf_rescore_status f \<noteq> None)
            (rf_bundle_evidence f) ''bundle'']
        else [])
     @ [fail_if (rf_credited_owner f \<noteq> None \<and> rf_leaderboard_scope f \<noteq> Some UnifiedOverallAndSeason)
          (rec_invalid ''credited owner requires the unified overall/season leaderboard scope'')]"

fun anti_cheat_signals :: "string list \<Rightarrow> AntiCheatSignal list \<Rightarrow> CoordinationError + unit" where
  "anti_cheat_signals names [] = Ok ()"
| "anti_cheat_signals names (g # gs) =
     (if is_blank (as_name g) \<or> \<not> is_finite (as_weight g) \<or> f64_lt (as_weight g) (Fin 0)
         \<or> as_name g \<in> set names
      then Err (rec_invalid ''anti-cheat signals require unique names and finite non-negative weights'')
      else anti_cheat_signals (as_name g # names) gs)"

definition anti_cheat_facts :: "ReconciliationFacts \<Rightarrow> (CoordinationError + unit) list" where
  "anti_cheat_facts f =
     (case rf_anti_cheat f of
        None \<Rightarrow> []
      | Some ac \<Rightarrow>
          [fail_if (ac_mode ac \<noteq> WeightedThreeSignals \<or> length (ac_signals ac) \<noteq> 3)
             (rec_invalid ''anti-cheat evidence must use exactly three weighted signals''),
           anti_cheat_signals [] (ac_signals ac),
           fail_if (list_all (\<lambda>g. f64_eq (as_weight g) (Fin 0)) (ac_signals ac))
             (rec_invalid ''anti-cheat signal weights cannot all be zero'')])"

definition page_facts :: "ReconciliationFacts \<Rightarrow> bool \<Rightarrow> (CoordinationError + unit) list" where
  "page_facts f observation =
     [fail_if (rf_anonymous_other_submission_access f = Some Open)
        (rec_invalid ''anonymous access to other submissions must remain closed''),
      (case rf_challenge_page f of
         None \<Rightarrow> Ok ()
       | Some page \<Rightarrow>
           fail_if ((cp_share_route_status page = EvidenceAvailability.Present)
               \<noteq> (case cp_share_route page of None \<Rightarrow> False | Some r \<Rightarrow> \<not> is_blank r))
             (rec_invalid ''share route and its evidence availability must agree''))]
     @ (if observation then
         [fail_if (rf_rescore_status f \<in> set [Some BundleRescoreStatus.Pending, Some BundleRescoreStatus.Failed])
            (rec_invalid ''a bundle awaiting rescore cannot be a confirmed observation''),
          fail_if (rf_trace_evidence f \<in> set [Some EvidenceAvailability.Pending,
               Some EvidenceAvailability.Unavailable])
            (rec_invalid ''an observation without execution trace must remain unknown'')]
        else [])"

definition ReconciliationFacts_validate :: "ReconciliationFacts \<Rightarrow> bool \<Rightarrow> CoordinationError + unit" where
  "ReconciliationFacts_validate f observation = checks
     (score_facts f @ penalty_facts f @ ownership_facts f observation @ anti_cheat_facts f
      @ page_facts f observation)"

definition or_some :: "'a option \<Rightarrow> 'a option \<Rightarrow> 'a option" where
  "or_some new old = (case new of None \<Rightarrow> old | Some _ \<Rightarrow> new)"

definition merge_into :: "ReconciliationFacts \<Rightarrow> ReconciliationFacts \<Rightarrow> ReconciliationFacts" where
  "merge_into f target =
     \<lparr> rf_raw_score = or_some (rf_raw_score f) (rf_raw_score target),
       rf_effective_score = or_some (rf_effective_score f) (rf_effective_score target),
       rf_penalty = or_some (rf_penalty f) (rf_penalty target),
       rf_penalty_applied = (if rf_penalty_applied f then True else rf_penalty_applied target),
       rf_penalty_basis = or_some (rf_penalty_basis f) (rf_penalty_basis target),
       rf_credited_owner = or_some (rf_credited_owner f) (rf_credited_owner target),
       rf_bundle_revision = or_some (rf_bundle_revision f) (rf_bundle_revision target),
       rf_rescore_status = or_some (rf_rescore_status f) (rf_rescore_status target),
       rf_trace_evidence = or_some (rf_trace_evidence f) (rf_trace_evidence target),
       rf_score_evidence = or_some (rf_score_evidence f) (rf_score_evidence target),
       rf_penalty_evidence = or_some (rf_penalty_evidence f) (rf_penalty_evidence target),
       rf_credited_owner_evidence = or_some (rf_credited_owner_evidence f) (rf_credited_owner_evidence target),
       rf_bundle_evidence = or_some (rf_bundle_evidence f) (rf_bundle_evidence target),
       rf_leaderboard_scope = or_some (rf_leaderboard_scope f) (rf_leaderboard_scope target),
       rf_anti_cheat = or_some (rf_anti_cheat f) (rf_anti_cheat target),
       rf_anonymous_other_submission_access =
         or_some (rf_anonymous_other_submission_access f) (rf_anonymous_other_submission_access target),
       rf_challenge_page = or_some (rf_challenge_page f) (rf_challenge_page target) \<rparr>"

section \<open>Items\<close>

datatype PlatformReconcileItemState =
    Observation PlatformObservation
  | UnknownNeedsReconcile string

record PlatformReconcileItem =
  ri_cursor :: ReconciliationCursor
  ri_challenge_id :: string
  ri_attempt_id :: string
  ri_route :: string
  ri_observed_at_ms :: int
  ri_response_sha256 :: string
  ri_facts :: ReconciliationFacts
  ri_state :: PlatformReconcileItemState

definition observation_item ::
  "ReconciliationCursor \<Rightarrow> PlatformObservation \<Rightarrow> ReconciliationFacts \<Rightarrow> PlatformReconcileItem" where
  "observation_item c ob f =
     \<lparr> ri_cursor = c, ri_challenge_id = po_challenge_id ob, ri_attempt_id = po_attempt_id ob,
       ri_route = po_route ob, ri_observed_at_ms = po_observed_at_ms ob,
       ri_response_sha256 = po_response_sha256 ob, ri_facts = f, ri_state = Observation ob \<rparr>"

definition unknown_item ::
  "ReconciliationCursor \<Rightarrow> string \<Rightarrow> string \<Rightarrow> string \<Rightarrow> int \<Rightarrow> string \<Rightarrow> string \<Rightarrow> ReconciliationFacts \<Rightarrow>
   PlatformReconcileItem" where
  "unknown_item c challenge_id attempt_id route observed_at_ms response_sha256 reason f =
     \<lparr> ri_cursor = c, ri_challenge_id = challenge_id, ri_attempt_id = attempt_id, ri_route = route,
       ri_observed_at_ms = observed_at_ms, ri_response_sha256 = response_sha256, ri_facts = f,
       ri_state = UnknownNeedsReconcile reason \<rparr>"

definition PlatformReconcileItem_validate ::
  "PlatformReconcileItem \<Rightarrow> string \<Rightarrow> string \<Rightarrow> int \<Rightarrow> CoordinationError + unit" where
  "PlatformReconcileItem_validate i expected_stream expected_challenge now_ms = checks
     ([ReconciliationCursor_validate (ri_cursor i) expected_stream,
       fail_if (is_blank (ri_challenge_id i) \<or> ri_challenge_id i \<noteq> expected_challenge
           \<or> is_blank (ri_attempt_id i) \<or> is_blank (ri_route i) \<or> ri_observed_at_ms i < 0
           \<or> ri_observed_at_ms i > now_ms \<or> \<not> is_sha256 (ri_response_sha256 i))
         (rec_invalid ''reconciliation item is not bound, non-future, or hash-addressed''),
       ReconciliationFacts_validate (ri_facts i)
         (case ri_state i of Observation _ \<Rightarrow> True | UnknownNeedsReconcile _ \<Rightarrow> False)]
      @ (case ri_state i of
           Observation ob \<Rightarrow>
             [fail_if (po_attempt_id ob \<noteq> ri_attempt_id i \<or> po_challenge_id ob \<noteq> ri_challenge_id i
                  \<or> po_route ob \<noteq> ri_route i \<or> po_observed_at_ms ob \<noteq> ri_observed_at_ms i
                  \<or> po_response_sha256 ob \<noteq> ri_response_sha256 i)
                (rec_invalid ''reconciliation observation metadata disagrees with its envelope''),
              PlatformObservation_validate ob expected_challenge now_ms]
         | UnknownNeedsReconcile reason \<Rightarrow>
             [fail_if (is_blank reason) (rec_invalid ''unknown reconciliation item requires a reason'')]))"

definition dedup_key :: "PlatformReconcileItem \<Rightarrow> string" where
  "dedup_key i = ri_attempt_id i @ '':'' @ ri_response_sha256 i"

text \<open>The derived equality, with \<open>f64\<close> fields compared numerically.\<close>

definition opt_eq :: "('a \<Rightarrow> 'a \<Rightarrow> bool) \<Rightarrow> 'a option \<Rightarrow> 'a option \<Rightarrow> bool" where
  "opt_eq eq a b \<longleftrightarrow>
     (case (a, b) of (None, None) \<Rightarrow> True | (Some x, Some y) \<Rightarrow> eq x y | _ \<Rightarrow> False)"

definition basis_eq :: "PenaltyBasis \<Rightarrow> PenaltyBasis \<Rightarrow> bool" where
  "basis_eq a b \<longleftrightarrow> pb_object a = pb_object b \<and> pb_reason a = pb_reason b
     \<and> f64_eq (pb_rewritten_score a) (pb_rewritten_score b)"

definition signal_eq :: "AntiCheatSignal \<Rightarrow> AntiCheatSignal \<Rightarrow> bool" where
  "signal_eq a b \<longleftrightarrow> as_name a = as_name b \<and> f64_eq (as_weight a) (as_weight b)
     \<and> as_availability a = as_availability b"

definition anti_cheat_eq :: "AntiCheatEvidence \<Rightarrow> AntiCheatEvidence \<Rightarrow> bool" where
  "anti_cheat_eq a b \<longleftrightarrow> ac_mode a = ac_mode b \<and> list_all2 signal_eq (ac_signals a) (ac_signals b)"

definition facts_eq :: "ReconciliationFacts \<Rightarrow> ReconciliationFacts \<Rightarrow> bool" where
  "facts_eq a b \<longleftrightarrow>
     opt_eq f64_eq (rf_raw_score a) (rf_raw_score b)
     \<and> opt_eq f64_eq (rf_effective_score a) (rf_effective_score b)
     \<and> opt_eq f64_eq (rf_penalty a) (rf_penalty b)
     \<and> rf_penalty_applied a = rf_penalty_applied b
     \<and> opt_eq basis_eq (rf_penalty_basis a) (rf_penalty_basis b)
     \<and> rf_credited_owner a = rf_credited_owner b \<and> rf_bundle_revision a = rf_bundle_revision b
     \<and> rf_rescore_status a = rf_rescore_status b \<and> rf_trace_evidence a = rf_trace_evidence b
     \<and> rf_score_evidence a = rf_score_evidence b \<and> rf_penalty_evidence a = rf_penalty_evidence b
     \<and> rf_credited_owner_evidence a = rf_credited_owner_evidence b
     \<and> rf_bundle_evidence a = rf_bundle_evidence b \<and> rf_leaderboard_scope a = rf_leaderboard_scope b
     \<and> opt_eq anti_cheat_eq (rf_anti_cheat a) (rf_anti_cheat b)
     \<and> rf_anonymous_other_submission_access a = rf_anonymous_other_submission_access b
     \<and> rf_challenge_page a = rf_challenge_page b"

definition observation_eq :: "PlatformObservation \<Rightarrow> PlatformObservation \<Rightarrow> bool" where
  "observation_eq a b \<longleftrightarrow>
     a\<lparr> po_harbor_reward := None, po_trace_score := None \<rparr> = b\<lparr> po_harbor_reward := None, po_trace_score := None \<rparr>
     \<and> opt_eq f64_eq (po_harbor_reward a) (po_harbor_reward b)
     \<and> opt_eq f64_eq (po_trace_score a) (po_trace_score b)"

definition item_eq :: "PlatformReconcileItem \<Rightarrow> PlatformReconcileItem \<Rightarrow> bool" where
  "item_eq a b \<longleftrightarrow>
     ri_cursor a = ri_cursor b \<and> ri_challenge_id a = ri_challenge_id b \<and> ri_attempt_id a = ri_attempt_id b
     \<and> ri_route a = ri_route b \<and> ri_observed_at_ms a = ri_observed_at_ms b
     \<and> ri_response_sha256 a = ri_response_sha256 b \<and> facts_eq (ri_facts a) (ri_facts b)
     \<and> (case (ri_state a, ri_state b) of
          (Observation x, Observation y) \<Rightarrow> observation_eq x y
        | (UnknownNeedsReconcile x, UnknownNeedsReconcile y) \<Rightarrow> x = y
        | _ \<Rightarrow> False)"

section \<open>Snapshots\<close>

datatype ReconciledAttemptState = Confirmed | UnknownNeedsReconcile

record ReconciledAttempt =
  ra_challenge_id :: string
  ra_attempt_id :: string
  ra_route :: string
  ra_state :: ReconciledAttemptState
  ra_last_cursor :: ReconciliationCursor
  ra_last_response_sha256 :: string
  ra_last_observed_at_ms :: int
  ra_last_confirmed_observation :: "PlatformObservation option"
  ra_unknown_reason :: "string option"
  ra_facts :: ReconciliationFacts

record PlatformReconciliationSnapshot =
  ps_schema_version :: string
  ps_stream_id :: string
  ps_challenge_id :: string
  ps_cursor :: "ReconciliationCursor option"
  ps_attempts :: "(string \<times> ReconciledAttempt) list"
  ps_seen_items :: "(string \<times> PlatformReconcileItem) list"

definition Snapshot_new :: "string \<Rightarrow> string \<Rightarrow> CoordinationError + PlatformReconciliationSnapshot" where
  "Snapshot_new stream_id challenge_id =
     (if is_blank stream_id \<or> is_blank challenge_id
      then Err (rec_invalid ''reconciliation stream and challenge are required'')
      else Ok \<lparr> ps_schema_version = RECONCILIATION_SCHEMA_VERSION, ps_stream_id = stream_id,
                ps_challenge_id = challenge_id, ps_cursor = None, ps_attempts = [], ps_seen_items = [] \<rparr>)"

definition cursor_ahead :: "nat \<Rightarrow> ReconciliationCursor option \<Rightarrow> bool" where
  "cursor_ahead n c \<longleftrightarrow> (case c of None \<Rightarrow> False | Some x \<Rightarrow> n > cu_position x)"

definition attempt_checks ::
  "PlatformReconciliationSnapshot \<Rightarrow> string \<times> ReconciledAttempt \<Rightarrow> (CoordinationError + unit) list" where
  "attempt_checks s = (\<lambda>(attempt_id, a).
     [fail_if (attempt_id \<noteq> ra_attempt_id a \<or> ra_challenge_id a \<noteq> ps_challenge_id s
         \<or> is_blank (ra_attempt_id a) \<or> \<not> is_sha256 (ra_last_response_sha256 a))
        (rec_invalid ''reconciliation snapshot contains an unbound attempt fact''),
      ReconciliationCursor_validate (ra_last_cursor a) (ps_stream_id s),
      ReconciliationFacts_validate (ra_facts a) (ra_state a = ReconciledAttemptState.Confirmed),
      fail_if (cursor_ahead (cu_position (ra_last_cursor a)) (ps_cursor s))
        (rec_invalid ''attempt cursor is ahead of snapshot cursor''),
      (case ra_state a of
         ReconciledAttemptState.Confirmed \<Rightarrow>
           fail_if (ra_last_confirmed_observation a = None \<or> ra_unknown_reason a \<noteq> None)
             (rec_invalid ''confirmed attempt fact has inconsistent evidence'')
       | ReconciledAttemptState.UnknownNeedsReconcile \<Rightarrow>
           fail_if (none_or_empty (ra_unknown_reason a))
             (rec_invalid ''unknown attempt fact has no reason''))])"

definition seen_checks ::
  "PlatformReconciliationSnapshot \<Rightarrow> string \<times> PlatformReconcileItem \<Rightarrow> (CoordinationError + unit) list" where
  "seen_checks s = (\<lambda>(key, i).
     [fail_if (key \<noteq> dedup_key i) (rec_invalid ''reconciliation dedup key is malformed''),
      PlatformReconcileItem_validate i (ps_stream_id s) (ps_challenge_id s) i64_max,
      fail_if (cursor_ahead (cu_position (ri_cursor i)) (ps_cursor s))
        (rec_invalid ''dedup cursor is ahead of snapshot cursor'')])"

definition Snapshot_validate :: "PlatformReconciliationSnapshot \<Rightarrow> CoordinationError + unit" where
  "Snapshot_validate s = checks
     ([fail_if (ps_schema_version s \<noteq> RECONCILIATION_SCHEMA_VERSION \<or> is_blank (ps_stream_id s)
           \<or> is_blank (ps_challenge_id s))
         (rec_invalid ''invalid reconciliation snapshot header''),
       (case ps_cursor s of None \<Rightarrow> Ok () | Some c \<Rightarrow> ReconciliationCursor_validate c (ps_stream_id s))]
      @ concat (map (attempt_checks s) (ps_attempts s))
      @ concat (map (seen_checks s) (ps_seen_items s)))"

datatype ReconciliationApplyResult = Applied | Duplicate | Stale

definition fresh_attempt :: "PlatformReconcileItem \<Rightarrow> ReconciledAttemptState \<Rightarrow> ReconciledAttempt" where
  "fresh_attempt i st =
     \<lparr> ra_challenge_id = ri_challenge_id i, ra_attempt_id = ri_attempt_id i, ra_route = ri_route i,
       ra_state = st, ra_last_cursor = ri_cursor i, ra_last_response_sha256 = ri_response_sha256 i,
       ra_last_observed_at_ms = ri_observed_at_ms i, ra_last_confirmed_observation = None,
       ra_unknown_reason = None, ra_facts = ri_facts i \<rparr>"

definition item_parts ::
  "PlatformReconcileItem \<Rightarrow> ReconciledAttemptState \<times> PlatformObservation option \<times> string option" where
  "item_parts i =
     (case ri_state i of
        Observation ob \<Rightarrow> (ReconciledAttemptState.Confirmed, Some ob, None)
      | PlatformReconcileItemState.UnknownNeedsReconcile reason \<Rightarrow>
          (ReconciledAttemptState.UnknownNeedsReconcile, None, Some reason))"

definition updated_attempt :: "PlatformReconcileItem \<Rightarrow> ReconciledAttempt \<Rightarrow> ReconciledAttempt" where
  "updated_attempt i a =
     (case item_parts i of (st, observation, unknown_reason) \<Rightarrow>
        a\<lparr> ra_state := st, ra_last_cursor := ri_cursor i, ra_last_response_sha256 := ri_response_sha256 i,
           ra_last_observed_at_ms := ri_observed_at_ms i, ra_unknown_reason := unknown_reason,
           ra_facts := merge_into (ri_facts i) (ra_facts a),
           ra_last_confirmed_observation :=
             (case observation of None \<Rightarrow> ra_last_confirmed_observation a | Some ob \<Rightarrow> Some ob) \<rparr>)"

definition apply_next ::
  "PlatformReconciliationSnapshot \<Rightarrow> PlatformReconcileItem \<Rightarrow> ReconciledAttempt \<Rightarrow>
   PlatformReconciliationSnapshot" where
  "apply_next s i a =
     s\<lparr> ps_attempts := btree_insert (ri_attempt_id i) (updated_attempt i a) (ps_attempts s),
        ps_cursor := Some (ri_cursor i),
        ps_seen_items := btree_insert (dedup_key i) i (ps_seen_items s) \<rparr>"

definition apply_item ::
  "PlatformReconciliationSnapshot \<Rightarrow> PlatformReconcileItem \<Rightarrow> int \<Rightarrow>
   (CoordinationError + ReconciliationApplyResult) \<times> PlatformReconciliationSnapshot" where
  "apply_item s i now_ms =
     (case checks [Snapshot_validate s,
             PlatformReconcileItem_validate i (ps_stream_id s) (ps_challenge_id s) now_ms] of
        Inl e \<Rightarrow> (Err e, s)
      | Inr _ \<Rightarrow>
     (case map_of (ps_seen_items s) (dedup_key i) of
        Some previous_item \<Rightarrow>
          if item_eq previous_item i then (Ok Duplicate, s)
          else (Err (rec_invalid ''same attempt/response was replayed with conflicting cursor or facts''), s)
      | None \<Rightarrow>
          if (case ps_cursor s of None \<Rightarrow> False | Some c \<Rightarrow> cu_position (ri_cursor i) < cu_position c)
          then (Ok Stale, s)
          else if (case ps_cursor s of None \<Rightarrow> False | Some c \<Rightarrow> cu_position (ri_cursor i) = cu_position c)
          then (Err (rec_invalid ''different reconciliation items share one cursor position''), s)
          else
            let a = (case map_of (ps_attempts s) (ri_attempt_id i) of
                       Some a \<Rightarrow> a | None \<Rightarrow> fresh_attempt i (fst (item_parts i)))
            in if ra_challenge_id a \<noteq> ri_challenge_id i \<or> ra_route a \<noteq> ri_route i
               then (Err (rec_invalid ''attempt identity is bound to conflicting challenge or route''), s)
               else if ri_observed_at_ms i < ra_last_observed_at_ms a
               then (Err (rec_invalid ''new cursor carries an older attempt observation''), s)
               else (case Snapshot_validate (apply_next s i a) of
                       Inl e \<Rightarrow> (Err e, s)
                     | Inr _ \<Rightarrow> (Ok Applied, apply_next s i a))))"

definition unknown_needs_reconcile :: "PlatformReconciliationSnapshot \<Rightarrow> ReconciledAttempt list" where
  "unknown_needs_reconcile s =
     filter (\<lambda>a. ra_state a = ReconciledAttemptState.UnknownNeedsReconcile) (map snd (ps_attempts s))"

section \<open>Local submissions\<close>

datatype LocalSubmissionState = Submitted | PendingParse | Scored | Backfilled | Stuck | Failed
  | UnknownNeedsReconcile

record LocalSubmissionRecord =
  ls_submission_id :: string
  ls_attempt_id :: "string option"
  ls_state :: LocalSubmissionState
  ls_created_at_ms :: int
  ls_quota_reserved :: bool
  ls_reconciled_from :: "LocalSubmissionState option"
  ls_reconciled_at_ms :: "int option"
  ls_reconcile_reason :: "string option"

definition counts_as_in_flight :: "LocalSubmissionRecord \<Rightarrow> bool" where
  "counts_as_in_flight r \<longleftrightarrow>
     ls_state r \<in> set [LocalSubmissionState.Submitted, LocalSubmissionState.PendingParse]
     \<and> (case ls_attempt_id r of None \<Rightarrow> False | Some i \<Rightarrow> \<not> is_blank i)"

definition needs_reconcile :: "LocalSubmissionRecord \<Rightarrow> bool" where
  "needs_reconcile r \<longleftrightarrow> ls_state r = LocalSubmissionState.UnknownNeedsReconcile"

record LocalReconciliationDelta =
  ld_moved_submission_ids :: "string list"
  ld_released_reservation_ids :: "string list"

definition reconcile_reason :: string where
  "reconcile_reason = ''local transport produced no platform attempt id; platform outcome remains unknown''"

definition local_malformed :: "int \<Rightarrow> string \<times> LocalSubmissionRecord \<Rightarrow> bool" where
  "local_malformed now_ms = (\<lambda>(key, r).
     key \<noteq> ls_submission_id r \<or> is_blank (ls_submission_id r) \<or> ls_created_at_ms r < 0
     \<or> ls_created_at_ms r > now_ms \<or> blank_if_present (ls_attempt_id r))"

text \<open>One round of the loop: the record afterwards, whether it moved, whether its reservation is released.\<close>

definition reconcile_one ::
  "int \<Rightarrow> int \<Rightarrow> LocalSubmissionRecord \<Rightarrow> LocalSubmissionRecord \<times> bool \<times> bool" where
  "reconcile_one now_ms grace_ms r =
     (if ls_state r = LocalSubmissionState.UnknownNeedsReconcile \<and> ls_quota_reserved r
      then (r\<lparr> ls_quota_reserved := False \<rparr>, False, True)
      else
        let ambiguous = ls_state r \<in> set [LocalSubmissionState.Submitted, LocalSubmissionState.PendingParse]
              \<and> ls_attempt_id r = None
        in if \<not> ambiguous \<or> now_ms - ls_created_at_ms r < grace_ms then (r, False, False)
           else (r\<lparr> ls_state := LocalSubmissionState.UnknownNeedsReconcile,
                    ls_reconciled_from := Some (ls_state r), ls_reconciled_at_ms := Some now_ms,
                    ls_reconcile_reason := Some reconcile_reason, ls_quota_reserved := False \<rparr>,
                 True, ls_quota_reserved r))"

definition reconcile_ambiguous_local_submissions ::
  "(string \<times> LocalSubmissionRecord) list \<Rightarrow> int \<Rightarrow> int \<Rightarrow>
   (CoordinationError + LocalReconciliationDelta) \<times> (string \<times> LocalSubmissionRecord) list" where
  "reconcile_ambiguous_local_submissions records now_ms grace_ms =
     (if now_ms < 0 \<or> grace_ms < 0
      then (Err (rec_invalid ''reconciliation time and grace must be non-negative''), records)
      else if list_ex (local_malformed now_ms) records
      then (Err (rec_invalid ''local submission record is malformed or future-dated''), records)
      else
        let one = (\<lambda>(_, r). reconcile_one now_ms grace_ms r)
        in (Ok \<lparr> ld_moved_submission_ids =
                   map (\<lambda>e. ls_submission_id (snd e)) (filter (\<lambda>e. fst (snd (one e))) records),
                 ld_released_reservation_ids =
                   map (\<lambda>e. ls_submission_id (snd e)) (filter (\<lambda>e. snd (snd (one e))) records) \<rparr>,
            map (\<lambda>e. (fst e, fst (one e))) records))"

section \<open>Lemmas\<close>

lemma opt_eq_refl: "opt_eq eq a a \<longleftrightarrow> (\<forall>x. a = Some x \<longrightarrow> eq x x)"
  by (cases a) (auto simp: opt_eq_def)

lemma f64_eq_finite_refl: "is_finite x \<Longrightarrow> f64_eq x x"
  by (simp add: f64_eq_finite)

lemma f64_eq_self: "f64_eq a b \<Longrightarrow> f64_eq a a"
  by (auto simp: f64_eq_def f64_le_def)

lemma anti_cheat_signals_finite:
  "anti_cheat_signals names gs = Ok () \<Longrightarrow> \<forall>g \<in> set gs. is_finite (as_weight g)"
  by (induction names gs rule: anti_cheat_signals.induct) (auto split: if_splits)

text \<open>Validated facts contain no NaN, so they equal themselves under the derived equality.\<close>

lemma facts_valid_refl:
  assumes "ReconciliationFacts_validate f ob = Ok ()"
  shows "facts_eq f f"
proof -
  have all: "list_all (\<lambda>c. c = Ok ()) (score_facts f)" "list_all (\<lambda>c. c = Ok ()) (penalty_facts f)"
    "list_all (\<lambda>c. c = Ok ()) (anti_cheat_facts f)"
    using assms unfolding ReconciliationFacts_validate_def by auto
  have scores: "\<And>x. rf_raw_score f = Some x \<Longrightarrow> is_finite x" "\<And>x. rf_effective_score f = Some x \<Longrightarrow> is_finite x"
    "\<And>x. rf_penalty f = Some x \<Longrightarrow> is_finite x"
    using all(1) by (auto simp: score_facts_def)
  have basis: "basis_eq b b" if "rf_penalty_basis f = Some b" for b
    using all(2) that f64_eq_self
    by (auto simp: penalty_facts_def basis_eq_def split: if_splits option.splits)
  have "anti_cheat_eq ac ac" if "rf_anti_cheat f = Some ac" for ac
    using all(3) that anti_cheat_signals_finite [of "[]" "ac_signals ac"] f64_eq_finite_refl
    by (auto simp: anti_cheat_facts_def anti_cheat_eq_def signal_eq_def list_all2_same)
  with scores basis show ?thesis
    by (auto simp: facts_eq_def opt_eq_refl f64_eq_finite_refl)
qed

lemma item_validD:
  assumes "PlatformReconcileItem_validate i st ch now = Ok ()"
  shows "ri_challenge_id i = ch" "0 \<le> ri_observed_at_ms i" "ri_observed_at_ms i \<le> now"
    "ReconciliationFacts_validate (ri_facts i)
       (case ri_state i of Observation _ \<Rightarrow> True | PlatformReconcileItemState.UnknownNeedsReconcile _ \<Rightarrow> False) = Ok ()"
    "\<And>ob. ri_state i = Observation ob \<Longrightarrow> PlatformObservation_validate ob ch now = Ok ()
       \<and> po_attempt_id ob = ri_attempt_id i"
  using assms unfolding PlatformReconcileItem_validate_def by auto

lemma item_valid_refl:
  assumes "PlatformReconcileItem_validate i st ch now = Ok ()"
  shows "item_eq i i"
proof -
  note D = item_validD [OF assms]
  have "observation_eq ob ob" if "ri_state i = Observation ob" for ob
    using D(5) [OF that] unfolding PlatformObservation_validate_ok
    by (auto simp: observation_eq_def opt_eq_refl f64_in_finite intro: f64_eq_finite_refl)
  with facts_valid_refl [OF D(4)] show ?thesis
    by (cases "ri_state i") (auto simp: item_eq_def)
qed

text \<open>An item stays valid as time passes, and for every clock not before its observation.\<close>

lemma item_valid_at:
  assumes "PlatformReconcileItem_validate i st ch now = Ok ()" and "ri_observed_at_ms i \<le> t"
  shows "PlatformReconcileItem_validate i st ch t = Ok ()"
proof (cases "ri_state i")
  case (Observation ob)
  have "po_observed_at_ms ob = ri_observed_at_ms i" "PlatformObservation_validate ob ch now = Ok ()"
    using assms(1) Observation unfolding PlatformReconcileItem_validate_def by auto
  then have "PlatformObservation_validate ob ch t = Ok ()"
    using assms(2) unfolding PlatformObservation_validate_ok by auto
  with assms Observation show ?thesis unfolding PlatformReconcileItem_validate_def by auto
next
  case (UnknownNeedsReconcile reason)
  with assms show ?thesis unfolding PlatformReconcileItem_validate_def by auto
qed

text \<open>The outcomes of \<open>apply\<close>.\<close>

definition target_attempt :: "PlatformReconciliationSnapshot \<Rightarrow> PlatformReconcileItem \<Rightarrow> ReconciledAttempt" where
  "target_attempt s i =
     (case map_of (ps_attempts s) (ri_attempt_id i) of
        Some a \<Rightarrow> a | None \<Rightarrow> fresh_attempt i (fst (item_parts i)))"

lemma apply_guard:
  "apply_item s i now =
     (if Snapshot_validate s = Ok () \<and> PlatformReconcileItem_validate i (ps_stream_id s) (ps_challenge_id s) now = Ok ()
      then (case map_of (ps_seen_items s) (dedup_key i) of
        Some p \<Rightarrow>
          if item_eq p i then (Ok Duplicate, s)
          else (Err (rec_invalid ''same attempt/response was replayed with conflicting cursor or facts''), s)
      | None \<Rightarrow>
          if (case ps_cursor s of None \<Rightarrow> False | Some c \<Rightarrow> cu_position (ri_cursor i) < cu_position c)
          then (Ok Stale, s)
          else if (case ps_cursor s of None \<Rightarrow> False | Some c \<Rightarrow> cu_position (ri_cursor i) = cu_position c)
          then (Err (rec_invalid ''different reconciliation items share one cursor position''), s)
          else if ra_challenge_id (target_attempt s i) \<noteq> ri_challenge_id i \<or> ra_route (target_attempt s i) \<noteq> ri_route i
          then (Err (rec_invalid ''attempt identity is bound to conflicting challenge or route''), s)
          else if ri_observed_at_ms i < ra_last_observed_at_ms (target_attempt s i)
          then (Err (rec_invalid ''new cursor carries an older attempt observation''), s)
          else (case Snapshot_validate (apply_next s i (target_attempt s i)) of
                  Inl e \<Rightarrow> (Err e, s)
                | Inr _ \<Rightarrow> (Ok Applied, apply_next s i (target_attempt s i))))
      else (Err (case checks [Snapshot_validate s,
             PlatformReconcileItem_validate i (ps_stream_id s) (ps_challenge_id s) now] of
               Inl e \<Rightarrow> e | Inr _ \<Rightarrow> rec_invalid []), s))"
proof (cases "checks [Snapshot_validate s,
    PlatformReconcileItem_validate i (ps_stream_id s) (ps_challenge_id s) now]")
  case (Inl e)
  then have "\<not> (Snapshot_validate s = Ok ()
      \<and> PlatformReconcileItem_validate i (ps_stream_id s) (ps_challenge_id s) now = Ok ())"
    using checks_ok [of "[Snapshot_validate s,
      PlatformReconcileItem_validate i (ps_stream_id s) (ps_challenge_id s) now]" "()"] by auto
  then show ?thesis unfolding apply_item_def Inl by auto
next
  case (Inr u)
  then have "Snapshot_validate s = Ok ()
      \<and> PlatformReconcileItem_validate i (ps_stream_id s) (ps_challenge_id s) now = Ok ()"
    by simp
  then show ?thesis unfolding apply_item_def Inr target_attempt_def Let_def by simp
qed

lemma apply_cases:
  obtains (rejected) e where "apply_item s i now = (Err e, s)"
  | (duplicate) p where "apply_item s i now = (Ok Duplicate, s)"
      "map_of (ps_seen_items s) (dedup_key i) = Some p" "item_eq p i"
  | (stale) c where "apply_item s i now = (Ok Stale, s)" "ps_cursor s = Some c"
      "cu_position (ri_cursor i) < cu_position c"
  | (applied) "apply_item s i now = (Ok Applied, apply_next s i (target_attempt s i))"
      "Snapshot_validate s = Ok ()"
      "PlatformReconcileItem_validate i (ps_stream_id s) (ps_challenge_id s) now = Ok ()"
      "map_of (ps_seen_items s) (dedup_key i) = None"
      "\<And>c. ps_cursor s = Some c \<Longrightarrow> cu_position c < cu_position (ri_cursor i)"
      "ra_challenge_id (target_attempt s i) = ri_challenge_id i" "ra_route (target_attempt s i) = ri_route i"
      "ra_last_observed_at_ms (target_attempt s i) \<le> ri_observed_at_ms i"
      "Snapshot_validate (apply_next s i (target_attempt s i)) = Ok ()"
proof -
  let ?t = "target_attempt s i"
  consider (invalid) "\<not> (Snapshot_validate s = Ok ()
      \<and> PlatformReconcileItem_validate i (ps_stream_id s) (ps_challenge_id s) now = Ok ())"
    | (seen) p where "Snapshot_validate s = Ok ()" "map_of (ps_seen_items s) (dedup_key i) = Some p"
      "PlatformReconcileItem_validate i (ps_stream_id s) (ps_challenge_id s) now = Ok ()"
    | (new) "Snapshot_validate s = Ok ()" "map_of (ps_seen_items s) (dedup_key i) = None"
      "PlatformReconcileItem_validate i (ps_stream_id s) (ps_challenge_id s) now = Ok ()"
    by (cases "map_of (ps_seen_items s) (dedup_key i)") auto
  then show ?thesis
  proof cases
    case invalid
    then show ?thesis using rejected by (simp only: apply_guard if_False)
  next
    case seen
    then show ?thesis using rejected duplicate by (cases "item_eq p i") (simp_all add: apply_guard)
  next
    case new
    consider (behind) c where "ps_cursor s = Some c" "cu_position (ri_cursor i) < cu_position c"
      | (same) c where "ps_cursor s = Some c" "cu_position (ri_cursor i) = cu_position c"
      | (ahead) "\<And>c. ps_cursor s = Some c \<Longrightarrow> cu_position c < cu_position (ri_cursor i)"
      by (cases "ps_cursor s") (auto, metis linorder_neqE_nat)
    then show ?thesis
    proof cases
      case behind
      with new show ?thesis using stale by (simp add: apply_guard)
    next
      case same
      with new show ?thesis using rejected by (simp add: apply_guard)
    next
      case ahead
      then have ok: "\<not> (case ps_cursor s of None \<Rightarrow> False | Some c \<Rightarrow> cu_position (ri_cursor i) < cu_position c)"
        "\<not> (case ps_cursor s of None \<Rightarrow> False | Some c \<Rightarrow> cu_position (ri_cursor i) = cu_position c)"
        by (auto split: option.splits dest: less_asym)
      note eq = apply_guard [of s i now, simplified new ok option.case simp_thms if_True if_False]
      show ?thesis
      proof (cases "ra_challenge_id ?t \<noteq> ri_challenge_id i \<or> ra_route ?t \<noteq> ri_route i
          \<or> ri_observed_at_ms i < ra_last_observed_at_ms ?t")
        case True
        then show ?thesis using rejected eq by (auto split: if_splits)
      next
        case False
        then show ?thesis
          using rejected applied [OF _ new(1,3,2) ahead] eq
          by (cases "Snapshot_validate (apply_next s i ?t)") auto
      qed
    qed
  qed
qed

lemma apply_next_sel [simp]:
  "ps_stream_id (apply_next s i a) = ps_stream_id s" "ps_challenge_id (apply_next s i a) = ps_challenge_id s"
  "ps_cursor (apply_next s i a) = Some (ri_cursor i)"
  "ps_attempts (apply_next s i a) = btree_insert (ri_attempt_id i) (updated_attempt i a) (ps_attempts s)"
  "ps_seen_items (apply_next s i a) = btree_insert (dedup_key i) i (ps_seen_items s)"
  by (simp_all add: apply_next_def)

definition apply_to :: "PlatformReconciliationSnapshot \<Rightarrow> PlatformReconcileItem \<times> int \<Rightarrow> PlatformReconciliationSnapshot" where
  "apply_to s q = snd (apply_item s (fst q) (snd q))"

text \<open>What a sequence of pages keeps: validity, the binding, and every item ever applied.\<close>

lemma apply_to_keeps:
  assumes "Snapshot_validate s = Ok ()"
  shows "Snapshot_validate (apply_to s q) = Ok () \<and> ps_stream_id (apply_to s q) = ps_stream_id s
    \<and> ps_challenge_id (apply_to s q) = ps_challenge_id s
    \<and> (\<forall>k x. map_of (ps_seen_items s) k = Some x \<longrightarrow> map_of (ps_seen_items (apply_to s q)) k = Some x)"
  using assms
  by (cases rule: apply_cases [of s "fst q" "snd q"]) (auto simp: apply_to_def)

lemma apply_all_keeps:
  assumes "Snapshot_validate s = Ok ()"
  shows "Snapshot_validate (foldl apply_to s qs) = Ok () \<and> ps_stream_id (foldl apply_to s qs) = ps_stream_id s
    \<and> ps_challenge_id (foldl apply_to s qs) = ps_challenge_id s
    \<and> (\<forall>k x. map_of (ps_seen_items s) k = Some x \<longrightarrow> map_of (ps_seen_items (foldl apply_to s qs)) k = Some x)"
  using assms
proof (induction qs arbitrary: s)
  case Nil
  then show ?case by simp
next
  case (Cons q qs)
  from apply_to_keeps [OF Cons.prems, of q] Cons.IH [of "apply_to s q"] show ?case by auto
qed

lemma attempt_checks_facts:
  assumes "Snapshot_validate s = Ok ()" and "map_of (ps_attempts s) k = Some a"
  shows "list_all (\<lambda>c. c = Ok ()) (attempt_checks s (k, a))"
proof -
  have "list_all (\<lambda>c. c = Ok ()) (concat (map (attempt_checks s) (ps_attempts s)))"
    using assms(1) unfolding Snapshot_validate_def by simp
  then show ?thesis
    using map_of_SomeD [OF assms(2)] by (fastforce simp: list_all_iff)
qed

lemma valid_snapshot_penalty:
  assumes "Snapshot_validate s = Ok ()" and "map_of (ps_attempts s) k = Some a"
    and "rf_penalty_applied (ra_facts a)"
  shows "\<exists>raw. rf_raw_score (ra_facts a) = Some raw
    \<and> opt_f64_eq (rf_effective_score (ra_facts a)) (Some (f64_sub raw (Fin 1)))
    \<and> opt_f64_eq (rf_penalty (ra_facts a)) (Some (Fin (-1)))"
proof -
  have "ReconciliationFacts_validate (ra_facts a) (ra_state a = ReconciledAttemptState.Confirmed) = Ok ()"
    using attempt_checks_facts [OF assms(1,2)] by (simp add: attempt_checks_def)
  then have "list_all (\<lambda>c. c = Ok ()) (penalty_facts (ra_facts a))"
    unfolding ReconciliationFacts_validate_def by simp
  then show ?thesis
    using assms(3) by (auto simp: penalty_facts_def split: option.splits)
qed


text \<open>
  A recorded fact is either as it was or one that an applied page item stated; no item takes it away.
\<close>

definition field_kept ::
  "(ReconciliationFacts \<Rightarrow> 'a option) \<Rightarrow> ReconciliationFacts list \<Rightarrow> ReconciliationFacts \<Rightarrow> ReconciliationFacts \<Rightarrow> bool" where
  "field_kept g stated old new \<longleftrightarrow> g new = g old \<or> (\<exists>f \<in> set stated. g f \<noteq> None \<and> g new = g f)"

definition facts_kept :: "ReconciliationFacts list \<Rightarrow> ReconciliationFacts \<Rightarrow> ReconciliationFacts \<Rightarrow> bool" where
  "facts_kept stated old new \<longleftrightarrow>
     field_kept rf_raw_score stated old new \<and> field_kept rf_effective_score stated old new
     \<and> field_kept rf_penalty stated old new \<and> field_kept rf_penalty_basis stated old new
     \<and> field_kept rf_credited_owner stated old new \<and> field_kept rf_bundle_revision stated old new
     \<and> field_kept rf_rescore_status stated old new \<and> field_kept rf_trace_evidence stated old new
     \<and> field_kept rf_score_evidence stated old new \<and> field_kept rf_penalty_evidence stated old new
     \<and> field_kept rf_credited_owner_evidence stated old new \<and> field_kept rf_bundle_evidence stated old new
     \<and> field_kept rf_leaderboard_scope stated old new \<and> field_kept rf_anti_cheat stated old new
     \<and> field_kept rf_anonymous_other_submission_access stated old new \<and> field_kept rf_challenge_page stated old new
     \<and> (rf_penalty_applied old \<longrightarrow> rf_penalty_applied new)"


lemma field_kept_refl [simp]: "field_kept g stated old old"
  by (simp add: field_kept_def)


lemma facts_kept_refl [simp]: "facts_kept stated old old"
  by (simp add: facts_kept_def)






lemma reconcile_one_twice:
  "reconcile_one now g r = (r', m, q) \<Longrightarrow> reconcile_one now g r' = (r', False, False)"
  by (auto simp: reconcile_one_def Let_def split: if_splits)

lemma reconcile_one_keeps:
  "ls_attempt_id (fst (reconcile_one now g r)) = ls_attempt_id r"
  "ls_attempt_id r \<noteq> None \<Longrightarrow> ls_state (fst (reconcile_one now g r)) = ls_state r"
  "counts_as_in_flight (fst (reconcile_one now g r)) = counts_as_in_flight r"
  "ls_submission_id (fst (reconcile_one now g r)) = ls_submission_id r"
  "ls_created_at_ms (fst (reconcile_one now g r)) = ls_created_at_ms r"
  "snd (snd (reconcile_one now g r)) \<Longrightarrow> ls_quota_reserved r"
  by (auto simp: reconcile_one_def Let_def counts_as_in_flight_def split: if_splits)

section \<open>Properties\<close>

text \<open>
  C32. Applying a page item is atomic and monotone.  If the result is an error, a duplicate or a stale
  item, the snapshot is unchanged.  If it is applied, the new snapshot is valid, its cursor is the
  item's and strictly ahead of the old one, the item is recorded under its deduplication key, the
  item's attempt is confirmed exactly when the item is an observation, and no other attempt changes.
\<close>

theorem apply_is_atomic_and_monotone:
  assumes "apply_item s i now = (out, s')"
  shows "(out \<noteq> Ok Applied \<longrightarrow> s' = s)
    \<and> (out = Ok Applied \<longrightarrow>
        Snapshot_validate s' = Ok () \<and> ps_cursor s' = Some (ri_cursor i)
        \<and> (\<forall>c. ps_cursor s = Some c \<longrightarrow> cu_position c < cu_position (ri_cursor i))
        \<and> map_of (ps_seen_items s') (dedup_key i) = Some i
        \<and> (\<exists>a. map_of (ps_attempts s') (ri_attempt_id i) = Some a
             \<and> (ra_state a = ReconciledAttemptState.Confirmed \<longleftrightarrow> (\<exists>ob. ri_state i = Observation ob))
             \<and> (\<forall>ob. ri_state i = Observation ob \<longrightarrow> ra_last_confirmed_observation a = Some ob))
        \<and> (\<forall>k. k \<noteq> ri_attempt_id i \<longrightarrow> map_of (ps_attempts s') k = map_of (ps_attempts s) k))"
proof (cases rule: apply_cases [of s i now])
  case applied
  have "(ra_state (updated_attempt i a) = ReconciledAttemptState.Confirmed \<longleftrightarrow> (\<exists>ob. ri_state i = Observation ob))
      \<and> (\<forall>ob. ri_state i = Observation ob \<longrightarrow> ra_last_confirmed_observation (updated_attempt i a) = Some ob)" for a
    by (cases "ri_state i") (simp_all add: updated_attempt_def item_parts_def)
  then show ?thesis using assms applied by auto
qed (use assms in auto)

definition no_facts :: ReconciliationFacts where
  "no_facts =
     \<lparr> rf_raw_score = None, rf_effective_score = None, rf_penalty = None, rf_penalty_applied = False,
       rf_penalty_basis = None, rf_credited_owner = None, rf_bundle_revision = None,
       rf_rescore_status = None, rf_trace_evidence = None, rf_score_evidence = None,
       rf_penalty_evidence = None, rf_credited_owner_evidence = None, rf_bundle_evidence = None,
       rf_leaderboard_scope = None, rf_anti_cheat = None, rf_anonymous_other_submission_access = None,
       rf_challenge_page = None \<rparr>"

definition sample_snapshot :: PlatformReconciliationSnapshot where
  "sample_snapshot =
     \<lparr> ps_schema_version = RECONCILIATION_SCHEMA_VERSION, ps_stream_id = ''feed'', ps_challenge_id = ''c1'',
       ps_cursor = None, ps_attempts = [], ps_seen_items = [] \<rparr>"

definition penalised :: PlatformReconcileItem where
  "penalised = observation_item \<lparr> cu_stream_id = ''feed'', cu_position = 1 \<rparr> sample_observation
     (no_facts\<lparr> rf_raw_score := Some (Fin 80), rf_effective_score := Some (Fin 79), rf_penalty := Some (Fin (-1)),
        rf_penalty_applied := True, rf_penalty_basis := Some \<lparr> pb_object = ''o'', pb_reason = ''r'',
          pb_rewritten_score = Fin 79 \<rparr>,
        rf_score_evidence := Some EvidenceAvailability.Present,
        rf_penalty_evidence := Some EvidenceAvailability.Present \<rparr>)"

definition sample_next :: PlatformReconciliationSnapshot where
  "sample_next = snd (apply_item sample_snapshot penalised 10)"

lemma penalised_sel:
  "ri_cursor penalised = \<lparr> cu_stream_id = ''feed'', cu_position = 1 \<rparr>" "ri_challenge_id penalised = ''c1''"
  "ri_attempt_id penalised = ''a1''" "ri_route penalised = ''leaderboard''" "ri_observed_at_ms penalised = 5"
  "ri_response_sha256 penalised = digest CHR ''a''" "ri_state penalised = Observation sample_observation"
  by (simp_all add: penalised_def observation_item_def sample_observation_def)

lemma is_sha256_iff [simp]: "is_sha256 v \<longleftrightarrow> is_lower_hex 64 v"
  by (auto simp: is_sha256_def is_lower_hex_def is_hex_def)

lemma merge_into_same: "merge_into f f = f"
  by (simp add: merge_into_def or_some_def split: option.splits)

lemma penalised_facts: "ReconciliationFacts_validate (ri_facts penalised) True = Ok ()"
proof -
  have "f64_sub (Fin 80) (Fin 1) = Fin 79" by code_simp
  then show ?thesis
    by (simp add: ReconciliationFacts_validate_def score_facts_def penalty_facts_def ownership_facts_def
          anti_cheat_facts_def page_facts_def penalised_def observation_item_def no_facts_def
          require_present_if_def blank_if_present_def)
qed

lemma penalised_valid: "PlatformReconcileItem_validate penalised ''feed'' ''c1'' i64_max = Ok ()"
proof -
  have "PlatformObservation_validate sample_observation ''c1'' i64_max = Ok ()"
    unfolding PlatformObservation_validate_ok by (simp add: sample_observation_def i64_max_def)
  then show ?thesis
    using penalised_facts
    by (simp add: PlatformReconcileItem_validate_def penalised_sel ReconciliationCursor_validate_def i64_max_def)
       (simp add: sample_observation_def)
qed

lemma sample_applied: "apply_item sample_snapshot penalised 10 = (Ok Applied, sample_next)"
proof -
  let ?t = "target_attempt sample_snapshot penalised"
  have "Snapshot_validate sample_snapshot = Ok ()"
    by (simp add: Snapshot_validate_def sample_snapshot_def)
  moreover have "PlatformReconcileItem_validate penalised ''feed'' ''c1'' 10 = Ok ()"
    by (rule item_valid_at [OF penalised_valid]) (simp add: penalised_sel)
  moreover have "Snapshot_validate (apply_next sample_snapshot penalised ?t) = Ok ()"
    using penalised_valid penalised_facts
    by (simp add: Snapshot_validate_def apply_next_def attempt_checks_def seen_checks_def sample_snapshot_def
          target_attempt_def fresh_attempt_def updated_attempt_def item_parts_def penalised_sel
          ReconciliationCursor_validate_def cursor_ahead_def merge_into_same)
  moreover have "ra_challenge_id ?t = ''c1'' \<and> ra_route ?t = ri_route penalised
      \<and> ra_last_observed_at_ms ?t = ri_observed_at_ms penalised"
    by (simp add: target_attempt_def fresh_attempt_def sample_snapshot_def penalised_sel)
  ultimately show ?thesis
    unfolding sample_next_def apply_guard by (simp add: sample_snapshot_def penalised_sel)
qed

theorem apply_is_atomic_and_monotone_witness:
  "apply_item sample_snapshot penalised 10 = (Ok Applied, sample_next)
   \<and> Snapshot_validate sample_next = Ok ()"
  using apply_is_atomic_and_monotone [OF sample_applied] sample_applied by blast

text \<open>
  Replays are harmless: once an item has been applied, applying it again after any further pages,
  at any clock not before its observation, is reported as a duplicate and changes nothing.
\<close>

theorem replayed_item_is_a_duplicate:
  assumes "apply_item s i now = (Ok Applied, s')" and "ri_observed_at_ms i \<le> later"
  shows "apply_item (foldl apply_to s' qs) i later = (Ok Duplicate, foldl apply_to s' qs)"
proof (cases rule: apply_cases [of s i now])
  case applied
  then have s': "s' = apply_next s i (target_attempt s i)" using assms(1) by simp
  have keep: "Snapshot_validate (foldl apply_to s' qs) = Ok ()"
    "ps_stream_id (foldl apply_to s' qs) = ps_stream_id s" "ps_challenge_id (foldl apply_to s' qs) = ps_challenge_id s"
    "map_of (ps_seen_items (foldl apply_to s' qs)) (dedup_key i) = Some i"
    using apply_all_keeps [of s' qs] applied(9) s' by auto
  moreover have "PlatformReconcileItem_validate i (ps_stream_id s) (ps_challenge_id s) later = Ok ()"
    using item_valid_at [OF applied(3) assms(2)] .
  ultimately show ?thesis
    using item_valid_refl [OF applied(3)] by (simp add: apply_guard)
qed (use assms in auto)

theorem replayed_item_is_a_duplicate_witness:
  "apply_item sample_next penalised 20 = (Ok Duplicate, sample_next)"
proof -
  have "ri_observed_at_ms penalised \<le> 20"
    by (simp add: penalised_def observation_item_def sample_observation_def)
  from replayed_item_is_a_duplicate [OF sample_applied this, of "[]"] show ?thesis by simp
qed



text \<open>
  The comparison of the scores is exact.  A snapshot whose effective score is not equal to its raw score
  less one refuses every further item: a stored snapshot of which one score is read back one unit in
  the last place off stops its stream.
\<close>

theorem inexact_penalty_stops_the_stream:
  assumes "map_of (ps_attempts s) k = Some a" and "rf_penalty_applied (ra_facts a)" and "rf_raw_score (ra_facts a) = Some raw"
    and "\<not> opt_f64_eq (rf_effective_score (ra_facts a)) (Some (f64_sub raw (Fin 1)))"
  shows "\<exists>e. apply_item s i now = (Err e, s)"
proof -
  have "Snapshot_validate s \<noteq> Ok ()"
    using valid_snapshot_penalty [OF _ assms(1,2)] assms(3,4) by auto
  then obtain e where "Snapshot_validate s = Err e"
    by (cases "Snapshot_validate s") auto
  then show ?thesis
    by (intro exI [of _ e]) (simp only: apply_item_def checks.simps sum.case)
qed

text \<open>
  Ambiguous local submissions become unknown without touching anything the platform may
  hold.  A successful reconciliation keeps every record under its key, with its attempt id; records
  that have an attempt id keep their state, and the in-flight records are the same as before; exactly
  the id-less submitted or parsing records at least \<open>grace\<close> old are moved to unknown; a reservation is
  released only where one was held, and running the reconciliation again at the same time moves and
  releases nothing.
\<close>

theorem local_reconciliation:
  assumes "reconcile_ambiguous_local_submissions rs now g = (Ok d, rs')"
  shows "map fst rs' = map fst rs
    \<and> list_all2 (\<lambda>(_, r) (_, r'). ls_attempt_id r' = ls_attempt_id r
         \<and> (ls_attempt_id r \<noteq> None \<longrightarrow> ls_state r' = ls_state r)
         \<and> counts_as_in_flight r' = counts_as_in_flight r) rs rs'
    \<and> ld_moved_submission_ids d = map (\<lambda>(_, r). ls_submission_id r)
        (filter (\<lambda>(_, r). ls_state r \<in> {LocalSubmissionState.Submitted, LocalSubmissionState.PendingParse}
           \<and> ls_attempt_id r = None \<and> g \<le> now - ls_created_at_ms r) rs)
    \<and> set (ld_released_reservation_ids d) \<subseteq> ls_submission_id ` {r \<in> snd ` set rs. ls_quota_reserved r}
    \<and> reconcile_ambiguous_local_submissions rs' now g
        = (Ok \<lparr> ld_moved_submission_ids = [], ld_released_reservation_ids = [] \<rparr>, rs')"
proof -
  let ?one = "\<lambda>e :: string \<times> LocalSubmissionRecord. reconcile_one now g (snd e)"
  have ok: "\<not> (now < 0 \<or> g < 0)" "\<not> list_ex (local_malformed now) rs"
    and rs': "rs' = map (\<lambda>e. (fst e, fst (?one e))) rs"
    and d: "ld_moved_submission_ids d = map (\<lambda>e. ls_submission_id (snd e)) (filter (\<lambda>e. fst (snd (?one e))) rs)"
      "ld_released_reservation_ids d = map (\<lambda>e. ls_submission_id (snd e)) (filter (\<lambda>e. snd (snd (?one e))) rs)"
    using assms by (auto simp: reconcile_ambiguous_local_submissions_def Let_def case_prod_unfold split: if_splits)
  note keeps = reconcile_one_keeps [where now = now and g = g]
  have twice: "reconcile_one now g (fst (reconcile_one now g r)) = (fst (reconcile_one now g r), False, False)" for r
    using reconcile_one_twice [of now g r] by (cases "reconcile_one now g r") auto
  have moved: "fst (snd (reconcile_one now g r)) \<longleftrightarrow>
      ls_state r \<in> {LocalSubmissionState.Submitted, LocalSubmissionState.PendingParse}
      \<and> ls_attempt_id r = None \<and> g \<le> now - ls_created_at_ms r" for r
    by (auto simp: reconcile_one_def Let_def)
  have "\<not> list_ex (local_malformed now) rs'"
    using ok(2) by (auto simp: rs' list_ex_iff local_malformed_def keeps)
  then have again: "reconcile_ambiguous_local_submissions rs' now g
      = (Ok \<lparr> ld_moved_submission_ids = [], ld_released_reservation_ids = [] \<rparr>, rs')"
    using ok(1) by (simp add: reconcile_ambiguous_local_submissions_def Let_def case_prod_unfold rs' twice o_def filter_map)
  have "ld_moved_submission_ids d = map (\<lambda>(_, r). ls_submission_id r)
      (filter (\<lambda>(_, r). ls_state r \<in> {LocalSubmissionState.Submitted, LocalSubmissionState.PendingParse}
         \<and> ls_attempt_id r = None \<and> g \<le> now - ls_created_at_ms r) rs)"
    unfolding d(1) moved by (simp add: case_prod_unfold)
  moreover have "map fst rs' = map fst rs" by (simp add: rs')
  moreover have "list_all2 (\<lambda>(_, r) (_, r'). ls_attempt_id r' = ls_attempt_id r
      \<and> (ls_attempt_id r \<noteq> None \<longrightarrow> ls_state r' = ls_state r)
      \<and> counts_as_in_flight r' = counts_as_in_flight r) rs rs'"
    by (simp add: rs' list_all2_map2 list_all2_same case_prod_unfold keeps)
  moreover have "set (ld_released_reservation_ids d) \<subseteq> ls_submission_id ` {r \<in> snd ` set rs. ls_quota_reserved r}"
    using keeps(6) by (auto simp: d(2))
  ultimately show ?thesis using again by blast
qed

definition sample_local :: LocalSubmissionRecord where
  "sample_local =
     \<lparr> ls_submission_id = ''s1'', ls_attempt_id = None, ls_state = LocalSubmissionState.Submitted,
       ls_created_at_ms = 0, ls_quota_reserved = True, ls_reconciled_from = None,
       ls_reconciled_at_ms = None, ls_reconcile_reason = None \<rparr>"

theorem local_reconciliation_witness:
  "\<exists>d rs'. reconcile_ambiguous_local_submissions [(''s1'', sample_local)] 100 50 = (Ok d, rs')
     \<and> ld_moved_submission_ids d = [''s1'']"
proof -
  obtain d rs' where run: "reconcile_ambiguous_local_submissions [(''s1'', sample_local)] 100 50 = (Ok d, rs')"
    by (simp add: reconcile_ambiguous_local_submissions_def local_malformed_def blank_if_present_def
          sample_local_def Let_def)
  have "ld_moved_submission_ids d = [''s1'']"
    using local_reconciliation [OF run] by (simp add: sample_local_def)
  with run show ?thesis by blast
qed

end
