(* ===== verification/GuardGates.thy ===== *)
theory GuardGates
  imports WorkspaceAcl Contract
begin

text \<open>
  The stateless gates of \<open>solver-guard/src/lib.rs\<close>: lineage and RPC/tool preflights, the typed
  network egress policy, the cloud-compute discipline, the seven-gate submission admission
  \<open>Policy::admit\<close>, the supervisor backoff and the persisted role names.

  The file system is a parameter (\<open>canonicalize\<close> as in \<open>WorkspaceAcl\<close>, \<open>std::fs::read\<close> as
  \<open>fs_read\<close>), so is SHA-256.  A \<open>serde_json::Value\<close> is used through two of its operations only,
  \<open>get("url").and_then(as_str)\<close> and \<open>to_string()\<close>, which are the parameters \<open>get_url\<close> and
  \<open>to_string\<close>.
\<close>

section \<open>Lineage and RPC preflights\<close>

datatype RpcDecision = Allow | Block

record LineageRequest =
  lr_parent_present :: bool
  lr_depth :: int
  lr_role :: "string option"
  lr_ephemeral :: bool

definition decimal_int :: "int \<Rightarrow> string" where
  "decimal_int i = (if i < 0 then ''-'' @ decimal (nat (- i)) else decimal (nat i))"

definition lineage_preflight :: "LineageRequest \<Rightarrow> bool \<Rightarrow> string + unit" where
  "lineage_preflight request solver_mode =
     (if \<not> solver_mode then Ok ()
      else if \<not> lr_parent_present request then Err ''solver child is missing a parent lineage''
      else if lr_depth request < 1 \<or> 2 < lr_depth request
      then Err (''solver child depth '' @ decimal_int (lr_depth request)
                @ '' is outside the allowed range 1..=2'')
      else if lr_ephemeral request then Err ''ephemeral solver children are not allowed''
      else case lr_role request of
             None \<Rightarrow> Err ''solver child must declare an approved role''
           | Some role \<Rightarrow>
               if \<not> is_approved_solver_role role
               then Err (''solver child role `'' @ role @ ''` is not approved'')
               else Ok ())"

definition solver_spawn_depth_preflight :: "int \<Rightarrow> bool \<Rightarrow> string + unit" where
  "solver_spawn_depth_preflight depth solver_mode =
     (if solver_mode \<and> depth \<noteq> 1
      then Err (''solver child depth '' @ decimal_int depth
                @ '' is outside the direct-Chief range (expected 1)'')
      else Ok ())"

definition HIGH_RISK_METHODS :: "string list" where
  "HIGH_RISK_METHODS =
     [''command/exec'', ''process/spawn'', ''fs/writeFile'', ''fs/createDirectory'', ''fs/remove'',
      ''fs/copy'', ''mcpServer/'', ''config/value/write'', ''config/batchWrite'',
      ''config/mcpServer/reload'', ''environment/add'', ''plugin/install'', ''plugin/uninstall'',
      ''thread/settings/update'', ''item/tool/call'', ''thread/fork'']"

definition rpc_preflight :: "string \<Rightarrow> bool \<Rightarrow> RpcDecision" where
  "rpc_preflight method_name solver_mode =
     (if \<not> solver_mode then Allow
      else if list_ex (\<lambda>p. method_name = p \<or> starts_with method_name p) HIGH_RISK_METHODS
      then Block else Allow)"

definition SUBMISSION_TOOLS :: "string list" where
  "SUBMISSION_TOOLS =
     [''solver-guard_build-submit'', ''solver-guard_bohr'', ''playground_submit'', ''submit_attempt'']"

definition tool_preflight :: "string \<Rightarrow> bool \<Rightarrow> RpcDecision" where
  "tool_preflight tool_name solver_mode =
     (if \<not> solver_mode then Allow
      else if list_ex (\<lambda>n. tool_name = n \<or> ends_with tool_name n) SUBMISSION_TOOLS
      then Block else Allow)"

definition SUBMISSION_MARKERS :: "string list" where
  "SUBMISSION_MARKERS =
     [''play.bohrium.com'', ''playground-cli'', ''playground_submit'', ''submit-attempt'',
      ''solver-guard_build-submit'', ''ascodex-lease-admin'', ''ascodex-stage-admin'',
      ''ascodex-observation-admin'', ''bohr job submit'', ''curl '', ''invoke-webrequest'',
      ''http://'', ''https://'']"

definition tool_preflight_with_input :: "('j \<Rightarrow> string) \<Rightarrow> string \<Rightarrow> 'j \<Rightarrow> bool \<Rightarrow> RpcDecision" where
  "tool_preflight_with_input to_string tool_name input solver_mode =
     (if tool_preflight tool_name solver_mode = Block then Block
      else if \<not> solver_mode then Allow
      else
        let lower_name = to_ascii_lowercase tool_name
        in if starts_with lower_name ''mcp__'' \<or> starts_with lower_name ''dynamic__'' then Block
           else if lower_name \<notin> set [''exec_command'', ''shell_command'', ''unified_exec''] then Allow
           else
             let text = to_ascii_lowercase (to_string input)
             in if list_ex (\<lambda>marker. str_contains text marker) SUBMISSION_MARKERS
                then Block else Allow)"

section \<open>Network egress\<close>

record EgressPolicy =
  eg_deny_all :: bool
  eg_allowed_domains :: "string list"
  eg_denied_domains :: "string list"

definition EgressPolicy_default :: EgressPolicy where
  "EgressPolicy_default = \<lparr> eg_deny_all = True, eg_allowed_domains = [], eg_denied_domains = [] \<rparr>"

datatype SolverNetworkMode = Restricted

definition resolve_solver_network_mode :: "EgressPolicy \<Rightarrow> SolverNetworkMode" where
  "resolve_solver_network_mode egress = Restricted"

definition ascii_alphanumeric :: "char \<Rightarrow> bool" where
  "ascii_alphanumeric c \<longleftrightarrow>
     c \<in> set ''0123456789abcdefghijklmnopqrstuvwxyzABCDEFGHIJKLMNOPQRSTUVWXYZ''"

definition valid_label :: "string \<Rightarrow> bool" where
  "valid_label l \<longleftrightarrow>
     l \<noteq> [] \<and> length l \<le> 63 \<and> list_all (\<lambda>b. ascii_alphanumeric b \<or> b = CHR ''-'') l
     \<and> \<not> starts_with l ''-'' \<and> \<not> ends_with l ''-''"

definition labels :: "string \<Rightarrow> string list" where
  "labels host = split_by (\<lambda>c. c = CHR ''.'') host"

definition is_valid_hostname :: "string \<Rightarrow> bool" where
  "is_valid_hostname host \<longleftrightarrow>
     host \<noteq> [] \<and> length host \<le> 253 \<and> list_all valid_label (labels host)"

definition extract_network_host :: "string \<Rightarrow> string + string" where
  "extract_network_host url =
     (case (case strip_prefix ''https://'' url of None \<Rightarrow> strip_prefix ''http://'' url | r \<Rightarrow> r) of
        None \<Rightarrow> Err ''egress only admits http/https URLs''
      | Some rest \<Rightarrow>
          let host = hd (split_by (\<lambda>c. c \<in> set ''/?#'') rest);
              host = hd (split_by (\<lambda>c. c = CHR '':'') host)
          in if \<not> is_valid_hostname host then Err ''egress URL host is not a valid hostname''
             else Ok host)"

definition domain_match :: "string \<Rightarrow> string \<Rightarrow> bool" where
  "domain_match host d \<longleftrightarrow> host = to_ascii_lowercase d \<or> ends_with host (''.'' @ d)"

definition validate_egress :: "string \<Rightarrow> EgressPolicy \<Rightarrow> string + unit" where
  "validate_egress host policy =
     (if \<not> is_valid_hostname host then Err ''egress host is not a valid hostname''
      else if eg_deny_all policy then Err ''egress deny_all is enabled''
      else
        let host = to_ascii_lowercase host
        in if \<not> list_ex (domain_match host) (eg_allowed_domains policy)
           then Err ''egress host is not in the allowed domains''
           else if list_ex (domain_match host) (eg_denied_domains policy)
           then Err ''egress host is denied by the policy''
           else Ok ())"

definition NETWORK_TOOL_NAMES :: "string list" where
  "NETWORK_TOOL_NAMES = [''webfetch'', ''websearch'', ''webfetchtext'', ''web_fetch'', ''web_search'']"

definition is_network_tool :: "string \<Rightarrow> bool" where
  "is_network_tool tool_name \<longleftrightarrow>
     list_ex (\<lambda>n. to_ascii_lowercase tool_name = n \<or> ends_with (to_ascii_lowercase tool_name) n)
       NETWORK_TOOL_NAMES"

definition network_tool_egress_preflight ::
  "('j \<Rightarrow> string option) \<Rightarrow> string \<Rightarrow> 'j \<Rightarrow> EgressPolicy \<Rightarrow> bool \<Rightarrow> RpcDecision" where
  "network_tool_egress_preflight get_url tool_name input policy solver_mode =
     (if \<not> solver_mode then Allow
      else if \<not> is_network_tool tool_name then Allow
      else case get_url input of
             None \<Rightarrow> Block
           | Some url \<Rightarrow>
               if is_blank url then Block
               else case extract_network_host url of
                      Inl _ \<Rightarrow> Block
                    | Inr host \<Rightarrow>
                        (case validate_egress host policy of Inl _ \<Rightarrow> Block | Inr _ \<Rightarrow> Allow))"

section \<open>Policy and requests\<close>

datatype Gate = Channel | Identity | Cadence | Redline | Trace | Model | Bohr

text \<open>
  A reason is the text of the source; the one text that prints a string with \<open>{:?}\<close> is the
  constructor \<open>MachineNotAllowed\<close>.
\<close>

datatype Reason = Text string | MachineNotAllowed string

record GateFailure =
  gf_gate :: Gate
  gf_reason :: Reason

record Admission =
  ad_allowed :: bool
  ad_failures :: "GateFailure list"

definition denied :: "Gate \<Rightarrow> Reason \<Rightarrow> Admission" where
  "denied g reason = \<lparr> ad_allowed = False, ad_failures = [\<lparr> gf_gate = g, gf_reason = reason \<rparr>] \<rparr>"

definition allow :: Admission where
  "allow = \<lparr> ad_allowed = True, ad_failures = [] \<rparr>"

record ChannelPolicy =
  cp_harbor_only :: bool
  cp_workspace_root :: string
  cp_trusted_cli_root :: "string option"
  cp_trusted_cli_sha256 :: string
  cp_channel_probe_max_age_ms :: int
  cp_egress :: EgressPolicy

definition default_channel_probe_max_age_ms :: int where
  "default_channel_probe_max_age_ms = 15 * 60 * 1000"

record IdentityPolicy =
  id_name :: string
  id_challenge_id :: string
  id_owner :: string

record IdentityPoolEntry =
  ip_name :: string
  ip_challenge_id :: string
  ip_owner :: string
  ip_identity_class :: string
  ip_frozen :: bool
  ip_max_reserved_cost_usd :: "f64 option"
  ip_max_concurrent_reservations :: "nat option"
  ip_min_interval_seconds :: "int option"

record IdentityQuota =
  iq_max_reserved_cost_usd :: "f64 option"
  iq_max_concurrent_reservations :: "nat option"
  iq_min_interval_seconds :: "int option"

definition IdentityQuota_validate :: "IdentityQuota \<Rightarrow> string + unit" where
  "IdentityQuota_validate q = checks
     [case iq_max_reserved_cost_usd q of
        None \<Rightarrow> Ok ()
      | Some max_cost \<Rightarrow> fail_if (\<not> is_finite max_cost \<or> f64_lt max_cost (Fin 0))
          ''identity pool max_reserved_cost_usd is invalid'',
      case iq_max_concurrent_reservations q of
        None \<Rightarrow> Ok ()
      | Some max_concurrent \<Rightarrow> fail_if (max_concurrent = 0)
          ''identity pool max_concurrent_reservations must be positive'',
      case iq_min_interval_seconds q of
        None \<Rightarrow> Ok ()
      | Some interval \<Rightarrow> fail_if (interval < 0) ''identity pool min_interval_seconds is invalid'']"

definition quota :: "IdentityPoolEntry \<Rightarrow> IdentityQuota" where
  "quota e = \<lparr> iq_max_reserved_cost_usd = ip_max_reserved_cost_usd e,
               iq_max_concurrent_reservations = ip_max_concurrent_reservations e,
               iq_min_interval_seconds = ip_min_interval_seconds e \<rparr>"

record CadencePolicy =
  ca_min_interval_seconds :: int
  ca_max_estimated_cost_usd :: f64

record RedlinePolicy =
  rl_clean :: bool
  rl_banned_terms :: "string list"

record TracePolicy =
  tp_real_execution :: bool
  tp_paired_tool_events :: bool
  tp_artifact_provenance :: bool

record ModelPolicy =
  mo_provider :: string
  mo_model :: string

record BohrPolicy =
  bp_local_smoke_limit_sec :: nat
  bp_local_mem_limit_gb :: nat
  bp_heavy_must_cloud :: bool
  bp_allowed_machines :: "string list"
  bp_job_timeout_default_sec :: nat
  bp_cost_budget_per_challenge :: f64

definition BohrPolicy_default :: BohrPolicy where
  "BohrPolicy_default =
     \<lparr> bp_local_smoke_limit_sec = 120, bp_local_mem_limit_gb = 2, bp_heavy_must_cloud = True,
       bp_allowed_machines = [], bp_job_timeout_default_sec = 3600,
       bp_cost_budget_per_challenge = Fin 0 \<rparr>"

definition admit_job :: "BohrPolicy \<Rightarrow> string \<Rightarrow> nat \<Rightarrow> Reason + unit" where
  "admit_job p machine timeout_sec = checks
     [fail_if (bp_allowed_machines p = [])
        (Text ''no cloud machine is approved (empty allowlist)''),
      fail_if (is_blank machine \<or> \<not> list_ex (\<lambda>m. m = machine) (bp_allowed_machines p))
        (MachineNotAllowed machine),
      fail_if (timeout_sec = 0 \<or> bp_job_timeout_default_sec p < timeout_sec)
        (Text (''job timeout '' @ decimal timeout_sec @ ''s exceeds the approved limit ''
               @ decimal (bp_job_timeout_default_sec p) @ ''s'')),
      fail_if (\<not> is_finite (bp_cost_budget_per_challenge p)
               \<or> f64_lt (bp_cost_budget_per_challenge p) (Fin 0))
        (Text ''per-challenge cost budget must be finite and non-negative'')]"

definition admit_local :: "BohrPolicy \<Rightarrow> nat \<Rightarrow> nat \<Rightarrow> Reason + unit" where
  "admit_local p est_seconds est_mem_gb = checks
     [fail_if (bp_local_smoke_limit_sec p = 0) (Text ''local smoke limit must be positive''),
      fail_if (bp_local_smoke_limit_sec p < est_seconds)
        (Text (''local run is '' @ decimal est_seconds @ ''s, over the ''
               @ decimal (bp_local_smoke_limit_sec p)
               @ ''-second smoke limit; move heavy work to the cloud'')),
      fail_if (bp_heavy_must_cloud p \<and> bp_local_mem_limit_gb p < est_mem_gb)
        (Text (''local run needs '' @ decimal est_mem_gb @ '' GiB, over the ''
               @ decimal (bp_local_mem_limit_gb p)
               @ ''-GiB smoke limit; move heavy work to the cloud''))]"

record Policy =
  po_channel :: ChannelPolicy
  po_identity :: IdentityPolicy
  po_identity_pool :: "IdentityPoolEntry list"
  po_cadence :: CadencePolicy
  po_redline :: RedlinePolicy
  po_trace :: TracePolicy
  po_model :: ModelPolicy
  po_bohr :: BohrPolicy

record BohrJobRequest =
  bj_machine :: string
  bj_timeout_sec :: nat
  bj_est_mem_gb :: nat
  bj_est_cost_usd :: f64

record TraceEvidence =
  te_real_execution :: bool
  te_paired_tool_events :: bool
  te_artifact_provenance :: bool

record AdmissionRequest =
  rq_channel :: string
  rq_identity :: string
  rq_identity_class :: string
  rq_challenge_id :: string
  rq_owner :: string
  rq_cli_path :: string
  rq_workspace :: string
  rq_estimated_cost_usd :: f64
  rq_trace :: TraceEvidence
  rq_provider :: string
  rq_model :: string
  rq_content_sha256 :: string
  rq_now_ms :: int
  rq_bohr_job :: "BohrJobRequest option"

section \<open>Admission\<close>

definition is_within_workspace :: "FileSystem \<Rightarrow> string \<Rightarrow> string \<Rightarrow> bool" where
  "is_within_workspace fs p r \<longleftrightarrow>
     (case (fs_canonicalize fs p, fs_canonicalize fs r) of
        (Some p', Some r') \<Rightarrow> path_starts_with p' r'
      | _ \<Rightarrow> False)"

definition sha256_bytes :: "(string \<Rightarrow> string) \<Rightarrow> string \<Rightarrow> string" where
  "sha256_bytes sha256 bytes = hex_bytes (sha256 bytes)"

definition sha256_file :: "(string \<Rightarrow> string option) \<Rightarrow> (string \<Rightarrow> string) \<Rightarrow> string \<Rightarrow> string option" where
  "sha256_file fs_read sha256 p = map_option (sha256_bytes sha256) (fs_read p)"

definition pool_match :: "AdmissionRequest \<Rightarrow> IdentityPoolEntry \<Rightarrow> bool" where
  "pool_match q e \<longleftrightarrow>
     ip_name e = rq_identity q \<and> ip_challenge_id e = rq_challenge_id q
     \<and> ip_owner e = rq_owner q \<and> ip_identity_class e = rq_identity_class q"

definition identity_gate :: "Policy \<Rightarrow> AdmissionRequest \<Rightarrow> Reason + unit" where
  "identity_gate p q =
     (if po_identity_pool p \<noteq> [] then
        let matching = filter (pool_match q) (po_identity_pool p)
        in checks
          [fail_if (length matching \<noteq> 1)
             (Text ''identity, challenge, owner, and identity class have no unique pool binding''),
           fail_if (ip_frozen (matching ! 0)) (Text ''identity is frozen''),
           map_err Text (IdentityQuota_validate (quota (matching ! 0)))]
      else fail_if (rq_identity q \<noteq> id_name (po_identity p)
                    \<or> rq_challenge_id q \<noteq> id_challenge_id (po_identity p)
                    \<or> rq_owner q \<noteq> id_owner (po_identity p))
             (Text ''identity, challenge, or owner binding does not match policy''))"

definition cli_hash_gate ::
  "(string \<Rightarrow> string option) \<Rightarrow> (string \<Rightarrow> string) \<Rightarrow> Policy \<Rightarrow> AdmissionRequest \<Rightarrow> Reason + unit" where
  "cli_hash_gate fs_read sha256 p q =
     (case sha256_file fs_read sha256 (rq_cli_path q) of
        None \<Rightarrow> Err (Text ''trusted CLI cannot be read for hash verification'')
      | Some actual_hash \<Rightarrow>
          fail_if (\<not> eq_ignore_ascii_case (cp_trusted_cli_sha256 (po_channel p)) actual_hash)
            (Text ''trusted CLI hash does not match policy''))"

definition bohr_gate :: "BohrPolicy \<Rightarrow> BohrJobRequest option \<Rightarrow> Reason + unit" where
  "bohr_gate p job =
     (case job of
        None \<Rightarrow> Ok ()
      | Some j \<Rightarrow> checks
          [fail_if (\<not> is_finite (bj_est_cost_usd j) \<or> f64_lt (bj_est_cost_usd j) (Fin 0)
                    \<or> f64_lt (bp_cost_budget_per_challenge p) (bj_est_cost_usd j))
             (Text ''cloud job cost exceeds the per-challenge budget''),
           admit_job p (bj_machine j) (bj_timeout_sec j),
           admit_local p 0 (bj_est_mem_gb j)])"

text \<open>The early returns of \<open>Policy::admit\<close>, in the order of the source.\<close>

definition admission_checks ::
  "FileSystem \<Rightarrow> (string \<Rightarrow> string option) \<Rightarrow> (string \<Rightarrow> string) \<Rightarrow> Policy \<Rightarrow> AdmissionRequest \<Rightarrow>
   (Gate \<times> Reason + unit) list" where
  "admission_checks fs fs_read sha256 p q =
     (let trusted_cli_root =
            (case cp_trusted_cli_root (po_channel p) of
               Some r \<Rightarrow> r | None \<Rightarrow> cp_workspace_root (po_channel p))
      in
        [fail_if (\<not> cp_harbor_only (po_channel p) \<or> rq_channel q \<noteq> ''harbor'')
           (Channel, Text ''submission channel is not the verified Harbor route''),
         map_err (Pair Identity) (identity_gate p q),
         fail_if (\<not> is_finite (rq_estimated_cost_usd q)
                  \<or> \<not> is_finite (ca_max_estimated_cost_usd (po_cadence p))
                  \<or> f64_lt (ca_max_estimated_cost_usd (po_cadence p)) (Fin 0)
                  \<or> f64_lt (rq_estimated_cost_usd q) (Fin 0)
                  \<or> f64_lt (ca_max_estimated_cost_usd (po_cadence p)) (rq_estimated_cost_usd q))
           (Cadence, Text ''estimated cost is missing or exceeds the reservation limit''),
         fail_if (\<not> is_within_workspace fs (rq_workspace q) (cp_workspace_root (po_channel p))
                  \<or> \<not> is_absolute (rq_cli_path q)
                  \<or> \<not> is_within_workspace fs (rq_cli_path q) trusted_cli_root)
           (Channel, Text ''submission or trusted CLI path is outside the assigned workspace''),
         fail_if (\<not> rl_clean (po_redline p)) (Redline, Text ''redline scan is not clean''),
         fail_if (\<not> te_real_execution (rq_trace q) \<or> \<not> te_paired_tool_events (rq_trace q)
                  \<or> \<not> te_artifact_provenance (rq_trace q) \<or> \<not> tp_real_execution (po_trace p)
                  \<or> \<not> tp_paired_tool_events (po_trace p) \<or> \<not> tp_artifact_provenance (po_trace p))
           (Trace, Text ''trace lacks real execution, paired events, or artifact provenance''),
         fail_if (rq_provider q \<noteq> mo_provider (po_model p) \<or> rq_model q \<noteq> mo_model (po_model p))
           (Model, Text ''effective provider/model is not approved''),
         map_err (Pair Channel) (cli_hash_gate fs_read sha256 p q),
         map_err (Pair Bohr) (bohr_gate (po_bohr p) (rq_bohr_job q))])"

definition admit ::
  "FileSystem \<Rightarrow> (string \<Rightarrow> string option) \<Rightarrow> (string \<Rightarrow> string) \<Rightarrow> Policy \<Rightarrow> AdmissionRequest \<Rightarrow> Admission" where
  "admit fs fs_read sha256 p q =
     (case checks (admission_checks fs fs_read sha256 p q) of
        Inl (g, reason) \<Rightarrow> denied g reason
      | Inr _ \<Rightarrow> allow)"

section \<open>Backoff and persisted role names\<close>

definition saturating_mul :: "nat \<Rightarrow> nat \<Rightarrow> nat" where
  "saturating_mul a b = min (a * b) u64_max"

text \<open>\<open>1u64.checked_shl(n)\<close>: \<open>None\<close> from 64 on.\<close>

definition checked_shl :: "nat \<Rightarrow> nat option" where
  "checked_shl n = (if n < 64 then Some (2 ^ n) else None)"

definition next_backoff_ms :: "nat \<Rightarrow> nat \<Rightarrow> nat \<Rightarrow> string + nat" where
  "next_backoff_ms attempt base_ms max_ms =
     (if base_ms = 0 \<or> max_ms = 0 \<or> max_ms < base_ms
      then Err ''backoff base and max must be positive with max >= base''
      else
        let multiplier = (case checked_shl (min attempt 63) of Some m \<Rightarrow> m | None \<Rightarrow> u64_max);
            delay = saturating_mul base_ms multiplier
        in Ok (min delay max_ms))"

definition role_name :: "Role \<Rightarrow> string" where
  "role_name r =
     (case r of Chief \<Rightarrow> ''chief'' | Solver \<Rightarrow> ''solver'' | Monitor \<Rightarrow> ''monitor'' | Intel \<Rightarrow> ''intel''
      | JudgeAnalyst \<Rightarrow> ''judge_analyst'' | RedTeam \<Rightarrow> ''red_team'')"

text \<open>
  \<open>LedgerError\<close>; the \<open>sqlx\<close> error of the database variant is not looked at.  \<open>Degraded\<close> has three
  constructors: with a text of the source, with a prefix and the coordination error it prints, and
  with a prefix and the text of an error of the file system or of \<open>serde_json\<close>.  \<open>Panicked\<close> is not a
  value of the source: it marks the panic of an unchecked integer operation in the checked profile,
  which unwinds and so also rolls an open transaction back.
\<close>

datatype LedgerError = Database | Degraded string | DegradedBy string CoordinationError
  | DegradedExternal string | Panicked

definition parse_role_name :: "string \<Rightarrow> LedgerError + Role" where
  "parse_role_name v =
     (if v = ''chief'' then Ok Chief else if v = ''solver'' then Ok Solver
      else if v = ''monitor'' then Ok Monitor else if v = ''intel'' then Ok Intel
      else if v = ''judge_analyst'' then Ok JudgeAnalyst else if v = ''red_team'' then Ok RedTeam
      else Err (Degraded (''stored thread cycle role `'' @ v @ ''` is invalid'')))"

section \<open>Hosts and domains\<close>

lemma split_by_append:
  "p c \<Longrightarrow> split_by p (a @ c # b) = split_by p a @ split_by p b"
  by (induction a) (auto split: list.splits)

lemma split_by_hd:
  "hd (split_by p s) = takeWhile (\<lambda>c. \<not> p c) s"
  by (induction s) (auto split: list.splits)

lemma split_by_inj: "split_by (\<lambda>c. c = d) a = split_by (\<lambda>c. c = d) b \<Longrightarrow> a = b"
proof (induction a arbitrary: b)
  case Nil
  then show ?case by (cases b) (auto split: list.splits if_splits)
next
  case (Cons x a)
  then show ?case
    by (cases b) (auto split: list.splits if_splits)
qed

lemma split_by_suffix:
  "suffix (split_by (\<lambda>c. c = d) b) (split_by (\<lambda>c. c = d) s) \<longleftrightarrow> s = b \<or> (\<exists>a. s = a @ d # b)"
proof
  assume "s = b \<or> (\<exists>a. s = a @ d # b)"
  then show "suffix (split_by (\<lambda>c. c = d) b) (split_by (\<lambda>c. c = d) s)"
    by (auto simp: split_by_append suffix_def)
next
  assume "suffix (split_by (\<lambda>c. c = d) b) (split_by (\<lambda>c. c = d) s)"
  then show "s = b \<or> (\<exists>a. s = a @ d # b)"
  proof (induction s)
    case Nil
    then have "split_by (\<lambda>c. c = d) b = split_by (\<lambda>c. c = d) []"
      using split_by_nonempty [of "\<lambda>c. c = d" b] by (auto simp: suffix_Cons)
    then show ?case using split_by_inj by blast
  next
    case (Cons x s)
    show ?case
    proof (cases "split_by (\<lambda>c. c = d) b = split_by (\<lambda>c. c = d) (x # s)")
      case True
      then show ?thesis using split_by_inj by blast
    next
      case neq: False
      show ?thesis
      proof (cases "x = d")
        case True
        then have "suffix (split_by (\<lambda>c. c = d) b) (split_by (\<lambda>c. c = d) s)"
          using Cons.prems neq by (auto simp: suffix_Cons)
        then show ?thesis using Cons.IH True by (metis append_Cons append_Nil)
      next
        case False
        obtain w ws where ws: "split_by (\<lambda>c. c = d) s = w # ws"
          using split_by_nonempty [of "\<lambda>c. c = d" s] by (cases "split_by (\<lambda>c. c = d) s") auto
        then have suf: "suffix (split_by (\<lambda>c. c = d) b) ws"
          using Cons.prems neq False by (auto simp: suffix_Cons)
        then have "suffix (split_by (\<lambda>c. c = d) b) (split_by (\<lambda>c. c = d) s)"
          using ws by (simp add: suffix_Cons)
        moreover have "s \<noteq> b"
          using suf ws by (auto dest: suffix_length_le)
        ultimately show ?thesis using Cons.IH by (metis append_Cons)
      qed
    qed
  qed
qed

text \<open>A match is a match of whole labels: the domain is a suffix of the host's label list.\<close>

lemma lower_char_idem [simp]: "lower_char (lower_char c) = lower_char c"
proof -
  have "\<forall>c \<in> set ''abcdefghijklmnopqrstuvwxyz''. lower_char c = c"
    by code_simp
  moreover have "lower_char c = c \<or> lower_char c \<in> set ''abcdefghijklmnopqrstuvwxyz''"
    by (auto simp: lower_char_def split: option.splits dest!: map_of_SomeD set_zip_rightD)
  ultimately show ?thesis by auto
qed

lemma lower_idem [simp]: "to_ascii_lowercase (to_ascii_lowercase s) = to_ascii_lowercase s"
  by (simp add: to_ascii_lowercase_def)

lemma domain_match_labels:
  "domain_match (to_ascii_lowercase h) d \<Longrightarrow>
   suffix (labels (to_ascii_lowercase d)) (labels (to_ascii_lowercase h))"
proof -
  assume m: "domain_match (to_ascii_lowercase h) d"
  have "to_ascii_lowercase d = d" if "to_ascii_lowercase h = a @ ''.'' @ d" for a
  proof -
    have "map lower_char (a @ ''.'' @ d) = a @ ''.'' @ d"
      using that [symmetric] lower_idem [of h] by (simp add: to_ascii_lowercase_def)
    then show ?thesis by (auto simp: to_ascii_lowercase_def map_eq_append_conv append_eq_append_conv)
  qed
  then show ?thesis
    using m by (auto simp: domain_match_def labels_def split_by_suffix ends_with_iff)
qed

lemma labels_domain_match:
  "suffix (labels d) (labels h) \<Longrightarrow> d = to_ascii_lowercase d \<Longrightarrow> domain_match h d"
  by (auto simp: domain_match_def labels_def split_by_suffix ends_with_iff)

lemma takeWhile_takeWhile: "takeWhile q (takeWhile p xs) = takeWhile (\<lambda>x. p x \<and> q x) xs"
  by (induction xs) auto

text \<open>The extracted host is what stands between the scheme and the first delimiter.\<close>

lemma extract_network_host_ok:
  assumes "extract_network_host url = Ok h"
  shows "is_valid_hostname h \<and> (\<exists>scheme rest. scheme \<in> {''https://'', ''http://''} \<and> url = scheme @ h @ rest
           \<and> (rest = [] \<or> hd rest \<in> set ''/?#:''))"
proof -
  let ?p = "\<lambda>c. c \<notin> set ''/?#'' \<and> c \<noteq> CHR '':''"
  have tw: "hd (split_by (\<lambda>c. c = CHR '':'') (hd (split_by (\<lambda>c. c \<in> set ''/?#'') r))) = takeWhile ?p r" for r
    by (simp only: split_by_hd takeWhile_takeWhile)
  obtain scheme r where r: "scheme \<in> {''https://'', ''http://''}" "strip_prefix scheme url = Some r"
    and h: "h = takeWhile ?p r" and v: "is_valid_hostname h"
  proof (cases "strip_prefix ''https://'' url")
    case (Some r)
    then have "takeWhile ?p r = h" "is_valid_hostname h"
      using assms by (simp_all only: extract_network_host_def option.case Let_def tw split: if_splits) auto
    then show thesis using that Some by blast
  next
    case None
    then obtain r where s: "strip_prefix ''http://'' url = Some r"
      using assms by (cases "strip_prefix ''http://'' url") (simp_all add: extract_network_host_def)
    then have "takeWhile ?p r = h" "is_valid_hostname h"
      using assms None by (simp_all only: extract_network_host_def option.case Let_def tw split: if_splits) auto
    then show thesis using that s by blast
  qed
  have u: "url = scheme @ r"
    using r(2) by (auto simp: strip_prefix_def starts_with_iff split: if_splits)
  let ?rest = "dropWhile ?p r"
  have "?rest = [] \<or> \<not> ?p (hd ?rest)"
    using hd_dropWhile [of ?p r] by blast
  then have "?rest = [] \<or> hd ?rest \<in> set ''/?#:''"
    by simp
  moreover have "url = scheme @ h @ ?rest"
    using u h by (simp only: takeWhile_dropWhile_id)
  ultimately show ?thesis
    using r(1) v by blast
qed

lemma validate_egress_ok:
  "validate_egress h policy = Ok () \<longleftrightarrow>
     is_valid_hostname h \<and> \<not> eg_deny_all policy
     \<and> list_ex (domain_match (to_ascii_lowercase h)) (eg_allowed_domains policy)
     \<and> \<not> list_ex (domain_match (to_ascii_lowercase h)) (eg_denied_domains policy)"
  by (simp add: validate_egress_def Let_def)

lemma validate_egress_allowlisted:
  assumes "validate_egress h policy = Ok ()"
  shows "(\<exists>d \<in> set (eg_allowed_domains policy). suffix (labels (to_ascii_lowercase d)) (labels (to_ascii_lowercase h)))
    \<and> (\<forall>d \<in> set (eg_denied_domains policy). d = to_ascii_lowercase d \<longrightarrow>
          \<not> suffix (labels d) (labels (to_ascii_lowercase h)))"
proof -
  obtain d where d: "d \<in> set (eg_allowed_domains policy)" "domain_match (to_ascii_lowercase h) d"
    and n: "\<And>d. d \<in> set (eg_denied_domains policy) \<Longrightarrow> \<not> domain_match (to_ascii_lowercase h) d"
    using assms by (auto simp: validate_egress_ok list_ex_iff)
  show ?thesis
    using d domain_match_labels n labels_domain_match by blast
qed

section \<open>What the admission promises\<close>

text \<open>The condition of each gate, read off its name, independent of the order of the checks.\<close>

definition gate_passes ::
  "FileSystem \<Rightarrow> (string \<Rightarrow> string option) \<Rightarrow> (string \<Rightarrow> string) \<Rightarrow> Policy \<Rightarrow> AdmissionRequest \<Rightarrow> Gate \<Rightarrow> bool" where
  "gate_passes fs fs_read sha256 p q g \<longleftrightarrow>
     (case g of
        Channel \<Rightarrow>
          cp_harbor_only (po_channel p) \<and> rq_channel q = ''harbor''
          \<and> is_within_workspace fs (rq_workspace q) (cp_workspace_root (po_channel p))
          \<and> is_absolute (rq_cli_path q)
          \<and> is_within_workspace fs (rq_cli_path q)
               (case cp_trusted_cli_root (po_channel p) of
                  Some r \<Rightarrow> r | None \<Rightarrow> cp_workspace_root (po_channel p))
          \<and> (\<exists>bytes. fs_read (rq_cli_path q) = Some bytes
               \<and> to_ascii_lowercase (cp_trusted_cli_sha256 (po_channel p)) = hex_bytes (sha256 bytes))
      | Identity \<Rightarrow>
          (if po_identity_pool p = []
           then rq_identity q = id_name (po_identity p)
                \<and> rq_challenge_id q = id_challenge_id (po_identity p)
                \<and> rq_owner q = id_owner (po_identity p)
           else \<exists>e. filter (pool_match q) (po_identity_pool p) = [e] \<and> \<not> ip_frozen e
                \<and> IdentityQuota_validate (quota e) = Ok ())
      | Cadence \<Rightarrow>
          is_finite (rq_estimated_cost_usd q) \<and> is_finite (ca_max_estimated_cost_usd (po_cadence p))
          \<and> 0 \<le> f64_val (rq_estimated_cost_usd q)
          \<and> f64_val (rq_estimated_cost_usd q) \<le> f64_val (ca_max_estimated_cost_usd (po_cadence p))
      | Redline \<Rightarrow> rl_clean (po_redline p)
      | Trace \<Rightarrow>
          te_real_execution (rq_trace q) \<and> te_paired_tool_events (rq_trace q)
          \<and> te_artifact_provenance (rq_trace q) \<and> tp_real_execution (po_trace p)
          \<and> tp_paired_tool_events (po_trace p) \<and> tp_artifact_provenance (po_trace p)
      | Model \<Rightarrow> rq_provider q = mo_provider (po_model p) \<and> rq_model q = mo_model (po_model p)
      | Bohr \<Rightarrow>
          (case rq_bohr_job q of
             None \<Rightarrow> True
           | Some j \<Rightarrow>
               is_finite (bj_est_cost_usd j) \<and> is_finite (bp_cost_budget_per_challenge (po_bohr p))
               \<and> 0 \<le> f64_val (bj_est_cost_usd j)
               \<and> f64_val (bj_est_cost_usd j) \<le> f64_val (bp_cost_budget_per_challenge (po_bohr p))
               \<and> \<not> is_blank (bj_machine j) \<and> bj_machine j \<in> set (bp_allowed_machines (po_bohr p))
               \<and> 0 < bj_timeout_sec j \<and> bj_timeout_sec j \<le> bp_job_timeout_default_sec (po_bohr p)
               \<and> 0 < bp_local_smoke_limit_sec (po_bohr p)
               \<and> (bp_heavy_must_cloud (po_bohr p) \<longrightarrow>
                    bj_est_mem_gb j \<le> bp_local_mem_limit_gb (po_bohr p))))"

lemma identity_gate_ok:
  "identity_gate p q = Ok () \<longleftrightarrow> gate_passes fs fs_read sha256 p q Identity"
  by (cases "filter (pool_match q) (po_identity_pool p)")
     (auto simp: identity_gate_def gate_passes_def Let_def)

lemma bohr_gate_ok:
  "bohr_gate (po_bohr p) (rq_bohr_job q) = Ok () \<longleftrightarrow> gate_passes fs fs_read sha256 p q Bohr"
  by (cases "rq_bohr_job q")
     (auto simp: bohr_gate_def gate_passes_def admit_job_def admit_local_def list_ex_iff f64_lt_finite not_less)

lemma hex_bytes_lowered [simp]: "to_ascii_lowercase (hex_bytes bs) = hex_bytes bs"
  using hex_bytes_lower [of bs] by (simp add: is_lower_hex_def)

lemma cli_hash_gate_ok:
  "cli_hash_gate fs_read sha256 p q = Ok () \<longleftrightarrow>
     (\<exists>bytes. fs_read (rq_cli_path q) = Some bytes
        \<and> to_ascii_lowercase (cp_trusted_cli_sha256 (po_channel p)) = hex_bytes (sha256 bytes))"
  by (auto simp: cli_hash_gate_def sha256_file_def sha256_bytes_def eq_ignore_ascii_case_def split: option.splits)

text \<open>An early return names a gate that does not pass.\<close>

definition gate_checks_sound :: "(Gate \<Rightarrow> bool) \<Rightarrow> (Gate \<times> Reason + unit) list \<Rightarrow> bool" where
  "gate_checks_sound passes cs \<longleftrightarrow> (\<forall>g reason. Inl (g, reason) \<in> set cs \<longrightarrow> \<not> passes g)"

lemma gate_checks_soundD:
  "gate_checks_sound passes cs \<Longrightarrow> checks cs = Inl (g, reason) \<Longrightarrow> \<not> passes g"
  by (auto simp: gate_checks_sound_def dest: checks_err)

lemma gate_checks_sound_simps [simp]:
  "gate_checks_sound passes []"
  "gate_checks_sound passes (c # cs) \<longleftrightarrow>
     (\<forall>g reason. c = Inl (g, reason) \<longrightarrow> \<not> passes g) \<and> gate_checks_sound passes cs"
  by (auto simp: gate_checks_sound_def)

lemma map_err_err [simp]: "map_err f r = Inl e \<longleftrightarrow> (\<exists>e'. r = Inl e' \<and> e = f e')"
  by (auto simp: map_err_def split: sum.splits)

lemma cadence_gate:
  "(\<not> is_finite (rq_estimated_cost_usd q) \<or> \<not> is_finite (ca_max_estimated_cost_usd (po_cadence p))
    \<or> f64_lt (ca_max_estimated_cost_usd (po_cadence p)) (Fin 0) \<or> f64_lt (rq_estimated_cost_usd q) (Fin 0)
    \<or> f64_lt (ca_max_estimated_cost_usd (po_cadence p)) (rq_estimated_cost_usd q))
   \<longleftrightarrow> \<not> gate_passes fs fs_read sha256 p q Cadence"
  by (auto simp: gate_passes_def f64_lt_finite)

lemma all_gates:
  "(\<forall>g. P g) \<longleftrightarrow> P Channel \<and> P Identity \<and> P Cadence \<and> P Redline \<and> P Trace \<and> P Model \<and> P Bohr"
  by (metis Gate.exhaust)

lemma admission_checks_ok:
  "list_all (\<lambda>c. c = Ok ()) (admission_checks fs fs_read sha256 p q)
   \<longleftrightarrow> (\<forall>g. gate_passes fs fs_read sha256 p q g)"
  unfolding all_gates admission_checks_def Let_def cadence_gate [of q p fs fs_read sha256]
  by (simp add: identity_gate_ok [of _ _ fs fs_read sha256] bohr_gate_ok [of _ _ fs fs_read sha256]
        cli_hash_gate_ok) (auto simp: gate_passes_def)

lemma admission_checks_sound:
  "gate_checks_sound (gate_passes fs fs_read sha256 p q) (admission_checks fs fs_read sha256 p q)"
proof -
  have err: "r = Inl e \<Longrightarrow> r \<noteq> Ok ()" for r :: "Reason + unit" and e by simp
  show ?thesis
    unfolding admission_checks_def Let_def cadence_gate [of q p fs fs_read sha256]
    by (auto dest!: err simp: identity_gate_ok [of _ _ fs fs_read sha256] bohr_gate_ok [of _ _ fs fs_read sha256]
          cli_hash_gate_ok) (auto simp: gate_passes_def)
qed

section \<open>Properties\<close>

text \<open>
  C34. \<open>Policy::admit\<close> is the conjunction of the seven gates: a submission is allowed exactly when
  every gate passes, whatever the order of the early returns; the failure list is empty exactly for
  an allowed submission, and a refused one carries a single failure, which names a gate that does
  not pass.
\<close>

theorem admission_is_the_conjunction_of_the_gates:
  "(ad_allowed (admit fs fs_read sha256 p q) \<longleftrightarrow> (\<forall>g. gate_passes fs fs_read sha256 p q g))
   \<and> (ad_allowed (admit fs fs_read sha256 p q) \<longleftrightarrow> ad_failures (admit fs fs_read sha256 p q) = [])
   \<and> ((\<exists>f. ad_failures (admit fs fs_read sha256 p q) = [f] \<and> \<not> gate_passes fs fs_read sha256 p q (gf_gate f))
      \<longleftrightarrow> \<not> ad_allowed (admit fs fs_read sha256 p q))"
proof (cases "checks (admission_checks fs fs_read sha256 p q)")
  case (Inl e)
  then obtain g reason where e: "checks (admission_checks fs fs_read sha256 p q) = Inl (g, reason)"
    by (cases e) auto
  then have "\<not> gate_passes fs fs_read sha256 p q g"
    using gate_checks_soundD [OF admission_checks_sound] by blast
  then show ?thesis
    using e by (auto simp: admit_def denied_def)
next
  case (Inr u)
  then have "\<forall>g. gate_passes fs fs_read sha256 p q g"
    by (simp add: admission_checks_ok)
  moreover have "admit fs fs_read sha256 p q = allow"
    using Inr unfolding admit_def by (simp only: sum.case)
  ultimately show ?thesis
    by (simp add: allow_def)
qed

text \<open>
  In solver mode a network tool is allowed only with a URL of the scheme http or https whose
  text up to the first of \<open>/ ? # :\<close> is a valid host name, under a policy that does not deny all,
  for a host whose labels end in the labels of an allowed domain and of no denied domain that is
  written in lower case.  The default policy blocks every network tool.
\<close>

theorem egress_is_allowlisted:
  assumes "is_network_tool tool"
  shows "(network_tool_egress_preflight get_url tool input policy True = Allow \<longrightarrow>
      (\<exists>scheme host rest. get_url input = Some (scheme @ host @ rest)
         \<and> scheme \<in> {''https://'', ''http://''} \<and> (rest = [] \<or> hd rest \<in> set ''/?#:'')
         \<and> is_valid_hostname host \<and> \<not> eg_deny_all policy
         \<and> (\<exists>d \<in> set (eg_allowed_domains policy).
               suffix (labels (to_ascii_lowercase d)) (labels (to_ascii_lowercase host)))
         \<and> (\<forall>d \<in> set (eg_denied_domains policy). d = to_ascii_lowercase d \<longrightarrow>
               \<not> suffix (labels d) (labels (to_ascii_lowercase host)))))
    \<and> network_tool_egress_preflight get_url tool input EgressPolicy_default True = Block"
proof (intro conjI impI)
  assume a: "network_tool_egress_preflight get_url tool input policy True = Allow"
  obtain url host where u: "get_url input = Some url" "extract_network_host url = Ok host"
    "validate_egress host policy = Ok ()"
    using a assms unfolding network_tool_egress_preflight_def
    by (cases "get_url input") (auto split: if_splits sum.splits)
  obtain scheme rest where r: "scheme \<in> {''https://'', ''http://''}" "url = scheme @ host @ rest"
    "rest = [] \<or> hd rest \<in> set ''/?#:''"
    using extract_network_host_ok [OF u(2)] by (elim conjE exE) assumption
  have "is_valid_hostname host" "\<not> eg_deny_all policy"
    using u(3) by (simp_all add: validate_egress_ok)
  with r(1,3) validate_egress_allowlisted [OF u(3)] u(1) [unfolded r(2)]
  show "\<exists>scheme host rest. get_url input = Some (scheme @ host @ rest)
         \<and> scheme \<in> {''https://'', ''http://''} \<and> (rest = [] \<or> hd rest \<in> set ''/?#:'')
         \<and> is_valid_hostname host \<and> \<not> eg_deny_all policy
         \<and> (\<exists>d \<in> set (eg_allowed_domains policy).
               suffix (labels (to_ascii_lowercase d)) (labels (to_ascii_lowercase host)))
         \<and> (\<forall>d \<in> set (eg_denied_domains policy). d = to_ascii_lowercase d \<longrightarrow>
               \<not> suffix (labels d) (labels (to_ascii_lowercase host)))"
    by (intro exI conjI) (assumption | erule conjunct1 | erule conjunct2)+
next
  show "network_tool_egress_preflight get_url tool input EgressPolicy_default True = Block"
    by (auto simp: network_tool_egress_preflight_def validate_egress_def EgressPolicy_default_def assms Let_def
             split: option.splits sum.splits)
qed

definition sample_egress :: EgressPolicy where
  "sample_egress = \<lparr> eg_deny_all = False, eg_allowed_domains = [''example.org''], eg_denied_domains = [''Bad.example.org''] \<rparr>"

theorem egress_is_allowlisted_witness:
  "is_network_tool ''WebFetch''
   \<and> network_tool_egress_preflight Some ''WebFetch'' ''https://API.example.org/v1'' sample_egress True = Allow
   \<and> network_tool_egress_preflight Some ''WebFetch'' ''https://example.org.evil.net/'' sample_egress True = Block
   \<and> network_tool_egress_preflight Some ''WebFetch'' ''https://API.example.org/v1'' EgressPolicy_default True = Block"
proof -
  have t: "is_network_tool ''WebFetch''"
    by code_simp
  have "network_tool_egress_preflight Some ''WebFetch'' ''https://API.example.org/v1'' sample_egress True = Allow"
    "network_tool_egress_preflight Some ''WebFetch'' ''https://example.org.evil.net/'' sample_egress True = Block"
    by code_simp+
  then show ?thesis
    using t egress_is_allowlisted [OF t, of Some "''https://API.example.org/v1''" sample_egress] by blast
qed

text \<open>
  The text before the first colon is taken for the host: a URL with user information,
  \<open>https://<allowed>:<anything>@<other>/\<close>, whose host is \<open><other>\<close>, is judged by \<open><allowed>\<close>.
\<close>

theorem userinfo_is_taken_for_the_host:
  "network_tool_egress_preflight Some ''webfetch'' (''https://example.org:x@'' @ other) sample_egress True = Allow"
proof -
  have "strip_prefix ''https://'' (''https://'' @ ''example.org:x@'' @ other) = Some (''example.org:x@'' @ other)"
    by (rule strip_prefix_append)
  moreover have "hd (split_by (\<lambda>c. c = CHR '':'') (hd (split_by (\<lambda>c. c \<in> set ''/?#'') (''example.org:x@'' @ other)))) = ''example.org''"
    by (simp only: split_by_hd) simp
  moreover have "is_valid_hostname ''example.org''" "validate_egress ''example.org'' sample_egress = Ok ()"
    "is_network_tool ''webfetch''"
    by code_simp+
  ultimately show ?thesis
    by (simp add: network_tool_egress_preflight_def extract_network_host_def Let_def)
qed

text \<open>
  A denied domain written with an upper-case letter does not cover its subdomains: the host is
  lower-cased, the domain in the suffix test is not.
\<close>

theorem denied_subdomain_is_admitted:
  "validate_egress ''bad.example.org'' sample_egress = Err ''egress host is denied by the policy''
   \<and> validate_egress ''www.bad.example.org'' sample_egress = Ok ()"
  by code_simp

text \<open>
  A cloud job that needs more memory than the local limit is refused while heavy work must move to
  the cloud: \<open>admit\<close> applies the limit of local runs to the cloud job.
\<close>

theorem heavy_cloud_job_is_refused:
  assumes "rq_bohr_job q = Some j" "bp_heavy_must_cloud (po_bohr p)"
    and "bp_local_mem_limit_gb (po_bohr p) < bj_est_mem_gb j"
  shows "\<not> ad_allowed (admit fs fs_read sha256 p q)"
proof -
  have "\<not> gate_passes fs fs_read sha256 p q Bohr"
    using assms by (simp add: gate_passes_def)
  then have "checks (admission_checks fs fs_read sha256 p q) \<noteq> Ok ()"
    by (auto simp: admission_checks_ok)
  then show ?thesis
    by (cases "checks (admission_checks fs fs_read sha256 p q)")
       (auto simp: admit_def denied_def)
qed

lemma next_backoff_ok:
  assumes "0 < base" "base \<le> limit" "limit \<le> u64_max"
  shows "next_backoff_ms n base limit = Ok (min (base * 2 ^ min n 63) limit)"
proof -
  have "checked_shl (min n 63) = Some (2 ^ min n 63)"
    by (simp add: checked_shl_def min_less_iff_disj)
  then show ?thesis
    using assms by (simp add: next_backoff_ms_def saturating_mul_def min.assoc min_absorb2)
qed

text \<open>
  The supervisor's backoff is defined exactly for a positive base not above the limit; the delay
  lies between base and limit, never shrinks and at most doubles from one attempt to the next, and
  is \<open>base * 2^attempt\<close> capped at the limit, computed without overflow, for every attempt below 64
  and for every attempt at all when the limit is at most \<open>base * 2^63\<close>.
\<close>

theorem backoff_is_capped_doubling:
  assumes "limit \<le> u64_max"
  shows "(is_ok (map_err id (next_backoff_ms n base limit)) \<longleftrightarrow> 0 < base \<and> base \<le> limit)
    \<and> (\<forall>d. next_backoff_ms n base limit = Ok d \<longrightarrow>
         base \<le> d \<and> d \<le> limit
         \<and> (n < 64 \<or> limit \<le> base * 2 ^ 63 \<longrightarrow> d = min (base * 2 ^ n) limit)
         \<and> (\<exists>d'. next_backoff_ms (Suc n) base limit = Ok d' \<and> d \<le> d' \<and> d' \<le> 2 * d))"
proof (cases "0 < base \<and> base \<le> limit")
  case False
  then show ?thesis
    by (auto simp: next_backoff_ms_def map_err_def)
next
  case True
  then have ok: "next_backoff_ms m base limit = Ok (min (base * 2 ^ min m 63) limit)" for m
    using assms by (simp add: next_backoff_ok)
  let ?d = "\<lambda>m. min (base * 2 ^ min m 63) limit"
  have "base \<le> base * 2 ^ min n 63"
    by simp
  then have "base \<le> ?d n"
    using True by simp
  moreover have "?d n = min (base * 2 ^ n) limit" if "n < 64 \<or> limit \<le> base * 2 ^ 63"
  proof (cases "n < 64")
    case False
    then have "base * 2 ^ 63 \<le> base * 2 ^ n"
      by (intro mult_le_mono2 power_increasing) auto
    moreover have "limit \<le> base * 2 ^ 63" "min n 63 = 63"
      using that False by simp_all
    ultimately show ?thesis
      by (metis min_absorb2 order_trans)
  qed (simp add: min_def)
  moreover have "(2::nat) ^ min n 63 \<le> 2 ^ min (Suc n) 63" "(2::nat) ^ min (Suc n) 63 \<le> 2 * 2 ^ min n 63"
    by (cases "n < 63"; simp add: min_def; fail)+
  then have "base * 2 ^ min n 63 \<le> base * 2 ^ min (Suc n) 63"
    "base * 2 ^ min (Suc n) 63 \<le> 2 * (base * 2 ^ min n 63)"
    by (simp_all del: power_Suc)
  then have "?d n \<le> ?d (Suc n)" "?d (Suc n) \<le> 2 * ?d n"
    by linarith+
  ultimately show ?thesis
    using True ok by (simp add: map_err_def del: power_Suc)
qed

theorem backoff_is_capped_doubling_witness:
  "next_backoff_ms 3 1000 60000 = Ok 8000 \<and> (60000::nat) \<le> u64_max
   \<and> (\<exists>d'. next_backoff_ms 4 1000 60000 = Ok d' \<and> 8000 \<le> d' \<and> d' \<le> 16000)"
proof -
  have "(60000::nat) \<le> u64_max" "next_backoff_ms 3 1000 60000 = Ok 8000"
    by (simp_all add: u64_max_def next_backoff_ok)
  then show ?thesis
    using backoff_is_capped_doubling [of 60000 3 1000] by simp
qed

text \<open>
  In solver mode the two spawn preflights together admit a child exactly when it has a parent,
  is at depth one, is durable and declares the solver name of a role other than the chief.
\<close>

theorem solver_child_is_direct_and_durable:
  "(lineage_preflight r True = Ok () \<and> solver_spawn_depth_preflight (lr_depth r) True = Ok ())
   \<longleftrightarrow> lr_parent_present r \<and> lr_depth r = 1 \<and> \<not> lr_ephemeral r
       \<and> (\<exists>role. role \<noteq> Chief \<and> lr_role r = approved_solver_role_name role)"
proof -
  have "(\<exists>role. role \<noteq> Chief \<and> x = approved_solver_role_name role)
        \<longleftrightarrow> (\<exists>s. x = Some s \<and> is_approved_solver_role s)" for x
  proof -
    have approved: "is_approved_solver_role s \<longleftrightarrow> (\<exists>role. approved_solver_role_name role = Some s)"
      and chief: "approved_solver_role_name Chief \<noteq> Some s" for s
      using solver_role_names_agree [of s] by auto
    have "\<exists>s. approved_solver_role_name role = Some s" if "role \<noteq> Chief" for role
      using that by (cases role) (simp_all add: approved_solver_role_name_def)
    then show ?thesis
      unfolding approved using chief by metis
  qed
  moreover have "(lineage_preflight r True = Ok () \<and> solver_spawn_depth_preflight (lr_depth r) True = Ok ())
     \<longleftrightarrow> lr_parent_present r \<and> lr_depth r = 1 \<and> \<not> lr_ephemeral r
         \<and> (\<exists>s. lr_role r = Some s \<and> is_approved_solver_role s)"
    by (cases "lr_role r") (auto simp: lineage_preflight_def solver_spawn_depth_preflight_def)
  ultimately show ?thesis by presburger
qed

lemma role_name_roundtrip: "parse_role_name v = Ok r \<longleftrightarrow> v = role_name r"
  by (cases r) (auto simp: parse_role_name_def role_name_def)

end
