(* ===== verification/LedgerStore.thy ===== *)
theory LedgerStore
  imports GuardGates Leases ResearchCycle RecoveryCanary Reconciliation
begin

text \<open>
  The store of the solver guard's ledger (\<open>Ledger\<close> in \<open>solver-guard/src/lib.rs\<close>) and its event log.

  The ledger is a SQLite database with one connection.  A table is the list of its rows in insertion
  order, a row is a record with one field per column (\<open>INTEGER\<close> is \<open>int\<close>, \<open>REAL\<close> is \<open>f64\<close>, a nullable
  column an option), and the database is the record of its tables.  \<open>SELECT\<close> filters, \<open>UPDATE\<close> maps
  and reports the number of rows it hit, \<open>INSERT\<close> fails with a database error when the new row clashes
  with a stored one on a primary key or a unique index.  An operation maps the database to an error or
  to a result and the new database: a transaction that is dropped before its \<open>commit\<close> is rolled back,
  so an error leaves the database as it was.  Failures of the storage itself are not modelled.

  SHA-256, \<open>serde_json\<close> for each stored type, the file system and SQLite's \<open>SUM\<close> over \<open>REAL\<close> are
  parameters, collected in the record \<open>Env\<close>.
\<close>

section \<open>Results\<close>

lemma err_eq_simps [simp]:
  "Inl e = fail_if b e' \<longleftrightarrow> b \<and> e = e'" "Inl e = map_err g r \<longleftrightarrow> (\<exists>e'. r = Inl e' \<and> e = g e')"
  using fail_if_err [of b e' e] map_err_err [of g r e] by metis+

section \<open>Tables\<close>

text \<open>
  \<open>insert_row clash r t\<close> is \<open>INSERT\<close> into a table whose primary key and unique indexes make two rows
  clash; \<open>fetch_optional\<close> is the first row of a \<open>SELECT\<close>.
\<close>

definition insert_row :: "('r \<Rightarrow> 'r \<Rightarrow> bool) \<Rightarrow> 'r \<Rightarrow> 'r list \<Rightarrow> LedgerError + 'r list" where
  "insert_row clash r t = (if list_ex (clash r) t then Err Database else Ok (t @ [r]))"

definition update_where :: "('r \<Rightarrow> bool) \<Rightarrow> ('r \<Rightarrow> 'r) \<Rightarrow> 'r list \<Rightarrow> 'r list" where
  "update_where p f t = map (\<lambda>r. if p r then f r else r) t"

definition rows_affected :: "('r \<Rightarrow> bool) \<Rightarrow> 'r list \<Rightarrow> nat" where
  "rows_affected p t = length (filter p t)"

definition fetch_optional :: "('r \<Rightarrow> bool) \<Rightarrow> 'r list \<Rightarrow> 'r option" where
  "fetch_optional p t = List.find p t"

lemma insert_row_ok [simp]:
  "insert_row clash r t = Inr t' \<longleftrightarrow> t' = t @ [r] \<and> (\<forall>x \<in> set t. \<not> clash r x)"
  by (auto simp: insert_row_def list_ex_iff)

lemma fetch_optional_SomeD: "fetch_optional p t = Some r \<Longrightarrow> r \<in> set t \<and> p r"
  by (auto simp: fetch_optional_def find_Some_iff)

lemma fetch_optional_None: "fetch_optional p t = None \<longleftrightarrow> (\<forall>r \<in> set t. \<not> p r)"
  by (auto simp: fetch_optional_def find_None_iff)

lemma rows_affected_0 [simp]: "rows_affected p t = 0 \<longleftrightarrow> (\<forall>r \<in> set t. \<not> p r)"
  by (auto simp: rows_affected_def filter_empty_conv)

lemma set_update_where: "set (update_where p f t) = (\<lambda>r. if p r then f r else r) ` set t"
  by (simp add: update_where_def)

lemma fetch_update_where:
  assumes "\<And>r. q (f r) \<longleftrightarrow> q r"
  shows "fetch_optional q (update_where p f t) = map_option (\<lambda>r. if p r then f r else r) (fetch_optional q t)"
  using assms by (induction t) (auto simp: fetch_optional_def update_where_def)

lemma fetch_append: "fetch_optional p (t @ u) = (case fetch_optional p t of Some r \<Rightarrow> Some r | None \<Rightarrow> fetch_optional p u)"
  by (induction t) (simp_all add: fetch_optional_def)

lemma fetch_simps [simp]:
  "fetch_optional p [] = None"
  "fetch_optional p (r # t) = (if p r then Some r else fetch_optional p t)"
  by (simp_all add: fetch_optional_def)

lemma update_where_simps [simp]:
  "update_where p f [] = []"
  "update_where p f (r # t) = (if p r then f r else r) # update_where p f t"
  by (simp_all add: update_where_def)

text \<open>
  What a table with a unique index promises its clients: stored rows never clash, an inserted row is
  found by what identifies it, and an update that touches no key keeps the table consistent.
\<close>

locale unique_table =
  fixes clash :: "'r \<Rightarrow> 'r \<Rightarrow> bool"
  assumes clash_sym: "clash a b \<Longrightarrow> clash b a"
begin

definition consistent :: "'r list \<Rightarrow> bool" where
  "consistent t \<longleftrightarrow> sorted_wrt (\<lambda>a b. \<not> clash a b) t"

lemma consistent_Nil: "consistent []"
  by (simp add: consistent_def)

lemma consistent_insert: "consistent t \<Longrightarrow> insert_row clash r t = Inr t' \<Longrightarrow> consistent t'"
  by (auto simp: consistent_def sorted_wrt_append dest: clash_sym)

lemma consistent_update:
  assumes "consistent t" and keeps: "\<And>a b. clash (upd a) b \<Longrightarrow> clash a b"
  shows "consistent (update_where p upd t)"
proof -
  have "clash a b" if "clash (if p a then upd a else a) (if p b then upd b else b)" for a b
  proof -
    have "clash a (if p b then upd b else b)"
      using that keeps [of a] by (cases "p a") simp_all
    then have "clash (if p b then upd b else b) a"
      by (rule clash_sym)
    then have "clash b a"
      using keeps [of b] by (cases "p b") simp_all
    then show ?thesis
      by (rule clash_sym)
  qed
  note step = this
  show ?thesis
    using assms(1) unfolding consistent_def update_where_def sorted_wrt_map
    by (rule sorted_wrt_mono_rel [rotated]) (use step in blast)
qed

lemma consistent_unique:
  assumes "consistent t" "a \<in> set t" "b \<in> set t" "clash a b"
  shows "a = b"
  using assms unfolding consistent_def
  by (induction t) (auto dest: clash_sym)

lemma fetch_unique:
  assumes "consistent t" "r \<in> set t" "p r" "\<And>x. p x \<Longrightarrow> clash r x"
  shows "fetch_optional p t = Some r"
proof (cases "fetch_optional p t")
  case None
  then show ?thesis using assms(2,3) by (auto simp: fetch_optional_None)
next
  case (Some x)
  then have "x \<in> set t" "p x" by (auto dest: fetch_optional_SomeD)
  then show ?thesis using Some consistent_unique [OF assms(1,2)] assms(4) by blast
qed

end

text \<open>
  Tables whose rows are only ever appended and, once, closed: leases, cycles, briefs and bindings are
  revoked, wakes acknowledged, reservations settled.  Closing is final, and the identifier of a closed
  row is never free again.
\<close>

locale revocable_table = unique_table clash for clash :: "'r \<Rightarrow> 'r \<Rightarrow> bool" +
  fixes id_of :: "'r \<Rightarrow> string" and revoked_at :: "'r \<Rightarrow> 'v option" and set_revoked :: "'v \<Rightarrow> 'r \<Rightarrow> 'r"
  assumes id_clash: "id_of a = id_of b \<Longrightarrow> clash a b"
    and revoked_set: "revoked_at (set_revoked m r) = Some m"
    and set_clash: "clash (set_revoked m a) b \<Longrightarrow> clash a b"
    and set_id: "id_of (set_revoked m r) = id_of r"
begin

definition row_evolves :: "'r \<Rightarrow> 'r \<Rightarrow> bool" where
  "row_evolves r r' \<longleftrightarrow> r' = r \<or> revoked_at r = None \<and> (\<exists>m. r' = set_revoked m r)"

definition evolves :: "'r list \<Rightarrow> 'r list \<Rightarrow> bool" where
  "evolves t t' \<longleftrightarrow> (\<exists>pre new. t' = pre @ new \<and> list_all2 row_evolves t pre)"

lemma row_evolves_refl: "row_evolves r r"
  by (simp add: row_evolves_def)

lemma row_evolves_trans: "row_evolves a b \<Longrightarrow> row_evolves b c \<Longrightarrow> row_evolves a c"
  by (auto simp: row_evolves_def revoked_set)

lemma evolves_refl: "evolves t t"
  unfolding evolves_def by (metis append_Nil2 list_all2_refl row_evolves_refl)

lemma evolves_trans:
  assumes "evolves t u" "evolves u w"
  shows "evolves t w"
proof -
  obtain pre new pre' new' where u: "u = pre @ new" "list_all2 row_evolves t pre"
    and w: "w = pre' @ new'" "list_all2 row_evolves u pre'"
    using assms unfolding evolves_def by blast
  then obtain a b where ab: "pre' = a @ b" "list_all2 row_evolves pre a"
    by (auto simp: list_all2_append1)
  have "list_all2 row_evolves t a"
    using row_evolves_trans u(2) ab(2) by (rule list_all2_trans)
  moreover have "w = a @ (b @ new')" using w(1) ab(1) by simp
  ultimately show ?thesis unfolding evolves_def by blast
qed

lemma evolves_insert: "insert_row clash r t = Inr t' \<Longrightarrow> evolves t t'"
  unfolding evolves_def by (auto simp: row_evolves_refl list_all2_refl)

lemma evolves_revoke: "(\<And>r. p r \<Longrightarrow> revoked_at r = None) \<Longrightarrow> evolves t (update_where p (set_revoked m) t)"
  unfolding evolves_def update_where_def
  by (intro exI [of _ "map (\<lambda>r. if p r then set_revoked m r else r) t"] exI [of _ "[]"])
     (auto simp: list_all2_conv_all_nth row_evolves_def)

lemma consistent_revoke: "consistent t \<Longrightarrow> consistent (update_where p (set_revoked m) t)"
  using consistent_update set_clash by blast

lemma evolves_row: "evolves t t' \<Longrightarrow> r \<in> set t \<Longrightarrow> \<exists>r' \<in> set t'. row_evolves r r'"
  unfolding evolves_def by (fastforce simp: list_all2_conv_all_nth in_set_conv_nth)

lemma revoked_stays: "evolves t t' \<Longrightarrow> r \<in> set t \<Longrightarrow> revoked_at r \<noteq> None \<Longrightarrow> r \<in> set t'"
  using evolves_row by (fastforce simp: row_evolves_def)

lemma revoked_dead:
  assumes "evolves t t'" "consistent t'" "r \<in> set t" "revoked_at r \<noteq> None" "x \<in> set t'" "id_of x = id_of r"
  shows "x = r"
  using consistent_unique [OF assms(2,5) revoked_stays [OF assms(1,3,4)] id_clash [OF assms(6)]] .

end

section \<open>The tables of the ledger\<close>

record ReservationRow =
  rs_id :: string
  rs_challenge_id :: string
  rs_owner :: string
  rs_estimated_cost :: f64
  rs_state :: string

record DimensionRow =
  rd_reservation_id :: string
  rd_identity :: string
  rd_identity_class :: string
  rd_created_at_ms :: int

record PoolRow =
  pr_name :: string
  pr_challenge_id :: string
  pr_owner :: string
  pr_identity_class :: string
  pr_frozen :: bool
  pr_max_reserved_cost_usd :: "f64 option"
  pr_max_concurrent_reservations :: "int option"
  pr_min_interval_seconds :: "int option"
  pr_provisioned_at_ms :: int
  pr_updated_at_ms :: int
  pr_removed_at_ms :: "int option"

record WakeRow =
  wk_wake_id :: string
  wk_request_json :: string
  wk_request_sha256 :: string
  wk_state :: string
  wk_recorded_at_ms :: int
  wk_acked_at_ms :: "int option"
  wk_event_version :: int

record ConfirmationRow =
  cf_confirmation_id :: string
  cf_attempt_id :: string
  cf_owner :: string
  cf_confirmation_json :: string
  cf_confirmation_sha256 :: string
  cf_state :: string
  cf_recorded_at_ms :: int
  cf_event_version :: int

record AttemptRow =
  at_id :: string
  at_challenge_id :: string
  at_owner :: string
  at_content_sha256 :: string
  at_started_at_ms :: int
  at_state :: string
  at_result_json :: "string option"

record EventRow =
  ew_event_id :: string
  ew_idempotency_key :: string
  ew_aggregate_type :: string
  ew_aggregate_id :: string
  ew_state_version :: int
  ew_event_type :: string
  ew_payload_json :: string
  ew_occurred_at_ms :: int

record LeaseRow =
  lw_lease_id :: string
  lw_agent_id :: string
  lw_session_id :: string
  lw_thread_id :: string
  lw_campaign_id :: string
  lw_challenge_id :: string
  lw_role :: string
  lw_context_json :: string
  lw_registered_at_ms :: int
  lw_revoked_at_ms :: "int option"

record CycleRow =
  cy_cycle_id :: string
  cy_campaign_id :: string
  cy_challenge_id :: string
  cy_chief_lease_id :: string
  cy_cycle_json :: string
  cy_cycle_sha256 :: string
  cy_cycle_event_version :: int
  cy_issued_at_ms :: int
  cy_revoked_at_ms :: "int option"

record BriefRow =
  bf_brief_id :: string
  bf_cycle_id :: string
  bf_campaign_id :: string
  bf_challenge_id :: string
  bf_role :: string
  bf_brief_json :: string
  bf_brief_sha256 :: string
  bf_workspace_root :: string
  bf_capability_map_path :: string
  bf_issued_at_ms :: int
  bf_expires_at_ms :: int
  bf_revoked_at_ms :: "int option"

record BindingRow =
  bd_binding_id :: string
  bd_thread_id :: string
  bd_parent_thread_id :: "string option"
  bd_agent_id :: string
  bd_session_id :: string
  bd_campaign_id :: string
  bd_challenge_id :: string
  bd_cycle_id :: string
  bd_cycle_event_version :: int
  bd_chief_lease_id :: string
  bd_role :: string
  bd_issued_at_ms :: int
  bd_revoked_at_ms :: "int option"

record ObservationRow =
  ob_observation_id :: string
  ob_event_id :: string
  ob_campaign_id :: string
  ob_challenge_id :: string
  ob_attempt_id :: string
  ob_monitor_lease_id :: string
  ob_observation_json :: string
  ob_observation_sha256 :: string
  ob_response_sha256 :: string
  ob_observed_at_ms :: int
  ob_event_version :: int

record CanaryRow =
  cn_recovery_id :: string
  cn_event_id :: string
  cn_runtime_instance_id :: string
  cn_recovery_attempt :: int
  cn_trace_json :: string
  cn_trace_sha256 :: string
  cn_recorded_at_ms :: int

record SnapshotRow =
  sn_campaign_id :: string
  sn_challenge_id :: string
  sn_stream_id :: string
  sn_snapshot_json :: string
  sn_snapshot_sha256 :: string
  sn_cursor_position :: "int option"
  sn_updated_at_ms :: int
  sn_event_version :: "int option"

record ItemRow =
  it_item_id :: string
  it_event_id :: string
  it_campaign_id :: string
  it_challenge_id :: string
  it_attempt_id :: string
  it_stream_id :: string
  it_item_json :: string
  it_item_sha256 :: string
  it_response_sha256 :: string
  it_cursor_position :: int
  it_observed_at_ms :: int
  it_item_state :: string
  it_event_version :: int

record PenaltyRow =
  pn_penalty_id :: string
  pn_campaign_id :: string
  pn_challenge_id :: string
  pn_attempt_id :: string
  pn_stream_id :: string
  pn_response_sha256 :: string
  pn_penalty_object :: string
  pn_penalty_reason :: string
  pn_raw_score :: "f64 option"
  pn_effective_score :: "f64 option"
  pn_rewritten_score :: f64
  pn_recorded_at_ms :: int
  pn_event_version :: int

record Ledger =
  reservations :: "ReservationRow list"
  reservation_dimensions :: "DimensionRow list"
  identity_pool_entries :: "PoolRow list"
  chief_wake_requests :: "WakeRow list"
  leaderboard_confirmations :: "ConfirmationRow list"
  attempts :: "AttemptRow list"
  coordination_events :: "EventRow list"
  actor_leases :: "LeaseRow list"
  research_cycle_issuances :: "CycleRow list"
  stage_brief_issuances :: "BriefRow list"
  thread_cycle_bindings :: "BindingRow list"
  platform_observations :: "ObservationRow list"
  recovery_canaries :: "CanaryRow list"
  reconciliation_snapshots :: "SnapshotRow list"
  reconciliation_items :: "ItemRow list"
  reconciliation_penalties :: "PenaltyRow list"

text \<open>\<open>initialize\<close> on a new database.\<close>

definition initialize :: Ledger where
  "initialize =
     \<lparr> reservations = [], reservation_dimensions = [], identity_pool_entries = [],
       chief_wake_requests = [], leaderboard_confirmations = [], attempts = [],
       coordination_events = [], actor_leases = [], research_cycle_issuances = [],
       stage_brief_issuances = [], thread_cycle_bindings = [], platform_observations = [],
       recovery_canaries = [], reconciliation_snapshots = [], reconciliation_items = [],
       reconciliation_penalties = [] \<rparr>"

text \<open>The primary keys and unique indexes of the schema.\<close>

definition reservation_clash :: "ReservationRow \<Rightarrow> ReservationRow \<Rightarrow> bool" where
  "reservation_clash a b \<longleftrightarrow> rs_id a = rs_id b"

definition dimension_clash :: "DimensionRow \<Rightarrow> DimensionRow \<Rightarrow> bool" where
  "dimension_clash a b \<longleftrightarrow> rd_reservation_id a = rd_reservation_id b"

definition pool_clash :: "PoolRow \<Rightarrow> PoolRow \<Rightarrow> bool" where
  "pool_clash a b \<longleftrightarrow> pr_name a = pr_name b \<and> pr_challenge_id a = pr_challenge_id b
     \<and> pr_owner a = pr_owner b \<and> pr_identity_class a = pr_identity_class b"

definition wake_clash :: "WakeRow \<Rightarrow> WakeRow \<Rightarrow> bool" where
  "wake_clash a b \<longleftrightarrow> wk_wake_id a = wk_wake_id b"

definition confirmation_clash :: "ConfirmationRow \<Rightarrow> ConfirmationRow \<Rightarrow> bool" where
  "confirmation_clash a b \<longleftrightarrow> cf_confirmation_id a = cf_confirmation_id b"

definition attempt_clash :: "AttemptRow \<Rightarrow> AttemptRow \<Rightarrow> bool" where
  "attempt_clash a b \<longleftrightarrow> at_id a = at_id b"

definition event_clash :: "EventRow \<Rightarrow> EventRow \<Rightarrow> bool" where
  "event_clash a b \<longleftrightarrow> ew_event_id a = ew_event_id b \<or> ew_idempotency_key a = ew_idempotency_key b
     \<or> ew_aggregate_type a = ew_aggregate_type b \<and> ew_aggregate_id a = ew_aggregate_id b
       \<and> ew_state_version a = ew_state_version b"

definition lease_clash :: "LeaseRow \<Rightarrow> LeaseRow \<Rightarrow> bool" where
  "lease_clash a b \<longleftrightarrow> lw_lease_id a = lw_lease_id b
     \<or> lw_agent_id a = lw_agent_id b \<and> lw_session_id a = lw_session_id b
       \<and> lw_thread_id a = lw_thread_id b \<and> lw_campaign_id a = lw_campaign_id b
       \<and> lw_challenge_id a = lw_challenge_id b"

definition cycle_clash :: "CycleRow \<Rightarrow> CycleRow \<Rightarrow> bool" where
  "cycle_clash a b \<longleftrightarrow> cy_cycle_id a = cy_cycle_id b
     \<or> cy_revoked_at_ms a = None \<and> cy_revoked_at_ms b = None
       \<and> cy_campaign_id a = cy_campaign_id b \<and> cy_challenge_id a = cy_challenge_id b"

definition brief_clash :: "BriefRow \<Rightarrow> BriefRow \<Rightarrow> bool" where
  "brief_clash a b \<longleftrightarrow> bf_brief_id a = bf_brief_id b
     \<or> bf_cycle_id a = bf_cycle_id b \<and> bf_role a = bf_role b"

definition binding_clash :: "BindingRow \<Rightarrow> BindingRow \<Rightarrow> bool" where
  "binding_clash a b \<longleftrightarrow> bd_binding_id a = bd_binding_id b
     \<or> bd_revoked_at_ms a = None \<and> bd_revoked_at_ms b = None \<and> bd_thread_id a = bd_thread_id b"

definition observation_clash :: "ObservationRow \<Rightarrow> ObservationRow \<Rightarrow> bool" where
  "observation_clash a b \<longleftrightarrow> ob_observation_id a = ob_observation_id b \<or> ob_event_id a = ob_event_id b
     \<or> ob_attempt_id a = ob_attempt_id b \<and> ob_response_sha256 a = ob_response_sha256 b"

definition canary_clash :: "CanaryRow \<Rightarrow> CanaryRow \<Rightarrow> bool" where
  "canary_clash a b \<longleftrightarrow> cn_recovery_id a = cn_recovery_id b \<or> cn_event_id a = cn_event_id b
     \<or> cn_runtime_instance_id a = cn_runtime_instance_id b
       \<and> cn_recovery_attempt a = cn_recovery_attempt b"

definition snapshot_clash :: "SnapshotRow \<Rightarrow> SnapshotRow \<Rightarrow> bool" where
  "snapshot_clash a b \<longleftrightarrow> sn_stream_id a = sn_stream_id b \<and> sn_challenge_id a = sn_challenge_id b"

definition item_clash :: "ItemRow \<Rightarrow> ItemRow \<Rightarrow> bool" where
  "item_clash a b \<longleftrightarrow> it_item_id a = it_item_id b \<or> it_event_id a = it_event_id b
     \<or> it_attempt_id a = it_attempt_id b \<and> it_response_sha256 a = it_response_sha256 b"

definition penalty_clash :: "PenaltyRow \<Rightarrow> PenaltyRow \<Rightarrow> bool" where
  "penalty_clash a b \<longleftrightarrow> pn_penalty_id a = pn_penalty_id b
     \<or> pn_stream_id a = pn_stream_id b \<and> pn_attempt_id a = pn_attempt_id b
       \<and> pn_response_sha256 a = pn_response_sha256 b"

interpretation reservation_table: unique_table reservation_clash
  by unfold_locales (auto simp: reservation_clash_def)

interpretation dimension_table: unique_table dimension_clash
  by unfold_locales (auto simp: dimension_clash_def)

interpretation pool_table: unique_table pool_clash
  by unfold_locales (auto simp: pool_clash_def)

interpretation wake_table: unique_table wake_clash
  by unfold_locales (auto simp: wake_clash_def)

interpretation confirmation_table: unique_table confirmation_clash
  by unfold_locales (auto simp: confirmation_clash_def)

interpretation attempt_table: unique_table attempt_clash
  by unfold_locales (auto simp: attempt_clash_def)

interpretation event_table: unique_table event_clash
  by unfold_locales (auto simp: event_clash_def)

interpretation lease_table: revocable_table lease_clash lw_lease_id lw_revoked_at_ms
  "\<lambda>m r. r\<lparr> lw_revoked_at_ms := Some m \<rparr>"
  by unfold_locales (auto simp: lease_clash_def)

interpretation cycle_table: revocable_table cycle_clash cy_cycle_id cy_revoked_at_ms
  "\<lambda>m r. r\<lparr> cy_revoked_at_ms := Some m \<rparr>"
  by unfold_locales (auto simp: cycle_clash_def)

interpretation brief_table: revocable_table brief_clash bf_brief_id bf_revoked_at_ms
  "\<lambda>m r. r\<lparr> bf_revoked_at_ms := Some m \<rparr>"
  by unfold_locales (auto simp: brief_clash_def)

interpretation binding_table: revocable_table binding_clash bd_binding_id bd_revoked_at_ms
  "\<lambda>m r. r\<lparr> bd_revoked_at_ms := Some m \<rparr>"
  by unfold_locales (auto simp: binding_clash_def)

interpretation observation_table: unique_table observation_clash
  by unfold_locales (auto simp: observation_clash_def)

interpretation canary_table: unique_table canary_clash
  by unfold_locales (auto simp: canary_clash_def)

interpretation snapshot_table: unique_table snapshot_clash
  by unfold_locales (auto simp: snapshot_clash_def)

interpretation item_table: unique_table item_clash
  by unfold_locales (auto simp: item_clash_def)

interpretation penalty_table: unique_table penalty_clash
  by unfold_locales (auto simp: penalty_clash_def)

section \<open>Stored documents and the environment\<close>

record ChiefWakeRequest =
  wq_schema_version :: string
  wq_wake_id :: string
  wq_campaign_id :: string
  wq_challenge_id :: string
  wq_stream_id :: string
  wq_event_version :: int
  wq_cursor_position :: nat
  wq_response_sha256 :: string
  wq_summary_path :: "string option"
  wq_reason :: string
  wq_platform_write_attempted :: bool

text \<open>The retained leaderboard entry is a JSON value nothing looks at: its text.\<close>

record LeaderboardConfirmation =
  lc_schema_version :: string
  lc_confirmation_id :: string
  lc_attempt_id :: string
  lc_owner :: string
  lc_found :: bool
  lc_owner_match :: bool
  lc_score_match :: bool
  lc_scope_match :: bool
  lc_scope :: "string option"
  lc_state :: string
  lc_reason :: "string option"
  lc_response_sha256 :: string
  lc_entry :: "string option"

text \<open>\<open>serde_json::to_string\<close> and \<open>from_str\<close> at one type; \<open>None\<close> is their error.\<close>

record 'a Json =
  js_to_string :: "'a \<Rightarrow> string option"
  js_from_str :: "string \<Rightarrow> 'a option"

text \<open>The law the code relies on: what was written can be read back.\<close>

definition json_roundtrip :: "'a Json \<Rightarrow> bool" where
  "json_roundtrip j \<longleftrightarrow> (\<forall>x s. js_to_string j x = Some s \<longrightarrow> js_from_str j s = Some x)"

lemma json_roundtripD: "json_roundtrip j \<Longrightarrow> js_to_string j x = Some s \<Longrightarrow> js_from_str j s = Some x"
  by (simp add: json_roundtrip_def)

lemma json_roundtrip_inj:
  "json_roundtrip j \<Longrightarrow> js_to_string j x = Some s \<Longrightarrow> js_to_string j y = Some s \<Longrightarrow> x = y"
  by (metis json_roundtripD option.inject)

record Env =
  en_sha256 :: "string \<Rightarrow> string"
  en_sum :: "f64 list \<Rightarrow> f64"
  en_fs :: FileSystem
  en_read :: "string \<Rightarrow> string option"
  en_context :: "ActorContext Json"
  en_cycle :: "ResearchCycleRecord Json"
  en_supersede_payload :: "string \<Rightarrow> ResearchCycleRecord \<Rightarrow> string"
  en_revoke_payload :: "string \<Rightarrow> string"
  en_brief :: "StageBrief Json"
  en_observation :: "PlatformObservation Json"
  en_item :: "PlatformReconcileItem Json"
  en_snapshot :: "PlatformReconciliationSnapshot Json"
  en_trace :: "RecoveryCanaryTrace Json"
  en_wake :: "ChiefWakeRequest Json"
  en_confirmation :: "LeaderboardConfirmation Json"

text \<open>
  An environment for examples: a finite table of documents for each type, left-to-right addition for
  \<open>SUM\<close>.
\<close>

definition json_table :: "('a \<times> string) list \<Rightarrow> 'a Json" where
  "json_table t = \<lparr> js_to_string = map_of t, js_from_str = map_of (map prod.swap t) \<rparr>"

lemma json_table_roundtrip: "distinct (map snd t) \<Longrightarrow> json_roundtrip (json_table t)"
  by (auto simp: json_roundtrip_def json_table_def comp_def dest!: map_of_SomeD intro!: map_of_is_SomeI)

definition sample_env :: Env where
  "sample_env =
     \<lparr> en_sha256 = (\<lambda>s. ''h''), en_sum = foldl f64_add (Fin 0),
       en_fs = sample_fs ''/w'', en_read = (\<lambda>p. Some ''bytes''),
       en_context = json_table [], en_cycle = json_table [],
       en_supersede_payload = (\<lambda>c r. ''{}''), en_revoke_payload = (\<lambda>r. ''{}''),
       en_brief = json_table [], en_observation = json_table [], en_item = json_table [],
       en_snapshot = json_table [], en_trace = json_table [], en_wake = json_table [],
       en_confirmation = json_table [] \<rparr>"

end
