(* ===== verification/EventLog.thy ===== *)
theory EventLog
  imports LedgerStore
begin

text \<open>
  The audit log of the ledger: \<open>append_event_in_transaction\<close> and \<open>append_coordination_event\<close> of
  \<open>solver-guard/src/lib.rs\<close>.  Every audited operation of the ledger appends its event here in the
  transaction that makes its change.
\<close>

record CoordinationEventRecord =
  cr_event_id :: string
  cr_idempotency_key :: string
  cr_aggregate_type :: string
  cr_aggregate_id :: string
  cr_expected_version :: nat
  cr_event_type :: string
  cr_payload_json :: string
  cr_occurred_at_ms :: int

record AppendedEvent =
  ae_version :: nat
  ae_replayed :: bool

definition event_of_aggregate :: "string \<Rightarrow> string \<Rightarrow> EventRow \<Rightarrow> bool" where
  "event_of_aggregate t i r \<longleftrightarrow> ew_aggregate_type r = t \<and> ew_aggregate_id r = i"

text \<open>\<open>COALESCE(MAX(state_version), 0)\<close> over the events of one aggregate.\<close>

definition current_version :: "string \<Rightarrow> string \<Rightarrow> EventRow list \<Rightarrow> int" where
  "current_version t i es =
     (case map ew_state_version (filter (event_of_aggregate t i) es) of
        [] \<Rightarrow> 0
      | v # vs \<Rightarrow> foldl max v vs)"

text \<open>
  The comparison of a replay with the stored event.  The last conjunct adds one to the expected
  version as an \<open>i64\<close> (\<open>-1\<close> if it is too large for one), which panics at the largest value; it is
  evaluated only when the other columns agree.
\<close>

definition same_event :: "EventRow \<Rightarrow> CoordinationEventRecord \<Rightarrow> LedgerError + bool" where
  "same_event row e =
     (if \<not> (ew_event_id row = cr_event_id e \<and> ew_aggregate_type row = cr_aggregate_type e
           \<and> ew_aggregate_id row = cr_aggregate_id e \<and> ew_event_type row = cr_event_type e
           \<and> ew_payload_json row = cr_payload_json e \<and> ew_occurred_at_ms row = cr_occurred_at_ms e)
      then Ok False
      else
        let expected = (if int (cr_expected_version e) \<le> i64_max then int (cr_expected_version e) else - 1)
        in if expected = i64_max then Err Panicked
           else Ok (ew_state_version row = expected + 1))"

definition event_row :: "CoordinationEventRecord \<Rightarrow> int \<Rightarrow> EventRow" where
  "event_row e v =
     \<lparr> ew_event_id = cr_event_id e, ew_idempotency_key = cr_idempotency_key e,
       ew_aggregate_type = cr_aggregate_type e, ew_aggregate_id = cr_aggregate_id e,
       ew_state_version = v, ew_event_type = cr_event_type e, ew_payload_json = cr_payload_json e,
       ew_occurred_at_ms = cr_occurred_at_ms e \<rparr>"

definition append_event_in_transaction ::
  "Ledger \<Rightarrow> CoordinationEventRecord \<Rightarrow> LedgerError + AppendedEvent \<times> Ledger" where
  "append_event_in_transaction l e =
     (if is_blank (cr_event_id e) \<or> is_blank (cr_idempotency_key e) \<or> is_blank (cr_aggregate_type e)
         \<or> is_blank (cr_aggregate_id e) \<or> is_blank (cr_event_type e) \<or> is_blank (cr_payload_json e)
         \<or> cr_occurred_at_ms e < 0
      then Err (Degraded ''coordination event identifiers, payload, and timestamp are required'')
      else case fetch_optional (\<lambda>r. ew_idempotency_key r = cr_idempotency_key e) (coordination_events l) of
        Some row \<Rightarrow>
          and_then (same_event row e) (\<lambda>same.
            if \<not> same then Err (Degraded ''idempotency key is already bound to a different event'')
            else if ew_state_version row < 0 then Err (Degraded ''stored event version is negative'')
            else Ok (\<lparr> ae_version = nat (ew_state_version row), ae_replayed = True \<rparr>, l))
      | None \<Rightarrow>
          let current = current_version (cr_aggregate_type e) (cr_aggregate_id e) (coordination_events l)
          in if i64_max < int (cr_expected_version e)
             then Err (Degraded ''expected event version is too large'')
             else if current \<noteq> int (cr_expected_version e)
             then Err (Degraded (''coordination state version conflict: expected ''
                    @ decimal (cr_expected_version e) @ '', found '' @ decimal_int current))
             else if i64_max < current + 1 then Err (Degraded ''coordination state version overflow'')
             else and_then (insert_row event_clash (event_row e (current + 1)) (coordination_events l)) (\<lambda>es.
               if current + 1 < 0 then Err (Degraded ''stored event version is negative'')
               else Ok (\<lparr> ae_version = nat (current + 1), ae_replayed = False \<rparr>,
                        l\<lparr> coordination_events := es \<rparr>)))"

definition append_coordination_event ::
  "Ledger \<Rightarrow> CoordinationEventRecord \<Rightarrow> LedgerError + nat \<times> Ledger" where
  "append_coordination_event l e =
     and_then (append_event_in_transaction l e) (\<lambda>(a, l'). Ok (ae_version a, l'))"

section \<open>The log invariant\<close>

text \<open>
  No two stored events share an id, a key or a version of one aggregate, and the versions of an
  aggregate are 1, 2, 3, \<dots> in the order of the log.
\<close>

definition versions_of :: "string \<Rightarrow> string \<Rightarrow> EventRow list \<Rightarrow> int list" where
  "versions_of t i es = map ew_state_version (filter (event_of_aggregate t i) es)"

definition event_log_ok :: "EventRow list \<Rightarrow> bool" where
  "event_log_ok es \<longleftrightarrow> event_table.consistent es
     \<and> (\<forall>t i. versions_of t i es = map int [1 ..< length (versions_of t i es) + 1])"

lemma foldl_max_upto: "foldl max (int a) (map int [a + 1 ..< a + n + 1]) = int (a + n)"
  by (induction n) simp_all

lemma current_version_ok:
  assumes "event_log_ok es"
  shows "current_version t i es = int (length (versions_of t i es))"
proof -
  let ?n = "length (versions_of t i es)"
  have v: "versions_of t i es = map int [1 ..< ?n + 1]"
    using assms unfolding event_log_ok_def by blast
  show ?thesis
  proof (cases "versions_of t i es")
    case Nil
    then show ?thesis by (simp add: current_version_def versions_of_def)
  next
    case (Cons x xs)
    then obtain m where m: "?n = Suc m" by (cases ?n) auto
    then have "x # xs = map int [1 ..< m + 2]"
      using v Cons by simp
    also have "\<dots> = int 1 # map int [1 + 1 ..< 1 + m + 1]"
      using upt_conv_Cons [of 1 "m + 2"] by simp
    finally have "x = int 1" "xs = map int [1 + 1 ..< 1 + m + 1]" by simp_all
    then show ?thesis
      using Cons foldl_max_upto [of 1 m] m
      by (simp add: current_version_def versions_of_def)
  qed
qed

lemma event_log_ok_append:
  assumes "event_log_ok es"
    and "insert_row event_clash (event_row e v) es = Inr es'"
    and "v = current_version (cr_aggregate_type e) (cr_aggregate_id e) es + 1"
  shows "event_log_ok es'"
proof -
  let ?r = "event_row e v"
  have es': "es' = es @ [?r]" using assms(2) by simp
  have "versions_of t i es' = map int [1 ..< length (versions_of t i es') + 1]" for t i
  proof (cases "event_of_aggregate t i ?r")
    case True
    then have "versions_of t i es' = versions_of t i es @ [int (length (versions_of t i es)) + 1]"
      using es' assms(3) current_version_ok [OF assms(1)]
      by (auto simp: versions_of_def event_of_aggregate_def event_row_def)
    moreover have "versions_of t i es = map int [1 ..< length (versions_of t i es) + 1]"
      using assms(1) unfolding event_log_ok_def by blast
    ultimately have "versions_of t i es' = map int ([1 ..< length (versions_of t i es) + 1]
        @ [length (versions_of t i es) + 1])"
      by (metis list.simps(8,9) map_append of_nat_1 of_nat_add)
    moreover have "length (versions_of t i es') = length (versions_of t i es) + 1"
      using \<open>versions_of t i es' = versions_of t i es @ _\<close> by simp
    ultimately show ?thesis by simp
  next
    case False
    then have "versions_of t i es' = versions_of t i es"
      using es' by (simp add: versions_of_def)
    then show ?thesis using assms(1) unfolding event_log_ok_def by simp
  qed
  then show ?thesis
    using assms(1,2) event_table.consistent_insert unfolding event_log_ok_def by blast
qed

text \<open>The two ways an append succeeds.\<close>

lemma append_event_cases:
  assumes "append_event_in_transaction l e = Inr (a, l')"
  obtains (replayed) row where "l' = l" "ae_replayed a" "row \<in> set (coordination_events l)"
      "row = event_row e (int (ae_version a))"
      "ae_version a = 0 \<or> ae_version a = cr_expected_version e + 1 \<and> int (ae_version a) \<le> i64_max"
  | (appended) "\<not> ae_replayed a" "ae_version a = cr_expected_version e + 1"
      "int (ae_version a) \<le> i64_max"
      "insert_row event_clash (event_row e (int (ae_version a))) (coordination_events l)
         = Inr (coordination_events l')"
      "l' = l\<lparr> coordination_events := coordination_events l @ [event_row e (int (ae_version a))] \<rparr>"
      "int (cr_expected_version e)
         = current_version (cr_aggregate_type e) (cr_aggregate_id e) (coordination_events l)"
proof (cases "fetch_optional (\<lambda>r. ew_idempotency_key r = cr_idempotency_key e) (coordination_events l)")
  case (Some row)
  then have "row \<in> set (coordination_events l)" "ew_idempotency_key row = cr_idempotency_key e"
    by (auto dest: fetch_optional_SomeD)
  moreover have "same_event row e = Inr True" "0 \<le> ew_state_version row"
    "a = \<lparr> ae_version = nat (ew_state_version row), ae_replayed = True \<rparr>" "l' = l"
    using assms Some by (auto simp: append_event_in_transaction_def split: if_splits)
  ultimately show ?thesis
    by (intro replayed [of row])
       (auto simp: same_event_def event_row_def Let_def split: if_splits)
next
  case None
  then show ?thesis
    using assms
    by (intro appended)
       (auto simp: append_event_in_transaction_def Let_def split: if_splits)
qed

lemma event_log_ok_version:
  assumes "event_log_ok es" "r \<in> set es"
  shows "1 \<le> ew_state_version r"
proof -
  let ?v = "versions_of (ew_aggregate_type r) (ew_aggregate_id r) es"
  have "ew_state_version r \<in> set ?v"
    using assms(2) by (simp add: versions_of_def event_of_aggregate_def)
  also have "set ?v = int ` {1 ..< length ?v + 1}"
    using assms(1) unfolding event_log_ok_def by (metis set_map set_upt)
  finally show ?thesis by auto
qed

lemma append_event_log_ok:
  assumes "append_event_in_transaction l e = Inr (a, l')" "event_log_ok (coordination_events l)"
  shows "event_log_ok (coordination_events l')"
  using assms(1)
proof (cases rule: append_event_cases)
  case appended
  have "int (ae_version a)
      = current_version (cr_aggregate_type e) (cr_aggregate_id e) (coordination_events l) + 1"
    using appended(2,6) by simp
  with appended(4) show ?thesis
    by (rule event_log_ok_append [OF assms(2)])
qed (use assms in simp)

text \<open>An append changes nothing but the log, and only at its end.\<close>

lemma append_event_frame:
  assumes "append_event_in_transaction l e = Inr (a, l')"
  shows "\<exists>es. l' = l\<lparr> coordination_events := coordination_events l @ es \<rparr>
    \<and> (ae_replayed a \<longrightarrow> es = []) \<and> (\<not> ae_replayed a \<longrightarrow> es = [event_row e (int (ae_version a))])"
  using assms by (cases rule: append_event_cases) auto

text \<open>Repeating an appended event finds it.\<close>

lemma append_event_replay:
  assumes "append_event_in_transaction l e = Inr (a, l')" "event_log_ok (coordination_events l)"
    and "coordination_events m = coordination_events l' @ later"
    and "event_log_ok (coordination_events m)"
  shows "append_event_in_transaction m e = Inr (\<lparr> ae_version = ae_version a, ae_replayed = True \<rparr>, m)"
proof -
  let ?r = "event_row e (int (ae_version a))"
  have r: "?r \<in> set (coordination_events m)" and v: "ae_version a = cr_expected_version e + 1"
    and b: "int (ae_version a) \<le> i64_max"
    using assms(1,3) event_log_ok_version [OF assms(2), of ?r]
    by (cases rule: append_event_cases; auto simp: event_row_def)+
  have "fetch_optional (\<lambda>r. ew_idempotency_key r = cr_idempotency_key e) (coordination_events m) = Some ?r"
    using assms(4) r
    by (intro event_table.fetch_unique) (auto simp: event_log_ok_def event_row_def event_clash_def)
  moreover have "same_event ?r e = Inr True"
    using v b by (simp add: same_event_def event_row_def)
  moreover have "\<not> (is_blank (cr_event_id e) \<or> is_blank (cr_idempotency_key e) \<or> is_blank (cr_aggregate_type e)
         \<or> is_blank (cr_aggregate_id e) \<or> is_blank (cr_event_type e) \<or> is_blank (cr_payload_json e)
         \<or> cr_occurred_at_ms e < 0)"
    using assms(1) by (auto simp: append_event_in_transaction_def split: if_splits)
  ultimately show ?thesis
    by (simp add: append_event_in_transaction_def event_row_def)
qed

section \<open>Audited operations\<close>

text \<open>
  The shape of the ledger's audited operations: append the event, then, when it was new, make the
  change in the same transaction, and when it was a replay only compare with what is stored.
\<close>

definition audited ::
  "Ledger \<Rightarrow> CoordinationEventRecord \<Rightarrow> (nat \<Rightarrow> Ledger \<Rightarrow> LedgerError + unit) \<Rightarrow>
   (nat \<Rightarrow> Ledger \<Rightarrow> LedgerError + Ledger) \<Rightarrow> LedgerError + nat \<times> Ledger" where
  "audited l e replay change =
     and_then (append_event_in_transaction l e) (\<lambda>(a, l1).
       if ae_replayed a then and_then (replay (ae_version a) l1) (\<lambda>_. Ok (ae_version a, l1))
       else and_then (change (ae_version a) l1) (\<lambda>l2. Ok (ae_version a, l2)))"

lemma audited_cases:
  assumes "audited l e replay change = Inr (v, l')"
  obtains (replayed) a where "append_event_in_transaction l e = Inr (a, l)" "ae_replayed a" "v = ae_version a"
      "l' = l" "replay v l = Ok ()"
  | (fresh) a l1 where "append_event_in_transaction l e = Inr (a, l1)" "\<not> ae_replayed a" "v = ae_version a"
      "l1 = l\<lparr> coordination_events := coordination_events l @ [event_row e (int v)] \<rparr>"
      "change v l1 = Inr l'"
proof -
  obtain a l1 where a: "append_event_in_transaction l e = Inr (a, l1)"
    using assms by (auto simp: audited_def)
  show ?thesis
  proof (cases "ae_replayed a")
    case True
    then have "l1 = l"
      using append_event_frame [OF a] by auto
    then show ?thesis
      using assms a True by (intro replayed [of a]) (auto simp: audited_def)
  next
    case False
    then show ?thesis
      using assms a append_event_frame [OF a] by (intro fresh [of a l1]) (auto simp: audited_def)
  qed
qed

text \<open>
  What a client of an audited operation may rely on: a call that succeeds either appended its event,
  or the event was in the log and nothing changed.
\<close>

locale audited_operation =
  fixes operation :: "Ledger \<Rightarrow> LedgerError + nat \<times> Ledger" and event :: CoordinationEventRecord
  assumes appends: "operation l = Inr (v, l') \<Longrightarrow>
    \<exists>a l1. append_event_in_transaction l event = Inr (a, l1) \<and> v = ae_version a
      \<and> coordination_events l' = coordination_events l1 \<and> (ae_replayed a \<longrightarrow> l' = l)"
begin

lemma log_ok: "operation l = Inr (v, l') \<Longrightarrow> event_log_ok (coordination_events l) \<Longrightarrow>
  event_log_ok (coordination_events l')"
  using appends append_event_log_ok by metis

lemma log_grows:
  assumes "operation l = Inr (v, l')"
  shows "coordination_events l' = coordination_events l \<and> l' = l
    \<or> coordination_events l' = coordination_events l @ [event_row event (int v)]"
proof -
  obtain a l1 where a: "append_event_in_transaction l event = Inr (a, l1)" "v = ae_version a"
      "coordination_events l' = coordination_events l1" "ae_replayed a \<longrightarrow> l' = l"
    using appends [OF assms] by blast
  then show ?thesis
    using append_event_frame [OF a(1)] by (cases "ae_replayed a") auto
qed

lemma recorded:
  assumes "operation l = Inr (v, l')"
  shows "event_row event (int v) \<in> set (coordination_events l')"
proof -
  obtain a l1 where a: "append_event_in_transaction l event = Inr (a, l1)" "v = ae_version a"
      "coordination_events l' = coordination_events l1"
    using appends [OF assms] by blast
  from a(1) show ?thesis
    by (cases rule: append_event_cases) (use a(2,3) in auto)
qed

end

lemma audited_appends:
  assumes "audited l e replay change = Inr (v, l')"
    and "\<And>v l1 l2. change v l1 = Inr l2 \<Longrightarrow> coordination_events l2 = coordination_events l1"
  shows "\<exists>a l1. append_event_in_transaction l e = Inr (a, l1) \<and> v = ae_version a
      \<and> coordination_events l' = coordination_events l1 \<and> (ae_replayed a \<longrightarrow> l' = l)"
  using assms(1) by (cases rule: audited_cases) (use assms(2) in auto)

text \<open>An event of the log, by its identity, aggregate, type and version.\<close>

definition in_log :: "EventRow list \<Rightarrow> string \<Rightarrow> string \<Rightarrow> string \<Rightarrow> string \<Rightarrow> int \<Rightarrow> bool" where
  "in_log es eid t i ty v \<longleftrightarrow>
     (\<exists>e \<in> set es. ew_event_id e = eid \<and> ew_aggregate_type e = t \<and> ew_aggregate_id e = i
        \<and> ew_event_type e = ty \<and> ew_state_version e = v)"

lemma in_log_append [intro]: "in_log es eid t i ty v \<Longrightarrow> in_log (es @ more_es) eid t i ty v"
  by (auto simp: in_log_def)

lemma in_log_event_row:
  "in_log (es @ [event_row e v]) (cr_event_id e) (cr_aggregate_type e) (cr_aggregate_id e) (cr_event_type e) v"
  by (simp add: in_log_def event_row_def)

end
