(* ===== verification/Reservations.thy ===== *)
theory Reservations
  imports EventLog
begin

text \<open>
  Reservations of submission budget: \<open>reserve\<close>, \<open>reserve_with_cadence\<close>,
  \<open>reserve_with_identity_quota\<close>, \<open>release\<close> and \<open>commit\<close> of the ledger, and the \<open>SubmissionBroker\<close>
  that reserves after the admission of \<open>GuardGates\<close>.
\<close>

section \<open>Queries\<close>

text \<open>\<open>COALESCE(SUM(\<dots>), 0.0)\<close> and \<open>MAX(\<dots>)\<close>.\<close>

definition sql_sum :: "Env \<Rightarrow> f64 list \<Rightarrow> f64" where
  "sql_sum env xs = (if xs = [] then Fin 0 else en_sum env xs)"

definition sql_max :: "int list \<Rightarrow> int option" where
  "sql_max xs = (case xs of [] \<Rightarrow> None | y # ys \<Rightarrow> Some (foldl max y ys))"

definition is_reserved :: "ReservationRow \<Rightarrow> bool" where
  "is_reserved r \<longleftrightarrow> rs_state r = ''reserved''"

definition challenge_reserved :: "Ledger \<Rightarrow> string \<Rightarrow> ReservationRow list" where
  "challenge_reserved l ch = filter (\<lambda>r. rs_challenge_id r = ch \<and> is_reserved r) (reservations l)"

definition counted_attempts :: "Ledger \<Rightarrow> string \<Rightarrow> string \<Rightarrow> AttemptRow list" where
  "counted_attempts l ch owner =
     filter (\<lambda>a. at_challenge_id a = ch \<and> at_owner a = owner
                 \<and> at_state a \<in> set [''reserved'', ''committed'']) (attempts l)"

text \<open>\<open>reservations r JOIN reservation_dimensions d ON d.reservation_id = r.id\<close> for one identity.\<close>

definition identity_join :: "Ledger \<Rightarrow> string \<Rightarrow> string \<Rightarrow> (ReservationRow \<times> DimensionRow) list" where
  "identity_join l identity identity_class =
     filter (\<lambda>(r, d). rd_reservation_id d = rs_id r \<and> rd_identity d = identity
                      \<and> rd_identity_class d = identity_class)
       (List.product (reservations l) (reservation_dimensions l))"

definition identity_reserved :: "Ledger \<Rightarrow> string \<Rightarrow> string \<Rightarrow> ReservationRow list" where
  "identity_reserved l identity identity_class =
     map fst (filter (\<lambda>(r, d). is_reserved r) (identity_join l identity identity_class))"

definition unclassified :: "Ledger \<Rightarrow> ReservationRow list" where
  "unclassified l =
     filter (\<lambda>r. is_reserved r \<and> \<not> list_ex (\<lambda>d. rd_reservation_id d = rs_id r) (reservation_dimensions l))
       (reservations l)"

section \<open>Operations\<close>

text \<open>\<open>now_ms.saturating_sub(latest) < interval.saturating_mul(1000)\<close> for the latest row, if any.\<close>

definition too_soon :: "int \<Rightarrow> int \<Rightarrow> int option \<Rightarrow> bool" where
  "too_soon now_ms interval latest \<longleftrightarrow>
     (case latest of
        None \<Rightarrow> False
      | Some latest_ms \<Rightarrow> saturating_sub now_ms latest_ms < i64_saturate (interval * 1000))"

definition reserve_input_checks ::
  "string \<Rightarrow> string \<Rightarrow> f64 \<Rightarrow> int \<Rightarrow> IdentityQuota option \<Rightarrow> (LedgerError + unit) list" where
  "reserve_input_checks identity identity_class estimated_cost min_interval_seconds quota_limits =
     [fail_if (is_sign_negative estimated_cost) (Degraded ''negative estimated cost''),
      fail_if (min_interval_seconds < 0) (Degraded ''negative cadence interval'')]
     @ (case quota_limits of
          None \<Rightarrow> []
        | Some q \<Rightarrow>
            [map_err Degraded (IdentityQuota_validate q),
             fail_if (is_blank identity \<or> is_blank identity_class)
               (Degraded ''identity quota requires an identity and identity class'')])"

definition quota_checks ::
  "Env \<Rightarrow> Ledger \<Rightarrow> string \<Rightarrow> string \<Rightarrow> f64 \<Rightarrow> int \<Rightarrow> IdentityQuota \<Rightarrow> (LedgerError + unit) list" where
  "quota_checks env l identity identity_class estimated_cost now_ms q =
     [fail_if (unclassified l \<noteq> [])
        (Degraded ''existing reservations lack identity dimensions; quota cannot be enforced fail-closed''),
      case iq_max_reserved_cost_usd q of
        None \<Rightarrow> Ok ()
      | Some max_cost \<Rightarrow>
          fail_if (f64_lt max_cost (f64_add
              (sql_sum env (map rs_estimated_cost (identity_reserved l identity identity_class))) estimated_cost))
            (Degraded ''reservation would exceed identity reserved cost quota''),
      case iq_max_concurrent_reservations q of
        None \<Rightarrow> Ok ()
      | Some max_concurrent \<Rightarrow>
          fail_if (max_concurrent \<le> length (identity_reserved l identity identity_class))
            (Degraded ''reservation would exceed identity concurrent reservation quota''),
      case iq_min_interval_seconds q of
        None \<Rightarrow> Ok ()
      | Some min_interval \<Rightarrow>
          fail_if (0 < min_interval \<and> too_soon now_ms min_interval
              (sql_max (map (\<lambda>(r, d). rd_created_at_ms d)
                 (filter (\<lambda>(r, d). rs_state r \<in> set [''reserved'', ''committed''])
                   (identity_join l identity identity_class)))))
            (Degraded ''identity cadence interval is not satisfied'')]"

text \<open>The three inserts; \<open>NaN\<close> is bound as \<open>NULL\<close>, which the \<open>NOT NULL\<close> column refuses.\<close>

definition reservation_inserts ::
  "Ledger \<Rightarrow> string \<Rightarrow> string \<Rightarrow> string \<Rightarrow> string \<Rightarrow> string \<Rightarrow> f64 \<Rightarrow> string \<Rightarrow> int \<Rightarrow> LedgerError + Ledger" where
  "reservation_inserts l i ch owner identity identity_class estimated_cost content_sha256 now_ms =
     (if is_nan estimated_cost then Err Database
      else and_then (insert_row reservation_clash
          \<lparr> rs_id = i, rs_challenge_id = ch, rs_owner = owner, rs_estimated_cost = estimated_cost,
            rs_state = ''reserved'' \<rparr> (reservations l)) (\<lambda>rs.
        and_then (insert_row attempt_clash
          \<lparr> at_id = i, at_challenge_id = ch, at_owner = owner, at_content_sha256 = content_sha256,
            at_started_at_ms = now_ms, at_state = ''reserved'', at_result_json = None \<rparr> (attempts l)) (\<lambda>ats.
        and_then (if identity = [] then Ok (reservation_dimensions l)
                  else insert_row dimension_clash
                    \<lparr> rd_reservation_id = i, rd_identity = identity, rd_identity_class = identity_class,
                      rd_created_at_ms = now_ms \<rparr> (reservation_dimensions l)) (\<lambda>ds.
        Ok (l\<lparr> reservations := rs, attempts := ats, reservation_dimensions := ds \<rparr>)))))"

definition reserve_with_identity_quota ::
  "Env \<Rightarrow> Ledger \<Rightarrow> string \<Rightarrow> string \<Rightarrow> string \<Rightarrow> string \<Rightarrow> string \<Rightarrow> f64 \<Rightarrow> f64 \<Rightarrow> string \<Rightarrow> int \<Rightarrow> int \<Rightarrow>
   IdentityQuota option \<Rightarrow> LedgerError + Ledger" where
  "reserve_with_identity_quota env l i ch owner identity identity_class estimated_cost budget
       content_sha256 now_ms min_interval_seconds quota_limits =
     and_then (checks
       (reserve_input_checks identity identity_class estimated_cost min_interval_seconds quota_limits
        @ [fail_if (f64_lt budget (f64_add
               (sql_sum env (map rs_estimated_cost (challenge_reserved l ch))) estimated_cost))
             (Degraded ''reservation would exceed challenge budget''),
           fail_if (0 < min_interval_seconds \<and> too_soon now_ms min_interval_seconds
               (sql_max (map at_started_at_ms (counted_attempts l ch owner))))
             (Degraded ''submission cadence interval is not satisfied'')]
        @ (case quota_limits of
             None \<Rightarrow> []
           | Some q \<Rightarrow> quota_checks env l identity identity_class estimated_cost now_ms q)))
     (\<lambda>_. reservation_inserts l i ch owner identity identity_class estimated_cost content_sha256 now_ms)"

definition reserve_with_cadence ::
  "Env \<Rightarrow> Ledger \<Rightarrow> string \<Rightarrow> string \<Rightarrow> string \<Rightarrow> f64 \<Rightarrow> f64 \<Rightarrow> string \<Rightarrow> int \<Rightarrow> int \<Rightarrow> LedgerError + Ledger" where
  "reserve_with_cadence env l i ch owner estimated_cost budget content_sha256 now_ms min_interval_seconds =
     reserve_with_identity_quota env l i ch owner [] [] estimated_cost budget content_sha256 now_ms
       min_interval_seconds None"

definition reserve ::
  "Env \<Rightarrow> Ledger \<Rightarrow> string \<Rightarrow> string \<Rightarrow> string \<Rightarrow> f64 \<Rightarrow> f64 \<Rightarrow> LedgerError + Ledger" where
  "reserve env l i ch owner estimated_cost budget =
     reserve_with_cadence env l i ch owner estimated_cost budget [] 0 0"

definition finish ::
  "Ledger \<Rightarrow> string \<Rightarrow> string \<Rightarrow> (AttemptRow \<Rightarrow> AttemptRow) \<Rightarrow> LedgerError + Ledger" where
  "finish l i state finish_attempt =
     (let hit = (\<lambda>r. rs_id r = i \<and> rs_state r = ''reserved'');
          attempt_hit = (\<lambda>a. at_id a = i \<and> at_state a = ''reserved'')
      in if rows_affected hit (reservations l) = 0
         then Err (Degraded ''reservation is missing or already finalized'')
         else if rows_affected attempt_hit (attempts l) = 0
         then Err (Degraded ''attempt record is missing or already finalized'')
         else Ok (l\<lparr> reservations := update_where hit (\<lambda>r. r\<lparr> rs_state := state \<rparr>) (reservations l),
                     attempts := update_where attempt_hit finish_attempt (attempts l) \<rparr>))"

definition release :: "Ledger \<Rightarrow> string \<Rightarrow> LedgerError + Ledger" where
  "release l i = finish l i ''released'' (\<lambda>a. a\<lparr> at_state := ''released'' \<rparr>)"

definition commit :: "Ledger \<Rightarrow> string \<Rightarrow> string option \<Rightarrow> LedgerError + Ledger" where
  "commit l i result_json =
     finish l i ''committed'' (\<lambda>a. a\<lparr> at_state := ''committed'', at_result_json := result_json \<rparr>)"

section \<open>The broker\<close>

datatype BrokerError = AdmissionDenied Admission | LedgerFailed LedgerError

record SubmissionBroker =
  sb_policy :: Policy
  sb_ledger :: Ledger

definition prepare_quota :: "Policy \<Rightarrow> AdmissionRequest \<Rightarrow> LedgerError + IdentityQuota option" where
  "prepare_quota p q =
     (if po_identity_pool p = [] then Ok None
      else map_err id (and_then (ok_or (List.find (pool_match q) (po_identity_pool p))
             (Degraded ''identity pool binding disappeared between admission and reservation''))
           (\<lambda>e. Ok (Some (quota e)))))"

definition prepare ::
  "Env \<Rightarrow> SubmissionBroker \<Rightarrow> AdmissionRequest \<Rightarrow> string \<Rightarrow> f64 \<Rightarrow> BrokerError + SubmissionBroker" where
  "prepare env b q reservation_id budget =
     (let p = sb_policy b; admission = admit (en_fs env) (en_read env) (en_sha256 env) p q
      in if \<not> ad_allowed admission then Err (AdmissionDenied admission)
         else map_err LedgerFailed (and_then (prepare_quota p q) (\<lambda>limits.
           and_then (reserve_with_identity_quota env (sb_ledger b) reservation_id (rq_challenge_id q)
               (rq_owner q) (rq_identity q) (rq_identity_class q) (rq_estimated_cost_usd q) budget
               (rq_content_sha256 q) (rq_now_ms q) (ca_min_interval_seconds (po_cadence p)) limits)
             (\<lambda>l. Ok (b\<lparr> sb_ledger := l \<rparr>)))))"

definition broker_commit :: "SubmissionBroker \<Rightarrow> string \<Rightarrow> string option \<Rightarrow> BrokerError + SubmissionBroker" where
  "broker_commit b reservation_id result_json =
     map_err LedgerFailed (and_then (commit (sb_ledger b) reservation_id result_json)
       (\<lambda>l. Ok (b\<lparr> sb_ledger := l \<rparr>)))"

definition broker_release :: "SubmissionBroker \<Rightarrow> string \<Rightarrow> BrokerError + SubmissionBroker" where
  "broker_release b reservation_id =
     map_err LedgerFailed (and_then (release (sb_ledger b) reservation_id)
       (\<lambda>l. Ok (b\<lparr> sb_ledger := l \<rparr>)))"

section \<open>Sums that are exact\<close>

text \<open>The leading exponent, and the values of up to 53 bits on a binary grid.\<close>

lemma binade_lower:
  assumes "q \<noteq> 0"
  shows "2 powi binade q \<le> \<bar>q\<bar>"
proof -
  obtain a b where ab: "quotient_of \<bar>q\<bar> = (a, b)" by fastforce
  let ?fa = "floorlog 2 (nat a)" and ?fb = "floorlog 2 (nat b)"
  let ?k = "int ?fa - int ?fb"
  have b: "0 < b" using quotient_of_denom_pos [OF ab] .
  have q: "\<bar>q\<bar> = of_int a / of_int b" using quotient_of_div [OF ab] .
  have "0 < \<bar>q\<bar>" using assms by simp
  then have a: "0 < a" using b q by (simp add: zero_less_divide_iff)
  have "int (2 ^ (?fa - 1)) \<le> a" "b < int (2 ^ ?fb)"
    using a b floorlog_bounds [of "nat a" 2] floorlog_bounds [of "nat b" 2] by linarith+
  then have "(2::rat) ^ (?fa - 1) \<le> of_int a" "of_int b < (2::rat) ^ ?fb"
    by simp_all
  moreover have "?fa \<noteq> 0"
    using a by (simp add: floorlog_eq_zero_iff)
  then have "int ?fa - 1 = int (?fa - 1)"
    by linarith
  then have "(2::rat) powi (int ?fa - 1) = 2 ^ (?fa - 1)"
    by (simp only: power_int_of_nat)
  ultimately have "(2::rat) ^ (?fa - 1) / 2 ^ ?fb \<le> of_int a / of_int b" and
    powi: "(2::rat) powi (int ?fa - 1) = 2 ^ (?fa - 1)"
    using a b by (auto intro!: frac_le)
  moreover have "(2::rat) powi (?k - 1) = 2 powi (int ?fa - 1) / 2 powi int ?fb"
    using power_int_diff [of "2::rat" "int ?fa - 1" "int ?fb"] by (simp add: algebra_simps)
  ultimately have "(2::rat) powi (?k - 1) \<le> \<bar>q\<bar>"
    by (simp only: powi q power_int_of_nat)
  then show ?thesis
    unfolding binade_def ab by (simp add: Let_def)
qed

lemma f64_round_grid:
  assumes q: "q = of_int n * 2 powi e" and e: "- 1074 \<le> e" "e + 53 \<le> 1024"
    and bound: "\<bar>q\<bar> < 2 powi (e + 53)"
  shows "f64_round q = Fin q"
proof (cases "q = 0")
  case True
  then show ?thesis by (simp add: f64_round_def)
next
  case False
  have "(2::rat) powi binade q < 2 powi (e + 53)"
    using binade_lower [OF False] bound by linarith
  then have "binade q < e + 53"
    using power_int_increasing [of "e + 53" "binade q" "2::rat"] by linarith
  then have le: "last_place q \<le> e"
    using e by (simp add: last_place_def)
  have "(2::rat) powi e = 2 ^ nat (e - last_place q) * 2 powi last_place q"
    using le power_int_add [of "2::rat" "e - last_place q" "last_place q"] by (simp add: power_int_def)
  then have "q = of_int (n * 2 ^ nat (e - last_place q)) * 2 powi last_place q"
    using q by simp
  moreover have "(2::rat) powi (e + 53) \<le> 2 powi 1024"
    using e by (intro power_int_increasing) simp_all
  ultimately show ?thesis
    using bound by (intro f64_round_exact [of _ "n * 2 ^ nat (e - last_place q)"]) linarith+
qed

text \<open>A cost of less than \<open>2 ^ 32\<close> dollars in steps of \<open>2 ^ -20\<close>; sums of a few are exact.\<close>

definition grid_cost :: "f64 \<Rightarrow> bool" where
  "grid_cost x \<longleftrightarrow> (\<exists>n::nat. x = Fin (of_nat n / 2 ^ 20) \<and> n < 2 ^ 52)"

definition total_cost :: "f64 list \<Rightarrow> rat" where
  "total_cost xs = sum_list (map f64_val xs)"

text \<open>
  What the reservations rely on of SQLite's \<open>SUM\<close>: costs on the grid whose total is below \<open>2 ^ 32\<close>
  are summed without rounding.
\<close>

definition exact_sums :: "Env \<Rightarrow> bool" where
  "exact_sums env \<longleftrightarrow>
     (\<forall>xs. xs \<noteq> [] \<and> list_all grid_cost xs \<and> total_cost xs < 2 ^ 32 \<longrightarrow> en_sum env xs = Fin (total_cost xs))"

lemma f64_add_grid:
  assumes "grid_cost x" "grid_cost y"
  shows "f64_add x y = Fin (f64_val x + f64_val y)"
proof -
  obtain n m :: nat where n: "x = Fin (of_nat n / 2 ^ 20)" "n < 2 ^ 52" and m: "y = Fin (of_nat m / 2 ^ 20)" "m < 2 ^ 52"
    using assms by (auto simp: grid_cost_def)
  have "(of_nat n / 2 ^ 20 + of_nat m / 2 ^ 20 :: rat) = of_int (int (n + m)) * 2 powi (- 20)"
    by (simp add: power_int_minus field_simps)
  moreover have "(of_nat (n + m) :: rat) < 2 ^ 53"
    using n(2) m(2) by (simp flip: of_nat_add)
  ultimately show ?thesis
    using n m f64_round_grid [of "of_nat n / 2 ^ 20 + of_nat m / 2 ^ 20" "int (n + m)" "- 20"]
    by (simp add: f64_add_finite)
qed

section \<open>What an operation does to the tables\<close>

definition reservation_row :: "string \<Rightarrow> string \<Rightarrow> string \<Rightarrow> f64 \<Rightarrow> ReservationRow" where
  "reservation_row i ch owner cost =
     \<lparr> rs_id = i, rs_challenge_id = ch, rs_owner = owner, rs_estimated_cost = cost, rs_state = ''reserved'' \<rparr>"

lemma reserve_ok:
  assumes "reserve_with_identity_quota env l i ch owner identity identity_class cost budget
             content_sha256 now_ms interval limits = Inr l'"
  shows "reservations l' = reservations l @ [reservation_row i ch owner cost]"
    and "attempts l' = attempts l @ [\<lparr> at_id = i, at_challenge_id = ch, at_owner = owner,
           at_content_sha256 = content_sha256, at_started_at_ms = now_ms, at_state = ''reserved'',
           at_result_json = None \<rparr>]"
    and "reservation_dimensions l' = reservation_dimensions l @ (if identity = [] then [] else
           [\<lparr> rd_reservation_id = i, rd_identity = identity, rd_identity_class = identity_class,
              rd_created_at_ms = now_ms \<rparr>])"
    and "i \<notin> rs_id ` set (reservations l)" "\<not> is_nan cost"
    and "l' = l\<lparr> reservations := reservations l', attempts := attempts l',
                 reservation_dimensions := reservation_dimensions l' \<rparr>"
    and "identity \<noteq> [] \<Longrightarrow> i \<notin> rd_reservation_id ` set (reservation_dimensions l)"
  using assms
  by (auto simp: reserve_with_identity_quota_def reservation_inserts_def reservation_row_def
        reservation_clash_def dimension_clash_def split: if_splits)

lemma reserve_checked:
  assumes "reserve_with_identity_quota env l i ch owner identity identity_class cost budget
             content_sha256 now_ms interval limits = Inr l'"
  shows "\<not> is_sign_negative cost" "0 \<le> interval"
    and "\<not> f64_lt budget (f64_add (sql_sum env (map rs_estimated_cost (challenge_reserved l ch))) cost)"
    and "0 < interval \<Longrightarrow> \<not> too_soon now_ms interval (sql_max (map at_started_at_ms (counted_attempts l ch owner)))"
    and "limits = Some q \<Longrightarrow> IdentityQuota_validate q = Ok () \<and> \<not> is_blank identity \<and> \<not> is_blank identity_class
           \<and> list_all (\<lambda>c. c = Ok ()) (quota_checks env l identity identity_class cost now_ms q)"
  using assms
  by (auto simp: reserve_with_identity_quota_def reserve_input_checks_def list_all_append)

definition hit_state :: "string \<Rightarrow> string \<Rightarrow> ReservationRow \<Rightarrow> ReservationRow" where
  "hit_state i state r = (if rs_id r = i \<and> rs_state r = ''reserved'' then r\<lparr> rs_state := state \<rparr> else r)"

lemma finish_ok:
  assumes "finish l i state f = Inr l'"
  shows "reservations l' = map (hit_state i state) (reservations l)"
    and "attempts l' = update_where (\<lambda>a. at_id a = i \<and> at_state a = ''reserved'') f (attempts l)"
    and "l' = l\<lparr> reservations := reservations l', attempts := attempts l' \<rparr>"
    and "\<exists>r \<in> set (reservations l). rs_id r = i \<and> rs_state r = ''reserved''"
  using assms
  by (auto simp: finish_def Let_def hit_state_def [abs_def] update_where_def split: if_splits)

text \<open>A reservation is settled once, as released or as committed.\<close>

datatype Settlement = SettledReleased | SettledCommitted

definition settlement_name :: "Settlement \<Rightarrow> string" where
  "settlement_name s = (case s of SettledReleased \<Rightarrow> ''released'' | SettledCommitted \<Rightarrow> ''committed'')"

definition settlement :: "ReservationRow \<Rightarrow> Settlement option" where
  "settlement r = (if rs_state r = ''released'' then Some SettledReleased
     else if rs_state r = ''committed'' then Some SettledCommitted else None)"

interpretation settled_table: revocable_table reservation_clash rs_id settlement
  "\<lambda>s r. r\<lparr> rs_state := settlement_name s \<rparr>"
  by unfold_locales
     (auto simp: reservation_clash_def settlement_def settlement_name_def split: Settlement.splits)

lemma reserve_evolves:
  assumes "reserve_with_identity_quota env l i ch owner identity identity_class cost budget
             content_sha256 now_ms interval limits = Inr l'"
  shows "settled_table.evolves (reservations l) (reservations l')"
  using reserve_ok(1,4) [OF assms]
  by (intro settled_table.evolves_insert [of "reservation_row i ch owner cost"])
     (auto simp: reservation_clash_def reservation_row_def)

lemma finish_evolves:
  assumes "finish l i (settlement_name s) f = Inr l'"
  shows "settled_table.evolves (reservations l) (reservations l')"
proof -
  have "reservations l' = update_where (\<lambda>r. rs_id r = i \<and> rs_state r = ''reserved'')
      (\<lambda>r. r\<lparr> rs_state := settlement_name s \<rparr>) (reservations l)"
    using assms by (auto simp: finish_def Let_def split: if_splits)
  then show ?thesis
    using settled_table.evolves_revoke by (simp add: settlement_def)
qed

lemma release_commit_finish:
  "release l i = finish l i (settlement_name SettledReleased) (\<lambda>a. a\<lparr> at_state := ''released'' \<rparr>)"
  "commit l i result_json = finish l i (settlement_name SettledCommitted)
     (\<lambda>a. a\<lparr> at_state := ''committed'', at_result_json := result_json \<rparr>)"
  by (simp_all add: release_def commit_def settlement_name_def)

section \<open>The books balance\<close>

text \<open>
  The two tables are kept in lock step: the same reservations in the same order with the same states,
  identifiers unique, and every dimension row belonging to one of them.
\<close>

definition reservation_key :: "ReservationRow \<Rightarrow> string \<times> string \<times> string \<times> string" where
  "reservation_key r = (rs_id r, rs_challenge_id r, rs_owner r, rs_state r)"

definition attempt_key :: "AttemptRow \<Rightarrow> string \<times> string \<times> string \<times> string" where
  "attempt_key a = (at_id a, at_challenge_id a, at_owner a, at_state a)"

definition books_ok :: "Ledger \<Rightarrow> bool" where
  "books_ok l \<longleftrightarrow>
     distinct (map rs_id (reservations l))
     \<and> map reservation_key (reservations l) = map attempt_key (attempts l)
     \<and> distinct (map rd_reservation_id (reservation_dimensions l))
     \<and> rd_reservation_id ` set (reservation_dimensions l) \<subseteq> rs_id ` set (reservations l)
     \<and> list_all (\<lambda>r. rs_state r \<in> set [''reserved'', ''committed'', ''released'']) (reservations l)"

lemma books_ok_initialize: "books_ok initialize"
  by (simp add: books_ok_def initialize_def)

lemma books_ok_reserve:
  assumes "reserve_with_identity_quota env l i ch owner identity identity_class cost budget
             content_sha256 now_ms interval limits = Inr l'" "books_ok l"
  shows "books_ok l'"
  using reserve_ok [OF assms(1)] assms(2)
  by (auto simp: books_ok_def reservation_row_def reservation_key_def attempt_key_def)

lemma books_ok_finish:
  assumes "finish l i state f = Inr l'" "books_ok l"
    and f: "\<And>a. attempt_key (f a) = (at_id a, at_challenge_id a, at_owner a, state)"
    and "state \<in> set [''reserved'', ''committed'', ''released'']"
  shows "books_ok l'"
proof -
  note ok = finish_ok [OF assms(1)]
  let ?g = "\<lambda>(k, ch, owner, s). (k, ch, owner, if k = i \<and> s = ''reserved'' then state else s)"
  have "reservation_key \<circ> hit_state i state = ?g \<circ> reservation_key"
    by (auto simp: hit_state_def reservation_key_def fun_eq_iff)
  moreover have "attempt_key \<circ> (\<lambda>a. if at_id a = i \<and> at_state a = ''reserved'' then f a else a) = ?g \<circ> attempt_key"
    using f by (auto simp: attempt_key_def fun_eq_iff)
  ultimately have "map reservation_key (reservations l') = map ?g (map reservation_key (reservations l))"
    "map attempt_key (attempts l') = map ?g (map attempt_key (attempts l))"
    by (simp_all only: ok(1,2) update_where_def map_map)
  moreover have "rs_id \<circ> hit_state i state = rs_id"
    by (auto simp: hit_state_def)
  moreover from this have "rs_id ` hit_state i state ` set (reservations l) = rs_id ` set (reservations l)"
    by (metis image_comp)
  moreover have "reservation_dimensions l' = reservation_dimensions l"
    by (subst ok(3)) simp
  moreover have "list_all (\<lambda>r. rs_state r \<in> set [''reserved'', ''committed'', ''released'']) (reservations l')"
    using assms(2,4) by (auto simp: books_ok_def ok(1) list_all_iff hit_state_def)
  ultimately show ?thesis
    using assms(2) unfolding books_ok_def by (simp only: ok(1) map_map set_map)
qed

lemma books_ok_release: "release l i = Inr l' \<Longrightarrow> books_ok l \<Longrightarrow> books_ok l'"
  unfolding release_def by (erule books_ok_finish) (simp_all add: attempt_key_def)

lemma books_ok_commit: "commit l i result_json = Inr l' \<Longrightarrow> books_ok l \<Longrightarrow> books_ok l'"
  unfolding commit_def by (erule books_ok_finish) (simp_all add: attempt_key_def)

lemma finish_never_loses_the_attempt:
  assumes "books_ok l"
  shows "finish l i state f \<noteq> Inl (Degraded ''attempt record is missing or already finalized'')"
proof -
  have keys: "reservation_key ` set (reservations l) = attempt_key ` set (attempts l)"
    using assms unfolding books_ok_def by (metis set_map)
  have "\<exists>a \<in> set (attempts l). at_id a = i \<and> at_state a = ''reserved''"
    if r: "r \<in> set (reservations l)" "rs_id r = i" "rs_state r = ''reserved''" for r
  proof -
    have "reservation_key r \<in> attempt_key ` set (attempts l)"
      using r(1) keys by blast
    then show ?thesis
      using r(2,3) by (auto simp: reservation_key_def attempt_key_def)
  qed
  then show ?thesis
    by (auto simp: finish_def Let_def)
qed

lemma finish_reserved_row:
  assumes "books_ok l" "r \<in> set (reservations l)" "rs_id r = i"
  shows "isl (finish l i state f) \<longleftrightarrow> rs_state r \<noteq> ''reserved''"
proof -
  let ?hit = "\<lambda>x. rs_id x = i \<and> rs_state x = ''reserved''"
  have "inj_on rs_id (set (reservations l))"
    using assms(1) by (simp add: books_ok_def distinct_map)
  then have "x = r" if "x \<in> set (reservations l)" "rs_id x = i" for x
    using that assms(2,3) by (auto dest: inj_onD)
  then have hit: "rows_affected ?hit (reservations l) = 0 \<longleftrightarrow> rs_state r \<noteq> ''reserved''"
    unfolding rows_affected_0 using assms(2,3) by metis
  show ?thesis
  proof (cases "rs_state r = ''reserved''")
    case True
    then have "\<not> isl (finish l i state f)"
      using finish_never_loses_the_attempt [OF assms(1), of i state f] hit
      unfolding finish_def Let_def by (simp del: rows_affected_0 split: if_split_asm)
    then show ?thesis using True by simp
  next
    case False
    then show ?thesis using hit unfolding finish_def Let_def by (simp del: rows_affected_0)
  qed
qed

section \<open>Limits\<close>

lemma sql_max_ge: "sql_max xs = m \<Longrightarrow> x \<in> set xs \<Longrightarrow> \<exists>y. m = Some y \<and> x \<le> y"
proof -
  have le: "y \<le> z \<or> (\<exists>u \<in> set zs. y \<le> u) \<Longrightarrow> y \<le> foldl max z zs" for y z :: int and zs
    by (induction zs arbitrary: z) (auto simp: le_max_iff_disj)
  have "y \<in> set zs \<Longrightarrow> y \<le> foldl max z zs" "y \<le> foldl max y zs" for y z :: int and zs
    by (rule le, auto)+
  then show "sql_max xs = m \<Longrightarrow> x \<in> set xs \<Longrightarrow> \<exists>y. m = Some y \<and> x \<le> y"
    by (cases xs) (auto simp: sql_max_def intro: order_refl)
qed

lemma too_soon_latest:
  assumes "\<not> too_soon now_ms interval (sql_max xs)" "x \<in> set xs"
  shows "i64_saturate (interval * 1000) \<le> saturating_sub now_ms x"
proof -
  obtain y where y: "sql_max xs = Some y" "x \<le> y"
    using sql_max_ge [OF refl assms(2)] by blast
  then have "i64_saturate (interval * 1000) \<le> saturating_sub now_ms y"
    using assms(1) by (simp add: too_soon_def)
  also have "saturating_sub now_ms y \<le> saturating_sub now_ms x"
    using y(2) by (simp add: saturating_sub_def i64_saturate_def)
  finally show ?thesis .
qed

lemma filter_product_append:
  "filter p (List.product (xs @ [x]) ys) = filter p (List.product xs ys) @ map (Pair x) (filter (\<lambda>y. p (x, y)) ys)"
  by (induction xs) (simp_all add: filter_map comp_def)

lemma filter_product_snoc:
  "(\<And>x. x \<in> set xs \<Longrightarrow> \<not> p (x, y)) \<Longrightarrow> filter p (List.product xs (ys @ [y])) = filter p (List.product xs ys)"
  by (induction xs) auto

text \<open>A reservation with an identity is one more row of the identity's join, and of no other.\<close>

lemma identity_join_reserve:
  assumes "reserve_with_identity_quota env l i ch owner identity identity_class cost budget
             content_sha256 now_ms interval limits = Inr l'" "books_ok l" "identity \<noteq> []"
  shows "identity_join l' a b = identity_join l a b @
    (if a = identity \<and> b = identity_class
     then [(reservation_row i ch owner cost,
            \<lparr> rd_reservation_id = i, rd_identity = identity, rd_identity_class = identity_class,
              rd_created_at_ms = now_ms \<rparr>)] else [])"
proof -
  note ok = reserve_ok [OF assms(1)]
  let ?p = "\<lambda>(r, d). rd_reservation_id d = rs_id r \<and> rd_identity d = a \<and> rd_identity_class d = b"
  let ?r = "reservation_row i ch owner cost"
  let ?d = "\<lparr> rd_reservation_id = i, rd_identity = identity, rd_identity_class = identity_class,
              rd_created_at_ms = now_ms \<rparr>"
  have old: "filter (\<lambda>d. ?p (?r, d)) (reservation_dimensions l) = []"
    using ok(7) [OF assms(3)] by (auto simp: filter_empty_conv reservation_row_def)
  have "identity_join l' a b = filter ?p (List.product (reservations l @ [?r]) (reservation_dimensions l @ [?d]))"
    using assms(3) by (simp add: identity_join_def ok(1,3))
  also have "\<dots> = filter ?p (List.product (reservations l) (reservation_dimensions l))
      @ map (Pair ?r) (filter (\<lambda>d. ?p (?r, d)) (reservation_dimensions l @ [?d]))"
    unfolding filter_product_append
    by (subst filter_product_snoc) (use ok(4) in auto)
  finally show ?thesis
    using old by (auto simp: identity_join_def reservation_row_def)
qed

definition reserved_total :: "Ledger \<Rightarrow> string \<Rightarrow> rat" where
  "reserved_total l ch = total_cost (map rs_estimated_cost (challenge_reserved l ch))"

text \<open>Stored costs are on the grid and a challenge's reserved total is below \<open>2 ^ 32\<close>.\<close>

definition costs_ok :: "Ledger \<Rightarrow> bool" where
  "costs_ok l \<longleftrightarrow> list_all (\<lambda>r. grid_cost (rs_estimated_cost r)) (reservations l)"

lemma grid_total:
  assumes "list_all grid_cost xs" "total_cost xs < 2 ^ 32"
  shows "grid_cost (Fin (total_cost xs))"
proof -
  have "\<exists>n::nat. total_cost xs = of_nat n / 2 ^ 20"
    using assms(1)
  proof (induction xs)
    case Nil
    show ?case by (intro exI [of _ 0]) (simp add: total_cost_def)
  next
    case (Cons x xs)
    then obtain n m :: nat where "total_cost xs = of_nat n / 2 ^ 20" "x = Fin (of_nat m / 2 ^ 20)"
      by (auto simp: grid_cost_def)
    then have "total_cost (x # xs) = of_nat (m + n) / 2 ^ 20"
      by (simp add: total_cost_def field_simps)
    then show ?case by blast
  qed
  then obtain n :: nat where n: "total_cost xs = of_nat n / 2 ^ 20" by blast
  then have "(of_nat n :: rat) < of_nat (2 ^ 52)"
    using assms(2) by (simp add: field_simps)
  then have "n < 2 ^ 52"
    by (simp only: of_nat_less_iff)
  then show ?thesis
    using n by (auto simp: grid_cost_def)
qed

lemma sql_sum_exact:
  assumes "exact_sums env" "list_all grid_cost xs" "total_cost xs < 2 ^ 32"
  shows "sql_sum env xs = Fin (total_cost xs)"
  using assms by (auto simp: sql_sum_def exact_sums_def total_cost_def)

text \<open>The exact reading of a budget comparison.\<close>

lemma budget_comparison:
  assumes "exact_sums env" "list_all grid_cost xs" "total_cost xs < 2 ^ 32" "grid_cost cost"
    and "\<not> f64_lt (Fin budget) (f64_add (sql_sum env xs) cost)"
  shows "total_cost xs + f64_val cost \<le> budget"
  using assms(5) f64_add_grid [OF grid_total [OF assms(2,3)] assms(4)]
  by (simp add: sql_sum_exact [OF assms(1-3)])

section \<open>Properties\<close>

lemma challenge_reserved_reserve:
  assumes "reserve_with_identity_quota env l i ch owner identity identity_class cost budget
             content_sha256 now_ms interval limits = Inr l'"
  shows "challenge_reserved l' c =
    challenge_reserved l c @ (if c = ch then [reservation_row i ch owner cost] else [])"
  using reserve_ok(1) [OF assms] by (auto simp: challenge_reserved_def reservation_row_def is_reserved_def)

lemma total_cost_append [simp]: "total_cost (xs @ ys) = total_cost xs + total_cost ys"
  by (simp add: total_cost_def)

lemma costs_ok_reserved:
  "costs_ok l \<Longrightarrow> list_all grid_cost (map rs_estimated_cost (challenge_reserved l ch))"
  by (auto simp: costs_ok_def challenge_reserved_def list_all_iff)

text \<open>
  The challenge budget.  For costs on the grid, a reservation that succeeds adds exactly its cost to
  what is reserved for its challenge, changes no other challenge, and leaves the reserved total of
  the challenge at or below the budget it was given; every attempt of the same owner at the challenge
  that is reserved or committed started at least the cadence interval before it.
\<close>

lemma reserve_within_budget:
  assumes "exact_sums env" "costs_ok l" "reserved_total l ch < 2 ^ 32" "grid_cost cost"
    and "reserve_with_identity_quota env l i ch owner identity identity_class cost (Fin budget)
           content_sha256 now_ms interval limits = Inr l'"
  shows "reserved_total l' ch = reserved_total l ch + f64_val cost" "reserved_total l' ch \<le> budget"
    and "c \<noteq> ch \<Longrightarrow> reserved_total l' c = reserved_total l c" and "costs_ok l'"
    and "0 < interval \<Longrightarrow> a \<in> set (counted_attempts l ch owner) \<Longrightarrow>
         i64_saturate (interval * 1000) \<le> saturating_sub now_ms (at_started_at_ms a)"
proof -
  note ok = reserve_ok [OF assms(5)] and chk = reserve_checked [OF assms(5)]
  show total: "reserved_total l' ch = reserved_total l ch + f64_val cost"
    using challenge_reserved_reserve [OF assms(5), of ch]
    by (simp add: reserved_total_def reservation_row_def) (simp add: total_cost_def)
  show "reserved_total l' ch \<le> budget"
    using budget_comparison [OF assms(1) costs_ok_reserved [OF assms(2)] _ assms(4) chk(3)] assms(3)
    unfolding total by (simp add: reserved_total_def)
  show "reserved_total l' c = reserved_total l c" if "c \<noteq> ch"
    using challenge_reserved_reserve [OF assms(5), of c] that by (simp add: reserved_total_def)
  show "costs_ok l'"
    using assms(2,4) ok(1) by (simp add: costs_ok_def reservation_row_def)
  show "i64_saturate (interval * 1000) \<le> saturating_sub now_ms (at_started_at_ms a)"
    if "0 < interval" "a \<in> set (counted_attempts l ch owner)"
    using chk(4) that by (intro too_soon_latest) auto
qed

text \<open>Releasing or committing frees what was reserved, and the totals only go down.\<close>

lemma finish_reserved:
  assumes "finish l i state f = Inr l'" "state \<noteq> ''reserved''"
  shows "challenge_reserved l' c = filter (\<lambda>r. rs_id r \<noteq> i) (challenge_reserved l c)"
proof -
  have "filter (\<lambda>r. rs_challenge_id r = c \<and> is_reserved r) (map (hit_state i state) rs)
      = filter (\<lambda>r. rs_id r \<noteq> i) (filter (\<lambda>r. rs_challenge_id r = c \<and> is_reserved r) rs)" for rs
    using assms(2) by (induction rs) (auto simp: hit_state_def is_reserved_def)
  then show ?thesis
    by (simp add: challenge_reserved_def finish_ok(1) [OF assms(1)])
qed

lemma grid_cost_nonneg: "grid_cost x \<Longrightarrow> 0 \<le> f64_val x"
  by (auto simp: grid_cost_def)

lemma total_cost_filter:
  "list_all (\<lambda>r. grid_cost (rs_estimated_cost r)) rs \<Longrightarrow>
   total_cost (map rs_estimated_cost (filter p rs)) \<le> total_cost (map rs_estimated_cost rs)"
  by (induction rs) (auto simp: total_cost_def dest: grid_cost_nonneg)

lemma finish_within_budget:
  assumes "finish l i state f = Inr l'" "state \<noteq> ''reserved''" "costs_ok l"
  shows "reserved_total l' c \<le> reserved_total l c" "costs_ok l'"
proof -
  show "reserved_total l' c \<le> reserved_total l c"
    unfolding reserved_total_def finish_reserved [OF assms(1,2)]
    using assms(3) by (intro total_cost_filter) (auto simp: costs_ok_def challenge_reserved_def list_all_iff)
  show "costs_ok l'"
    using assms(3) by (auto simp: costs_ok_def finish_ok(1) [OF assms(1)] list_all_iff hit_state_def)
qed

text \<open>What a quota guarantees once a reservation was made under it.\<close>

lemma identity_quota_enforced:
  assumes "reserve_with_identity_quota env l i ch owner identity identity_class cost budget
             content_sha256 now_ms interval (Some q) = Inr l'" "books_ok l"
  shows "identity_reserved l' identity identity_class
       = identity_reserved l identity identity_class @ [reservation_row i ch owner cost]"
    and "iq_max_concurrent_reservations q = Some m \<Longrightarrow> length (identity_reserved l' identity identity_class) \<le> m"
    and "iq_min_interval_seconds q = Some s \<Longrightarrow> 0 < s \<Longrightarrow> (r, d) \<in> set (identity_join l identity identity_class) \<Longrightarrow>
         rs_state r \<in> {''reserved'', ''committed''} \<Longrightarrow>
         i64_saturate (s * 1000) \<le> saturating_sub now_ms (rd_created_at_ms d)"
    and "\<forall>r \<in> set (reservations l'). rs_state r = ''reserved'' \<longrightarrow>
         (\<exists>d \<in> set (reservation_dimensions l'). rd_reservation_id d = rs_id r)"
proof -
  note ok = reserve_ok [OF assms(1)]
  note chk = reserve_checked(5) [OF assms(1) refl]
  have ne: "identity \<noteq> []" using chk not_blank_not_empty by blast
  show added: "identity_reserved l' identity identity_class
       = identity_reserved l identity identity_class @ [reservation_row i ch owner cost]"
    using identity_join_reserve [OF assms ne, of identity identity_class]
    by (simp add: identity_reserved_def is_reserved_def reservation_row_def)
  show "length (identity_reserved l' identity identity_class) \<le> m" if "iq_max_concurrent_reservations q = Some m"
    using chk that unfolding added by (simp add: quota_checks_def)
  show "i64_saturate (s * 1000) \<le> saturating_sub now_ms (rd_created_at_ms d)"
    if "iq_min_interval_seconds q = Some s" "0 < s" "(r, d) \<in> set (identity_join l identity identity_class)"
      "rs_state r \<in> {''reserved'', ''committed''}"
    using chk that(1,2)
    by (intro too_soon_latest [of _ _ "map (\<lambda>(r, d). rd_created_at_ms d)
                 (filter (\<lambda>(r, d). rs_state r \<in> set [''reserved'', ''committed''])
                   (identity_join l identity identity_class))"])
       (simp add: quota_checks_def, use that(3,4) in force)
  have "unclassified l = []"
    using chk by (simp add: quota_checks_def)
  then have "\<forall>r \<in> set (reservations l). rs_state r = ''reserved'' \<longrightarrow>
      (\<exists>d \<in> set (reservation_dimensions l). rd_reservation_id d = rs_id r)"
    by (simp add: unclassified_def filter_empty_conv list_ex_iff is_reserved_def)
  then show "\<forall>r \<in> set (reservations l'). rs_state r = ''reserved'' \<longrightarrow>
         (\<exists>d \<in> set (reservation_dimensions l'). rd_reservation_id d = rs_id r)"
    using ok(1,3) ne by (auto simp: reservation_row_def)
qed

lemma find_filter: "filter p xs = e # ys \<Longrightarrow> List.find p xs = Some e"
  by (induction xs) (auto split: if_splits)

text \<open>The broker reserves only what the policy admits, under the quota of the one matching pool entry.\<close>

lemma prepare_quota_admitted:
  assumes "gate_passes fs fs_read sha256 p q Identity"
  shows "\<exists>limits. prepare_quota p q = Ok limits \<and>
    (if po_identity_pool p = [] then limits = None
     else \<exists>e. filter (pool_match q) (po_identity_pool p) = [e] \<and> \<not> ip_frozen e \<and> limits = Some (quota e))"
proof (cases "po_identity_pool p = []")
  case True
  then show ?thesis by (simp add: prepare_quota_def)
next
  case False
  then obtain e where e: "filter (pool_match q) (po_identity_pool p) = [e]" "\<not> ip_frozen e"
    using assms by (auto simp: gate_passes_def)
  have "List.find (pool_match q) (po_identity_pool p) = Some e"
    using e(1) by (rule find_filter)
  then show ?thesis
    using False e by (simp add: prepare_quota_def)
qed

lemma admit_allowed:
  "ad_allowed (admit fs fs_read sha256 p q) \<longleftrightarrow> (\<forall>g. gate_passes fs fs_read sha256 p q g)"
proof -
  have "ad_allowed (admit fs fs_read sha256 p q) \<longleftrightarrow> checks (admission_checks fs fs_read sha256 p q) = Ok ()"
    by (cases "checks (admission_checks fs fs_read sha256 p q)")
       (auto simp: admit_def denied_def allow_def simp del: checks_ok)
  then show ?thesis
    by (simp only: checks_ok admission_checks_ok)
qed

lemma IdentityQuota_validate_errs:
  "IdentityQuota_validate q = Inl e \<Longrightarrow> e \<in> {''identity pool max_reserved_cost_usd is invalid'',
     ''identity pool max_concurrent_reservations must be positive'', ''identity pool min_interval_seconds is invalid''}"
  unfolding IdentityQuota_validate_def by (drule checks_err) (auto split: option.splits)

lemma reserve_errs:
  "reserve_with_identity_quota env l i ch owner identity identity_class cost budget content_sha256 now_ms interval limits
     \<noteq> Inl (Degraded ''identity pool binding disappeared between admission and reservation'')"
proof
  let ?e = "Degraded ''identity pool binding disappeared between admission and reservation''"
  assume "reserve_with_identity_quota env l i ch owner identity identity_class cost budget content_sha256 now_ms
      interval limits = Inl ?e"
  moreover have "reservation_inserts l i ch owner identity identity_class cost content_sha256 now_ms \<noteq> Inl ?e"
    by (auto simp: reservation_inserts_def insert_row_def and_then_def)
  ultimately have "Inl ?e \<in> set
      (reserve_input_checks identity identity_class cost interval limits
        @ [fail_if (f64_lt budget (f64_add
               (sql_sum env (map rs_estimated_cost (challenge_reserved l ch))) cost))
             (Degraded ''reservation would exceed challenge budget''),
           fail_if (0 < interval \<and> too_soon now_ms interval
               (sql_max (map at_started_at_ms (counted_attempts l ch owner))))
             (Degraded ''submission cadence interval is not satisfied'')]
        @ (case limits of
             None \<Rightarrow> []
           | Some q \<Rightarrow> quota_checks env l identity identity_class cost now_ms q))"
    unfolding reserve_with_identity_quota_def
    by (intro checks_err) (simp add: and_then_def split: sum.splits)
  then show False
    by (auto simp: reserve_input_checks_def quota_checks_def split: option.splits dest: IdentityQuota_validate_errs)
qed

text \<open>
  C35. The broker.  \<open>SubmissionBroker::prepare\<close> succeeds only for a request that passes all seven gates
  of the policy; it then leaves the policy alone and adds one reserved row with the request's
  challenge, owner and cost.  When the policy has an identity pool, exactly one entry matches the
  request, it is not frozen, its identity has one reservation more than before and no more than the
  entry's concurrency quota, and no reserved row in the whole ledger is without an identity.  An
  admitted request is never refused because its pool binding disappeared.
\<close>

theorem broker_reserves_what_was_admitted:
  fixes b :: SubmissionBroker
  assumes "books_ok (sb_ledger b)"
  shows "(case prepare env b q i budget of
     Inl e \<Rightarrow> e \<noteq> LedgerFailed (Degraded ''identity pool binding disappeared between admission and reservation'')
   | Inr b' \<Rightarrow>
       (\<forall>g. gate_passes (en_fs env) (en_read env) (en_sha256 env) (sb_policy b) q g)
       \<and> sb_policy b' = sb_policy b
       \<and> reservations (sb_ledger b') = reservations (sb_ledger b)
            @ [reservation_row i (rq_challenge_id q) (rq_owner q) (rq_estimated_cost_usd q)]
       \<and> books_ok (sb_ledger b')
       \<and> (po_identity_pool (sb_policy b) \<noteq> [] \<longrightarrow>
            (\<exists>e. filter (pool_match q) (po_identity_pool (sb_policy b)) = [e] \<and> \<not> ip_frozen e
               \<and> length (identity_reserved (sb_ledger b') (rq_identity q) (rq_identity_class q))
                   = length (identity_reserved (sb_ledger b) (rq_identity q) (rq_identity_class q)) + 1
               \<and> (\<forall>m. ip_max_concurrent_reservations e = Some m \<longrightarrow>
                    length (identity_reserved (sb_ledger b') (rq_identity q) (rq_identity_class q)) \<le> m))
            \<and> unclassified (sb_ledger b') = []))"
proof (cases "prepare env b q i budget")
  case (Inl e)
  have "prepare_quota (sb_policy b) q \<noteq> Inl x"
    if "ad_allowed (admit (en_fs env) (en_read env) (en_sha256 env) (sb_policy b) q)" for x
    using that prepare_quota_admitted [of "en_fs env" "en_read env" "en_sha256 env" "sb_policy b" q]
    by (auto simp: admit_allowed)
  then show ?thesis
    using Inl reserve_errs by (auto simp: prepare_def Let_def and_then_def split: if_splits sum.splits)
next
  case (Inr b')
  then obtain limits l' where allowed: "\<forall>g. gate_passes (en_fs env) (en_read env) (en_sha256 env) (sb_policy b) q g"
    and limits: "prepare_quota (sb_policy b) q = Ok limits" and b': "b' = b\<lparr> sb_ledger := l' \<rparr>"
    and reserve: "reserve_with_identity_quota env (sb_ledger b) i (rq_challenge_id q)
               (rq_owner q) (rq_identity q) (rq_identity_class q) (rq_estimated_cost_usd q) budget
               (rq_content_sha256 q) (rq_now_ms q) (ca_min_interval_seconds (po_cadence (sb_policy b))) limits = Inr l'"
    by (auto simp: prepare_def Let_def admit_allowed split: if_splits)
  have "(\<exists>e. filter (pool_match q) (po_identity_pool (sb_policy b)) = [e] \<and> \<not> ip_frozen e
               \<and> length (identity_reserved l' (rq_identity q) (rq_identity_class q))
                   = length (identity_reserved (sb_ledger b) (rq_identity q) (rq_identity_class q)) + 1
               \<and> (\<forall>m. ip_max_concurrent_reservations e = Some m \<longrightarrow>
                    length (identity_reserved l' (rq_identity q) (rq_identity_class q)) \<le> m))
            \<and> unclassified l' = []"
    if pool: "po_identity_pool (sb_policy b) \<noteq> []"
  proof -
    obtain e where e: "filter (pool_match q) (po_identity_pool (sb_policy b)) = [e]" "\<not> ip_frozen e"
        "limits = Some (quota e)"
      using prepare_quota_admitted [OF allowed [rule_format, of Identity]] limits pool by auto
    note enforced = identity_quota_enforced [OF reserve [unfolded e(3)] assms]
    have "unclassified l' = []"
      using enforced(4) by (auto simp: unclassified_def filter_empty_conv list_ex_iff is_reserved_def)
    moreover have "length (identity_reserved l' (rq_identity q) (rq_identity_class q))
                   = length (identity_reserved (sb_ledger b) (rq_identity q) (rq_identity_class q)) + 1"
      by (simp add: enforced(1))
    moreover have "length (identity_reserved l' (rq_identity q) (rq_identity_class q)) \<le> m"
      if "ip_max_concurrent_reservations e = Some m" for m
      using enforced(2) [of m] that by (simp add: quota_def)
    ultimately show ?thesis
      using e(1,2) by blast
  qed
  then show ?thesis
    using Inr allowed reserve_ok(1) [OF reserve] books_ok_reserve [OF reserve assms] b' by simp
qed

definition sample_pool_entry :: IdentityPoolEntry where
  "sample_pool_entry =
     \<lparr> ip_name = ''solver-a'', ip_challenge_id = ''c1'', ip_owner = ''team'', ip_identity_class = ''primary'',
       ip_frozen = False, ip_max_reserved_cost_usd = Some (Fin 10), ip_max_concurrent_reservations = Some 1,
       ip_min_interval_seconds = Some 60 \<rparr>"

definition sample_policy :: Policy where
  "sample_policy =
     \<lparr> po_channel = \<lparr> cp_harbor_only = True, cp_workspace_root = ''/w'', cp_trusted_cli_root = None,
         cp_trusted_cli_sha256 = hex_bytes ''h'', cp_channel_probe_max_age_ms = default_channel_probe_max_age_ms,
         cp_egress = EgressPolicy_default \<rparr>,
       po_identity = \<lparr> id_name = ''solver-a'', id_challenge_id = ''c1'', id_owner = ''team'' \<rparr>,
       po_identity_pool = [sample_pool_entry],
       po_cadence = \<lparr> ca_min_interval_seconds = 60, ca_max_estimated_cost_usd = Fin 5 \<rparr>,
       po_redline = \<lparr> rl_clean = True, rl_banned_terms = [] \<rparr>,
       po_trace = \<lparr> tp_real_execution = True, tp_paired_tool_events = True, tp_artifact_provenance = True \<rparr>,
       po_model = \<lparr> mo_provider = ''p'', mo_model = ''m'' \<rparr>,
       po_bohr = BohrPolicy_default \<rparr>"

definition sample_request :: AdmissionRequest where
  "sample_request =
     \<lparr> rq_channel = ''harbor'', rq_identity = ''solver-a'', rq_identity_class = ''primary'',
       rq_challenge_id = ''c1'', rq_owner = ''team'', rq_cli_path = ''/w/code/a'', rq_workspace = ''/w'',
       rq_estimated_cost_usd = Fin 2,
       rq_trace = \<lparr> te_real_execution = True, te_paired_tool_events = True, te_artifact_provenance = True \<rparr>,
       rq_provider = ''p'', rq_model = ''m'', rq_content_sha256 = ''abc'', rq_now_ms = 100000,
       rq_bohr_job = None \<rparr>"


definition sample_broker :: SubmissionBroker where
  "sample_broker = \<lparr> sb_policy = sample_policy, sb_ledger = initialize \<rparr>"

lemma initialize_unreserved [simp]: "reservations initialize = []" "identity_reserved initialize a b = []"
  by (simp_all add: initialize_def identity_reserved_def identity_join_def)

lemma sample_prepared: "isl (prepare sample_env sample_broker sample_request ''r1'' (Fin 8)) = False"
  by code_simp

theorem broker_reserves_what_was_admitted_witness:
  "books_ok initialize \<and>
   (\<exists>b'. prepare sample_env sample_broker sample_request ''r1'' (Fin 8) = Inr b'
     \<and> reservations (sb_ledger b') = [reservation_row ''r1'' ''c1'' ''team'' (Fin 2)]
     \<and> length (identity_reserved (sb_ledger b') ''solver-a'' ''primary'') \<le> 1)"
proof -
  obtain b' where "prepare sample_env sample_broker sample_request ''r1'' (Fin 8) = Inr b'"
    using sample_prepared by (cases "prepare sample_env sample_broker sample_request ''r1'' (Fin 8)") auto
  then show ?thesis
    using broker_reserves_what_was_admitted [of sample_broker sample_env sample_request "''r1''" "Fin 8"]
      books_ok_initialize
    by (simp add: sample_broker_def sample_policy_def sample_request_def
          sample_pool_entry_def pool_match_def)
qed

end
