(* ===== verification/IdentityPool.thy ===== *)
theory IdentityPool
  imports Reservations "HOL-Library.Product_Lexorder"
begin

text \<open>
  The ledger's identity pool: \<open>resolve_identity_pool\<close>, \<open>get_identity_pool_entry\<close>,
  \<open>list_active_identity_pool_entries\<close> and the audited \<open>provision_identity_pool_entry_audited\<close>,
  \<open>set_identity_pool_frozen_audited\<close> and \<open>remove_identity_pool_entry_audited\<close>.
\<close>

section \<open>Entries\<close>

definition identity_pool_entry_key :: "string \<Rightarrow> string \<Rightarrow> string \<Rightarrow> string \<Rightarrow> string" where
  "identity_pool_entry_key name ch owner identity_class =
     name @ CHR 0x1F # ch @ CHR 0x1F # owner @ CHR 0x1F # identity_class"

definition validate_identity_pool_entry :: "IdentityPoolEntry \<Rightarrow> LedgerError + unit" where
  "validate_identity_pool_entry e = checks
     [fail_if (is_blank (ip_name e) \<or> is_blank (ip_challenge_id e) \<or> is_blank (ip_owner e)
               \<or> is_blank (ip_identity_class e))
        (Degraded ''identity pool name, challenge, owner, and class are required''),
      map_err Degraded (IdentityQuota_validate (quota e))]"

definition identity_pool_entry_from_row :: "PoolRow \<Rightarrow> LedgerError + IdentityPoolEntry" where
  "identity_pool_entry_from_row r =
     and_then (case pr_max_concurrent_reservations r of
         None \<Rightarrow> Ok None
       | Some v \<Rightarrow> if 0 \<le> v \<and> v \<le> int u32_max then Ok (Some (nat v))
                   else Err (Degraded ''stored concurrent quota is invalid'')) (\<lambda>max_concurrent.
     Ok \<lparr> ip_name = pr_name r, ip_challenge_id = pr_challenge_id r, ip_owner = pr_owner r,
          ip_identity_class = pr_identity_class r, ip_frozen = pr_frozen r,
          ip_max_reserved_cost_usd = pr_max_reserved_cost_usd r,
          ip_max_concurrent_reservations = max_concurrent,
          ip_min_interval_seconds = pr_min_interval_seconds r \<rparr>)"

definition pool_row_for :: "string \<Rightarrow> string \<Rightarrow> string \<Rightarrow> string \<Rightarrow> PoolRow \<Rightarrow> bool" where
  "pool_row_for name ch owner identity_class r \<longleftrightarrow>
     pr_name r = name \<and> pr_challenge_id r = ch \<and> pr_owner r = owner \<and> pr_identity_class r = identity_class"

section \<open>Reading\<close>

definition get_identity_pool_entry ::
  "Ledger \<Rightarrow> string \<Rightarrow> string \<Rightarrow> string \<Rightarrow> string \<Rightarrow> LedgerError + IdentityPoolEntry option" where
  "get_identity_pool_entry l name ch owner identity_class =
     (case fetch_optional (\<lambda>r. pool_row_for name ch owner identity_class r \<and> pr_removed_at_ms r = None)
             (identity_pool_entries l) of
        None \<Rightarrow> Ok None
      | Some r \<Rightarrow> and_then (identity_pool_entry_from_row r) (\<lambda>e. Ok (Some e)))"

definition resolve_identity_pool ::
  "Ledger \<Rightarrow> string \<Rightarrow> string \<Rightarrow> string \<Rightarrow> string \<Rightarrow> LedgerError + IdentityPoolEntry option" where
  "resolve_identity_pool l name ch owner identity_class =
     (if \<not> list_ex (\<lambda>r. pr_removed_at_ms r = None) (identity_pool_entries l) then Ok None
      else and_then (get_identity_pool_entry l name ch owner identity_class) (\<lambda>x.
           and_then (ok_or x (Degraded ''identity has no active ledger pool binding'')) (\<lambda>entry.
           Ok (Some entry))))"

fun collect :: "('e + 'a) list \<Rightarrow> 'e + 'a list" where
  "collect [] = Ok []"
| "collect (r # rs) = and_then r (\<lambda>x. and_then (collect rs) (\<lambda>xs. Ok (x # xs)))"

definition list_active_identity_pool_entries :: "Ledger \<Rightarrow> LedgerError + IdentityPoolEntry list" where
  "list_active_identity_pool_entries l =
     collect (map identity_pool_entry_from_row
       (sort_key (\<lambda>r. (pr_name r, pr_identity_class r))
         (filter (\<lambda>r. pr_removed_at_ms r = None) (identity_pool_entries l))))"

section \<open>Audited changes\<close>

definition pool_event_bound :: "CoordinationEventRecord \<Rightarrow> string \<Rightarrow> string \<Rightarrow> int \<Rightarrow> bool" where
  "pool_event_bound e key event_type now_ms \<longleftrightarrow>
     cr_aggregate_type e = ''identity_pool'' \<and> cr_aggregate_id e = key
     \<and> cr_event_type e = event_type \<and> cr_occurred_at_ms e = now_ms"

text \<open>\<open>INSERT \<dots> ON CONFLICT DO UPDATE\<close>: the time of the first provision stays.\<close>

definition provisioned_row :: "IdentityPoolEntry \<Rightarrow> int \<Rightarrow> PoolRow" where
  "provisioned_row entry now_ms =
     \<lparr> pr_name = ip_name entry, pr_challenge_id = ip_challenge_id entry, pr_owner = ip_owner entry,
       pr_identity_class = ip_identity_class entry, pr_frozen = ip_frozen entry,
       pr_max_reserved_cost_usd = ip_max_reserved_cost_usd entry,
       pr_max_concurrent_reservations = map_option int (ip_max_concurrent_reservations entry),
       pr_min_interval_seconds = ip_min_interval_seconds entry,
       pr_provisioned_at_ms = now_ms, pr_updated_at_ms = now_ms, pr_removed_at_ms = None \<rparr>"

definition upsert_pool_row :: "PoolRow \<Rightarrow> PoolRow list \<Rightarrow> PoolRow list" where
  "upsert_pool_row new t =
     (if list_ex (pool_clash new) t
      then update_where (pool_clash new) (\<lambda>r. new\<lparr> pr_provisioned_at_ms := pr_provisioned_at_ms r \<rparr>) t
      else t @ [new])"

definition provision_identity_pool_entry_audited ::
  "Ledger \<Rightarrow> IdentityPoolEntry \<Rightarrow> int \<Rightarrow> CoordinationEventRecord \<Rightarrow> LedgerError + nat \<times> Ledger" where
  "provision_identity_pool_entry_audited l entry now_ms event =
     and_then (validate_identity_pool_entry entry) (\<lambda>_.
       if \<not> pool_event_bound event (identity_pool_entry_key (ip_name entry) (ip_challenge_id entry)
               (ip_owner entry) (ip_identity_class entry)) ''identity_pool_provisioned'' now_ms
       then Err (Degraded ''identity pool event is not bound to the entry'')
       else audited l event
         (\<lambda>v l1. and_then (ok_or (fetch_optional (pool_row_for (ip_name entry) (ip_challenge_id entry)
                    (ip_owner entry) (ip_identity_class entry)) (identity_pool_entries l1))
                 (Degraded ''replayed identity pool provision is missing its entry'')) (\<lambda>r.
            fail_if (pr_frozen r \<noteq> ip_frozen entry
                     \<or> \<not> opt_f64_eq (pr_max_reserved_cost_usd r) (ip_max_reserved_cost_usd entry)
                     \<or> pr_max_concurrent_reservations r \<noteq> map_option int (ip_max_concurrent_reservations entry)
                     \<or> pr_min_interval_seconds r \<noteq> ip_min_interval_seconds entry
                     \<or> pr_removed_at_ms r \<noteq> None)
              (Degraded ''replayed identity pool provision does not match the stored entry'')))
         (\<lambda>v l1. Ok (l1\<lparr> identity_pool_entries :=
                upsert_pool_row (provisioned_row entry now_ms) (identity_pool_entries l1) \<rparr>)))"

text \<open>\<open>UPDATE \<dots> WHERE \<dots> AND removed_at_ms IS NULL\<close>, refused when it hits no row.\<close>

definition update_active_pool_row ::
  "string \<Rightarrow> string \<Rightarrow> string \<Rightarrow> string \<Rightarrow> (PoolRow \<Rightarrow> PoolRow) \<Rightarrow> Ledger \<Rightarrow> LedgerError + Ledger" where
  "update_active_pool_row name ch owner identity_class f l =
     (let hit = (\<lambda>r. pool_row_for name ch owner identity_class r \<and> pr_removed_at_ms r = None)
      in if rows_affected hit (identity_pool_entries l) = 0
         then Err (Degraded ''identity pool entry is missing or already removed'')
         else Ok (l\<lparr> identity_pool_entries := update_where hit f (identity_pool_entries l) \<rparr>))"

definition set_identity_pool_frozen_audited ::
  "Ledger \<Rightarrow> string \<Rightarrow> string \<Rightarrow> string \<Rightarrow> string \<Rightarrow> bool \<Rightarrow> int \<Rightarrow> CoordinationEventRecord \<Rightarrow>
   LedgerError + nat \<times> Ledger" where
  "set_identity_pool_frozen_audited l name ch owner identity_class frozen now_ms event =
     (if \<not> pool_event_bound event (identity_pool_entry_key name ch owner identity_class)
            (if frozen then ''identity_pool_frozen'' else ''identity_pool_thawed'') now_ms
      then Err (Degraded ''identity pool event is not bound to the entry state'')
      else audited l event
        (\<lambda>v l1. and_then (ok_or (fetch_optional (pool_row_for name ch owner identity_class) (identity_pool_entries l1))
                (Degraded ''replayed identity pool freeze is missing its entry'')) (\<lambda>r.
           fail_if (pr_frozen r \<noteq> frozen)
             (Degraded ''replayed identity pool freeze does not match the stored entry'')))
        (\<lambda>v l1. update_active_pool_row name ch owner identity_class
                 (\<lambda>r. r\<lparr> pr_frozen := frozen, pr_updated_at_ms := now_ms \<rparr>) l1))"

definition remove_identity_pool_entry_audited ::
  "Ledger \<Rightarrow> string \<Rightarrow> string \<Rightarrow> string \<Rightarrow> string \<Rightarrow> int \<Rightarrow> CoordinationEventRecord \<Rightarrow>
   LedgerError + nat \<times> Ledger" where
  "remove_identity_pool_entry_audited l name ch owner identity_class now_ms event =
     (if \<not> pool_event_bound event (identity_pool_entry_key name ch owner identity_class)
            ''identity_pool_removed'' now_ms
      then Err (Degraded ''identity pool event is not bound to the entry removal'')
      else audited l event
        (\<lambda>v l1. and_then (ok_or (fetch_optional (pool_row_for name ch owner identity_class) (identity_pool_entries l1))
                (Degraded ''replayed identity pool removal is missing its entry'')) (\<lambda>r.
           fail_if (pr_removed_at_ms r \<noteq> Some now_ms)
             (Degraded ''replayed identity pool removal does not match the stored entry'')))
        (\<lambda>v l1. update_active_pool_row name ch owner identity_class
                 (\<lambda>r. r\<lparr> pr_removed_at_ms := Some now_ms, pr_updated_at_ms := now_ms \<rparr>) l1))"

section \<open>The pool as a map\<close>

type_synonym pool_key = "string \<times> string \<times> string \<times> string"

definition row_key :: "PoolRow \<Rightarrow> pool_key" where
  "row_key r = (pr_name r, pr_challenge_id r, pr_owner r, pr_identity_class r)"

definition entry_key :: "IdentityPoolEntry \<Rightarrow> pool_key" where
  "entry_key e = (ip_name e, ip_challenge_id e, ip_owner e, ip_identity_class e)"

definition entry_of :: "PoolRow \<Rightarrow> IdentityPoolEntry" where
  "entry_of r =
     \<lparr> ip_name = pr_name r, ip_challenge_id = pr_challenge_id r, ip_owner = pr_owner r,
       ip_identity_class = pr_identity_class r, ip_frozen = pr_frozen r,
       ip_max_reserved_cost_usd = pr_max_reserved_cost_usd r,
       ip_max_concurrent_reservations = map_option nat (pr_max_concurrent_reservations r),
       ip_min_interval_seconds = pr_min_interval_seconds r \<rparr>"

text \<open>The abstract pool: the active entry of each key.\<close>

definition pool_abs :: "Ledger \<Rightarrow> pool_key \<Rightarrow> IdentityPoolEntry option" where
  "pool_abs l k =
     map_option entry_of (fetch_optional (\<lambda>r. row_key r = k \<and> pr_removed_at_ms r = None) (identity_pool_entries l))"

text \<open>Keys are unique and every stored entry could be provisioned.\<close>

definition pool_ok :: "Ledger \<Rightarrow> bool" where
  "pool_ok l \<longleftrightarrow> distinct (map row_key (identity_pool_entries l))
     \<and> list_all (\<lambda>r. identity_pool_entry_from_row r = Ok (entry_of r)
                    \<and> validate_identity_pool_entry (entry_of r) = Ok ()) (identity_pool_entries l)"

text \<open>An entry as the type system of the program allows it: the concurrency quota is a \<open>u32\<close>.\<close>

definition entry_typed :: "IdentityPoolEntry \<Rightarrow> bool" where
  "entry_typed e \<longleftrightarrow> (case ip_max_concurrent_reservations e of None \<Rightarrow> True | Some m \<Rightarrow> m \<le> u32_max)"

lemma pool_row_for_key: "pool_row_for n c x k r \<longleftrightarrow> row_key r = (n, c, x, k)"
  by (auto simp: pool_row_for_def row_key_def)

lemma pool_clash_key: "pool_clash a b \<longleftrightarrow> row_key a = row_key b"
  by (simp add: pool_clash_def row_key_def)

lemma provisioned_entry:
  "entry_of (provisioned_row e now) = e" "row_key (provisioned_row e now) = entry_key e"
  "pr_removed_at_ms (provisioned_row e now) = None"
  "entry_typed e \<Longrightarrow> identity_pool_entry_from_row (provisioned_row e now) = Ok e"
  by (auto simp: entry_of_def provisioned_row_def row_key_def entry_key_def identity_pool_entry_from_row_def
        entry_typed_def option.map_comp comp_def option.map_ident split: option.splits)

lemma update_where_lookup:
  assumes "distinct (map row_key t)" "\<And>r. row_key (f r) = row_key r"
  shows "fetch_optional (\<lambda>r. row_key r = k \<and> pr_removed_at_ms r = None)
      (update_where (\<lambda>r. row_key r = k0 \<and> p r) f t)
    = (if k \<noteq> k0 then fetch_optional (\<lambda>r. row_key r = k \<and> pr_removed_at_ms r = None) t
       else case fetch_optional (\<lambda>r. row_key r = k0) t of
          None \<Rightarrow> None
        | Some r \<Rightarrow> let r' = (if p r then f r else r) in if pr_removed_at_ms r' = None then Some r' else None)"
  using assms
proof (induction t)
  case (Cons r t)
  show ?case
  proof (cases "row_key r = k")
    case True
    have other: "row_key x \<noteq> k" if "x \<in> set t" for x
      using Cons.prems(1) True imageI [OF that, of row_key] by auto
    then have "fetch_optional (\<lambda>r. row_key r = k \<and> pr_removed_at_ms r = None) t = None"
      by (auto simp: fetch_optional_None)
    moreover have "fetch_optional (\<lambda>r. row_key r = k \<and> pr_removed_at_ms r = None)
        (update_where (\<lambda>r. row_key r = k0 \<and> p r) f t) = None"
      using other Cons.prems(2) by (auto simp: fetch_optional_None set_update_where) blast
    ultimately show ?thesis
      using True Cons.prems(2) by (auto simp: Let_def)
  next
    case False
    then have "row_key (if row_key r = k0 \<and> p r then f r else r) \<noteq> k"
      using Cons.prems(2) by auto
    then show ?thesis
      using Cons False by (cases "k = k0") auto
  qed
qed simp

lemma lookup_active:
  assumes "distinct (map row_key t)"
  shows "fetch_optional (\<lambda>r. row_key r = k \<and> pr_removed_at_ms r = None) t
    = (case fetch_optional (\<lambda>r. row_key r = k) t of
         None \<Rightarrow> None | Some r \<Rightarrow> if pr_removed_at_ms r = None then Some r else None)"
  using update_where_lookup [OF assms, of id k k "\<lambda>_. False"]
  by (simp add: update_where_def Let_def cong: option.case_cong)

lemma get_identity_pool_entry_abs:
  assumes "pool_ok l"
  shows "get_identity_pool_entry l n c x k = Ok (pool_abs l (n, c, x, k))"
proof (cases "fetch_optional (\<lambda>r. row_key r = (n, c, x, k) \<and> pr_removed_at_ms r = None) (identity_pool_entries l)")
  case (Some r)
  then have "identity_pool_entry_from_row r = Ok (entry_of r)"
    using assms by (auto simp: pool_ok_def list_all_iff dest: fetch_optional_SomeD)
  then show ?thesis
    using Some by (simp add: get_identity_pool_entry_def pool_abs_def pool_row_for_key)
qed (simp add: get_identity_pool_entry_def pool_abs_def pool_row_for_key)

lemma resolve_identity_pool_abs:
  assumes "pool_ok l"
  shows "resolve_identity_pool l n c x k =
    (if pool_abs l = Map.empty then Ok None
     else case pool_abs l (n, c, x, k) of
        None \<Rightarrow> Err (Degraded ''identity has no active ledger pool binding'')
      | Some e \<Rightarrow> Ok (Some e))"
proof -
  have "pool_abs l = Map.empty \<longleftrightarrow> (\<forall>k. \<forall>r \<in> set (identity_pool_entries l). \<not> (row_key r = k \<and> pr_removed_at_ms r = None))"
    unfolding fun_eq_iff by (simp only: pool_abs_def map_option_is_None fetch_optional_None)
  then have "list_ex (\<lambda>r. pr_removed_at_ms r = None) (identity_pool_entries l) \<longleftrightarrow> pool_abs l \<noteq> Map.empty"
    unfolding list_ex_iff by blast
  then show ?thesis
    by (auto simp: resolve_identity_pool_def get_identity_pool_entry_abs [OF assms] split: option.splits)
qed

lemma pool_abs_provision:
  assumes "pool_ok l" "identity_pool_entries l' = upsert_pool_row (provisioned_row e now) (identity_pool_entries l)"
    and "entry_typed e" "validate_identity_pool_entry e = Ok ()"
  shows "pool_abs l' = (pool_abs l)(entry_key e \<mapsto> e)" "pool_ok l'"
proof -
  let ?new = "provisioned_row e now" and ?t = "identity_pool_entries l"
  let ?f = "\<lambda>r :: PoolRow. ?new\<lparr> pr_provisioned_at_ms := pr_provisioned_at_ms r \<rparr>"
  have key: "pool_clash ?new = (\<lambda>r. row_key r = entry_key e)"
    by (auto simp: pool_clash_key provisioned_entry)
  have f: "entry_of (?f r) = e" "row_key (?f r) = entry_key e" "identity_pool_entry_from_row (?f r) = Ok e"
      "pr_removed_at_ms (?f r) = None" for r
    using provisioned_entry [of e now] assms(3)
    by (simp_all add: entry_of_def row_key_def identity_pool_entry_from_row_def)
  have d: "distinct (map row_key ?t)" using assms(1) by (simp add: pool_ok_def)
  have "pool_abs l' k = ((pool_abs l)(entry_key e \<mapsto> e)) k \<and> distinct (map row_key (identity_pool_entries l'))" for k
  proof (cases "\<exists>r \<in> set ?t. row_key r = entry_key e")
    case True
    then have t': "identity_pool_entries l' = update_where (\<lambda>r. row_key r = entry_key e \<and> True)
        (\<lambda>r. if row_key r = entry_key e then ?f r else r) ?t"
      using assms(2) by (auto simp: upsert_pool_row_def list_ex_iff key update_where_def)
    obtain r where "fetch_optional (\<lambda>r. row_key r = entry_key e) ?t = Some r" "row_key r = entry_key e"
      using True by (cases "fetch_optional (\<lambda>r. row_key r = entry_key e) ?t")
         (auto simp: fetch_optional_None dest: fetch_optional_SomeD)
    moreover have "map row_key (identity_pool_entries l') = map row_key ?t"
      unfolding t' by (auto simp: update_where_def f)
    ultimately show ?thesis
      using d update_where_lookup [OF d, of "\<lambda>r. if row_key r = entry_key e then ?f r else r" k "entry_key e" "\<lambda>_. True"]
      by (auto simp: pool_abs_def t' f)
  next
    case False
    then have t': "identity_pool_entries l' = ?t @ [?new]"
      using assms(2) by (auto simp: upsert_pool_row_def list_ex_iff key)
    have "fetch_optional (\<lambda>r. row_key r = entry_key e \<and> pr_removed_at_ms r = None) ?t = None"
      using False by (auto simp: fetch_optional_None)
    then show ?thesis
      using d False by (auto simp: pool_abs_def t' fetch_append provisioned_entry split: option.splits)
  qed
  then show "pool_abs l' = (pool_abs l)(entry_key e \<mapsto> e)"
    by (intro ext) blast
  have "r \<in> set ?t \<or> (\<exists>x. r = ?f x) \<or> r = ?new" if "r \<in> set (identity_pool_entries l')" for r
    using that unfolding assms(2) upsert_pool_row_def by (auto simp: set_update_where split: if_splits)
  then have "identity_pool_entry_from_row r = Ok (entry_of r) \<and> validate_identity_pool_entry (entry_of r) = Ok ()"
    if "r \<in> set (identity_pool_entries l')" for r
    using that assms(1,4) f provisioned_entry [of e now] assms(3) unfolding pool_ok_def list_all_iff by metis
  then show "pool_ok l'"
    using \<open>\<And>k. _ k \<and> _\<close> by (simp add: pool_ok_def list_all_iff)
qed

lemma pool_abs_update:
  assumes "pool_ok l" "update_active_pool_row n c x k f l = Inr l'"
    and f: "\<And>r. row_key (f r) = row_key r"
      "\<And>r. pr_max_reserved_cost_usd (f r) = pr_max_reserved_cost_usd r"
      "\<And>r. pr_max_concurrent_reservations (f r) = pr_max_concurrent_reservations r"
      "\<And>r. pr_min_interval_seconds (f r) = pr_min_interval_seconds r"
  shows "\<exists>r. pool_abs l (n, c, x, k) = Some (entry_of r) \<and> row_key r = (n, c, x, k) \<and> pr_removed_at_ms r = None
    \<and> pool_abs l' = (pool_abs l)((n, c, x, k) := (if pr_removed_at_ms (f r) = None then Some (entry_of (f r)) else None))"
    and "pool_ok l'"
proof -
  let ?k = "(n, c, x, k)" and ?t = "identity_pool_entries l"
  have t': "identity_pool_entries l' = update_where (\<lambda>r. row_key r = ?k \<and> pr_removed_at_ms r = None) f ?t"
    and "\<exists>r \<in> set ?t. row_key r = ?k \<and> pr_removed_at_ms r = None"
    using assms(2) by (auto simp: update_active_pool_row_def Let_def pool_row_for_key split: if_splits)
  then obtain r where r: "fetch_optional (\<lambda>r. row_key r = ?k \<and> pr_removed_at_ms r = None) ?t = Some r"
    by (cases "fetch_optional (\<lambda>r. row_key r = ?k \<and> pr_removed_at_ms r = None) ?t")
       (auto simp: fetch_optional_None)
  have d: "distinct (map row_key ?t)" using assms(1) by (simp add: pool_ok_def)
  have r': "fetch_optional (\<lambda>r. row_key r = ?k) ?t = Some r" "pr_removed_at_ms r = None" "row_key r = ?k"
    using r lookup_active [OF d, of ?k] by (auto split: option.splits if_splits dest: fetch_optional_SomeD)
  have "pool_abs l' j = ((pool_abs l)(?k := (if pr_removed_at_ms (f r) = None then Some (entry_of (f r)) else None))) j" for j
    using update_where_lookup [OF d f(1), of j ?k "\<lambda>r. pr_removed_at_ms r = None"] r'
    by (simp add: pool_abs_def t' Let_def)
  then show "\<exists>r. pool_abs l ?k = Some (entry_of r) \<and> row_key r = ?k \<and> pr_removed_at_ms r = None
    \<and> pool_abs l' = (pool_abs l)(?k := (if pr_removed_at_ms (f r) = None then Some (entry_of (f r)) else None))"
    using r r' by (intro exI [of _ r]) (simp add: pool_abs_def fun_eq_iff)
  have "map row_key (identity_pool_entries l') = map row_key ?t"
    unfolding t' by (auto simp: update_where_def f(1))
  moreover have "identity_pool_entry_from_row (f r) = Ok (entry_of (f r)) \<and> validate_identity_pool_entry (entry_of (f r)) = Ok ()"
    if "identity_pool_entry_from_row r = Ok (entry_of r)" "validate_identity_pool_entry (entry_of r) = Ok ()" for r
    using that f [of r]
    by (auto simp: identity_pool_entry_from_row_def entry_of_def validate_identity_pool_entry_def quota_def row_key_def
          split: option.splits if_splits)
  ultimately show "pool_ok l'"
    using assms(1) by (auto simp: pool_ok_def list_all_iff t' set_update_where)
qed

section \<open>Audited changes refine map updates\<close>

lemma update_active_pool_row_frame:
  "update_active_pool_row n c x k f l = Inr l' \<Longrightarrow> l' = l\<lparr> identity_pool_entries := identity_pool_entries l' \<rparr>"
  by (auto simp: update_active_pool_row_def Let_def split: if_splits)

lemma update_active_pool_row_log:
  "update_active_pool_row n c x k f l = Inr l' \<Longrightarrow> coordination_events l' = coordination_events l"
  by (auto simp: update_active_pool_row_def Let_def split: if_splits)

interpretation provision: audited_operation "\<lambda>l. provision_identity_pool_entry_audited l entry now event" event
  for entry now event
  by unfold_locales
     (auto simp: provision_identity_pool_entry_audited_def split: if_splits elim!: audited_appends)

interpretation set_frozen: audited_operation
  "\<lambda>l. set_identity_pool_frozen_audited l n c x k frozen now event" event
  for n c x k frozen now event
  by unfold_locales
     (auto simp: set_identity_pool_frozen_audited_def split: if_splits
        elim!: audited_appends dest: update_active_pool_row_log)

interpretation remove_entry: audited_operation
  "\<lambda>l. remove_identity_pool_entry_audited l n c x k now event" event
  for n c x k now event
  by unfold_locales
     (auto simp: remove_identity_pool_entry_audited_def split: if_splits
        elim!: audited_appends dest: update_active_pool_row_log)

lemma pool_abs_log [simp]: "pool_abs (l\<lparr> coordination_events := es \<rparr>) = pool_abs l"
  "pool_ok (l\<lparr> coordination_events := es \<rparr>) = pool_ok l"
  by (simp_all add: pool_abs_def fun_eq_iff pool_ok_def)

lemma provision_cases:
  assumes "provision_identity_pool_entry_audited l entry now event = Inr (v, l')" "pool_ok l" "entry_typed entry"
  shows "pool_ok l' \<and> (l' = l \<or> pool_abs l' = (pool_abs l)(entry_key entry \<mapsto> entry))"
proof -
  have valid: "validate_identity_pool_entry entry = Ok ()"
    using assms(1) by (auto simp: provision_identity_pool_entry_audited_def)
  have "\<exists>replay. audited l event replay (\<lambda>v l1. Ok (l1\<lparr> identity_pool_entries :=
                upsert_pool_row (provisioned_row entry now) (identity_pool_entries l1) \<rparr>)) = Inr (v, l')"
    using assms(1) by (auto simp: provision_identity_pool_entry_audited_def split: if_splits)
  then obtain replay where "audited l event replay (\<lambda>v l1. Ok (l1\<lparr> identity_pool_entries :=
                upsert_pool_row (provisioned_row entry now) (identity_pool_entries l1) \<rparr>)) = Inr (v, l')" ..
  then show ?thesis
  proof (cases rule: audited_cases)
    case (fresh a l1)
    then have "identity_pool_entries l' = upsert_pool_row (provisioned_row entry now) (identity_pool_entries l)"
      by auto
    from pool_abs_provision [OF assms(2) this assms(3) valid] show ?thesis by simp
  qed (use assms in simp)
qed

lemma pool_update_cases:
  assumes "audited l event replay (\<lambda>v l1. update_active_pool_row n c x k f l1) = Inr (v, l')" "pool_ok l"
    and f: "\<And>r. row_key (f r) = row_key r"
      "\<And>r. pr_max_reserved_cost_usd (f r) = pr_max_reserved_cost_usd r"
      "\<And>r. pr_max_concurrent_reservations (f r) = pr_max_concurrent_reservations r"
      "\<And>r. pr_min_interval_seconds (f r) = pr_min_interval_seconds r"
  shows "pool_ok l' \<and> (l' = l \<or>
    (\<exists>r. pool_abs l (n, c, x, k) = Some (entry_of r) \<and> row_key r = (n, c, x, k) \<and> pr_removed_at_ms r = None
    \<and> pool_abs l' = (pool_abs l)((n, c, x, k) := (if pr_removed_at_ms (f r) = None then Some (entry_of (f r)) else None))))"
  using assms(1)
proof (cases rule: audited_cases)
  case (fresh a l1)
  have "pool_ok l1" "pool_abs l1 = pool_abs l" using fresh(4) assms(2) by simp_all
  then show ?thesis
    using pool_abs_update [OF _ fresh(5) f] by auto
qed (use assms in simp)

lemma set_frozen_cases:
  assumes "set_identity_pool_frozen_audited l n c x k frozen now event = Inr (v, l')" "pool_ok l"
  shows "pool_ok l' \<and> (l' = l \<or> (\<exists>e. pool_abs l (n, c, x, k) = Some e
     \<and> pool_abs l' = (pool_abs l)((n, c, x, k) \<mapsto> e\<lparr> ip_frozen := frozen \<rparr>)))"
proof -
  let ?f = "\<lambda>r :: PoolRow. r\<lparr> pr_frozen := frozen, pr_updated_at_ms := now \<rparr>"
  obtain replay where "audited l event replay (\<lambda>v l1. update_active_pool_row n c x k ?f l1) = Inr (v, l')"
    using assms(1) by (auto simp: set_identity_pool_frozen_audited_def split: if_splits)
  moreover have "entry_of (?f r) = (entry_of r)\<lparr> ip_frozen := frozen \<rparr>" for r
    by (simp add: entry_of_def)
  ultimately show ?thesis
    using pool_update_cases [OF _ assms(2), of event replay n c x k ?f v l'] by (auto simp: row_key_def)
qed

lemma remove_cases:
  assumes "remove_identity_pool_entry_audited l n c x k now event = Inr (v, l')" "pool_ok l"
  shows "pool_ok l' \<and> (l' = l \<or> pool_abs l (n, c, x, k) \<noteq> None \<and> pool_abs l' = (pool_abs l)((n, c, x, k) := None))"
proof -
  let ?f = "\<lambda>r :: PoolRow. r\<lparr> pr_removed_at_ms := Some now, pr_updated_at_ms := now \<rparr>"
  obtain replay where "audited l event replay (\<lambda>v l1. update_active_pool_row n c x k ?f l1) = Inr (v, l')"
    using assms(1) by (auto simp: remove_identity_pool_entry_audited_def split: if_splits)
  then show ?thesis
    using pool_update_cases [OF _ assms(2), of event replay n c x k ?f v l'] by (auto simp: row_key_def)
qed

section \<open>Properties\<close>

text \<open>The abstract pool and its three updates, partial where the entry has to exist.\<close>

datatype pool_command = Provision IdentityPoolEntry | SetFrozen pool_key bool | Remove pool_key

fun pool_spec :: "pool_command \<Rightarrow> (pool_key \<Rightarrow> IdentityPoolEntry option) \<Rightarrow> (pool_key \<Rightarrow> IdentityPoolEntry option) option" where
  "pool_spec (Provision e) m = Some (m(entry_key e \<mapsto> e))"
| "pool_spec (SetFrozen k frozen) m = map_option (\<lambda>e. m(k \<mapsto> e\<lparr> ip_frozen := frozen \<rparr>)) (m k)"
| "pool_spec (Remove k) m = map_option (\<lambda>e. m(k := None)) (m k)"

fun pool_operation :: "pool_command \<Rightarrow> int \<Rightarrow> CoordinationEventRecord \<Rightarrow> Ledger \<Rightarrow> LedgerError + nat \<times> Ledger" where
  "pool_operation (Provision e) now event l = provision_identity_pool_entry_audited l e now event"
| "pool_operation (SetFrozen (n, c, x, k) frozen) now event l = set_identity_pool_frozen_audited l n c x k frozen now event"
| "pool_operation (Remove (n, c, x, k)) now event l = remove_identity_pool_entry_audited l n c x k now event"

definition command_typed :: "pool_command \<Rightarrow> bool" where
  "command_typed cmd \<longleftrightarrow> (case cmd of Provision e \<Rightarrow> entry_typed e | _ \<Rightarrow> True)"

lemma pool_operation_cases:
  assumes "pool_operation cmd now event l = Inr (v, l')" "pool_ok l" "command_typed cmd"
  shows "pool_ok l' \<and> (l' = l \<or> pool_spec cmd (pool_abs l) = Some (pool_abs l'))"
proof (cases cmd)
  case (Provision e)
  then show ?thesis using provision_cases [of l e now event v l'] assms by (auto simp: command_typed_def)
next
  case (SetFrozen key frozen)
  obtain n c x k where "key = (n, c, x, k)" by (cases key)
  then show ?thesis using SetFrozen set_frozen_cases [of l n c x k frozen now event v l'] assms by auto
next
  case (Remove key)
  obtain n c x k where "key = (n, c, x, k)" by (cases key)
  then show ?thesis using Remove remove_cases [of l n c x k now event v l'] assms by auto
qed

lemma pool_operation_log:
  assumes "pool_operation cmd now event l = Inr (v, l')"
  shows "l' = l \<or> coordination_events l' = coordination_events l @ [event_row event (int v)]"
  using assms
  by (cases "(cmd, now, event, l)" rule: pool_operation.cases)
     (auto dest: provision.log_grows set_frozen.log_grows remove_entry.log_grows)

text \<open>
  C36. The ledger's identity pool is a finite map from keys to entries.  Provisioning stores the entry
  under its key, freezing and thawing change the flag of an entry that must be present, removal
  deletes an entry that must be present; an operation that succeeds either performs exactly this
  update and appends its event, or is a replay and changes nothing at all.  Resolving an identity
  answers from the map: nothing is resolved while the map is empty, and as soon as one entry is
  active an identity that has none is refused.
\<close>

theorem identity_pool_refines_map:
  assumes "pool_ok l" "command_typed cmd"
  shows "(\<forall>v l'. pool_operation cmd now event l = Inr (v, l') \<longrightarrow>
      pool_ok l' \<and> (l' = l \<or> pool_spec cmd (pool_abs l) = Some (pool_abs l')
        \<and> coordination_events l' = coordination_events l @ [event_row event (int v)]))
    \<and> resolve_identity_pool l n c x k =
       (if pool_abs l = Map.empty then Ok None
        else case pool_abs l (n, c, x, k) of
           None \<Rightarrow> Err (Degraded ''identity has no active ledger pool binding'')
         | Some e \<Rightarrow> Ok (Some e))"
  using pool_operation_cases [OF _ assms] pool_operation_log resolve_identity_pool_abs [OF assms(1)]
  by blast

definition sample_pool_event :: "string \<Rightarrow> nat \<Rightarrow> string \<Rightarrow> int \<Rightarrow> CoordinationEventRecord" where
  "sample_pool_event i version event_type now_ms =
     \<lparr> cr_event_id = i, cr_idempotency_key = i, cr_aggregate_type = ''identity_pool'',
       cr_aggregate_id = identity_pool_entry_key ''solver-a'' ''c1'' ''team'' ''primary'',
       cr_expected_version = version, cr_event_type = event_type, cr_payload_json = ''{}'',
       cr_occurred_at_ms = now_ms \<rparr>"

definition sample_pool_ledger :: Ledger where
  "sample_pool_ledger =
     (case provision_identity_pool_entry_audited initialize sample_pool_entry 5
             (sample_pool_event ''e1'' 0 ''identity_pool_provisioned'' 5) of
        Inr (v, l) \<Rightarrow> l | Inl _ \<Rightarrow> initialize)"

lemma sample_provisioned:
  "isl (provision_identity_pool_entry_audited initialize sample_pool_entry 5
             (sample_pool_event ''e1'' 0 ''identity_pool_provisioned'' 5)) = False"
  by code_simp

lemma pool_ok_initialize: "pool_ok initialize"
  by (simp add: pool_ok_def initialize_def)

lemma sample_pool_ok: "pool_ok sample_pool_ledger"
proof -
  obtain v l where "provision_identity_pool_entry_audited initialize sample_pool_entry 5
             (sample_pool_event ''e1'' 0 ''identity_pool_provisioned'' 5) = Inr (v, l)"
    using sample_provisioned
    by (cases "provision_identity_pool_entry_audited initialize sample_pool_entry 5
             (sample_pool_event ''e1'' 0 ''identity_pool_provisioned'' 5)") auto
  then show ?thesis
    using provision_cases [OF _ pool_ok_initialize] by (simp add: sample_pool_ledger_def entry_typed_def
       sample_pool_entry_def u32_max_def)
qed

lemma sample_pool_frozen:
  "isl (pool_operation (SetFrozen (entry_key sample_pool_entry) True) 6
      (sample_pool_event ''e2'' 1 ''identity_pool_frozen'' 6) sample_pool_ledger) = False"
  by code_simp

theorem identity_pool_refines_map_witness:
  "\<exists>v l'. pool_operation (SetFrozen (entry_key sample_pool_entry) True) 6
        (sample_pool_event ''e2'' 1 ''identity_pool_frozen'' 6) sample_pool_ledger = Inr (v, l')
    \<and> pool_ok l' \<and> resolve_identity_pool sample_pool_ledger ''other'' ''c1'' ''team'' ''primary''
        = Err (Degraded ''identity has no active ledger pool binding'')"
proof -
  let ?cmd = "SetFrozen (entry_key sample_pool_entry) True"
  have typed: "command_typed ?cmd" by (simp add: command_typed_def)
  obtain v l' where "pool_operation ?cmd 6 (sample_pool_event ''e2'' 1 ''identity_pool_frozen'' 6)
      sample_pool_ledger = Inr (v, l')"
    using sample_pool_frozen
    by (cases "pool_operation ?cmd 6 (sample_pool_event ''e2'' 1 ''identity_pool_frozen'' 6) sample_pool_ledger") auto
  moreover have "pool_abs sample_pool_ledger (entry_key sample_pool_entry) \<noteq> None"
    "pool_abs sample_pool_ledger (''other'', ''c1'', ''team'', ''primary'') = None"
    by code_simp+
  ultimately show ?thesis
    using identity_pool_refines_map [OF sample_pool_ok typed, of 6
        "sample_pool_event ''e2'' 1 ''identity_pool_frozen'' 6" "''other''" "''c1''" "''team''" "''primary''"]
    by auto
qed

end
