(* ===== verification/LeaseRegistry.thy ===== *)
theory LeaseRegistry
  imports EventLog
begin

text \<open>
  The registry of administrator-issued actor leases in the ledger: provisioning, revocation, both
  with and without an audit event, inspection, and the resolution of a live caller to its registered
  context (\<open>resolve_actor_context\<close> for solvers, \<open>resolve_chief_context\<close> and
  \<open>resolve_chief_spawn_context\<close> for chiefs).
\<close>

section \<open>Provisioning\<close>

definition required_action :: "Role \<Rightarrow> Action" where
  "required_action r =
     (case r of Chief \<Rightarrow> Action.Decide | Solver \<Rightarrow> RequestSubmission | _ \<Rightarrow> MonitorReadOnly)"

definition validate_persisted_actor_context :: "ActorContext \<Rightarrow> int \<Rightarrow> LedgerError + unit" where
  "validate_persisted_actor_context cx now_ms = checks
     [map_err (DegradedBy ''invalid persisted actor role: '')
        (authorize_action (cx_role cx) (required_action (cx_role cx))),
      map_err (DegradedBy ''invalid persisted actor context: '')
        (ActorContext_validate cx (required_action (cx_role cx)) now_ms)]"

definition context_to_string :: "Env \<Rightarrow> ActorContext \<Rightarrow> LedgerError + string" where
  "context_to_string env cx =
     ok_or (js_to_string (en_context env) cx) (DegradedExternal ''cannot serialize actor context: '')"

definition lease_row :: "ActorContext \<Rightarrow> string \<Rightarrow> int \<Rightarrow> LeaseRow" where
  "lease_row cx context_json now_ms =
     \<lparr> lw_lease_id = le_lease_id (cx_lease cx), lw_agent_id = cx_agent_id cx,
       lw_session_id = cx_session_id cx, lw_thread_id = cx_thread_id cx,
       lw_campaign_id = cx_campaign_id cx, lw_challenge_id = cx_challenge_id cx,
       lw_role = role_name (cx_role cx), lw_context_json = context_json,
       lw_registered_at_ms = now_ms, lw_revoked_at_ms = None \<rparr>"

definition insert_lease :: "LeaseRow \<Rightarrow> Ledger \<Rightarrow> LedgerError + Ledger" where
  "insert_lease r l = and_then (insert_row lease_clash r (actor_leases l)) (\<lambda>t. Ok (l\<lparr> actor_leases := t \<rparr>))"

definition provision_actor_context :: "Env \<Rightarrow> Ledger \<Rightarrow> ActorContext \<Rightarrow> int \<Rightarrow> LedgerError + Ledger" where
  "provision_actor_context env l cx now_ms =
     and_then (validate_persisted_actor_context cx now_ms) (\<lambda>_.
     and_then (context_to_string env cx) (\<lambda>context_json.
     insert_lease (lease_row cx context_json now_ms) l))"

definition provision_actor_context_audited ::
  "Env \<Rightarrow> Ledger \<Rightarrow> ActorContext \<Rightarrow> int \<Rightarrow> CoordinationEventRecord \<Rightarrow> LedgerError + nat \<times> Ledger" where
  "provision_actor_context_audited env l cx now_ms event =
     and_then (validate_persisted_actor_context cx now_ms) (\<lambda>_.
       if cr_aggregate_type event \<noteq> ''actor_lease'' \<or> cr_aggregate_id event \<noteq> le_lease_id (cx_lease cx)
          \<or> cr_event_type event \<noteq> ''actor_lease_provisioned'' \<or> cr_occurred_at_ms event \<noteq> now_ms
       then Err (Degraded ''lease provision event is not bound to the actor context'')
       else and_then (context_to_string env cx) (\<lambda>context_json.
         audited l event
           (\<lambda>v l1. and_then (ok_or (fetch_optional (\<lambda>r. lw_lease_id r = le_lease_id (cx_lease cx)) (actor_leases l1))
                   (Degraded ''replayed provision is missing its lease'')) (\<lambda>r.
              fail_if (lw_context_json r \<noteq> context_json \<or> lw_registered_at_ms r \<noteq> now_ms
                       \<or> lw_revoked_at_ms r \<noteq> None)
                (Degraded ''replayed provision does not match the active lease'')))
           (\<lambda>v l1. insert_lease (lease_row cx context_json now_ms) l1)))"

section \<open>Revocation\<close>

definition active_lease :: "string \<Rightarrow> LeaseRow \<Rightarrow> bool" where
  "active_lease i r \<longleftrightarrow> lw_lease_id r = i \<and> lw_revoked_at_ms r = None"

definition update_revoked_lease :: "string \<Rightarrow> int \<Rightarrow> Ledger \<Rightarrow> LedgerError + Ledger" where
  "update_revoked_lease lease_id revoked_at_ms l =
     (if rows_affected (active_lease lease_id) (actor_leases l) \<noteq> 1
      then Err (Degraded ''actor lease is missing or already revoked'')
      else Ok (l\<lparr> actor_leases := update_where (active_lease lease_id)
             (\<lambda>r. r\<lparr> lw_revoked_at_ms := Some revoked_at_ms \<rparr>) (actor_leases l) \<rparr>))"

definition revoke_actor_lease :: "Ledger \<Rightarrow> string \<Rightarrow> int \<Rightarrow> LedgerError + Ledger" where
  "revoke_actor_lease l lease_id revoked_at_ms =
     (if is_blank lease_id \<or> revoked_at_ms < 0
      then Err (Degraded ''lease id and revocation time are required'')
      else update_revoked_lease lease_id revoked_at_ms l)"

definition revoke_actor_lease_audited ::
  "Ledger \<Rightarrow> string \<Rightarrow> int \<Rightarrow> CoordinationEventRecord \<Rightarrow> LedgerError + nat \<times> Ledger" where
  "revoke_actor_lease_audited l lease_id revoked_at_ms event =
     (if is_blank lease_id \<or> revoked_at_ms < 0 \<or> cr_aggregate_type event \<noteq> ''actor_lease''
         \<or> cr_aggregate_id event \<noteq> lease_id \<or> cr_event_type event \<noteq> ''actor_lease_revoked''
         \<or> cr_occurred_at_ms event \<noteq> revoked_at_ms
      then Err (Degraded ''lease revocation event is not bound to the lease'')
      else audited l event
        (\<lambda>v l1. and_then (ok_or (fetch_optional (\<lambda>r. lw_lease_id r = lease_id) (actor_leases l1))
                (Degraded ''replayed revocation is missing its lease'')) (\<lambda>r.
           fail_if (lw_revoked_at_ms r \<noteq> Some revoked_at_ms)
             (Degraded ''replayed revocation does not match the lease state'')))
        (\<lambda>v l1. update_revoked_lease lease_id revoked_at_ms l1))"

record ActorLeaseMetadata =
  lm_lease_id :: string
  lm_agent_id :: string
  lm_session_id :: string
  lm_thread_id :: string
  lm_campaign_id :: string
  lm_challenge_id :: string
  lm_role :: string
  lm_registered_at_ms :: int
  lm_revoked_at_ms :: "int option"

definition inspect_actor_lease :: "Ledger \<Rightarrow> string \<Rightarrow> LedgerError + ActorLeaseMetadata" where
  "inspect_actor_lease l lease_id =
     (if is_blank lease_id then Err (Degraded ''lease id is required'')
      else and_then (ok_or (fetch_optional (\<lambda>r. lw_lease_id r = lease_id) (actor_leases l))
             (Degraded ''actor lease is not registered'')) (\<lambda>r.
        Ok \<lparr> lm_lease_id = lw_lease_id r, lm_agent_id = lw_agent_id r, lm_session_id = lw_session_id r,
             lm_thread_id = lw_thread_id r, lm_campaign_id = lw_campaign_id r,
             lm_challenge_id = lw_challenge_id r, lm_role = lw_role r,
             lm_registered_at_ms = lw_registered_at_ms r, lm_revoked_at_ms = lw_revoked_at_ms r \<rparr>))"

section \<open>Resolution\<close>

definition context_is ::
  "ActorContext \<Rightarrow> Role \<Rightarrow> string \<Rightarrow> string \<Rightarrow> string \<Rightarrow> string \<Rightarrow> string \<Rightarrow> string \<Rightarrow> bool" where
  "context_is cx role lease_id agent_id session_id thread_id campaign_id ch \<longleftrightarrow>
     le_lease_id (cx_lease cx) = lease_id \<and> cx_agent_id cx = agent_id \<and> cx_session_id cx = session_id
     \<and> cx_thread_id cx = thread_id \<and> cx_campaign_id cx = campaign_id \<and> cx_challenge_id cx = ch
     \<and> cx_role cx = role"

definition resolve_actor_context ::
  "Env \<Rightarrow> Ledger \<Rightarrow> string \<Rightarrow> string \<Rightarrow> string \<Rightarrow> string \<Rightarrow> string \<Rightarrow> string \<Rightarrow> string \<Rightarrow> Action \<Rightarrow> int \<Rightarrow>
   LedgerError + ActorContext" where
  "resolve_actor_context env l lease_id agent_id session_id thread_id campaign_id ch identity_class act now_ms =
     (if list_ex is_blank [lease_id, agent_id, session_id, thread_id, campaign_id, ch, identity_class]
      then Err (Degraded ''actor lookup requires complete live identity and campaign binding'')
      else and_then (ok_or (fetch_optional (\<lambda>r. lw_lease_id r = lease_id) (actor_leases l))
             (Degraded ''actor lease is not registered'')) (\<lambda>r.
        if lw_revoked_at_ms r \<noteq> None then Err (Degraded ''actor lease has been revoked'')
        else if lw_agent_id r \<noteq> agent_id \<or> lw_session_id r \<noteq> session_id \<or> lw_thread_id r \<noteq> thread_id
                \<or> lw_campaign_id r \<noteq> campaign_id \<or> lw_challenge_id r \<noteq> ch \<or> lw_role r \<noteq> ''solver''
        then Err (Degraded ''actor lease does not match the live invocation'')
        else and_then (ok_or (js_from_str (en_context env) (lw_context_json r))
               (DegradedExternal ''stored actor context is invalid: '')) (\<lambda>cx.
          if \<not> context_is cx Solver lease_id agent_id session_id thread_id campaign_id ch
          then Err (Degraded ''stored actor context does not match the registry or live invocation'')
          else and_then (map_err (DegradedBy ''actor lease validation failed: '')
                 (ActorContext_validate cx act now_ms)) (\<lambda>_.
            if identity_class \<notin> le_authorized_identity_classes (cx_lease cx)
            then Err (Degraded ''identity class is not authorized by the actor lease'')
            else Ok cx))))"

definition resolve_chief_context_for_action ::
  "Env \<Rightarrow> Ledger \<Rightarrow> string \<Rightarrow> string \<Rightarrow> string \<Rightarrow> string \<Rightarrow> string \<Rightarrow> string \<Rightarrow> Action \<Rightarrow> int \<Rightarrow>
   LedgerError + ActorContext" where
  "resolve_chief_context_for_action env l lease_id agent_id session_id thread_id campaign_id ch act now_ms =
     (if list_ex is_blank [lease_id, agent_id, session_id, thread_id, campaign_id, ch]
      then Err (Degraded ''chief lookup requires complete live identity and campaign binding'')
      else and_then (ok_or (fetch_optional (\<lambda>r. lw_lease_id r = lease_id) (actor_leases l))
             (Degraded ''chief lease is not registered'')) (\<lambda>r.
        if lw_revoked_at_ms r \<noteq> None \<or> lw_role r \<noteq> role_name Chief
        then Err (Degraded ''chief lease is revoked or belongs to another role'')
        else and_then (ok_or (js_from_str (en_context env) (lw_context_json r))
               (DegradedExternal ''stored chief context is invalid: '')) (\<lambda>cx.
          if \<not> context_is cx Chief lease_id agent_id session_id thread_id campaign_id ch
          then Err (Degraded ''chief lease does not match the live invocation'')
          else and_then (map_err (DegradedBy ''chief lease validation failed: '')
                 (ActorContext_validate cx act now_ms)) (\<lambda>_. Ok cx))))"

definition resolve_chief_context ::
  "Env \<Rightarrow> Ledger \<Rightarrow> string \<Rightarrow> string \<Rightarrow> string \<Rightarrow> string \<Rightarrow> string \<Rightarrow> string \<Rightarrow> int \<Rightarrow>
   LedgerError + ActorContext" where
  "resolve_chief_context env l lease_id agent_id session_id thread_id campaign_id ch now_ms =
     resolve_chief_context_for_action env l lease_id agent_id session_id thread_id campaign_id ch Action.Decide now_ms"

definition resolve_chief_spawn_context ::
  "Env \<Rightarrow> Ledger \<Rightarrow> string \<Rightarrow> string \<Rightarrow> string \<Rightarrow> string \<Rightarrow> string \<Rightarrow> string \<Rightarrow> string \<Rightarrow> nat \<Rightarrow> int \<Rightarrow>
   LedgerError + ActorContext" where
  "resolve_chief_spawn_context env l lease_id agent_id session_id thread_id campaign_id ch
       cycle_id cycle_event_version now_ms =
     (if is_blank cycle_id \<or> cycle_event_version = 0
      then Err (Degraded ''chief spawn lookup requires a cycle id and nonzero event version'')
      else and_then (resolve_chief_context_for_action env l lease_id agent_id session_id thread_id
                       campaign_id ch SpawnChild now_ms) (\<lambda>cx.
        and_then (ok_or (fetch_optional (\<lambda>r. cy_cycle_id r = cycle_id \<and> cy_campaign_id r = campaign_id
                          \<and> cy_challenge_id r = ch) (research_cycle_issuances l))
             (Degraded ''active research cycle is not registered'')) (\<lambda>r.
        if cy_cycle_event_version r < 0 then Err (Degraded ''stored cycle event version is invalid'')
        else if cy_revoked_at_ms r \<noteq> None \<or> cy_chief_lease_id r \<noteq> lease_id
                \<or> nat (cy_cycle_event_version r) \<noteq> cycle_event_version
        then Err (Degraded ''research cycle is revoked, stale, or not issued by the live Chief lease'')
        else if sha256_bytes (en_sha256 env) (cy_cycle_json r) \<noteq> cy_cycle_sha256 r
        then Err (Degraded ''active research cycle hash does not match'')
        else and_then (ok_or (js_from_str (en_cycle env) (cy_cycle_json r))
               (DegradedExternal ''stored research cycle is invalid JSON: '')) (\<lambda>cycle.
          if rc_cycle_id cycle \<noteq> cycle_id \<or> rc_campaign_id cycle \<noteq> campaign_id \<or> rc_challenge_id cycle \<noteq> ch
          then Err (Degraded ''stored research cycle does not match the Chief spawn binding'')
          else and_then (map_err (DegradedBy ''active research cycle is invalid: '')
                 (ResearchCycleRecord_validate cycle now_ms)) (\<lambda>_. Ok cx)))))"

section \<open>The registry invariant\<close>

text \<open>
  Every row was provisioned: its columns and its document are those of a context that validated for
  its role's first action when it was registered.
\<close>

definition provisioned :: "Env \<Rightarrow> LeaseRow \<Rightarrow> ActorContext \<Rightarrow> bool" where
  "provisioned env r cx \<longleftrightarrow>
     validate_persisted_actor_context cx (lw_registered_at_ms r) = Ok ()
     \<and> js_to_string (en_context env) cx = Some (lw_context_json r)
     \<and> r\<lparr> lw_revoked_at_ms := None \<rparr> = lease_row cx (lw_context_json r) (lw_registered_at_ms r)"

definition leases_ok :: "Env \<Rightarrow> LeaseRow list \<Rightarrow> bool" where
  "leases_ok env t \<longleftrightarrow> lease_table.consistent t \<and> (\<forall>r \<in> set t. \<exists>cx. provisioned env r cx)"

lemma leases_ok_Nil: "leases_ok env []"
  by (simp add: leases_ok_def lease_table.consistent_Nil)

lemma insert_lease_frame:
  "insert_lease r l = Inr l' \<Longrightarrow>
     l' = l\<lparr> actor_leases := actor_leases l @ [r] \<rparr> \<and> insert_row lease_clash r (actor_leases l) = Inr (actor_leases l')"
  by (auto simp: insert_lease_def)

lemma insert_lease_ok:
  assumes "insert_lease (lease_row cx json now) l = Inr l'" "leases_ok env (actor_leases l)"
    and "validate_persisted_actor_context cx now = Ok ()" "js_to_string (en_context env) cx = Some json"
  shows "leases_ok env (actor_leases l')" "lease_table.evolves (actor_leases l) (actor_leases l')"
proof -
  note ins = insert_lease_frame [OF assms(1)]
  have "provisioned env (lease_row cx json now) cx"
    using assms(3,4) by (simp add: provisioned_def lease_row_def)
  then show "leases_ok env (actor_leases l')"
    using ins assms(2) lease_table.consistent_insert [of "actor_leases l" "lease_row cx json now"]
    by (auto simp: leases_ok_def)
  show "lease_table.evolves (actor_leases l) (actor_leases l')"
    using ins by (blast intro: lease_table.evolves_insert)
qed

lemma update_revoked_lease_ok:
  assumes "update_revoked_lease i m l = Inr l'" "leases_ok env (actor_leases l)"
  shows "leases_ok env (actor_leases l')" "lease_table.evolves (actor_leases l) (actor_leases l')"
    and "l' = l\<lparr> actor_leases := actor_leases l' \<rparr>"
    and "\<exists>r \<in> set (actor_leases l'). lw_lease_id r = i \<and> lw_revoked_at_ms r = Some m"
proof -
  let ?f = "\<lambda>r :: LeaseRow. r\<lparr> lw_revoked_at_ms := Some m \<rparr>"
  have t': "actor_leases l' = update_where (active_lease i) ?f (actor_leases l)"
      "l' = l\<lparr> actor_leases := actor_leases l' \<rparr>"
    and one: "rows_affected (active_lease i) (actor_leases l) = 1"
    using assms(1) by (auto simp: update_revoked_lease_def split: if_splits)
  show "l' = l\<lparr> actor_leases := actor_leases l' \<rparr>" using t'(2) .
  have "provisioned env (?f r) cx = provisioned env r cx" for r cx
    by (simp add: provisioned_def)
  then have "\<exists>cx. provisioned env r cx" if "r \<in> set (actor_leases l')" for r
    using that assms(2) by (auto simp: t'(1) set_update_where leases_ok_def)
  then show "leases_ok env (actor_leases l')"
    using assms(2) lease_table.consistent_revoke unfolding leases_ok_def t'(1) by blast
  show "lease_table.evolves (actor_leases l) (actor_leases l')"
    unfolding t'(1) by (rule lease_table.evolves_revoke) (simp add: active_lease_def)
  obtain r where "r \<in> set (actor_leases l)" "active_lease i r"
    using one rows_affected_0 [of "active_lease i" "actor_leases l"] by fastforce
  then show "\<exists>r \<in> set (actor_leases l'). lw_lease_id r = i \<and> lw_revoked_at_ms r = Some m"
    unfolding t'(1) set_update_where by (intro bexI [of _ "?f r"]) (auto simp: active_lease_def image_iff)
qed

text \<open>The four changing operations, uniformly.\<close>

definition lease_step :: "Env \<Rightarrow> Ledger \<Rightarrow> Ledger \<Rightarrow> bool" where
  "lease_step env l l' \<longleftrightarrow>
     leases_ok env (actor_leases l) \<longrightarrow>
       leases_ok env (actor_leases l') \<and> lease_table.evolves (actor_leases l) (actor_leases l')"

lemma provision_step: "provision_actor_context env l cx now = Inr l' \<Longrightarrow> lease_step env l l'"
  unfolding provision_actor_context_def lease_step_def
  by (auto simp: context_to_string_def dest: insert_lease_ok simp del: checks_ok)

lemma audited_lease_step:
  assumes "audited l event replay change = Inr (v, l')"
    and "\<And>v l1 l2. change v l1 = Inr l2 \<Longrightarrow> lease_step env l1 l2"
  shows "lease_step env l l'"
  using assms(1)
proof (cases rule: audited_cases)
  case (fresh a l1)
  then show ?thesis using assms(2) [OF fresh(5)] by (simp add: lease_step_def)
qed (simp add: lease_step_def lease_table.evolves_refl)

lemma provision_audited_step:
  assumes "provision_actor_context_audited env l cx now event = Inr (v, l')"
  shows "lease_step env l l'"
proof -
  obtain json replay where valid: "validate_persisted_actor_context cx now = Ok ()"
      "js_to_string (en_context env) cx = Some json"
    and "audited l event replay (\<lambda>v l1. insert_lease (lease_row cx json now) l1) = Inr (v, l')"
    using assms by (auto simp: provision_actor_context_audited_def context_to_string_def split: if_splits)
  then show ?thesis
    by (elim audited_lease_step) (auto simp: lease_step_def dest: insert_lease_ok [OF _ _ valid])
qed

lemma update_revoked_lease_step: "update_revoked_lease i m l = Inr l' \<Longrightarrow> lease_step env l l'"
  by (auto simp: lease_step_def dest: update_revoked_lease_ok)

lemma revoke_step: "revoke_actor_lease l i m = Inr l' \<Longrightarrow> lease_step env l l'"
  unfolding revoke_actor_lease_def by (auto dest: update_revoked_lease_step split: if_splits)

lemma revoke_audited_step: "revoke_actor_lease_audited l i m event = Inr (v, l') \<Longrightarrow> lease_step env l l'"
  unfolding revoke_actor_lease_audited_def
  by (auto split: if_splits elim!: audited_lease_step dest: update_revoked_lease_step)

lemmas lease_steps = provision_step provision_audited_step revoke_step revoke_audited_step

lemma update_revoked_lease_log: "update_revoked_lease i m l = Inr l' \<Longrightarrow> coordination_events l' = coordination_events l"
  by (auto simp: update_revoked_lease_def split: if_splits)

lemma insert_lease_log: "insert_lease r l = Inr l' \<Longrightarrow> coordination_events l' = coordination_events l"
  by (auto dest: insert_lease_frame)

interpretation provision_lease: audited_operation "\<lambda>l. provision_actor_context_audited env l cx now event" event
  for env cx now event
  by unfold_locales
     (auto simp: provision_actor_context_audited_def split: if_splits
        elim!: audited_appends dest: insert_lease_log)

interpretation revoke_lease: audited_operation "\<lambda>l. revoke_actor_lease_audited l i m event" event
  for i m event
  by unfold_locales
     (auto simp: revoke_actor_lease_audited_def split: if_splits
        elim!: audited_appends dest: update_revoked_lease_log)

section \<open>Resolution\<close>

lemma resolve_actor_row:
  assumes "resolve_actor_context env l lease_id aid sid tid camp ch ic act now = Inr cx"
  obtains r where "r \<in> set (actor_leases l)" "lw_lease_id r = lease_id" "lw_revoked_at_ms r = None"
    "js_from_str (en_context env) (lw_context_json r) = Some cx"
    "context_is cx Solver lease_id aid sid tid camp ch" "ActorContext_validate cx act now = Ok ()"
    "ic \<in> le_authorized_identity_classes (cx_lease cx)"
  using assms
  by (auto simp: resolve_actor_context_def split: if_splits dest!: fetch_optional_SomeD)

lemma resolve_chief_row:
  assumes "resolve_chief_context_for_action env l lease_id aid sid tid camp ch act now = Inr cx"
  obtains r where "r \<in> set (actor_leases l)" "lw_lease_id r = lease_id" "lw_revoked_at_ms r = None"
    "js_from_str (en_context env) (lw_context_json r) = Some cx"
    "context_is cx Chief lease_id aid sid tid camp ch" "ActorContext_validate cx act now = Ok ()"
  using assms
  by (auto simp: resolve_chief_context_for_action_def split: if_splits dest!: fetch_optional_SomeD)

lemma resolve_spawn_chief:
  "resolve_chief_spawn_context env l lease_id aid sid tid camp ch cyc ver now = Inr cx \<Longrightarrow>
   resolve_chief_context_for_action env l lease_id aid sid tid camp ch SpawnChild now = Inr cx"
  by (auto simp: resolve_chief_spawn_context_def split: if_splits)

lemma revoked_lease_does_not_resolve:
  assumes "leases_ok env (actor_leases l)" "r \<in> set (actor_leases l)" "lw_revoked_at_ms r \<noteq> None"
  shows "resolve_actor_context env l (lw_lease_id r) aid sid tid camp ch ic act now \<noteq> Inr cx"
    and "resolve_chief_context_for_action env l (lw_lease_id r) aid sid tid camp ch act now \<noteq> Inr cx"
proof -
  have "x = r" if "x \<in> set (actor_leases l)" "lw_lease_id x = lw_lease_id r" for x
    using assms(1,2) that by (intro lease_table.consistent_unique [of "actor_leases l"])
      (auto simp: leases_ok_def lease_clash_def)
  then show "resolve_actor_context env l (lw_lease_id r) aid sid tid camp ch ic act now \<noteq> Inr cx"
    "resolve_chief_context_for_action env l (lw_lease_id r) aid sid tid camp ch act now \<noteq> Inr cx"
    using assms(3) by (metis resolve_actor_row, metis resolve_chief_row)
qed

lemma resolved_context_was_provisioned:
  assumes "leases_ok env (actor_leases l)" "json_roundtrip (en_context env)"
    and "r \<in> set (actor_leases l)" "js_from_str (en_context env) (lw_context_json r) = Some cx"
  shows "provisioned env r cx"
proof -
  obtain cx' where p: "provisioned env r cx'"
    using assms(1,3) by (auto simp: leases_ok_def)
  then have "js_from_str (en_context env) (lw_context_json r) = Some cx'"
    using assms(2) by (auto simp: provisioned_def dest: json_roundtripD)
  then show ?thesis using p assms(4) by simp
qed

end
