(* ===== verification/CycleLedger.thy ===== *)
theory CycleLedger
  imports LeaseRegistry
begin

text \<open>
  Research cycles in the ledger: \<open>issue_research_cycle_audited\<close>, \<open>supersede_research_cycle_audited\<close>,
  \<open>revoke_research_cycle_audited\<close> and \<open>load_stage_brief_issuance\<close>.  Issuing a cycle stores the
  cycle, the binding of the chief's own thread and every stage brief in the transaction of its event;
  superseding revokes the predecessor with its briefs and bindings first.
\<close>

section \<open>Stage brief files\<close>

definition resolve_workspace_relative_file :: "Env \<Rightarrow> string \<Rightarrow> string \<Rightarrow> string \<Rightarrow> LedgerError + string" where
  "resolve_workspace_relative_file env workspace_root relative_path label =
     (if relative_path = [] \<or> is_absolute relative_path
         \<or> ''..'' \<in> set (split_by (\<lambda>c. c = CHR ''/'') relative_path)
      then Err (Degraded (label @ '' must be workspace-relative without parent traversal''))
      else and_then (ok_or (fs_canonicalize (en_fs env) (path_join workspace_root relative_path))
             (DegradedExternal (''cannot canonicalize '' @ label @ '': ''))) (\<lambda>p.
        if \<not> path_starts_with p workspace_root \<or> \<not> fs_is_file (en_fs env) p
        then Err (Degraded (label @ '' escapes the workspace or is not a regular file''))
        else Ok p))"

definition check_skill_file :: "Env \<Rightarrow> string \<Rightarrow> SkillRef \<Rightarrow> LedgerError + unit" where
  "check_skill_file env workspace_root skill =
     and_then (resolve_workspace_relative_file env workspace_root (sk_source_path skill)
                 ''stage brief skill path'') (\<lambda>p.
     and_then (ok_or (sha256_file (en_read env) (en_sha256 env) p)
                 (DegradedExternal (''cannot hash stage brief skill '' @ sk_name skill @ '': ''))) (\<lambda>digest.
     fail_if (\<not> eq_ignore_ascii_case digest (sk_sha256 skill))
       (Degraded (''stage brief skill digest does not match: '' @ sk_name skill))))"

definition validate_stage_brief_files :: "Env \<Rightarrow> StageBrief \<Rightarrow> string \<Rightarrow> string \<Rightarrow> LedgerError + unit" where
  "validate_stage_brief_files env brief workspace_root capability_map_path =
     and_then (resolve_workspace_relative_file env workspace_root capability_map_path
                 ''capability map path'') (\<lambda>capability_map.
     and_then (ok_or (sha256_file (en_read env) (en_sha256 env) capability_map)
                 (DegradedExternal ''cannot hash stage brief capability map: '')) (\<lambda>capability_digest.
     if \<not> eq_ignore_ascii_case capability_digest (sb_capability_map_sha256 brief)
     then Err (Degraded ''stage brief capability map digest does not match'')
     else checks (map (check_skill_file env workspace_root) (sb_skills brief))))"

section \<open>Issuing and superseding\<close>

record CycleIssuance =
  ci_cycle_id :: string
  ci_brief_ids :: "string list"
  ci_cycle_event_version :: nat
  ci_cycle_sha256 :: string

text \<open>\<open>i64::try_from\<close> of an event version.\<close>

definition i64_version :: "nat \<Rightarrow> LedgerError + int" where
  "i64_version v = (if int v \<le> i64_max then Ok (int v) else Err (Degraded ''cycle version overflow''))"

definition live_chief :: "Env \<Rightarrow> Ledger \<Rightarrow> ActorContext \<Rightarrow> int \<Rightarrow> LedgerError + unit" where
  "live_chief env l chief now_ms =
     and_then (resolve_chief_context env l (le_lease_id (cx_lease chief)) (cx_agent_id chief)
         (cx_session_id chief) (cx_thread_id chief) (cx_campaign_id chief) (cx_challenge_id chief) now_ms)
       (\<lambda>resolved. fail_if (resolved \<noteq> chief) (Degraded ''chief context does not match the registered lease''))"

definition check_brief_workspace :: "Env \<Rightarrow> string \<Rightarrow> string \<Rightarrow> StageBrief \<Rightarrow> LedgerError + unit" where
  "check_brief_workspace env workspace_root capability_map_path brief =
     and_then (validate_stage_brief_files env brief workspace_root capability_map_path) (\<lambda>_.
     and_then (ok_or (fs_canonicalize (en_fs env) (sb_challenge_workspace_root brief))
         (DegradedExternal ''cannot canonicalize stage brief challenge workspace root: '')) (\<lambda>challenge_root.
     fail_if (\<not> fs_is_dir (en_fs env) challenge_root \<or> path_starts_with workspace_root challenge_root)
       (Degraded ''stage brief challenge workspace must be a directory and cannot contain the policy root'')))"

definition brief_to_string :: "Env \<Rightarrow> StageBrief \<Rightarrow> LedgerError + string" where
  "brief_to_string env brief =
     ok_or (js_to_string (en_brief env) brief) (DegradedExternal ''cannot serialize stage brief: '')"

definition replayed_brief ::
  "Env \<Rightarrow> BriefRow list \<Rightarrow> string \<Rightarrow> string \<Rightarrow> StageBrief \<Rightarrow> LedgerError + unit" where
  "replayed_brief env rows workspace_root capability_map_path brief =
     and_then (brief_to_string env brief) (\<lambda>brief_json.
       case List.find (\<lambda>r. bf_brief_id r = sb_brief_id brief) rows of
         None \<Rightarrow> Err (Degraded ''replayed cycle issuance is missing a stage brief'')
       | Some r \<Rightarrow>
           fail_if (bf_brief_json r \<noteq> brief_json
               \<or> bf_brief_sha256 r \<noteq> sha256_bytes (en_sha256 env) brief_json
               \<or> bf_workspace_root r \<noteq> workspace_root \<or> bf_capability_map_path r \<noteq> capability_map_path
               \<or> bf_revoked_at_ms r \<noteq> None)
             (Degraded ''replayed stage brief issuance does not match stored state''))"

definition replayed_issuance ::
  "Env \<Rightarrow> ActorContext \<Rightarrow> ResearchCycleRecord \<Rightarrow> string \<Rightarrow> string \<Rightarrow> string option \<Rightarrow> string \<Rightarrow> int \<Rightarrow>
   nat \<Rightarrow> Ledger \<Rightarrow> LedgerError + unit" where
  "replayed_issuance env chief cycle workspace_root capability_map_path predecessor cycle_json now_ms version l =
     and_then (ok_or (fetch_optional (\<lambda>r. cy_cycle_id r = rc_cycle_id cycle) (research_cycle_issuances l))
         (Degraded ''replayed cycle issuance is missing'')) (\<lambda>r.
     and_then (fail_if (cy_cycle_json r \<noteq> cycle_json
           \<or> cy_cycle_sha256 r \<noteq> sha256_bytes (en_sha256 env) cycle_json)
         (Degraded ''replayed cycle issuance does not match stored state'')) (\<lambda>_.
     and_then (i64_version version) (\<lambda>v.
     and_then (fail_if (cy_cycle_event_version r \<noteq> v \<or> cy_chief_lease_id r \<noteq> le_lease_id (cx_lease chief)
           \<or> cy_revoked_at_ms r \<noteq> None)
         (Degraded ''replayed cycle issuance does not match stored state'')) (\<lambda>_.
     let rows = filter (\<lambda>b. bf_cycle_id b = rc_cycle_id cycle) (stage_brief_issuances l)
     in if length rows \<noteq> length (rc_stage_briefs cycle)
        then Err (Degraded ''replayed cycle issuance has a different brief set'')
        else
     and_then (checks (map (replayed_brief env rows workspace_root capability_map_path) (rc_stage_briefs cycle))) (\<lambda>_.
     and_then (ok_or (fetch_optional (\<lambda>b. bd_thread_id b = cx_thread_id chief \<and> bd_role b = role_name Chief
                        \<and> bd_revoked_at_ms b = None) (thread_cycle_bindings l))
         (Degraded ''replayed cycle issuance is missing its Chief root binding'')) (\<lambda>b.
     and_then (fail_if (bd_parent_thread_id b \<noteq> None \<or> bd_agent_id b \<noteq> cx_agent_id chief
           \<or> bd_session_id b \<noteq> cx_session_id chief \<or> bd_campaign_id b \<noteq> rc_campaign_id cycle
           \<or> bd_challenge_id b \<noteq> rc_challenge_id cycle \<or> bd_cycle_id b \<noteq> rc_cycle_id cycle
           \<or> bd_cycle_event_version b \<noteq> v \<or> bd_chief_lease_id b \<noteq> le_lease_id (cx_lease chief)
           \<or> bd_revoked_at_ms b \<noteq> None)
         (Degraded ''replayed cycle issuance does not match its Chief root binding'')) (\<lambda>_.
     case predecessor of
       None \<Rightarrow> Ok ()
     | Some p \<Rightarrow>
         and_then (ok_or (fetch_optional (\<lambda>r. cy_cycle_id r = p \<and> cy_campaign_id r = rc_campaign_id cycle
                            \<and> cy_challenge_id r = rc_challenge_id cycle) (research_cycle_issuances l))
             (Degraded ''replayed supersede predecessor is missing'')) (\<lambda>r.
         fail_if (cy_revoked_at_ms r \<noteq> Some now_ms)
           (Degraded ''replayed supersede predecessor is not revoked'')))))))))"

text \<open>
  The three \<open>UPDATE\<close>s that revoke a cycle, its briefs and its bindings; the first must hit one row.
\<close>

definition revoke_cycle_rows :: "string \<Rightarrow> int \<Rightarrow> string \<Rightarrow> Ledger \<Rightarrow> LedgerError + Ledger" where
  "revoke_cycle_rows cycle_id now_ms msg l =
     (let hit = (\<lambda>r. cy_cycle_id r = cycle_id \<and> cy_revoked_at_ms r = None)
      in if rows_affected hit (research_cycle_issuances l) \<noteq> 1 then Err (Degraded msg)
         else Ok (l\<lparr> research_cycle_issuances := update_where hit
                       (\<lambda>r. r\<lparr> cy_revoked_at_ms := Some now_ms \<rparr>) (research_cycle_issuances l),
                     stage_brief_issuances := update_where
                       (\<lambda>b. bf_cycle_id b = cycle_id \<and> bf_revoked_at_ms b = None)
                       (\<lambda>b. b\<lparr> bf_revoked_at_ms := Some now_ms \<rparr>) (stage_brief_issuances l),
                     thread_cycle_bindings := update_where
                       (\<lambda>b. bd_cycle_id b = cycle_id \<and> bd_revoked_at_ms b = None)
                       (\<lambda>b. b\<lparr> bd_revoked_at_ms := Some now_ms \<rparr>) (thread_cycle_bindings l) \<rparr>))"

definition retire_predecessor ::
  "Env \<Rightarrow> ResearchCycleRecord \<Rightarrow> string option \<Rightarrow> int \<Rightarrow> Ledger \<Rightarrow> LedgerError + Ledger" where
  "retire_predecessor env cycle predecessor now_ms l =
     (let active_cycles = filter (\<lambda>r. cy_campaign_id r = rc_campaign_id cycle
              \<and> cy_challenge_id r = rc_challenge_id cycle \<and> cy_revoked_at_ms r = None
              \<and> cy_cycle_id r \<noteq> rc_cycle_id cycle) (research_cycle_issuances l)
      in case predecessor of
        None \<Rightarrow>
          if active_cycles \<noteq> []
          then Err (Degraded ''an active research cycle already exists; use the supersede control path'')
          else Ok l
      | Some p \<Rightarrow>
          if map cy_cycle_id active_cycles \<noteq> [p]
          then Err (Degraded ''supersede predecessor is not the single active cycle'')
          else
          and_then (ok_or (fetch_optional (\<lambda>r. cy_cycle_id r = p \<and> cy_campaign_id r = rc_campaign_id cycle
                             \<and> cy_challenge_id r = rc_challenge_id cycle) (research_cycle_issuances l))
              (Degraded ''supersede predecessor record is missing'')) (\<lambda>r.
          if cy_revoked_at_ms r \<noteq> None then Err (Degraded ''supersede predecessor is already revoked'')
          else if sha256_bytes (en_sha256 env) (cy_cycle_json r) \<noteq> cy_cycle_sha256 r
          then Err (Degraded ''supersede predecessor hash does not match'')
          else
          and_then (ok_or (js_from_str (en_cycle env) (cy_cycle_json r))
              (DegradedExternal ''supersede predecessor is invalid JSON: '')) (\<lambda>predecessor_record.
          and_then (case validate_successor predecessor_record cycle now_ms of
                None \<Rightarrow> Err Panicked
              | Some res \<Rightarrow> map_err (DegradedBy ''invalid research cycle successor: '') res) (\<lambda>_.
          revoke_cycle_rows p now_ms ''active predecessor disappeared during supersede'' l))))"

definition insert_brief ::
  "Env \<Rightarrow> ResearchCycleRecord \<Rightarrow> string \<Rightarrow> string \<Rightarrow> int \<Rightarrow> Ledger \<Rightarrow> StageBrief \<Rightarrow> LedgerError + Ledger" where
  "insert_brief env cycle workspace_root capability_map_path now_ms l brief =
     and_then (brief_to_string env brief) (\<lambda>brief_json.
     and_then (insert_row brief_clash
         \<lparr> bf_brief_id = sb_brief_id brief, bf_cycle_id = rc_cycle_id cycle,
           bf_campaign_id = rc_campaign_id cycle, bf_challenge_id = rc_challenge_id cycle,
           bf_role = role_name (sb_target_role brief), bf_brief_json = brief_json,
           bf_brief_sha256 = sha256_bytes (en_sha256 env) brief_json, bf_workspace_root = workspace_root,
           bf_capability_map_path = capability_map_path, bf_issued_at_ms = now_ms,
           bf_expires_at_ms = sb_expires_at_ms brief, bf_revoked_at_ms = None \<rparr> (stage_brief_issuances l)) (\<lambda>t.
     Ok (l\<lparr> stage_brief_issuances := t \<rparr>)))"

definition issuance_inserts ::
  "Env \<Rightarrow> ActorContext \<Rightarrow> ResearchCycleRecord \<Rightarrow> string \<Rightarrow> string \<Rightarrow> string \<Rightarrow> int \<Rightarrow> nat \<Rightarrow> Ledger \<Rightarrow>
   LedgerError + Ledger" where
  "issuance_inserts env chief cycle workspace_root capability_map_path cycle_json now_ms version l =
     and_then (i64_version version) (\<lambda>v.
     and_then (insert_row cycle_clash
         \<lparr> cy_cycle_id = rc_cycle_id cycle, cy_campaign_id = rc_campaign_id cycle,
           cy_challenge_id = rc_challenge_id cycle, cy_chief_lease_id = le_lease_id (cx_lease chief),
           cy_cycle_json = cycle_json, cy_cycle_sha256 = sha256_bytes (en_sha256 env) cycle_json,
           cy_cycle_event_version = v, cy_issued_at_ms = now_ms, cy_revoked_at_ms = None \<rparr>
         (research_cycle_issuances l)) (\<lambda>cycles.
     and_then (insert_row binding_clash
         \<lparr> bd_binding_id = ''chief:'' @ cx_thread_id chief @ '':'' @ rc_cycle_id cycle,
           bd_thread_id = cx_thread_id chief, bd_parent_thread_id = None, bd_agent_id = cx_agent_id chief,
           bd_session_id = cx_session_id chief, bd_campaign_id = cx_campaign_id chief,
           bd_challenge_id = cx_challenge_id chief, bd_cycle_id = rc_cycle_id cycle,
           bd_cycle_event_version = v, bd_chief_lease_id = le_lease_id (cx_lease chief),
           bd_role = role_name Chief, bd_issued_at_ms = now_ms, bd_revoked_at_ms = None \<rparr>
         (thread_cycle_bindings l)) (\<lambda>bindings.
     run_events (insert_brief env cycle workspace_root capability_map_path now_ms)
       (l\<lparr> research_cycle_issuances := cycles, thread_cycle_bindings := bindings \<rparr>)
       (rc_stage_briefs cycle))))"

definition issue_research_cycle_internal ::
  "Env \<Rightarrow> Ledger \<Rightarrow> ActorContext \<Rightarrow> ResearchCycleRecord \<Rightarrow> string \<Rightarrow> string \<Rightarrow> string option \<Rightarrow> int \<Rightarrow>
   CoordinationEventRecord \<Rightarrow> LedgerError + CycleIssuance \<times> Ledger" where
  "issue_research_cycle_internal env l chief cycle root_path capability_map_path predecessor now_ms event =
     and_then (live_chief env l chief now_ms) (\<lambda>_.
     and_then (map_err (DegradedBy ''invalid research cycle: '') (ResearchCycleRecord_validate cycle now_ms)) (\<lambda>_.
     if rc_campaign_id cycle \<noteq> cx_campaign_id chief \<or> rc_challenge_id cycle \<noteq> cx_challenge_id chief
     then Err (Degraded ''research cycle does not match the chief lease'')
     else
     and_then (ok_or (fs_canonicalize (en_fs env) root_path)
         (DegradedExternal ''cannot canonicalize stage brief workspace root: '')) (\<lambda>workspace_root.
     if \<not> fs_is_dir (en_fs env) workspace_root
     then Err (Degraded ''stage brief workspace root is not a directory'')
     else
     and_then (checks (map (check_brief_workspace env workspace_root capability_map_path) (rc_stage_briefs cycle))) (\<lambda>_.
     and_then (ok_or (js_to_string (en_cycle env) cycle)
         (DegradedExternal ''cannot serialize research cycle: '')) (\<lambda>cycle_json.
     let expected_event_type =
           (case predecessor of Some _ \<Rightarrow> ''research_cycle_superseded'' | None \<Rightarrow> ''research_cycle_issued'');
         expected_event_payload =
           (case predecessor of Some p \<Rightarrow> en_supersede_payload env p cycle | None \<Rightarrow> cycle_json)
     in if cr_aggregate_type event \<noteq> ''campaign'' \<or> cr_aggregate_id event \<noteq> rc_campaign_id cycle
           \<or> cr_expected_version event \<noteq> rc_expected_state_version cycle
           \<or> cr_event_type event \<noteq> expected_event_type \<or> cr_payload_json event \<noteq> expected_event_payload
           \<or> cr_occurred_at_ms event \<noteq> now_ms
        then Err (Degraded ''research cycle event is not bound to the chief-approved cycle'')
        else
     and_then (audited l event
         (replayed_issuance env chief cycle workspace_root capability_map_path predecessor cycle_json now_ms)
         (\<lambda>version l1. and_then (retire_predecessor env cycle predecessor now_ms l1)
            (issuance_inserts env chief cycle workspace_root capability_map_path cycle_json now_ms version)))
       (\<lambda>(version, l').
     Ok (\<lparr> ci_cycle_id = rc_cycle_id cycle, ci_brief_ids = map sb_brief_id (rc_stage_briefs cycle),
           ci_cycle_event_version = version,
           ci_cycle_sha256 = sha256_bytes (en_sha256 env) cycle_json \<rparr>, l')))))))"

definition issue_research_cycle_audited ::
  "Env \<Rightarrow> Ledger \<Rightarrow> ActorContext \<Rightarrow> ResearchCycleRecord \<Rightarrow> string \<Rightarrow> string \<Rightarrow> int \<Rightarrow>
   CoordinationEventRecord \<Rightarrow> LedgerError + CycleIssuance \<times> Ledger" where
  "issue_research_cycle_audited env l chief cycle root_path capability_map_path now_ms event =
     issue_research_cycle_internal env l chief cycle root_path capability_map_path None now_ms event"

definition supersede_research_cycle_audited ::
  "Env \<Rightarrow> Ledger \<Rightarrow> ActorContext \<Rightarrow> string \<Rightarrow> ResearchCycleRecord \<Rightarrow> string \<Rightarrow> string \<Rightarrow> int \<Rightarrow>
   CoordinationEventRecord \<Rightarrow> LedgerError + CycleIssuance \<times> Ledger" where
  "supersede_research_cycle_audited env l chief predecessor_cycle_id cycle root_path capability_map_path now_ms event =
     (if is_blank predecessor_cycle_id \<or> predecessor_cycle_id = rc_cycle_id cycle
      then Err (Degraded ''supersede requires a distinct predecessor cycle id'')
      else issue_research_cycle_internal env l chief cycle root_path capability_map_path
             (Some predecessor_cycle_id) now_ms event)"

section \<open>Revoking\<close>

definition revoke_research_cycle_audited ::
  "Env \<Rightarrow> Ledger \<Rightarrow> ActorContext \<Rightarrow> string \<Rightarrow> int \<Rightarrow> CoordinationEventRecord \<Rightarrow> LedgerError + nat \<times> Ledger" where
  "revoke_research_cycle_audited env l chief cycle_id now_ms event =
     (if is_blank cycle_id then Err (Degraded ''cycle id is required'')
      else
      and_then (live_chief env l chief now_ms) (\<lambda>_.
      if cr_aggregate_type event \<noteq> ''campaign'' \<or> cr_aggregate_id event \<noteq> cx_campaign_id chief
         \<or> cr_event_type event \<noteq> ''research_cycle_revoked''
         \<or> cr_payload_json event \<noteq> en_revoke_payload env cycle_id \<or> cr_occurred_at_ms event \<noteq> now_ms
      then Err (Degraded ''cycle revocation event is not bound to the chief campaign'')
      else
      and_then (ok_or (fetch_optional (\<lambda>r. cy_cycle_id r = cycle_id) (research_cycle_issuances l))
          (Degraded ''research cycle is not registered'')) (\<lambda>cycle.
      if cy_campaign_id cycle \<noteq> cx_campaign_id chief \<or> cy_challenge_id cycle \<noteq> cx_challenge_id chief
      then Err (Degraded ''research cycle is not owned by the live chief campaign'')
      else audited l event
        (\<lambda>v l1. case fetch_optional (\<lambda>r. cy_cycle_id r = cycle_id) (research_cycle_issuances l1) of
            None \<Rightarrow> Err Database
          | Some r \<Rightarrow> fail_if (cy_revoked_at_ms r \<noteq> Some now_ms)
              (Degraded ''replayed cycle revocation does not match stored state''))
        (\<lambda>v l1. if cy_revoked_at_ms cycle \<noteq> None then Err (Degraded ''research cycle is already revoked'')
                else revoke_cycle_rows cycle_id now_ms ''research cycle disappeared during revocation'' l1))))"

section \<open>Loading a brief\<close>

record PersistedStageBrief =
  pb_cycle_id :: string
  pb_campaign_id :: string
  pb_challenge_id :: string
  pb_role :: Role
  pb_stage_brief :: StageBrief
  pb_workspace_root :: string
  pb_capability_map_path :: string
  pb_cycle_event_version :: nat

definition load_stage_brief_issuance ::
  "Env \<Rightarrow> Ledger \<Rightarrow> string \<Rightarrow> string \<Rightarrow> string \<Rightarrow> Role \<Rightarrow> int \<Rightarrow> LedgerError + PersistedStageBrief" where
  "load_stage_brief_issuance env l cycle_id campaign_id ch role now_ms =
     (if list_ex is_blank [cycle_id, campaign_id, ch]
      then Err (Degraded ''stage brief lookup requires complete cycle and campaign binding'')
      else
      and_then (ok_or (fetch_optional
            (\<lambda>(b, c). cy_cycle_id c = bf_cycle_id b \<and> bf_cycle_id b = cycle_id \<and> bf_campaign_id b = campaign_id
               \<and> bf_challenge_id b = ch \<and> bf_role b = role_name role \<and> cy_campaign_id c = bf_campaign_id b
               \<and> cy_challenge_id c = bf_challenge_id b \<and> cy_revoked_at_ms c = None)
            (List.product (stage_brief_issuances l) (research_cycle_issuances l)))
          (Degraded ''stage brief issuance is not registered'')) (\<lambda>(b, c).
      if bf_revoked_at_ms b \<noteq> None then Err (Degraded ''stage brief issuance is revoked'')
      else if sha256_bytes (en_sha256 env) (bf_brief_json b) \<noteq> bf_brief_sha256 b
      then Err (Degraded ''stage brief issuance hash mismatch'')
      else
      and_then (ok_or (js_from_str (en_brief env) (bf_brief_json b))
          (DegradedExternal ''stored stage brief is invalid JSON: '')) (\<lambda>stage_brief.
      if sha256_bytes (en_sha256 env) (cy_cycle_json c) \<noteq> cy_cycle_sha256 c
      then Err (Degraded ''research cycle issuance hash mismatch'')
      else
      and_then (ok_or (js_from_str (en_cycle env) (cy_cycle_json c))
          (DegradedExternal ''stored research cycle is invalid JSON: '')) (\<lambda>cycle.
      if rc_cycle_id cycle \<noteq> cycle_id \<or> rc_campaign_id cycle \<noteq> campaign_id \<or> rc_challenge_id cycle \<noteq> ch
         \<or> stage_brief \<notin> set (rc_stage_briefs cycle)
      then Err (Degraded ''stored research cycle does not bind the requested stage brief'')
      else
      and_then (map_err (DegradedBy ''stored research cycle is invalid: '')
          (ResearchCycleRecord_validate cycle now_ms)) (\<lambda>_.
      if sb_campaign_id stage_brief \<noteq> campaign_id \<or> sb_challenge_id stage_brief \<noteq> ch
         \<or> sb_target_role stage_brief \<noteq> role
      then Err (Degraded ''stored stage brief does not match its lookup binding'')
      else
      and_then (map_err (DegradedBy ''stored stage brief is invalid: '')
          (StageBrief_validate stage_brief now_ms)) (\<lambda>_.
      if cy_cycle_event_version c < 0 then Err (Degraded ''stored cycle version is negative'')
      else Ok \<lparr> pb_cycle_id = cycle_id, pb_campaign_id = campaign_id, pb_challenge_id = ch, pb_role = role,
                pb_stage_brief = stage_brief, pb_workspace_root = bf_workspace_root b,
                pb_capability_map_path = bf_capability_map_path b,
                pb_cycle_event_version = nat (cy_cycle_event_version c) \<rparr>))))))"

section \<open>The authority invariant\<close>

text \<open>
  Every stored cycle is the document of a cycle that validated when it was issued, under a registered
  chief lease of its campaign and challenge; every stored brief is one of the briefs of its cycle;
  every binding points at its cycle, lease and version; and nothing is active whose cycle is revoked.
\<close>

definition cycle_doc :: "Env \<Rightarrow> CycleRow \<Rightarrow> ResearchCycleRecord \<Rightarrow> bool" where
  "cycle_doc env c cyc \<longleftrightarrow>
     js_to_string (en_cycle env) cyc = Some (cy_cycle_json c)
     \<and> cy_cycle_sha256 c = sha256_bytes (en_sha256 env) (cy_cycle_json c)
     \<and> rc_cycle_id cyc = cy_cycle_id c \<and> rc_campaign_id cyc = cy_campaign_id c
     \<and> rc_challenge_id cyc = cy_challenge_id c
     \<and> ResearchCycleRecord_validate cyc (cy_issued_at_ms c) = Ok ()"

definition chief_lease :: "LeaseRow list \<Rightarrow> CycleRow \<Rightarrow> bool" where
  "chief_lease t c \<longleftrightarrow>
     (\<exists>r \<in> set t. lw_lease_id r = cy_chief_lease_id c \<and> lw_role r = role_name Chief
        \<and> lw_campaign_id r = cy_campaign_id c \<and> lw_challenge_id r = cy_challenge_id c)"

definition brief_of :: "Env \<Rightarrow> CycleRow \<Rightarrow> BriefRow \<Rightarrow> bool" where
  "brief_of env c b \<longleftrightarrow>
     bf_cycle_id b = cy_cycle_id c \<and> bf_campaign_id b = cy_campaign_id c \<and> bf_challenge_id b = cy_challenge_id c
     \<and> (bf_revoked_at_ms b = None \<longrightarrow> cy_revoked_at_ms c = None)
     \<and> (\<exists>cyc brief. cycle_doc env c cyc \<and> brief \<in> set (rc_stage_briefs cyc)
          \<and> js_to_string (en_brief env) brief = Some (bf_brief_json b)
          \<and> bf_brief_sha256 b = sha256_bytes (en_sha256 env) (bf_brief_json b)
          \<and> bf_role b = role_name (sb_target_role brief) \<and> bf_brief_id b = sb_brief_id brief)"

definition binding_of :: "CycleRow \<Rightarrow> BindingRow \<Rightarrow> bool" where
  "binding_of c b \<longleftrightarrow>
     bd_cycle_id b = cy_cycle_id c \<and> bd_campaign_id b = cy_campaign_id c \<and> bd_challenge_id b = cy_challenge_id c
     \<and> bd_chief_lease_id b = cy_chief_lease_id c \<and> bd_cycle_event_version b = cy_cycle_event_version c
     \<and> (bd_revoked_at_ms b = None \<longrightarrow> cy_revoked_at_ms c = None)"

text \<open>
  A binding without a parent is a chief's; one with a parent is a worker's, whose agent identity is
  its thread and whose parent is a chief thread of the same session and cycle.
\<close>

definition child_of :: "BindingRow \<Rightarrow> BindingRow \<Rightarrow> bool" where
  "child_of b q \<longleftrightarrow> bd_parent_thread_id b = Some (bd_thread_id q) \<and> bd_parent_thread_id q = None
     \<and> bd_session_id q = bd_session_id b \<and> bd_cycle_id q = bd_cycle_id b"

definition lineage_ok :: "BindingRow list \<Rightarrow> bool" where
  "lineage_ok t \<longleftrightarrow> (\<forall>b \<in> set t.
     (bd_parent_thread_id b = None \<longleftrightarrow> bd_role b = role_name Chief)
     \<and> (bd_parent_thread_id b \<noteq> None \<longrightarrow> bd_agent_id b = bd_thread_id b \<and> (\<exists>q \<in> set t. child_of b q)))"

lemma lineage_ok_revoke:
  assumes "lineage_ok t"
  shows "lineage_ok (update_where p (\<lambda>b. b\<lparr> bd_revoked_at_ms := Some m \<rparr>) t)"
proof -
  let ?f = "\<lambda>b :: BindingRow. if p b then b\<lparr> bd_revoked_at_ms := Some m \<rparr> else b"
  have f: "bd_parent_thread_id (?f b) = bd_parent_thread_id b" "bd_role (?f b) = bd_role b"
      "bd_agent_id (?f b) = bd_agent_id b" "bd_thread_id (?f b) = bd_thread_id b" "child_of (?f b) (?f q) = child_of b q" for b q
    by (auto simp: child_of_def)
  show ?thesis
    unfolding lineage_ok_def set_update_where
  proof (intro ballI conjI impI)
    fix b' assume "b' \<in> ?f ` set t"
    then obtain b where b: "b \<in> set t" "b' = ?f b" by (rule imageE) blast
    note lineage = assms [unfolded lineage_ok_def, rule_format, OF b(1)]
    show "bd_parent_thread_id b' = None \<longleftrightarrow> bd_role b' = role_name Chief"
      unfolding b(2) f using lineage by blast
    assume child: "bd_parent_thread_id b' \<noteq> None"
    then show "bd_agent_id b' = bd_thread_id b'"
      unfolding b(2) f using lineage by blast
    obtain q where "q \<in> set t" "child_of b q"
      using child lineage unfolding b(2) f by blast
    then have "?f q \<in> ?f ` set t" "child_of b' (?f q)"
      unfolding b(2) f by blast+
    then show "\<exists>q \<in> ?f ` set t. child_of b' q" by (rule bexI [rotated])
  qed
qed

lemma lineage_ok_insert:
  assumes "lineage_ok t" "bd_parent_thread_id b = None \<longleftrightarrow> bd_role b = role_name Chief"
    and "bd_parent_thread_id b \<noteq> None \<Longrightarrow> bd_agent_id b = bd_thread_id b \<and> (\<exists>q \<in> set t. child_of b q)"
  shows "lineage_ok (t @ [b])"
  using assms unfolding lineage_ok_def by auto

definition cycles_ok :: "Env \<Rightarrow> Ledger \<Rightarrow> bool" where
  "cycles_ok env l \<longleftrightarrow>
     cycle_table.consistent (research_cycle_issuances l)
     \<and> brief_table.consistent (stage_brief_issuances l)
     \<and> binding_table.consistent (thread_cycle_bindings l)
     \<and> (\<forall>c \<in> set (research_cycle_issuances l). (\<exists>cyc. cycle_doc env c cyc) \<and> chief_lease (actor_leases l) c)
     \<and> (\<forall>b \<in> set (stage_brief_issuances l). \<exists>c \<in> set (research_cycle_issuances l). brief_of env c b)
     \<and> (\<forall>b \<in> set (thread_cycle_bindings l). \<exists>c \<in> set (research_cycle_issuances l). binding_of c b)
     \<and> lineage_ok (thread_cycle_bindings l)"

text \<open>
  The documents the cycle operations read back.  Contexts and briefs hold strings, integers, flags and
  enumerations, and are read back as they were written.  A cycle also holds floats, in its worker report,
  observation, closure progress and quota cost; \<open>serde_json\<close> without its \<open>float_roundtrip\<close> feature
  may read one of them off by a digit, and what it wrote for a non-finite one does not read at all.  So
  nothing is assumed of these fields, nor that a cycle reads: when it does, the others are as written.
\<close>

definition same_but_floats :: "ResearchCycleRecord \<Rightarrow> ResearchCycleRecord \<Rightarrow> bool" where
  "same_but_floats x y \<longleftrightarrow>
     x\<lparr> rc_worker_report := rc_worker_report y, rc_observation := rc_observation y,
        rc_quota_cost := rc_quota_cost y, rc_ooda := rc_ooda y \<rparr> = y"

definition cycle_reads_back :: "Env \<Rightarrow> bool" where
  "cycle_reads_back env \<longleftrightarrow>
     (\<forall>x s y. js_to_string (en_cycle env) x = Some s \<and> js_from_str (en_cycle env) s = Some y \<longrightarrow> same_but_floats x y)"

definition env_ok :: "Env \<Rightarrow> bool" where
  "env_ok env \<longleftrightarrow> json_roundtrip (en_context env) \<and> cycle_reads_back env \<and> json_roundtrip (en_brief env)"

lemma same_but_floats_refl [simp]: "same_but_floats x x"
  by (simp add: same_but_floats_def)

lemma same_but_floats_fields:
  assumes "same_but_floats x y"
  shows "rc_cycle_id y = rc_cycle_id x" "rc_campaign_id y = rc_campaign_id x"
    "rc_challenge_id y = rc_challenge_id x" "rc_stage_briefs y = rc_stage_briefs x"
  using assms [unfolded same_but_floats_def, THEN arg_cong, of rc_cycle_id]
    assms [unfolded same_but_floats_def, THEN arg_cong, of rc_campaign_id]
    assms [unfolded same_but_floats_def, THEN arg_cong, of rc_challenge_id]
    assms [unfolded same_but_floats_def, THEN arg_cong, of rc_stage_briefs] by simp_all

lemma roundtrip_reads_back: "json_roundtrip (en_cycle env) \<Longrightarrow> cycle_reads_back env"
  by (auto simp: cycle_reads_back_def dest: json_roundtripD)

lemma cycles_ok_initialize: "cycles_ok env initialize"
  by (simp add: cycles_ok_def lineage_ok_def initialize_def cycle_table.consistent_Nil brief_table.consistent_Nil
        binding_table.consistent_Nil)

lemma chief_lease_evolves:
  assumes "chief_lease t c" "lease_table.evolves t t'"
  shows "chief_lease t' c"
proof -
  obtain r where r: "r \<in> set t" "lw_lease_id r = cy_chief_lease_id c" "lw_role r = role_name Chief"
      "lw_campaign_id r = cy_campaign_id c" "lw_challenge_id r = cy_challenge_id c"
    using assms(1) by (auto simp: chief_lease_def)
  then obtain r' where "r' \<in> set t'" "lease_table.row_evolves r r'"
    using lease_table.evolves_row [OF assms(2)] by blast
  then show ?thesis
    using r by (auto simp: chief_lease_def lease_table.row_evolves_def intro!: bexI [of _ r'])
qed

lemma cycle_doc_revoked [simp]:
  "cycle_doc env (c\<lparr> cy_revoked_at_ms := x \<rparr>) cyc = cycle_doc env c cyc"
  "chief_lease t (c\<lparr> cy_revoked_at_ms := x \<rparr>) = chief_lease t c"
  by (simp_all add: cycle_doc_def chief_lease_def)

lemma run_events_invariant_in:
  assumes "run_events step s es = Inr t" "I s"
    and "\<And>s e t. e \<in> set es \<Longrightarrow> I s \<Longrightarrow> step s e = Inr t \<Longrightarrow> I t"
  shows "I t"
  using assms
proof (induction es arbitrary: s)
  case (Cons e es)
  then obtain u where "step s e = Inr u" "run_events step u es = Inr t"
    by (auto split: sum.splits)
  then show ?case
    using Cons.IH [of u] Cons.prems(2,3) by auto
qed simp

text \<open>What a cycle operation may change.\<close>

definition cycle_frame :: "Ledger \<Rightarrow> Ledger \<Rightarrow> bool" where
  "cycle_frame l l' \<longleftrightarrow>
     l' = l\<lparr> research_cycle_issuances := research_cycle_issuances l',
            stage_brief_issuances := stage_brief_issuances l',
            thread_cycle_bindings := thread_cycle_bindings l' \<rparr>"

definition cycle_evolves :: "Ledger \<Rightarrow> Ledger \<Rightarrow> bool" where
  "cycle_evolves l l' \<longleftrightarrow>
     cycle_table.evolves (research_cycle_issuances l) (research_cycle_issuances l')
     \<and> brief_table.evolves (stage_brief_issuances l) (stage_brief_issuances l')
     \<and> binding_table.evolves (thread_cycle_bindings l) (thread_cycle_bindings l')"

lemma cycle_frame_refl: "cycle_frame l l"
  by (simp add: cycle_frame_def)

lemma cycle_frame_trans: "cycle_frame l m \<Longrightarrow> cycle_frame m n \<Longrightarrow> cycle_frame l n"
  unfolding cycle_frame_def by (cases l; cases m; cases n) simp

lemma cycle_evolves_refl: "cycle_evolves l l"
  by (simp add: cycle_evolves_def cycle_table.evolves_refl brief_table.evolves_refl binding_table.evolves_refl)

lemma cycle_evolves_trans: "cycle_evolves l m \<Longrightarrow> cycle_evolves m n \<Longrightarrow> cycle_evolves l n"
  unfolding cycle_evolves_def
  using cycle_table.evolves_trans brief_table.evolves_trans binding_table.evolves_trans by blast

lemma cycle_frame_leases: "cycle_frame l l' \<Longrightarrow> actor_leases l' = actor_leases l"
  "cycle_frame l l' \<Longrightarrow> coordination_events l' = coordination_events l"
  unfolding cycle_frame_def by (cases l; cases l'; simp)+

lemma revoke_cycle_rows_ok:
  assumes "revoke_cycle_rows i now msg l = Inr l'"
  shows "cycle_frame l l'" "cycle_evolves l l'" "cycles_ok env l \<Longrightarrow> cycles_ok env l'"
    and "\<exists>c \<in> set (research_cycle_issuances l'). cy_cycle_id c = i \<and> cy_revoked_at_ms c = Some now"
proof -
  let ?hc = "\<lambda>r. cy_cycle_id r = i \<and> cy_revoked_at_ms r = None"
  let ?rc = "\<lambda>r :: CycleRow. r\<lparr> cy_revoked_at_ms := Some now \<rparr>"
  let ?hb = "\<lambda>b. bf_cycle_id b = i \<and> bf_revoked_at_ms b = None"
  let ?rb = "\<lambda>b :: BriefRow. b\<lparr> bf_revoked_at_ms := Some now \<rparr>"
  let ?hd = "\<lambda>b. bd_cycle_id b = i \<and> bd_revoked_at_ms b = None"
  let ?rd = "\<lambda>b :: BindingRow. b\<lparr> bd_revoked_at_ms := Some now \<rparr>"
  have l': "l' = l\<lparr> research_cycle_issuances := update_where ?hc ?rc (research_cycle_issuances l),
      stage_brief_issuances := update_where ?hb ?rb (stage_brief_issuances l),
      thread_cycle_bindings := update_where ?hd ?rd (thread_cycle_bindings l) \<rparr>"
    and one: "rows_affected ?hc (research_cycle_issuances l) = 1"
    using assms by (auto simp: revoke_cycle_rows_def Let_def split: if_splits)
  show "cycle_frame l l'" by (simp add: l' cycle_frame_def)
  show "cycle_evolves l l'"
    unfolding cycle_evolves_def l'
    by (auto intro!: cycle_table.evolves_revoke brief_table.evolves_revoke binding_table.evolves_revoke)
  obtain c where "c \<in> set (research_cycle_issuances l)" "?hc c"
    using one rows_affected_0 [of ?hc "research_cycle_issuances l"] by fastforce
  then show "\<exists>c \<in> set (research_cycle_issuances l'). cy_cycle_id c = i \<and> cy_revoked_at_ms c = Some now"
    by (intro bexI [of _ "?rc c"]) (auto simp: l' set_update_where image_iff intro!: bexI [of _ c])
  assume ok: "cycles_ok env l"
  let ?c' = "\<lambda>c. if ?hc c then ?rc c else c"
  have cs: "set (research_cycle_issuances l') = ?c' ` set (research_cycle_issuances l)"
    by (simp add: l' set_update_where)
  have brief: "brief_of env (?c' c) (if ?hb b then ?rb b else b)" if "brief_of env c b" for b c
    using that by (auto simp: brief_of_def)
  have binding: "binding_of (?c' c) (if ?hd b then ?rd b else b)" if "binding_of c b" for b c
    using that by (auto simp: binding_of_def)
  have "\<forall>c \<in> set (research_cycle_issuances l'). (\<exists>cyc. cycle_doc env c cyc) \<and> chief_lease (actor_leases l') c"
    using ok unfolding cs cycles_ok_def by (auto simp: l')
  moreover have "\<exists>c \<in> set (research_cycle_issuances l'). brief_of env c b" if b: "b \<in> set (stage_brief_issuances l')" for b
  proof -
    obtain b0 where b0: "b0 \<in> set (stage_brief_issuances l)" "b = (if ?hb b0 then ?rb b0 else b0)"
      using b by (auto simp: l' set_update_where)
    then obtain c where c: "c \<in> set (research_cycle_issuances l)" "brief_of env c b0"
      using ok unfolding cycles_ok_def by blast
    show ?thesis unfolding cs b0(2) using brief [OF c(2)] c(1) by (intro bexI [of _ "?c' c"]) (assumption, blast)
  qed
  moreover have "\<exists>c \<in> set (research_cycle_issuances l'). binding_of c b" if b: "b \<in> set (thread_cycle_bindings l')" for b
  proof -
    obtain b0 where b0: "b0 \<in> set (thread_cycle_bindings l)" "b = (if ?hd b0 then ?rd b0 else b0)"
      using b by (auto simp: l' set_update_where)
    then obtain c where c: "c \<in> set (research_cycle_issuances l)" "binding_of c b0"
      using ok unfolding cycles_ok_def by blast
    show ?thesis unfolding cs b0(2) using binding [OF c(2)] c(1) by (intro bexI [of _ "?c' c"]) (assumption, blast)
  qed
  moreover have "cycle_table.consistent (research_cycle_issuances l')"
      "brief_table.consistent (stage_brief_issuances l')" "binding_table.consistent (thread_cycle_bindings l')"
    using ok unfolding cycles_ok_def l'
    by (simp_all add: cycle_table.consistent_revoke brief_table.consistent_revoke binding_table.consistent_revoke)
  moreover have "lineage_ok (thread_cycle_bindings l')"
    using ok by (simp add: cycles_ok_def l' lineage_ok_revoke)
  ultimately show "cycles_ok env l'"
    unfolding cycles_ok_def by blast
qed

lemma insert_brief_ok:
  assumes "insert_brief env cyc w cap now l brief = Inr l'"
  shows "\<exists>json. js_to_string (en_brief env) brief = Some json \<and>
    (\<exists>b. insert_row brief_clash b (stage_brief_issuances l) = Inr (stage_brief_issuances l')
       \<and> l' = l\<lparr> stage_brief_issuances := stage_brief_issuances l @ [b] \<rparr>
       \<and> bf_brief_id b = sb_brief_id brief \<and> bf_cycle_id b = rc_cycle_id cyc \<and> bf_campaign_id b = rc_campaign_id cyc
       \<and> bf_challenge_id b = rc_challenge_id cyc \<and> bf_role b = role_name (sb_target_role brief)
       \<and> bf_brief_json b = json \<and> bf_brief_sha256 b = sha256_bytes (en_sha256 env) json \<and> bf_revoked_at_ms b = None)"
  using assms by (auto simp: insert_brief_def brief_to_string_def)

lemma insert_binding_ok:
  assumes "insert_row binding_clash b (thread_cycle_bindings l) = Inr t" "cycles_ok env l"
    and "c \<in> set (research_cycle_issuances l)" "binding_of c b" "lineage_ok t"
  shows "cycles_ok env (l\<lparr> thread_cycle_bindings := t \<rparr>)"
    "cycle_evolves l (l\<lparr> thread_cycle_bindings := t \<rparr>)"
proof -
  have t: "t = thread_cycle_bindings l @ [b]" using assms(1) by simp
  have "binding_table.consistent t"
    using assms(1,2) binding_table.consistent_insert unfolding cycles_ok_def by blast
  then show "cycles_ok env (l\<lparr> thread_cycle_bindings := t \<rparr>)"
    using assms(2-5) unfolding cycles_ok_def by (auto simp: t)
  show "cycle_evolves l (l\<lparr> thread_cycle_bindings := t \<rparr>)"
    using binding_table.evolves_insert [OF assms(1)]
    by (simp add: cycle_evolves_def cycle_table.evolves_refl brief_table.evolves_refl)
qed

lemma insert_cycle_ok:
  assumes "insert_row cycle_clash c (research_cycle_issuances l) = Inr t" "cycles_ok env l"
    and "cycle_doc env c cyc" "chief_lease (actor_leases l) c"
  shows "cycles_ok env (l\<lparr> research_cycle_issuances := t \<rparr>)"
    "cycle_evolves l (l\<lparr> research_cycle_issuances := t \<rparr>)"
proof -
  have t: "t = research_cycle_issuances l @ [c]" using assms(1) by simp
  have "cycle_table.consistent t"
    using assms(1,2) cycle_table.consistent_insert unfolding cycles_ok_def by blast
  then show "cycles_ok env (l\<lparr> research_cycle_issuances := t \<rparr>)"
    using assms(2-4) unfolding cycles_ok_def by (auto simp: t)
  show "cycle_evolves l (l\<lparr> research_cycle_issuances := t \<rparr>)"
    using cycle_table.evolves_insert [OF assms(1)]
    by (simp add: cycle_evolves_def binding_table.evolves_refl brief_table.evolves_refl)
qed

lemma insert_briefs_ok:
  assumes "run_events (insert_brief env cyc w cap now) l briefs = Inr l'"
    and "set briefs \<subseteq> set (rc_stage_briefs cyc)" "cycle_doc env c cyc" "cy_revoked_at_ms c = None"
    and "cycles_ok env l" "c \<in> set (research_cycle_issuances l)"
  shows "cycles_ok env l' \<and> cycle_evolves l l' \<and> cycle_frame l l'"
proof -
  have "cycles_ok env l' \<and> cycle_evolves l l' \<and> cycle_frame l l' \<and> c \<in> set (research_cycle_issuances l')"
    using assms(1)
  proof (rule run_events_invariant_in)
    show "cycles_ok env l \<and> cycle_evolves l l \<and> cycle_frame l l \<and> c \<in> set (research_cycle_issuances l)"
      using assms(5,6) by (simp add: cycle_evolves_refl cycle_frame_refl)
  next
    fix m brief n
    assume brief: "brief \<in> set briefs"
      and m: "cycles_ok env m \<and> cycle_evolves l m \<and> cycle_frame l m \<and> c \<in> set (research_cycle_issuances m)"
      and step: "insert_brief env cyc w cap now m brief = Inr n"
    obtain json b where b: "js_to_string (en_brief env) brief = Some json"
        "insert_row brief_clash b (stage_brief_issuances m) = Inr (stage_brief_issuances n)"
        "n = m\<lparr> stage_brief_issuances := stage_brief_issuances m @ [b] \<rparr>"
        "bf_brief_id b = sb_brief_id brief" "bf_cycle_id b = rc_cycle_id cyc" "bf_campaign_id b = rc_campaign_id cyc"
        "bf_challenge_id b = rc_challenge_id cyc" "bf_role b = role_name (sb_target_role brief)"
        "bf_brief_json b = json" "bf_brief_sha256 b = sha256_bytes (en_sha256 env) json" "bf_revoked_at_ms b = None"
      using insert_brief_ok [OF step] by blast
    have "brief_of env c b"
      unfolding brief_of_def using b brief assms(2,3,4) by (auto simp: cycle_doc_def)
    moreover have "brief_table.consistent (stage_brief_issuances n)"
      using b(2) m brief_table.consistent_insert unfolding cycles_ok_def by blast
    ultimately have "cycles_ok env n"
      using m unfolding cycles_ok_def by (auto simp: b(3))
    moreover have "cycle_evolves m n"
      using brief_table.evolves_insert [OF b(2)] b(3)
      by (simp add: cycle_evolves_def cycle_table.evolves_refl binding_table.evolves_refl)
    moreover have "cycle_frame m n"
      by (simp add: cycle_frame_def b(3))
    ultimately show "cycles_ok env n \<and> cycle_evolves l n \<and> cycle_frame l n \<and> c \<in> set (research_cycle_issuances n)"
      using m cycle_evolves_trans cycle_frame_trans b(3) by auto
  qed
  then show ?thesis by blast
qed

lemma retire_predecessor_ok:
  assumes "retire_predecessor env cyc predecessor now l = Inr l'"
  shows "cycle_frame l l'" "cycle_evolves l l'" "cycles_ok env l \<Longrightarrow> cycles_ok env l'"
    and "predecessor = Some p \<Longrightarrow> \<exists>c \<in> set (research_cycle_issuances l'). cy_cycle_id c = p \<and> cy_revoked_at_ms c \<noteq> None"
proof -
  have "predecessor = None \<and> l' = l \<or>
    (\<exists>p msg. predecessor = Some p \<and> revoke_cycle_rows p now msg l = Inr l')"
    using assms by (auto simp: retire_predecessor_def Let_def split: option.splits if_splits)
  then consider (none) "predecessor = None" "l' = l"
    | (some) p msg where "predecessor = Some p" "revoke_cycle_rows p now msg l = Inr l'"
    by blast
  then have all: "cycle_frame l l' \<and> cycle_evolves l l' \<and> (cycles_ok env l \<longrightarrow> cycles_ok env l')
    \<and> (predecessor = Some p \<longrightarrow> (\<exists>c \<in> set (research_cycle_issuances l'). cy_cycle_id c = p \<and> cy_revoked_at_ms c \<noteq> None))"
  proof cases
    case none
    then show ?thesis by (simp add: cycle_frame_refl cycle_evolves_refl)
  next
    case some
    then show ?thesis using revoke_cycle_rows_ok [OF some(2)] by auto
  qed
  show "cycle_frame l l'" "cycle_evolves l l'" using all by blast+
  show "cycles_ok env l \<Longrightarrow> cycles_ok env l'" using all by blast
  show "predecessor = Some p \<Longrightarrow> \<exists>c \<in> set (research_cycle_issuances l'). cy_cycle_id c = p \<and> cy_revoked_at_ms c \<noteq> None"
    using all by blast
qed

lemma live_chief_row:
  assumes "live_chief env l chief now = Inr u" "leases_ok env (actor_leases l)" "env_ok env"
  obtains r where "r \<in> set (actor_leases l)" "provisioned env r chief" "lw_revoked_at_ms r = None"
    "cx_role chief = Chief" "ActorContext_validate chief Action.Decide now = Ok ()"
proof -
  have "resolve_chief_context_for_action env l (le_lease_id (cx_lease chief)) (cx_agent_id chief)
         (cx_session_id chief) (cx_thread_id chief) (cx_campaign_id chief) (cx_challenge_id chief)
         Action.Decide now = Inr chief"
    using assms(1) by (auto simp: live_chief_def resolve_chief_context_def)
  then show ?thesis
    using resolved_context_was_provisioned [OF assms(2)] assms(3)
    by (elim resolve_chief_row) (auto simp: env_ok_def context_is_def intro: that)
qed

lemma provisioned_columns:
  "provisioned env r cx \<Longrightarrow> lw_lease_id r = le_lease_id (cx_lease cx) \<and> lw_role r = role_name (cx_role cx)
     \<and> lw_campaign_id r = cx_campaign_id cx \<and> lw_challenge_id r = cx_challenge_id cx"
  by (cases r) (simp add: provisioned_def lease_row_def)

lemma issuance_inserts_ok:
  assumes "issuance_inserts env chief cyc w cap json now v l = Inr l'"
    and "cycles_ok env l" "js_to_string (en_cycle env) cyc = Some json"
    and "ResearchCycleRecord_validate cyc now = Ok ()"
    and "rc_campaign_id cyc = cx_campaign_id chief" "rc_challenge_id cyc = cx_challenge_id chief"
    and "r \<in> set (actor_leases l)" "provisioned env r chief" "cx_role chief = Chief"
  shows "cycles_ok env l' \<and> cycle_evolves l l' \<and> cycle_frame l l'"
proof -
  let ?c = "\<lparr> cy_cycle_id = rc_cycle_id cyc, cy_campaign_id = rc_campaign_id cyc,
           cy_challenge_id = rc_challenge_id cyc, cy_chief_lease_id = le_lease_id (cx_lease chief),
           cy_cycle_json = json, cy_cycle_sha256 = sha256_bytes (en_sha256 env) json,
           cy_cycle_event_version = int v, cy_issued_at_ms = now, cy_revoked_at_ms = None \<rparr>"
  let ?b = "\<lparr> bd_binding_id = ''chief:'' @ cx_thread_id chief @ '':'' @ rc_cycle_id cyc,
           bd_thread_id = cx_thread_id chief, bd_parent_thread_id = None, bd_agent_id = cx_agent_id chief,
           bd_session_id = cx_session_id chief, bd_campaign_id = cx_campaign_id chief,
           bd_challenge_id = cx_challenge_id chief, bd_cycle_id = rc_cycle_id cyc,
           bd_cycle_event_version = int v, bd_chief_lease_id = le_lease_id (cx_lease chief),
           bd_role = role_name Chief, bd_issued_at_ms = now, bd_revoked_at_ms = None \<rparr>"
  obtain cs bs where cs: "insert_row cycle_clash ?c (research_cycle_issuances l) = Inr cs"
    and bs: "insert_row binding_clash ?b (thread_cycle_bindings l) = Inr bs"
    and briefs: "run_events (insert_brief env cyc w cap now)
       (l\<lparr> research_cycle_issuances := cs, thread_cycle_bindings := bs \<rparr>) (rc_stage_briefs cyc) = Inr l'"
    using assms(1) by (auto simp: issuance_inserts_def i64_version_def split: if_splits)
  let ?l1 = "l\<lparr> research_cycle_issuances := cs \<rparr>" and ?l2 = "l\<lparr> research_cycle_issuances := cs, thread_cycle_bindings := bs \<rparr>"
  have doc: "cycle_doc env ?c cyc"
    using assms(3,4) by (simp add: cycle_doc_def)
  have lease: "chief_lease (actor_leases l) ?c"
    unfolding chief_lease_def using provisioned_columns [OF assms(8)] assms(5-7,9) by (intro bexI [of _ r]) simp_all
  have c: "?c \<in> set cs" using cs by simp
  have ok1: "cycles_ok env ?l1" "cycle_evolves l ?l1"
    using insert_cycle_ok [OF cs assms(2) doc lease] .
  have "lineage_ok bs"
    using bs assms(2) lineage_ok_insert [of "thread_cycle_bindings l" ?b] by (simp add: cycles_ok_def)
  then have ok2: "cycles_ok env ?l2" "cycle_evolves ?l1 ?l2"
    using insert_binding_ok [of ?b ?l1 bs env ?c] bs ok1(1) c assms(5,6) by (simp_all add: binding_of_def)
  have ok3: "cycles_ok env l' \<and> cycle_evolves ?l2 l' \<and> cycle_frame ?l2 l'"
    by (rule insert_briefs_ok [OF briefs order_refl doc _ ok2(1)]) (use c in simp_all)
  have "cycle_frame l ?l2" by (simp add: cycle_frame_def)
  then show ?thesis
    using ok1(2) ok2(2) ok3 cycle_evolves_trans cycle_frame_trans by blast
qed

lemma issuance_inserts_frame:
  assumes "issuance_inserts env chief cyc w cap json now v l = Inr l'"
  shows "cycle_frame l l'"
proof -
  obtain m briefs where m: "run_events (insert_brief env cyc w cap now) m briefs = Inr l'" "cycle_frame l m"
    using assms by (auto simp: issuance_inserts_def cycle_frame_def)
  from m(1) have "cycle_frame m l'"
  proof (rule run_events_invariant)
    fix a b brief
    assume "cycle_frame m a" "insert_brief env cyc w cap now a brief = Inr b"
    moreover from this(2) have "cycle_frame a b"
      by (auto simp: insert_brief_def brief_to_string_def cycle_frame_def)
    ultimately show "cycle_frame m b"
      using cycle_frame_trans by blast
  qed (simp add: cycle_frame_refl)
  then show ?thesis using m(2) cycle_frame_trans by blast
qed

text \<open>Operations append to the log and otherwise keep to the cycle tables.\<close>

definition cycle_step :: "Env \<Rightarrow> Ledger \<Rightarrow> Ledger \<Rightarrow> bool" where
  "cycle_step env l l' \<longleftrightarrow>
     (leases_ok env (actor_leases l) \<and> cycles_ok env l \<longrightarrow> cycles_ok env l' \<and> cycle_evolves l l')
     \<and> (\<exists>es. cycle_frame (l\<lparr> coordination_events := es \<rparr>) l')"

lemma cycles_ok_log [simp]: "cycles_ok env (l\<lparr> coordination_events := es \<rparr>) = cycles_ok env l"
  "cycle_evolves (l\<lparr> coordination_events := es \<rparr>) m = cycle_evolves l m"
  by (simp_all add: cycles_ok_def cycle_evolves_def)

lemma cycle_step_refl: "cycle_step env l l"
  unfolding cycle_step_def
  by (intro conjI exI [of _ "coordination_events l"]) (simp_all add: cycle_evolves_refl cycle_frame_refl)

lemma issue_research_cycle_cases:
  assumes "issue_research_cycle_internal env l chief cyc root_path cap predecessor now event = Inr (iss, l')"
  obtains w json where "live_chief env l chief now = Inr ()" "ResearchCycleRecord_validate cyc now = Ok ()"
    "rc_campaign_id cyc = cx_campaign_id chief" "rc_challenge_id cyc = cx_challenge_id chief"
    "js_to_string (en_cycle env) cyc = Some json" "cr_aggregate_type event = ''campaign''"
    "cr_aggregate_id event = rc_campaign_id cyc" "ci_cycle_id iss = rc_cycle_id cyc"
    "checks (map (check_brief_workspace env w cap) (rc_stage_briefs cyc)) = Ok ()"
    "audited l event (replayed_issuance env chief cyc w cap predecessor json now)
         (\<lambda>version l1. and_then (retire_predecessor env cyc predecessor now l1)
            (issuance_inserts env chief cyc w cap json now version)) = Inr (ci_cycle_event_version iss, l')"
  using assms by (auto simp: issue_research_cycle_internal_def Let_def simp del: checks_ok split: if_splits)

lemma issue_research_cycle_step:
  assumes "issue_research_cycle_internal env l chief cyc root_path cap predecessor now event = Inr (iss, l')" "env_ok env"
  shows "cycle_step env l l'"
proof -
  obtain w json where chief: "live_chief env l chief now = Inr ()" and valid: "ResearchCycleRecord_validate cyc now = Ok ()"
    and same: "rc_campaign_id cyc = cx_campaign_id chief" "rc_challenge_id cyc = cx_challenge_id chief"
    and json: "js_to_string (en_cycle env) cyc = Some json"
    and audit: "audited l event (replayed_issuance env chief cyc w cap predecessor json now)
         (\<lambda>version l1. and_then (retire_predecessor env cyc predecessor now l1)
            (issuance_inserts env chief cyc w cap json now version)) = Inr (ci_cycle_event_version iss, l')"
    using issue_research_cycle_cases [OF assms(1)] by metis
  from audit show ?thesis
  proof (cases rule: audited_cases)
    case replayed
    then show ?thesis by (simp add: cycle_step_refl)
  next
    case (fresh a l1)
    then obtain l2 where l2: "retire_predecessor env cyc predecessor now l1 = Inr l2"
      and ins: "issuance_inserts env chief cyc w cap json now (ci_cycle_event_version iss) l2 = Inr l'"
      by auto
    note ret = retire_predecessor_ok [OF l2]
    have leases: "actor_leases l2 = actor_leases l"
      using cycle_frame_leases(1) [OF ret(1)] fresh(4) by simp
    obtain es where l1: "l1 = l\<lparr> coordination_events := es \<rparr>" using fresh(4) by blast
    have "cycles_ok env l' \<and> cycle_evolves l l'" if ok: "leases_ok env (actor_leases l)" "cycles_ok env l"
    proof -
      obtain r where "r \<in> set (actor_leases l2)" "provisioned env r chief" "cx_role chief = Chief"
        using live_chief_row [OF chief ok(1) assms(2)] leases by metis
      then have "cycles_ok env l' \<and> cycle_evolves l2 l'"
        using issuance_inserts_ok [OF ins _ json valid same] ret(3) ok(2) l1 by simp
      then show ?thesis
        using ret(2) cycle_evolves_trans l1 by auto
    qed
    moreover have "cycle_frame l2 l'"
      using issuance_inserts_frame [OF ins] .
    ultimately show ?thesis
      using cycle_frame_trans [OF ret(1)] l1 unfolding cycle_step_def by blast
  qed
qed

lemma revoke_research_cycle_cases:
  assumes "revoke_research_cycle_audited env l chief i now event = Inr (v, l')"
  obtains replay change where "audited l event replay change = Inr (v, l')" "live_chief env l chief now = Inr ()"
    "\<And>v l1 l2. change v l1 = Inr l2 \<Longrightarrow> \<exists>msg. revoke_cycle_rows i now msg l1 = Inr l2"
    "\<And>v l1. replay v l1 = Ok () \<Longrightarrow>
       \<exists>c \<in> set (research_cycle_issuances l1). cy_cycle_id c = i \<and> cy_revoked_at_ms c = Some now"
proof -
  let ?replay = "\<lambda>(v::nat) (l1::Ledger). case fetch_optional (\<lambda>r. cy_cycle_id r = i) (research_cycle_issuances l1) of
            None \<Rightarrow> Err Database
          | Some r \<Rightarrow> fail_if (cy_revoked_at_ms r \<noteq> Some now)
              (Degraded ''replayed cycle revocation does not match stored state'')"
  let ?change = "\<lambda>(c::CycleRow) (v::nat) (l1::Ledger). if cy_revoked_at_ms c \<noteq> None then Err (Degraded ''research cycle is already revoked'')
                else revoke_cycle_rows i now ''research cycle disappeared during revocation'' l1"
  obtain c where "audited l event ?replay (?change c) = Inr (v, l')" "live_chief env l chief now = Inr ()"
    using assms by (auto simp: revoke_research_cycle_audited_def split: if_splits)
  then show ?thesis
    by (rule that)
       (auto split: if_splits option.splits dest!: fetch_optional_SomeD)
qed

lemma revoke_research_cycle_step:
  assumes "revoke_research_cycle_audited env l chief i now event = Inr (v, l')"
  shows "cycle_step env l l'"
    and "\<exists>c \<in> set (research_cycle_issuances l'). cy_cycle_id c = i \<and> cy_revoked_at_ms c = Some now"
proof -
  obtain replay change where audit: "audited l event replay change = Inr (v, l')"
    and change: "\<And>v l1 l2. change v l1 = Inr l2 \<Longrightarrow> \<exists>msg. revoke_cycle_rows i now msg l1 = Inr l2"
    and replay: "\<And>v l1. replay v l1 = Ok () \<Longrightarrow>
       \<exists>c \<in> set (research_cycle_issuances l1). cy_cycle_id c = i \<and> cy_revoked_at_ms c = Some now"
    using revoke_research_cycle_cases [OF assms] by metis
  from audit have "cycle_step env l l' \<and>
    (\<exists>c \<in> set (research_cycle_issuances l'). cy_cycle_id c = i \<and> cy_revoked_at_ms c = Some now)"
  proof (cases rule: audited_cases)
    case replayed
    then show ?thesis using replay [OF replayed(5)] by (simp add: cycle_step_refl)
  next
    case (fresh a l1)
    obtain msg where rows: "revoke_cycle_rows i now msg l1 = Inr l'"
      using change [OF fresh(5)] by blast
    then show ?thesis
      using revoke_cycle_rows_ok [OF rows] unfolding cycle_step_def fresh(4) by auto
  qed
  then show "cycle_step env l l'"
    "\<exists>c \<in> set (research_cycle_issuances l'). cy_cycle_id c = i \<and> cy_revoked_at_ms c = Some now"
    by blast+
qed

lemma issue_log:
  "and_then (retire_predecessor env cyc predecessor now l1)
     (issuance_inserts env chief cyc w cap json now version) = Inr l2 \<Longrightarrow>
   coordination_events l2 = coordination_events l1"
  by (auto dest!: retire_predecessor_ok(1) issuance_inserts_frame cycle_frame_leases(2))

interpretation issue_cycle: audited_operation
  "\<lambda>l. and_then (issue_research_cycle_internal env l chief cyc root_path cap predecessor now event)
     (\<lambda>(iss, l'). Ok (ci_cycle_event_version iss, l'))" event
  for env chief cyc root_path cap predecessor now event
  by unfold_locales
     (auto elim!: issue_research_cycle_cases audited_appends dest: issue_log)

interpretation revoke_cycle: audited_operation "\<lambda>l. revoke_research_cycle_audited env l chief i now event" event
  for env chief i now event
  by unfold_locales
     (erule revoke_research_cycle_cases, erule audited_appends, metis revoke_cycle_rows_ok(1) cycle_frame_leases(2))

section \<open>Loading\<close>

lemma load_stage_brief_rows:
  assumes "load_stage_brief_issuance env l i camp ch role now = Inr pb"
  obtains b c cyc where "b \<in> set (stage_brief_issuances l)" "c \<in> set (research_cycle_issuances l)"
    "bf_cycle_id b = i" "cy_cycle_id c = i" "bf_campaign_id b = camp" "bf_challenge_id b = ch"
    "cy_campaign_id c = camp" "cy_challenge_id c = ch"
    "bf_role b = role_name role" "cy_revoked_at_ms c = None" "bf_revoked_at_ms b = None"
    "js_from_str (en_brief env) (bf_brief_json b) = Some (pb_stage_brief pb)"
    "js_from_str (en_cycle env) (cy_cycle_json c) = Some cyc" "pb_stage_brief pb \<in> set (rc_stage_briefs cyc)"
    "ResearchCycleRecord_validate cyc now = Ok ()" "StageBrief_validate (pb_stage_brief pb) now = Ok ()"
    "sb_target_role (pb_stage_brief pb) = role" "pb_workspace_root pb = bf_workspace_root b"
  using assms
  by (auto simp: load_stage_brief_issuance_def split: if_splits dest!: fetch_optional_SomeD)

end
