(* ===== verification/ThreadBindings.thy ===== *)
theory ThreadBindings
  imports CycleLedger
begin

text \<open>
  The durable binding of a live thread to one research cycle: \<open>bind_root_thread_to_cycle\<close>,
  \<open>bind_child_thread_to_cycle\<close>, \<open>resolve_thread_cycle_binding\<close>,
  \<open>resolve_thread_cycle_binding_for_live_thread\<close> and \<open>revoke_thread_cycle_binding\<close>.
\<close>

record ThreadCycleBinding =
  tb_binding_id :: string
  tb_thread_id :: string
  tb_parent_thread_id :: "string option"
  tb_agent_id :: string
  tb_session_id :: string
  tb_campaign_id :: string
  tb_challenge_id :: string
  tb_cycle_id :: string
  tb_cycle_event_version :: nat
  tb_chief_lease_id :: string
  tb_role :: Role
  tb_issued_at_ms :: int
  tb_revoked_at_ms :: "int option"

definition load_active_cycle_for_binding ::
  "Env \<Rightarrow> Ledger \<Rightarrow> string \<Rightarrow> string \<Rightarrow> string \<Rightarrow> string \<Rightarrow> nat \<Rightarrow> int \<Rightarrow> LedgerError + ResearchCycleRecord" where
  "load_active_cycle_for_binding env l cycle_id campaign_id ch chief_lease_id cycle_event_version now_ms =
     and_then (ok_or (fetch_optional (\<lambda>r. cy_cycle_id r = cycle_id \<and> cy_campaign_id r = campaign_id
                        \<and> cy_challenge_id r = ch \<and> cy_revoked_at_ms r = None) (research_cycle_issuances l))
         (Degraded ''active research cycle is not registered'')) (\<lambda>r.
     if cy_chief_lease_id r \<noteq> chief_lease_id
     then Err (Degraded ''thread cycle binding points to a stale or different Chief cycle'')
     else if cy_cycle_event_version r < 0 then Err (Degraded ''stored cycle event version is invalid'')
     else if nat (cy_cycle_event_version r) \<noteq> cycle_event_version
     then Err (Degraded ''thread cycle binding points to a stale or different Chief cycle'')
     else if sha256_bytes (en_sha256 env) (cy_cycle_json r) \<noteq> cy_cycle_sha256 r
     then Err (Degraded ''active research cycle hash does not match'')
     else
     and_then (ok_or (js_from_str (en_cycle env) (cy_cycle_json r))
         (DegradedExternal ''stored research cycle is invalid JSON: '')) (\<lambda>cycle.
     and_then (map_err (DegradedBy ''active research cycle is invalid: '')
         (ResearchCycleRecord_validate cycle now_ms)) (\<lambda>_. Ok cycle)))"

definition binding_row :: "ThreadCycleBinding \<Rightarrow> int \<Rightarrow> BindingRow" where
  "binding_row b v =
     \<lparr> bd_binding_id = tb_binding_id b, bd_thread_id = tb_thread_id b,
       bd_parent_thread_id = tb_parent_thread_id b, bd_agent_id = tb_agent_id b,
       bd_session_id = tb_session_id b, bd_campaign_id = tb_campaign_id b,
       bd_challenge_id = tb_challenge_id b, bd_cycle_id = tb_cycle_id b, bd_cycle_event_version = v,
       bd_chief_lease_id = tb_chief_lease_id b, bd_role = role_name (tb_role b),
       bd_issued_at_ms = tb_issued_at_ms b, bd_revoked_at_ms = None \<rparr>"

definition insert_thread_cycle_binding :: "Ledger \<Rightarrow> ThreadCycleBinding \<Rightarrow> LedgerError + Ledger" where
  "insert_thread_cycle_binding l b =
     (if i64_max < int (tb_cycle_event_version b) then Err (Degraded ''cycle event version overflow'')
      else and_then (insert_row binding_clash (binding_row b (int (tb_cycle_event_version b)))
               (thread_cycle_bindings l)) (\<lambda>t.
           Ok (l\<lparr> thread_cycle_bindings := t \<rparr>)))"

definition bind_root_thread_to_cycle ::
  "Env \<Rightarrow> Ledger \<Rightarrow> ActorContext \<Rightarrow> string \<Rightarrow> nat \<Rightarrow> string \<Rightarrow> int \<Rightarrow> LedgerError + ThreadCycleBinding \<times> Ledger" where
  "bind_root_thread_to_cycle env l chief cycle_id cycle_event_version binding_id now_ms =
     (if cx_role chief \<noteq> Chief
         \<or> list_ex is_blank [cx_thread_id chief, cx_agent_id chief, cx_session_id chief, cycle_id, binding_id]
         \<or> cycle_event_version = 0
      then Err (Degraded ''root cycle binding requires a complete Chief identity and cycle'')
      else
      and_then (resolve_chief_context env l (le_lease_id (cx_lease chief)) (cx_agent_id chief)
          (cx_session_id chief) (cx_thread_id chief) (cx_campaign_id chief) (cx_challenge_id chief) now_ms) (\<lambda>resolved.
      if resolved \<noteq> chief then Err (Degraded ''root cycle binding Chief context is not registered'')
      else
      and_then (load_active_cycle_for_binding env l cycle_id (cx_campaign_id chief) (cx_challenge_id chief)
          (le_lease_id (cx_lease chief)) cycle_event_version now_ms) (\<lambda>cycle.
      let b = \<lparr> tb_binding_id = binding_id, tb_thread_id = cx_thread_id chief, tb_parent_thread_id = None,
                tb_agent_id = cx_agent_id chief, tb_session_id = cx_session_id chief,
                tb_campaign_id = cx_campaign_id chief, tb_challenge_id = cx_challenge_id chief,
                tb_cycle_id = rc_cycle_id cycle, tb_cycle_event_version = cycle_event_version,
                tb_chief_lease_id = le_lease_id (cx_lease chief), tb_role = Chief,
                tb_issued_at_ms = now_ms, tb_revoked_at_ms = None \<rparr>
      in and_then (insert_thread_cycle_binding l b) (\<lambda>l'. Ok (b, l')))))"

definition bind_child_thread_to_cycle ::
  "Env \<Rightarrow> Ledger \<Rightarrow> string \<Rightarrow> string \<Rightarrow> string \<Rightarrow> string \<Rightarrow> Role \<Rightarrow> string \<Rightarrow> int \<Rightarrow>
   LedgerError + ThreadCycleBinding \<times> Ledger" where
  "bind_child_thread_to_cycle env l parent_thread_id child_thread_id child_agent_id child_session_id role
       binding_id now_ms =
     (if list_ex is_blank [parent_thread_id, child_thread_id, child_agent_id, child_session_id, binding_id]
         \<or> role = Chief
      then Err (Degraded ''child cycle binding requires complete identities and a worker role'')
      else if child_agent_id \<noteq> child_thread_id
      then Err (Degraded ''child cycle binding agent identity must equal its thread identity'')
      else
      and_then (ok_or (fetch_optional (\<lambda>b. bd_thread_id b = parent_thread_id \<and> bd_role b = role_name Chief
                         \<and> bd_revoked_at_ms b = None) (thread_cycle_bindings l))
          (Degraded ''parent thread has no active Chief cycle binding'')) (\<lambda>p.
      if bd_cycle_event_version p < 0 then Err (Degraded ''stored cycle event version is invalid'')
      else if bd_session_id p \<noteq> child_session_id
      then Err (Degraded ''child cycle binding session does not match the Chief parent session'')
      else
      and_then (load_active_cycle_for_binding env l (bd_cycle_id p) (bd_campaign_id p) (bd_challenge_id p)
          (bd_chief_lease_id p) (nat (bd_cycle_event_version p)) now_ms) (\<lambda>parent.
      and_then (load_stage_brief_issuance env l (rc_cycle_id parent) (bd_campaign_id p) (bd_challenge_id p)
          role now_ms) (\<lambda>_.
      let b = \<lparr> tb_binding_id = binding_id, tb_thread_id = child_thread_id,
                tb_parent_thread_id = Some parent_thread_id, tb_agent_id = child_agent_id,
                tb_session_id = child_session_id, tb_campaign_id = bd_campaign_id p,
                tb_challenge_id = bd_challenge_id p, tb_cycle_id = rc_cycle_id parent,
                tb_cycle_event_version = nat (bd_cycle_event_version p),
                tb_chief_lease_id = bd_chief_lease_id p, tb_role = role, tb_issued_at_ms = now_ms,
                tb_revoked_at_ms = None \<rparr>
      in and_then (insert_thread_cycle_binding l b) (\<lambda>l'. Ok (b, l'))))))"

definition resolve_thread_cycle_binding ::
  "Env \<Rightarrow> Ledger \<Rightarrow> string \<Rightarrow> string \<Rightarrow> string \<Rightarrow> string option \<Rightarrow> Role \<Rightarrow> int \<Rightarrow> LedgerError + ThreadCycleBinding" where
  "resolve_thread_cycle_binding env l thread_id agent_id session_id parent_thread_id role now_ms =
     (if list_ex is_blank [thread_id, agent_id, session_id]
      then Err (Degraded ''thread cycle lookup requires live identity'')
      else
      and_then (ok_or (fetch_optional (\<lambda>b. bd_thread_id b = thread_id \<and> bd_revoked_at_ms b = None)
                         (thread_cycle_bindings l))
          (Degraded ''thread has no active cycle binding'')) (\<lambda>r.
      if bd_agent_id r \<noteq> agent_id \<or> bd_session_id r \<noteq> session_id
      then Err (Degraded ''thread cycle binding does not match live identity, parent, or role'')
      else
      and_then (parse_role_name (bd_role r)) (\<lambda>stored_role.
      if stored_role \<noteq> role \<or> bd_parent_thread_id r \<noteq> parent_thread_id
      then Err (Degraded ''thread cycle binding does not match live identity, parent, or role'')
      else if bd_cycle_event_version r < 0 then Err (Degraded ''stored cycle event version is invalid'')
      else
      and_then (load_active_cycle_for_binding env l (bd_cycle_id r) (bd_campaign_id r) (bd_challenge_id r)
          (bd_chief_lease_id r) (nat (bd_cycle_event_version r)) now_ms) (\<lambda>_.
      and_then (if role \<noteq> Chief
                then and_then (load_stage_brief_issuance env l (bd_cycle_id r) (bd_campaign_id r)
                       (bd_challenge_id r) role now_ms) (\<lambda>_. Ok ())
                else Ok ()) (\<lambda>_.
      Ok \<lparr> tb_binding_id = bd_binding_id r, tb_thread_id = bd_thread_id r,
           tb_parent_thread_id = bd_parent_thread_id r, tb_agent_id = bd_agent_id r,
           tb_session_id = bd_session_id r, tb_campaign_id = bd_campaign_id r,
           tb_challenge_id = bd_challenge_id r, tb_cycle_id = bd_cycle_id r,
           tb_cycle_event_version = nat (bd_cycle_event_version r),
           tb_chief_lease_id = bd_chief_lease_id r, tb_role = role, tb_issued_at_ms = bd_issued_at_ms r,
           tb_revoked_at_ms = bd_revoked_at_ms r \<rparr>)))))"

definition resolve_thread_cycle_binding_for_live_thread ::
  "Env \<Rightarrow> Ledger \<Rightarrow> string \<Rightarrow> string \<Rightarrow> Role \<Rightarrow> int \<Rightarrow> LedgerError + ThreadCycleBinding" where
  "resolve_thread_cycle_binding_for_live_thread env l thread_id session_id role now_ms =
     (if is_blank thread_id \<or> is_blank session_id
      then Err (Degraded ''live thread cycle lookup requires thread and session identity'')
      else
      and_then (ok_or (fetch_optional (\<lambda>b. bd_thread_id b = thread_id \<and> bd_role b = role_name role
                         \<and> bd_revoked_at_ms b = None) (thread_cycle_bindings l))
          (Degraded ''thread has no active cycle binding'')) (\<lambda>r.
      if bd_session_id r \<noteq> session_id
      then Err (Degraded ''thread cycle binding session does not match the live thread'')
      else resolve_thread_cycle_binding env l thread_id (bd_agent_id r) session_id (bd_parent_thread_id r)
             role now_ms))"

definition revoke_thread_cycle_binding :: "Ledger \<Rightarrow> string \<Rightarrow> int \<Rightarrow> LedgerError + Ledger" where
  "revoke_thread_cycle_binding l thread_id revoked_at_ms =
     (let hit = (\<lambda>b. bd_thread_id b = thread_id \<and> bd_revoked_at_ms b = None)
      in if rows_affected hit (thread_cycle_bindings l) \<noteq> 1
         then Err (Degraded ''thread cycle binding is missing or already revoked'')
         else Ok (l\<lparr> thread_cycle_bindings := update_where hit
                (\<lambda>b. b\<lparr> bd_revoked_at_ms := Some revoked_at_ms \<rparr>) (thread_cycle_bindings l) \<rparr>))"

section \<open>Lemmas\<close>

lemma load_active_cycle_row:
  assumes "load_active_cycle_for_binding env l i camp ch lease v now = Inr cyc"
  obtains c where "c \<in> set (research_cycle_issuances l)" "cy_cycle_id c = i" "cy_campaign_id c = camp"
    "cy_challenge_id c = ch" "cy_revoked_at_ms c = None" "cy_chief_lease_id c = lease"
    "cy_cycle_event_version c = int v" "js_from_str (en_cycle env) (cy_cycle_json c) = Some cyc"
    "ResearchCycleRecord_validate cyc now = Ok ()"
  using assms
  by (auto simp: load_active_cycle_for_binding_def split: if_splits dest!: fetch_optional_SomeD)

lemma stored_cycle_doc:
  assumes "cycles_ok env l" "env_ok env" "c \<in> set (research_cycle_issuances l)"
    "js_from_str (en_cycle env) (cy_cycle_json c) = Some cyc"
  obtains issued where "cycle_doc env c issued" "same_but_floats issued cyc" "rc_cycle_id cyc = cy_cycle_id c"
proof -
  obtain issued where d: "cycle_doc env c issued"
    using assms(1,3) by (auto simp: cycles_ok_def)
  then have "same_but_floats issued cyc"
    using assms(2,4) unfolding env_ok_def cycle_reads_back_def cycle_doc_def by blast
  then show ?thesis
    using d by (intro that) (simp_all add: same_but_floats_fields cycle_doc_def)
qed

lemma resolve_binding_row:
  assumes "resolve_thread_cycle_binding env l tid aid sid parent role now = Inr b"
  obtains r cyc where "r \<in> set (thread_cycle_bindings l)" "bd_thread_id r = tid" "bd_revoked_at_ms r = None"
    "bd_agent_id r = aid" "bd_session_id r = sid" "bd_parent_thread_id r = parent" "bd_role r = role_name role"
    "0 \<le> bd_cycle_event_version r"
    "load_active_cycle_for_binding env l (bd_cycle_id r) (bd_campaign_id r) (bd_challenge_id r)
       (bd_chief_lease_id r) (nat (bd_cycle_event_version r)) now = Inr cyc"
    "role \<noteq> Chief \<Longrightarrow> \<exists>pb. load_stage_brief_issuance env l (bd_cycle_id r) (bd_campaign_id r)
       (bd_challenge_id r) role now = Inr pb"
    "tb_cycle_id b = bd_cycle_id r" "tb_campaign_id b = bd_campaign_id r" "tb_challenge_id b = bd_challenge_id r"
    "tb_role b = role" "tb_thread_id b = tid" "tb_chief_lease_id b = bd_chief_lease_id r"
  using assms
  by (auto simp: resolve_thread_cycle_binding_def role_name_roundtrip split: if_splits dest!: fetch_optional_SomeD)

lemma resolve_live_thread:
  assumes "resolve_thread_cycle_binding_for_live_thread env l tid sid role now = Inr b"
  shows "\<exists>aid parent. resolve_thread_cycle_binding env l tid aid sid parent role now = Inr b"
  using assms by (auto simp: resolve_thread_cycle_binding_for_live_thread_def split: if_splits)

lemma insert_thread_cycle_binding_step:
  assumes "insert_thread_cycle_binding l b = Inr l'"
    and "leases_ok env (actor_leases l) \<and> cycles_ok env l \<Longrightarrow>
      \<exists>c \<in> set (research_cycle_issuances l). binding_of c (binding_row b (int (tb_cycle_event_version b)))
        \<and> lineage_ok (thread_cycle_bindings l @ [binding_row b (int (tb_cycle_event_version b))])"
  shows "cycle_step env l l'"
proof -
  obtain t where t: "insert_row binding_clash (binding_row b (int (tb_cycle_event_version b))) (thread_cycle_bindings l) = Inr t"
      "l' = l\<lparr> thread_cycle_bindings := t \<rparr>"
    using assms(1) by (auto simp: insert_thread_cycle_binding_def split: if_splits)
  then have "cycle_frame (l\<lparr> coordination_events := coordination_events l \<rparr>) l'"
    by (simp add: cycle_frame_def)
  then show ?thesis
    using assms(2) insert_binding_ok [OF t(1)] t unfolding cycle_step_def
    by (intro conjI exI [of _ "coordination_events l"]) auto
qed

lemma bind_root_step:
  assumes "bind_root_thread_to_cycle env l chief i v bid now = Inr (b, l')" "env_ok env"
  shows "cycle_step env l l'"
proof -
  obtain cyc where cyc: "load_active_cycle_for_binding env l i (cx_campaign_id chief) (cx_challenge_id chief)
          (le_lease_id (cx_lease chief)) v now = Inr cyc"
    and b: "b = \<lparr> tb_binding_id = bid, tb_thread_id = cx_thread_id chief, tb_parent_thread_id = None,
                tb_agent_id = cx_agent_id chief, tb_session_id = cx_session_id chief,
                tb_campaign_id = cx_campaign_id chief, tb_challenge_id = cx_challenge_id chief,
                tb_cycle_id = rc_cycle_id cyc, tb_cycle_event_version = v,
                tb_chief_lease_id = le_lease_id (cx_lease chief), tb_role = Chief,
                tb_issued_at_ms = now, tb_revoked_at_ms = None \<rparr>"
    and ins: "insert_thread_cycle_binding l b = Inr l'"
    using assms(1) by (auto simp: bind_root_thread_to_cycle_def Let_def split: if_splits)
  from ins show ?thesis
  proof (rule insert_thread_cycle_binding_step)
    assume ok: "leases_ok env (actor_leases l) \<and> cycles_ok env l"
    from cyc obtain c where c: "c \<in> set (research_cycle_issuances l)" "cy_cycle_id c = i"
        "cy_campaign_id c = cx_campaign_id chief" "cy_challenge_id c = cx_challenge_id chief"
        "cy_revoked_at_ms c = None" "cy_chief_lease_id c = le_lease_id (cx_lease chief)"
        "cy_cycle_event_version c = int v" "js_from_str (en_cycle env) (cy_cycle_json c) = Some cyc"
      by (rule load_active_cycle_row)
    have "rc_cycle_id cyc = i"
      using ok c(2) by (elim stored_cycle_doc [OF conjunct2 assms(2) c(1,8)]) simp
    then have "binding_of c (binding_row b (int (tb_cycle_event_version b)))"
      using c b by (simp add: binding_of_def binding_row_def)
    moreover have "lineage_ok (thread_cycle_bindings l @ [binding_row b (int (tb_cycle_event_version b))])"
      using ok b by (intro lineage_ok_insert) (auto simp: cycles_ok_def binding_row_def)
    ultimately show "\<exists>c \<in> set (research_cycle_issuances l). binding_of c (binding_row b (int (tb_cycle_event_version b)))
        \<and> lineage_ok (thread_cycle_bindings l @ [binding_row b (int (tb_cycle_event_version b))])"
      using c(1) by blast
  qed
qed

lemma role_name_inj [simp]: "role_name r = role_name r' \<longleftrightarrow> r = r'"
  using role_name_roundtrip [of "role_name r" r] role_name_roundtrip [of "role_name r'" r'] by (metis sum.inject(2))

lemma bind_child_step:
  assumes "bind_child_thread_to_cycle env l parent tid aid sid role bid now = Inr (b, l')" "env_ok env"
  shows "cycle_step env l l'"
proof -
  obtain p cyc where p: "p \<in> set (thread_cycle_bindings l)" "bd_thread_id p = parent" "bd_role p = role_name Chief"
      "bd_session_id p = sid" "0 \<le> bd_cycle_event_version p"
    and cyc: "load_active_cycle_for_binding env l (bd_cycle_id p) (bd_campaign_id p) (bd_challenge_id p)
          (bd_chief_lease_id p) (nat (bd_cycle_event_version p)) now = Inr cyc"
    and b: "b = \<lparr> tb_binding_id = bid, tb_thread_id = tid, tb_parent_thread_id = Some parent, tb_agent_id = aid,
                tb_session_id = sid, tb_campaign_id = bd_campaign_id p,
                tb_challenge_id = bd_challenge_id p, tb_cycle_id = rc_cycle_id cyc,
                tb_cycle_event_version = nat (bd_cycle_event_version p),
                tb_chief_lease_id = bd_chief_lease_id p, tb_role = role, tb_issued_at_ms = now,
                tb_revoked_at_ms = None \<rparr>"
    and role: "role \<noteq> Chief" "aid = tid"
    and ins: "insert_thread_cycle_binding l b = Inr l'"
    using assms(1)
    by (auto simp: bind_child_thread_to_cycle_def Let_def split: if_splits dest!: fetch_optional_SomeD)
  from ins show ?thesis
  proof (rule insert_thread_cycle_binding_step)
    assume ok: "leases_ok env (actor_leases l) \<and> cycles_ok env l"
    from cyc obtain c where c: "c \<in> set (research_cycle_issuances l)" "cy_cycle_id c = bd_cycle_id p"
        "cy_campaign_id c = bd_campaign_id p" "cy_challenge_id c = bd_challenge_id p"
        "cy_revoked_at_ms c = None" "cy_chief_lease_id c = bd_chief_lease_id p"
        "cy_cycle_event_version c = int (nat (bd_cycle_event_version p))"
        "js_from_str (en_cycle env) (cy_cycle_json c) = Some cyc"
      by (rule load_active_cycle_row)
    have same: "rc_cycle_id cyc = bd_cycle_id p"
      using ok c(2) by (elim stored_cycle_doc [OF conjunct2 assms(2) c(1,8)]) simp
    then have "binding_of c (binding_row b (int (tb_cycle_event_version b)))"
      using c b by (simp add: binding_of_def binding_row_def)
    moreover have "bd_parent_thread_id p = None"
      using ok p(1,3) unfolding cycles_ok_def lineage_ok_def by blast
    then have "child_of (binding_row b (int (tb_cycle_event_version b))) p"
      using p b same by (simp add: child_of_def binding_row_def)
    then have "lineage_ok (thread_cycle_bindings l @ [binding_row b (int (tb_cycle_event_version b))])"
      using ok b p(1) role by (intro lineage_ok_insert) (auto simp: cycles_ok_def binding_row_def)
    ultimately show "\<exists>c \<in> set (research_cycle_issuances l). binding_of c (binding_row b (int (tb_cycle_event_version b)))
        \<and> lineage_ok (thread_cycle_bindings l @ [binding_row b (int (tb_cycle_event_version b))])"
      using c(1) by blast
  qed
qed

lemma revoke_binding_step:
  assumes "revoke_thread_cycle_binding l tid m = Inr l'"
  shows "cycle_step env l l'"
proof -
  let ?h = "\<lambda>b. bd_thread_id b = tid \<and> bd_revoked_at_ms b = None"
  let ?f = "\<lambda>b :: BindingRow. b\<lparr> bd_revoked_at_ms := Some m \<rparr>"
  have l': "l' = l\<lparr> thread_cycle_bindings := update_where ?h ?f (thread_cycle_bindings l) \<rparr>"
    using assms by (auto simp: revoke_thread_cycle_binding_def Let_def split: if_splits)
  have "binding_of c (?f b)" if "binding_of c b" for c b
    using that by (simp add: binding_of_def)
  then have "\<exists>c \<in> set (research_cycle_issuances l). binding_of c b"
    if "cycles_ok env l" "b \<in> set (update_where ?h ?f (thread_cycle_bindings l))" for b
    using that unfolding cycles_ok_def set_update_where by (auto, metis)
  then have "cycles_ok env l'" if "cycles_ok env l"
    using that lineage_ok_revoke binding_table.consistent_revoke unfolding cycles_ok_def l' by simp
  moreover have "binding_table.evolves (thread_cycle_bindings l) (update_where ?h ?f (thread_cycle_bindings l))"
    by (rule binding_table.evolves_revoke) simp
  then have "cycle_evolves l l'"
    by (simp add: cycle_evolves_def l' cycle_table.evolves_refl brief_table.evolves_refl)
  moreover have "cycle_frame (l\<lparr> coordination_events := coordination_events l \<rparr>) l'"
    by (simp add: cycle_frame_def l')
  ultimately show ?thesis
    unfolding cycle_step_def by blast
qed

end
