(* ===== verification/ObservationLedger.thy ===== *)
theory ObservationLedger
  imports LeaseRegistry
begin

text \<open>
  Evidence in the ledger: recovery canaries (\<open>record_recovery_canary\<close>, \<open>load_recovery_canary\<close>),
  platform observations (\<open>record_platform_observation_audited\<close>, \<open>load_latest_platform_observation\<close>)
  and leaderboard confirmations (\<open>record_leaderboard_confirmation_audited\<close>,
  \<open>load_leaderboard_confirmation\<close>).
\<close>

text \<open>
  An audited operation whose result is read from the replayed row: \<open>audited\<close> with a value.
\<close>

definition audited_with ::
  "Ledger \<Rightarrow> CoordinationEventRecord \<Rightarrow> (nat \<Rightarrow> Ledger \<Rightarrow> LedgerError + 'a) \<Rightarrow>
   (nat \<Rightarrow> Ledger \<Rightarrow> LedgerError + 'a \<times> Ledger) \<Rightarrow> LedgerError + 'a \<times> Ledger" where
  "audited_with l e replay change =
     and_then (append_event_in_transaction l e) (\<lambda>(a, l1).
       if ae_replayed a then and_then (replay (ae_version a) l1) (\<lambda>x. Ok (x, l1))
       else change (ae_version a) l1)"

lemma audited_with_cases:
  assumes "audited_with l e replay change = Inr (x, l')"
  obtains (replayed) a where "append_event_in_transaction l e = Inr (a, l)" "ae_replayed a" "l' = l"
      "replay (ae_version a) l = Ok x"
  | (fresh) a l1 where "append_event_in_transaction l e = Inr (a, l1)" "\<not> ae_replayed a"
      "l1 = l\<lparr> coordination_events := coordination_events l @ [event_row e (int (ae_version a))] \<rparr>"
      "change (ae_version a) l1 = Inr (x, l')"
proof -
  obtain a l1 where a: "append_event_in_transaction l e = Inr (a, l1)"
    using assms by (auto simp: audited_with_def)
  show ?thesis
  proof (cases "ae_replayed a")
    case True
    then have "l1 = l" using append_event_frame [OF a] by auto
    then show ?thesis using assms a True by (intro replayed [of a]) (auto simp: audited_with_def)
  next
    case False
    then show ?thesis
      using assms a append_event_frame [OF a] by (intro fresh [of a l1]) (auto simp: audited_with_def)
  qed
qed

lemma audited_with_log:
  assumes "audited_with l e replay change = Inr (x, l')"
    and "\<And>v l1 x l2. change v l1 = Inr (x, l2) \<Longrightarrow> coordination_events l2 = coordination_events l1"
  shows "\<exists>a l1. append_event_in_transaction l e = Inr (a, l1) \<and> coordination_events l' = coordination_events l1"
  using assms(1) by (cases rule: audited_with_cases) (use assms(2) in blast)+

section \<open>Recovery canaries\<close>

record PersistedRecoveryCanary =
  pc_recovery_id :: string
  pc_runtime_instance_id :: string
  pc_recovery_attempt :: nat
  pc_trace :: RecoveryCanaryTrace
  pc_trace_sha256 :: string
  pc_recorded_at_ms :: int

definition persisted_recovery_canary_from_row :: "Env \<Rightarrow> CanaryRow \<Rightarrow> int \<Rightarrow> LedgerError + PersistedRecoveryCanary" where
  "persisted_recovery_canary_from_row env r now_ms =
     (if sha256_bytes (en_sha256 env) (cn_trace_json r) \<noteq> cn_trace_sha256 r
      then Err (Degraded ''recovery canary hash does not match'')
      else
      and_then (ok_or (js_from_str (en_trace env) (cn_trace_json r))
          (DegradedExternal ''stored recovery canary is invalid JSON: '')) (\<lambda>trace.
      if cn_recovery_attempt r < 0 then Err (Degraded ''stored recovery attempt is invalid'')
      else if tr_recovery_id trace \<noteq> cn_recovery_id r \<or> tr_runtime_instance_id trace \<noteq> cn_runtime_instance_id r
              \<or> tr_recovery_attempt trace \<noteq> nat (cn_recovery_attempt r)
              \<or> \<not> rehydration_allowed (en_sha256 env) trace now_ms
      then Err (Degraded ''stored recovery canary is stale, incomplete, or misbound'')
      else Ok \<lparr> pc_recovery_id = cn_recovery_id r, pc_runtime_instance_id = cn_runtime_instance_id r,
                pc_recovery_attempt = nat (cn_recovery_attempt r), pc_trace = trace,
                pc_trace_sha256 = cn_trace_sha256 r, pc_recorded_at_ms = cn_recorded_at_ms r \<rparr>))"

definition insert_canary ::
  "Env \<Rightarrow> RecoveryCanaryTrace \<Rightarrow> string \<Rightarrow> int \<Rightarrow> CoordinationEventRecord \<Rightarrow> nat \<Rightarrow> Ledger \<Rightarrow>
   LedgerError + PersistedRecoveryCanary \<times> Ledger" where
  "insert_canary env trace trace_json now_ms event v l =
     and_then (insert_row canary_clash
         \<lparr> cn_recovery_id = tr_recovery_id trace, cn_event_id = cr_event_id event,
           cn_runtime_instance_id = tr_runtime_instance_id trace,
           cn_recovery_attempt = int (tr_recovery_attempt trace), cn_trace_json = trace_json,
           cn_trace_sha256 = sha256_bytes (en_sha256 env) trace_json, cn_recorded_at_ms = now_ms \<rparr>
         (recovery_canaries l)) (\<lambda>t.
     Ok (\<lparr> pc_recovery_id = tr_recovery_id trace, pc_runtime_instance_id = tr_runtime_instance_id trace,
           pc_recovery_attempt = tr_recovery_attempt trace, pc_trace = trace,
           pc_trace_sha256 = sha256_bytes (en_sha256 env) trace_json, pc_recorded_at_ms = now_ms \<rparr>,
         l\<lparr> recovery_canaries := t \<rparr>))"

definition record_recovery_canary ::
  "Env \<Rightarrow> Ledger \<Rightarrow> RecoveryCanaryTrace \<Rightarrow> int \<Rightarrow> CoordinationEventRecord \<Rightarrow>
   LedgerError + PersistedRecoveryCanary \<times> Ledger" where
  "record_recovery_canary env l trace now_ms event =
     (if \<not> rehydration_allowed (en_sha256 env) trace now_ms
      then Err (Degraded ''recovery canary has not completed the isolated two-turn probe'')
      else
      and_then (ok_or (js_to_string (en_trace env) trace)
          (DegradedExternal ''cannot serialize recovery canary: '')) (\<lambda>trace_json.
      if i64_max < int (tr_recovery_attempt trace) then Err (Degraded ''recovery attempt overflow'')
      else if cr_aggregate_type event \<noteq> ''recovery'' \<or> cr_aggregate_id event \<noteq> tr_recovery_id trace
              \<or> cr_event_type event \<noteq> ''recovery_canary_passed'' \<or> cr_payload_json event \<noteq> trace_json
              \<or> cr_occurred_at_ms event \<noteq> now_ms
      then Err (Degraded ''recovery canary event is not bound to the typed trace'')
      else audited_with l event
        (\<lambda>v l1. and_then (ok_or (fetch_optional (\<lambda>r. cn_recovery_id r = tr_recovery_id trace) (recovery_canaries l1))
                (Degraded ''replayed recovery canary is missing'')) (\<lambda>r.
           and_then (persisted_recovery_canary_from_row env r now_ms) (\<lambda>existing.
           if pc_trace existing \<noteq> trace \<or> pc_recorded_at_ms existing \<noteq> now_ms \<or> cn_event_id r \<noteq> cr_event_id event
           then Err (Degraded ''replayed canary conflicts with persisted evidence'')
           else Ok existing)))
        (insert_canary env trace trace_json now_ms event)))"

definition load_recovery_canary_row ::
  "Env \<Rightarrow> Ledger \<Rightarrow> string \<Rightarrow> string \<Rightarrow> int \<Rightarrow> LedgerError + PersistedRecoveryCanary" where
  "load_recovery_canary_row env l recovery_id runtime_instance_id now_ms =
     and_then (ok_or (fetch_optional (\<lambda>r. cn_recovery_id r = recovery_id
                        \<and> cn_runtime_instance_id r = runtime_instance_id) (recovery_canaries l))
         (Degraded ''recovery canary is not registered''))
       (\<lambda>r. persisted_recovery_canary_from_row env r now_ms)"

definition load_recovery_canary ::
  "Env \<Rightarrow> Ledger \<Rightarrow> string \<Rightarrow> string \<Rightarrow> int \<Rightarrow> LedgerError + PersistedRecoveryCanary" where
  "load_recovery_canary env l recovery_id runtime_instance_id now_ms =
     (if is_blank recovery_id \<or> is_blank runtime_instance_id
      then Err (Degraded ''recovery canary lookup requires recovery and runtime instance ids'')
      else load_recovery_canary_row env l recovery_id runtime_instance_id now_ms)"

section \<open>Platform observations\<close>

record PersistedPlatformObservation =
  pp_observation_id :: string
  pp_campaign_id :: string
  pp_challenge_id :: string
  pp_attempt_id :: string
  pp_monitor_lease_id :: string
  pp_observation :: PlatformObservation
  pp_observation_sha256 :: string
  pp_event_version :: nat

definition persisted_platform_observation_from_row ::
  "Env \<Rightarrow> ObservationRow \<Rightarrow> LedgerError + PersistedPlatformObservation" where
  "persisted_platform_observation_from_row env r =
     (if sha256_bytes (en_sha256 env) (ob_observation_json r) \<noteq> ob_observation_sha256 r
      then Err (Degraded ''platform observation hash does not match'')
      else
      and_then (ok_or (js_from_str (en_observation env) (ob_observation_json r))
          (DegradedExternal ''stored platform observation is invalid JSON: '')) (\<lambda>observation.
      if ob_event_version r < 0 then Err (Degraded ''stored observation event version is invalid'')
      else Ok \<lparr> pp_observation_id = ob_observation_id r, pp_campaign_id = ob_campaign_id r,
                pp_challenge_id = ob_challenge_id r, pp_attempt_id = ob_attempt_id r,
                pp_monitor_lease_id = ob_monitor_lease_id r, pp_observation = observation,
                pp_observation_sha256 = ob_observation_sha256 r,
                pp_event_version = nat (ob_event_version r) \<rparr>))"

definition load_platform_observation_row ::
  "Env \<Rightarrow> Ledger \<Rightarrow> string \<Rightarrow> string \<Rightarrow> string \<Rightarrow> string \<Rightarrow> string \<Rightarrow> nat \<Rightarrow>
   LedgerError + PersistedPlatformObservation" where
  "load_platform_observation_row env l event_id observation_id observation_json observation_sha256
       monitor_lease_id event_version =
     and_then (ok_or (fetch_optional (\<lambda>r. ob_event_id r = event_id) (platform_observations l))
         (Degraded ''replayed platform observation is missing'')) (\<lambda>r.
     if ob_observation_id r \<noteq> observation_id \<or> ob_observation_json r \<noteq> observation_json
        \<or> ob_observation_sha256 r \<noteq> observation_sha256 \<or> ob_monitor_lease_id r \<noteq> monitor_lease_id
     then Err (Degraded ''replayed platform observation does not match stored state'')
     else if ob_event_version r < 0 then Err (Degraded ''stored observation event version is invalid'')
     else if nat (ob_event_version r) \<noteq> event_version
     then Err (Degraded ''replayed platform observation does not match stored state'')
     else persisted_platform_observation_from_row env r)"

definition bound_monitor :: "ActorContext \<Rightarrow> bool" where
  "bound_monitor cx \<longleftrightarrow> cx_role cx = Monitor \<and> \<not> is_blank (cx_campaign_id cx) \<and> \<not> is_blank (cx_challenge_id cx)"

definition registered_monitor :: "Env \<Rightarrow> Ledger \<Rightarrow> ActorContext \<Rightarrow> LedgerError + unit" where
  "registered_monitor env l monitor =
     and_then (ok_or (fetch_optional (\<lambda>r. lw_lease_id r = le_lease_id (cx_lease monitor)) (actor_leases l))
         (Degraded ''monitor lease is not registered'')) (\<lambda>r.
     if lw_revoked_at_ms r \<noteq> None \<or> lw_role r \<noteq> role_name Monitor
     then Err (Degraded ''monitor lease is revoked or belongs to another role'')
     else
     and_then (ok_or (js_from_str (en_context env) (lw_context_json r))
         (DegradedExternal ''stored monitor context is invalid: '')) (\<lambda>stored_context.
     fail_if (stored_context \<noteq> monitor) (Degraded ''monitor context does not match the registered lease'')))"

definition insert_observation ::
  "Env \<Rightarrow> ActorContext \<Rightarrow> PlatformObservation \<Rightarrow> string \<Rightarrow> CoordinationEventRecord \<Rightarrow> nat \<Rightarrow> Ledger \<Rightarrow>
   LedgerError + PersistedPlatformObservation \<times> Ledger" where
  "insert_observation env monitor observation observation_json event v l =
     (let observation_sha256 = sha256_bytes (en_sha256 env) observation_json;
          observation_id = ''observation:'' @ po_attempt_id observation @ '':'' @ po_response_sha256 observation
      in if i64_max < int v then Err (Degraded ''platform observation event version overflow'')
         else
      and_then (insert_row observation_clash
          \<lparr> ob_observation_id = observation_id, ob_event_id = cr_event_id event,
            ob_campaign_id = cx_campaign_id monitor, ob_challenge_id = cx_challenge_id monitor,
            ob_attempt_id = po_attempt_id observation,
            ob_monitor_lease_id = le_lease_id (cx_lease monitor),
            ob_observation_json = observation_json, ob_observation_sha256 = observation_sha256,
            ob_response_sha256 = po_response_sha256 observation,
            ob_observed_at_ms = po_observed_at_ms observation, ob_event_version = int v \<rparr>
          (platform_observations l)) (\<lambda>t.
      Ok (\<lparr> pp_observation_id = observation_id, pp_campaign_id = cx_campaign_id monitor,
            pp_challenge_id = cx_challenge_id monitor, pp_attempt_id = po_attempt_id observation,
            pp_monitor_lease_id = le_lease_id (cx_lease monitor), pp_observation = observation,
            pp_observation_sha256 = observation_sha256, pp_event_version = v \<rparr>,
          l\<lparr> platform_observations := t \<rparr>)))"

definition record_platform_observation_audited ::
  "Env \<Rightarrow> Ledger \<Rightarrow> ActorContext \<Rightarrow> PlatformObservation \<Rightarrow> int \<Rightarrow> CoordinationEventRecord \<Rightarrow>
   LedgerError + PersistedPlatformObservation \<times> Ledger" where
  "record_platform_observation_audited env l monitor observation now_ms event =
     (if \<not> bound_monitor monitor then Err (Degraded ''platform observation requires a bound Monitor context'')
      else
      and_then (map_err (DegradedBy ''monitor lease validation failed: '')
          (ActorContext_validate monitor MonitorReadOnly now_ms)) (\<lambda>_.
      and_then (map_err (DegradedBy ''invalid platform observation: '')
          (PlatformObservation_validate observation (cx_challenge_id monitor) now_ms)) (\<lambda>_.
      and_then (ok_or (js_to_string (en_observation env) observation)
          (DegradedExternal ''cannot serialize platform observation: '')) (\<lambda>observation_json.
      let observation_sha256 = sha256_bytes (en_sha256 env) observation_json;
          observation_id = ''observation:'' @ po_attempt_id observation @ '':'' @ po_response_sha256 observation
      in if cr_aggregate_type event \<noteq> ''campaign'' \<or> cr_aggregate_id event \<noteq> cx_campaign_id monitor
            \<or> cr_event_type event \<noteq> ''platform_observation_recorded'' \<or> cr_payload_json event \<noteq> observation_json
            \<or> cr_occurred_at_ms event \<noteq> now_ms
         then Err (Degraded ''platform observation event is not bound to the typed observation'')
         else
      and_then (registered_monitor env l monitor) (\<lambda>_.
      audited_with l event
        (\<lambda>v l1. load_platform_observation_row env l1 (cr_event_id event) observation_id observation_json
                  observation_sha256 (le_lease_id (cx_lease monitor)) v)
        (insert_observation env monitor observation observation_json event))))))"

text \<open>\<open>ORDER BY observed_at_ms DESC, event_version DESC LIMIT 1\<close>.\<close>

fun latest_row :: "ObservationRow list \<Rightarrow> ObservationRow option" where
  "latest_row [] = None"
| "latest_row (r # rs) =
     (case latest_row rs of
        None \<Rightarrow> Some r
      | Some x \<Rightarrow>
          if ob_observed_at_ms r < ob_observed_at_ms x
             \<or> ob_observed_at_ms r = ob_observed_at_ms x \<and> ob_event_version r < ob_event_version x
          then Some x else Some r)"

definition load_latest_platform_observation ::
  "Env \<Rightarrow> Ledger \<Rightarrow> string \<Rightarrow> string \<Rightarrow> LedgerError + PersistedPlatformObservation" where
  "load_latest_platform_observation env l ch attempt_id =
     (if is_blank ch \<or> is_blank attempt_id
      then Err (Degraded ''platform observation lookup requires challenge and attempt ids'')
      else
      and_then (ok_or (latest_row (filter (\<lambda>r. ob_challenge_id r = ch \<and> ob_attempt_id r = attempt_id)
                         (platform_observations l)))
          (Degraded ''platform observation is not registered''))
        (persisted_platform_observation_from_row env))"

section \<open>Leaderboard confirmations\<close>

datatype ConfirmationState = Confirmed | UnknownNeedsReconcile

record PersistedLeaderboardConfirmation =
  pl_confirmation_id :: string
  pl_request :: LeaderboardConfirmation
  pl_state :: ConfirmationState
  pl_recorded_at_ms :: int
  pl_event_version :: "nat option"

definition CONFIRMATION_STATES :: "string list" where
  "CONFIRMATION_STATES = [''confirmed'', ''unknown_needs_reconcile'']"

definition record_leaderboard_confirmation_audited ::
  "Env \<Rightarrow> Ledger \<Rightarrow> ActorContext \<Rightarrow> LeaderboardConfirmation \<Rightarrow> int \<Rightarrow> CoordinationEventRecord \<Rightarrow>
   LedgerError + nat \<times> Ledger" where
  "record_leaderboard_confirmation_audited env l monitor c now_ms event =
     (if \<not> bound_monitor monitor
      then Err (Degraded ''leaderboard confirmation requires a bound Monitor context'')
      else if lc_schema_version c \<noteq> ''ascodex-leaderboard-confirmation/v1''
         \<or> list_ex is_blank [lc_confirmation_id c, lc_attempt_id c, lc_owner c, lc_response_sha256 c]
         \<or> lc_state c \<notin> set CONFIRMATION_STATES
      then Err (Degraded ''leaderboard confirmation is missing required fields or has an invalid state'')
      else if cr_aggregate_type event \<noteq> ''leaderboard_confirmation''
         \<or> cr_aggregate_id event \<noteq> lc_confirmation_id c
         \<or> cr_event_type event \<noteq> ''leaderboard_confirmation_recorded'' \<or> cr_occurred_at_ms event \<noteq> now_ms
      then Err (Degraded ''leaderboard confirmation event is not bound to the confirmation'')
      else
      and_then (ok_or (js_to_string (en_confirmation env) c)
          (DegradedExternal ''cannot serialize leaderboard confirmation: '')) (\<lambda>confirmation_json.
      audited l event
        (\<lambda>v l1. and_then (ok_or (fetch_optional (\<lambda>r. cf_confirmation_id r = lc_confirmation_id c)
                   (leaderboard_confirmations l1))
                (Degraded ''replayed leaderboard confirmation is missing its stored row'')) (\<lambda>r.
           fail_if (cf_confirmation_json r \<noteq> confirmation_json \<or> cf_state r \<notin> set CONFIRMATION_STATES)
             (Degraded ''replayed leaderboard confirmation does not match the stored row'')))
        (\<lambda>v l1. if i64_max < int v then Err (Degraded ''leaderboard confirmation event version overflow'')
           else and_then (insert_row confirmation_clash
             \<lparr> cf_confirmation_id = lc_confirmation_id c, cf_attempt_id = lc_attempt_id c,
               cf_owner = lc_owner c, cf_confirmation_json = confirmation_json,
               cf_confirmation_sha256 = sha256_bytes (en_sha256 env) confirmation_json,
               cf_state = lc_state c, cf_recorded_at_ms = now_ms, cf_event_version = int v \<rparr>
             (leaderboard_confirmations l1)) (\<lambda>t. Ok (l1\<lparr> leaderboard_confirmations := t \<rparr>)))))"

definition load_leaderboard_confirmation ::
  "Env \<Rightarrow> Ledger \<Rightarrow> string \<Rightarrow> LedgerError + PersistedLeaderboardConfirmation option" where
  "load_leaderboard_confirmation env l confirmation_id =
     (case fetch_optional (\<lambda>r. cf_confirmation_id r = confirmation_id) (leaderboard_confirmations l) of
        None \<Rightarrow> Ok None
      | Some r \<Rightarrow>
          if sha256_bytes (en_sha256 env) (cf_confirmation_json r) \<noteq> cf_confirmation_sha256 r
          then Err (Degraded ''stored leaderboard confirmation hash does not match'')
          else
          and_then (ok_or (js_from_str (en_confirmation env) (cf_confirmation_json r))
              (DegradedExternal ''stored leaderboard confirmation is invalid JSON: '')) (\<lambda>c.
          and_then (if cf_state r = ''confirmed'' then Ok ConfirmationState.Confirmed
                    else if cf_state r = ''unknown_needs_reconcile'' then Ok ConfirmationState.UnknownNeedsReconcile
                    else Err (Degraded ''stored leaderboard confirmation state is invalid'')) (\<lambda>state.
          if cf_event_version r < 0 then Err (Degraded ''stored confirmation event version is invalid'')
          else Ok (Some \<lparr> pl_confirmation_id = confirmation_id, pl_request = c, pl_state = state,
                          pl_recorded_at_ms = cf_recorded_at_ms r,
                          pl_event_version = Some (nat (cf_event_version r)) \<rparr>))))"

section \<open>What the operations add\<close>

lemma record_recovery_canary_cases:
  assumes "record_recovery_canary env l trace now event = Inr (p, l')"
  obtains (replayed) "l' = l"
  | (recorded) v json l1 where "rehydration_allowed (en_sha256 env) trace now"
      "js_to_string (en_trace env) trace = Some json"
      "l1 = l\<lparr> coordination_events := coordination_events l @ [event_row event (int v)] \<rparr>"
      "insert_canary env trace json now event v l1 = Inr (p, l')"
proof -
  have allowed: "rehydration_allowed (en_sha256 env) trace now"
    using assms by (auto simp: record_recovery_canary_def split: if_splits)
  obtain json replay where json: "js_to_string (en_trace env) trace = Some json"
    and audit: "audited_with l event replay (insert_canary env trace json now event) = Inr (p, l')"
    using assms by (auto simp: record_recovery_canary_def split: if_splits)
  from audit show ?thesis
    by (cases rule: audited_with_cases) (use allowed json that in blast)+
qed

lemma record_platform_observation_cases:
  assumes "record_platform_observation_audited env l monitor ob now event = Inr (p, l')"
  obtains (replayed) "l' = l"
  | (recorded) v json l1 where "cx_role monitor = Monitor" "ActorContext_validate monitor MonitorReadOnly now = Ok ()"
      "PlatformObservation_validate ob (cx_challenge_id monitor) now = Ok ()"
      "registered_monitor env l monitor = Ok ()"
      "js_to_string (en_observation env) ob = Some json" "cr_aggregate_type event = ''campaign''"
      "cr_aggregate_id event = cx_campaign_id monitor" "cr_event_type event = ''platform_observation_recorded''"
      "cr_payload_json event = json"
      "l1 = l\<lparr> coordination_events := coordination_events l @ [event_row event (int v)] \<rparr>"
      "insert_observation env monitor ob json event v l1 = Inr (p, l')"
proof -
  obtain json replay where guards: "cx_role monitor = Monitor" "ActorContext_validate monitor MonitorReadOnly now = Ok ()"
      "PlatformObservation_validate ob (cx_challenge_id monitor) now = Ok ()"
      "registered_monitor env l monitor = Ok ()"
      "js_to_string (en_observation env) ob = Some json" "cr_aggregate_type event = ''campaign''"
      "cr_aggregate_id event = cx_campaign_id monitor" "cr_event_type event = ''platform_observation_recorded''"
      "cr_payload_json event = json"
    and audit: "audited_with l event replay (insert_observation env monitor ob json event) = Inr (p, l')"
    using assms by (auto simp: record_platform_observation_audited_def bound_monitor_def Let_def split: if_splits)
  from audit show ?thesis
    by (cases rule: audited_with_cases) (use guards that in blast)+
qed

lemma record_recovery_canary_log:
  assumes "record_recovery_canary env l trace now event = Inr (p, l')"
  shows "\<exists>a l1. append_event_in_transaction l event = Inr (a, l1) \<and> coordination_events l' = coordination_events l1"
  using assms
  by (auto simp: record_recovery_canary_def insert_canary_def split: if_splits dest!: audited_with_log)

lemma record_platform_observation_log:
  assumes "record_platform_observation_audited env l monitor ob now event = Inr (p, l')"
  shows "\<exists>a l1. append_event_in_transaction l event = Inr (a, l1) \<and> coordination_events l' = coordination_events l1"
  using assms
  by (auto simp: record_platform_observation_audited_def insert_observation_def Let_def split: if_splits
      dest!: audited_with_log)

section \<open>The evidence invariants\<close>

text \<open>
  Every stored canary was allowed to rehydrate when it was recorded, and there is one per process
  instance and attempt; every stored observation was recorded by a registered monitor of its campaign
  and challenge and is the payload of its campaign event.
\<close>

definition canary_doc :: "Env \<Rightarrow> CanaryRow \<Rightarrow> RecoveryCanaryTrace \<Rightarrow> bool" where
  "canary_doc env r trace \<longleftrightarrow>
     js_to_string (en_trace env) trace = Some (cn_trace_json r)
     \<and> cn_trace_sha256 r = sha256_bytes (en_sha256 env) (cn_trace_json r)
     \<and> tr_recovery_id trace = cn_recovery_id r \<and> tr_runtime_instance_id trace = cn_runtime_instance_id r
     \<and> int (tr_recovery_attempt trace) = cn_recovery_attempt r
     \<and> rehydration_allowed (en_sha256 env) trace (cn_recorded_at_ms r)"

definition canaries_ok :: "Env \<Rightarrow> CanaryRow list \<Rightarrow> bool" where
  "canaries_ok env t \<longleftrightarrow> canary_table.consistent t \<and> (\<forall>r \<in> set t. \<exists>trace. canary_doc env r trace)"

definition observation_doc :: "Env \<Rightarrow> Ledger \<Rightarrow> ObservationRow \<Rightarrow> bool" where
  "observation_doc env l r \<longleftrightarrow>
     ob_observation_sha256 r = sha256_bytes (en_sha256 env) (ob_observation_json r)
     \<and> in_log (coordination_events l) (ob_event_id r) ''campaign'' (ob_campaign_id r)
          ''platform_observation_recorded'' (ob_event_version r)
     \<and> (\<exists>x \<in> set (actor_leases l). lw_lease_id x = ob_monitor_lease_id r \<and> lw_role x = role_name Monitor
          \<and> lw_campaign_id x = ob_campaign_id r \<and> lw_challenge_id x = ob_challenge_id r)
     \<and> (\<exists>ob. js_to_string (en_observation env) ob = Some (ob_observation_json r)
          \<and> po_attempt_id ob = ob_attempt_id r \<and> po_challenge_id ob = ob_challenge_id r)"

definition observations_ok :: "Env \<Rightarrow> Ledger \<Rightarrow> bool" where
  "observations_ok env l \<longleftrightarrow> observation_table.consistent (platform_observations l)
     \<and> (\<forall>r \<in> set (platform_observations l). observation_doc env l r)"

lemma insert_canary_ok:
  assumes "insert_canary env trace json now event v l = Inr (p, l')" "canaries_ok env (recovery_canaries l)"
    and "js_to_string (en_trace env) trace = Some json" "rehydration_allowed (en_sha256 env) trace now"
  shows "canaries_ok env (recovery_canaries l')"
proof -
  obtain r where r: "insert_row canary_clash r (recovery_canaries l) = Inr (recovery_canaries l')"
      "recovery_canaries l' = recovery_canaries l @ [r]" "canary_doc env r trace"
    using assms(1,3,4) by (auto simp: insert_canary_def canary_doc_def)
  then show ?thesis
    using assms(2) canary_table.consistent_insert unfolding canaries_ok_def by auto
qed

lemma registered_monitor_row:
  assumes "registered_monitor env l monitor = Inr u" "leases_ok env (actor_leases l)" "json_roundtrip (en_context env)"
  shows "\<exists>x \<in> set (actor_leases l). lw_lease_id x = le_lease_id (cx_lease monitor) \<and> lw_role x = role_name Monitor
          \<and> lw_campaign_id x = cx_campaign_id monitor \<and> lw_challenge_id x = cx_challenge_id monitor
          \<and> lw_revoked_at_ms x = None"
proof -
  obtain x where x: "x \<in> set (actor_leases l)" "lw_lease_id x = le_lease_id (cx_lease monitor)"
      "lw_role x = role_name Monitor" "lw_revoked_at_ms x = None"
      "js_from_str (en_context env) (lw_context_json x) = Some monitor"
    using assms(1) by (auto simp: registered_monitor_def split: if_splits dest!: fetch_optional_SomeD)
  have "provisioned env x monitor"
    using resolved_context_was_provisioned [OF assms(2,3) x(1,5)] .
  then have "lw_campaign_id x = cx_campaign_id monitor \<and> lw_challenge_id x = cx_challenge_id monitor"
    by (cases x) (simp add: provisioned_def lease_row_def)
  then show ?thesis using x by blast
qed

lemma observation_doc_mono:
  assumes "observation_doc env l r" "coordination_events l' = coordination_events l @ es"
    and "lease_table.evolves (actor_leases l) (actor_leases l')"
  shows "observation_doc env l' r"
proof -
  obtain x where x: "x \<in> set (actor_leases l)" "lw_lease_id x = ob_monitor_lease_id r" "lw_role x = role_name Monitor"
      "lw_campaign_id x = ob_campaign_id r" "lw_challenge_id x = ob_challenge_id r"
    using assms(1) by (auto simp: observation_doc_def)
  then obtain x' where "x' \<in> set (actor_leases l')" "lease_table.row_evolves x x'"
    using lease_table.evolves_row [OF assms(3)] by blast
  then have "\<exists>x \<in> set (actor_leases l'). lw_lease_id x = ob_monitor_lease_id r \<and> lw_role x = role_name Monitor
          \<and> lw_campaign_id x = ob_campaign_id r \<and> lw_challenge_id x = ob_challenge_id r"
    using x by (intro bexI [of _ x']) (auto simp: lease_table.row_evolves_def)
  then show ?thesis
    using assms(1) in_log_append unfolding observation_doc_def assms(2) by blast
qed

lemma observations_ok_mono:
  assumes "observations_ok env l" "coordination_events l' = coordination_events l @ es"
    and "lease_table.evolves (actor_leases l) (actor_leases l')"
    and "platform_observations l' = platform_observations l"
  shows "observations_ok env l'"
  using assms(1) observation_doc_mono [OF _ assms(2,3)] unfolding observations_ok_def assms(4) by blast

lemma record_platform_observation_ok:
  assumes "record_platform_observation_audited env l monitor ob now event = Inr (p, l')"
    and "observations_ok env l" "leases_ok env (actor_leases l)" "json_roundtrip (en_context env)"
  shows "observations_ok env l'"
  using assms(1)
proof (cases rule: record_platform_observation_cases)
  case (recorded v json l1)
  obtain r where r: "insert_row observation_clash r (platform_observations l1) = Inr (platform_observations l')"
      "l' = l1\<lparr> platform_observations := platform_observations l1 @ [r] \<rparr>"
      "ob_event_id r = cr_event_id event" "ob_campaign_id r = cx_campaign_id monitor"
      "ob_challenge_id r = cx_challenge_id monitor" "ob_attempt_id r = po_attempt_id ob"
      "ob_monitor_lease_id r = le_lease_id (cx_lease monitor)" "ob_observation_json r = json"
      "ob_observation_sha256 r = sha256_bytes (en_sha256 env) json" "ob_event_version r = int v"
    using recorded(11) by (auto simp: insert_observation_def Let_def split: if_splits)
  have "observations_ok env l1"
    using assms(2) by (rule observations_ok_mono) (simp_all add: recorded(10) lease_table.evolves_refl)
  then have old: "observation_doc env l' x" if "x \<in> set (platform_observations l1)" for x
    using that observation_doc_mono [of env l1 x l' "[]"] r(2)
    by (simp add: observations_ok_def lease_table.evolves_refl)
  have "po_challenge_id ob = cx_challenge_id monitor"
    using recorded(3) unfolding PlatformObservation_validate_ok by blast
  then have "observation_doc env l' r"
    using registered_monitor_row [OF recorded(4) assms(3,4)] recorded(5-10) r
      in_log_event_row [of "coordination_events l" event "int v"]
    unfolding observation_doc_def by auto
  moreover have "observation_table.consistent (platform_observations l')"
    using r(1) \<open>observations_ok env l1\<close> observation_table.consistent_insert unfolding observations_ok_def by blast
  ultimately show ?thesis
    using old r(2) unfolding observations_ok_def by auto
qed (use assms in simp)

lemma record_recovery_canary_ok:
  assumes "record_recovery_canary env l trace now event = Inr (p, l')" "canaries_ok env (recovery_canaries l)"
  shows "canaries_ok env (recovery_canaries l')"
  using assms(1)
proof (cases rule: record_recovery_canary_cases)
  case (recorded v json l1)
  then show ?thesis
    using insert_canary_ok [OF recorded(4) _ recorded(2,1)] assms(2) by simp
qed (use assms in simp)

section \<open>Confirmations\<close>

interpretation record_confirmation: audited_operation
  "\<lambda>l. record_leaderboard_confirmation_audited env l monitor c now event" event
  for env monitor c now event
  by unfold_locales
     (auto simp: record_leaderboard_confirmation_audited_def split: if_splits dest!: audited_appends)

text \<open>
  Every stored confirmation is the document of its row, in one of the two states, and an event of the
  log.
\<close>

definition confirmation_doc :: "Env \<Rightarrow> Ledger \<Rightarrow> ConfirmationRow \<Rightarrow> bool" where
  "confirmation_doc env l r \<longleftrightarrow>
     cf_confirmation_sha256 r = sha256_bytes (en_sha256 env) (cf_confirmation_json r)
     \<and> (\<exists>c. js_to_string (en_confirmation env) c = Some (cf_confirmation_json r)
          \<and> lc_confirmation_id c = cf_confirmation_id r \<and> lc_attempt_id c = cf_attempt_id r
          \<and> lc_owner c = cf_owner r \<and> lc_state c = cf_state r)
     \<and> cf_state r \<in> set CONFIRMATION_STATES
     \<and> (\<exists>i. in_log (coordination_events l) i ''leaderboard_confirmation'' (cf_confirmation_id r)
          ''leaderboard_confirmation_recorded'' (cf_event_version r))"

definition confirmations_ok :: "Env \<Rightarrow> Ledger \<Rightarrow> bool" where
  "confirmations_ok env l \<longleftrightarrow> confirmation_table.consistent (leaderboard_confirmations l)
     \<and> (\<forall>r \<in> set (leaderboard_confirmations l). confirmation_doc env l r)"

lemma confirmations_ok_mono:
  assumes "confirmations_ok env l" "coordination_events l' = coordination_events l @ es"
    and "leaderboard_confirmations l' = leaderboard_confirmations l"
  shows "confirmations_ok env l'"
  using assms in_log_append unfolding confirmations_ok_def confirmation_doc_def by metis

lemma record_confirmation_cases:
  assumes "record_leaderboard_confirmation_audited env l monitor c now event = Inr (v, l')"
  obtains (replayed) "l' = l"
  | (recorded) r where "insert_row confirmation_clash r (leaderboard_confirmations l) = Inr (leaderboard_confirmations l @ [r])"
      "l' = l\<lparr> coordination_events := coordination_events l @ [event_row event (int v)],
               leaderboard_confirmations := leaderboard_confirmations l @ [r] \<rparr>"
      "confirmation_doc env l' r"
proof -
  obtain json replay where guards: "js_to_string (en_confirmation env) c = Some json"
      "cr_aggregate_type event = ''leaderboard_confirmation''" "cr_aggregate_id event = lc_confirmation_id c"
      "cr_event_type event = ''leaderboard_confirmation_recorded''" "lc_state c \<in> set CONFIRMATION_STATES"
    and audit: "audited l event replay
        (\<lambda>v l1. if i64_max < int v then Err (Degraded ''leaderboard confirmation event version overflow'')
           else and_then (insert_row confirmation_clash
             \<lparr> cf_confirmation_id = lc_confirmation_id c, cf_attempt_id = lc_attempt_id c,
               cf_owner = lc_owner c, cf_confirmation_json = json,
               cf_confirmation_sha256 = sha256_bytes (en_sha256 env) json,
               cf_state = lc_state c, cf_recorded_at_ms = now, cf_event_version = int v \<rparr>
             (leaderboard_confirmations l1)) (\<lambda>t. Ok (l1\<lparr> leaderboard_confirmations := t \<rparr>))) = Inr (v, l')"
    using assms by (auto simp: record_leaderboard_confirmation_audited_def split: if_splits)
  from audit show ?thesis
  proof (cases rule: audited_cases)
    case (fresh a l1)
    then show ?thesis
      using guards in_log_event_row [of "coordination_events l" event "int v"]
      by (intro that(2) [of "\<lparr> cf_confirmation_id = lc_confirmation_id c, cf_attempt_id = lc_attempt_id c,
               cf_owner = lc_owner c, cf_confirmation_json = json,
               cf_confirmation_sha256 = sha256_bytes (en_sha256 env) json,
               cf_state = lc_state c, cf_recorded_at_ms = now, cf_event_version = int v \<rparr>"])
         (auto simp: confirmation_doc_def split: if_splits)
  qed (use that(1) in blast)
qed

lemma record_confirmation_ok:
  assumes "record_leaderboard_confirmation_audited env l monitor c now event = Inr (v, l')" "confirmations_ok env l"
  shows "confirmations_ok env l'"
  using assms(1)
proof (cases rule: record_confirmation_cases)
  case (recorded r)
  have "coordination_events l' = coordination_events l @ [event_row event (int v)]"
    using recorded(2) by simp
  then have "confirmation_doc env l' x" if "x \<in> set (leaderboard_confirmations l)" for x
    using that assms(2) in_log_append unfolding confirmations_ok_def confirmation_doc_def by metis
  moreover have "confirmation_table.consistent (leaderboard_confirmations l @ [r])"
    using recorded(1) assms(2) confirmation_table.consistent_insert unfolding confirmations_ok_def by blast
  moreover have "leaderboard_confirmations l' = leaderboard_confirmations l @ [r]"
    using recorded(2) by simp
  ultimately show ?thesis
    using recorded(3) unfolding confirmations_ok_def by auto
qed (use assms in simp)

end
