(* ===== verification/WakeLedger.thy ===== *)
theory WakeLedger
  imports ObservationLedger
begin

text \<open>
  Reconciliation in the ledger and the wake requests that rest on it:
  \<open>apply_platform_reconciliation_audited\<close>, \<open>load_latest_platform_reconciliation\<close>,
  \<open>record_chief_wake_audited\<close>, \<open>ack_chief_wake_audited\<close>, \<open>load_chief_wake\<close>,
  \<open>list_waiting_chief_wakes\<close> and \<open>consume_chief_wake_file\<close>.
\<close>

section \<open>Reconciliation snapshots\<close>

record PersistedReconciliationSnapshot =
  pz_campaign_id :: string
  pz_challenge_id :: string
  pz_stream_id :: string
  pz_snapshot :: PlatformReconciliationSnapshot
  pz_snapshot_sha256 :: string
  pz_updated_at_ms :: int
  pz_event_version :: "nat option"

definition load_reconciliation_snapshot ::
  "Env \<Rightarrow> Ledger \<Rightarrow> string \<Rightarrow> string \<Rightarrow> LedgerError + PersistedReconciliationSnapshot option" where
  "load_reconciliation_snapshot env l stream_id ch =
     (case fetch_optional (\<lambda>r. sn_stream_id r = stream_id \<and> sn_challenge_id r = ch) (reconciliation_snapshots l) of
        None \<Rightarrow> Ok None
      | Some r \<Rightarrow>
          if sha256_bytes (en_sha256 env) (sn_snapshot_json r) \<noteq> sn_snapshot_sha256 r
          then Err (Degraded ''reconciliation snapshot hash does not match'')
          else
          and_then (ok_or (js_from_str (en_snapshot env) (sn_snapshot_json r))
              (DegradedExternal ''stored reconciliation snapshot is invalid JSON: '')) (\<lambda>snapshot.
          and_then (case sn_event_version r of
              None \<Rightarrow> Ok None
            | Some v \<Rightarrow> if v < 0 then Err (Degraded ''stored reconciliation event version is invalid'')
                        else Ok (Some (nat v))) (\<lambda>event_version.
          Ok (Some \<lparr> pz_campaign_id = sn_campaign_id r, pz_challenge_id = sn_challenge_id r,
                     pz_stream_id = sn_stream_id r, pz_snapshot = snapshot,
                     pz_snapshot_sha256 = sn_snapshot_sha256 r, pz_updated_at_ms = sn_updated_at_ms r,
                     pz_event_version = event_version \<rparr>))))"

definition reconciliation_item_state_name :: "PlatformReconcileItem \<Rightarrow> string" where
  "reconciliation_item_state_name i =
     (case ri_state i of
        Observation _ \<Rightarrow> ''observation''
      | PlatformReconcileItemState.UnknownNeedsReconcile _ \<Rightarrow> ''unknown_needs_reconcile'')"

record PersistedPlatformReconciliation =
  px_reconciliation_id :: string
  px_campaign_id :: string
  px_challenge_id :: string
  px_stream_id :: string
  px_snapshot :: PlatformReconciliationSnapshot
  px_snapshot_sha256 :: string
  px_updated_at_ms :: int
  px_event_version :: "nat option"

text \<open>\<open>NaN\<close> is bound as \<open>NULL\<close>.\<close>

definition sql_real :: "f64 option \<Rightarrow> f64 option" where
  "sql_real x = (case x of None \<Rightarrow> None | Some v \<Rightarrow> if is_nan v then None else Some v)"

text \<open>\<open>INSERT \<dots> ON CONFLICT (stream_id, challenge_id) DO UPDATE\<close>: the campaign column stays.\<close>

definition upsert_snapshot_row :: "SnapshotRow \<Rightarrow> SnapshotRow list \<Rightarrow> SnapshotRow list" where
  "upsert_snapshot_row new t =
     (if list_ex (snapshot_clash new) t
      then update_where (snapshot_clash new) (\<lambda>r. new\<lparr> sn_campaign_id := sn_campaign_id r \<rparr>) t
      else t @ [new])"

definition penalty_row :: "ActorContext \<Rightarrow> PlatformReconcileItem \<Rightarrow> PenaltyBasis \<Rightarrow> int \<Rightarrow> int \<Rightarrow> PenaltyRow" where
  "penalty_row monitor item basis now_ms event_version =
     \<lparr> pn_penalty_id = ''reconcile-penalty:'' @ cu_stream_id (ri_cursor item) @ '':''
             @ ri_attempt_id item @ '':'' @ ri_response_sha256 item,
       pn_campaign_id = cx_campaign_id monitor, pn_challenge_id = ri_challenge_id item,
       pn_attempt_id = ri_attempt_id item, pn_stream_id = cu_stream_id (ri_cursor item),
       pn_response_sha256 = ri_response_sha256 item, pn_penalty_object = pb_object basis,
       pn_penalty_reason = pb_reason basis, pn_raw_score = sql_real (rf_raw_score (ri_facts item)),
       pn_effective_score = sql_real (rf_effective_score (ri_facts item)),
       pn_rewritten_score = pb_rewritten_score basis, pn_recorded_at_ms = now_ms,
       pn_event_version = event_version \<rparr>"

definition insert_penalty ::
  "ActorContext \<Rightarrow> PlatformReconcileItem \<Rightarrow> int \<Rightarrow> int \<Rightarrow> Ledger \<Rightarrow> LedgerError + Ledger" where
  "insert_penalty monitor item now_ms event_version l =
     (if \<not> rf_penalty_applied (ri_facts item) then Ok l
      else
      and_then (ok_or (rf_penalty_basis (ri_facts item))
          (Degraded ''applied reconciliation penalty is missing its basis'')) (\<lambda>basis.
      if is_nan (pb_rewritten_score basis) then Err Database
      else and_then (insert_row penalty_clash (penalty_row monitor item basis now_ms event_version)
          (reconciliation_penalties l)) (\<lambda>t.
      Ok (l\<lparr> reconciliation_penalties := t \<rparr>))))"

definition i64_position :: "nat \<Rightarrow> string \<Rightarrow> LedgerError + int" where
  "i64_position p msg = (if int p \<le> i64_max then Ok (int p) else Err (Degraded msg))"

definition item_row ::
  "Env \<Rightarrow> ActorContext \<Rightarrow> PlatformReconcileItem \<Rightarrow> string \<Rightarrow> CoordinationEventRecord \<Rightarrow> int \<Rightarrow> int \<Rightarrow> ItemRow" where
  "item_row env monitor item item_json event position event_version =
     \<lparr> it_item_id = ''reconcile:'' @ ri_attempt_id item @ '':'' @ ri_response_sha256 item,
       it_event_id = cr_event_id event, it_campaign_id = cx_campaign_id monitor,
       it_challenge_id = ri_challenge_id item, it_attempt_id = ri_attempt_id item,
       it_stream_id = cu_stream_id (ri_cursor item), it_item_json = item_json,
       it_item_sha256 = sha256_bytes (en_sha256 env) item_json,
       it_response_sha256 = ri_response_sha256 item, it_cursor_position = position,
       it_observed_at_ms = ri_observed_at_ms item,
       it_item_state = reconciliation_item_state_name item, it_event_version = event_version \<rparr>"

definition snapshot_row ::
  "Env \<Rightarrow> ActorContext \<Rightarrow> PlatformReconcileItem \<Rightarrow> string \<Rightarrow> int option \<Rightarrow> int \<Rightarrow> int \<Rightarrow> SnapshotRow" where
  "snapshot_row env monitor item snapshot_json cursor_position now_ms event_version =
     \<lparr> sn_campaign_id = cx_campaign_id monitor, sn_challenge_id = ri_challenge_id item,
       sn_stream_id = cu_stream_id (ri_cursor item), sn_snapshot_json = snapshot_json,
       sn_snapshot_sha256 = sha256_bytes (en_sha256 env) snapshot_json,
       sn_cursor_position = cursor_position, sn_updated_at_ms = now_ms,
       sn_event_version = Some event_version \<rparr>"

definition insert_applied ::
  "Env \<Rightarrow> ActorContext \<Rightarrow> PlatformReconcileItem \<Rightarrow> string \<Rightarrow> PlatformReconciliationSnapshot \<Rightarrow> string \<Rightarrow> int \<Rightarrow>
   CoordinationEventRecord \<Rightarrow> nat \<Rightarrow> Ledger \<Rightarrow> LedgerError + Ledger" where
  "insert_applied env monitor item item_json snapshot snapshot_json now_ms event version l =
     and_then (i64_position version ''reconciliation event version overflow'') (\<lambda>event_version.
     and_then (i64_position (cu_position (ri_cursor item)) ''reconciliation cursor position overflow'') (\<lambda>position.
     and_then (insert_row item_clash (item_row env monitor item item_json event position event_version)
         (reconciliation_items l)) (\<lambda>items.
     and_then (case ps_cursor snapshot of
           None \<Rightarrow> Ok None
         | Some c \<Rightarrow> and_then (i64_position (cu_position c) ''reconciliation snapshot cursor overflow'')
             (\<lambda>p. Ok (Some p))) (\<lambda>cursor_position.
     insert_penalty monitor item now_ms event_version
       (l\<lparr> reconciliation_items := items,
          reconciliation_snapshots := upsert_snapshot_row
            (snapshot_row env monitor item snapshot_json cursor_position now_ms event_version)
            (reconciliation_snapshots l) \<rparr>)))))"

text \<open>The comparison of a duplicate with the stored item row.\<close>

definition duplicate_row ::
  "Env \<Rightarrow> Ledger \<Rightarrow> ActorContext \<Rightarrow> PlatformReconcileItem \<Rightarrow> string \<Rightarrow> CoordinationEventRecord \<Rightarrow> LedgerError + unit" where
  "duplicate_row env l monitor item item_json event =
     and_then (ok_or (fetch_optional (\<lambda>r. it_event_id r = cr_event_id event) (reconciliation_items l))
         (Degraded ''replayed reconciliation item is missing'')) (\<lambda>r.
     if it_event_id r \<noteq> cr_event_id event \<or> it_campaign_id r \<noteq> cx_campaign_id monitor
        \<or> it_challenge_id r \<noteq> ri_challenge_id item \<or> it_attempt_id r \<noteq> ri_attempt_id item
        \<or> it_stream_id r \<noteq> cu_stream_id (ri_cursor item) \<or> it_item_json r \<noteq> item_json
        \<or> it_item_sha256 r \<noteq> sha256_bytes (en_sha256 env) item_json
        \<or> it_response_sha256 r \<noteq> ri_response_sha256 item
     then Err (Degraded ''replayed reconciliation item does not match persisted evidence'')
     else if it_cursor_position r < 0 then Err (Degraded ''stored reconciliation cursor is invalid'')
     else fail_if (nat (it_cursor_position r) \<noteq> cu_position (ri_cursor item)
            \<or> it_observed_at_ms r \<noteq> ri_observed_at_ms item
            \<or> it_item_state r \<noteq> reconciliation_item_state_name item)
       (Degraded ''replayed reconciliation item does not match persisted evidence''))"

definition unchanged_reconciliation ::
  "ActorContext \<Rightarrow> PlatformReconcileItem \<Rightarrow> PersistedReconciliationSnapshot \<Rightarrow> PersistedPlatformReconciliation" where
  "unchanged_reconciliation monitor item p =
     \<lparr> px_reconciliation_id = ''reconcile:'' @ ri_attempt_id item @ '':'' @ ri_response_sha256 item,
       px_campaign_id = cx_campaign_id monitor, px_challenge_id = ri_challenge_id item,
       px_stream_id = cu_stream_id (ri_cursor item), px_snapshot = pz_snapshot p,
       px_snapshot_sha256 = pz_snapshot_sha256 p, px_updated_at_ms = pz_updated_at_ms p,
       px_event_version = pz_event_version p \<rparr>"

text \<open>The \<open>match\<close> on the result of the reducer.\<close>

definition applied_reconciliation ::
  "Env \<Rightarrow> ActorContext \<Rightarrow> PlatformReconcileItem \<Rightarrow> PlatformReconciliationSnapshot \<Rightarrow> string \<Rightarrow> int \<Rightarrow> nat \<Rightarrow>
   PersistedPlatformReconciliation" where
  "applied_reconciliation env monitor item snapshot snapshot_json now_ms v =
     \<lparr> px_reconciliation_id = ''reconcile:'' @ ri_attempt_id item @ '':'' @ ri_response_sha256 item,
       px_campaign_id = cx_campaign_id monitor, px_challenge_id = ri_challenge_id item,
       px_stream_id = cu_stream_id (ri_cursor item), px_snapshot = snapshot,
       px_snapshot_sha256 = sha256_bytes (en_sha256 env) snapshot_json,
       px_updated_at_ms = now_ms, px_event_version = Some v \<rparr>"

definition commit_reconciliation ::
  "Env \<Rightarrow> Ledger \<Rightarrow> ActorContext \<Rightarrow> PlatformReconcileItem \<Rightarrow> string \<Rightarrow> PersistedReconciliationSnapshot option \<Rightarrow>
   int \<Rightarrow> CoordinationEventRecord \<Rightarrow>
   (CoordinationError + ReconciliationApplyResult) \<times> PlatformReconciliationSnapshot \<Rightarrow>
   LedgerError + (PersistedPlatformReconciliation \<times> ReconciliationApplyResult) \<times> Ledger" where
  "commit_reconciliation env l monitor item item_json persisted now_ms event outcome =
     (case fst outcome of
        Inl e \<Rightarrow> Err (DegradedBy ''reconciliation apply failed: '' e)
      | Inr Applied \<Rightarrow>
          and_then (ok_or (js_to_string (en_snapshot env) (snd outcome))
              (DegradedExternal ''cannot serialize reconciliation snapshot: '')) (\<lambda>snapshot_json.
          audited_with l event
            (\<lambda>v l1. Err (Degraded ''reconciliation event idempotency is already bound to another item''))
            (\<lambda>v l1. and_then (insert_applied env monitor item item_json (snd outcome) snapshot_json now_ms event v l1)
               (\<lambda>l2. Ok ((applied_reconciliation env monitor item (snd outcome) snapshot_json now_ms v, Applied), l2))))
      | Inr Duplicate \<Rightarrow>
          and_then (duplicate_row env l monitor item item_json event) (\<lambda>_.
          and_then (ok_or persisted (Degraded ''duplicate reconciliation replay is missing its snapshot row'')) (\<lambda>p.
          Ok ((unchanged_reconciliation monitor item p, Duplicate), l)))
      | Inr Stale \<Rightarrow>
          and_then (ok_or persisted (Degraded ''stale reconciliation item has no snapshot row'')) (\<lambda>p.
          Ok ((unchanged_reconciliation monitor item p, Stale), l)))"

definition apply_platform_reconciliation_audited ::
  "Env \<Rightarrow> Ledger \<Rightarrow> ActorContext \<Rightarrow> PlatformReconcileItem \<Rightarrow> int \<Rightarrow> CoordinationEventRecord \<Rightarrow>
   LedgerError + (PersistedPlatformReconciliation \<times> ReconciliationApplyResult) \<times> Ledger" where
  "apply_platform_reconciliation_audited env l monitor item now_ms event =
     (if \<not> bound_monitor monitor
      then Err (Degraded ''platform reconciliation requires a bound Monitor context'')
      else if ri_challenge_id item \<noteq> cx_challenge_id monitor
      then Err (Degraded ''platform reconciliation item is outside the monitor's challenge binding'')
      else
      and_then (map_err (DegradedBy ''monitor lease validation failed: '')
          (ActorContext_validate monitor MonitorReadOnly now_ms)) (\<lambda>_.
      and_then (ok_or (js_to_string (en_item env) item)
          (DegradedExternal ''cannot serialize reconciliation item: '')) (\<lambda>item_json.
      if list_ex is_blank [cu_stream_id (ri_cursor item), ri_challenge_id item, ri_attempt_id item]
      then Err (Degraded ''reconciliation item is missing stream, challenge, or attempt identity'')
      else if cr_aggregate_type event \<noteq> ''campaign'' \<or> cr_aggregate_id event \<noteq> cx_campaign_id monitor
         \<or> cr_event_type event \<noteq> ''platform_reconciliation_recorded'' \<or> cr_payload_json event \<noteq> item_json
         \<or> cr_occurred_at_ms event \<noteq> now_ms
      then Err (Degraded ''reconciliation event is not bound to the typed item'')
      else
      and_then (load_reconciliation_snapshot env l (cu_stream_id (ri_cursor item)) (ri_challenge_id item)) (\<lambda>persisted.
      if (case persisted of None \<Rightarrow> False | Some p \<Rightarrow> pz_campaign_id p \<noteq> cx_campaign_id monitor)
      then Err (Degraded ''reconciliation snapshot belongs to a different campaign'')
      else
      and_then (case persisted of
            Some p \<Rightarrow> Ok (pz_snapshot p)
          | None \<Rightarrow> map_err (DegradedBy ''cannot create reconciliation snapshot: '')
              (Snapshot_new (cu_stream_id (ri_cursor item)) (ri_challenge_id item))) (\<lambda>snapshot0.
      commit_reconciliation env l monitor item item_json persisted now_ms event (apply_item snapshot0 item now_ms))))))"

definition load_latest_platform_reconciliation ::
  "Env \<Rightarrow> Ledger \<Rightarrow> string \<Rightarrow> string \<Rightarrow> LedgerError + PersistedPlatformReconciliation" where
  "load_latest_platform_reconciliation env l stream_id ch =
     (if is_blank stream_id \<or> is_blank ch
      then Err (Degraded ''reconciliation lookup requires stream and challenge ids'')
      else
      and_then (load_reconciliation_snapshot env l stream_id ch) (\<lambda>x.
      and_then (ok_or x (Degraded ''reconciliation snapshot is not registered'')) (\<lambda>p.
      Ok \<lparr> px_reconciliation_id = ''reconcile-stream:'' @ stream_id @ '':'' @ ch,
           px_campaign_id = pz_campaign_id p, px_challenge_id = pz_challenge_id p,
           px_stream_id = pz_stream_id p, px_snapshot = pz_snapshot p,
           px_snapshot_sha256 = pz_snapshot_sha256 p, px_updated_at_ms = pz_updated_at_ms p,
           px_event_version = pz_event_version p \<rparr>)))"

section \<open>Wake requests\<close>

datatype ChiefWakeState = Waiting | Acked

definition chief_wake_state_name :: "ChiefWakeState \<Rightarrow> string" where
  "chief_wake_state_name s = (case s of Waiting \<Rightarrow> ''waiting'' | Acked \<Rightarrow> ''acked'')"

record PersistedChiefWake =
  pw_wake_id :: string
  pw_request :: ChiefWakeRequest
  pw_state :: ChiefWakeState
  pw_recorded_at_ms :: int
  pw_acked_at_ms :: "int option"
  pw_event_version :: "nat option"

definition applied_fact :: "Env \<Rightarrow> Ledger \<Rightarrow> ChiefWakeRequest \<Rightarrow> string \<Rightarrow> LedgerError + unit" where
  "applied_fact env l w campaign_id =
     and_then (load_reconciliation_snapshot env l (wq_stream_id w) (wq_challenge_id w)) (\<lambda>snapshot.
     and_then (ok_or snapshot
         (Degraded ''chief wake references a reconciliation stream that was never applied'')) (\<lambda>p.
     if pz_campaign_id p \<noteq> campaign_id
     then Err (Degraded ''chief wake event version does not match the applied reconciliation snapshot'')
     else if wq_event_version w < 0 then Err (Degraded ''chief wake event version is invalid'')
     else if pz_event_version p \<noteq> Some (nat (wq_event_version w))
     then Err (Degraded ''chief wake event version does not match the applied reconciliation snapshot'')
     else fail_if (filter (\<lambda>r. it_stream_id r = wq_stream_id w \<and> it_challenge_id r = wq_challenge_id w
                 \<and> it_response_sha256 r = wq_response_sha256 w \<and> it_event_version r = wq_event_version w)
               (reconciliation_items l) = [])
       (Degraded ''chief wake references no applied reconciliation item with that response hash'')))"

definition replayed_wake :: "ChiefWakeRequest \<Rightarrow> string \<Rightarrow> nat \<Rightarrow> Ledger \<Rightarrow> LedgerError + unit" where
  "replayed_wake w request_json v l =
     and_then (ok_or (fetch_optional (\<lambda>r. wk_wake_id r = wq_wake_id w) (chief_wake_requests l))
         (Degraded ''replayed chief wake is missing its stored request'')) (\<lambda>r.
     fail_if (wk_request_json r \<noteq> request_json \<or> wk_state r \<notin> set [''waiting'', ''acked''])
       (Degraded ''replayed chief wake does not match the stored request''))"

definition wake_row :: "Env \<Rightarrow> ChiefWakeRequest \<Rightarrow> string \<Rightarrow> int \<Rightarrow> nat \<Rightarrow> WakeRow" where
  "wake_row env w request_json now_ms v =
     \<lparr> wk_wake_id = wq_wake_id w, wk_request_json = request_json,
       wk_request_sha256 = sha256_bytes (en_sha256 env) request_json, wk_state = ''waiting'',
       wk_recorded_at_ms = now_ms, wk_acked_at_ms = None, wk_event_version = int v \<rparr>"

definition insert_wake ::
  "Env \<Rightarrow> ChiefWakeRequest \<Rightarrow> string \<Rightarrow> int \<Rightarrow> nat \<Rightarrow> Ledger \<Rightarrow> LedgerError + Ledger" where
  "insert_wake env w request_json now_ms v l =
     (if i64_max < int v then Err (Degraded ''chief wake event version overflow'')
      else and_then (insert_row wake_clash (wake_row env w request_json now_ms v) (chief_wake_requests l))
        (\<lambda>t. Ok (l\<lparr> chief_wake_requests := t \<rparr>)))"

definition record_chief_wake_audited ::
  "Env \<Rightarrow> Ledger \<Rightarrow> ChiefWakeRequest \<Rightarrow> string \<Rightarrow> int \<Rightarrow> CoordinationEventRecord \<Rightarrow> LedgerError + nat \<times> Ledger" where
  "record_chief_wake_audited env l w campaign_id now_ms event =
     (if list_ex is_blank [wq_wake_id w, wq_campaign_id w, wq_challenge_id w, wq_stream_id w, wq_response_sha256 w]
         \<or> wq_schema_version w \<noteq> ''ascodex-chief-wake-request/v1'' \<or> wq_platform_write_attempted w
      then Err (Degraded ''chief wake request is missing required fields or violates the read-only contract'')
      else if campaign_id \<noteq> wq_campaign_id w
      then Err (Degraded ''chief wake campaign does not match the caller binding'')
      else if cr_aggregate_type event \<noteq> ''chief_wake'' \<or> cr_aggregate_id event \<noteq> wq_wake_id w
         \<or> cr_event_type event \<noteq> ''chief_wake_requested'' \<or> cr_occurred_at_ms event \<noteq> now_ms
      then Err (Degraded ''chief wake event is not bound to the wake request'')
      else
      and_then (applied_fact env l w campaign_id) (\<lambda>_.
      and_then (ok_or (js_to_string (en_wake env) w)
          (DegradedExternal ''cannot serialize chief wake request: '')) (\<lambda>request_json.
      audited l event (replayed_wake w request_json) (insert_wake env w request_json now_ms))))"

definition load_chief_wake :: "Env \<Rightarrow> Ledger \<Rightarrow> string \<Rightarrow> LedgerError + PersistedChiefWake option" where
  "load_chief_wake env l wake_id =
     (case fetch_optional (\<lambda>r. wk_wake_id r = wake_id) (chief_wake_requests l) of
        None \<Rightarrow> Ok None
      | Some r \<Rightarrow>
          if sha256_bytes (en_sha256 env) (wk_request_json r) \<noteq> wk_request_sha256 r
          then Err (Degraded ''stored chief wake request hash does not match'')
          else
          and_then (ok_or (js_from_str (en_wake env) (wk_request_json r))
              (DegradedExternal ''stored chief wake request is invalid JSON: '')) (\<lambda>request.
          and_then (if wk_state r = ''waiting'' then Ok Waiting else if wk_state r = ''acked'' then Ok Acked
                    else Err (Degraded ''stored chief wake state is invalid'')) (\<lambda>state.
          if wk_event_version r < 0 then Err (Degraded ''stored chief wake event version is invalid'')
          else Ok (Some \<lparr> pw_wake_id = wake_id, pw_request = request, pw_state = state,
                          pw_recorded_at_ms = wk_recorded_at_ms r, pw_acked_at_ms = wk_acked_at_ms r,
                          pw_event_version = Some (nat (wk_event_version r)) \<rparr>))))"

definition replayed_ack :: "string \<Rightarrow> int \<Rightarrow> nat \<Rightarrow> Ledger \<Rightarrow> LedgerError + unit" where
  "replayed_ack wake_id now_ms v l =
     and_then (ok_or (fetch_optional (\<lambda>r. wk_wake_id r = wake_id) (chief_wake_requests l))
         (Degraded ''replayed chief wake ack is missing its stored request'')) (\<lambda>r.
     fail_if (wk_state r \<noteq> chief_wake_state_name Acked \<or> wk_acked_at_ms r \<noteq> Some now_ms)
       (Degraded ''replayed chief wake ack does not match the stored state''))"

definition waiting_wake :: "string \<Rightarrow> WakeRow \<Rightarrow> bool" where
  "waiting_wake wake_id r \<longleftrightarrow> wk_wake_id r = wake_id \<and> wk_state r = ''waiting''"

definition mark_acked :: "string \<Rightarrow> int \<Rightarrow> nat \<Rightarrow> Ledger \<Rightarrow> LedgerError + Ledger" where
  "mark_acked wake_id now_ms v l =
     (if rows_affected (waiting_wake wake_id) (chief_wake_requests l) = 0
      then Err (Degraded ''chief wake is missing or already acked'')
      else Ok (l\<lparr> chief_wake_requests := update_where (waiting_wake wake_id)
             (\<lambda>r. r\<lparr> wk_state := ''acked'', wk_acked_at_ms := Some now_ms \<rparr>) (chief_wake_requests l) \<rparr>))"

definition ack_chief_wake_audited ::
  "Ledger \<Rightarrow> string \<Rightarrow> int \<Rightarrow> CoordinationEventRecord \<Rightarrow> LedgerError + nat \<times> Ledger" where
  "ack_chief_wake_audited l wake_id now_ms event =
     (if cr_aggregate_type event \<noteq> ''chief_wake'' \<or> cr_aggregate_id event \<noteq> wake_id
         \<or> cr_event_type event \<noteq> ''chief_wake_acked'' \<or> cr_occurred_at_ms event \<noteq> now_ms
      then Err (Degraded ''chief wake event is not bound to the wake ack'')
      else audited l event (replayed_ack wake_id now_ms) (mark_acked wake_id now_ms))"

definition list_waiting_chief_wakes :: "Env \<Rightarrow> Ledger \<Rightarrow> LedgerError + PersistedChiefWake list" where
  "list_waiting_chief_wakes env l =
     (let rows = sort_key wk_recorded_at_ms (filter (\<lambda>r. wk_state r = ''waiting'') (chief_wake_requests l))
      in foldr (\<lambda>r rest. and_then (load_chief_wake env l (wk_wake_id r)) (\<lambda>x.
           and_then (ok_or x (Degraded ''waiting chief wake row is missing its stored request'')) (\<lambda>w.
           and_then rest (\<lambda>ws. Ok (w # ws))))) rows (Ok []))"

text \<open>
  Two transactions: when the second fails the first stays, so the result carries the ledger on the
  error path too.
\<close>

definition consume_chief_wake_file ::
  "Env \<Rightarrow> Ledger \<Rightarrow> string \<Rightarrow> string \<Rightarrow> int \<Rightarrow> CoordinationEventRecord list \<Rightarrow> (LedgerError + nat) \<times> Ledger" where
  "consume_chief_wake_file env l request_json campaign_id now_ms events =
     (case events of
        [record_event, ack_event] \<Rightarrow>
          (case js_from_str (en_wake env) request_json of
             None \<Rightarrow> (Err (DegradedExternal ''chief wake file is invalid JSON: ''), l)
           | Some w \<Rightarrow>
               (case record_chief_wake_audited env l w campaign_id now_ms record_event of
                  Inl e \<Rightarrow> (Err e, l)
                | Inr (_, l1) \<Rightarrow>
                    (case ack_chief_wake_audited l1 (wq_wake_id w) now_ms ack_event of
                       Inl e \<Rightarrow> (Err e, l1)
                     | Inr (v, l2) \<Rightarrow> (Ok v, l2))))
      | _ \<Rightarrow> (Err (Degraded ''chief wake consume requires exactly two events (record and ack)''), l))"

section \<open>What an applied item adds\<close>

lemma apply_reconciliation_cases:
  assumes "apply_platform_reconciliation_audited env l monitor item now event = Inr ((px, res), l')"
  obtains (unchanged) "l' = l" "res \<noteq> Applied"
  | (applied) s0 s1 json sjson v l1 where "res = Applied"
      "cr_aggregate_type event = ''campaign''" "cr_aggregate_id event = cx_campaign_id monitor"
      "cr_event_type event = ''platform_reconciliation_recorded''" "cr_payload_json event = json"
      "js_to_string (en_item env) item = Some json" "js_to_string (en_snapshot env) s1 = Some sjson"
      "apply_item s0 item now = (Ok Applied, s1)" "ri_challenge_id item = cx_challenge_id monitor"
      "load_reconciliation_snapshot env l (cu_stream_id (ri_cursor item)) (ri_challenge_id item) = Ok None
         \<and> Snapshot_new (cu_stream_id (ri_cursor item)) (ri_challenge_id item) = Ok s0
       \<or> (\<exists>p. load_reconciliation_snapshot env l (cu_stream_id (ri_cursor item)) (ri_challenge_id item) = Ok (Some p)
            \<and> pz_campaign_id p = cx_campaign_id monitor \<and> pz_snapshot p = s0)"
      "px_snapshot px = s1" "px_event_version px = Some v"
      "l1 = l\<lparr> coordination_events := coordination_events l @ [event_row event (int v)] \<rparr>"
      "insert_applied env monitor item json s1 sjson now event v l1 = Inr l'"
proof -
  obtain json persisted s0 where guards: "js_to_string (en_item env) item = Some json"
      "cr_aggregate_type event = ''campaign''" "cr_aggregate_id event = cx_campaign_id monitor"
      "cr_event_type event = ''platform_reconciliation_recorded''" "cr_payload_json event = json"
      "ri_challenge_id item = cx_challenge_id monitor"
    and load: "load_reconciliation_snapshot env l (cu_stream_id (ri_cursor item)) (ri_challenge_id item) = Ok persisted"
    and camp: "\<And>p. persisted = Some p \<Longrightarrow> pz_campaign_id p = cx_campaign_id monitor"
    and s0: "(case persisted of Some p \<Rightarrow> Ok (pz_snapshot p)
          | None \<Rightarrow> map_err (DegradedBy ''cannot create reconciliation snapshot: '')
              (Snapshot_new (cu_stream_id (ri_cursor item)) (ri_challenge_id item))) = Ok s0"
    and rest: "commit_reconciliation env l monitor item json persisted now event (apply_item s0 item now)
       = Inr ((px, res), l')"
    using assms
    by (auto simp: apply_platform_reconciliation_audited_def simp del: map_err_ok split: if_splits option.splits)
  show ?thesis
  proof (cases rule: apply_cases [of s0 item now])
    case applied
    let ?s1 = "apply_next s0 item (target_attempt s0 item)"
    obtain sjson where sjson: "js_to_string (en_snapshot env) ?s1 = Some sjson"
      and audit: "audited_with l event
             (\<lambda>v l1. Err (Degraded ''reconciliation event idempotency is already bound to another item''))
             (\<lambda>v l1. and_then (insert_applied env monitor item json ?s1 sjson now event v l1)
                (\<lambda>l2. Ok ((applied_reconciliation env monitor item ?s1 sjson now v, Applied), l2)))
          = Inr ((px, res), l')"
      using rest applied(1) by (auto simp: commit_reconciliation_def)
    have src: "load_reconciliation_snapshot env l (cu_stream_id (ri_cursor item)) (ri_challenge_id item) = Ok None
         \<and> Snapshot_new (cu_stream_id (ri_cursor item)) (ri_challenge_id item) = Ok s0
       \<or> (\<exists>p. load_reconciliation_snapshot env l (cu_stream_id (ri_cursor item)) (ri_challenge_id item) = Ok (Some p)
            \<and> pz_campaign_id p = cx_campaign_id monitor \<and> pz_snapshot p = s0)"
      using load camp s0 by (cases persisted) auto
    from audit show ?thesis
    proof (cases rule: audited_with_cases)
      case (fresh a l1)
      then show ?thesis
        by (intro that(2) [OF _ guards(2-5,1) sjson applied(1) guards(6) src, of "ae_version a" l1])
           (auto simp: applied_reconciliation_def)
    qed simp
  qed (use rest that(1) in \<open>auto simp: commit_reconciliation_def\<close>)
qed


lemma applied_facts:
  assumes "apply_item s item now = (Ok Applied, s')"
  shows "Snapshot_validate s' = Ok ()" "ps_cursor s' = Some (ri_cursor item)"
    "\<And>basis. rf_penalty_applied (ri_facts item) \<Longrightarrow> rf_penalty_basis (ri_facts item) = Some basis \<Longrightarrow>
       \<exists>raw. rf_raw_score (ri_facts item) = Some raw \<and> f64_eq (pb_rewritten_score basis) (f64_sub raw (Fin 1))"
proof -
  have *: "Snapshot_validate s' = Ok () \<and> ps_cursor s' = Some (ri_cursor item)
    \<and> PlatformReconcileItem_validate item (ps_stream_id s) (ps_challenge_id s) now = Ok ()"
    by (cases rule: apply_cases [of s item now]) (use assms in auto)
  then show "Snapshot_validate s' = Ok ()" "ps_cursor s' = Some (ri_cursor item)" by blast+
  fix basis
  assume pen: "rf_penalty_applied (ri_facts item)" "rf_penalty_basis (ri_facts item) = Some basis"
  have "list_all (\<lambda>c. c = Ok ()) (penalty_facts (ri_facts item))"
    using * item_validD(4) [of item "ps_stream_id s" "ps_challenge_id s" now]
    unfolding ReconciliationFacts_validate_def by simp
  then show "\<exists>raw. rf_raw_score (ri_facts item) = Some raw \<and> f64_eq (pb_rewritten_score basis) (f64_sub raw (Fin 1))"
    using pen by (auto simp: penalty_facts_def split: option.splits)
qed

lemma insert_applied_log:
  "insert_applied env monitor item json s sjson now event v l = Inr l' \<Longrightarrow> coordination_events l' = coordination_events l"
  unfolding insert_applied_def and_then_ok
  by (elim exE conjE) (auto simp: insert_penalty_def split: if_splits)

lemma apply_reconciliation_log:
  assumes "apply_platform_reconciliation_audited env l monitor item now event = Inr (r, l')"
  shows "l' = l \<or> (\<exists>a l1. append_event_in_transaction l event = Inr (a, l1) \<and> coordination_events l' = coordination_events l1)"
proof -
  obtain json persisted s0 where
      "commit_reconciliation env l monitor item json persisted now event (apply_item s0 item now) = Inr (r, l')"
    using assms
    by (auto simp: apply_platform_reconciliation_audited_def simp del: map_err_ok split: if_splits option.splits)
  then show ?thesis
    by (auto simp: commit_reconciliation_def split: sum.splits ReconciliationApplyResult.splits
        dest!: audited_with_log insert_applied_log)
qed

section \<open>The reconciliation invariant\<close>

text \<open>
  Every stored item is an event of its campaign; every stored snapshot is a valid snapshot whose cursor
  and event version are those of an item of its stream, challenge and campaign, and every item has the
  snapshot of its stream; every stored penalty belongs to a stored item and takes exactly one point.
\<close>

definition item_doc :: "Env \<Rightarrow> Ledger \<Rightarrow> ItemRow \<Rightarrow> bool" where
  "item_doc env l r \<longleftrightarrow>
     it_item_sha256 r = sha256_bytes (en_sha256 env) (it_item_json r)
     \<and> in_log (coordination_events l) (it_event_id r) ''campaign'' (it_campaign_id r)
          ''platform_reconciliation_recorded'' (it_event_version r)
     \<and> (\<exists>x \<in> set (reconciliation_snapshots l). sn_stream_id x = it_stream_id r
          \<and> sn_challenge_id x = it_challenge_id r \<and> sn_campaign_id x = it_campaign_id r)"

definition snapshot_doc :: "Env \<Rightarrow> ItemRow list \<Rightarrow> SnapshotRow \<Rightarrow> bool" where
  "snapshot_doc env items r \<longleftrightarrow>
     sn_snapshot_sha256 r = sha256_bytes (en_sha256 env) (sn_snapshot_json r)
     \<and> (\<exists>s c. js_to_string (en_snapshot env) s = Some (sn_snapshot_json r) \<and> Snapshot_validate s = Ok ()
          \<and> ps_cursor s = Some c \<and> sn_cursor_position r = Some (int (cu_position c)))
     \<and> (\<exists>x \<in> set items. it_stream_id x = sn_stream_id r \<and> it_challenge_id x = sn_challenge_id r
          \<and> it_campaign_id x = sn_campaign_id r \<and> sn_cursor_position r = Some (it_cursor_position x)
          \<and> sn_event_version r = Some (it_event_version x))"

definition penalty_doc :: "ItemRow list \<Rightarrow> PenaltyRow \<Rightarrow> bool" where
  "penalty_doc items r \<longleftrightarrow>
     (\<exists>x \<in> set items. it_stream_id x = pn_stream_id r \<and> it_challenge_id x = pn_challenge_id r
        \<and> it_campaign_id x = pn_campaign_id r \<and> it_attempt_id x = pn_attempt_id r
        \<and> it_response_sha256 x = pn_response_sha256 r \<and> it_event_version x = pn_event_version r)
     \<and> (\<exists>raw. pn_raw_score r = sql_real (Some raw) \<and> f64_eq (pn_rewritten_score r) (f64_sub raw (Fin 1)))"

definition recon_ok :: "Env \<Rightarrow> Ledger \<Rightarrow> bool" where
  "recon_ok env l \<longleftrightarrow>
     item_table.consistent (reconciliation_items l) \<and> snapshot_table.consistent (reconciliation_snapshots l)
     \<and> penalty_table.consistent (reconciliation_penalties l)
     \<and> (\<forall>r \<in> set (reconciliation_items l). item_doc env l r)
     \<and> (\<forall>r \<in> set (reconciliation_snapshots l). snapshot_doc env (reconciliation_items l) r)
     \<and> (\<forall>r \<in> set (reconciliation_penalties l). penalty_doc (reconciliation_items l) r)"

lemma recon_ok_initialize: "recon_ok env initialize"
  by (simp add: recon_ok_def initialize_def item_table.consistent_Nil snapshot_table.consistent_Nil
      penalty_table.consistent_Nil)

text \<open>The tables an operation must leave alone for the invariant to survive it, up to a longer log.\<close>

definition recon_frame :: "Ledger \<Rightarrow> Ledger \<Rightarrow> bool" where
  "recon_frame l l' \<longleftrightarrow> (\<exists>es. coordination_events l' = coordination_events l @ es)
     \<and> reconciliation_items l' = reconciliation_items l
     \<and> reconciliation_snapshots l' = reconciliation_snapshots l
     \<and> reconciliation_penalties l' = reconciliation_penalties l"

lemma recon_ok_frame: "recon_ok env l \<Longrightarrow> recon_frame l l' \<Longrightarrow> recon_ok env l'"
  unfolding recon_ok_def recon_frame_def item_doc_def by (metis in_log_append)

lemma insert_applied_rows:
  assumes "insert_applied env monitor item json s sjson now event v l = Inr l'" "ps_cursor s = Some (ri_cursor item)"
  defines "x \<equiv> item_row env monitor item json event (int (cu_position (ri_cursor item))) (int v)"
    and "y \<equiv> snapshot_row env monitor item sjson (Some (int (cu_position (ri_cursor item)))) now (int v)"
  obtains ps where
    "l' = l\<lparr> reconciliation_items := reconciliation_items l @ [x],
            reconciliation_snapshots := upsert_snapshot_row y (reconciliation_snapshots l),
            reconciliation_penalties := ps \<rparr>"
    "insert_row item_clash x (reconciliation_items l) = Inr (reconciliation_items l @ [x])"
    "ps = reconciliation_penalties l
     \<or> (\<exists>basis. rf_penalty_applied (ri_facts item) \<and> rf_penalty_basis (ri_facts item) = Some basis
          \<and> insert_row penalty_clash (penalty_row monitor item basis now (int v)) (reconciliation_penalties l) = Inr ps)"
proof -
  have ins: "insert_row item_clash x (reconciliation_items l) = Inr (reconciliation_items l @ [x])"
    and pen: "insert_penalty monitor item now (int v)
       (l\<lparr> reconciliation_items := reconciliation_items l @ [x],
          reconciliation_snapshots := upsert_snapshot_row y (reconciliation_snapshots l) \<rparr>) = Inr l'"
    using assms(1,2) unfolding x_def y_def
    by (auto simp: insert_applied_def i64_position_def split: if_splits)
  show ?thesis
    using pen by (intro that [OF _ ins, of "reconciliation_penalties l'"])
      (auto simp: insert_penalty_def split: if_splits)
qed

lemma upsert_snapshot:
  assumes "snapshot_table.consistent t" "\<And>r. r \<in> set t \<Longrightarrow> snapshot_clash y r \<Longrightarrow> sn_campaign_id r = sn_campaign_id y"
  shows "snapshot_table.consistent (upsert_snapshot_row y t)"
    "y \<in> set (upsert_snapshot_row y t)" "set (upsert_snapshot_row y t) \<subseteq> insert y (set t)"
    "\<And>r. r \<in> set t \<Longrightarrow> \<exists>r' \<in> set (upsert_snapshot_row y t). sn_stream_id r' = sn_stream_id r
       \<and> sn_challenge_id r' = sn_challenge_id r \<and> sn_campaign_id r' = sn_campaign_id r"
proof -
  have upd: "update_where (snapshot_clash y) (\<lambda>r. y\<lparr> sn_campaign_id := sn_campaign_id r \<rparr>) t
      = update_where (snapshot_clash y) (\<lambda>r. y) t"
    using assms(2) by (auto simp: update_where_def intro!: map_cong)
  have same: "snapshot_table.consistent (update_where (snapshot_clash y) (\<lambda>r. y) t)"
    using assms(1) unfolding snapshot_table.consistent_def update_where_def sorted_wrt_map
    by (rule sorted_wrt_mono_rel [rotated]) (auto simp: snapshot_clash_def)
  show "snapshot_table.consistent (upsert_snapshot_row y t)"
  proof (cases "list_ex (snapshot_clash y) t")
    case False
    then have "insert_row snapshot_clash y t = Inr (t @ [y])" by (auto simp: list_ex_iff)
    then show ?thesis using False assms(1) snapshot_table.consistent_insert by (simp add: upsert_snapshot_row_def)
  qed (simp add: upsert_snapshot_row_def upd same)
  show "y \<in> set (upsert_snapshot_row y t)" "set (upsert_snapshot_row y t) \<subseteq> insert y (set t)"
    unfolding upsert_snapshot_row_def upd by (auto simp: set_update_where list_ex_iff)
  show "\<exists>r' \<in> set (upsert_snapshot_row y t). sn_stream_id r' = sn_stream_id r
       \<and> sn_challenge_id r' = sn_challenge_id r \<and> sn_campaign_id r' = sn_campaign_id r" if "r \<in> set t" for r
  proof (cases "snapshot_clash y r")
    case True
    then show ?thesis
      using \<open>y \<in> set (upsert_snapshot_row y t)\<close> assms(2) [OF that]
      by (intro bexI [of _ y]) (auto simp: snapshot_clash_def)
  next
    case False
    then have "r \<in> set (upsert_snapshot_row y t)"
      using that unfolding upsert_snapshot_row_def upd by (auto simp: set_update_where)
    then show ?thesis by blast
  qed
qed

lemma load_snapshot_campaign:
  assumes "load_reconciliation_snapshot env l st ch = Ok None
       \<or> (\<exists>p. load_reconciliation_snapshot env l st ch = Ok (Some p) \<and> pz_campaign_id p = c)"
    and "snapshot_table.consistent (reconciliation_snapshots l)"
    and "r \<in> set (reconciliation_snapshots l)" "sn_stream_id r = st" "sn_challenge_id r = ch"
  shows "sn_campaign_id r = c"
proof -
  have "fetch_optional (\<lambda>r. sn_stream_id r = st \<and> sn_challenge_id r = ch) (reconciliation_snapshots l) = Some r"
    using assms(2-5) by (intro snapshot_table.fetch_unique) (auto simp: snapshot_clash_def)
  then show ?thesis
    using assms(1) by (auto simp: load_reconciliation_snapshot_def split: if_splits option.splits)
qed

lemma insert_applied_ok:
  assumes ins: "insert_applied env monitor item json s1 sjson now event v l1 = Inr l'"
    and ok: "recon_ok env l" and l1: "l1 = l\<lparr> coordination_events := coordination_events l @ [event_row event (int v)] \<rparr>"
    and step: "apply_item s0 item now = (Ok Applied, s1)" and sjson: "js_to_string (en_snapshot env) s1 = Some sjson"
    and ev: "cr_aggregate_type event = ''campaign''" "cr_aggregate_id event = cx_campaign_id monitor"
      "cr_event_type event = ''platform_reconciliation_recorded''"
    and camp: "\<And>r. r \<in> set (reconciliation_snapshots l) \<Longrightarrow> sn_stream_id r = cu_stream_id (ri_cursor item) \<Longrightarrow>
       sn_challenge_id r = ri_challenge_id item \<Longrightarrow> sn_campaign_id r = cx_campaign_id monitor"
  shows "recon_ok env l'"
proof -
  define x where "x = item_row env monitor item json event (int (cu_position (ri_cursor item))) (int v)"
  define y where "y = snapshot_row env monitor item sjson (Some (int (cu_position (ri_cursor item)))) now (int v)"
  note s1 = applied_facts [OF step]
  obtain ps where l': "l' = l1\<lparr> reconciliation_items := reconciliation_items l1 @ [x],
            reconciliation_snapshots := upsert_snapshot_row y (reconciliation_snapshots l1),
            reconciliation_penalties := ps \<rparr>"
    and x: "insert_row item_clash x (reconciliation_items l1) = Inr (reconciliation_items l1 @ [x])"
    and ps: "ps = reconciliation_penalties l1
     \<or> (\<exists>basis. rf_penalty_applied (ri_facts item) \<and> rf_penalty_basis (ri_facts item) = Some basis
          \<and> insert_row penalty_clash (penalty_row monitor item basis now (int v)) (reconciliation_penalties l1) = Inr ps)"
    using insert_applied_rows [OF ins s1(2)] unfolding x_def y_def by blast
  note parts = ok [unfolded recon_ok_def]
  have up: "snapshot_table.consistent (reconciliation_snapshots l')"
    "y \<in> set (reconciliation_snapshots l')" "set (reconciliation_snapshots l') \<subseteq> insert y (set (reconciliation_snapshots l))"
    and keep: "\<And>r. r \<in> set (reconciliation_snapshots l) \<Longrightarrow> \<exists>r' \<in> set (reconciliation_snapshots l').
       sn_stream_id r' = sn_stream_id r \<and> sn_challenge_id r' = sn_challenge_id r \<and> sn_campaign_id r' = sn_campaign_id r"
    using upsert_snapshot [of "reconciliation_snapshots l" y] parts camp l1 l'
    by (auto simp: y_def snapshot_row_def snapshot_clash_def)
  have items: "reconciliation_items l' = reconciliation_items l @ [x]" using l' l1 by simp
  have "item_doc env l' r" if r: "r \<in> set (reconciliation_items l)" for r
  proof -
    obtain z where "z \<in> set (reconciliation_snapshots l)" "sn_stream_id z = it_stream_id r"
       "sn_challenge_id z = it_challenge_id r" "sn_campaign_id z = it_campaign_id r"
      using parts r unfolding item_doc_def by blast
    then have "\<exists>x \<in> set (reconciliation_snapshots l'). sn_stream_id x = it_stream_id r
          \<and> sn_challenge_id x = it_challenge_id r \<and> sn_campaign_id x = it_campaign_id r"
      using keep [of z] by metis
    moreover have "coordination_events l' = coordination_events l @ [event_row event (int v)]" using l' l1 by simp
    ultimately show ?thesis
      using parts r unfolding item_doc_def by (metis in_log_append)
  qed
  moreover have "\<exists>r \<in> set (reconciliation_snapshots l'). sn_stream_id r = it_stream_id x
          \<and> sn_challenge_id r = it_challenge_id x \<and> sn_campaign_id r = it_campaign_id x"
    by (rule bexI [OF _ up(2)]) (simp add: x_def y_def item_row_def snapshot_row_def)
  then have "item_doc env l' x"
    using in_log_event_row [of "coordination_events l" event "int v"] l' l1 ev
    unfolding item_doc_def by (simp add: x_def item_row_def)
  ultimately have A: "\<forall>r \<in> set (reconciliation_items l'). item_doc env l' r"
    unfolding items by auto
  have "snapshot_doc env (reconciliation_items l') y"
    using sjson s1(1,2) unfolding snapshot_doc_def items
    by (auto simp: x_def y_def item_row_def snapshot_row_def)
  moreover have "snapshot_doc env (reconciliation_items l') r" if "r \<in> set (reconciliation_snapshots l)" for r
    using parts that unfolding snapshot_doc_def items by (metis UnI1 set_append)
  ultimately have B: "\<forall>r \<in> set (reconciliation_snapshots l'). snapshot_doc env (reconciliation_items l') r"
    using up(3) by blast
  have old: "penalty_doc (reconciliation_items l') r" if "r \<in> set (reconciliation_penalties l)" for r
    using parts that unfolding penalty_doc_def items by (metis UnI1 set_append)
  have new: "penalty_doc (reconciliation_items l') (penalty_row monitor item basis now (int v))"
    if pen: "rf_penalty_applied (ri_facts item)" "rf_penalty_basis (ri_facts item) = Some basis" for basis
    using s1(3) [OF pen] unfolding penalty_doc_def items by (auto simp: x_def item_row_def penalty_row_def)
  have C: "\<forall>r \<in> set (reconciliation_penalties l'). penalty_doc (reconciliation_items l') r"
    using ps old new l' l1 by auto
  have "penalty_table.consistent (reconciliation_penalties l')"
    using ps parts l' l1 penalty_table.consistent_insert by auto
  moreover have "item_table.consistent (reconciliation_items l')"
    using x parts l1 items item_table.consistent_insert by fastforce
  ultimately show ?thesis
    using A B C up(1) unfolding recon_ok_def by blast
qed

lemma apply_reconciliation_ok:
  assumes "apply_platform_reconciliation_audited env l monitor item now event = Inr (r, l')" "recon_ok env l"
  shows "recon_ok env l'"
proof -
  obtain px res where r: "r = (px, res)" by (cases r)
  note step = assms(1) [unfolded r]
  from step show ?thesis
  proof (cases rule: apply_reconciliation_cases)
    case (applied s0 s1 json sjson v l1)
    have "sn_campaign_id r = cx_campaign_id monitor"
      if "r \<in> set (reconciliation_snapshots l)" "sn_stream_id r = cu_stream_id (ri_cursor item)"
        "sn_challenge_id r = ri_challenge_id item" for r
      using load_snapshot_campaign [OF _ _ that] applied(10) assms(2) unfolding recon_ok_def by blast
    then show ?thesis
      using insert_applied_ok [OF applied(14) assms(2) applied(13,8,7,2-4)] by blast
  qed (use assms(2) in simp)
qed

section \<open>The wake invariant\<close>

text \<open>
  A wake row is appended, and acknowledged at most once: its acknowledgement is a revocation.
\<close>

interpretation acked_table: revocable_table wake_clash wk_wake_id wk_acked_at_ms
  "\<lambda>m r. r\<lparr> wk_state := ''acked'', wk_acked_at_ms := Some m \<rparr>"
  by unfold_locales (auto simp: wake_clash_def)

text \<open>
  Every stored request is the document of a read-only request for an item that was applied in its
  campaign, was requested by an event of the log, and is either waiting or acknowledged by one.
\<close>

definition wake_event :: "EventRow list \<Rightarrow> string \<Rightarrow> string \<Rightarrow> EventRow \<Rightarrow> bool" where
  "wake_event es i ty e \<longleftrightarrow>
     e \<in> set es \<and> ew_aggregate_type e = ''chief_wake'' \<and> ew_aggregate_id e = i \<and> ew_event_type e = ty"

definition wake_fact :: "ItemRow list \<Rightarrow> ChiefWakeRequest \<Rightarrow> bool" where
  "wake_fact items w \<longleftrightarrow> \<not> wq_platform_write_attempted w
     \<and> (\<exists>x \<in> set items. it_stream_id x = wq_stream_id w \<and> it_challenge_id x = wq_challenge_id w
          \<and> it_campaign_id x = wq_campaign_id w \<and> it_response_sha256 x = wq_response_sha256 w
          \<and> it_event_version x = wq_event_version w)"

definition wake_doc :: "Env \<Rightarrow> Ledger \<Rightarrow> WakeRow \<Rightarrow> bool" where
  "wake_doc env l r \<longleftrightarrow>
     wk_request_sha256 r = sha256_bytes (en_sha256 env) (wk_request_json r)
     \<and> (\<exists>w. js_to_string (en_wake env) w = Some (wk_request_json r) \<and> wq_wake_id w = wk_wake_id r
          \<and> wake_fact (reconciliation_items l) w)
     \<and> (\<exists>e. wake_event (coordination_events l) (wk_wake_id r) ''chief_wake_requested'' e
          \<and> ew_state_version e = wk_event_version r)
     \<and> (wk_state r = ''waiting'' \<and> wk_acked_at_ms r = None
        \<or> wk_state r = ''acked''
          \<and> (\<exists>e. wake_event (coordination_events l) (wk_wake_id r) ''chief_wake_acked'' e
               \<and> wk_acked_at_ms r = Some (ew_occurred_at_ms e)))"

definition wakes_ok :: "Env \<Rightarrow> Ledger \<Rightarrow> bool" where
  "wakes_ok env l \<longleftrightarrow> wake_table.consistent (chief_wake_requests l)
     \<and> (\<forall>r \<in> set (chief_wake_requests l). wake_doc env l r)"

lemma wakes_ok_initialize: "wakes_ok env initialize"
  by (simp add: wakes_ok_def initialize_def wake_table.consistent_Nil)

lemma wake_event_append: "wake_event es i ty e \<Longrightarrow> wake_event (es @ fs) i ty e"
  by (simp add: wake_event_def)

lemma wake_doc_mono:
  assumes "wake_doc env l r" "coordination_events l' = coordination_events l @ es"
    and "reconciliation_items l' = reconciliation_items l @ xs"
  shows "wake_doc env l' r"
proof -
  have "wake_fact (reconciliation_items l') w" if "wake_fact (reconciliation_items l) w" for w
    using that unfolding assms(3) wake_fact_def by (metis UnI1 set_append)
  then show ?thesis
    using assms(1) wake_event_append unfolding wake_doc_def assms(2) by metis
qed

lemma wakes_ok_mono:
  assumes "wakes_ok env l" "coordination_events l' = coordination_events l @ es"
    and "reconciliation_items l' = reconciliation_items l @ xs" "chief_wake_requests l' = chief_wake_requests l"
  shows "wakes_ok env l'"
  using assms(1) wake_doc_mono [OF _ assms(2,3)] unfolding wakes_ok_def assms(4) by blast

lemma applied_fact_item:
  assumes "applied_fact env l w c = Inr u" "recon_ok env l" "c = wq_campaign_id w" "\<not> wq_platform_write_attempted w"
  shows "wake_fact (reconciliation_items l) w"
proof -
  obtain p where p: "load_reconciliation_snapshot env l (wq_stream_id w) (wq_challenge_id w) = Ok (Some p)"
      "pz_campaign_id p = c"
    and f: "filter (\<lambda>r. it_stream_id r = wq_stream_id w \<and> it_challenge_id r = wq_challenge_id w
                 \<and> it_response_sha256 r = wq_response_sha256 w \<and> it_event_version r = wq_event_version w)
               (reconciliation_items l) \<noteq> []"
    using assms(1) by (auto simp: applied_fact_def filter_empty_conv split: if_splits)
  then obtain x where x: "x \<in> set (reconciliation_items l)" "it_stream_id x = wq_stream_id w"
      "it_challenge_id x = wq_challenge_id w" "it_response_sha256 x = wq_response_sha256 w"
      "it_event_version x = wq_event_version w"
    by (auto simp: filter_empty_conv)
  then obtain y where "y \<in> set (reconciliation_snapshots l)" "sn_stream_id y = it_stream_id x"
      "sn_challenge_id y = it_challenge_id x" "sn_campaign_id y = it_campaign_id x"
    using assms(2) unfolding recon_ok_def item_doc_def by blast
  then have "it_campaign_id x = c"
    using load_snapshot_campaign [of env l "wq_stream_id w" "wq_challenge_id w" c y] p x(2,3) assms(2)
    by (simp add: recon_ok_def)
  then show ?thesis
    using x assms(3,4) unfolding wake_fact_def by blast
qed

lemma record_chief_wake_cases:
  assumes "record_chief_wake_audited env l w c now event = Inr (v, l')"
  obtains (replayed) r where "l' = l" "r \<in> set (chief_wake_requests l)" "wk_wake_id r = wq_wake_id w"
      "js_to_string (en_wake env) w = Some (wk_request_json r)"
  | (recorded) json where "applied_fact env l w c = Ok ()" "c = wq_campaign_id w"
      "\<not> wq_platform_write_attempted w" "js_to_string (en_wake env) w = Some json"
      "cr_aggregate_type event = ''chief_wake''" "cr_aggregate_id event = wq_wake_id w"
      "cr_event_type event = ''chief_wake_requested''"
      "insert_row wake_clash (wake_row env w json now v) (chief_wake_requests l)
         = Inr (chief_wake_requests l @ [wake_row env w json now v])"
      "l' = l\<lparr> coordination_events := coordination_events l @ [event_row event (int v)],
               chief_wake_requests := chief_wake_requests l @ [wake_row env w json now v] \<rparr>"
proof -
  obtain json where guards: "applied_fact env l w c = Ok ()" "c = wq_campaign_id w"
      "\<not> wq_platform_write_attempted w" "js_to_string (en_wake env) w = Some json"
      "cr_aggregate_type event = ''chief_wake''" "cr_aggregate_id event = wq_wake_id w"
      "cr_event_type event = ''chief_wake_requested''"
    and audit: "audited l event (replayed_wake w json) (insert_wake env w json now) = Inr (v, l')"
    using assms by (auto simp: record_chief_wake_audited_def split: if_splits)
  from audit show ?thesis
  proof (cases rule: audited_cases)
    case (replayed a)
    then show ?thesis
      using that(1) guards(4) by (auto simp: replayed_wake_def dest!: fetch_optional_SomeD)
  next
    case (fresh a l1)
    then show ?thesis
      using that(2) [OF guards] by (auto simp: insert_wake_def split: if_splits)
  qed
qed

lemma record_chief_wake_ok:
  assumes "record_chief_wake_audited env l w c now event = Inr (v, l')" "wakes_ok env l" "recon_ok env l"
  shows "wakes_ok env l'"
  using assms(1)
proof (cases rule: record_chief_wake_cases)
  case (recorded json)
  let ?row = "wake_row env w json now v"
  have l': "coordination_events l' = coordination_events l @ [event_row event (int v)]"
      "reconciliation_items l' = reconciliation_items l @ []" "chief_wake_requests l' = chief_wake_requests l @ [?row]"
    using recorded(9) by simp_all
  have "wake_fact (reconciliation_items l') w"
    using applied_fact_item [OF recorded(1) assms(3) recorded(2,3)] l'(2) by simp
  moreover have "wake_event (coordination_events l') (wq_wake_id w) ''chief_wake_requested'' (event_row event (int v))"
    using recorded(5-7) unfolding l' wake_event_def by (simp add: event_row_def)
  ultimately have "wake_doc env l' ?row"
    using recorded(4) unfolding wake_doc_def wake_row_def by (auto simp: event_row_def)
  moreover have "wake_table.consistent (chief_wake_requests l')"
    using recorded(8) assms(2) wake_table.consistent_insert unfolding wakes_ok_def l'(3) by blast
  ultimately show ?thesis
    using assms(2) wake_doc_mono [OF _ l'(1,2)] unfolding wakes_ok_def l'(3) by auto
qed (use assms in simp)

lemma ack_chief_wake_cases:
  assumes "ack_chief_wake_audited l i now event = Inr (v, l')"
  obtains (replayed) r where "l' = l" "r \<in> set (chief_wake_requests l)" "wk_wake_id r = i" "wk_acked_at_ms r = Some now"
  | (acked) "\<exists>r \<in> set (chief_wake_requests l). waiting_wake i r" "cr_aggregate_type event = ''chief_wake''"
      "cr_aggregate_id event = i" "cr_event_type event = ''chief_wake_acked''" "cr_occurred_at_ms event = now"
      "l' = l\<lparr> coordination_events := coordination_events l @ [event_row event (int v)],
               chief_wake_requests := update_where (waiting_wake i)
                 (\<lambda>r. r\<lparr> wk_state := ''acked'', wk_acked_at_ms := Some now \<rparr>) (chief_wake_requests l) \<rparr>"
proof -
  have guards: "cr_aggregate_type event = ''chief_wake''" "cr_aggregate_id event = i"
      "cr_event_type event = ''chief_wake_acked''" "cr_occurred_at_ms event = now"
    and audit: "audited l event (replayed_ack i now) (mark_acked i now) = Inr (v, l')"
    using assms by (auto simp: ack_chief_wake_audited_def split: if_splits)
  from audit show ?thesis
  proof (cases rule: audited_cases)
    case (replayed a)
    then show ?thesis
      using that(1) by (auto simp: replayed_ack_def dest!: fetch_optional_SomeD)
  next
    case (fresh a l1)
    then show ?thesis
      using that(2) [OF _ guards] by (auto simp: mark_acked_def split: if_splits)
  qed
qed

lemma ack_chief_wake_ok:
  assumes "ack_chief_wake_audited l i now event = Inr (v, l')" "wakes_ok env l"
  shows "wakes_ok env l'" "acked_table.evolves (chief_wake_requests l) (chief_wake_requests l')"
proof -
  let ?ack = "\<lambda>r. r\<lparr> wk_state := ''acked'', wk_acked_at_ms := Some now \<rparr>"
  have "wakes_ok env l' \<and> acked_table.evolves (chief_wake_requests l) (chief_wake_requests l')"
    using assms(1)
  proof (cases rule: ack_chief_wake_cases)
    case acked
    have l': "coordination_events l' = coordination_events l @ [event_row event (int v)]"
        "reconciliation_items l' = reconciliation_items l @ []"
        "chief_wake_requests l' = update_where (waiting_wake i) ?ack (chief_wake_requests l)"
      using acked(6) by simp_all
    have waiting: "wk_acked_at_ms r = None" if "r \<in> set (chief_wake_requests l)" "waiting_wake i r" for r
      using that assms(2) unfolding wakes_ok_def wake_doc_def waiting_wake_def by auto
    have ev: "wake_event (coordination_events l') i ''chief_wake_acked'' (event_row event (int v))"
      using acked(2-4) unfolding l' wake_event_def by (simp add: event_row_def)
    have "wake_doc env l' (?ack r)" if "wake_doc env l' r" "wk_wake_id r = i" for r
      using that ev acked(5) unfolding wake_doc_def by (auto simp: event_row_def intro!: exI [of _ "event_row event (int v)"])
    then have "\<forall>r \<in> set (chief_wake_requests l'). wake_doc env l' r"
      using assms(2) wake_doc_mono [OF _ l'(1,2)] unfolding wakes_ok_def l'(3)
      by (auto simp: set_update_where waiting_wake_def)
    moreover have "wake_table.consistent (chief_wake_requests l')"
      using assms(2) acked_table.consistent_revoke unfolding wakes_ok_def l'(3) by blast
    moreover have "update_where (waiting_wake i) ?ack (chief_wake_requests l)
        = update_where (\<lambda>r. (waiting_wake i) r \<and> wk_acked_at_ms r = None) ?ack (chief_wake_requests l)"
      using waiting by (auto simp: update_where_def)
    then have "acked_table.evolves (chief_wake_requests l) (chief_wake_requests l')"
      unfolding l'(3) using acked_table.evolves_revoke [of "\<lambda>r. (waiting_wake i) r \<and> wk_acked_at_ms r = None"] by simp
    ultimately show ?thesis unfolding wakes_ok_def by blast
  qed (use assms(2) acked_table.evolves_refl in simp)
  then show "wakes_ok env l'" "acked_table.evolves (chief_wake_requests l) (chief_wake_requests l')" by blast+
qed

lemma record_chief_wake_evolves:
  assumes "record_chief_wake_audited env l w c now event = Inr (v, l')"
  shows "acked_table.evolves (chief_wake_requests l) (chief_wake_requests l')"
  using assms
proof (cases rule: record_chief_wake_cases)
  case (recorded json)
  then show ?thesis using acked_table.evolves_insert [OF recorded(8)] by simp
qed (simp add: acked_table.evolves_refl)

interpretation record_wake: audited_operation "\<lambda>l. record_chief_wake_audited env l w c now event" event
  for env w c now event
  by unfold_locales
     (auto simp: record_chief_wake_audited_def insert_wake_def split: if_splits dest!: audited_appends)

interpretation ack_wake: audited_operation "\<lambda>l. ack_chief_wake_audited l i now event" event
  for i now event
  by unfold_locales
     (auto simp: ack_chief_wake_audited_def mark_acked_def split: if_splits dest!: audited_appends)

text \<open>
  What is read after an item was applied: the snapshot the reducer computed, if \<open>serde_json\<close> reads its
  document back.
\<close>

lemma load_after_apply:
  assumes "apply_platform_reconciliation_audited env l monitor item now event = Inr ((px, Applied), l')"
    and "recon_ok env l" and "\<And>s. js_to_string (en_snapshot env) (px_snapshot px) = Some s \<Longrightarrow>
       js_from_str (en_snapshot env) s = Some (px_snapshot px)"
  shows "\<exists>p. load_reconciliation_snapshot env l' (cu_stream_id (ri_cursor item)) (ri_challenge_id item) = Ok (Some p)
     \<and> pz_snapshot p = px_snapshot px \<and> pz_campaign_id p = cx_campaign_id monitor
     \<and> pz_event_version p = px_event_version px \<and> pz_updated_at_ms p = now"
  using assms(1)
proof (cases rule: apply_reconciliation_cases)
  case (applied s0 s1 json sjson v l1)
  define y where "y = snapshot_row env monitor item sjson (Some (int (cu_position (ri_cursor item)))) now (int v)"
  have camp: "sn_campaign_id r = cx_campaign_id monitor"
    if "r \<in> set (reconciliation_snapshots l)" "sn_stream_id r = cu_stream_id (ri_cursor item)"
      "sn_challenge_id r = ri_challenge_id item" for r
    using load_snapshot_campaign [OF _ _ that] applied(10) assms(2) unfolding recon_ok_def by blast
  have table: "reconciliation_snapshots l' = upsert_snapshot_row y (reconciliation_snapshots l)"
    unfolding y_def
    by (rule insert_applied_rows [OF applied(14) applied_facts(2) [OF applied(8)]]) (simp add: applied(13))
  have "y \<in> set (reconciliation_snapshots l')"
    using upsert_snapshot(2) [of "reconciliation_snapshots l" y] camp assms(2) unfolding table
    by (auto simp: recon_ok_def y_def snapshot_row_def snapshot_clash_def)
  moreover have "snapshot_table.consistent (reconciliation_snapshots l')"
    using apply_reconciliation_ok [OF assms(1,2)] by (simp add: recon_ok_def)
  ultimately have "fetch_optional (\<lambda>r. sn_stream_id r = cu_stream_id (ri_cursor item)
      \<and> sn_challenge_id r = ri_challenge_id item) (reconciliation_snapshots l') = Some y"
    by (intro snapshot_table.fetch_unique) (auto simp: y_def snapshot_row_def snapshot_clash_def)
  moreover have "js_from_str (en_snapshot env) sjson = Some s1"
    using assms(3) applied(7,11) by simp
  ultimately show ?thesis
    using applied(11,12) by (simp add: load_reconciliation_snapshot_def y_def snapshot_row_def)
qed simp

end
