(* ===== verification/LedgerRun.thy ===== *)
theory LedgerRun
  imports IdentityPool ThreadBindings WakeLedger
begin

text \<open>
  Histories of the ledger.  \<open>ledger_step\<close> has one rule for each changing operation of the ledger; a
  call that fails is rolled back and is no step.  A reachable ledger is one that some sequence of
  successful calls, in any order and by any callers, makes out of the empty database.  The invariants
  of the components hold together in every reachable ledger, and what is final stays final.
\<close>

inductive ledger_step :: "Env \<Rightarrow> Ledger \<Rightarrow> Ledger \<Rightarrow> bool" for env :: Env where
  reserve: "reserve_with_identity_quota env l i ch owner identity identity_class cost budget
              content_sha256 now interval limits = Inr l' \<Longrightarrow> ledger_step env l l'"
| release: "release l i = Inr l' \<Longrightarrow> ledger_step env l l'"
| commit: "commit l i result_json = Inr l' \<Longrightarrow> ledger_step env l l'"
| append: "append_coordination_event l event = Inr (v, l') \<Longrightarrow> ledger_step env l l'"
| pool: "pool_operation cmd now event l = Inr (v, l') \<Longrightarrow> command_typed cmd \<Longrightarrow> ledger_step env l l'"
| provision: "provision_actor_context env l cx now = Inr l' \<Longrightarrow> ledger_step env l l'"
| provision_audited: "provision_actor_context_audited env l cx now event = Inr (v, l') \<Longrightarrow> ledger_step env l l'"
| revoke: "revoke_actor_lease l i now = Inr l' \<Longrightarrow> ledger_step env l l'"
| revoke_audited: "revoke_actor_lease_audited l i now event = Inr (v, l') \<Longrightarrow> ledger_step env l l'"
| issue: "issue_research_cycle_audited env l chief cyc root_path cap now event = Inr (iss, l') \<Longrightarrow> ledger_step env l l'"
| supersede: "supersede_research_cycle_audited env l chief predecessor cyc root_path cap now event = Inr (iss, l') \<Longrightarrow>
    ledger_step env l l'"
| revoke_cycle: "revoke_research_cycle_audited env l chief i now event = Inr (v, l') \<Longrightarrow> ledger_step env l l'"
| bind_root: "bind_root_thread_to_cycle env l chief i version bid now = Inr (b, l') \<Longrightarrow> ledger_step env l l'"
| bind_child: "bind_child_thread_to_cycle env l parent tid aid sid role bid now = Inr (b, l') \<Longrightarrow> ledger_step env l l'"
| revoke_binding: "revoke_thread_cycle_binding l tid now = Inr l' \<Longrightarrow> ledger_step env l l'"
| canary: "record_recovery_canary env l trace now event = Inr (pc, l') \<Longrightarrow> ledger_step env l l'"
| observation: "record_platform_observation_audited env l monitor ob now event = Inr (pp, l') \<Longrightarrow> ledger_step env l l'"
| confirmation: "record_leaderboard_confirmation_audited env l monitor c now event = Inr (v, l') \<Longrightarrow> ledger_step env l l'"
| reconciliation: "apply_platform_reconciliation_audited env l monitor item now event = Inr (r, l') \<Longrightarrow> ledger_step env l l'"
| wake: "record_chief_wake_audited env l w c now event = Inr (v, l') \<Longrightarrow> ledger_step env l l'"
| ack: "ack_chief_wake_audited l i now event = Inr (v, l') \<Longrightarrow> ledger_step env l l'"

abbreviation ledger_steps :: "Env \<Rightarrow> Ledger \<Rightarrow> Ledger \<Rightarrow> bool" where
  "ledger_steps env \<equiv> (ledger_step env)\<^sup>*\<^sup>*"

definition reachable :: "Env \<Rightarrow> Ledger \<Rightarrow> bool" where
  "reachable env l \<longleftrightarrow> ledger_steps env initialize l"

text \<open>The remaining call is made of two of them.\<close>

lemma consume_is_two_steps:
  "ledger_steps env l (snd (consume_chief_wake_file env l request_json c now events))"
proof -
  have "ledger_steps env l (snd (case record_chief_wake_audited env l w c now e1 of
                  Inl e \<Rightarrow> (Err e, l)
                | Inr (_, l1) \<Rightarrow>
                    (case ack_chief_wake_audited l1 (wq_wake_id w) now e2 of
                       Inl e \<Rightarrow> (Err e, l1)
                     | Inr (v, l2) \<Rightarrow> (Ok v, l2))))" for w e1 e2
    by (auto split: sum.splits intro: rtranclp.rtrancl_into_rtrancl r_into_rtranclp ledger_step.wake ledger_step.ack)
  then show ?thesis
    by (auto simp: consume_chief_wake_file_def split: list.splits option.splits)
qed

section \<open>The invariant\<close>

definition ledger_ok :: "Env \<Rightarrow> Ledger \<Rightarrow> bool" where
  "ledger_ok env l \<longleftrightarrow>
     event_log_ok (coordination_events l) \<and> books_ok l \<and> pool_ok l \<and> leases_ok env (actor_leases l)
     \<and> cycles_ok env l \<and> canaries_ok env (recovery_canaries l) \<and> observations_ok env l
     \<and> confirmations_ok env l \<and> recon_ok env l \<and> wakes_ok env l"

text \<open>
  What stays: the log and the evidence tables grow at their ends, and reservations, leases, cycles,
  briefs, bindings and wakes evolve.
\<close>

definition evidence_grows :: "Ledger \<Rightarrow> Ledger \<Rightarrow> bool" where
  "evidence_grows l l' \<longleftrightarrow>
     (\<exists>xs. recovery_canaries l' = recovery_canaries l @ xs)
     \<and> (\<exists>xs. platform_observations l' = platform_observations l @ xs)
     \<and> (\<exists>xs. leaderboard_confirmations l' = leaderboard_confirmations l @ xs)
     \<and> (\<exists>xs. reconciliation_items l' = reconciliation_items l @ xs)"

definition ledger_evolves :: "Ledger \<Rightarrow> Ledger \<Rightarrow> bool" where
  "ledger_evolves l l' \<longleftrightarrow>
     (\<exists>es. coordination_events l' = coordination_events l @ es)
     \<and> settled_table.evolves (reservations l) (reservations l')
     \<and> lease_table.evolves (actor_leases l) (actor_leases l') \<and> cycle_evolves l l'
     \<and> acked_table.evolves (chief_wake_requests l) (chief_wake_requests l')
     \<and> evidence_grows l l'"

lemma evidence_grows_trans: "evidence_grows l m \<Longrightarrow> evidence_grows m n \<Longrightarrow> evidence_grows l n"
  unfolding evidence_grows_def by (elim conjE exE) simp

lemma ledger_evolves_refl: "ledger_evolves l l"
  by (simp add: ledger_evolves_def evidence_grows_def settled_table.evolves_refl lease_table.evolves_refl
      cycle_evolves_refl acked_table.evolves_refl)

lemma ledger_evolves_trans: "ledger_evolves l m \<Longrightarrow> ledger_evolves m n \<Longrightarrow> ledger_evolves l n"
  unfolding ledger_evolves_def
  by (elim conjE exE, intro conjI)
     (simp, (blast intro: settled_table.evolves_trans lease_table.evolves_trans cycle_evolves_trans acked_table.evolves_trans
        evidence_grows_trans)+)

text \<open>
  The frame rule: an operation shows what it does to its own tables and that it leaves the others
  alone.
\<close>

definition step_ok :: "Env \<Rightarrow> Ledger \<Rightarrow> Ledger \<Rightarrow> bool" where
  "step_ok env l l' \<longleftrightarrow> (ledger_ok env l \<longrightarrow> ledger_ok env l' \<and> ledger_evolves l l')"

definition same_books :: "Ledger \<Rightarrow> Ledger \<Rightarrow> bool" where
  "same_books l l' \<longleftrightarrow> reservations l' = reservations l \<and> attempts l' = attempts l
     \<and> reservation_dimensions l' = reservation_dimensions l"

definition same_cycles :: "Ledger \<Rightarrow> Ledger \<Rightarrow> bool" where
  "same_cycles l l' \<longleftrightarrow> research_cycle_issuances l' = research_cycle_issuances l
     \<and> stage_brief_issuances l' = stage_brief_issuances l \<and> thread_cycle_bindings l' = thread_cycle_bindings l"

definition same_recon :: "Ledger \<Rightarrow> Ledger \<Rightarrow> bool" where
  "same_recon l l' \<longleftrightarrow> reconciliation_items l' = reconciliation_items l
     \<and> reconciliation_snapshots l' = reconciliation_snapshots l
     \<and> reconciliation_penalties l' = reconciliation_penalties l"

lemmas same_defs = same_books_def same_cycles_def same_recon_def evidence_grows_def

definition log_step :: "Ledger \<Rightarrow> Ledger \<Rightarrow> bool" where
  "log_step l l' \<longleftrightarrow> (event_log_ok (coordination_events l) \<longrightarrow> event_log_ok (coordination_events l'))
     \<and> (\<exists>es. coordination_events l' = coordination_events l @ es)"

lemma cycles_ok_leases:
  assumes "cycles_ok env l" "same_cycles l l'" "lease_table.evolves (actor_leases l) (actor_leases l')"
  shows "cycles_ok env l'" "cycle_evolves l l'"
  using assms chief_lease_evolves
  by (auto simp: cycles_ok_def cycle_evolves_def same_cycles_def cycle_table.evolves_refl
      brief_table.evolves_refl binding_table.evolves_refl)

lemma step_okI:
  assumes log: "log_step l l'"
    and books: "same_books l l' \<or> (books_ok l \<longrightarrow> books_ok l') \<and> settled_table.evolves (reservations l) (reservations l')"
    and pool: "identity_pool_entries l' = identity_pool_entries l \<or> (pool_ok l \<longrightarrow> pool_ok l')"
    and leases: "actor_leases l' = actor_leases l \<or> lease_step env l l'"
    and cycles: "same_cycles l l' \<or> actor_leases l' = actor_leases l \<and> cycle_step env l l'"
    and canaries: "recovery_canaries l' = recovery_canaries l
      \<or> (canaries_ok env (recovery_canaries l) \<longrightarrow> canaries_ok env (recovery_canaries l'))"
    and obs: "platform_observations l' = platform_observations l
      \<or> (ledger_ok env l \<longrightarrow> observations_ok env l')"
    and conf: "leaderboard_confirmations l' = leaderboard_confirmations l
      \<or> (confirmations_ok env l \<longrightarrow> confirmations_ok env l')"
    and recon: "same_recon l l' \<or> (recon_ok env l \<longrightarrow> recon_ok env l')"
    and grows: "evidence_grows l l'"
    and wakes: "chief_wake_requests l' = chief_wake_requests l
      \<or> (ledger_ok env l \<longrightarrow> wakes_ok env l' \<and> acked_table.evolves (chief_wake_requests l) (chief_wake_requests l'))"
  shows "step_ok env l l'"
  unfolding step_ok_def
proof
  assume ok: "ledger_ok env l"
  note parts = ok [unfolded ledger_ok_def]
  obtain es where es: "coordination_events l' = coordination_events l @ es" "event_log_ok (coordination_events l')"
    using log parts by (auto simp: log_step_def)
  have ev: "leases_ok env (actor_leases l')" "lease_table.evolves (actor_leases l) (actor_leases l')"
    using leases parts by (auto simp: lease_step_def lease_table.evolves_refl)
  have cyc: "cycles_ok env l' \<and> cycle_evolves l l'"
    using cycles parts cycles_ok_leases [OF _ _ ev(2)] by (auto simp: cycle_step_def)
  have "books_ok l'" using books parts by (elim disjE) (simp_all add: same_books_def books_ok_def)
  moreover have "settled_table.evolves (reservations l) (reservations l')"
    using books by (auto simp: same_books_def settled_table.evolves_refl)
  moreover have "pool_ok l'" using pool parts by (auto simp: pool_ok_def)
  moreover have "canaries_ok env (recovery_canaries l')" using canaries parts by auto
  moreover have "observations_ok env l'"
    using obs ok parts observations_ok_mono [OF _ es(1) ev(2)] by blast
  moreover have "confirmations_ok env l'"
    using conf parts confirmations_ok_mono [OF _ es(1)] by blast
  moreover have "recon_ok env l'"
    using recon parts es(1) recon_ok_frame [of env l l'] by (auto simp: same_recon_def recon_frame_def)
  moreover obtain xs where "reconciliation_items l' = reconciliation_items l @ xs"
    using grows by (auto simp: evidence_grows_def)
  then have "wakes_ok env l'"
    using wakes ok parts wakes_ok_mono [OF _ es(1)] by blast
  moreover have "acked_table.evolves (chief_wake_requests l) (chief_wake_requests l')"
    using wakes ok by (auto simp: acked_table.evolves_refl)
  ultimately show "ledger_ok env l' \<and> ledger_evolves l l'"
    using es ev cyc grows unfolding ledger_ok_def ledger_evolves_def by blast
qed

text \<open>Every operation keeps it.\<close>

lemma log_step_same: "coordination_events l' = coordination_events l \<Longrightarrow> log_step l l'"
  by (simp add: log_step_def)

lemma log_step_append:
  assumes "append_event_in_transaction l event = Inr (a, l1)" "coordination_events l' = coordination_events l1"
  shows "log_step l l'"
  using append_event_log_ok [OF assms(1)] append_event_frame [OF assms(1)] assms(2)
  by (auto simp: log_step_def)

context audited_operation
begin

lemma log_step: "operation l = Inr (v, l') \<Longrightarrow> log_step l l'"
  using appends log_step_append by blast

end

lemma step_ok_refl: "step_ok env l l"
  by (simp add: step_ok_def ledger_evolves_refl)

lemma books_step:
  assumes "l' = l\<lparr> reservations := rs, attempts := ats, reservation_dimensions := ds \<rparr>" "books_ok l \<Longrightarrow> books_ok l'"
    and "settled_table.evolves (reservations l) (reservations l')"
  shows "step_ok env l l'"
  by (rule step_okI) (use assms in \<open>simp_all add: same_defs log_step_same\<close>)

text \<open>The ledger outside the tables a family of operations writes.\<close>

lemma audited_outside:
  fixes E :: "Ledger \<Rightarrow> Ledger"
  assumes "audited l event replay change = Inr (v, l')"
    and "\<And>v l1 l2. change v l1 = Inr l2 \<Longrightarrow> E l2 = E l1" and "\<And>m es. E (m\<lparr> coordination_events := es \<rparr>) = E m"
  shows "E l' = E l"
  using assms(1) by (cases rule: audited_cases) (use assms(2,3) in auto)

definition outside_pool :: "Ledger \<Rightarrow> Ledger" where
  "outside_pool l = l\<lparr> coordination_events := [], identity_pool_entries := [] \<rparr>"

lemma outside_pool_log [simp]:
  "outside_pool (l\<lparr> coordination_events := es \<rparr>) = outside_pool l"
  "outside_pool (l\<lparr> identity_pool_entries := t \<rparr>) = outside_pool l"
  by (simp_all add: outside_pool_def)

lemma pool_frame:
  assumes "pool_operation cmd now event l = Inr (v, l')"
  shows "outside_pool l' = outside_pool l"
proof -
  have upd: "outside_pool l2 = outside_pool l1" if "update_active_pool_row n c x k f l1 = Inr l2" for n c x k f l1 l2
    using that by (auto simp: update_active_pool_row_def Let_def split: if_splits)
  show ?thesis
    using assms
    by (cases "(cmd, now, event, l)" rule: pool_operation.cases)
       (auto simp: provision_identity_pool_entry_audited_def set_identity_pool_frozen_audited_def
          remove_identity_pool_entry_audited_def split: if_splits
          elim!: audited_outside [where E = outside_pool] dest: upd)
qed

lemma pool_step:
  assumes "pool_operation cmd now event l = Inr (v, l')" "command_typed cmd"
  shows "step_ok env l l'"
proof -
  have "same_books l l' \<and> same_cycles l l' \<and> same_recon l l' \<and> actor_leases l' = actor_leases l
    \<and> recovery_canaries l' = recovery_canaries l \<and> platform_observations l' = platform_observations l
    \<and> leaderboard_confirmations l' = leaderboard_confirmations l \<and> chief_wake_requests l' = chief_wake_requests l
    \<and> evidence_grows l l'"
    using pool_frame [OF assms(1)] by (cases l; cases l') (simp add: outside_pool_def same_defs)
  moreover have "log_step l l'"
    using assms(1)
    by (cases "(cmd, now, event, l)" rule: pool_operation.cases)
       (auto dest: provision.log_step set_frozen.log_step remove_entry.log_step)
  moreover have "pool_ok l \<longrightarrow> pool_ok l'"
    using pool_operation_cases assms by blast
  ultimately show ?thesis by (intro step_okI) blast+
qed

definition outside_leases :: "Ledger \<Rightarrow> Ledger" where
  "outside_leases l = l\<lparr> coordination_events := [], actor_leases := [] \<rparr>"

lemma outside_leases_log [simp]:
  "outside_leases (l\<lparr> coordination_events := es \<rparr>) = outside_leases l"
  "outside_leases (l\<lparr> actor_leases := t \<rparr>) = outside_leases l"
  by (simp_all add: outside_leases_def)

lemma leases_step:
  assumes "outside_leases l' = outside_leases l" "log_step l l'" "lease_step env l l'"
  shows "step_ok env l l'"
proof -
  have "same_books l l' \<and> same_cycles l l' \<and> same_recon l l' \<and> identity_pool_entries l' = identity_pool_entries l
    \<and> recovery_canaries l' = recovery_canaries l \<and> platform_observations l' = platform_observations l
    \<and> leaderboard_confirmations l' = leaderboard_confirmations l \<and> chief_wake_requests l' = chief_wake_requests l
    \<and> evidence_grows l l'"
    using assms(1) by (cases l; cases l') (simp add: outside_leases_def same_defs)
  then show ?thesis using assms(2,3) by (intro step_okI) blast+
qed

lemma outside_leases_insert: "insert_lease r l = Inr l' \<Longrightarrow> outside_leases l' = outside_leases l"
  by (auto simp: insert_lease_def)

lemma outside_leases_revoke: "update_revoked_lease i m l = Inr l' \<Longrightarrow> outside_leases l' = outside_leases l"
  by (auto simp: update_revoked_lease_def split: if_splits)

lemma lease_operations_ok:
  "provision_actor_context env l cx now = Inr l' \<Longrightarrow> step_ok env l l'"
  "provision_actor_context_audited env l cx now event = Inr (v, l') \<Longrightarrow> step_ok env l l'"
  "revoke_actor_lease l i now = Inr l' \<Longrightarrow> step_ok env l l'"
  "revoke_actor_lease_audited l i now event = Inr (v, l') \<Longrightarrow> step_ok env l l'"
proof -
  show "step_ok env l l'" if op: "provision_actor_context env l cx now = Inr l'"
    using op by (intro leases_step log_step_same lease_steps)
      (auto simp: provision_actor_context_def simp del: checks_ok dest: outside_leases_insert insert_lease_log)
  show "step_ok env l l'" if op: "provision_actor_context_audited env l cx now event = Inr (v, l')"
    using op by (intro leases_step provision_lease.log_step lease_steps)
      (auto simp: provision_actor_context_audited_def split: if_splits
         elim!: audited_outside [where E = outside_leases] dest: outside_leases_insert)
  show "step_ok env l l'" if op: "revoke_actor_lease l i now = Inr l'"
    using op by (intro leases_step log_step_same lease_steps)
      (auto simp: revoke_actor_lease_def split: if_splits dest: outside_leases_revoke update_revoked_lease_log)
  show "step_ok env l l'" if op: "revoke_actor_lease_audited l i now event = Inr (v, l')"
    using op by (intro leases_step revoke_lease.log_step lease_steps)
      (auto simp: revoke_actor_lease_audited_def split: if_splits
         elim!: audited_outside [where E = outside_leases] dest: outside_leases_revoke)
qed

lemma cycles_step:
  assumes "cycle_step env l l'" "log_step l l'"
  shows "step_ok env l l'"
proof -
  obtain es where "cycle_frame (l\<lparr> coordination_events := es \<rparr>) l'"
    using assms(1) by (auto simp: cycle_step_def)
  then have "same_books l l' \<and> same_recon l l' \<and> identity_pool_entries l' = identity_pool_entries l
    \<and> actor_leases l' = actor_leases l
    \<and> recovery_canaries l' = recovery_canaries l \<and> platform_observations l' = platform_observations l
    \<and> leaderboard_confirmations l' = leaderboard_confirmations l \<and> chief_wake_requests l' = chief_wake_requests l
    \<and> evidence_grows l l'"
    unfolding cycle_frame_def by (cases l; cases l') (simp add: same_defs)
  then show ?thesis using assms by (intro step_okI) blast+
qed

lemma binding_log:
  "bind_root_thread_to_cycle env l chief i version bid now = Inr (b, l') \<Longrightarrow> coordination_events l' = coordination_events l"
  "bind_child_thread_to_cycle env l parent tid aid sid role bid now = Inr (b, l') \<Longrightarrow> coordination_events l' = coordination_events l"
  "revoke_thread_cycle_binding l tid now = Inr l' \<Longrightarrow> coordination_events l' = coordination_events l"
  by (auto simp: bind_root_thread_to_cycle_def bind_child_thread_to_cycle_def insert_thread_cycle_binding_def
      revoke_thread_cycle_binding_def Let_def split: if_splits)

lemma issue_log_step:
  "issue_research_cycle_internal env l chief cyc root_path cap predecessor now event = Inr (iss, l') \<Longrightarrow> log_step l l'"
  using issue_cycle.log_step [of env l chief cyc root_path cap predecessor now event "ci_cycle_event_version iss" l'] by simp

lemma cycle_operations_ok:
  assumes "env_ok env"
  shows "issue_research_cycle_audited env l chief cyc root_path cap now event = Inr (iss, l') \<Longrightarrow> step_ok env l l'"
    "supersede_research_cycle_audited env l chief predecessor cyc root_path cap now event = Inr (iss, l') \<Longrightarrow> step_ok env l l'"
    "revoke_research_cycle_audited env l chief i now event = Inr (v, l') \<Longrightarrow> step_ok env l l'"
    "bind_root_thread_to_cycle env l chief i version bid now = Inr (b, l') \<Longrightarrow> step_ok env l l'"
    "bind_child_thread_to_cycle env l parent tid aid sid role bid now = Inr (b, l') \<Longrightarrow> step_ok env l l'"
    "revoke_thread_cycle_binding l tid now = Inr l' \<Longrightarrow> step_ok env l l'"
  using assms
  by (auto simp: issue_research_cycle_audited_def supersede_research_cycle_audited_def split: if_splits
      intro: cycles_step issue_research_cycle_step revoke_research_cycle_step(1) bind_root_step bind_child_step
        revoke_binding_step issue_log_step revoke_cycle.log_step log_step_same binding_log)

text \<open>The evidence tables; each operation writes the log and one group of them.\<close>

lemma canary_step:
  assumes "record_recovery_canary env l trace now event = Inr (pc, l')"
  shows "step_ok env l l'"
  using assms
proof (cases rule: record_recovery_canary_cases)
  case (recorded v json l1)
  obtain a l2 where "append_event_in_transaction l event = Inr (a, l2)" "coordination_events l' = coordination_events l2"
    using record_recovery_canary_log [OF assms] by blast
  then have "log_step l l'" by (rule log_step_append)
  moreover obtain r where "l' = l1\<lparr> recovery_canaries := recovery_canaries l1 @ [r] \<rparr>"
    using recorded(4) by (auto simp: insert_canary_def)
  ultimately show ?thesis
    using record_recovery_canary_ok [OF assms] recorded(3) by (intro step_okI) (simp_all add: same_defs)
qed (simp add: step_ok_refl)

lemma observation_step:
  assumes "record_platform_observation_audited env l monitor ob now event = Inr (pp, l')" "env_ok env"
  shows "step_ok env l l'"
  using assms(1)
proof (cases rule: record_platform_observation_cases)
  case (recorded v json l1)
  obtain a l2 where "append_event_in_transaction l event = Inr (a, l2)" "coordination_events l' = coordination_events l2"
    using record_platform_observation_log [OF assms(1)] by blast
  then have "log_step l l'" by (rule log_step_append)
  moreover obtain r where "l' = l1\<lparr> platform_observations := platform_observations l1 @ [r] \<rparr>"
    using recorded(11) by (auto simp: insert_observation_def Let_def split: if_splits)
  moreover have "ledger_ok env l \<longrightarrow> observations_ok env l'"
    using record_platform_observation_ok [OF assms(1)] assms(2) by (auto simp: ledger_ok_def env_ok_def)
  ultimately show ?thesis
    using recorded(10) by (intro step_okI) (simp_all add: same_defs)
qed (simp add: step_ok_refl)

lemma confirmation_step:
  assumes "record_leaderboard_confirmation_audited env l monitor c now event = Inr (v, l')"
  shows "step_ok env l l'"
  using assms
proof (cases rule: record_confirmation_cases)
  case (recorded r)
  then show ?thesis
    using record_confirmation.log_step [OF assms] record_confirmation_ok [OF assms]
    by (intro step_okI) (simp_all add: same_defs)
qed (simp add: step_ok_refl)

lemma reconciliation_step:
  assumes "apply_platform_reconciliation_audited env l monitor item now event = Inr (r, l')"
  shows "step_ok env l l'"
proof -
  obtain px res where r: "r = (px, res)" by (cases r)
  from assms [unfolded r] show ?thesis
  proof (cases rule: apply_reconciliation_cases)
    case (applied s0 s1 json sjson v l1)
    obtain ps x y where "l' = l1\<lparr> reconciliation_items := reconciliation_items l1 @ [x],
            reconciliation_snapshots := y, reconciliation_penalties := ps \<rparr>"
      by (rule insert_applied_rows [OF applied(14) applied_facts(2) [OF applied(8)]]) blast
    moreover have "log_step l l'"
      using apply_reconciliation_log [OF assms] log_step_append by (auto simp: log_step_def)
    ultimately show ?thesis
      using apply_reconciliation_ok [OF assms] applied(13) by (intro step_okI) (simp_all add: same_defs)
  qed (simp add: step_ok_refl)
qed

lemma wake_step:
  assumes "record_chief_wake_audited env l w c now event = Inr (v, l')"
  shows "step_ok env l l'"
  using assms
proof (cases rule: record_chief_wake_cases)
  case (recorded json)
  have "ledger_ok env l \<longrightarrow> wakes_ok env l' \<and> acked_table.evolves (chief_wake_requests l) (chief_wake_requests l')"
    using record_chief_wake_ok [OF assms] record_chief_wake_evolves [OF assms] by (auto simp: ledger_ok_def)
  then show ?thesis
    using record_wake.log_step [OF assms] recorded(9) by (intro step_okI) (simp_all add: same_defs)
qed (simp add: step_ok_refl)

lemma ack_step:
  assumes "ack_chief_wake_audited l i now event = Inr (v, l')"
  shows "step_ok env l l'"
  using assms
proof (cases rule: ack_chief_wake_cases)
  case acked
  have "ledger_ok env l \<longrightarrow> wakes_ok env l' \<and> acked_table.evolves (chief_wake_requests l) (chief_wake_requests l')"
    using ack_chief_wake_ok [OF assms, of env] by (auto simp: ledger_ok_def)
  then show ?thesis
    using ack_wake.log_step [OF assms] acked(6) by (intro step_okI) (simp_all add: same_defs)
qed (simp add: step_ok_refl)

lemma append_step:
  assumes "append_coordination_event l event = Inr (v, l')"
  shows "step_ok env l l'"
proof -
  obtain a where a: "append_event_in_transaction l event = Inr (a, l')"
    using assms by (auto simp: append_coordination_event_def)
  obtain es where "l' = l\<lparr> coordination_events := es \<rparr>"
    using append_event_frame [OF a] by blast
  then show ?thesis
    using log_step_append [OF a refl] by (intro step_okI) (simp_all add: same_defs)
qed

lemma book_operations_ok:
  "reserve_with_identity_quota env l i ch owner identity identity_class cost budget content_sha256 now interval limits
     = Inr l' \<Longrightarrow> step_ok env l l'"
  "release l i = Inr l' \<Longrightarrow> step_ok env l l'"
  "commit l i result_json = Inr l' \<Longrightarrow> step_ok env l l'"
proof -
  have finish: "step_ok env l l'" if op: "finish l i (settlement_name s) f = Inr l'" and ok: "books_ok l \<Longrightarrow> books_ok l'" for s f
  proof -
    obtain rs ats where "l' = l\<lparr> reservations := rs, attempts := ats, reservation_dimensions := reservation_dimensions l \<rparr>"
      using op by (auto simp: finish_def Let_def split: if_splits)
    then show ?thesis using ok finish_evolves [OF op] by (rule books_step)
  qed
  show "step_ok env l l'" if "reserve_with_identity_quota env l i ch owner identity identity_class cost budget
      content_sha256 now interval limits = Inr l'"
    by (rule books_step [OF reserve_ok(6) [OF that] books_ok_reserve [OF that] reserve_evolves [OF that]])
  show "step_ok env l l'" if "release l i = Inr l'"
    by (rule finish [OF that [unfolded release_commit_finish(1)] books_ok_release [OF that]])
  show "step_ok env l l'" if "commit l i result_json = Inr l'"
    by (rule finish [OF that [unfolded release_commit_finish(2)] books_ok_commit [OF that]])
qed

lemma ledger_step_ok:
  assumes "ledger_step env l l'" "env_ok env"
  shows "step_ok env l l'"
  using assms(1)
proof cases
  case pool
  then show ?thesis by (rule pool_step)
qed (erule book_operations_ok append_step lease_operations_ok cycle_operations_ok [OF assms(2)] canary_step
       observation_step [OF _ assms(2)] confirmation_step reconciliation_step wake_step ack_step)+

lemma ledger_steps_ok:
  assumes "ledger_steps env l l'" "env_ok env" "ledger_ok env l"
  shows "ledger_ok env l' \<and> ledger_evolves l l'"
  using assms(1)
proof induction
  case base
  then show ?case using assms(3) ledger_evolves_refl by blast
next
  case (step m n)
  then have "step_ok env m n" using ledger_step_ok assms(2) by blast
  then show ?case using step.IH ledger_evolves_trans unfolding step_ok_def by blast
qed

lemma ledger_ok_initialize: "ledger_ok env initialize"
  unfolding ledger_ok_def
  by (simp add: books_ok_initialize pool_ok_initialize cycles_ok_initialize recon_ok_initialize wakes_ok_initialize)
     (simp add: initialize_def event_log_ok_def versions_of_def event_table.consistent_Nil leases_ok_Nil canaries_ok_def
       canary_table.consistent_Nil observations_ok_def observation_table.consistent_Nil confirmations_ok_def
       confirmation_table.consistent_Nil)

lemma reachable_ok: "reachable env l \<Longrightarrow> env_ok env \<Longrightarrow> ledger_ok env l"
  using ledger_steps_ok [OF _ _ ledger_ok_initialize] unfolding reachable_def by blast

lemma reachable_steps:
  assumes "reachable env l" "env_ok env" "ledger_steps env l m"
  shows "ledger_ok env l" "ledger_ok env m" "ledger_evolves l m"
  using reachable_ok [OF assms(1,2)] ledger_steps_ok [OF assms(3,2)] by blast+

lemma reachable_step: "reachable env l \<Longrightarrow> ledger_step env l l' \<Longrightarrow> reachable env l'"
  unfolding reachable_def by (rule rtranclp.rtrancl_into_rtrancl)

lemma one_step: "ledger_step env l l' \<Longrightarrow> ledger_steps env l l'"
  by (rule r_into_rtranclp)

end
