(* ===== verification/SampleHistory.thy ===== *)
theory SampleHistory
  imports LedgerRun
begin

text \<open>
  A small history of the ledger for examples: three registered leases, an issued cycle with its brief,
  the same cycle retired and a worker bound to it, over an environment with a few files and a table of documents.
\<close>

definition sample_lease :: "string \<Rightarrow> Role \<Rightarrow> Action set \<Rightarrow> ActorContext" where
  "sample_lease i r acts =
     (let cx = sample_context r (''agent-'' @ i) acts
      in cx\<lparr> cx_thread_id := ''thread-'' @ i, cx_challenge_id := ''c1'',
             cx_lease := (cx_lease cx)\<lparr> le_lease_id := ''lease-'' @ i, le_challenge_id := ''c1'' \<rparr> \<rparr>)"

definition sample_chief :: ActorContext where
  "sample_chief = sample_lease ''chief'' Chief {Action.Decide, SpawnChild}"

definition sample_solver :: ActorContext where
  "sample_solver = sample_lease ''solver'' Solver {RequestSubmission}"

definition sample_monitor :: ActorContext where
  "sample_monitor = sample_lease ''monitor'' Monitor {MonitorReadOnly}"

definition sample_research :: ResearchCycleRecord where
  "sample_research = sample_record 0 CycleOutcome.Progress ChiefDirective.Continue"

definition run_env :: Env where
  "run_env = sample_env
     \<lparr> en_sha256 := (\<lambda>s. replicate 32 (if s = ''map'' then CHR 0xBB else CHR 0xAA)),
       en_fs := \<lparr> fs_canonicalize = Some, fs_is_dir = (\<lambda>p. p \<in> set [''/w'', ''/p'']),
                  fs_is_file = (\<lambda>p. p \<in> set [''/p/map'', ''/p/.agents/skills/bohrium-bohr/SKILL.md'']) \<rparr>,
       en_read := (\<lambda>p. Some (if p = ''/p/map'' then ''map'' else ''skill'')),
       en_context := json_table [(sample_chief, ''chief''), (sample_solver, ''solver''), (sample_monitor, ''monitor'')],
       en_cycle := json_table [(sample_research, ''cycle'')],
       en_brief := json_table [(sample_brief\<lparr> sb_challenge_id := ''c1'' \<rparr>, ''brief'')] \<rparr>"

definition sample_event :: "string \<Rightarrow> string \<Rightarrow> string \<Rightarrow> nat \<Rightarrow> string \<Rightarrow> string \<Rightarrow> int \<Rightarrow> CoordinationEventRecord" where
  "sample_event i t agg v ty payload now =
     \<lparr> cr_event_id = i, cr_idempotency_key = i, cr_aggregate_type = t, cr_aggregate_id = agg,
       cr_expected_version = v, cr_event_type = ty, cr_payload_json = payload, cr_occurred_at_ms = now \<rparr>"

definition sample_leases :: Ledger where
  "sample_leases = initialize\<lparr> actor_leases := [lease_row sample_chief ''chief'' 20,
     lease_row sample_solver ''solver'' 20, lease_row sample_monitor ''monitor'' 20] \<rparr>"

lemma sample_provisions:
  "provision_actor_context run_env initialize sample_chief 20
     = Inr (initialize\<lparr> actor_leases := [lease_row sample_chief ''chief'' 20] \<rparr>)"
  "provision_actor_context run_env (initialize\<lparr> actor_leases := [lease_row sample_chief ''chief'' 20] \<rparr>) sample_solver 20
     = Inr (initialize\<lparr> actor_leases := [lease_row sample_chief ''chief'' 20, lease_row sample_solver ''solver'' 20] \<rparr>)"
  "provision_actor_context run_env (initialize\<lparr> actor_leases := [lease_row sample_chief ''chief'' 20,
     lease_row sample_solver ''solver'' 20] \<rparr>) sample_monitor 20 = Inr sample_leases"
  by code_simp+

lemma sample_leases_reachable: "reachable run_env sample_leases"
  unfolding reachable_def
  using sample_provisions [THEN ledger_step.provision]
  by (meson rtranclp.rtrancl_into_rtrancl rtranclp.rtrancl_refl)

lemma run_env_ok: "env_ok run_env"
proof -
  have "distinct (map snd [(sample_chief, ''chief''), (sample_solver, ''solver''), (sample_monitor, ''monitor'')])"
    by simp
  then show ?thesis
    unfolding env_ok_def by (simp add: run_env_def json_table_roundtrip roundtrip_reads_back)
qed

definition sample_issue_event :: CoordinationEventRecord where
  "sample_issue_event = sample_event ''e1'' ''campaign'' ''camp'' 0 ''research_cycle_issued'' ''cycle'' 50"

definition sample_logged :: Ledger where
  "sample_logged = sample_leases\<lparr> coordination_events := [event_row sample_issue_event 1] \<rparr>"

definition sample_issued :: Ledger where
  "sample_issued = sample_logged
     \<lparr> research_cycle_issuances :=
         [\<lparr> cy_cycle_id = ''cycle0'', cy_campaign_id = ''camp'', cy_challenge_id = ''c1'', cy_chief_lease_id = ''lease-chief'',
           cy_cycle_json = ''cycle'', cy_cycle_sha256 = digest CHR ''a'', cy_cycle_event_version = 1,
           cy_issued_at_ms = 50, cy_revoked_at_ms = None \<rparr>],
       stage_brief_issuances :=
         [\<lparr> bf_brief_id = ''b1'', bf_cycle_id = ''cycle0'', bf_campaign_id = ''camp'', bf_challenge_id = ''c1'',
           bf_role = ''solver'', bf_brief_json = ''brief'', bf_brief_sha256 = digest CHR ''a'', bf_workspace_root = ''/p'',
           bf_capability_map_path = ''map'', bf_issued_at_ms = 50, bf_expires_at_ms = 90, bf_revoked_at_ms = None \<rparr>],
       thread_cycle_bindings :=
         [\<lparr> bd_binding_id = ''chief:thread-chief:cycle0'', bd_thread_id = ''thread-chief'', bd_parent_thread_id = None,
           bd_agent_id = ''agent-chief'', bd_session_id = ''s1'', bd_campaign_id = ''camp'', bd_challenge_id = ''c1'',
           bd_cycle_id = ''cycle0'', bd_cycle_event_version = 1, bd_chief_lease_id = ''lease-chief'', bd_role = ''chief'',
           bd_issued_at_ms = 50, bd_revoked_at_ms = None \<rparr>] \<rparr>"

lemma sample_digest:
  "hex_bytes (replicate 32 (CHR 0xAA)) = digest CHR ''a''" "hex_bytes (replicate 32 (CHR 0xBB)) = digest CHR ''b''"
  by code_simp+

lemma sample_files:
  "resolve_workspace_relative_file run_env ''/p'' ''map'' label = Ok ''/p/map''"
  "resolve_workspace_relative_file run_env ''/p'' ''.agents/skills/bohrium-bohr/SKILL.md'' label
     = Ok ''/p/.agents/skills/bohrium-bohr/SKILL.md''"
  "path_starts_with ''/p'' ''/w'' = False"
  by code_simp+

lemma sample_hashes:
  "sha256_file (en_read run_env) (en_sha256 run_env) ''/p/map'' = Some (digest CHR ''b'')"
  "sha256_file (en_read run_env) (en_sha256 run_env) ''/p/.agents/skills/bohrium-bohr/SKILL.md'' = Some (digest CHR ''a'')"
  "fs_canonicalize (en_fs run_env) p = Some p" "fs_is_dir (en_fs run_env) ''/w''" "fs_is_dir (en_fs run_env) ''/p''"
  by (simp_all add: run_env_def sha256_file_def sha256_bytes_def sample_digest)

lemma sample_brief_workspace:
  "check_brief_workspace run_env ''/p'' ''map'' (sample_brief\<lparr> sb_challenge_id := ''c1'' \<rparr>) = Ok ()"
  unfolding check_brief_workspace_def validate_stage_brief_files_def check_skill_file_def sample_brief_def
  by (simp add: sample_files sample_hashes eq_ignore_ascii_case_def)

lemma sample_issue_parts:
  "live_chief run_env sample_leases sample_chief 50 = Ok ()"
  "ResearchCycleRecord_validate sample_research 50 = Ok ()"
  "js_to_string (en_cycle run_env) sample_research = Some ''cycle''"
  "append_event_in_transaction sample_leases sample_issue_event
     = Ok (\<lparr> ae_version = 1, ae_replayed = False \<rparr>, sample_logged)"
  by code_simp+

lemma sample_research_fields:
  "rc_cycle_id sample_research = ''cycle0''" "rc_campaign_id sample_research = ''camp''" "rc_challenge_id sample_research = ''c1''"
  "rc_stage_briefs sample_research = [sample_brief\<lparr> sb_challenge_id := ''c1'' \<rparr>]"
  "sb_campaign_id sample_brief = ''camp''" "sb_target_role sample_brief = Solver" "sb_brief_id sample_brief = ''b1''"
  "sb_expires_at_ms sample_brief = 90"
  "js_to_string (en_brief run_env) (sample_brief\<lparr> sb_challenge_id := ''c1'' \<rparr>) = Some ''brief''"
  "sha256_bytes (en_sha256 run_env) ''brief'' = digest CHR ''a''" "sha256_bytes (en_sha256 run_env) ''cycle'' = digest CHR ''a''"
  by code_simp+

lemma sample_issued_row:
  "issuance_inserts run_env sample_chief sample_research ''/p'' ''map'' ''cycle'' 50 1 sample_logged = Inr sample_issued"
  by (simp add: issuance_inserts_def i64_version_def i64_max_def sample_research_fields insert_row_def insert_brief_def
      brief_to_string_def sample_issued_def sample_logged_def sample_leases_def initialize_def role_name_def
      sample_chief_def sample_lease_def sample_context_def Let_def)

lemma sample_issue:
  "\<exists>iss. issue_research_cycle_audited run_env sample_leases sample_chief sample_research ''/p'' ''map'' 50
     sample_issue_event = Inr (iss, sample_issued)"
proof -
  have same: "rc_campaign_id sample_research = cx_campaign_id sample_chief" "rc_challenge_id sample_research = cx_challenge_id sample_chief"
    "rc_stage_briefs sample_research = [sample_brief\<lparr> sb_challenge_id := ''c1'' \<rparr>]"
    "cr_aggregate_type sample_issue_event = ''campaign''" "cr_aggregate_id sample_issue_event = cx_campaign_id sample_chief"
    "cr_expected_version sample_issue_event = rc_expected_state_version sample_research"
    "cr_event_type sample_issue_event = ''research_cycle_issued''" "cr_payload_json sample_issue_event = ''cycle''"
    "cr_occurred_at_ms sample_issue_event = 50"
    by (simp_all add: sample_research_def sample_record_def sample_issue_event_def sample_event_def sample_chief_def
        sample_lease_def sample_context_def Let_def)
  have none: "research_cycle_issuances sample_logged = []"
    by (simp add: sample_logged_def sample_leases_def initialize_def)
  have retire: "retire_predecessor run_env sample_research None 50 sample_logged = Ok sample_logged"
    by (simp add: retire_predecessor_def none)
  have audit: "audited sample_leases sample_issue_event
      (replayed_issuance run_env sample_chief sample_research ''/p'' ''map'' None ''cycle'' 50)
      (\<lambda>version l1. and_then (retire_predecessor run_env sample_research None 50 l1)
         (issuance_inserts run_env sample_chief sample_research ''/p'' ''map'' ''cycle'' 50 version)) = Ok (1, sample_issued)"
    by (simp only: audited_def sample_issue_parts(4) and_then_simps prod.case AppendedEvent.simps if_False retire
        sample_issued_row)
  have briefs: "checks (map (check_brief_workspace run_env ''/p'' ''map'') (rc_stage_briefs sample_research)) = Ok ()"
    by (simp add: same(3) sample_brief_workspace)
  show ?thesis
    unfolding issue_research_cycle_audited_def issue_research_cycle_internal_def sample_issue_parts(1-3) and_then_simps
      map_err_def sum.case sample_hashes(3) ok_or_simps briefs Let_def option.case audit
    by (simp add: same sample_hashes(5))
qed

lemma sample_issued_reachable: "reachable run_env sample_issued"
  using sample_issue sample_leases_reachable ledger_step.issue unfolding reachable_def
  by (metis rtranclp.rtrancl_into_rtrancl)


section \<open>Retiring the cycle\<close>

definition sample_retired :: Ledger where
  "sample_retired =
     (case revoke_research_cycle_audited run_env sample_issued sample_chief ''cycle0'' 60
             (sample_event ''e2'' ''campaign'' ''camp'' 1 ''research_cycle_revoked'' ''{}'' 60) of
        Inr (v, l) \<Rightarrow> l | Inl _ \<Rightarrow> initialize)"

lemma sample_revoke:
  "\<exists>v. revoke_research_cycle_audited run_env sample_issued sample_chief ''cycle0'' 60
     (sample_event ''e2'' ''campaign'' ''camp'' 1 ''research_cycle_revoked'' ''{}'' 60) = Inr (v, sample_retired)"
proof -
  have "\<not> isl (revoke_research_cycle_audited run_env sample_issued sample_chief ''cycle0'' 60
     (sample_event ''e2'' ''campaign'' ''camp'' 1 ''research_cycle_revoked'' ''{}'' 60))"
    by code_simp
  then show ?thesis
    by (cases "revoke_research_cycle_audited run_env sample_issued sample_chief ''cycle0'' 60
     (sample_event ''e2'' ''campaign'' ''camp'' 1 ''research_cycle_revoked'' ''{}'' 60)")
       (auto simp: sample_retired_def)
qed


section \<open>A bound worker\<close>

definition sample_bound :: Ledger where
  "sample_bound = sample_issued\<lparr> thread_cycle_bindings := thread_cycle_bindings sample_issued @
     [\<lparr> bd_binding_id = ''b-1'', bd_thread_id = ''worker'', bd_parent_thread_id = Some ''thread-chief'',
       bd_agent_id = ''worker'', bd_session_id = ''s1'', bd_campaign_id = ''camp'', bd_challenge_id = ''c1'',
       bd_cycle_id = ''cycle0'', bd_cycle_event_version = 1, bd_chief_lease_id = ''lease-chief'', bd_role = ''solver'',
       bd_issued_at_ms = 60, bd_revoked_at_ms = None \<rparr>] \<rparr>"

lemma sample_documents:
  "js_from_str (en_brief run_env) ''brief'' = Some (sample_brief\<lparr> sb_challenge_id := ''c1'' \<rparr>)"
  "js_from_str (en_cycle run_env) ''cycle'' = Some sample_research"
  "ResearchCycleRecord_validate sample_research 60 = Ok ()"
  "StageBrief_validate (sample_brief\<lparr> sb_challenge_id := ''c1'' \<rparr>) 60 = Ok ()"
  by code_simp+

lemma sample_names: "\<not> is_blank ''cycle0''" "\<not> is_blank ''camp''" "\<not> is_blank ''c1''" "\<not> is_blank ''thread-chief''"
  "\<not> is_blank ''worker''" "\<not> is_blank ''s1''" "\<not> is_blank ''b-1''"
  by code_simp+

lemma sample_load:
  assumes "research_cycle_issuances l = research_cycle_issuances sample_issued"
    "stage_brief_issuances l = stage_brief_issuances sample_issued"
  shows "load_active_cycle_for_binding run_env l ''cycle0'' ''camp'' ''c1'' ''lease-chief'' 1 60 = Ok sample_research"
    and "\<exists>pb. load_stage_brief_issuance run_env l ''cycle0'' ''camp'' ''c1'' Solver 60 = Ok pb"
  by (simp_all add: assms load_active_cycle_for_binding_def load_stage_brief_issuance_def sample_issued_def sample_documents sample_research_fields
      sample_names role_name_def)

lemma sample_bind:
  "\<exists>b. bind_child_thread_to_cycle run_env sample_issued ''thread-chief'' ''worker'' ''worker'' ''s1'' Solver ''b-1'' 60
     = Ok (b, sample_bound)"
proof -
  obtain pb where "load_stage_brief_issuance run_env sample_issued ''cycle0'' ''camp'' ''c1'' Solver 60 = Ok pb"
    using sample_load(2) by blast
  then show ?thesis
    using sample_load(1) [of sample_issued]
    by (simp add: bind_child_thread_to_cycle_def sample_issued_def sample_names sample_documents sample_research_fields role_name_def Let_def
        insert_thread_cycle_binding_def i64_max_def binding_clash_def binding_row_def sample_bound_def)
qed

lemma sample_bound_reachable: "reachable run_env sample_bound"
proof -
  obtain b where "bind_child_thread_to_cycle run_env sample_issued ''thread-chief'' ''worker'' ''worker'' ''s1'' Solver
      ''b-1'' 60 = Ok (b, sample_bound)"
    using sample_bind ..
  then show ?thesis by (rule reachable_step [OF sample_issued_reachable ledger_step.bind_child])
qed

lemma sample_resolved:
  "\<exists>b. resolve_thread_cycle_binding_for_live_thread run_env sample_bound ''worker'' ''s1'' Solver 60 = Ok b
     \<and> tb_cycle_id b = ''cycle0''"
proof -
  obtain pb where "load_stage_brief_issuance run_env sample_bound ''cycle0'' ''camp'' ''c1'' Solver 60 = Ok pb"
    using sample_load(2) [of sample_bound] by (auto simp: sample_bound_def)
  moreover have "load_active_cycle_for_binding run_env sample_bound ''cycle0'' ''camp'' ''c1'' ''lease-chief'' 1 60
      = Ok sample_research"
    by (rule sample_load(1)) (simp_all add: sample_bound_def)
  moreover obtain t where "thread_cycle_bindings sample_bound = t"
    and "t = thread_cycle_bindings sample_issued @
     [\<lparr> bd_binding_id = ''b-1'', bd_thread_id = ''worker'', bd_parent_thread_id = Some ''thread-chief'',
       bd_agent_id = ''worker'', bd_session_id = ''s1'', bd_campaign_id = ''camp'', bd_challenge_id = ''c1'',
       bd_cycle_id = ''cycle0'', bd_cycle_event_version = 1, bd_chief_lease_id = ''lease-chief'', bd_role = ''solver'',
       bd_issued_at_ms = 60, bd_revoked_at_ms = None \<rparr>]"
    by (simp add: sample_bound_def)
  ultimately show ?thesis
    by (simp add: resolve_thread_cycle_binding_for_live_thread_def resolve_thread_cycle_binding_def sample_issued_def
        sample_names role_name_def parse_role_name_def)
qed

end
