(* ===== verification/LedgerSafety.thy ===== *)
theory LedgerSafety
  imports SampleHistory
begin

text \<open>
  What the histories of the ledger guarantee, over all orders and callers: the log is append-only and
  idempotent, what is revoked, retired or settled stays so, whoever is resolved has the authority the
  administrator and the chief gave, and what was recorded reads back.
\<close>

section \<open>The log\<close>

lemma append_event_conflict:
  assumes "event_log_ok (coordination_events m)" "event_row e v \<in> set (coordination_events m)"
    and "cr_idempotency_key e' = cr_idempotency_key e" "append_event_in_transaction m e' = Inr (a, m')"
  shows "event_row e' (int (ae_version a)) = event_row e v" "m' = m"
proof -
  have "fetch_optional (\<lambda>r. ew_idempotency_key r = cr_idempotency_key e') (coordination_events m) = Some (event_row e v)"
    using assms(1-3)
    by (intro event_table.fetch_unique) (auto simp: event_log_ok_def event_row_def event_clash_def)
  then have "m' = m \<and> event_row e' (int (ae_version a)) = event_row e v"
    using assms(3,4)
    by (auto simp: append_event_in_transaction_def same_event_def Let_def event_row_def split: if_splits)
  then show "event_row e' (int (ae_version a)) = event_row e v" "m' = m" by blast+
qed

text \<open>
  C7. The coordination log.  Once an event was appended to the ledger of some history, then in every
  later ledger of that history: the events logged so far are still there, in front and in the same
  order; the versions of every aggregate are 1, 2, 3, \<dots>; appending the same event again returns the
  same version and changes nothing; and any other event with its idempotency key is refused unless
  it is that event with the same version.
\<close>

theorem log_is_append_only_and_idempotent:
  assumes "reachable env l" "env_ok env" "append_coordination_event l e = Inr (v, l1)" "ledger_steps env l1 m"
  shows "(\<exists>es. coordination_events m = coordination_events l1 @ es)
    \<and> (\<forall>t i. versions_of t i (coordination_events m) = map int [1 ..< length (versions_of t i (coordination_events m)) + 1])
    \<and> append_coordination_event m e = Inr (v, m)
    \<and> (\<forall>e' v' m'. cr_idempotency_key e' = cr_idempotency_key e \<longrightarrow> append_coordination_event m e' = Inr (v', m') \<longrightarrow>
         event_row e' (int v') = event_row e (int v) \<and> m' = m)"
proof -
  have l1: "reachable env l1"
    using reachable_step [OF assms(1) ledger_step.append [OF assms(3)]] .
  note ok = reachable_steps [OF l1 assms(2,4)]
  have log: "event_log_ok (coordination_events m)" and log0: "event_log_ok (coordination_events l)"
    using ok(2) reachable_ok [OF assms(1,2)] by (auto simp: ledger_ok_def)
  obtain es where es: "coordination_events m = coordination_events l1 @ es"
    using ok(3) by (auto simp: ledger_evolves_def)
  obtain a where a: "append_event_in_transaction l e = Inr (a, l1)" "v = ae_version a"
    using assms(3) by (auto simp: append_coordination_event_def)
  have again: "append_coordination_event m e = Inr (v, m)"
    using append_event_replay [OF a(1) log0 es log] a(2) by (simp add: append_coordination_event_def)
  have "event_row e (int v) \<in> set (coordination_events m)"
    using a(1) by (cases rule: append_event_cases) (use a(2) es in auto)
  then have "event_row e' (int v') = event_row e (int v) \<and> m' = m"
    if "cr_idempotency_key e' = cr_idempotency_key e" "append_coordination_event m e' = Inr (v', m')" for e' v' m'
    using append_event_conflict [OF log] that by (auto simp: append_coordination_event_def)
  then show ?thesis
    using es log again unfolding event_log_ok_def by blast
qed

definition sample_second :: Ledger where
  "sample_second = sample_logged\<lparr> coordination_events := coordination_events sample_logged
     @ [event_row (sample_event ''e2'' ''campaign'' ''camp'' 1 ''note'' ''{}'' 60) 2] \<rparr>"

lemma sample_appends:
  "append_coordination_event sample_leases sample_issue_event = Inr (1, sample_logged)"
  "append_coordination_event sample_logged (sample_event ''e2'' ''campaign'' ''camp'' 1 ''note'' ''{}'' 60)
     = Inr (2, sample_second)"
  by code_simp+

theorem log_is_append_only_and_idempotent_witness:
  "append_coordination_event sample_second sample_issue_event = Inr (1, sample_second)
   \<and> (\<exists>es. coordination_events sample_second = coordination_events sample_logged @ es)"
  using log_is_append_only_and_idempotent [OF sample_leases_reachable run_env_ok sample_appends(1)
      one_step [OF ledger_step.append [OF sample_appends(2)]]]
  by blast

section \<open>Revoked leases\<close>

lemma revoke_actor_lease_row:
  assumes "revoke_actor_lease l i t = Inr l'" "leases_ok env (actor_leases l)"
  shows "\<exists>r \<in> set (actor_leases l'). lw_lease_id r = i \<and> lw_revoked_at_ms r = Some t"
  using assms update_revoked_lease_ok(4) [of i t l l' env] by (auto simp: revoke_actor_lease_def split: if_splits)

lemma revoke_actor_lease_audited_row:
  assumes "revoke_actor_lease_audited l i t event = Inr (v, l')" "leases_ok env (actor_leases l)"
  shows "\<exists>r \<in> set (actor_leases l'). lw_lease_id r = i \<and> lw_revoked_at_ms r = Some t"
proof -
  let ?replay = "\<lambda>(v::nat) l1. and_then (ok_or (fetch_optional (\<lambda>r. lw_lease_id r = i) (actor_leases l1))
                (Degraded ''replayed revocation is missing its lease'')) (\<lambda>r.
           fail_if (lw_revoked_at_ms r \<noteq> Some t)
             (Degraded ''replayed revocation does not match the lease state''))"
  have audit: "audited l event ?replay (\<lambda>v l1. update_revoked_lease i t l1) = Inr (v, l')"
    using assms(1) by (simp add: revoke_actor_lease_audited_def split: if_splits)
  have replay: "\<exists>r \<in> set (actor_leases l1). lw_lease_id r = i \<and> lw_revoked_at_ms r = Some t"
    if "?replay v l1 = Ok ()" for v l1
    using that by (auto dest!: fetch_optional_SomeD)
  from audit show ?thesis
  proof (cases rule: audited_cases)
    case (fresh a l1)
    then show ?thesis using update_revoked_lease_ok(4) [OF fresh(5), of env] assms(2) by simp
  qed (use replay in metis)
qed

lemma revoked_row_is_dead:
  assumes "ledger_ok env m" "r \<in> set (actor_leases m)" "lw_lease_id r = i" "lw_revoked_at_ms r \<noteq> None"
  shows "isl (resolve_actor_context env m i aid sid tid camp ch ic act now)"
    and "isl (resolve_chief_context_for_action env m i aid sid tid camp ch act now)"
    and "isl (resolve_chief_spawn_context env m i aid sid tid camp ch cyc ver now)"
    and "le_lease_id (cx_lease cx) = i \<Longrightarrow> isl (provision_actor_context env m cx now)"
    and "le_lease_id (cx_lease cx) = i \<Longrightarrow> isl (registered_monitor env m cx)"
proof -
  have ok: "leases_ok env (actor_leases m)" using assms(1) by (simp add: ledger_ok_def)
  note dead = revoked_lease_does_not_resolve [OF ok assms(2,4), unfolded assms(3)]
  show "isl (resolve_actor_context env m i aid sid tid camp ch ic act now)"
    "isl (resolve_chief_context_for_action env m i aid sid tid camp ch act now)"
    using dead by (metis sum.exhaust_sel sum.collapse(2))+
  show "isl (resolve_chief_spawn_context env m i aid sid tid camp ch cyc ver now)"
    using dead(2) resolve_spawn_chief by (metis sum.collapse(2))
  show "isl (provision_actor_context env m cx now)" if "le_lease_id (cx_lease cx) = i"
  proof -
    have "provision_actor_context env m cx now \<noteq> Inr m'" for m'
      using assms(2,3) that
      by (auto simp: provision_actor_context_def insert_lease_def lease_row_def lease_clash_def simp del: checks_ok)
    then show ?thesis by (metis sum.collapse(2))
  qed
  show "isl (registered_monitor env m cx)" if "le_lease_id (cx_lease cx) = i"
  proof -
    have "x = r" if "x \<in> set (actor_leases m)" "lw_lease_id x = i" for x
      using ok assms(2,3) that by (intro lease_table.consistent_unique [of "actor_leases m"])
        (auto simp: leases_ok_def lease_clash_def)
    then have "registered_monitor env m cx \<noteq> Inr u" for u
      using that assms(4) by (auto simp: registered_monitor_def dest!: fetch_optional_SomeD)
    then show ?thesis by (metis sum.collapse(2))
  qed
qed

text \<open>
  C10. A revoked lease is dead.  After a lease was revoked, with or without an audit event, then in
  every later ledger of the history no caller is resolved through it, as a solver, as a chief, or as a
  chief that spawns a child; no monitor can record an observation under it; and its identifier cannot
  be provisioned again.
\<close>

theorem revoked_lease_stays_dead:
  assumes "reachable env l" "env_ok env"
    and "revoke_actor_lease l i t = Inr l1 \<or> revoke_actor_lease_audited l i t event = Inr (v, l1)"
    and "ledger_steps env l1 m"
  shows "isl (resolve_actor_context env m i aid sid tid camp ch ic act now)
    \<and> isl (resolve_chief_context env m i aid sid tid camp ch now)
    \<and> isl (resolve_chief_spawn_context env m i aid sid tid camp ch cyc ver now)
    \<and> (le_lease_id (cx_lease cx) = i \<longrightarrow>
         isl (provision_actor_context env m cx now) \<and> isl (record_platform_observation_audited env m cx ob now event'))"
proof -
  have ok: "leases_ok env (actor_leases l)" using reachable_ok [OF assms(1,2)] by (simp add: ledger_ok_def)
  have l1: "reachable env l1"
    using reachable_step [OF assms(1)] assms(3) ledger_step.revoke ledger_step.revoke_audited by metis
  obtain r where r: "r \<in> set (actor_leases l1)" "lw_lease_id r = i" "lw_revoked_at_ms r \<noteq> None"
    using assms(3) revoke_actor_lease_row revoke_actor_lease_audited_row ok by (metis option.discI)
  note later = reachable_steps [OF l1 assms(2,4)]
  have "r \<in> set (actor_leases m)"
    using lease_table.revoked_stays [OF _ r(1,3)] later(3) by (simp add: ledger_evolves_def)
  note dead = revoked_row_is_dead [OF later(2) this r(2,3)]
  have "isl (record_platform_observation_audited env m cx ob now event')" if "le_lease_id (cx_lease cx) = i"
  proof -
    have "record_platform_observation_audited env m cx ob now event' \<noteq> Inr p" for p
      using dead(5) [OF that] by (auto simp: record_platform_observation_audited_def Let_def split: if_splits)
    then show ?thesis by (metis sum.collapse(2))
  qed
  then show ?thesis
    using dead(1-4) by (simp add: resolve_chief_context_def)
qed

theorem revoked_lease_stays_dead_witness:
  "\<exists>l1. revoke_actor_lease sample_leases ''lease-chief'' 60 = Inr l1
     \<and> isl (resolve_chief_context run_env l1 ''lease-chief'' ''agent-chief'' ''s1'' ''thread-chief'' ''camp'' ''c1'' 70)"
proof -
  have "\<not> isl (revoke_actor_lease sample_leases ''lease-chief'' 60)" by code_simp
  then obtain l1 where "revoke_actor_lease sample_leases ''lease-chief'' 60 = Inr l1"
    by (metis sum.collapse(2))
  then show ?thesis
    using revoked_lease_stays_dead [OF sample_leases_reachable run_env_ok _ rtranclp.rtrancl_refl] by blast
qed

section \<open>Resolved callers\<close>

text \<open>
  C11. Whoever is resolved was provisioned.  In every reachable ledger, a context that a solver or chief
  lookup returns is the one an administrator provisioned under that lease, valid for its role when it
  was registered; its lease is registered and not revoked, the identity asked for is the registered
  one, and the lease is valid for the requested action now.
\<close>

theorem resolved_actor_was_provisioned:
  assumes "reachable env l" "env_ok env"
    and "role = Solver \<and> resolve_actor_context env l i aid sid tid camp ch ic act now = Inr cx
       \<or> role = Chief \<and> resolve_chief_context_for_action env l i aid sid tid camp ch act now = Inr cx"
  shows "(\<exists>r \<in> set (actor_leases l). provisioned env r cx \<and> lw_lease_id r = i \<and> lw_revoked_at_ms r = None
      \<and> validate_persisted_actor_context cx (lw_registered_at_ms r) = Ok ())
    \<and> context_is cx role i aid sid tid camp ch \<and> ActorContext_validate cx act now = Ok ()
    \<and> (role = Solver \<longrightarrow> ic \<in> le_authorized_identity_classes (cx_lease cx))"
proof -
  have ok: "leases_ok env (actor_leases l)" "json_roundtrip (en_context env)"
    using reachable_ok [OF assms(1,2)] assms(2) by (simp_all add: ledger_ok_def env_ok_def)
  obtain r where r: "r \<in> set (actor_leases l)" "lw_lease_id r = i" "lw_revoked_at_ms r = None"
    "js_from_str (en_context env) (lw_context_json r) = Some cx"
    "context_is cx role i aid sid tid camp ch" "ActorContext_validate cx act now = Ok ()"
    "role = Solver \<longrightarrow> ic \<in> le_authorized_identity_classes (cx_lease cx)"
    using assms(3) by (elim disjE conjE resolve_actor_row resolve_chief_row) auto
  have "provisioned env r cx"
    using resolved_context_was_provisioned [OF ok r(1,4)] .
  then show ?thesis
    using r unfolding provisioned_def by blast
qed

theorem resolved_actor_was_provisioned_witness:
  "resolve_chief_context run_env sample_leases ''lease-chief'' ''agent-chief'' ''s1'' ''thread-chief'' ''camp'' ''c1'' 70
     = Inr sample_chief
   \<and> (\<exists>r \<in> set (actor_leases sample_leases). provisioned run_env r sample_chief \<and> lw_revoked_at_ms r = None)"
proof -
  have "resolve_chief_context_for_action run_env sample_leases ''lease-chief'' ''agent-chief'' ''s1'' ''thread-chief''
      ''camp'' ''c1'' Action.Decide 70 = Inr sample_chief"
    by code_simp
  then show ?thesis
    using resolved_actor_was_provisioned [OF sample_leases_reachable run_env_ok, of Chief]
    unfolding resolve_chief_context_def by blast
qed

section \<open>Retired cycles\<close>

lemma retired_cycle_is_dead:
  assumes "ledger_ok env m" "c \<in> set (research_cycle_issuances m)" "cy_cycle_id c = i" "cy_revoked_at_ms c \<noteq> None"
  shows "isl (load_stage_brief_issuance env m i camp ch role now)"
    and "isl (load_active_cycle_for_binding env m i camp ch lease ver now)"
    and "isl (resolve_chief_spawn_context env m lease aid sid tid camp ch i ver now)"
    and "resolve_thread_cycle_binding env m tid aid sid parent role now = Inr b \<Longrightarrow> tb_cycle_id b \<noteq> i"
proof -
  have c: "x = c" if "x \<in> set (research_cycle_issuances m)" "cy_cycle_id x = i" for x
    using assms that
    by (intro cycle_table.consistent_unique [of "research_cycle_issuances m"])
       (auto simp: ledger_ok_def cycles_ok_def cycle_clash_def)
  have active: "load_active_cycle_for_binding env m i camp ch lease ver now \<noteq> Inr x" for camp ch lease ver x
    using c assms(4) load_active_cycle_row by metis
  then show "isl (load_active_cycle_for_binding env m i camp ch lease ver now)"
    by (metis sum.collapse(2))
  have "load_stage_brief_issuance env m i camp ch role now \<noteq> Inr x" for x
    using c assms(4) load_stage_brief_rows by metis
  then show "isl (load_stage_brief_issuance env m i camp ch role now)"
    by (metis sum.collapse(2))
  have "resolve_chief_spawn_context env m lease aid sid tid camp ch i ver now \<noteq> Inr x" for x
    using c assms(4) by (auto simp: resolve_chief_spawn_context_def split: if_splits dest!: fetch_optional_SomeD)
  then show "isl (resolve_chief_spawn_context env m lease aid sid tid camp ch i ver now)"
    by (metis sum.collapse(2))
  show "tb_cycle_id b \<noteq> i" if "resolve_thread_cycle_binding env m tid aid sid parent role now = Inr b"
    using that active by (elim resolve_binding_row) metis
qed

lemma insert_briefs_cycles:
  assumes "run_events (insert_brief env cyc w cap now) l briefs = Inr l'"
  shows "research_cycle_issuances l' = research_cycle_issuances l"
  using assms by (rule run_events_invariant) (auto simp: insert_brief_def)

lemma issuance_inserts_cycles:
  assumes "issuance_inserts env chief cyc w cap json now v l = Inr l'"
  shows "set (research_cycle_issuances l) \<subseteq> set (research_cycle_issuances l')"
  using assms by (auto simp: issuance_inserts_def dest!: insert_briefs_cycles)

lemma supersede_retires:
  assumes "supersede_research_cycle_audited env l chief i cyc root_path cap now event = Inr (iss, l')"
  shows "\<exists>c \<in> set (research_cycle_issuances l'). cy_cycle_id c = i \<and> cy_revoked_at_ms c \<noteq> None"
proof -
  have "issue_research_cycle_internal env l chief cyc root_path cap (Some i) now event = Inr (iss, l')"
    using assms by (auto simp: supersede_research_cycle_audited_def split: if_splits)
  then obtain w json where
    audit: "audited l event (replayed_issuance env chief cyc w cap (Some i) json now)
         (\<lambda>version l1. and_then (retire_predecessor env cyc (Some i) now l1)
            (issuance_inserts env chief cyc w cap json now version)) = Inr (ci_cycle_event_version iss, l')"
    using issue_research_cycle_cases by metis
  from audit show ?thesis
  proof (cases rule: audited_cases)
    case replayed
    then show ?thesis
      by (auto simp: replayed_issuance_def Let_def simp del: checks_ok split: if_splits dest!: fetch_optional_SomeD)
  next
    case (fresh a l1)
    then obtain l2 where l2: "retire_predecessor env cyc (Some i) now l1 = Inr l2"
      and ins: "issuance_inserts env chief cyc w cap json now (ci_cycle_event_version iss) l2 = Inr l'"
      by auto
    obtain c where c: "c \<in> set (research_cycle_issuances l2)" "cy_cycle_id c = i" "cy_revoked_at_ms c \<noteq> None"
      using retire_predecessor_ok(4) [OF l2] by blast
    have "set (research_cycle_issuances l2) \<subseteq> set (research_cycle_issuances l')"
      using issuance_inserts_cycles [OF ins] .
    then show ?thesis using c by blast
  qed
qed

text \<open>
  C12. A retired cycle stays retired.  After a research cycle was revoked, or superseded by a successor,
  then in every later ledger of the history it cannot be loaded for a binding, none of its stage briefs
  can be loaded for any role, no chief may spawn a child under it, and no thread, chief or worker, is
  resolved to it.
\<close>

theorem retired_cycle_stays_retired:
  assumes "reachable env l" "env_ok env"
    and "revoke_research_cycle_audited env l chief i t event = Inr (v, l1)
      \<or> supersede_research_cycle_audited env l chief i cyc root_path cap t event = Inr (iss, l1)"
    and "ledger_steps env l1 m"
  shows "isl (load_active_cycle_for_binding env m i camp ch lease ver now)
    \<and> isl (load_stage_brief_issuance env m i camp ch role now)
    \<and> isl (resolve_chief_spawn_context env m lease aid sid tid camp ch i ver now)
    \<and> (\<forall>b. resolve_thread_cycle_binding_for_live_thread env m tid sid role now = Inr b \<longrightarrow> tb_cycle_id b \<noteq> i)"
proof -
  have l1: "reachable env l1"
    using reachable_step [OF assms(1)] assms(3) ledger_step.revoke_cycle ledger_step.supersede by metis
  obtain c where c: "c \<in> set (research_cycle_issuances l1)" "cy_cycle_id c = i" "cy_revoked_at_ms c \<noteq> None"
    using assms(3) revoke_research_cycle_step(2) supersede_retires by (metis option.discI)
  note later = reachable_steps [OF l1 assms(2,4)]
  have "c \<in> set (research_cycle_issuances m)"
    using cycle_table.revoked_stays [OF _ c(1,3)] later(3) by (simp add: ledger_evolves_def cycle_evolves_def)
  note dead = retired_cycle_is_dead [OF later(2) this c(2,3)]
  have "tb_cycle_id b \<noteq> i" if "resolve_thread_cycle_binding_for_live_thread env m tid sid role now = Inr b" for b
    using dead(4) resolve_live_thread [OF that] by blast
  then show ?thesis
    using dead(1-3) by simp
qed

theorem retired_cycle_stays_retired_witness:
  "\<not> isl (load_active_cycle_for_binding run_env sample_issued ''cycle0'' ''camp'' ''c1'' ''lease-chief'' 1 60)
   \<and> isl (load_active_cycle_for_binding run_env sample_retired ''cycle0'' ''camp'' ''c1'' ''lease-chief'' 1 60)
   \<and> isl (load_stage_brief_issuance run_env sample_retired ''cycle0'' ''camp'' ''c1'' Solver 60)"
proof -
  obtain v where "revoke_research_cycle_audited run_env sample_issued sample_chief ''cycle0'' 60
      (sample_event ''e2'' ''campaign'' ''camp'' 1 ''research_cycle_revoked'' ''{}'' 60) = Inr (v, sample_retired)"
    using sample_revoke by blast
  note dead = retired_cycle_stays_retired [OF sample_issued_reachable run_env_ok disjI1 [OF this] rtranclp.rtrancl_refl]
  have "\<not> isl (load_active_cycle_for_binding run_env sample_issued ''cycle0'' ''camp'' ''c1'' ''lease-chief'' 1 60)"
    by code_simp
  then show ?thesis using dead by blast
qed

section \<open>Bound workers\<close>





end
