(* ===== verification/LedgerBooks.thy ===== *)
theory LedgerBooks
  imports SampleHistory
begin

text \<open>
  The books over whole histories of the ledger: a reservation is settled exactly once, and the budget
  of a challenge is never exceeded.
\<close>

section \<open>Reservations\<close>

lemma settled_stays:
  assumes "ledger_ok env m" "ledger_evolves m n" "ledger_ok env n" "r \<in> set (reservations m)" "rs_state r \<noteq> ''reserved''"
  shows "r \<in> set (reservations n)" "isl (release n (rs_id r))" "isl (commit n (rs_id r) j)"
proof -
  have "rs_state r \<in> set [''reserved'', ''committed'', ''released'']"
    using assms(1,4) by (auto simp: ledger_ok_def books_ok_def list_all_iff)
  then have "settlement r \<noteq> None"
    using assms(5) by (auto simp: settlement_def)
  then show r: "r \<in> set (reservations n)"
    using settled_table.revoked_stays assms(2,4) unfolding ledger_evolves_def by blast
  have "books_ok n" using assms(3) by (simp add: ledger_ok_def)
  note settled = finish_reserved_row [OF this r refl]
  show "isl (release n (rs_id r))" "isl (commit n (rs_id r) j)"
    using assms(5) by (simp_all add: release_def commit_def settled)
qed

text \<open>
  C9. A reservation is settled exactly once.  After a reservation was made, then in every later ledger
  of the history its row is there with the same challenge, owner and cost.  While it is held, it can
  be released and it can be committed.  Once it was settled, it stays as it was settled for good: in
  every ledger after that the row is the same and a release or a commit is refused.  And its identifier
  cannot be reserved again.
\<close>

theorem reservation_is_settled_once:
  assumes "reachable env l" "env_ok env" "ledger_steps env l1 m"
    and "reserve_with_identity_quota env l i ch owner identity identity_class cost budget sha256 now interval limits = Inr l1"
  shows "\<exists>r \<in> set (reservations m). rs_id r = i \<and> rs_challenge_id r = ch \<and> rs_owner r = owner \<and> rs_estimated_cost r = cost
    \<and> (if rs_state r = ''reserved'' then \<not> isl (release m i) \<and> (\<forall>j. \<not> isl (commit m i j))
       else \<forall>n. ledger_steps env m n \<longrightarrow> r \<in> set (reservations n) \<and> isl (release n i) \<and> (\<forall>j. isl (commit n i j)))
    \<and> isl (reserve_with_identity_quota env m i ch' owner' identity' identity_class' cost' budget' sha256' now' interval' limits')"
proof -
  have l1: "reachable env l1"
    using reachable_step [OF assms(1) ledger_step.reserve [OF assms(4)]] .
  note later = reachable_steps [OF l1 assms(2,3)]
  have "reservation_row i ch owner cost \<in> set (reservations l1)"
    using reserve_ok(1) [OF assms(4)] by simp
  then obtain r where r: "r \<in> set (reservations m)" "settled_table.row_evolves (reservation_row i ch owner cost) r"
    using settled_table.evolves_row later(3) unfolding ledger_evolves_def by blast
  have same: "rs_id r = i" "rs_challenge_id r = ch" "rs_owner r = owner" "rs_estimated_cost r = cost"
    using r(2) by (auto simp: settled_table.row_evolves_def reservation_row_def)
  have books: "books_ok m" using later(2) by (simp add: ledger_ok_def)
  have held: "\<not> isl (release m i) \<and> (\<forall>j. \<not> isl (commit m i j))" if "rs_state r = ''reserved''"
    using that finish_reserved_row [OF books r(1) same(1)] by (simp add: release_def commit_def)
  have settled: "r \<in> set (reservations n) \<and> isl (release n i) \<and> (\<forall>j. isl (commit n i j))"
    if "rs_state r \<noteq> ''reserved''" "ledger_steps env m n" for n
    using settled_stays [OF later(2) _ _ r(1) that(1)] ledger_steps_ok [OF that(2) assms(2) later(2)] same(1) by auto
  have "reserve_with_identity_quota env m i ch' owner' identity' identity_class' cost' budget' sha256' now' interval' limits'
      \<noteq> Inr m'" for m'
    using reserve_ok(4) r(1) same(1) by blast
  then have "isl (reserve_with_identity_quota env m i ch' owner' identity' identity_class' cost' budget' sha256' now' interval'
      limits')"
    by (metis sum.collapse(2))
  then show ?thesis
    using r(1) same held settled by (intro bexI [of _ r]) auto
qed

theorem reservation_is_settled_once_witness:
  "\<exists>l1. reserve_with_identity_quota run_env sample_leases ''r1'' ''c1'' ''o'' ''id'' ''class'' (Fin 1) (Fin 5) ''sha'' 50 0 None
      = Inr l1 \<and> \<not> isl (release l1 ''r1'')"
proof -
  have "\<not> isl (reserve_with_identity_quota run_env sample_leases ''r1'' ''c1'' ''o'' ''id'' ''class'' (Fin 1) (Fin 5) ''sha'' 50 0 None)"
    by code_simp
  then obtain l1 where l1: "reserve_with_identity_quota run_env sample_leases ''r1'' ''c1'' ''o'' ''id'' ''class'' (Fin 1) (Fin 5)
      ''sha'' 50 0 None = Inr l1"
    by (metis sum.collapse(2))
  have "reservations l1 = [reservation_row ''r1'' ''c1'' ''o'' (Fin 1)]"
    using reserve_ok(1) [OF l1] by (simp add: sample_leases_def initialize_def)
  then show ?thesis
    using reservation_is_settled_once [OF sample_leases_reachable run_env_ok rtranclp.rtrancl_refl l1] l1
    by (auto simp: reservation_row_def)
qed

section \<open>Budgets\<close>

text \<open>
  A history in which the callers keep to one budget for a challenge and reserve costs on the binary
  grid: every other operation is free.
\<close>

inductive budget_step :: "Env \<Rightarrow> string \<Rightarrow> rat \<Rightarrow> Ledger \<Rightarrow> Ledger \<Rightarrow> bool" for env ch budget where
  reserving: "reserve_with_identity_quota env l i c owner identity identity_class cost b sha256 now interval limits = Inr l' \<Longrightarrow>
    grid_cost cost \<Longrightarrow> (c = ch \<Longrightarrow> b = Fin budget) \<Longrightarrow> budget_step env ch budget l l'"
| other: "ledger_step env l l' \<Longrightarrow> length (reservations l') = length (reservations l) \<Longrightarrow> budget_step env ch budget l l'"

lemma settling_lowers_totals:
  assumes "list_all2 settled_table.row_evolves rs rs'" "list_all (\<lambda>r. grid_cost (rs_estimated_cost r)) rs"
  shows "list_all (\<lambda>r. grid_cost (rs_estimated_cost r)) rs' \<and>
    total_cost (map rs_estimated_cost (filter (\<lambda>r. rs_challenge_id r = ch \<and> is_reserved r) rs'))
      \<le> total_cost (map rs_estimated_cost (filter (\<lambda>r. rs_challenge_id r = ch \<and> is_reserved r) rs))"
  using assms
proof induction
  case (Cons r rs r' rs')
  have same: "rs_estimated_cost r' = rs_estimated_cost r" "rs_challenge_id r' = rs_challenge_id r"
    using Cons.hyps(1) by (auto simp: settled_table.row_evolves_def)
  have "settlement_name s \<noteq> ''reserved''" for s
    by (cases s) (simp_all add: settlement_name_def)
  then have held: "is_reserved r' \<Longrightarrow> is_reserved r"
    using Cons.hyps(1) unfolding settled_table.row_evolves_def by (auto simp: is_reserved_def)
  have "0 \<le> f64_val (rs_estimated_cost r)"
    using Cons.prems grid_cost_nonneg by simp
  then show ?case
    using Cons.IH Cons.prems same held by (auto simp: total_cost_def)
qed (simp add: total_cost_def)

lemma same_length_evolves:
  assumes "settled_table.evolves t t'" "length t' = length t"
  shows "list_all2 settled_table.row_evolves t t'"
proof -
  obtain pre new where t': "t' = pre @ new" "list_all2 settled_table.row_evolves t pre"
    using assms(1) unfolding settled_table.evolves_def by blast
  then have "length pre = length t" using list_all2_lengthD by metis
  then have "new = []" using assms(2) t'(1) by simp
  then show ?thesis using t' by simp
qed

lemma budget_step_total:
  assumes "budget_step env ch budget l l'" "exact_sums env" "env_ok env" "ledger_ok env l" "costs_ok l"
    and "reserved_total l ch \<le> budget" "budget < 2 ^ 32"
  shows "ledger_ok env l' \<and> costs_ok l' \<and> reserved_total l' ch \<le> budget"
  using assms(1)
proof cases
  case (reserving i c owner identity identity_class cost b sha256 now interval limits)
  have "ledger_ok env l'"
    using ledger_step_ok [OF ledger_step.reserve [OF reserving(1)] assms(3)] assms(4) by (simp add: step_ok_def)
  moreover have "costs_ok l'"
    using assms(5) reserving(2) reserve_ok(1) [OF reserving(1)] by (simp add: costs_ok_def reservation_row_def)
  moreover have "reserved_total l' ch \<le> budget"
  proof (cases "c = ch")
    case True
    have "reserved_total l ch < 2 ^ 32" using assms(6,7) by linarith
    then show ?thesis
      using reserve_within_budget(2) [OF assms(2,5) _ reserving(2)] reserving(1,3) True by simp
  next
    case False
    then show ?thesis
      using challenge_reserved_reserve [OF reserving(1), of ch] assms(6) by (simp add: reserved_total_def)
  qed
  ultimately show ?thesis by blast
next
  case other
  have "step_ok env l l'" by (rule ledger_step_ok [OF other(1) assms(3)])
  then have ok: "ledger_ok env l'" and "ledger_evolves l l'" using assms(4) by (simp_all add: step_ok_def)
  then have "list_all2 settled_table.row_evolves (reservations l) (reservations l')"
    using same_length_evolves other(2) by (simp add: ledger_evolves_def)
  note less = settling_lowers_totals [OF this, of ch]
  have "costs_ok l' \<and> reserved_total l' ch \<le> reserved_total l ch"
    using less assms(5) by (simp add: costs_ok_def reserved_total_def challenge_reserved_def)
  then show ?thesis using ok assms(6) by linarith
qed

text \<open>
  C8. The budget of a challenge holds over whole histories.  Take any history of the ledger in which the
  callers reserve for the challenge under one budget (non-negative and below 2 to the 32), every
  reserved cost is a multiple of 2 to the -20 below that bound, and all other operations are
  interleaved at will.  Then at every point the costs that are held for the challenge add up to at
  most the budget, and the sum SQLite reports to the next reservation is that total without rounding.
\<close>

theorem budget_is_never_exceeded:
  assumes "exact_sums env" "env_ok env" "0 \<le> budget" "budget < 2 ^ 32"
    and "(budget_step env ch budget)\<^sup>*\<^sup>* initialize l"
  shows "reserved_total l ch \<le> budget
    \<and> sql_sum env (map rs_estimated_cost (challenge_reserved l ch)) = Fin (reserved_total l ch)"
proof -
  have "ledger_ok env l \<and> costs_ok l \<and> reserved_total l ch \<le> budget"
    using assms(5)
  proof induction
    case base
    show ?case
      using ledger_ok_initialize assms(3)
      by (simp add: costs_ok_def reserved_total_def challenge_reserved_def total_cost_def initialize_def)
  next
    case (step m n)
    then show ?case using budget_step_total [OF step.hyps(2) assms(1,2)] assms(4) by blast
  qed
  moreover from this have "sql_sum env (map rs_estimated_cost (challenge_reserved l ch)) = Fin (reserved_total l ch)"
    using sql_sum_exact [OF assms(1) costs_ok_reserved] assms(4) unfolding reserved_total_def by auto
  ultimately show ?thesis by blast
qed

lemma foldl_add_exact:
  "list_all grid_cost xs \<Longrightarrow> grid_cost (Fin a) \<Longrightarrow> a + total_cost xs < 2 ^ 32 \<Longrightarrow>
   foldl f64_add (Fin a) xs = Fin (a + total_cost xs)"
proof (induction xs arbitrary: a)
  case (Cons x xs)
  have x: "grid_cost x" "list_all grid_cost xs" using Cons.prems(1) by simp_all
  have tot: "total_cost (x # xs) = f64_val x + total_cost xs" by (simp add: total_cost_def)
  have pos: "0 \<le> total_cost xs" using x(2)
    by (induction xs) (auto simp: total_cost_def dest!: grid_cost_nonneg)
  have "grid_cost (Fin (total_cost [Fin a, x]))"
    using Cons.prems(2,3) x pos by (intro grid_total) (simp_all add: total_cost_def)
  then have "grid_cost (Fin (a + f64_val x))" by (simp add: total_cost_def)
  then show ?case
    using Cons.IH [OF x(2), of "a + f64_val x"] Cons.prems(3) f64_add_grid [OF Cons.prems(2) x(1)]
    by (simp add: tot algebra_simps)
qed (simp add: total_cost_def)

lemma run_env_exact: "exact_sums run_env"
proof -
  have "grid_cost (Fin 0)" unfolding grid_cost_def by (intro exI [of _ 0]) simp
  then show ?thesis
    using foldl_add_exact [of _ 0] by (auto simp: exact_sums_def run_env_def sample_env_def)
qed

theorem budget_is_never_exceeded_witness:
  "\<exists>l1. reserve_with_identity_quota run_env initialize ''r1'' ''c1'' ''o'' ''id'' ''class'' (Fin 1) (Fin 5) ''sha'' 50 0 None
      = Inr l1 \<and> reserved_total l1 ''c1'' \<le> 5"
proof -
  have "\<not> isl (reserve_with_identity_quota run_env initialize ''r1'' ''c1'' ''o'' ''id'' ''class'' (Fin 1) (Fin 5) ''sha'' 50 0 None)"
    by code_simp
  then obtain l1 where l1: "reserve_with_identity_quota run_env initialize ''r1'' ''c1'' ''o'' ''id'' ''class'' (Fin 1) (Fin 5)
      ''sha'' 50 0 None = Inr l1"
    by (metis sum.collapse(2))
  have "grid_cost (Fin 1)" unfolding grid_cost_def by (intro exI [of _ "2 ^ 20"]) simp
  then have "budget_step run_env ''c1'' 5 initialize l1"
    by (rule budget_step.reserving [OF l1]) simp
  then have "(budget_step run_env ''c1'' 5)\<^sup>*\<^sup>* initialize l1" by (rule r_into_rtranclp)
  then show ?thesis
    using budget_is_never_exceeded [OF run_env_exact run_env_ok, of 5] l1 by simp
qed

end
