(* ===== verification/LedgerEvidence.thy ===== *)
theory LedgerEvidence
  imports SampleHistory
begin

text \<open>
  Evidence over whole histories of the ledger: canaries, observations, reconciled items and penalties,
  confirmations and wakes are backed by the log and read back as they were recorded.
\<close>

section \<open>Recovery canaries\<close>

lemma rehydration_ids:
  "rehydration_allowed sha256 t now \<Longrightarrow> \<not> is_blank (tr_recovery_id t) \<and> \<not> is_blank (tr_runtime_instance_id t)"
  by (auto simp: rehydration_allowed_def is_ok_iff RecoveryCanaryTrace_validate_def)

definition persisted_canary :: "CanaryRow \<Rightarrow> RecoveryCanaryTrace \<Rightarrow> PersistedRecoveryCanary" where
  "persisted_canary r trace =
     \<lparr> pc_recovery_id = tr_recovery_id trace, pc_runtime_instance_id = tr_runtime_instance_id trace,
       pc_recovery_attempt = tr_recovery_attempt trace, pc_trace = trace,
       pc_trace_sha256 = cn_trace_sha256 r, pc_recorded_at_ms = cn_recorded_at_ms r \<rparr>"

lemma canary_from_row:
  assumes "canary_doc env r trace" "json_roundtrip (en_trace env)"
  shows "persisted_recovery_canary_from_row env r now =
    (if rehydration_allowed (en_sha256 env) trace now then Ok (persisted_canary r trace)
     else Err (Degraded ''stored recovery canary is stale, incomplete, or misbound''))"
proof -
  have "js_from_str (en_trace env) (cn_trace_json r) = Some trace"
    using assms by (auto simp: canary_doc_def dest: json_roundtripD)
  moreover have "nat (cn_recovery_attempt r) = tr_recovery_attempt trace" "\<not> cn_recovery_attempt r < 0"
    using assms(1) unfolding canary_doc_def by linarith+
  ultimately show ?thesis
    using assms(1) by (auto simp: persisted_recovery_canary_from_row_def canary_doc_def persisted_canary_def)
qed

lemma recorded_canary_row:
  assumes "record_recovery_canary env l trace t event = Inr (pc, l')" "json_roundtrip (en_trace env)"
    and "canaries_ok env (recovery_canaries l)"
  obtains r where "r \<in> set (recovery_canaries l')" "canary_doc env r trace" "pc = persisted_canary r trace"
proof -
  let ?replay = "\<lambda>v l1. and_then (ok_or (fetch_optional (\<lambda>r. cn_recovery_id r = tr_recovery_id trace) (recovery_canaries l1))
                (Degraded ''replayed recovery canary is missing'')) (\<lambda>r.
           and_then (persisted_recovery_canary_from_row env r t) (\<lambda>existing.
           if pc_trace existing \<noteq> trace \<or> pc_recorded_at_ms existing \<noteq> t \<or> cn_event_id r \<noteq> cr_event_id event
           then Err (Degraded ''replayed canary conflicts with persisted evidence'')
           else Ok existing))"
  obtain json where json: "js_to_string (en_trace env) trace = Some json" "rehydration_allowed (en_sha256 env) trace t"
    and audit: "audited_with l event ?replay (insert_canary env trace json t event) = Inr (pc, l')"
    using assms(1) by (auto simp: record_recovery_canary_def split: if_splits)
  from audit show ?thesis
  proof (cases rule: audited_with_cases)
    case (replayed a)
    then obtain r where r: "r \<in> set (recovery_canaries l)" "persisted_recovery_canary_from_row env r t = Ok pc"
        "pc_trace pc = trace"
      by (auto split: if_splits dest!: fetch_optional_SomeD)
    obtain trace' where doc: "canary_doc env r trace'"
      using assms(3) r(1) by (auto simp: canaries_ok_def)
    have "pc = persisted_canary r trace'"
      using r(2) canary_from_row [OF doc assms(2)] by (auto split: if_splits)
    then show ?thesis
      using that [of r] r doc replayed(3) by (simp add: persisted_canary_def)
  next
    case (fresh a l1)
    then show ?thesis
      using json by (intro that [of "last (recovery_canaries l')"])
        (auto simp: insert_canary_def canary_doc_def persisted_canary_def)
  qed
qed

text \<open>
  C15. A recorded canary reads back, for its own process only.  After the canary of a recovery was
  recorded, then in every later ledger of the history, looking it up under its recovery and its runtime
  instance gives the recorded evidence with the same trace while the trace still allows rehydration,
  and an error naming it as stale afterwards; looking it up under any other runtime instance fails.
\<close>

theorem recorded_canary_reads_back:
  assumes "reachable env l" "env_ok env" "json_roundtrip (en_trace env)"
    and "record_recovery_canary env l trace t event = Inr (pc, l1)" "ledger_steps env l1 m"
  shows "pc_trace pc = trace
    \<and> load_recovery_canary env m (tr_recovery_id trace) (tr_runtime_instance_id trace) now =
       (if rehydration_allowed (en_sha256 env) trace now then Ok pc
        else Err (Degraded ''stored recovery canary is stale, incomplete, or misbound''))
    \<and> (inst \<noteq> tr_runtime_instance_id trace \<longrightarrow> isl (load_recovery_canary env m (tr_recovery_id trace) inst now))"
proof -
  have "canaries_ok env (recovery_canaries l)"
    using reachable_ok [OF assms(1,2)] by (simp add: ledger_ok_def)
  then obtain r where r: "r \<in> set (recovery_canaries l1)" "canary_doc env r trace" "pc = persisted_canary r trace"
    using recorded_canary_row [OF assms(4,3)] by metis
  note later = reachable_steps [OF reachable_step [OF assms(1) ledger_step.canary [OF assms(4)]] assms(2,5)]
  have rm: "r \<in> set (recovery_canaries m)"
    using later(3) r(1) by (auto simp: ledger_evolves_def evidence_grows_def)
  have unique: "x = r" if "x \<in> set (recovery_canaries m)" "cn_recovery_id x = tr_recovery_id trace" for x
    using that rm r(2) later(2)
    by (intro canary_table.consistent_unique [of "recovery_canaries m"])
       (auto simp: ledger_ok_def canaries_ok_def canary_clash_def canary_doc_def)
  have found: "fetch_optional (\<lambda>x. cn_recovery_id x = tr_recovery_id trace
      \<and> cn_runtime_instance_id x = tr_runtime_instance_id trace) (recovery_canaries m) = Some r"
    using later(2) rm r(2)
    by (intro canary_table.fetch_unique) (auto simp: ledger_ok_def canaries_ok_def canary_clash_def canary_doc_def)
  have "rehydration_allowed (en_sha256 env) trace (cn_recorded_at_ms r)"
    using r(2) by (simp add: canary_doc_def)
  note ids = rehydration_ids [OF this]
  have "isl (load_recovery_canary env m (tr_recovery_id trace) inst now)" if "inst \<noteq> tr_runtime_instance_id trace"
  proof -
    have "fetch_optional (\<lambda>x. cn_recovery_id x = tr_recovery_id trace \<and> cn_runtime_instance_id x = inst)
        (recovery_canaries m) = None"
      using unique that r(2) by (auto simp: fetch_optional_None canary_doc_def)
    then show ?thesis by (simp add: load_recovery_canary_def load_recovery_canary_row_def)
  qed
  then show ?thesis
    using found ids canary_from_row [OF r(2) assms(3)] r(3)
    by (simp add: load_recovery_canary_def load_recovery_canary_row_def persisted_canary_def)
qed

definition canary_env :: Env where
  "canary_env = sample_env\<lparr> en_sha256 := sample_sha, en_trace := json_table [(sample_trace, ''trace'')] \<rparr>"

theorem recorded_canary_reads_back_witness:
  "\<exists>pc l1. record_recovery_canary canary_env initialize sample_trace 500
      (sample_event ''e1'' ''recovery'' ''r'' 0 ''recovery_canary_passed'' ''trace'' 500) = Inr (pc, l1)
     \<and> load_recovery_canary canary_env l1 ''r'' ''i'' 500 = Ok pc \<and> isl (load_recovery_canary canary_env l1 ''r'' ''j'' 500)"
proof -
  let ?e = "sample_event ''e1'' ''recovery'' ''r'' 0 ''recovery_canary_passed'' ''trace'' 500"
  have ids: "tr_recovery_id sample_trace = ''r''" "tr_runtime_instance_id sample_trace = ''i''"
      "tr_recovery_attempt sample_trace = 1"
    by code_simp+
  have env: "en_sha256 canary_env = sample_sha" "js_to_string (en_trace canary_env) sample_trace = Some ''trace''"
      "json_roundtrip (en_trace canary_env)" "env_ok canary_env"
    unfolding env_ok_def
    by (simp_all add: canary_env_def sample_env_def json_table_roundtrip roundtrip_reads_back) (simp add: json_table_def)
  have "append_event_in_transaction initialize ?e
      = Ok (\<lparr> ae_version = 1, ae_replayed = False \<rparr>, initialize\<lparr> coordination_events := [event_row ?e 1] \<rparr>)"
    by code_simp
  then obtain pc l1 where run: "record_recovery_canary canary_env initialize sample_trace 500 ?e = Inr (pc, l1)"
    using sample_trace_rehydrates ids env
    by (auto simp: record_recovery_canary_def audited_with_def insert_canary_def sample_event_def i64_max_def initialize_def)
  have "reachable canary_env initialize" by (simp add: reachable_def)
  note read = recorded_canary_reads_back [OF this env(4,3) run rtranclp.rtrancl_refl, unfolded ids env(1)]
  then show ?thesis
    using run sample_trace_rehydrates by (intro exI [of _ pc] exI [of _ l1]) simp
qed

section \<open>A reconciled item and its wake\<close>

definition sample_wake :: ChiefWakeRequest where
  "sample_wake = \<lparr> wq_schema_version = ''ascodex-chief-wake-request/v1'', wq_wake_id = ''w1'', wq_campaign_id = ''camp'',
     wq_challenge_id = ''c1'', wq_stream_id = ''feed'', wq_event_version = 1, wq_cursor_position = 1,
     wq_response_sha256 = digest CHR ''a'', wq_summary_path = None, wq_reason = ''penalty'',
     wq_platform_write_attempted = False \<rparr>"

text \<open>
  A confirmation keeps the leaderboard entry as a JSON value, which may hold numbers; every other field
  is a string, a flag or absent, and is read back as it was written.
\<close>

definition confirmation_reads_back :: "Env \<Rightarrow> bool" where
  "confirmation_reads_back env \<longleftrightarrow>
     (\<forall>x s. js_to_string (en_confirmation env) x = Some s \<longrightarrow>
        (\<exists>y. js_from_str (en_confirmation env) s = Some y \<and> y\<lparr> lc_entry := lc_entry x \<rparr> = x))"

definition wake_env :: Env where
  "wake_env = sample_env
     \<lparr> en_item := json_table [(penalised, ''item'')], en_snapshot := json_table [(sample_next, ''snapshot'')],
       en_wake := json_table [(sample_wake, ''wake'')] \<rparr>"

lemma wake_env_docs:
  "js_to_string (en_item wake_env) penalised = Some ''item''" "js_to_string (en_snapshot wake_env) sample_next = Some ''snapshot''"
  "js_from_str (en_snapshot wake_env) ''snapshot'' = Some sample_next" "js_to_string (en_wake wake_env) sample_wake = Some ''wake''"
  "json_roundtrip (en_snapshot wake_env)" "json_roundtrip (en_wake wake_env)" "confirmation_reads_back wake_env"
  "env_ok wake_env"
  unfolding env_ok_def
  by (simp_all add: wake_env_def sample_env_def json_table_roundtrip roundtrip_reads_back confirmation_reads_back_def)
    (simp_all add: json_table_def)

lemma sample_monitor_live:
  "bound_monitor sample_monitor" "ActorContext_validate sample_monitor MonitorReadOnly 10 = Ok ()"
  "cx_challenge_id sample_monitor = ''c1''" "cx_campaign_id sample_monitor = ''camp''"
  "Snapshot_new ''feed'' ''c1'' = Ok sample_snapshot"
  "list_ex is_blank [''feed'', ''c1'', ''a1''] = False"
  by code_simp+

lemma initialize_tables [simp]:
  "reconciliation_snapshots initialize = []" "reconciliation_items initialize = []" "reconciliation_penalties initialize = []"
  "coordination_events initialize = []" "chief_wake_requests initialize = []"
  by (simp_all add: initialize_def)

definition recon_event :: CoordinationEventRecord where
  "recon_event = sample_event ''e1'' ''campaign'' ''camp'' 0 ''platform_reconciliation_recorded'' ''item'' 10"

lemma recon_append:
  "append_event_in_transaction initialize recon_event
     = Ok (\<lparr> ae_version = 1, ae_replayed = False \<rparr>, initialize\<lparr> coordination_events := [event_row recon_event 1] \<rparr>)"
  by code_simp

lemma sample_next_cursor: "ps_cursor sample_next = Some \<lparr> cu_stream_id = ''feed'', cu_position = 1 \<rparr>"
  using applied_facts(2) [OF sample_applied] by (simp add: penalised_sel)

lemma penalised_facts_sel:
  "rf_penalty_applied (ri_facts penalised)" 
  "rf_penalty_basis (ri_facts penalised) = Some \<lparr> pb_object = ''o'', pb_reason = ''r'', pb_rewritten_score = Fin 79 \<rparr>"
  by (simp_all add: penalised_def observation_item_def)

definition sample_recon :: Ledger where
  "sample_recon = initialize
     \<lparr> coordination_events := [event_row recon_event 1],
       reconciliation_items := [item_row wake_env sample_monitor penalised ''item'' recon_event 1 1],
       reconciliation_snapshots := [snapshot_row wake_env sample_monitor penalised ''snapshot'' (Some 1) 10 1],
       reconciliation_penalties := [penalty_row sample_monitor penalised
         \<lparr> pb_object = ''o'', pb_reason = ''r'', pb_rewritten_score = Fin 79 \<rparr> 10 1] \<rparr>"

lemma sample_reconciled:
  "\<exists>px. apply_platform_reconciliation_audited wake_env initialize sample_monitor penalised 10 recon_event
     = Ok ((px, Applied), sample_recon)"
  using sample_applied
  by (simp add: apply_platform_reconciliation_audited_def sample_monitor_live penalised_sel wake_env_docs
      load_reconciliation_snapshot_def commit_reconciliation_def audited_with_def recon_append
      insert_applied_def i64_position_def i64_max_def insert_row_def sample_next_cursor insert_penalty_def
      penalised_facts_sel upsert_snapshot_row_def sample_recon_def)
     (simp add: recon_event_def sample_event_def)

definition wake_requested :: CoordinationEventRecord where
  "wake_requested = sample_event ''e2'' ''chief_wake'' ''w1'' 0 ''chief_wake_requested'' ''wake'' 20"

definition wake_acked :: CoordinationEventRecord where
  "wake_acked = sample_event ''e3'' ''chief_wake'' ''w1'' 1 ''chief_wake_acked'' ''ack'' 30"

definition sample_woken :: Ledger where
  "sample_woken = sample_recon
     \<lparr> coordination_events := [event_row recon_event 1, event_row wake_requested 1],
       chief_wake_requests := [wake_row wake_env sample_wake ''wake'' 20 1] \<rparr>"

definition sample_acked :: Ledger where
  "sample_acked = sample_woken
     \<lparr> coordination_events := [event_row recon_event 1, event_row wake_requested 1, event_row wake_acked 2],
       chief_wake_requests := [(wake_row wake_env sample_wake ''wake'' 20 1)\<lparr> wk_state := ''acked'', wk_acked_at_ms := Some 30 \<rparr>] \<rparr>"

lemma wake_names: "\<not> is_blank ''w1''" "\<not> is_blank ''feed''" "\<not> is_blank ''e2''" "\<not> is_blank ''e3''" "\<not> is_blank ''chief_wake''"
  "\<not> is_blank ''chief_wake_requested''" "\<not> is_blank ''chief_wake_acked''" "\<not> is_blank ''wake''" "\<not> is_blank ''ack''"
  "\<not> is_blank (digest CHR ''a'')"
  by code_simp+

lemma wake_events:
  "append_event_in_transaction sample_recon wake_requested = Ok (\<lparr> ae_version = 1, ae_replayed = False \<rparr>,
     sample_recon\<lparr> coordination_events := [event_row recon_event 1, event_row wake_requested 1] \<rparr>)"
  "append_event_in_transaction sample_woken wake_acked = Ok (\<lparr> ae_version = 2, ae_replayed = False \<rparr>,
     sample_woken\<lparr> coordination_events := [event_row recon_event 1, event_row wake_requested 1, event_row wake_acked 2] \<rparr>)"
  by (simp_all add: append_event_in_transaction_def wake_requested_def wake_acked_def sample_event_def sample_recon_def
      sample_woken_def event_row_def recon_event_def wake_names current_version_def event_of_aggregate_def insert_row_def
      event_clash_def i64_max_def)

lemma sample_wake_steps:
  "record_chief_wake_audited wake_env sample_recon sample_wake ''camp'' 20 wake_requested = Ok (1, sample_woken)"
  "ack_chief_wake_audited sample_woken ''w1'' 30 wake_acked = Ok (2, sample_acked)"
proof -
  have rows: "reconciliation_items sample_recon = [item_row wake_env sample_monitor penalised ''item'' recon_event 1 1]"
      "reconciliation_snapshots sample_recon = [snapshot_row wake_env sample_monitor penalised ''snapshot'' (Some 1) 10 1]"
      "chief_wake_requests sample_recon = []"
    by (simp_all add: sample_recon_def)
  have "applied_fact wake_env sample_recon sample_wake ''camp'' = Ok ()"
    by (simp add: applied_fact_def load_reconciliation_snapshot_def rows item_row_def snapshot_row_def
        sample_wake_def penalised_sel sample_monitor_live wake_env_docs)
  moreover have "wq_wake_id sample_wake = ''w1''" "wq_campaign_id sample_wake = ''camp''" "\<not> wq_platform_write_attempted sample_wake"
      "wq_challenge_id sample_wake = ''c1''" "wq_stream_id sample_wake = ''feed''" "wq_response_sha256 sample_wake = digest CHR ''a''"
      "wq_schema_version sample_wake = ''ascodex-chief-wake-request/v1''"
    by (simp_all add: sample_wake_def)
  ultimately show "record_chief_wake_audited wake_env sample_recon sample_wake ''camp'' 20 wake_requested = Ok (1, sample_woken)"
    unfolding record_chief_wake_audited_def audited_def wake_events
    by (simp add: wake_names sample_names wake_env_docs insert_wake_def insert_row_def rows i64_max_def sample_woken_def)
       (simp add: wake_requested_def sample_event_def)
  show "ack_chief_wake_audited sample_woken ''w1'' 30 wake_acked = Ok (2, sample_acked)"
    unfolding ack_chief_wake_audited_def audited_def wake_events
    by (simp add: mark_acked_def sample_acked_def)
       (simp add: wake_acked_def sample_event_def sample_woken_def waiting_wake_def wake_row_def sample_wake_def rows_affected_def)
qed

lemma sample_woken_reachable: "reachable wake_env sample_woken"
proof -
  have "reachable wake_env initialize" by (simp add: reachable_def)
  moreover obtain px where "apply_platform_reconciliation_audited wake_env initialize sample_monitor penalised 10 recon_event
     = Ok ((px, Applied), sample_recon)"
    using sample_reconciled ..
  ultimately have "reachable wake_env sample_recon"
    by (rule reachable_step [OF _ ledger_step.reconciliation])
  then show ?thesis by (rule reachable_step [OF _ ledger_step.wake [OF sample_wake_steps(1)]])
qed

section \<open>Wakes, snapshots and confirmations\<close>

definition persisted_wake :: "WakeRow \<Rightarrow> ChiefWakeRequest \<Rightarrow> PersistedChiefWake" where
  "persisted_wake r w =
     \<lparr> pw_wake_id = wk_wake_id r, pw_request = w,
       pw_state = (if wk_state r = ''waiting'' then Waiting else Acked),
       pw_recorded_at_ms = wk_recorded_at_ms r, pw_acked_at_ms = wk_acked_at_ms r,
       pw_event_version = Some (nat (wk_event_version r)) \<rparr>"

lemma stored_wake_loads:
  assumes "ledger_ok env l" "json_roundtrip (en_wake env)" "r \<in> set (chief_wake_requests l)"
  obtains w where "load_chief_wake env l (wk_wake_id r) = Ok (Some (persisted_wake r w))"
    "wq_wake_id w = wk_wake_id r" "wake_fact (reconciliation_items l) w"
    "wk_state r = ''waiting'' \<longleftrightarrow> wk_acked_at_ms r = None"
proof -
  have ok: "wakes_ok env l" "event_log_ok (coordination_events l)" using assms(1) by (simp_all add: ledger_ok_def)
  then have doc: "wake_doc env l r" using assms(3) by (simp add: wakes_ok_def)
  then obtain w e where w: "js_to_string (en_wake env) w = Some (wk_request_json r)" "wq_wake_id w = wk_wake_id r"
      "wake_fact (reconciliation_items l) w"
    and e: "e \<in> set (coordination_events l)" "ew_state_version e = wk_event_version r"
    unfolding wake_doc_def wake_event_def by blast
  have "fetch_optional (\<lambda>x. wk_wake_id x = wk_wake_id r) (chief_wake_requests l) = Some r"
    using ok(1) assms(3) by (intro wake_table.fetch_unique) (auto simp: wakes_ok_def wake_clash_def)
  moreover have "0 \<le> wk_event_version r" using event_log_ok_version [OF ok(2) e(1)] e(2) by simp
  moreover have "wk_request_sha256 r = sha256_bytes (en_sha256 env) (wk_request_json r)"
      and state: "wk_state r = ''waiting'' \<and> wk_acked_at_ms r = None \<or> wk_state r = ''acked'' \<and> wk_acked_at_ms r \<noteq> None"
    using doc unfolding wake_doc_def by auto
  ultimately have "load_chief_wake env l (wk_wake_id r) = Ok (Some (persisted_wake r w))"
    using json_roundtripD [OF assms(2) w(1)] by (auto simp: load_chief_wake_def persisted_wake_def)
  then show ?thesis using that w state by auto
qed

lemma foldr_collect:
  assumes "\<And>r. r \<in> set rows \<Longrightarrow> load r = Ok (Some (f r))"
  shows "foldr (\<lambda>r rest. and_then (load r) (\<lambda>x. and_then (ok_or x e) (\<lambda>w. and_then rest (\<lambda>ws. Ok (w # ws))))) rows (Ok [])
    = Ok (map f rows)"
  using assms by (induction rows) simp_all

lemma waiting_wakes_load:
  assumes "ledger_ok env l" "json_roundtrip (en_wake env)"
  shows "\<exists>ws. list_waiting_chief_wakes env l = Ok ws \<and> sorted (map pw_recorded_at_ms ws)
    \<and> pw_wake_id ` set ws = wk_wake_id ` {r \<in> set (chief_wake_requests l). wk_acked_at_ms r = None}
    \<and> (\<forall>w \<in> set ws. pw_state w = Waiting)"
proof -
  define rows where "rows = sort_key wk_recorded_at_ms (filter (\<lambda>r. wk_state r = ''waiting'') (chief_wake_requests l))"
  define f where "f r = the (projr (load_chief_wake env l (wk_wake_id r)))" for r :: WakeRow
  have f: "load_chief_wake env l (wk_wake_id r) = Ok (Some (f r)) \<and> pw_recorded_at_ms (f r) = wk_recorded_at_ms r
      \<and> pw_wake_id (f r) = wk_wake_id r \<and> pw_state (f r) = Waiting" if "r \<in> set rows" for r
  proof -
    have r: "r \<in> set (chief_wake_requests l)" "wk_state r = ''waiting''" using that by (auto simp: rows_def)
    obtain w where "load_chief_wake env l (wk_wake_id r) = Ok (Some (persisted_wake r w))"
      using stored_wake_loads [OF assms r(1)] by blast
    then show ?thesis using r(2) by (simp add: f_def persisted_wake_def)
  qed
  have "list_waiting_chief_wakes env l = Ok (map f rows)"
    unfolding list_waiting_chief_wakes_def Let_def rows_def [symmetric] by (rule foldr_collect) (use f in blast)
  moreover have "map pw_recorded_at_ms (map f rows) = map wk_recorded_at_ms rows"
    using f by (simp add: map_eq_conv)
  then have "sorted (map pw_recorded_at_ms (map f rows))" by (simp only: rows_def sorted_sort_key)
  moreover have "wk_state r = ''waiting'' \<longleftrightarrow> wk_acked_at_ms r = None" if "r \<in> set (chief_wake_requests l)" for r
    using stored_wake_loads [OF assms that] by blast
  then have "set rows = {r \<in> set (chief_wake_requests l). wk_acked_at_ms r = None}" by (auto simp: rows_def)
  moreover have "pw_wake_id ` set (map f rows) = wk_wake_id ` set rows"
    using f by (force simp: image_iff)
  ultimately show ?thesis using f by (intro exI [of _ "map f rows"]) auto
qed

text \<open>
  A snapshot has scores, and \<open>serde_json\<close> does not promise to read a float back to the bit.  So nothing is
  assumed of its parser: nothing is found exactly when nothing is stored, and the text that is stored is
  the serialisation of a valid snapshot; the lookup gives what the parser makes of that text and fails
  only when it rejects it.
\<close>

definition snapshot_lookup ::
  "Env \<Rightarrow> SnapshotRow option \<Rightarrow> LedgerError + PersistedReconciliationSnapshot option \<Rightarrow> bool" where
  "snapshot_lookup env row x \<longleftrightarrow>
     (case row of
        None \<Rightarrow> x = Ok None
      | Some r \<Rightarrow>
          (\<exists>snap. js_to_string (en_snapshot env) snap = Some (sn_snapshot_json r) \<and> Snapshot_validate snap = Ok ())
          \<and> (case js_from_str (en_snapshot env) (sn_snapshot_json r) of
                None \<Rightarrow> isl x
              | Some reread \<Rightarrow> \<exists>p. x = Ok (Some p) \<and> pz_snapshot p = reread \<and> pz_event_version p \<noteq> None
                  \<and> pz_snapshot_sha256 p = sha256_bytes (en_sha256 env) (sn_snapshot_json r)))"

lemma stored_snapshot_loads:
  assumes "ledger_ok env l"
  shows "snapshot_lookup env
    (fetch_optional (\<lambda>r. sn_stream_id r = s \<and> sn_challenge_id r = ch) (reconciliation_snapshots l))
    (load_reconciliation_snapshot env l s ch)"
proof (cases "fetch_optional (\<lambda>r. sn_stream_id r = s \<and> sn_challenge_id r = ch) (reconciliation_snapshots l)")
  case (Some r)
  have ok: "recon_ok env l" "event_log_ok (coordination_events l)" using assms(1) by (simp_all add: ledger_ok_def)
  have "r \<in> set (reconciliation_snapshots l)" using Some by (auto dest: fetch_optional_SomeD)
  then have "snapshot_doc env (reconciliation_items l) r" using ok(1) by (simp add: recon_ok_def)
  then obtain snap x where snap: "sn_snapshot_sha256 r = sha256_bytes (en_sha256 env) (sn_snapshot_json r)"
      "js_to_string (en_snapshot env) snap = Some (sn_snapshot_json r)" "Snapshot_validate snap = Ok ()"
    and x: "x \<in> set (reconciliation_items l)" "sn_event_version r = Some (it_event_version x)"
    unfolding snapshot_doc_def by blast
  have "0 \<le> it_event_version x"
  proof -
    have "item_doc env l x" using ok(1) x(1) by (simp add: recon_ok_def)
    then show ?thesis
      using event_log_ok_version [OF ok(2)] unfolding item_doc_def in_log_def by force
  qed
  then show ?thesis
    unfolding snapshot_lookup_def using Some snap x(2)
    by (auto simp: load_reconciliation_snapshot_def split: option.split)
qed (simp add: load_reconciliation_snapshot_def snapshot_lookup_def)

lemma stored_confirmation_loads:
  assumes "ledger_ok env l" "confirmation_reads_back env"
  shows "\<exists>x. load_leaderboard_confirmation env l c = Ok x
    \<and> (x = None \<longleftrightarrow> c \<notin> cf_confirmation_id ` set (leaderboard_confirmations l))
    \<and> (\<forall>p. x = Some p \<longrightarrow> lc_confirmation_id (pl_request p) = c
         \<and> (pl_state p = ConfirmationState.Confirmed \<longleftrightarrow> lc_state (pl_request p) = ''confirmed''))"
proof (cases "fetch_optional (\<lambda>r. cf_confirmation_id r = c) (leaderboard_confirmations l)")
  case (Some r)
  have ok: "confirmations_ok env l" "event_log_ok (coordination_events l)" using assms(1) by (simp_all add: ledger_ok_def)
  have r: "r \<in> set (leaderboard_confirmations l)" "cf_confirmation_id r = c" using Some by (auto dest: fetch_optional_SomeD)
  then have doc: "confirmation_doc env l r" using ok(1) by (simp add: confirmations_ok_def)
  then obtain d where d: "js_to_string (en_confirmation env) d = Some (cf_confirmation_json r)"
      "lc_confirmation_id d = cf_confirmation_id r" "lc_state d = cf_state r"
    unfolding confirmation_doc_def by blast
  obtain y where y: "js_from_str (en_confirmation env) (cf_confirmation_json r) = Some y" "y\<lparr> lc_entry := lc_entry d \<rparr> = d"
    using assms(2) d(1) unfolding confirmation_reads_back_def by blast
  have "lc_confirmation_id y = lc_confirmation_id d" "lc_state y = lc_state d"
    using arg_cong [OF y(2), of lc_confirmation_id] arg_cong [OF y(2), of lc_state] by simp_all
  then have same: "lc_confirmation_id y = cf_confirmation_id r" "lc_state y = cf_state r"
    using d(2,3) by simp_all
  have "cf_state r = ''confirmed'' \<or> cf_state r = ''unknown_needs_reconcile''"
    using doc by (simp add: confirmation_doc_def CONFIRMATION_STATES_def)
  moreover have "0 \<le> cf_event_version r"
    using doc event_log_ok_version [OF ok(2)] unfolding confirmation_doc_def in_log_def by force
  moreover have "cf_confirmation_sha256 r = sha256_bytes (en_sha256 env) (cf_confirmation_json r)"
    using doc by (simp add: confirmation_doc_def)
  ultimately show ?thesis
    using Some imageI [OF r(1), of cf_confirmation_id] r(2) same y(1)
    by (auto simp: load_leaderboard_confirmation_def)
next
  case None
  then have "c \<notin> cf_confirmation_id ` set (leaderboard_confirmations l)" by (auto simp: fetch_optional_None)
  with None show ?thesis by (simp add: load_leaderboard_confirmation_def)
qed

text \<open>
  C16. What the ledger stores, it can read.  In every reachable ledger, provided \<open>serde_json\<close> reads back the
  wake requests, which hold strings, integers and flags, and the fields of a confirmation other than
  its retained leaderboard entry, none of the error paths of the readers for a corrupted row is taken:
  a wake lookup finds every stored identifier and gives its read-only request; the list of waiting
  wakes is exactly the wakes that were not acknowledged, in the order they were recorded; and a
  confirmation lookup finds every stored identifier and gives its confirmation in the state it asserts.
  Nothing is assumed of reading a snapshot, which holds floats: a reconciliation lookup finds every
  stored stream and challenge, where the stored text is the serialisation of a valid snapshot, and
  gives what the parser makes of that text with its digest and event version; it fails only when the
  parser rejects that text.
\<close>

theorem stored_evidence_loads:
  assumes "reachable env l" "env_ok env"
    and "json_roundtrip (en_wake env)" "confirmation_reads_back env"
  shows "(\<exists>x. load_chief_wake env l i = Ok x \<and> (x = None \<longleftrightarrow> i \<notin> wk_wake_id ` set (chief_wake_requests l))
        \<and> (\<forall>w. x = Some w \<longrightarrow> wq_wake_id (pw_request w) = i \<and> \<not> wq_platform_write_attempted (pw_request w)))
    \<and> (\<exists>ws. list_waiting_chief_wakes env l = Ok ws \<and> sorted (map pw_recorded_at_ms ws)
        \<and> pw_wake_id ` set ws = wk_wake_id ` {r \<in> set (chief_wake_requests l). wk_acked_at_ms r = None}
        \<and> (\<forall>w \<in> set ws. pw_state w = Waiting))
    \<and> snapshot_lookup env
        (fetch_optional (\<lambda>r. sn_stream_id r = s \<and> sn_challenge_id r = ch) (reconciliation_snapshots l))
        (load_reconciliation_snapshot env l s ch)
    \<and> (\<exists>x. load_leaderboard_confirmation env l c = Ok x
        \<and> (x = None \<longleftrightarrow> c \<notin> cf_confirmation_id ` set (leaderboard_confirmations l))
        \<and> (\<forall>p. x = Some p \<longrightarrow> lc_confirmation_id (pl_request p) = c
             \<and> (pl_state p = ConfirmationState.Confirmed \<longleftrightarrow> lc_state (pl_request p) = ''confirmed'')))"
proof -
  have ok: "ledger_ok env l" using reachable_ok [OF assms(1,2)] .
  have "\<exists>x. load_chief_wake env l i = Ok x \<and> (x = None \<longleftrightarrow> i \<notin> wk_wake_id ` set (chief_wake_requests l))
        \<and> (\<forall>w. x = Some w \<longrightarrow> wq_wake_id (pw_request w) = i \<and> \<not> wq_platform_write_attempted (pw_request w))"
  proof (cases "fetch_optional (\<lambda>r. wk_wake_id r = i) (chief_wake_requests l)")
    case (Some r)
    then have r: "r \<in> set (chief_wake_requests l)" "wk_wake_id r = i" by (auto dest: fetch_optional_SomeD)
    obtain w where "load_chief_wake env l i = Ok (Some (persisted_wake r w))" "wq_wake_id w = i"
        "wake_fact (reconciliation_items l) w"
      using stored_wake_loads [OF ok assms(3) r(1)] unfolding r(2) by blast
    then show ?thesis
      using imageI [OF r(1), of wk_wake_id] r(2)
      by (intro exI [of _ "Some (persisted_wake r w)"]) (simp add: persisted_wake_def wake_fact_def)
  next
    case None
    then have "i \<notin> wk_wake_id ` set (chief_wake_requests l)" by (auto simp: fetch_optional_None)
    with None show ?thesis by (simp add: load_chief_wake_def)
  qed
  then show ?thesis
    by (rule conjI [OF _ conjI [OF waiting_wakes_load [OF ok assms(3)] conjI [OF stored_snapshot_loads [OF ok]
          stored_confirmation_loads [OF ok assms(4)]]]])
qed

theorem stored_evidence_loads_witness:
  "\<exists>ws. list_waiting_chief_wakes wake_env sample_woken = Ok ws \<and> pw_wake_id ` set ws = {''w1''}"
proof -
  have "{r \<in> set (chief_wake_requests sample_woken). wk_acked_at_ms r = None} = {wake_row wake_env sample_wake ''wake'' 20 1}"
    by (auto simp: sample_woken_def wake_row_def)
  then have ids: "wk_wake_id ` {r \<in> set (chief_wake_requests sample_woken). wk_acked_at_ms r = None} = {''w1''}"
    by (simp only: image_insert image_empty) (simp add: wake_row_def sample_wake_def)
  obtain ws where "list_waiting_chief_wakes wake_env sample_woken = Ok ws"
      "pw_wake_id ` set ws = wk_wake_id ` {r \<in> set (chief_wake_requests sample_woken). wk_acked_at_ms r = None}"
    using stored_evidence_loads [OF sample_woken_reachable wake_env_docs(8,6,7), THEN conjunct2, THEN conjunct1] by blast
  then show ?thesis unfolding ids by blast
qed

lemma acked_row:
  assumes "ack_chief_wake_audited l i t event = Inr (v, l')"
  shows "\<exists>r \<in> set (chief_wake_requests l'). wk_wake_id r = i \<and> wk_acked_at_ms r = Some t"
  using assms
proof (cases rule: ack_chief_wake_cases)
  case acked
  then obtain r where "r \<in> set (chief_wake_requests l)" "waiting_wake i r" by blast
  then show ?thesis
    using acked(6)
    by (intro bexI [of _ "r\<lparr> wk_state := ''acked'', wk_acked_at_ms := Some t \<rparr>"])
       (auto simp: set_update_where waiting_wake_def image_iff intro!: bexI [of _ r])
qed blast

text \<open>
  C14. A wake request is acknowledged once, and only for an applied fact.  After a wake was acknowledged,
  then in every later ledger of the history it loads as acknowledged at that time, and its read-only
  request names a reconciliation item of the same campaign, challenge and stream that was applied with
  that response and version; it is not among the waiting wakes; and an acknowledgement that succeeds
  again is the same one, at the same time, and changes nothing.
\<close>

theorem acked_wake_stays_acked:
  assumes "reachable env l" "env_ok env" "json_roundtrip (en_wake env)"
    and "ack_chief_wake_audited l i t event = Inr (v, l1)" "ledger_steps env l1 m"
  shows "(\<exists>w. load_chief_wake env m i = Ok (Some w) \<and> pw_state w = Acked \<and> pw_acked_at_ms w = Some t
        \<and> wake_fact (reconciliation_items m) (pw_request w))
    \<and> (\<forall>ws. list_waiting_chief_wakes env m = Ok ws \<longrightarrow> i \<notin> pw_wake_id ` set ws)
    \<and> (\<forall>t' event' v' m'. ack_chief_wake_audited m i t' event' = Inr (v', m') \<longrightarrow> t' = t \<and> m' = m)"
proof -
  note later = reachable_steps [OF reachable_step [OF assms(1) ledger_step.ack [OF assms(4)]] assms(2,5)]
  obtain r where r: "r \<in> set (chief_wake_requests l1)" "wk_wake_id r = i" "wk_acked_at_ms r = Some t"
    using acked_row [OF assms(4)] by blast
  have rm: "r \<in> set (chief_wake_requests m)"
    using acked_table.revoked_stays [OF _ r(1)] later(3) r(3) by (simp add: ledger_evolves_def)
  obtain w where w: "load_chief_wake env m i = Ok (Some (persisted_wake r w))" "wake_fact (reconciliation_items m) w"
      "wk_state r = ''waiting'' \<longleftrightarrow> wk_acked_at_ms r = None"
    using stored_wake_loads [OF later(2) assms(3) rm] r(2) by metis
  have unique: "x = r" if "x \<in> set (chief_wake_requests m)" "wk_wake_id x = i" for x
    using that rm r(2) later(2)
    by (intro wake_table.consistent_unique [of "chief_wake_requests m"]) (auto simp: ledger_ok_def wakes_ok_def wake_clash_def)
  have "i \<notin> pw_wake_id ` set ws" if "list_waiting_chief_wakes env m = Ok ws" for ws
    using waiting_wakes_load [OF later(2) assms(3)] that unique r(3) by auto
  moreover have "t' = t \<and> m' = m" if "ack_chief_wake_audited m i t' event' = Inr (v', m')" for t' event' v' m'
    using that
  proof (cases rule: ack_chief_wake_cases)
    case (replayed x)
    then show ?thesis using unique [of x] r(3) by simp
  next
    case acked
    then show ?thesis using unique r(3) w(3) by (auto simp: waiting_wake_def)
  qed
  ultimately show ?thesis
    using w r(3) by (intro conjI exI [of _ "persisted_wake r w"]) (auto simp: persisted_wake_def)
qed

theorem acked_wake_stays_acked_witness:
  "(\<exists>w. load_chief_wake wake_env sample_acked ''w1'' = Ok (Some w) \<and> pw_state w = Acked \<and> pw_acked_at_ms w = Some 30)
   \<and> isl (ack_chief_wake_audited sample_acked ''w1'' 40 (sample_event ''e4'' ''chief_wake'' ''w1'' 2 ''chief_wake_acked'' ''ack'' 40))"
proof -
  let ?again = "ack_chief_wake_audited sample_acked ''w1'' 40 (sample_event ''e4'' ''chief_wake'' ''w1'' 2 ''chief_wake_acked'' ''ack'' 40)"
  note acked = acked_wake_stays_acked [OF sample_woken_reachable wake_env_docs(8,6) sample_wake_steps(2) rtranclp.rtrancl_refl]
  have "?again \<noteq> Inr (v, m)" for v m
  proof
    assume "?again = Inr (v, m)"
    then have "(40 :: int) = 30" using acked by blast
    then show False by simp
  qed
  then have "isl ?again" by (cases ?again) auto
  then show ?thesis using acked by blast
qed

section \<open>Backing\<close>

lemma stored_penalty_item:
  assumes "recon_ok env l" "r \<in> set (reconciliation_penalties l)"
  shows "\<exists>x \<in> set (reconciliation_items l). it_campaign_id x = pn_campaign_id r \<and> it_challenge_id x = pn_challenge_id r
      \<and> it_attempt_id x = pn_attempt_id r \<and> it_response_sha256 x = pn_response_sha256 r
      \<and> in_log (coordination_events l) (it_event_id x) ''campaign'' (pn_campaign_id r)
          ''platform_reconciliation_recorded'' (pn_event_version r)"
    and "\<exists>raw. pn_raw_score r = sql_real (Some raw) \<and> f64_eq (pn_rewritten_score r) (f64_sub raw (Fin 1))"
proof -
  have doc: "penalty_doc (reconciliation_items l) r" using assms by (simp add: recon_ok_def)
  then obtain x where x: "x \<in> set (reconciliation_items l)" "it_campaign_id x = pn_campaign_id r"
      "it_challenge_id x = pn_challenge_id r" "it_attempt_id x = pn_attempt_id r"
      "it_response_sha256 x = pn_response_sha256 r" "it_event_version x = pn_event_version r"
    unfolding penalty_doc_def by blast
  moreover have "item_doc env l x" using assms(1) x(1) by (simp add: recon_ok_def)
  ultimately show "\<exists>x \<in> set (reconciliation_items l). it_campaign_id x = pn_campaign_id r \<and> it_challenge_id x = pn_challenge_id r
      \<and> it_attempt_id x = pn_attempt_id r \<and> it_response_sha256 x = pn_response_sha256 r
      \<and> in_log (coordination_events l) (it_event_id x) ''campaign'' (pn_campaign_id r)
          ''platform_reconciliation_recorded'' (pn_event_version r)"
    by (intro bexI [of _ x]) (simp_all add: item_doc_def)
  show "\<exists>raw. pn_raw_score r = sql_real (Some raw) \<and> f64_eq (pn_rewritten_score r) (f64_sub raw (Fin 1))"
    using doc unfolding penalty_doc_def by blast
qed

text \<open>
  C17. No evidence without its source.  In every reachable ledger, each platform observation carries the
  version of its event in the campaign's log and was recorded under a registered monitor lease of its
  campaign and challenge; and each penalty belongs to a reconciliation item of the same campaign,
  challenge, attempt and response, which is an event of the campaign's log with the penalty's version,
  and takes exactly one point off a raw score.
\<close>

theorem evidence_rows_are_backed:
  assumes "reachable env l" "env_ok env"
  shows "(\<forall>r \<in> set (platform_observations l).
        in_log (coordination_events l) (ob_event_id r) ''campaign'' (ob_campaign_id r)
          ''platform_observation_recorded'' (ob_event_version r)
        \<and> (\<exists>x \<in> set (actor_leases l). lw_lease_id x = ob_monitor_lease_id r \<and> lw_role x = role_name Monitor
             \<and> lw_campaign_id x = ob_campaign_id r \<and> lw_challenge_id x = ob_challenge_id r))
    \<and> (\<forall>r \<in> set (reconciliation_penalties l).
        (\<exists>x \<in> set (reconciliation_items l). it_campaign_id x = pn_campaign_id r \<and> it_challenge_id x = pn_challenge_id r
           \<and> it_attempt_id x = pn_attempt_id r \<and> it_response_sha256 x = pn_response_sha256 r
           \<and> in_log (coordination_events l) (it_event_id x) ''campaign'' (pn_campaign_id r)
               ''platform_reconciliation_recorded'' (pn_event_version r))
        \<and> (\<exists>raw. pn_raw_score r = sql_real (Some raw) \<and> f64_eq (pn_rewritten_score r) (f64_sub raw (Fin 1))))"
proof -
  have ok: "observations_ok env l" "recon_ok env l"
    using reachable_ok [OF assms] by (simp_all add: ledger_ok_def)
  show ?thesis
    using ok(1) stored_penalty_item [OF ok(2)] unfolding observations_ok_def observation_doc_def by simp
qed

theorem evidence_rows_are_backed_witness:
  "\<exists>r \<in> set (reconciliation_penalties sample_woken).
     \<exists>raw. pn_raw_score r = sql_real (Some raw) \<and> f64_eq (pn_rewritten_score r) (f64_sub raw (Fin 1))"
proof -
  have "reconciliation_penalties sample_woken \<noteq> []" by (simp add: sample_woken_def sample_recon_def)
  then obtain r where "r \<in> set (reconciliation_penalties sample_woken)" by (meson hd_in_set)
  then show ?thesis
    using evidence_rows_are_backed [OF sample_woken_reachable wake_env_docs(8)] by blast
qed

text \<open>
  A leaderboard confirmation is bound to no monitor in particular: the context only has to name the role
  and some campaign and challenge, and which ones, and whether its lease is alive, changes nothing.
\<close>

theorem confirmation_ignores_whose_monitor_it_is:
  assumes "bound_monitor m" and "bound_monitor m'"
  shows "record_leaderboard_confirmation_audited env l m c now e = record_leaderboard_confirmation_audited env l m' c now e"
  using assms by (simp add: record_leaderboard_confirmation_audited_def)

end
