(* ===== verification/Json.thy ===== *)
theory Json
  imports WorkspaceAcl Float64
begin

text \<open>
  The dynamic JSON values of \<open>serde_json\<close> and the parts of the standard library the evidence gates of
  the solver guard use on text and files: \<open>read_to_string\<close> with its UTF-8 check, \<open>lines\<close>, the
  normalisation of line ends, the number of characters, \<open>file_name\<close> and \<open>parent\<close> of a path.
\<close>

section \<open>Values\<close>

datatype Number = PosInt nat | NegInt int | Float f64

datatype JsonValue =
    JNull
  | JBool bool
  | JNumber Number
  | JString string
  | JArray "JsonValue list"
  | JObject "(string \<times> JsonValue) list"

fun as_str :: "JsonValue \<Rightarrow> string option" where
  "as_str (JString s) = Some s"
| "as_str _ = None"

fun as_array :: "JsonValue \<Rightarrow> JsonValue list option" where
  "as_array (JArray vs) = Some vs"
| "as_array _ = None"

fun as_object :: "JsonValue \<Rightarrow> (string \<times> JsonValue) list option" where
  "as_object (JObject m) = Some m"
| "as_object _ = None"

fun as_u64 :: "JsonValue \<Rightarrow> nat option" where
  "as_u64 (JNumber (PosInt n)) = Some n"
| "as_u64 _ = None"

fun as_i64 :: "JsonValue \<Rightarrow> int option" where
  "as_i64 (JNumber (PosInt n)) = (if int n \<le> i64_max then Some (int n) else None)"
| "as_i64 (JNumber (NegInt i)) = Some i"
| "as_i64 _ = None"

fun as_f64 :: "JsonValue \<Rightarrow> f64 option" where
  "as_f64 (JNumber (PosInt n)) = Some (f64_round (of_nat n))"
| "as_f64 (JNumber (NegInt i)) = Some (f64_round (of_int i))"
| "as_f64 (JNumber (Float x)) = Some x"
| "as_f64 _ = None"

fun json_get :: "JsonValue \<Rightarrow> string \<Rightarrow> JsonValue option" where
  "json_get (JObject m) k = map_of m k"
| "json_get _ k = None"

text \<open>\<open>value.get(key).and_then(JsonValue::as_str)\<close> and its siblings.\<close>

definition get_str :: "JsonValue \<Rightarrow> string \<Rightarrow> string option" where
  "get_str v k = Option.bind (json_get v k) as_str"

text \<open>\<open>names.iter().find_map(f)\<close>.\<close>

fun find_map :: "('a \<Rightarrow> 'b option) \<Rightarrow> 'a list \<Rightarrow> 'b option" where
  "find_map f [] = None"
| "find_map f (x # xs) = (case f x of Some y \<Rightarrow> Some y | None \<Rightarrow> find_map f xs)"

definition non_blank :: "string option \<Rightarrow> string option" where
  "non_blank x = (case x of Some s \<Rightarrow> if is_blank s then None else Some s | None \<Rightarrow> None)"

lemma non_blank_Some [simp]: "non_blank x = Some s \<longleftrightarrow> x = Some s \<and> \<not> is_blank s"
  by (cases x) (auto simp: non_blank_def)

lemma find_map_Some: "find_map f xs = Some y \<Longrightarrow> \<exists>x \<in> set xs. f x = Some y"
  by (induction xs) (auto split: option.splits)

section \<open>Text\<close>

text \<open>The well-formed UTF-8 sequences, as \<open>std::str::from_utf8\<close> accepts them.\<close>

definition byte_in :: "nat \<Rightarrow> nat \<Rightarrow> char \<Rightarrow> bool" where
  "byte_in lo hi c \<longleftrightarrow> lo \<le> of_char c \<and> of_char c \<le> hi"

abbreviation continuation :: "char \<Rightarrow> bool" where
  "continuation \<equiv> byte_in 0x80 0xBF"

definition utf8_head2 :: "char \<Rightarrow> char \<Rightarrow> bool" where
  "utf8_head2 a b \<longleftrightarrow>
     byte_in 0xE0 0xE0 a \<and> byte_in 0xA0 0xBF b \<or> byte_in 0xE1 0xEC a \<and> continuation b
     \<or> byte_in 0xED 0xED a \<and> byte_in 0x80 0x9F b \<or> byte_in 0xEE 0xEF a \<and> continuation b"

definition utf8_head3 :: "char \<Rightarrow> char \<Rightarrow> bool" where
  "utf8_head3 a b \<longleftrightarrow>
     byte_in 0xF0 0xF0 a \<and> byte_in 0x90 0xBF b \<or> byte_in 0xF1 0xF3 a \<and> continuation b
     \<or> byte_in 0xF4 0xF4 a \<and> byte_in 0x80 0x8F b"

fun utf8_valid :: "string \<Rightarrow> bool" where
  "utf8_valid [] \<longleftrightarrow> True"
| "utf8_valid (a # bs) \<longleftrightarrow>
     (if byte_in 0 0x7F a then utf8_valid bs
      else case bs of
        b # cs \<Rightarrow>
          if byte_in 0xC2 0xDF a then continuation b \<and> utf8_valid cs
          else (case cs of
            c # ds \<Rightarrow>
              if utf8_head2 a b then continuation c \<and> utf8_valid ds
              else (case ds of
                d # es \<Rightarrow> utf8_head3 a b \<and> continuation c \<and> continuation d \<and> utf8_valid es
              | [] \<Rightarrow> False)
          | [] \<Rightarrow> False)
      | [] \<Rightarrow> False)"

text \<open>\<open>chars().count()\<close>: every byte that is not a continuation starts a character.\<close>

definition char_count :: "string \<Rightarrow> nat" where
  "char_count s = length (filter (\<lambda>c. \<not> continuation c) s)"

text \<open>\<open>str::is_char_boundary\<close>; slicing elsewhere panics.\<close>

definition is_char_boundary :: "string \<Rightarrow> nat \<Rightarrow> bool" where
  "is_char_boundary s i \<longleftrightarrow> i = 0 \<or> i = length s \<or> i < length s \<and> \<not> continuation (s ! i)"

text \<open>\<open>text.replace("\r\n", "\n")\<close>.\<close>

fun crlf_to_lf :: "string \<Rightarrow> string" where
  "crlf_to_lf [] = []"
| "crlf_to_lf [c] = [c]"
| "crlf_to_lf (c # d # s) =
     (if c = CHR 0x0D \<and> d = CHR 0x0A then CHR 0x0A # crlf_to_lf s else c # crlf_to_lf (d # s))"

text \<open>\<open>str::lines\<close>: split at line feeds, one carriage return before it removed, no last empty line.\<close>

definition strip_cr :: "string \<Rightarrow> string" where
  "strip_cr l = (if ends_with l [CHR 0x0D] then butlast l else l)"

definition lines :: "string \<Rightarrow> string list" where
  "lines s =
     (let ws = split_by (\<lambda>c. c = CHR 0x0A) s
      in map strip_cr (butlast ws) @ (if last ws = [] then [] else [last ws]))"

section \<open>Files\<close>

datatype ReadError = Unreadable | InvalidData

definition read_to_string :: "(string \<Rightarrow> string option) \<Rightarrow> string \<Rightarrow> ReadError + string" where
  "read_to_string read p =
     (case read p of
        None \<Rightarrow> Err Unreadable
      | Some bytes \<Rightarrow> if utf8_valid bytes then Ok bytes else Err InvalidData)"

text \<open>\<open>Path::file_name\<close> and \<open>Path::parent\<close>, the latter with its separators normalised.\<close>

definition file_name :: "string \<Rightarrow> string option" where
  "file_name p =
     (let cs = components p
      in if cs = [] \<or> last cs = ''/'' \<or> last cs = ''..'' \<or> last cs = ''.'' then None else Some (last cs))"

fun join_components :: "string list \<Rightarrow> string" where
  "join_components [] = []"
| "join_components [c] = c"
| "join_components (c # cs) = path_join c (join_components cs)"

definition path_parent :: "string \<Rightarrow> string option" where
  "path_parent p =
     (let cs = components p
      in if cs = [] \<or> last cs = ''/'' then None else Some (join_components (butlast cs)))"

end
