(* ===== verification/TraceGate.thy ===== *)
theory TraceGate
  imports Json GuardGates
begin

text \<open>
  The provenance gate of the solver guard: \<open>validate_trace_evidence\<close>, \<open>validate_execution_record\<close> and
  \<open>validate_cross_references\<close> of \<open>solver-guard/src/lib.rs\<close> with everything they call.

  The file system, SHA-256, the JSON parser for each type, the RFC 3339 parser of \<open>chrono\<close> and the
  modification times (in nanoseconds since the epoch) are the parameters of the record \<open>Files\<close>.
\<close>

record ArtifactManifestEntry =
  ae_path :: string
  ae_sha256 :: string

type_synonym ArtifactManifest = "ArtifactManifestEntry list"

record Files =
  fl_fs :: FileSystem
  fl_read :: "string \<Rightarrow> string option"
  fl_sha256 :: "string \<Rightarrow> string"
  fl_modified_ns :: "string \<Rightarrow> int option"
  fl_json :: "string \<Rightarrow> JsonValue option"
  fl_manifest :: "string \<Rightarrow> ArtifactManifest option"
  fl_rfc3339 :: "string \<Rightarrow> int option"

text \<open>\<open>InvalidBy\<close> is \<open>Invalid\<close> with a prefix and the text of an error of a parser.\<close>

datatype TraceValidationError = OutsideWorkspace string | Io | Invalid string | InvalidBy string

definition ev_read_to_string :: "Files \<Rightarrow> string \<Rightarrow> TraceValidationError + string" where
  "ev_read_to_string f p = map_err (\<lambda>_. Io) (read_to_string (fl_read f) p)"

definition ev_sha256_file :: "Files \<Rightarrow> string \<Rightarrow> TraceValidationError + string" where
  "ev_sha256_file f p = ok_or (sha256_file (fl_read f) (fl_sha256 f) p) Io"

definition canonical_evidence_path :: "Files \<Rightarrow> string \<Rightarrow> string \<Rightarrow> TraceValidationError + string" where
  "canonical_evidence_path f workspace supplied =
     (let candidate = (if is_absolute supplied then supplied else path_join workspace supplied)
      in and_then (ok_or (fs_canonicalize (fl_fs f) candidate) Io) (\<lambda>canonical.
         if \<not> path_starts_with canonical workspace \<or> \<not> fs_is_file (fl_fs f) canonical
         then Err (OutsideWorkspace supplied) else Ok canonical))"

definition canonical_directory_path :: "Files \<Rightarrow> string \<Rightarrow> string \<Rightarrow> TraceValidationError + string" where
  "canonical_directory_path f workspace supplied =
     (let candidate = (if is_absolute supplied then supplied else path_join workspace supplied)
      in and_then (ok_or (fs_canonicalize (fl_fs f) candidate) Io) (\<lambda>canonical.
         if \<not> path_starts_with canonical workspace \<or> \<not> fs_is_dir (fl_fs f) canonical
         then Err (OutsideWorkspace supplied) else Ok canonical))"

section \<open>Steps\<close>

definition at_step :: "nat \<Rightarrow> string" where
  "at_step index = '' at step '' @ decimal (index + 1)"

definition parse_trace_steps :: "Files \<Rightarrow> string \<Rightarrow> TraceValidationError + JsonValue list" where
  "parse_trace_steps f text =
     (let trimmed = trim text
      in if trimmed = [] then Err (Invalid ''trace is empty'')
         else
         and_then
           (if starts_with trimmed ''[''
            then (case fl_json f trimmed of
                    Some (JArray steps) \<Rightarrow> Ok steps
                  | _ \<Rightarrow> Err (InvalidBy ''trace JSON array: ''))
            else foldr (\<lambda>(index, line) rest.
                   and_then (ok_or (fl_json f line) (InvalidBy (''trace JSONL line '' @ decimal (index + 1) @ '': ''))) (\<lambda>v.
                   and_then rest (\<lambda>vs. Ok (v # vs)))) (List.enumerate 0 (lines trimmed)) (Ok []))
           (\<lambda>steps.
              if steps = [] \<or> 10000 < length steps \<or> list_ex (\<lambda>s. as_object s = None) steps
              then Err (Invalid ''trace must contain 1..=10000 JSON objects'')
              else Ok steps))"

definition required_string :: "JsonValue \<Rightarrow> string \<Rightarrow> nat \<Rightarrow> TraceValidationError + string" where
  "required_string step field index =
     ok_or (non_blank (get_str step field)) (Invalid (field @ '' is required'' @ at_step index))"

definition parse_timestamp :: "Files \<Rightarrow> JsonValue option \<Rightarrow> nat \<Rightarrow> TraceValidationError + int" where
  "parse_timestamp f value index =
     (case Option.bind value as_i64 of
        Some n \<Rightarrow> Ok n
      | None \<Rightarrow>
          and_then (ok_or (Option.bind value as_str) (Invalid (''timestamp is required'' @ at_step index))) (\<lambda>text.
          ok_or (fl_rfc3339 f text) (InvalidBy (''invalid timestamp'' @ at_step index @ '': ''))))"

definition ALLOWED :: "string list" where
  "ALLOWED = [''thought'', ''tool_call'', ''tool_result'', ''artifact'', ''decision'', ''error'', ''observation'']"

record StepState =
  ss_calls :: "(string \<times> nat) list"
  ss_results :: "(string \<times> nat) list"
  ss_step_ids :: "string set"
  ss_previous_timestamp :: "int option"
  ss_stdout_anchored :: bool
  ss_thought_count :: nat
  ss_long_thought_count :: nat
  ss_total_cost :: f64

definition StepState_new :: StepState where
  "StepState_new = \<lparr> ss_calls = [], ss_results = [], ss_step_ids = {}, ss_previous_timestamp = None,
     ss_stdout_anchored = False, ss_thought_count = 0, ss_long_thought_count = 0, ss_total_cost = Fin 0 \<rparr>"

text \<open>\<open>*map.entry(id).or_default() += 1\<close>.\<close>

definition count_up :: "string \<Rightarrow> (string \<times> nat) list \<Rightarrow> (string \<times> nat) list" where
  "count_up k m = btree_insert k (case map_of m k of Some n \<Rightarrow> n + 1 | None \<Rightarrow> 1) m"

definition amount :: "JsonValue \<Rightarrow> string \<Rightarrow> nat \<Rightarrow> TraceValidationError + f64" where
  "amount step field index =
     and_then (ok_or (Option.bind (json_get step field) as_f64) (Invalid (field @ '' is required'' @ at_step index))) (\<lambda>value.
     if \<not> is_finite value \<or> f64_lt value (Fin 0)
     then Err (Invalid (field @ '' must be finite and non-negative'')) else Ok value)"

text \<open>The checks every step has to pass, and the state after them.\<close>

definition step_header :: "Files \<Rightarrow> StepState \<Rightarrow> nat \<Rightarrow> JsonValue \<Rightarrow> TraceValidationError + string \<times> StepState" where
  "step_header f s index step =
     (if Option.bind (json_get step ''step_order'') as_u64 \<noteq> Some (index + 1)
      then Err (Invalid (''step_order must be contiguous'' @ at_step index))
      else
      and_then (required_string step ''step_type'' index) (\<lambda>step_type.
      if step_type \<notin> set ALLOWED
      then Err (Invalid (''unsupported step_type `'' @ step_type @ ''`'' @ at_step index))
      else
      and_then (required_string step ''step_id'' index) (\<lambda>step_id.
      if step_id \<in> ss_step_ids s then Err (Invalid ''step_id must be non-empty and unique'')
      else
      and_then (amount step ''duration_s'' index) (\<lambda>_.
      and_then (amount step ''cost_usd'' index) (\<lambda>cost.
      and_then (ok_or (Option.bind (json_get step ''tokens'') as_i64) (Invalid (''tokens is required'' @ at_step index))) (\<lambda>tokens.
      if tokens < 0 then Err (Invalid ''tokens must be non-negative'')
      else
      and_then (parse_timestamp f (json_get step ''timestamp'') index) (\<lambda>timestamp.
      if (case ss_previous_timestamp s of Some previous \<Rightarrow> timestamp < previous | None \<Rightarrow> False)
      then Err (Invalid ''trace timestamps must be monotonic'')
      else Ok (step_type, s\<lparr> ss_step_ids := insert step_id (ss_step_ids s),
                             ss_total_cost := f64_add (ss_total_cost s) cost,
                             ss_previous_timestamp := Some timestamp \<rparr>))))))))"

text \<open>The \<open>match\<close> on the type of the step.\<close>

definition anchors :: "string \<Rightarrow> string \<Rightarrow> bool" where
  "anchors run_log body \<longleftrightarrow>
     16 \<le> char_count (trim body) \<and> str_contains (crlf_to_lf run_log) (crlf_to_lf body)"

definition step_body ::
  "JsonValue list \<Rightarrow> string \<Rightarrow> nat \<Rightarrow> JsonValue \<Rightarrow> string \<Rightarrow> StepState \<Rightarrow> TraceValidationError + StepState" where
  "step_body steps run_log index step step_type s =
     (if step_type = ''thought'' then
        and_then (required_string step ''body'' index) (\<lambda>body.
        Ok (s\<lparr> ss_thought_count := ss_thought_count s + 1,
               ss_long_thought_count := ss_long_thought_count s + (if 80 \<le> char_count body then 1 else 0) \<rparr>))
      else if step_type = ''tool_call'' then
        and_then (required_string step ''tool_call_id'' index) (\<lambda>i.
        and_then (required_string step ''tool_name'' index) (\<lambda>_.
        if json_get step ''tool_args'' \<in> {None, Some JNull}
        then Err (Invalid (''tool_args is required'' @ at_step index))
        else Ok (s\<lparr> ss_calls := count_up i (ss_calls s) \<rparr>)))
      else if step_type = ''tool_result'' then
        if index = 0 \<or> get_str (steps ! (index - 1)) ''step_type'' \<noteq> Some ''tool_call''
        then Err (Invalid ''each tool_result must immediately follow its tool_call'')
        else
        and_then (required_string step ''tool_call_id'' index) (\<lambda>i.
        and_then (required_string step ''body'' index) (\<lambda>body.
        Ok (s\<lparr> ss_stdout_anchored := ss_stdout_anchored s \<or> anchors run_log body,
               ss_results := count_up i (ss_results s) \<rparr>)))
      else Ok s)"

definition trace_step ::
  "Files \<Rightarrow> JsonValue list \<Rightarrow> string \<Rightarrow> StepState \<Rightarrow> nat \<times> JsonValue \<Rightarrow> TraceValidationError + StepState" where
  "trace_step f steps run_log s = (\<lambda>(index, step).
     and_then (step_header f s index step) (\<lambda>(step_type, s').
     step_body steps run_log index step step_type s'))"

text \<open>The literal \<open>0.01\<close>.\<close>

definition COST_FLOOR :: f64 where
  "COST_FLOOR = f64_round (1 / 100)"

definition trace_summary :: "StepState \<Rightarrow> TraceValidationError + unit" where
  "trace_summary s = checks
     [fail_if (ss_calls s = [] \<or> ss_calls s \<noteq> ss_results s \<or> list_ex (\<lambda>(_, n). n \<noteq> 1) (ss_calls s)
               \<or> list_ex (\<lambda>(_, n). n \<noteq> 1) (ss_results s))
        (Invalid ''tool_call/tool_result pairs must be non-empty and exactly 1:1''),
      fail_if (ss_thought_count s < 3 \<or> ss_long_thought_count s < 3)
        (Invalid ''trace requires at least three thought steps with bodies of 80+ characters''),
      fail_if (f64_lt (ss_total_cost s) COST_FLOOR) (Invalid ''trace total cost_usd must be at least 0.01''),
      fail_if (\<not> ss_stdout_anchored s) (Invalid ''no tool_result body is anchored in execution run.log'')]"

definition validate_trace_steps :: "Files \<Rightarrow> JsonValue list \<Rightarrow> string \<Rightarrow> TraceValidationError + unit" where
  "validate_trace_steps f steps run_log =
     and_then (run_events (trace_step f steps run_log) StepState_new (List.enumerate 0 steps)) trace_summary"

section \<open>Artifacts\<close>

text \<open>\<open>BTreeMap<PathBuf, String>\<close>: a path is identified by, and ordered by, its components.\<close>

type_synonym Artifacts = "(string list \<times> (string \<times> string)) list"

definition EVIDENCE_NAMES :: "string list" where
  "EVIDENCE_NAMES = [''trace.jsonl'', ''run.log'', ''artifacts.json'', ''raw_messages.jsonl'']"

definition artifact_step :: "Files \<Rightarrow> string \<Rightarrow> Artifacts \<Rightarrow> ArtifactManifestEntry \<Rightarrow> TraceValidationError + Artifacts" where
  "artifact_step f workspace artifacts a =
     (if is_blank (ae_path a) \<or> \<not> is_hex 64 (ae_sha256 a)
      then Err (Invalid ''artifact path and 64-character SHA-256 are required'')
      else
      and_then (canonical_evidence_path f workspace (ae_path a)) (\<lambda>path.
      if (case file_name path of Some n \<Rightarrow> to_ascii_lowercase n \<in> set EVIDENCE_NAMES | None \<Rightarrow> False)
      then Err (Invalid ''evidence files cannot be submitted as business artifacts'')
      else
      and_then (ev_sha256_file f path) (\<lambda>actual.
      if \<not> eq_ignore_ascii_case actual (ae_sha256 a)
      then Err (Invalid (''artifact hash mismatch for '' @ ae_path a))
      else if map_of artifacts (components path) \<noteq> None
      then Err (Invalid ''artifact manifest contains a duplicate path'')
      else Ok (btree_insert (components path) (path, actual) artifacts))))"

definition validate_artifact_manifest :: "Files \<Rightarrow> string \<Rightarrow> ArtifactManifest \<Rightarrow> TraceValidationError + Artifacts" where
  "validate_artifact_manifest f workspace manifest =
     (if manifest = [] then Err (Invalid ''artifact manifest must contain at least one artifact'')
      else run_events (artifact_step f workspace) [] manifest)"

definition artifact_ref :: "Files \<Rightarrow> string \<Rightarrow> Artifacts \<Rightarrow> JsonValue \<Rightarrow> TraceValidationError + unit" where
  "artifact_ref f trace_dir artifacts step =
     and_then (ok_or (non_blank (get_str step ''artifact_path''))
         (Invalid ''artifact trace step requires artifact_path'')) (\<lambda>raw.
     and_then (ok_or (fs_canonicalize (fl_fs f) (path_join trace_dir raw)) Io) (\<lambda>candidate.
     fail_if (map_of artifacts (components candidate) = None)
       (Invalid (''trace artifact is absent from the verified manifest: '' @ raw))))"

definition validate_trace_artifact_refs ::
  "Files \<Rightarrow> JsonValue list \<Rightarrow> string \<Rightarrow> Artifacts \<Rightarrow> TraceValidationError + unit" where
  "validate_trace_artifact_refs f steps trace_path artifacts =
     and_then (ok_or (path_parent trace_path) (Invalid ''trace path has no parent directory'')) (\<lambda>trace_dir.
     let refs = filter (\<lambda>s. get_str s ''step_type'' = Some ''artifact'') steps
     in and_then (checks (map (artifact_ref f trace_dir artifacts) refs)) (\<lambda>_.
        fail_if (refs = []) (Invalid ''trace must reference at least one verified artifact'')))"

section \<open>Trace evidence\<close>

definition MAX_TRACE_BYTES :: nat where
  "MAX_TRACE_BYTES = 8 * 1024 * 1024"

definition validate_trace_evidence ::
  "Files \<Rightarrow> string \<Rightarrow> string \<Rightarrow> string \<Rightarrow> string \<Rightarrow> TraceValidationError + TraceEvidence" where
  "validate_trace_evidence f workspace trace_path run_log_path artifact_manifest_path =
     and_then (ok_or (fs_canonicalize (fl_fs f) workspace) Io) (\<lambda>workspace.
     and_then (canonical_evidence_path f workspace trace_path) (\<lambda>trace_path.
     and_then (canonical_evidence_path f workspace run_log_path) (\<lambda>run_log_path.
     and_then (canonical_evidence_path f workspace artifact_manifest_path) (\<lambda>artifact_manifest_path.
     and_then (ev_read_to_string f trace_path) (\<lambda>trace_text.
     if MAX_TRACE_BYTES < length trace_text then Err (Invalid ''trace exceeds the 8 MiB admission limit'')
     else
     and_then (ev_read_to_string f run_log_path) (\<lambda>run_log.
     if is_blank run_log then Err (Invalid ''execution run.log is empty'')
     else
     and_then (parse_trace_steps f trace_text) (\<lambda>steps.
     and_then (validate_trace_steps f steps run_log) (\<lambda>_.
     and_then (ev_read_to_string f artifact_manifest_path) (\<lambda>manifest_text.
     and_then (ok_or (fl_manifest f manifest_text) (InvalidBy ''artifact manifest: '')) (\<lambda>manifest.
     and_then (validate_artifact_manifest f workspace manifest) (\<lambda>artifacts.
     and_then (validate_trace_artifact_refs f steps trace_path artifacts) (\<lambda>_.
     Ok \<lparr> te_real_execution = True, te_paired_tool_events = True, te_artifact_provenance = True \<rparr>))))))))))))"

end
