(* ===== verification/TraceSpec.thy ===== *)
theory TraceSpec
  imports TraceGate
begin

text \<open>
  What the provenance gate promises, stated on the list of steps alone, and that the one-pass
  validator of the sources accepts exactly the traces that meet it.
\<close>

section \<open>The specification\<close>

definition of_type :: "string \<Rightarrow> JsonValue \<Rightarrow> bool" where
  "of_type t s \<longleftrightarrow> get_str s ''step_type'' = Some t"

definition has_text :: "JsonValue \<Rightarrow> string \<Rightarrow> bool" where
  "has_text s k \<longleftrightarrow> non_blank (get_str s k) \<noteq> None"

definition text_of :: "JsonValue \<Rightarrow> string \<Rightarrow> string" where
  "text_of s k = the (get_str s k)"

definition has_amount :: "JsonValue \<Rightarrow> string \<Rightarrow> bool" where
  "has_amount s k \<longleftrightarrow>
     (case Option.bind (json_get s k) as_f64 of
        Some v \<Rightarrow> is_finite v \<and> \<not> f64_lt v (Fin 0) | None \<Rightarrow> False)"

definition amount_of :: "JsonValue \<Rightarrow> string \<Rightarrow> f64" where
  "amount_of s k = the (Option.bind (json_get s k) as_f64)"

definition has_tokens :: "JsonValue \<Rightarrow> bool" where
  "has_tokens s \<longleftrightarrow>
     (case Option.bind (json_get s ''tokens'') as_i64 of Some n \<Rightarrow> 0 \<le> n | None \<Rightarrow> False)"

definition has_time :: "Files \<Rightarrow> JsonValue \<Rightarrow> bool" where
  "has_time f s \<longleftrightarrow> is_ok (parse_timestamp f (json_get s ''timestamp'') 0)"

definition time_of :: "Files \<Rightarrow> JsonValue \<Rightarrow> int" where
  "time_of f s = projr (parse_timestamp f (json_get s ''timestamp'') 0)"

text \<open>A single step at its position, given the step before it.\<close>

definition step_ok :: "Files \<Rightarrow> JsonValue option \<Rightarrow> nat \<Rightarrow> JsonValue \<Rightarrow> bool" where
  "step_ok f previous index s \<longleftrightarrow>
     Option.bind (json_get s ''step_order'') as_u64 = Some (index + 1)
     \<and> list_ex (\<lambda>t. of_type t s) ALLOWED
     \<and> has_text s ''step_id'' \<and> has_amount s ''duration_s'' \<and> has_amount s ''cost_usd'' \<and> has_tokens s \<and> has_time f s
     \<and> (of_type ''thought'' s \<longrightarrow> has_text s ''body'')
     \<and> (of_type ''tool_call'' s \<longrightarrow>
          has_text s ''tool_call_id'' \<and> has_text s ''tool_name'' \<and> json_get s ''tool_args'' \<notin> {None, Some JNull})
     \<and> (of_type ''tool_result'' s \<longrightarrow>
          (case previous of Some p \<Rightarrow> of_type ''tool_call'' p | None \<Rightarrow> False) \<and> has_text s ''tool_call_id'' \<and> has_text s ''body'')"

definition prev_step :: "JsonValue list \<Rightarrow> nat \<Rightarrow> JsonValue option" where
  "prev_step steps i = (if i = 0 then None else Some (steps ! (i - 1)))"

definition call_ids :: "string \<Rightarrow> JsonValue list \<Rightarrow> string list" where
  "call_ids t steps = map (\<lambda>s. text_of s ''tool_call_id'') (filter (of_type t) steps)"

definition long_thoughts :: "JsonValue list \<Rightarrow> JsonValue list" where
  "long_thoughts steps = filter (\<lambda>s. of_type ''thought'' s \<and> 80 \<le> char_count (text_of s ''body'')) steps"

definition total_cost :: "JsonValue list \<Rightarrow> f64" where
  "total_cost steps = foldl (\<lambda>c s. f64_add c (amount_of s ''cost_usd'')) (Fin 0) steps"

lemma total_cost_map: "total_cost steps = foldl f64_add (Fin 0) (map (\<lambda>s. amount_of s ''cost_usd'') steps)"
  by (simp add: total_cost_def foldl_map)

definition anchored :: "string \<Rightarrow> JsonValue list \<Rightarrow> bool" where
  "anchored run_log steps \<longleftrightarrow> list_ex (\<lambda>s. of_type ''tool_result'' s \<and> anchors run_log (text_of s ''body'')) steps"

definition trace_shape :: "Files \<Rightarrow> JsonValue list \<Rightarrow> bool" where
  "trace_shape f steps \<longleftrightarrow>
     (\<forall>i < length steps. step_ok f (prev_step steps i) i (steps ! i))
     \<and> distinct (map (\<lambda>s. text_of s ''step_id'') steps) \<and> sorted (map (time_of f) steps)"

definition trace_spec :: "Files \<Rightarrow> JsonValue list \<Rightarrow> string \<Rightarrow> bool" where
  "trace_spec f steps run_log \<longleftrightarrow>
     trace_shape f steps
     \<and> call_ids ''tool_call'' steps \<noteq> [] \<and> distinct (call_ids ''tool_call'' steps)
     \<and> distinct (call_ids ''tool_result'' steps)
     \<and> set (call_ids ''tool_call'' steps) = set (call_ids ''tool_result'' steps)
     \<and> 3 \<le> length (long_thoughts steps)
     \<and> \<not> f64_lt (total_cost steps) COST_FLOOR
     \<and> anchored run_log steps"

section \<open>Counting\<close>

definition counts :: "string list \<Rightarrow> (string \<times> nat) list" where
  "counts ids = fold count_up ids []"

lemma counts_inv: "btree_inv (counts ids)"
  unfolding counts_def by (induction ids rule: rev_induct) (simp_all add: count_up_def)

lemma counts_get: "map_of (counts ids) k = (if k \<in> set ids then Some (count_list ids k) else None)"
proof (induction ids arbitrary: k rule: rev_induct)
  case Nil
  then show ?case by (simp add: counts_def)
next
  case (snoc x ids)
  have "counts (ids @ [x]) = count_up x (counts ids)"
    by (simp add: counts_def)
  then show ?case
    using counts_inv [of ids] by (simp add: count_up_def btree.get_put snoc count_list_0_iff)
qed

lemma distinct_count_list: "distinct ids \<longleftrightarrow> (\<forall>k \<in> set ids. count_list ids k = 1)"
  by (induction ids) (auto simp: count_list_0_iff)

lemma counts_all_one: "\<not> list_ex (\<lambda>(_, n). n \<noteq> 1) (counts ids) \<longleftrightarrow> distinct ids"
proof -
  have "\<not> list_ex (\<lambda>(_, n). n \<noteq> 1) (counts ids) \<longleftrightarrow> (\<forall>(k, n) \<in> set (counts ids). n = 1)"
    by (auto simp: list_ex_iff)
  also have "\<dots> \<longleftrightarrow> (\<forall>k n. map_of (counts ids) k = Some n \<longrightarrow> n = 1)"
    using counts_inv [of ids] by (auto simp: btree_entries simp del: map_of_eq_Some_iff)
  also have "\<dots> \<longleftrightarrow> distinct ids"
    unfolding distinct_count_list by (auto simp: counts_get simp del: map_of_eq_Some_iff)
  finally show ?thesis .
qed

lemma counts_empty: "counts ids = [] \<longleftrightarrow> ids = []"
proof
  assume "counts ids = []"
  then have "map_of (counts ids) k = None" for k by simp
  then show "ids = []" unfolding counts_get by (metis list.set_sel(1) option.distinct(1))
qed (simp add: counts_def)

lemma counts_eq: "distinct as \<Longrightarrow> distinct bs \<Longrightarrow> counts as = counts bs \<longleftrightarrow> set as = set bs"
proof
  assume "counts as = counts bs"
  then have "map_of (counts as) k = map_of (counts bs) k" for k by simp
  then have "k \<in> set as \<longleftrightarrow> k \<in> set bs" for k
    unfolding counts_get by (metis option.distinct(1))
  then show "set as = set bs" by blast
next
  assume "distinct as" "distinct bs" and eq: "set as = set bs"
  then have one: "\<forall>k \<in> set as. count_list as k = 1" "\<forall>k \<in> set bs. count_list bs k = 1"
    by (simp_all add: distinct_count_list)
  have "map_of (counts as) k = map_of (counts bs) k" for k
    using one eq by (simp add: counts_get)
  then show "counts as = counts bs"
    by (intro btree_ext counts_inv) auto
qed

lemma pairs_exactly_once:
  "\<not> (counts as = [] \<or> counts as \<noteq> counts bs \<or> list_ex (\<lambda>(_, n). n \<noteq> 1) (counts as)
       \<or> list_ex (\<lambda>(_, n). n \<noteq> 1) (counts bs))
   \<longleftrightarrow> as \<noteq> [] \<and> distinct as \<and> distinct bs \<and> set as = set bs"
  using counts_eq [of as bs] counts_all_one [of as] counts_all_one [of bs] counts_empty [of as] by blast


section \<open>One step\<close>

lemma ALLOWED_not_blank: "t \<in> set ALLOWED \<Longrightarrow> \<not> is_blank t"
  by (auto simp: ALLOWED_def)

lemma required_string_ok: "required_string s k i = Inr v \<longleftrightarrow> has_text s k \<and> v = text_of s k"
  by (auto simp: required_string_def has_text_def text_of_def non_blank_def split: option.splits)

lemma amount_ok: "amount s k i = Inr v \<longleftrightarrow> has_amount s k \<and> v = amount_of s k"
  by (cases "Option.bind (json_get s k) as_f64") (auto simp: amount_def has_amount_def amount_of_def)

lemma timestamp_ok:
  "parse_timestamp f (json_get s ''timestamp'') i = Inr v \<longleftrightarrow> has_time f s \<and> v = time_of f s"
proof (cases "Option.bind (json_get s ''timestamp'') as_i64")
  case None
  then show ?thesis
    by (cases "Option.bind (Option.bind (json_get s ''timestamp'') as_str) (fl_rfc3339 f)";
        cases "Option.bind (json_get s ''timestamp'') as_str")
       (auto simp: parse_timestamp_def has_time_def time_of_def)
qed (auto simp: parse_timestamp_def has_time_def time_of_def)

lemma tokens_ok:
  "(\<exists>n. Option.bind (json_get s ''tokens'') as_i64 = Some n \<and> \<not> n < 0) \<longleftrightarrow> has_tokens s"
  by (auto simp: has_tokens_def not_less split: option.splits)

text \<open>The state of the loop after a list of steps.\<close>

definition summary :: "Files \<Rightarrow> string \<Rightarrow> JsonValue list \<Rightarrow> StepState" where
  "summary f run_log ps =
     \<lparr> ss_calls = counts (call_ids ''tool_call'' ps), ss_results = counts (call_ids ''tool_result'' ps),
       ss_step_ids = set (map (\<lambda>s. text_of s ''step_id'') ps),
       ss_previous_timestamp = (if ps = [] then None else Some (time_of f (last ps))),
       ss_stdout_anchored = anchored run_log ps,
       ss_thought_count = length (filter (of_type ''thought'') ps),
       ss_long_thought_count = length (long_thoughts ps),
       ss_total_cost = total_cost ps \<rparr>"

lemma summary_Nil: "summary f run_log [] = StepState_new"
  by (simp add: summary_def StepState_new_def counts_def call_ids_def anchored_def long_thoughts_def total_cost_def)

definition next_ok :: "Files \<Rightarrow> JsonValue list \<Rightarrow> JsonValue \<Rightarrow> bool" where
  "next_ok f ps s \<longleftrightarrow>
     text_of s ''step_id'' \<notin> set (map (\<lambda>s. text_of s ''step_id'') ps)
     \<and> (ps \<noteq> [] \<longrightarrow> time_of f (last ps) \<le> time_of f s)"

definition header_ok :: "Files \<Rightarrow> nat \<Rightarrow> JsonValue \<Rightarrow> bool" where
  "header_ok f index s \<longleftrightarrow>
     Option.bind (json_get s ''step_order'') as_u64 = Some (index + 1) \<and> list_ex (\<lambda>t. of_type t s) ALLOWED
     \<and> has_text s ''step_id'' \<and> has_amount s ''duration_s'' \<and> has_amount s ''cost_usd'' \<and> has_tokens s \<and> has_time f s"

definition headed :: "Files \<Rightarrow> StepState \<Rightarrow> JsonValue \<Rightarrow> StepState" where
  "headed f st s = st\<lparr> ss_step_ids := insert (text_of s ''step_id'') (ss_step_ids st),
     ss_total_cost := f64_add (ss_total_cost st) (amount_of s ''cost_usd''),
     ss_previous_timestamp := Some (time_of f s) \<rparr>"

lemma type_allowed:
  "has_text s ''step_type'' \<and> text_of s ''step_type'' \<in> set ALLOWED \<longleftrightarrow> list_ex (\<lambda>t. of_type t s) ALLOWED"
  using ALLOWED_not_blank
  by (auto simp: list_ex_iff of_type_def has_text_def text_of_def non_blank_def split: option.splits)

lemma step_header_ok:
  "step_header f st i s = Inr (ty, st') \<longleftrightarrow>
     header_ok f i s \<and> text_of s ''step_id'' \<notin> ss_step_ids st
     \<and> (\<forall>t. ss_previous_timestamp st = Some t \<longrightarrow> t \<le> time_of f s)
     \<and> ty = text_of s ''step_type'' \<and> st' = headed f st s"
proof -
  have "step_header f st i s = Inr (ty, st') \<longleftrightarrow>
      Option.bind (json_get s ''step_order'') as_u64 = Some (i + 1)
      \<and> has_text s ''step_type'' \<and> text_of s ''step_type'' \<in> set ALLOWED
      \<and> has_text s ''step_id'' \<and> text_of s ''step_id'' \<notin> ss_step_ids st
      \<and> has_amount s ''duration_s'' \<and> has_amount s ''cost_usd''
      \<and> (\<exists>n. Option.bind (json_get s ''tokens'') as_i64 = Some n \<and> \<not> n < 0)
      \<and> has_time f s \<and> (\<forall>t. ss_previous_timestamp st = Some t \<longrightarrow> t \<le> time_of f s)
      \<and> ty = text_of s ''step_type'' \<and> st' = headed f st s"
    unfolding step_header_def headed_def
    by (auto simp: required_string_ok amount_ok timestamp_ok split: if_splits option.splits)
  then show ?thesis
    unfolding header_ok_def tokens_ok using type_allowed [of s] by blast
qed


section \<open>The loop\<close>

definition body_ok :: "JsonValue option \<Rightarrow> JsonValue \<Rightarrow> bool" where
  "body_ok previous s \<longleftrightarrow>
     (of_type ''thought'' s \<longrightarrow> has_text s ''body'')
     \<and> (of_type ''tool_call'' s \<longrightarrow>
          has_text s ''tool_call_id'' \<and> has_text s ''tool_name'' \<and> json_get s ''tool_args'' \<notin> {None, Some JNull})
     \<and> (of_type ''tool_result'' s \<longrightarrow>
          (case previous of Some p \<Rightarrow> of_type ''tool_call'' p | None \<Rightarrow> False) \<and> has_text s ''tool_call_id'' \<and> has_text s ''body'')"

lemma step_ok_parts: "step_ok f previous i s \<longleftrightarrow> header_ok f i s \<and> body_ok previous s"
  by (simp add: step_ok_def header_ok_def body_ok_def)

definition bodied :: "string \<Rightarrow> JsonValue \<Rightarrow> StepState \<Rightarrow> StepState" where
  "bodied run_log s st =
     (if of_type ''thought'' s then
        st\<lparr> ss_thought_count := ss_thought_count st + 1,
            ss_long_thought_count := ss_long_thought_count st + (if 80 \<le> char_count (text_of s ''body'') then 1 else 0) \<rparr>
      else if of_type ''tool_call'' s then st\<lparr> ss_calls := count_up (text_of s ''tool_call_id'') (ss_calls st) \<rparr>
      else if of_type ''tool_result'' s then
        st\<lparr> ss_stdout_anchored := ss_stdout_anchored st \<or> anchors run_log (text_of s ''body''),
            ss_results := count_up (text_of s ''tool_call_id'') (ss_results st) \<rparr>
      else st)"

lemma of_type_cases:
  assumes "of_type t s"
  shows "of_type u s \<longleftrightarrow> u = t"
  using assms by (auto simp: of_type_def)

lemma step_body_ok:
  assumes "of_type ty s"
  shows "step_body steps run_log i s ty st = Inr st' \<longleftrightarrow>
     body_ok (prev_step steps i) s \<and> st' = bodied run_log s st"
proof -
  note ty = of_type_cases [OF assms]
  consider "ty = ''thought''" | "ty = ''tool_call''" | "ty = ''tool_result''"
    | "ty \<notin> {''thought'', ''tool_call'', ''tool_result''}" by blast
  then show ?thesis
  proof cases
    case 1
    then show ?thesis
      by (auto simp: step_body_def body_ok_def bodied_def ty required_string_ok)
  next
    case 2
    then show ?thesis
      by (auto simp: step_body_def body_ok_def bodied_def ty required_string_ok)
  next
    case 3
    then show ?thesis
      by (auto simp: step_body_def body_ok_def bodied_def ty required_string_ok prev_step_def
          of_type_def [of "''tool_call''" "steps ! (i - Suc 0)"])
  next
    case 4
    then show ?thesis
      by (auto simp: step_body_def body_ok_def bodied_def ty)
  qed
qed

lemma summary_snoc:
  "bodied run_log s (headed f (summary f run_log ps) s) = summary f run_log (ps @ [s])"
  by (auto simp: bodied_def headed_def summary_def call_ids_def anchored_def long_thoughts_def total_cost_def
       counts_def of_type_def)

lemma trace_step_ok:
  "trace_step f steps run_log (summary f run_log ps) (length ps, s) = Inr t \<longleftrightarrow>
     step_ok f (prev_step steps (length ps)) (length ps) s \<and> next_ok f ps s \<and> t = summary f run_log (ps @ [s])"
  (is "?l \<longleftrightarrow> ?r")
proof -
  have typed: "header_ok f i s \<Longrightarrow> of_type (text_of s ''step_type'') s" for i
    by (auto simp: header_ok_def list_ex_iff of_type_def text_of_def)
  have "?l \<longleftrightarrow> (\<exists>ty st'. step_header f (summary f run_log ps) (length ps) s = Inr (ty, st')
      \<and> step_body steps run_log (length ps) s ty st' = Inr t)"
    by (simp add: trace_step_def)
  also have "\<dots> \<longleftrightarrow> header_ok f (length ps) s \<and> next_ok f ps s
      \<and> step_body steps run_log (length ps) s (text_of s ''step_type'') (headed f (summary f run_log ps) s) = Inr t"
    unfolding step_header_ok by (auto simp: next_ok_def summary_def)
  also have "\<dots> \<longleftrightarrow> ?r"
    using step_body_ok [OF typed] summary_snoc [of run_log s f ps] by (auto simp: step_ok_parts)
  finally show ?thesis .
qed

lemma trace_shape_snoc:
  "trace_shape f (ps @ [s]) \<longleftrightarrow>
     trace_shape f ps \<and> step_ok f (prev_step (ps @ [s]) (length ps)) (length ps) s \<and> next_ok f ps s"
proof -
  have prev: "prev_step (ps @ [s]) i = prev_step ps i" if "i < length ps" for i
    using that by (auto simp: prev_step_def nth_append)
  have "(\<forall>i < length (ps @ [s]). step_ok f (prev_step (ps @ [s]) i) i ((ps @ [s]) ! i)) \<longleftrightarrow>
      (\<forall>i < length ps. step_ok f (prev_step ps i) i (ps ! i))
      \<and> step_ok f (prev_step (ps @ [s]) (length ps)) (length ps) s"
    by (simp add: All_less_Suc nth_append prev conj_commute)
  moreover have "sorted (map (time_of f) (ps @ [s])) \<longleftrightarrow>
      sorted (map (time_of f) ps) \<and> (ps \<noteq> [] \<longrightarrow> time_of f (last ps) \<le> time_of f s)"
    by (cases ps rule: rev_cases) (auto simp: sorted_append intro: order_trans)
  ultimately show ?thesis
    unfolding trace_shape_def next_ok_def by auto
qed

lemma prev_step_prefix: "prefix (ps @ [s]) steps \<Longrightarrow> prev_step steps (length ps) = prev_step (ps @ [s]) (length ps)"
  by (auto simp: prev_step_def prefix_def nth_append)

lemma trace_loop:
  assumes "prefix ps steps"
  shows "run_events (trace_step f steps run_log) StepState_new (List.enumerate 0 ps) = Inr t \<longleftrightarrow>
    trace_shape f ps \<and> t = summary f run_log ps"
  using assms
proof (induction ps arbitrary: t rule: rev_induct)
  case Nil
  then show ?case by (auto simp: trace_shape_def summary_Nil)
next
  case (snoc s ps)
  have "List.enumerate 0 (ps @ [s]) = List.enumerate 0 ps @ [(length ps, s)]"
    by (simp add: enumerate_append_eq)
  moreover have "prefix ps steps"
    using snoc.prems by (rule append_prefixD)
  ultimately show ?case
    unfolding trace_shape_snoc
    by (auto simp: run_events_snoc snoc.IH trace_step_ok prev_step_prefix [OF snoc.prems])
qed

lemma trace_summary_ok:
  "trace_summary (summary f run_log steps) = Inr () \<longleftrightarrow>
     (call_ids ''tool_call'' steps \<noteq> [] \<and> distinct (call_ids ''tool_call'' steps)
      \<and> distinct (call_ids ''tool_result'' steps)
      \<and> set (call_ids ''tool_call'' steps) = set (call_ids ''tool_result'' steps))
     \<and> 3 \<le> length (long_thoughts steps) \<and> \<not> f64_lt (total_cost steps) COST_FLOOR \<and> anchored run_log steps"
proof -
  have "length (long_thoughts steps) \<le> length (filter (of_type ''thought'') steps)"
    unfolding long_thoughts_def by (induction steps) auto
  then show ?thesis
    unfolding trace_summary_def pairs_exactly_once [symmetric] by (auto simp: summary_def)
qed

lemma validate_trace_steps_spec: "validate_trace_steps f steps run_log = Inr () \<longleftrightarrow> trace_spec f steps run_log"
  unfolding validate_trace_steps_def trace_spec_def
  by (simp add: trace_loop [OF prefix_order.order_refl] trace_summary_ok)

end
