(* ===== verification/ArtifactSpec.thy ===== *)
theory ArtifactSpec
  imports TraceSpec
begin

text \<open>
  What a verified artifact manifest and an accepted trace establish about the files of the
  workspace.
\<close>

section \<open>Verified artifacts\<close>

definition in_workspace :: "Files \<Rightarrow> string \<Rightarrow> string \<Rightarrow> bool" where
  "in_workspace f ws p \<longleftrightarrow> path_starts_with p ws \<and> fs_is_file (fl_fs f) p"

definition evidence_name :: "string \<Rightarrow> bool" where
  "evidence_name p \<longleftrightarrow>
     (case file_name p of Some n \<Rightarrow> to_ascii_lowercase n \<in> set EVIDENCE_NAMES | None \<Rightarrow> False)"

text \<open>A manifest entry that names the file \<open>p\<close> of the workspace and the hash of its bytes.\<close>

definition entry_verified :: "Files \<Rightarrow> string \<Rightarrow> ArtifactManifestEntry \<Rightarrow> string \<Rightarrow> string \<Rightarrow> bool" where
  "entry_verified f ws a p h \<longleftrightarrow>
     canonical_evidence_path f ws (ae_path a) = Ok p \<and> in_workspace f ws p \<and> \<not> evidence_name p
     \<and> (\<exists>bytes. fl_read f p = Some bytes \<and> h = sha256_bytes (fl_sha256 f) bytes)
     \<and> is_hex 64 (ae_sha256 a) \<and> eq_ignore_ascii_case h (ae_sha256 a)"

definition manifest_verified :: "Files \<Rightarrow> string \<Rightarrow> ArtifactManifest \<Rightarrow> Artifacts \<Rightarrow> bool" where
  "manifest_verified f ws entries artifacts \<longleftrightarrow>
     btree_inv artifacts
     \<and> (\<forall>a \<in> set entries. \<exists>p h. entry_verified f ws a p h \<and> map_of artifacts (components p) = Some (p, h))
     \<and> (\<forall>k p h. map_of artifacts k = Some (p, h) \<longrightarrow>
          k = components p \<and> (\<exists>a \<in> set entries. entry_verified f ws a p h))"

lemma canonical_evidence_path_in:
  "canonical_evidence_path f ws x = Inr p \<Longrightarrow> in_workspace f ws p"
  by (auto simp: canonical_evidence_path_def in_workspace_def Let_def split: if_splits)

lemma ev_sha256_file_ok:
  "ev_sha256_file f p = Inr h \<longleftrightarrow> (\<exists>bytes. fl_read f p = Some bytes \<and> h = sha256_bytes (fl_sha256 f) bytes)"
  by (auto simp: ev_sha256_file_def sha256_file_def)

lemma artifact_step_ok:
  "artifact_step f ws arts a = Inr arts' \<Longrightarrow>
     \<exists>p h. entry_verified f ws a p h \<and> map_of arts (components p) = None
       \<and> arts' = btree_insert (components p) (p, h) arts"
  unfolding artifact_step_def entry_verified_def evidence_name_def
  by (auto simp: ev_sha256_file_ok simp del: not_None_eq not_Some_eq split_paired_All split_paired_Ex
      dest: canonical_evidence_path_in split: if_splits)

lemma manifest_verified_step:
  assumes "manifest_verified f ws es arts" and "artifact_step f ws arts a = Inr arts'"
  shows "manifest_verified f ws (es @ [a]) arts'"
proof -
  obtain p h where a: "entry_verified f ws a p h" and fresh: "map_of arts (components p) = None"
    and arts': "arts' = btree_insert (components p) (p, h) arts"
    using artifact_step_ok [OF assms(2)] by blast
  have inv: "btree_inv arts"
    and known: "\<And>b. b \<in> set es \<Longrightarrow> \<exists>q g. entry_verified f ws b q g \<and> map_of arts (components q) = Some (q, g)"
    and sound: "\<And>k q g. map_of arts k = Some (q, g) \<Longrightarrow> k = components q \<and> (\<exists>b \<in> set es. entry_verified f ws b q g)"
    using assms(1) by (auto simp: manifest_verified_def simp del: map_of_eq_Some_iff)
  have get: "map_of arts' k = (if k = components p then Some (p, h) else map_of arts k)" for k
    using inv by (simp add: arts' btree.get_put)
  have known': "\<exists>q g. entry_verified f ws b q g \<and> map_of arts' (components q) = Some (q, g)"
    if "b \<in> set (es @ [a])" for b
  proof (cases "b = a")
    case True
    then show ?thesis using a get by auto
  next
    case False
    with that obtain q g where q: "entry_verified f ws b q g" "map_of arts (components q) = Some (q, g)"
      using known [of b] by auto
    with fresh have "components q \<noteq> components p" by auto
    with q get show ?thesis by auto
  qed
  have sound': "k = components q \<and> (\<exists>b \<in> set (es @ [a]). entry_verified f ws b q g)"
    if "map_of arts' k = Some (q, g)" for k q g
    using that a sound [of k q g] by (auto simp: get split: if_splits)
  have "btree_inv arts'"
    using inv by (simp add: arts')
  then show ?thesis
    unfolding manifest_verified_def using known' sound' by blast
qed

lemma manifest_loop:
  "run_events (artifact_step f ws) [] es = Inr arts \<Longrightarrow> manifest_verified f ws es arts"
proof (induction es arbitrary: arts rule: rev_induct)
  case Nil
  then show ?case by (simp add: manifest_verified_def btree.invar_empty)
next
  case (snoc a es)
  then show ?case by (auto simp: run_events_snoc intro: manifest_verified_step)
qed

lemma validate_artifact_manifest_ok [validated]:
  assumes "validate_artifact_manifest f ws manifest = Inr arts"
  shows "manifest \<noteq> [] \<and> manifest_verified f ws manifest arts"
  using assms by (auto simp: validate_artifact_manifest_def intro: manifest_loop split: if_splits)

section \<open>References\<close>

text \<open>An artifact step points, relative to the directory of the trace, at a verified file.\<close>

definition ref_verified :: "Files \<Rightarrow> string \<Rightarrow> string \<Rightarrow> ArtifactManifest \<Rightarrow> JsonValue \<Rightarrow> bool" where
  "ref_verified f ws trace_path manifest s \<longleftrightarrow>
     (\<exists>dir c p h a. path_parent trace_path = Some dir \<and> has_text s ''artifact_path''
        \<and> fs_canonicalize (fl_fs f) (path_join dir (text_of s ''artifact_path'')) = Some c
        \<and> components c = components p \<and> a \<in> set manifest \<and> entry_verified f ws a p h)"

lemma artifact_ref_ok:
  assumes "artifact_ref f dir arts s = Inr ()" and "manifest_verified f ws manifest arts"
    and "path_parent trace_path = Some dir"
  shows "ref_verified f ws trace_path manifest s"
proof -
  obtain raw c where raw: "get_str s ''artifact_path'' = Some raw" "\<not> is_blank raw"
    and c: "fs_canonicalize (fl_fs f) (path_join dir raw) = Some c" and known: "map_of arts (components c) \<noteq> None"
    using assms(1) by (auto simp: artifact_ref_def simp del: not_None_eq)
  obtain p h where "map_of arts (components c) = Some (p, h)"
    using known by (cases "map_of arts (components c)") auto
  then obtain a where "components c = components p" "a \<in> set manifest" "entry_verified f ws a p h"
    using assms(2) unfolding manifest_verified_def by metis
  then show ?thesis
    unfolding ref_verified_def using raw c assms(3)
    by (auto simp: has_text_def text_of_def non_blank_def)
qed

lemma validate_trace_artifact_refs_ok [validated]:
  assumes "validate_trace_artifact_refs f steps trace_path arts = Inr ()"
    and "manifest_verified f ws manifest arts"
  shows "(\<exists>s \<in> set steps. of_type ''artifact'' s)
    \<and> (\<forall>s \<in> set steps. of_type ''artifact'' s \<longrightarrow> ref_verified f ws trace_path manifest s)"
proof -
  let ?refs = "filter (of_type ''artifact'') steps"
  have is_refs: "filter (\<lambda>s. get_str s ''step_type'' = Some ''artifact'') steps = ?refs"
    by (simp add: of_type_def [abs_def])
  obtain dir where dir: "path_parent trace_path = Some dir"
    and refs: "list_all (\<lambda>s. artifact_ref f dir arts s = Inr ()) ?refs" and some: "?refs \<noteq> []"
    using assms(1) by (auto simp: validate_trace_artifact_refs_def Let_def is_refs list_all_iff)
  have "ref_verified f ws trace_path manifest s" if "s \<in> set steps" "of_type ''artifact'' s" for s
    using that refs by (intro artifact_ref_ok [OF _ assms(2) dir]) (auto simp: list_all_iff)
  moreover obtain s where "s \<in> set ?refs"
    using some by (cases ?refs) auto
  ultimately show ?thesis by auto
qed

section \<open>Accepted evidence\<close>

text \<open>
  The file a supplied path names: its canonical form, taken from the workspace when it is relative,
  which is a file of the workspace.
\<close>

definition supplied_file :: "Files \<Rightarrow> string \<Rightarrow> string \<Rightarrow> string \<Rightarrow> bool" where
  "supplied_file f ws supplied p \<longleftrightarrow>
     fs_canonicalize (fl_fs f) (if is_absolute supplied then supplied else path_join ws supplied) = Some p
     \<and> in_workspace f ws p"

lemma canonical_evidence_path_supplied:
  "canonical_evidence_path f ws supplied = Inr p \<Longrightarrow> supplied_file f ws supplied p"
  by (auto simp: canonical_evidence_path_def supplied_file_def in_workspace_def Let_def split: if_splits)

text \<open>
  Steps, log and manifest are the contents of the files that the three supplied paths name; \<open>trace\<close> is
  the file of the trace.
\<close>

definition evidence_backed ::
  "Files \<Rightarrow> string \<Rightarrow> string \<Rightarrow> string \<Rightarrow> string \<Rightarrow> string \<Rightarrow> JsonValue list \<Rightarrow> string \<Rightarrow> ArtifactManifest \<Rightarrow> bool" where
  "evidence_backed f ws trace_path run_log_path manifest_path trace steps run_log manifest \<longleftrightarrow>
     supplied_file f ws trace_path trace
     \<and> (\<exists>text. read_to_string (fl_read f) trace = Ok text \<and> length text \<le> MAX_TRACE_BYTES
          \<and> parse_trace_steps f text = Ok steps)
     \<and> (\<exists>lg. supplied_file f ws run_log_path lg \<and> read_to_string (fl_read f) lg = Ok run_log) \<and> \<not> is_blank run_log
     \<and> (\<exists>mf text. supplied_file f ws manifest_path mf \<and> read_to_string (fl_read f) mf = Ok text
          \<and> fl_manifest f text = Some manifest)"

lemma ev_read_ok: "ev_read_to_string f p = Inr text \<longleftrightarrow> read_to_string (fl_read f) p = Inr text"
  by (simp add: ev_read_to_string_def)

lemma validate_trace_evidence_ok:
  assumes "validate_trace_evidence f workspace trace_path run_log_path manifest_path = Inr e"
  obtains ws trace steps run_log manifest arts where
    "fs_canonicalize (fl_fs f) workspace = Some ws"
    "evidence_backed f ws trace_path run_log_path manifest_path trace steps run_log manifest"
    "validate_trace_steps f steps run_log = Inr ()"
    "validate_artifact_manifest f ws manifest = Inr arts"
    "validate_trace_artifact_refs f steps trace arts = Inr ()"
    "e = \<lparr> te_real_execution = True, te_paired_tool_events = True, te_artifact_provenance = True \<rparr>"
proof -
  obtain ws trace lg mf ttext run_log steps mtext manifest arts where
    ws: "fs_canonicalize (fl_fs f) workspace = Some ws"
    and paths: "canonical_evidence_path f ws trace_path = Inr trace"
      "canonical_evidence_path f ws run_log_path = Inr lg" "canonical_evidence_path f ws manifest_path = Inr mf"
    and trace: "read_to_string (fl_read f) trace = Inr ttext" "\<not> MAX_TRACE_BYTES < length ttext"
      "parse_trace_steps f ttext = Inr steps"
    and lg: "read_to_string (fl_read f) lg = Inr run_log" "\<not> is_blank run_log"
    and mf: "read_to_string (fl_read f) mf = Inr mtext" "fl_manifest f mtext = Some manifest"
    and valid: "validate_trace_steps f steps run_log = Inr ()"
      "validate_artifact_manifest f ws manifest = Inr arts"
      "validate_trace_artifact_refs f steps trace arts = Inr ()"
      "e = \<lparr> te_real_execution = True, te_paired_tool_events = True, te_artifact_provenance = True \<rparr>"
    using assms unfolding validate_trace_evidence_def
    by (clarsimp simp: ev_read_ok split: if_splits)
  have "evidence_backed f ws trace_path run_log_path manifest_path trace steps run_log manifest"
    unfolding evidence_backed_def using trace lg mf paths [THEN canonical_evidence_path_supplied] by auto
  then show thesis
    using that ws valid by blast
qed

definition artifacts_backed ::
  "Files \<Rightarrow> string \<Rightarrow> string \<Rightarrow> JsonValue list \<Rightarrow> ArtifactManifest \<Rightarrow> bool" where
  "artifacts_backed f ws trace_path steps manifest \<longleftrightarrow>
     (\<forall>a \<in> set manifest. \<exists>p h. entry_verified f ws a p h)
     \<and> (\<exists>s \<in> set steps. of_type ''artifact'' s)
     \<and> (\<forall>s \<in> set steps. of_type ''artifact'' s \<longrightarrow> ref_verified f ws trace_path manifest s)"

lemma artifacts_backedI:
  assumes "validate_artifact_manifest f ws manifest = Inr arts"
    and "validate_trace_artifact_refs f steps trace_path arts = Inr ()"
  shows "artifacts_backed f ws trace_path steps manifest"
proof -
  note m = conjunct2 [OF validate_artifact_manifest_ok [OF assms(1)]]
  show ?thesis
    using validate_trace_artifact_refs_ok [OF assms(2) m] m
    unfolding artifacts_backed_def manifest_verified_def by blast
qed

end
