(* ===== verification/SampleEvidence.thy ===== *)
theory SampleEvidence
  imports ArtifactSpec
begin

text \<open>
  A small workspace with a complete bundle, on which the properties of the evidence gates are
  instantiated: a file table, a table for the JSON parser and a constant digest.
\<close>

definition common :: "nat \<Rightarrow> string \<Rightarrow> (string \<times> JsonValue) list" where
  "common n ty =
     [(''step_order'', JNumber (PosInt n)), (''step_type'', JString ty), (''step_id'', JString (''s'' @ decimal n)),
      (''duration_s'', JNumber (Float (Fin 1))), (''cost_usd'', JNumber (Float (Fin (if n = 1 then 1 else 0)))),
      (''tokens'', JNumber (PosInt 10)), (''timestamp'', JNumber (PosInt n))]"

definition thought_step :: "nat \<Rightarrow> JsonValue" where
  "thought_step n = JObject (common n ''thought'' @ [(''body'', JString (replicate 80 (CHR ''x'')))])"

definition call_step :: "nat \<Rightarrow> string \<Rightarrow> JsonValue" where
  "call_step n i = JObject (common n ''tool_call'' @
     [(''tool_call_id'', JString i), (''tool_name'', JString ''sh''), (''tool_args'', JObject [])])"

definition result_step :: "nat \<Rightarrow> string \<Rightarrow> JsonValue" where
  "result_step n i = JObject (common n ''tool_result'' @
     [(''tool_call_id'', JString i), (''body'', JString ''light_time 2.383432'')])"

definition artifact_step_at :: "nat \<Rightarrow> string \<Rightarrow> JsonValue" where
  "artifact_step_at n p = JObject (common n ''artifact'' @ [(''artifact_path'', JString p)])"

definition sample_steps :: "JsonValue list" where
  "sample_steps = [thought_step 1, thought_step 2, thought_step 3, call_step 4 ''tc01'', result_step 5 ''tc01'',
     artifact_step_at 6 ''out.json'']"

definition sample_line :: "nat \<Rightarrow> string" where
  "sample_line n = ''{'' @ decimal n @ ''}''"

definition sample_trace :: string where
  "sample_trace = concat (map (\<lambda>n. sample_line n @ [CHR 0x0A]) [1, 2, 3, 4, 5, 6])"

definition sample_log :: string where
  "sample_log = ''light_time 2.383432'' @ [CHR 0x0D, CHR 0x0A]"

definition sample_hash :: string where
  "sample_hash = replicate 64 (CHR ''a'')"

definition sample_execution :: JsonValue where
  "sample_execution = JObject [(''execution'', JObject
     [(''run_id'', JString ''r1''), (''session_id'', JString ''s1''), (''agent_id'', JString ''worker''),
      (''entrypoint'', JString ''python solve.py''), (''status'', JString ''ok''), (''log_path'', JString ''run.log''),
      (''cwd'', JString ''/w''), (''ran_at_ms'', JNumber (PosInt 10)), (''wall_time_ms'', JNumber (PosInt 20)),
      (''exit_code'', JNumber (PosInt 0)), (''run_log_sha256'', JString sample_hash),
      (''artifacts'', JArray [JObject [(''path'', JString ''out.json''), (''sha256'', JString sample_hash)]])])]"

definition sample_texts :: "(string \<times> string) list" where
  "sample_texts =
     [(''/w/trace.jsonl'', sample_trace),
      (''/w/run.log'', sample_log),
      (''/w/artifacts.json'', ''manifest''),
      (''/w/out.json'', ''2.383432''),
      (''/w/execution.json'', ''execution''),
      (''/w/probe.json'', ''probe''),
      (''/w/challenge.json'', ''challenge''),
      (''/w/attempts.json'', ''attempts''),
      (''/w/policy.yaml'', ''policy''),
      (''/w/policy.yaml.sig'', ''signature''),
      (''/w/contract.json'', ''contract''),
      (''/w/input.json'', ''input''),
      (''/w/cli'', ''cli'')]"

definition sample_files :: Files where
  "sample_files =
     \<lparr> fl_fs = \<lparr> fs_canonicalize = (\<lambda>p. if p \<in> set (''/w'' # map fst sample_texts) then Some p else None),
                 fs_is_dir = (\<lambda>p. p = ''/w''), fs_is_file = (\<lambda>p. p \<in> set (map fst sample_texts)) \<rparr>,
       fl_read = map_of sample_texts,
       fl_sha256 = (\<lambda>_. replicate 32 (CHR 0xAA)),
       fl_modified_ns = (\<lambda>p. if p \<in> set (map fst sample_texts) then Some 30000000 else None),
       fl_json = map_of (zip (map sample_line [1, 2, 3, 4, 5, 6]) sample_steps
         @ [(''execution'', sample_execution),
            (''challenge'', JObject [(''id'', JString ''c1'')]),
            (''attempts'', JObject [(''items'', JArray [JObject [(''challenge_id'', JString ''c1'')]])])]),
       fl_manifest = (\<lambda>t. if t = ''manifest''
         then Some [\<lparr> ae_path = ''out.json'', ae_sha256 = sample_hash \<rparr>] else None),
       fl_rfc3339 = (\<lambda>_. None) \<rparr>"

lemma sample_paths:
  "fs_canonicalize (fl_fs sample_files) ''/w'' = Some ''/w''"
  "canonical_evidence_path sample_files ''/w'' ''trace.jsonl'' = Ok ''/w/trace.jsonl''"
  "canonical_evidence_path sample_files ''/w'' ''run.log'' = Ok ''/w/run.log''"
  "canonical_evidence_path sample_files ''/w'' ''artifacts.json'' = Ok ''/w/artifacts.json''"
  "canonical_evidence_path sample_files ''/w'' ''execution.json'' = Ok ''/w/execution.json''"
  by code_simp+

lemma sample_reads:
  "ev_read_to_string sample_files ''/w/trace.jsonl'' = Ok sample_trace"
  "ev_read_to_string sample_files ''/w/run.log'' = Ok sample_log"
  "ev_read_to_string sample_files ''/w/artifacts.json'' = Ok ''manifest''"
  "ev_read_to_string sample_files ''/w/execution.json'' = Ok ''execution''"
  by code_simp+

lemma sample_trace_size:
  "length sample_trace = 24"
  by code_simp

lemma sample_parsed:
  "parse_trace_steps sample_files sample_trace = Ok sample_steps"
  by code_simp

lemma sample_steps_valid: "validate_trace_steps sample_files sample_steps sample_log = Ok ()"
proof -
  have "trace_shape sample_files sample_steps"
    by code_simp
  moreover have "call_ids ''tool_call'' sample_steps = [''tc01'']" "call_ids ''tool_result'' sample_steps = [''tc01'']"
    "length (long_thoughts sample_steps) = 3" "anchored sample_log sample_steps"
    by code_simp+
  moreover have "map (\<lambda>s. amount_of s ''cost_usd'') sample_steps = [Fin 1, Fin 0, Fin 0, Fin 0, Fin 0, Fin 0]"
    by code_simp
  ultimately show ?thesis
    unfolding validate_trace_steps_spec trace_spec_def total_cost_map
    by (simp add: f64_add_finite COST_FLOOR_def f64_round_cent)
qed

definition sample_manifest :: ArtifactManifest where
  "sample_manifest = [\<lparr> ae_path = ''out.json'', ae_sha256 = sample_hash \<rparr>]"

definition sample_artifacts :: Artifacts where
  "sample_artifacts = [([''/'', ''w'', ''out.json''], ''/w/out.json'', sample_hash)]"

lemma sample_manifest_valid:
  "fl_manifest sample_files ''manifest'' = Some sample_manifest"
  "validate_artifact_manifest sample_files ''/w'' sample_manifest = Ok sample_artifacts"
  "validate_trace_artifact_refs sample_files sample_steps ''/w/trace.jsonl'' sample_artifacts = Ok ()"
  by code_simp+

lemma sample_log_not_blank: "\<not> is_blank sample_log"
  by (simp add: sample_log_def)

lemma sample_trace_accepted:
  "validate_trace_evidence sample_files ''/w'' ''trace.jsonl'' ''run.log'' ''artifacts.json'' =
     Ok \<lparr> te_real_execution = True, te_paired_tool_events = True, te_artifact_provenance = True \<rparr>"
proof -
  have small: "\<not> MAX_TRACE_BYTES < 24"
    by (simp add: MAX_TRACE_BYTES_def)
  show ?thesis
    by (simp only: validate_trace_evidence_def and_then_simps ok_or_simps sample_paths sample_reads sample_trace_size
        small if_False sample_log_not_blank sample_parsed sample_steps_valid sample_manifest_valid)
qed

end
