(* ===== verification/ExecutionGate.thy ===== *)
theory ExecutionGate
  imports TraceGate
begin

text \<open>
  The execution record of a bundle and its cross references: \<open>validate_execution_record\<close>,
  \<open>validate_cross_references\<close> and their helpers in \<open>solver-guard/src/lib.rs\<close>.
\<close>

record ExecutionRecord =
  xr_run_id :: string
  xr_session_id :: string
  xr_agent_id :: string
  xr_ran_at_ms :: int
  xr_wall_time_ms :: int
  xr_log_path :: string
  xr_cwd :: string
  xr_entrypoint :: string
  xr_status :: string
  xr_exit_code :: int
  xr_run_log_sha256 :: string
  xr_declared_artifact_paths :: "string list"

type_synonym Object = "(string \<times> JsonValue) list"

section \<open>Fields\<close>

fun join_or :: "string list \<Rightarrow> string" where
  "join_or [] = []"
| "join_or [n] = n"
| "join_or (n # ns) = n @ '' or '' @ join_or ns"

definition required :: "Object \<Rightarrow> string list \<Rightarrow> TraceValidationError + string" where
  "required object names =
     ok_or (non_blank (find_map (\<lambda>n. Option.bind (map_of object n) as_str) names))
       (Invalid (''execution field '' @ join_or names @ '' is required''))"

definition parse_execution_timestamp :: "Files \<Rightarrow> Object \<Rightarrow> TraceValidationError + int" where
  "parse_execution_timestamp f object =
     (case Option.bind (map_of object ''ran_at_ms'') as_i64 of
        Some value \<Rightarrow> Ok value
      | None \<Rightarrow>
          and_then (ok_or (map_of object ''ran_at'') (Invalid ''execution ran_at or ran_at_ms is required''))
            (\<lambda>value. parse_timestamp f (Some value) 0))"

text \<open>
  \<open>(seconds * 1000.0).round() as i64\<close> for \<open>0 < seconds \<le> 86400\<close>: a rounded product, then the nearest
  integer with ties away from zero.
\<close>

definition millis :: "f64 \<Rightarrow> int" where
  "millis seconds = \<lfloor>f64_val (f64_round (f64_val seconds * 1000)) + 1 / 2\<rfloor>"

definition wall_time_seconds :: "Object \<Rightarrow> TraceValidationError + int" where
  "wall_time_seconds object =
     (case Option.bind (map_of object ''wall_time_s'') as_f64 of
        None \<Rightarrow> Err (Invalid ''execution wall_time_s or wall_time_ms is required'')
      | Some seconds \<Rightarrow>
          if \<not> is_finite seconds \<or> \<not> f64_lt (Fin 0) seconds
          then Err (Invalid ''execution wall_time_s or wall_time_ms is required'')
          else if f64_lt (Fin 86400) seconds then Err (Invalid ''execution wall time exceeds 24 hours'')
          else Ok (millis seconds))"

definition parse_execution_wall_time :: "Object \<Rightarrow> TraceValidationError + int" where
  "parse_execution_wall_time object =
     (case Option.bind (map_of object ''wall_time_ms'') as_i64 of
        Some value \<Rightarrow> if 0 < value then Ok value else wall_time_seconds object
      | None \<Rightarrow> wall_time_seconds object)"

definition file_modified_ms :: "Files \<Rightarrow> string \<Rightarrow> TraceValidationError + int" where
  "file_modified_ms f p =
     and_then (ok_or (fl_modified_ns f p) Io) (\<lambda>ns.
     if ns < 0 then Err (InvalidBy ''invalid file modification time: '')
     else if i64_max < ns div 1000000 then Err (Invalid ''file modification time is too large'')
     else Ok (ns div 1000000))"

text \<open>The admitted window: five minutes around the run.\<close>

definition MARGIN_MS :: int where
  "MARGIN_MS = 5 * 60 * 1000"

definition window_start :: "int \<Rightarrow> int" where
  "window_start ran_at_ms = saturating_sub ran_at_ms MARGIN_MS"

definition window_end :: "int \<Rightarrow> int \<Rightarrow> int" where
  "window_end ran_at_ms wall_time_ms = saturating_add (saturating_add ran_at_ms wall_time_ms) MARGIN_MS"

definition in_window :: "int \<Rightarrow> int \<Rightarrow> int \<Rightarrow> bool" where
  "in_window ran_at_ms wall_time_ms t \<longleftrightarrow>
     window_start ran_at_ms \<le> t \<and> t \<le> window_end ran_at_ms wall_time_ms"

section \<open>The record\<close>

definition step_in_window :: "Files \<Rightarrow> int \<Rightarrow> int \<Rightarrow> nat \<times> JsonValue \<Rightarrow> TraceValidationError + unit" where
  "step_in_window f ran_at_ms wall_time_ms = (\<lambda>(index, step).
     and_then (parse_timestamp f (json_get step ''timestamp'') index) (\<lambda>timestamp.
     fail_if (\<not> in_window ran_at_ms wall_time_ms timestamp)
       (Invalid (''trace timestamp'' @ at_step index @ '' is outside the execution window''))))"

definition artifact_entry_path :: "JsonValue \<Rightarrow> TraceValidationError + string" where
  "artifact_entry_path e =
     ok_or (non_blank (get_str e ''path'')) (Invalid ''execution artifact entry requires a non-empty path'')"

definition declared_artifacts :: "Object \<Rightarrow> JsonValue list" where
  "declared_artifacts object =
     (case Option.bind (map_of object ''artifacts'') as_array of Some es \<Rightarrow> es | None \<Rightarrow> [])"

fun declared_paths :: "Files \<Rightarrow> string \<Rightarrow> JsonValue list \<Rightarrow> TraceValidationError + string list" where
  "declared_paths f workspace [] = Ok []"
| "declared_paths f workspace (e # es) =
     and_then (artifact_entry_path e) (\<lambda>raw.
     and_then (canonical_evidence_path f workspace raw) (\<lambda>path.
     and_then (declared_paths f workspace es) (\<lambda>paths. Ok (path # paths))))"

definition declared_log_hash :: "Object \<Rightarrow> string option" where
  "declared_log_hash object =
     Option.bind (case map_of object ''run_log_sha256'' of
         Some v \<Rightarrow> Some v | None \<Rightarrow> map_of object ''stdout_sha256'') as_str"

definition validate_execution_object ::
  "Files \<Rightarrow> string \<Rightarrow> string \<Rightarrow> string \<Rightarrow> Object \<Rightarrow> TraceValidationError + ExecutionRecord" where
  "validate_execution_object f workspace trace_path run_log_path object =
     and_then (required object [''run_id'', ''execution_id'']) (\<lambda>run_id.
     and_then (required object [''session_id'']) (\<lambda>session_id.
     and_then (required object [''agent_id'']) (\<lambda>agent_id.
     and_then (required object [''entrypoint'', ''command'']) (\<lambda>entrypoint.
     and_then (required object [''status'']) (\<lambda>status.
     and_then (required object [''log_path'', ''run_log_path'']) (\<lambda>log_raw.
     and_then (required object [''cwd'', ''working_directory'']) (\<lambda>cwd_raw.
     and_then (parse_execution_timestamp f object) (\<lambda>ran_at_ms.
     and_then (parse_execution_wall_time object) (\<lambda>wall_time_ms.
     and_then (ok_or (Option.bind (map_of object ''exit_code'') as_i64) (Invalid ''execution exit_code is required'')) (\<lambda>exit_code.
     if status \<notin> set [''ok'', ''success'', ''completed'']
     then Err (Invalid (''execution status `'' @ status @ ''` is not successful''))
     else if exit_code \<noteq> 0 then Err (Invalid ''execution exit_code must be zero'')
     else
     and_then (canonical_evidence_path f workspace log_raw) (\<lambda>log_path.
     and_then (canonical_directory_path f workspace cwd_raw) (\<lambda>cwd.
     if \<not> fs_is_dir (fl_fs f) cwd then Err (Invalid ''execution cwd must be a directory'')
     else if \<not> path_eq log_path run_log_path
     then Err (Invalid ''execution log_path does not match the supplied run log'')
     else
     and_then (ev_sha256_file f run_log_path) (\<lambda>run_log_sha256.
     if (case declared_log_hash object of Some d \<Rightarrow> \<not> eq_ignore_ascii_case d run_log_sha256 | None \<Rightarrow> False)
     then Err (Invalid ''execution run log hash does not match'')
     else
     and_then (ev_read_to_string f trace_path) (\<lambda>trace_text.
     and_then (parse_trace_steps f trace_text) (\<lambda>steps.
     and_then (checks (map (step_in_window f ran_at_ms wall_time_ms) (List.enumerate 0 steps))) (\<lambda>_.
     and_then (file_modified_ms f run_log_path) (\<lambda>modified_ms.
     if \<not> in_window ran_at_ms wall_time_ms modified_ms
     then Err (Invalid ''run log modification time is outside the execution window'')
     else
     and_then (declared_paths f workspace (declared_artifacts object)) (\<lambda>paths.
     Ok \<lparr> xr_run_id = run_id, xr_session_id = session_id, xr_agent_id = agent_id, xr_ran_at_ms = ran_at_ms,
          xr_wall_time_ms = wall_time_ms, xr_log_path = log_path, xr_cwd = cwd, xr_entrypoint = entrypoint,
          xr_status = status, xr_exit_code = exit_code, xr_run_log_sha256 = run_log_sha256,
          xr_declared_artifact_paths = paths \<rparr>))))))))))))))))))"

definition validate_execution_record ::
  "Files \<Rightarrow> string \<Rightarrow> string \<Rightarrow> string \<Rightarrow> string \<Rightarrow> TraceValidationError + ExecutionRecord" where
  "validate_execution_record f workspace execution_manifest_path trace_path run_log_path =
     and_then (ok_or (fs_canonicalize (fl_fs f) workspace) Io) (\<lambda>workspace.
     and_then (canonical_evidence_path f workspace execution_manifest_path) (\<lambda>manifest_path.
     and_then (canonical_evidence_path f workspace trace_path) (\<lambda>trace_path.
     and_then (canonical_evidence_path f workspace run_log_path) (\<lambda>run_log_path.
     and_then (ev_read_to_string f manifest_path) (\<lambda>text.
     and_then (ok_or (fl_json f text) (InvalidBy ''execution manifest: '')) (\<lambda>manifest.
     and_then (ok_or (json_get manifest ''execution'')
         (Invalid ''execution manifest must contain an execution object'')) (\<lambda>execution.
     and_then (ok_or (as_object execution) (Invalid ''execution must be a JSON object'')) (\<lambda>object.
     validate_execution_object f workspace trace_path run_log_path object))))))))"

section \<open>Cross references\<close>

definition declared_artifact_step ::
  "Files \<Rightarrow> string \<Rightarrow> Artifacts \<Rightarrow> string list set \<Rightarrow> JsonValue \<Rightarrow> TraceValidationError + string list set" where
  "declared_artifact_step f workspace verified seen e =
     and_then (artifact_entry_path e) (\<lambda>raw.
     and_then (canonical_evidence_path f workspace raw) (\<lambda>canonical.
     and_then (ok_or (case get_str e ''sha256'' of Some h \<Rightarrow> if is_hex 64 h then Some h else None | None \<Rightarrow> None)
         (Invalid (''execution artifact '' @ raw @ '' requires a 64-character sha256''))) (\<lambda>declared_hash.
     if \<not> (case map_of verified (components canonical) of
             Some (_, h) \<Rightarrow> eq_ignore_ascii_case h declared_hash | None \<Rightarrow> False)
     then Err (Invalid (''execution artifact '' @ raw @ '' is absent from the artifact manifest or its hash differs''))
     else if components canonical \<in> seen
     then Err (Invalid (''execution declares duplicate artifact '' @ raw))
     else Ok (insert (components canonical) seen))))"

definition artifact_in_window ::
  "Files \<Rightarrow> int \<Rightarrow> int \<Rightarrow> string list \<times> (string \<times> string) \<Rightarrow> TraceValidationError + unit" where
  "artifact_in_window f ran_at_ms wall_time_ms = (\<lambda>(_, path, _).
     and_then (file_modified_ms f path) (\<lambda>modified_ms.
     fail_if (\<not> in_window ran_at_ms wall_time_ms modified_ms)
       (Invalid (''artifact '' @ path @ '' was not produced inside the execution window''))))"

definition cross_reference ::
  "Files \<Rightarrow> string \<Rightarrow> Object \<Rightarrow> ArtifactManifest \<Rightarrow> TraceValidationError + unit" where
  "cross_reference f workspace execution manifest =
     and_then (parse_execution_timestamp f execution) (\<lambda>ran_at_ms.
     and_then (parse_execution_wall_time execution) (\<lambda>wall_time_ms.
     and_then (validate_artifact_manifest f workspace manifest) (\<lambda>verified.
     let declared = declared_artifacts execution
     in if declared \<noteq> [] then
          if verified = []
          then Err (Invalid ''execution declares artifacts but the artifact manifest is empty'')
          else and_then (run_events (declared_artifact_step f workspace verified) {} declared) (\<lambda>_. Ok ())
        else checks (map (artifact_in_window f ran_at_ms wall_time_ms) verified))))"

definition validate_cross_references ::
  "Files \<Rightarrow> string \<Rightarrow> string \<Rightarrow> string \<Rightarrow> TraceValidationError + unit" where
  "validate_cross_references f workspace execution_manifest_path artifact_manifest_path =
     and_then (ok_or (fs_canonicalize (fl_fs f) workspace) Io) (\<lambda>workspace.
     and_then (canonical_evidence_path f workspace execution_manifest_path) (\<lambda>execution_path.
     and_then (canonical_evidence_path f workspace artifact_manifest_path) (\<lambda>artifact_path.
     and_then (ev_read_to_string f execution_path) (\<lambda>execution_text.
     and_then (ok_or (fl_json f execution_text) (InvalidBy ''execution manifest: '')) (\<lambda>execution_json.
     and_then (ev_read_to_string f artifact_path) (\<lambda>artifact_text.
     and_then (ok_or (fl_manifest f artifact_text) (InvalidBy ''artifact manifest: '')) (\<lambda>manifest.
     and_then (ok_or (Option.bind (json_get execution_json ''execution'') as_object)
         (Invalid ''execution must be a JSON object'')) (\<lambda>execution.
     cross_reference f workspace execution manifest))))))))"

end
