(* ===== verification/ExecutionSpec.thy ===== *)
theory ExecutionSpec
  imports ExecutionGate ArtifactSpec
begin

text \<open>What an accepted execution record and accepted cross references establish.\<close>

section \<open>The window\<close>

lemma saturating_bounds:
  "i64_min \<le> saturating_add a b" "saturating_add a b \<le> i64_max"
  "i64_min \<le> saturating_sub a b" "saturating_sub a b \<le> i64_max"
  by (simp_all add: saturating_add_def saturating_sub_def i64_saturate_def i64_min_def i64_max_def)

text \<open>From five minutes before the start of a run to five minutes after its end, saturating at \<open>i64\<close>.\<close>

definition within_run :: "int \<Rightarrow> int \<Rightarrow> int \<Rightarrow> bool" where
  "within_run t0 w t \<longleftrightarrow> i64_saturate (t0 - 300000) \<le> t \<and> t \<le> i64_saturate (i64_saturate (t0 + w) + 300000)"

lemma in_window_within_run: "in_window t0 w t \<longleftrightarrow> within_run t0 w t"
  by (simp add: in_window_def within_run_def window_start_def window_end_def MARGIN_MS_def saturating_add_def saturating_sub_def)

section \<open>The record\<close>

lemma checks_enumerate:
  "checks (map g (List.enumerate 0 xs)) = Inr () \<longleftrightarrow> (\<forall>i < length xs. g (i, xs ! i) = Inr ())"
  by (auto simp: list_all_length nth_enumerate_eq)

lemma steps_in_window:
  "checks (map (step_in_window f t0 wall) (List.enumerate 0 steps)) = Inr () \<longleftrightarrow>
     list_all (\<lambda>s. has_time f s \<and> within_run t0 wall (time_of f s)) steps"
  unfolding checks_enumerate by (auto simp: step_in_window_def timestamp_ok in_window_within_run list_all_length)

lemma declared_paths_ok:
  "declared_paths f ws es = Inr ps \<Longrightarrow> list_all (in_workspace f ws) ps"
  by (induction f ws es arbitrary: ps rule: declared_paths.induct)
     (auto dest: canonical_evidence_path_in)

lemma declared_paths_supplied:
  "declared_paths f ws es = Inr ps \<Longrightarrow> list_all2 (\<lambda>e p. supplied_file f ws (text_of e ''path'') p) es ps"
  by (induction f ws es arbitrary: ps rule: declared_paths.induct)
     (auto simp: artifact_entry_path_def text_of_def dest: canonical_evidence_path_supplied)

text \<open>
  The record is what the execution object reports: its identities, command and status, exit code zero,
  time, wall time, log, directory, declared hash of the log and declared artifacts.
\<close>

definition supplied_directory :: "Files \<Rightarrow> string \<Rightarrow> string \<Rightarrow> string \<Rightarrow> bool" where
  "supplied_directory f ws supplied p \<longleftrightarrow>
     fs_canonicalize (fl_fs f) (if is_absolute supplied then supplied else path_join ws supplied) = Some p
     \<and> path_starts_with p ws \<and> fs_is_dir (fl_fs f) p"

definition run_reported :: "Files \<Rightarrow> string \<Rightarrow> Object \<Rightarrow> ExecutionRecord \<Rightarrow> bool" where
  "run_reported f ws object r \<longleftrightarrow>
     required object [''run_id'', ''execution_id''] = Ok (xr_run_id r)
     \<and> required object [''session_id''] = Ok (xr_session_id r) \<and> required object [''agent_id''] = Ok (xr_agent_id r)
     \<and> required object [''entrypoint'', ''command''] = Ok (xr_entrypoint r)
     \<and> required object [''status''] = Ok (xr_status r)
     \<and> Option.bind (map_of object ''exit_code'') as_i64 = Some (xr_exit_code r)
     \<and> parse_execution_timestamp f object = Ok (xr_ran_at_ms r)
     \<and> parse_execution_wall_time object = Ok (xr_wall_time_ms r)
     \<and> (\<exists>raw. required object [''log_path'', ''run_log_path''] = Ok raw \<and> supplied_file f ws raw (xr_log_path r))
     \<and> (\<exists>raw. required object [''cwd'', ''working_directory''] = Ok raw \<and> supplied_directory f ws raw (xr_cwd r))
     \<and> (\<forall>d. declared_log_hash object = Some d \<longrightarrow> eq_ignore_ascii_case d (xr_run_log_sha256 r))
     \<and> list_all2 (\<lambda>e p. supplied_file f ws (text_of e ''path'') p) (declared_artifacts object)
         (xr_declared_artifact_paths r)"

definition execution_backed ::
  "Files \<Rightarrow> string \<Rightarrow> string \<Rightarrow> JsonValue list \<Rightarrow> ExecutionRecord \<Rightarrow> bool" where
  "execution_backed f ws lg steps r \<longleftrightarrow>
     xr_status r \<in> {''ok'', ''success'', ''completed''} \<and> xr_exit_code r = 0
     \<and> \<not> is_blank (xr_run_id r) \<and> \<not> is_blank (xr_session_id r) \<and> \<not> is_blank (xr_agent_id r) \<and> \<not> is_blank (xr_entrypoint r)
     \<and> in_workspace f ws lg \<and> path_eq (xr_log_path r) lg
     \<and> path_starts_with (xr_cwd r) ws \<and> fs_is_dir (fl_fs f) (xr_cwd r)
     \<and> (\<exists>bytes. fl_read f lg = Some bytes \<and> xr_run_log_sha256 r = sha256_bytes (fl_sha256 f) bytes)
     \<and> list_all (\<lambda>s. has_time f s \<and> within_run (xr_ran_at_ms r) (xr_wall_time_ms r) (time_of f s)) steps
     \<and> (\<exists>ns. fl_modified_ns f lg = Some ns \<and> within_run (xr_ran_at_ms r) (xr_wall_time_ms r) (ns div 1000000))
     \<and> list_all (in_workspace f ws) (xr_declared_artifact_paths r)"

lemma required_ok: "required ob names = Inr v \<Longrightarrow> \<not> is_blank v"
  by (auto simp: required_def)

lemma canonical_directory_path_in:
  "canonical_directory_path f ws x = Inr p \<Longrightarrow> path_starts_with p ws \<and> fs_is_dir (fl_fs f) p"
  by (auto simp: canonical_directory_path_def Let_def split: if_splits)

lemma canonical_directory_path_supplied:
  "canonical_directory_path f ws supplied = Inr p \<Longrightarrow> supplied_directory f ws supplied p"
  by (auto simp: canonical_directory_path_def supplied_directory_def Let_def split: if_splits)

lemma file_modified_ms_ok:
  "file_modified_ms f p = Inr ms \<Longrightarrow> \<exists>ns. fl_modified_ns f p = Some ns \<and> 0 \<le> ns \<and> ms = ns div 1000000 \<and> ms \<le> i64_max"
  by (auto simp: file_modified_ms_def split: if_splits)

lemma validate_execution_object_ok:
  assumes "validate_execution_object f ws trace lg ob = Inr r" and "in_workspace f ws lg"
  shows "\<exists>content steps. read_to_string (fl_read f) trace = Inr content \<and> parse_trace_steps f content = Inr steps
    \<and> execution_backed f ws lg steps r \<and> run_reported f ws ob r"
proof -
  obtain run_id session_id agent_id entrypoint status log_raw cwd_raw t0 wall log_path cwd sha content steps ms ps where
    req: "required ob [''run_id'', ''execution_id''] = Inr run_id" "required ob [''session_id''] = Inr session_id"
      "required ob [''agent_id''] = Inr agent_id" "required ob [''entrypoint'', ''command''] = Inr entrypoint"
    and times: "parse_execution_timestamp f ob = Inr t0" "parse_execution_wall_time ob = Inr wall"
    and status: "status \<in> set [''ok'', ''success'', ''completed'']" "required ob [''status''] = Inr status"
      "Option.bind (map_of ob ''exit_code'') as_i64 = Some 0"
    and raw: "required ob [''log_path'', ''run_log_path''] = Inr log_raw" "required ob [''cwd'', ''working_directory''] = Inr cwd_raw"
      "\<not> (case declared_log_hash ob of Some d \<Rightarrow> \<not> eq_ignore_ascii_case d sha | None \<Rightarrow> False)"
    and paths: "canonical_evidence_path f ws log_raw = Inr log_path" "canonical_directory_path f ws cwd_raw = Inr cwd"
      "path_eq log_path lg"
    and sha: "ev_sha256_file f lg = Inr sha"
    and steps: "ev_read_to_string f trace = Inr content" "parse_trace_steps f content = Inr steps"
      "checks (map (step_in_window f t0 wall) (List.enumerate 0 steps)) = Inr ()"
    and modified: "file_modified_ms f lg = Inr ms" "in_window t0 wall ms"
    and declared: "declared_paths f ws (declared_artifacts ob) = Inr ps"
    and r: "r = \<lparr> xr_run_id = run_id, xr_session_id = session_id, xr_agent_id = agent_id, xr_ran_at_ms = t0,
          xr_wall_time_ms = wall, xr_log_path = log_path, xr_cwd = cwd, xr_entrypoint = entrypoint,
          xr_status = status, xr_exit_code = 0, xr_run_log_sha256 = sha,
          xr_declared_artifact_paths = ps \<rparr>"
    using assms(1) unfolding validate_execution_object_def
    by (clarsimp simp del: checks_ok set_simps split: if_splits)
  have "execution_backed f ws lg steps r"
    unfolding execution_backed_def r using status(1) assms(2) paths(3) steps(3) modified(2)
      req [THEN required_ok] canonical_directory_path_in [OF paths(2)] sha [unfolded ev_sha256_file_ok]
      file_modified_ms_ok [OF modified(1)] declared_paths_ok [OF declared]
    unfolding steps_in_window in_window_within_run by auto
  moreover have "run_reported f ws ob r"
    unfolding run_reported_def r using req times status(2,3) raw declared_paths_supplied [OF declared]
      canonical_evidence_path_supplied [OF paths(1)] canonical_directory_path_supplied [OF paths(2)]
    by (auto split: option.splits)
  ultimately show ?thesis
    using steps(1,2) by (auto simp: ev_read_ok)
qed


section \<open>Wall time\<close>

lemma wall_time_seconds_bounds:
  assumes "wall_time_seconds ob = Inr w"
  shows "0 \<le> w \<and> w \<le> 86400000"
proof -
  obtain s where s: "is_finite s" "f64_lt (Fin 0) s" "\<not> f64_lt (Fin 86400) s" "w = millis s"
    using assms by (auto simp: wall_time_seconds_def split: option.splits if_splits)
  then have v: "0 < f64_val s" "f64_val s \<le> 86400"
    by (simp_all add: f64_lt_finite)
  obtain r where "f64_round (f64_val s * 1000) = Fin r" "0 \<le> r" "r \<le> of_int 86400000"
    using f64_round_between [of "f64_val s * 1000" 86400000] v by auto
  then show ?thesis
    unfolding s(4) millis_def by (simp add: le_floor_iff floor_le_iff)
qed

lemma window_bounds:
  assumes "in_window t0 w t" and "i64_min \<le> t0" and "t0 \<le> i64_max" and "0 \<le> w"
  shows "t0 - 300000 \<le> t \<and> t \<le> t0 + w + 300000"
  using assms
  by (auto simp: in_window_def window_start_def window_end_def MARGIN_MS_def saturating_add_def saturating_sub_def
      i64_saturate_def i64_min_def i64_max_def split: if_splits)

text \<open>A declared number of milliseconds is not bounded: the largest one opens the window upwards.\<close>

lemma unbounded_window:
  assumes "map_of ob ''wall_time_ms'' = Some (JNumber (PosInt (nat i64_max)))"
    and "0 \<le> t0" and "window_start t0 \<le> t" and "t \<le> i64_max"
  shows "parse_execution_wall_time ob = Inr i64_max \<and> in_window t0 i64_max t"
  using assms
  by (auto simp: parse_execution_wall_time_def in_window_def window_end_def MARGIN_MS_def saturating_add_def
      i64_saturate_def i64_min_def i64_max_def)

section \<open>Cross references\<close>

text \<open>A declared artifact is a verified entry of the manifest with the declared hash.\<close>

definition declared_verified :: "Files \<Rightarrow> string \<Rightarrow> ArtifactManifest \<Rightarrow> JsonValue \<Rightarrow> bool" where
  "declared_verified f ws manifest e \<longleftrightarrow>
     (\<exists>c p h a. canonical_evidence_path f ws (text_of e ''path'') = Ok c \<and> components c = components p
        \<and> a \<in> set manifest \<and> entry_verified f ws a p h \<and> eq_ignore_ascii_case h (text_of e ''sha256''))"

lemma declared_artifact_step_ok:
  assumes "declared_artifact_step f ws arts seen e = Inr seen'" and "manifest_verified f ws manifest arts"
  shows "declared_verified f ws manifest e"
proof -
  have hash: "(case x of Some h \<Rightarrow> if is_hex 64 h then Some h else None | None \<Rightarrow> None) = Some d \<longleftrightarrow> x = Some d \<and> is_hex 64 d"
    for x d by (auto split: option.splits)
  obtain raw c d where raw: "get_str e ''path'' = Some raw" and c: "canonical_evidence_path f ws raw = Inr c"
    and d: "get_str e ''sha256'' = Some d"
    and known: "case map_of arts (components c) of Some (_, h) \<Rightarrow> eq_ignore_ascii_case h d | None \<Rightarrow> False"
    using assms(1) by (auto simp: declared_artifact_step_def artifact_entry_path_def hash split: if_splits)
  obtain p h where p: "map_of arts (components c) = Some (p, h)" "eq_ignore_ascii_case h d"
    using known by (auto split: option.splits)
  then obtain a where "components c = components p" "a \<in> set manifest" "entry_verified f ws a p h"
    using assms(2) unfolding manifest_verified_def by metis
  then show ?thesis
    unfolding declared_verified_def text_of_def using raw c d p(2) by auto
qed

lemma run_events_all:
  "run_events step s es = Inr t \<Longrightarrow> (\<And>s e s'. e \<in> set es \<Longrightarrow> step s e = Inr s' \<Longrightarrow> P e) \<Longrightarrow> \<forall>e \<in> set es. P e"
  by (induction es arbitrary: s) (auto split: sum.splits)

definition cross_referenced :: "Files \<Rightarrow> string \<Rightarrow> Object \<Rightarrow> ArtifactManifest \<Rightarrow> bool" where
  "cross_referenced f ws execution manifest \<longleftrightarrow>
     manifest \<noteq> []
     \<and> (\<exists>t0 w. parse_execution_timestamp f execution = Ok t0 \<and> parse_execution_wall_time execution = Ok w
        \<and> (\<forall>a \<in> set manifest. \<exists>p h. entry_verified f ws a p h
             \<and> (declared_artifacts execution = [] \<longrightarrow>
                  (\<exists>ns. fl_modified_ns f p = Some ns \<and> within_run t0 w (ns div 1000000)))))
     \<and> (\<forall>e \<in> set (declared_artifacts execution). declared_verified f ws manifest e)"

lemma cross_reference_ok:
  assumes "cross_reference f ws execution manifest = Inr ()"
  shows "cross_referenced f ws execution manifest"
proof -
  obtain t0 w arts where t: "parse_execution_timestamp f execution = Inr t0" "parse_execution_wall_time execution = Inr w"
    and arts: "validate_artifact_manifest f ws manifest = Inr arts"
    and declared: "declared_artifacts execution \<noteq> [] \<Longrightarrow>
      \<exists>seen. run_events (declared_artifact_step f ws arts) {} (declared_artifacts execution) = Inr seen"
    and produced: "declared_artifacts execution = [] \<Longrightarrow> checks (map (artifact_in_window f t0 w) arts) = Inr ()"
    using assms by (auto simp: cross_reference_def Let_def simp del: checks_ok split: if_splits)
  note m = conjunct2 [OF validate_artifact_manifest_ok [OF arts]]
  have "\<forall>e \<in> set (declared_artifacts execution). declared_verified f ws manifest e"
  proof (cases "declared_artifacts execution = []")
    case False
    then obtain seen where "run_events (declared_artifact_step f ws arts) {} (declared_artifacts execution) = Inr seen"
      using declared by blast
    then show ?thesis
      by (rule run_events_all) (rule declared_artifact_step_ok [OF _ m])
  qed simp
  moreover have "\<exists>p h. entry_verified f ws a p h \<and> (declared_artifacts execution = [] \<longrightarrow>
      (\<exists>ns. fl_modified_ns f p = Some ns \<and> within_run t0 w (ns div 1000000)))" if a: "a \<in> set manifest" for a
  proof -
    obtain p h where p: "entry_verified f ws a p h" "map_of arts (components p) = Some (p, h)"
      using m a unfolding manifest_verified_def by blast
    have "\<exists>ns. fl_modified_ns f p = Some ns \<and> within_run t0 w (ns div 1000000)" if none: "declared_artifacts execution = []"
    proof -
      have "artifact_in_window f t0 w (components p, p, h) = Inr ()"
        using produced [OF none] map_of_SomeD [OF p(2)] by (auto simp: list_all_iff)
      then show ?thesis
        by (auto simp: artifact_in_window_def in_window_within_run dest: file_modified_ms_ok)
    qed
    then show ?thesis using p(1) by blast
  qed
  ultimately show ?thesis
    unfolding cross_referenced_def using t conjunct1 [OF validate_artifact_manifest_ok [OF arts]] by blast
qed

section \<open>An accepted execution\<close>

text \<open>
  The run \<open>r\<close> is the one that the execution manifest at the supplied path reports; it fits the trace and the
  log at their supplied paths, and its object is cross-referenced with the artifact manifest at its own.
\<close>

definition execution_accepted ::
  "Files \<Rightarrow> string \<Rightarrow> string \<Rightarrow> string \<Rightarrow> string \<Rightarrow> string \<Rightarrow> ExecutionRecord \<Rightarrow> bool" where
  "execution_accepted f workspace execution_path trace_path run_log_path manifest_path r \<longleftrightarrow>
     (\<exists>ws ef raw ob fields tr content steps lg mf text manifest.
        fs_canonicalize (fl_fs f) workspace = Some ws
        \<and> supplied_file f ws execution_path ef \<and> read_to_string (fl_read f) ef = Ok raw \<and> fl_json f raw = Some ob
        \<and> Option.bind (json_get ob ''execution'') as_object = Some fields
        \<and> supplied_file f ws trace_path tr \<and> read_to_string (fl_read f) tr = Ok content
        \<and> parse_trace_steps f content = Ok steps
        \<and> supplied_file f ws run_log_path lg \<and> execution_backed f ws lg steps r \<and> run_reported f ws fields r
        \<and> supplied_file f ws manifest_path mf \<and> read_to_string (fl_read f) mf = Ok text
        \<and> fl_manifest f text = Some manifest \<and> cross_referenced f ws fields manifest)"

lemma execution_acceptedI:
  assumes "validate_execution_record f workspace execution_path trace_path run_log_path = Inr r"
    and "validate_cross_references f workspace execution_path manifest_path = Inr ()"
  shows "execution_accepted f workspace execution_path trace_path run_log_path manifest_path r"
proof -
  obtain ws ef tr lg raw ob fields where
    a: "fs_canonicalize (fl_fs f) workspace = Some ws" "canonical_evidence_path f ws execution_path = Inr ef"
      "canonical_evidence_path f ws trace_path = Inr tr" "canonical_evidence_path f ws run_log_path = Inr lg"
      "read_to_string (fl_read f) ef = Inr raw" "fl_json f raw = Some ob"
      "Option.bind (json_get ob ''execution'') as_object = Some fields"
      "validate_execution_object f ws tr lg fields = Inr r"
    using assms(1) unfolding validate_execution_record_def by (clarsimp simp: ev_read_ok)
  obtain mf mtext manifest where c: "canonical_evidence_path f ws manifest_path = Inr mf"
      "read_to_string (fl_read f) mf = Inr mtext" "fl_manifest f mtext = Some manifest"
      "cross_reference f ws fields manifest = Inr ()"
    using assms(2) a(1,2,5-7) unfolding validate_cross_references_def by (clarsimp simp: ev_read_ok)
  obtain content steps where "read_to_string (fl_read f) tr = Inr content" "parse_trace_steps f content = Inr steps"
      "execution_backed f ws lg steps r" "run_reported f ws fields r"
    using validate_execution_object_ok [OF a(8) canonical_evidence_path_in [OF a(4)]] by blast
  then show ?thesis
    unfolding execution_accepted_def
    using a(1,5-7) a(2-4) [THEN canonical_evidence_path_supplied] canonical_evidence_path_supplied [OF c(1)] c(2,3)
      cross_reference_ok [OF c(4)]
    by blast
qed

end
