(* ===== verification/ProbeGate.thy ===== *)
theory ProbeGate
  imports TraceGate
begin

text \<open>
  Two more gates over files of the workspace: the channel probe
  (\<open>validate_channel_probe_evidence\<close>) and the redline scan (\<open>validate_redline_evidence\<close>,
  \<open>contains_attempt_number\<close>) of \<open>solver-guard/src/lib.rs\<close>.
\<close>

section \<open>The channel probe\<close>

record ChannelProbeEvidence =
  cp_schema_version :: string
  cp_challenge_id :: string
  cp_probe_at_ms :: int
  cp_challenge_route :: string
  cp_attempts_route :: string
  cp_challenge_response_sha256 :: string
  cp_attempts_response_sha256 :: "string option"
  cp_grader_name :: "string option"
  cp_s2 :: "bool option"
  cp_grader_registered :: "bool option"
  cp_harbor_active :: "bool option"
  cp_observed_attempt_count :: "nat option"
  cp_newest_attempt_updated_ms :: "int option"
  cp_worker_queue_ok :: "bool option"
  cp_worker_queue_stale_after_ms :: int
  cp_recent_attempt_limit :: nat
  cp_method :: string
  cp_platform_write_attempted :: bool
  cp_quota_cost :: string

datatype ChannelProbeValidationError = ProbeOutsideWorkspace string | ProbeIo | ProbeInvalid string | ProbeInvalidBy string

definition canonical_channel_probe_path :: "Files \<Rightarrow> string \<Rightarrow> string \<Rightarrow> ChannelProbeValidationError + string" where
  "canonical_channel_probe_path f workspace supplied =
     (let candidate = (if is_absolute supplied then supplied else path_join workspace supplied)
      in and_then (ok_or (fs_canonicalize (fl_fs f) candidate) ProbeIo) (\<lambda>canonical.
         if \<not> path_starts_with canonical workspace \<or> \<not> fs_is_file (fl_fs f) canonical
         then Err (ProbeOutsideWorkspace supplied) else Ok canonical))"

definition require_sha256 :: "string \<Rightarrow> string \<Rightarrow> ChannelProbeValidationError + unit" where
  "require_sha256 value label =
     fail_if (\<not> is_hex 64 value) (ProbeInvalid (label @ '' is not a 64-character SHA-256''))"

definition probe_read :: "Files \<Rightarrow> string \<Rightarrow> ChannelProbeValidationError + string" where
  "probe_read f p = map_err (\<lambda>_. ProbeIo) (read_to_string (fl_read f) p)"

definition probe_sha256_file :: "Files \<Rightarrow> string \<Rightarrow> ChannelProbeValidationError + string" where
  "probe_sha256_file f p = ok_or (sha256_file (fl_read f) (fl_sha256 f) p) ProbeIo"

definition MAX_PROBE_BYTES :: nat where
  "MAX_PROBE_BYTES = 1024 * 1024"

text \<open>The subtraction is reached only for \<open>0 \<le> probe_at_ms \<le> now_ms\<close> and cannot overflow.\<close>

definition probe_bound :: "ChannelProbeEvidence \<Rightarrow> string \<Rightarrow> int \<Rightarrow> int \<Rightarrow> bool" where
  "probe_bound p ch now_ms max_age_ms \<longleftrightarrow>
     \<not> (cp_schema_version p \<noteq> ''ascodex-channel-probe/v1'' \<or> cp_challenge_id p \<noteq> ch
        \<or> cp_challenge_route p \<noteq> ''/api/challenges/'' @ ch
        \<or> cp_attempts_route p \<noteq> ''/api/challenges/'' @ ch @ ''/attempts''
        \<or> cp_method p \<noteq> ''GET'' \<or> cp_platform_write_attempted p \<or> cp_probe_at_ms p < 0 \<or> now_ms < 0
        \<or> now_ms < cp_probe_at_ms p \<or> max_age_ms < now_ms - cp_probe_at_ms p)"

definition grader_evidence :: "ChannelProbeEvidence \<Rightarrow> bool" where
  "grader_evidence p \<longleftrightarrow>
     cp_grader_registered p = Some True \<and> cp_s2 p = Some False \<and> \<not> none_or_empty (cp_grader_name p)"

definition challenge_bound :: "JsonValue \<Rightarrow> string \<Rightarrow> bool" where
  "challenge_bound v ch \<longleftrightarrow>
     Option.bind (find_map (json_get v) [''challenge_id'', ''challengeId'', ''id'']) as_str = Some ch"

definition attempt_entries :: "JsonValue \<Rightarrow> JsonValue list" where
  "attempt_entries v =
     (case as_array v of
        Some es \<Rightarrow> es
      | None \<Rightarrow>
          (case find_map (\<lambda>k. Option.bind (json_get v k) as_array)
                  [''attempts'', ''items'', ''data'', ''results'', ''entries''] of
             Some es \<Rightarrow> es | None \<Rightarrow> []))"

definition foreign_attempt :: "string \<Rightarrow> JsonValue \<Rightarrow> bool" where
  "foreign_attempt ch e \<longleftrightarrow>
     (case Option.bind (find_map (json_get e) [''challenge_id'', ''challengeId'']) as_str of
        Some v \<Rightarrow> v \<noteq> ch | None \<Rightarrow> False)"

text \<open>\<open>probe_json\<close> is the typed parser of \<open>serde_json\<close> for the probe.\<close>

definition validate_channel_probe_evidence ::
  "Files \<Rightarrow> (string \<Rightarrow> ChannelProbeEvidence option) \<Rightarrow> string \<Rightarrow> string \<Rightarrow> string \<Rightarrow> string \<Rightarrow> string \<Rightarrow> int \<Rightarrow> int \<Rightarrow>
   ChannelProbeValidationError + ChannelProbeEvidence" where
  "validate_channel_probe_evidence f probe_json workspace probe_path challenge_response_path
       attempts_response_path expected_challenge_id now_ms max_age_ms =
     (if is_blank expected_challenge_id then Err (ProbeInvalid ''expected challenge id is required'')
      else if max_age_ms \<le> 0 then Err (ProbeInvalid ''channel probe max age must be positive'')
      else
      and_then (ok_or (fs_canonicalize (fl_fs f) workspace) (ProbeInvalidBy ''workspace cannot be resolved: '')) (\<lambda>workspace.
      and_then (canonical_channel_probe_path f workspace probe_path) (\<lambda>probe_path.
      and_then (canonical_channel_probe_path f workspace challenge_response_path) (\<lambda>challenge_response_path.
      and_then (canonical_channel_probe_path f workspace attempts_response_path) (\<lambda>attempts_response_path.
      and_then (probe_read f probe_path) (\<lambda>probe_text.
      if MAX_PROBE_BYTES < length probe_text
      then Err (ProbeInvalid ''channel probe exceeds the 1 MiB admission limit'')
      else
      and_then (ok_or (probe_json probe_text) (ProbeInvalidBy ''typed probe JSON: '')) (\<lambda>probe.
      and_then (require_sha256 (cp_challenge_response_sha256 probe) ''challenge response hash'') (\<lambda>_.
      and_then (ok_or (cp_attempts_response_sha256 probe)
          (ProbeInvalid ''attempts response hash is required for formal admission'')) (\<lambda>attempts_hash.
      and_then (require_sha256 attempts_hash ''attempts response hash'') (\<lambda>_.
      if \<not> probe_bound probe expected_challenge_id now_ms max_age_ms
      then Err (ProbeInvalid ''channel probe is unbound, not GET-only, stale, or future-dated'')
      else
      and_then (probe_sha256_file f challenge_response_path) (\<lambda>challenge_hash.
      if \<not> eq_ignore_ascii_case challenge_hash (cp_challenge_response_sha256 probe)
      then Err (ProbeInvalid ''challenge response hash does not match the typed probe'')
      else
      and_then (probe_sha256_file f attempts_response_path) (\<lambda>attempts_hash_actual.
      if \<not> eq_ignore_ascii_case attempts_hash_actual attempts_hash
      then Err (ProbeInvalid ''attempts response hash does not match the typed probe'')
      else if \<not> grader_evidence probe
      then Err (ProbeInvalid ''positive grader registration evidence is required'')
      else if cp_worker_queue_ok probe = Some False
      then Err (ProbeInvalid ''worker queue is observed as stalled'')
      else
      and_then (probe_read f challenge_response_path) (\<lambda>challenge_text.
      and_then (ok_or (fl_json f challenge_text) (ProbeInvalidBy ''challenge response JSON: '')) (\<lambda>challenge.
      if \<not> challenge_bound challenge expected_challenge_id
      then Err (ProbeInvalid ''challenge response is not bound to the requested challenge id'')
      else
      and_then (probe_read f attempts_response_path) (\<lambda>attempts_text.
      and_then (ok_or (fl_json f attempts_text) (ProbeInvalidBy ''attempts response JSON: '')) (\<lambda>attempts.
      if list_ex (foreign_attempt expected_challenge_id) (attempt_entries attempts)
      then Err (ProbeInvalid ''attempts response contains another challenge'')
      else Ok probe))))))))))))))))"

section \<open>The redline scan\<close>

record RedlineFinding =
  rf_path :: string
  rf_term :: string

datatype RedlineValidationError = RedlineOutsideWorkspace string | RedlineIo | RedlineInvalidBy string
  | RedlineArtifacts TraceValidationError

definition BUILTIN_REDLINE_TERMS :: "string list" where
  "BUILTIN_REDLINE_TERMS =
     [''attempt id'', ''attempt_id'', ''harbor_reward'', ''trace_score'', ''scoringdetails'', ''leaderboard'',
      ''judge verdict'', ''red team'', ''red-team'', ''opponent'', ''prior score'', ''high score'']"

definition canonical_redline_path :: "Files \<Rightarrow> string \<Rightarrow> string \<Rightarrow> RedlineValidationError + string" where
  "canonical_redline_path f workspace supplied =
     (let candidate = (if is_absolute supplied then supplied else path_join workspace supplied)
      in and_then (ok_or (fs_canonicalize (fl_fs f) candidate) RedlineIo) (\<lambda>canonical.
         if \<not> path_starts_with canonical workspace \<or> \<not> fs_is_file (fl_fs f) canonical
         then Err (RedlineOutsideWorkspace supplied) else Ok canonical))"

text \<open>\<open>u8::is_ascii_whitespace\<close> and \<open>u8::is_ascii_digit\<close>.\<close>

definition ascii_whitespace :: "char \<Rightarrow> bool" where
  "ascii_whitespace c \<longleftrightarrow> c \<in> set [CHR 0x20, CHR 0x09, CHR 0x0A, CHR 0x0C, CHR 0x0D]"

definition ascii_digit :: "char \<Rightarrow> bool" where
  "ascii_digit c \<longleftrightarrow> c \<in> set ''0123456789''"

text \<open>What is looked for after the word: blanks, one optional separator with more blanks, a digit.\<close>

definition numbered_suffix :: "string \<Rightarrow> bool" where
  "numbered_suffix sfx =
     (let s1 = dropWhile ascii_whitespace sfx;
          s2 = (case s1 of
                  c # rest \<Rightarrow> if c = CHR ''_'' \<or> c = CHR ''-'' then dropWhile ascii_whitespace rest else s1
                | [] \<Rightarrow> s1)
      in case s2 of c # _ \<Rightarrow> ascii_digit c | [] \<Rightarrow> False)"

text \<open>The text after the first occurrence of a word.\<close>

fun after_first :: "string \<Rightarrow> string \<Rightarrow> string option" where
  "after_first n [] = (if n = [] then Some [] else None)"
| "after_first n (c # cs) = (if prefix n (c # cs) then Some (drop (length n) (c # cs)) else after_first n cs)"

lemma after_first_length: "n \<noteq> [] \<Longrightarrow> after_first n s = Some r \<Longrightarrow> length r < length s"
  by (induction n s rule: after_first.induct) (auto split: if_splits)

function contains_attempt_number :: "string \<Rightarrow> bool" where
  "contains_attempt_number text =
     (case after_first ''attempt'' text of
        None \<Rightarrow> False
      | Some sfx \<Rightarrow> if numbered_suffix sfx then True else contains_attempt_number sfx)"
  by auto
termination
  by (relation "measure length") (auto dest: after_first_length [rotated])

declare contains_attempt_number.simps [simp del]

definition redline_terms :: "string list \<Rightarrow> string list" where
  "redline_terms banned_terms =
     remdups_adj (sort (BUILTIN_REDLINE_TERMS
       @ map to_ascii_lowercase (filter (\<lambda>t. \<not> is_blank t) banned_terms)))"

definition text_findings :: "string list \<Rightarrow> string \<Rightarrow> string \<Rightarrow> RedlineFinding list" where
  "text_findings terms path text =
     (let lower = to_ascii_lowercase text
      in map (\<lambda>t. \<lparr> rf_path = path, rf_term = t \<rparr>) (filter (str_contains lower) terms)
         @ (if contains_attempt_number lower then [\<lparr> rf_path = path, rf_term = ''attempt number'' \<rparr>] else []))"

fun redline_scan :: "Files \<Rightarrow> string list \<Rightarrow> string list \<Rightarrow> RedlineValidationError + RedlineFinding list" where
  "redline_scan f terms [] = Ok []"
| "redline_scan f terms (p # ps) =
     (case read_to_string (fl_read f) p of
        Inl InvalidData \<Rightarrow> redline_scan f terms ps
      | Inl Unreadable \<Rightarrow> Err RedlineIo
      | Inr text \<Rightarrow> and_then (redline_scan f terms ps) (\<lambda>rest. Ok (text_findings terms p text @ rest)))"

text \<open>\<open>BTreeSet<PathBuf>\<close>, in the order of the components.\<close>

definition redline_paths :: "string \<Rightarrow> string \<Rightarrow> Artifacts \<Rightarrow> string list" where
  "redline_paths trace_path run_log_path artifacts =
     map snd (foldl (\<lambda>m p. if map_of m (components p) = None then btree_insert (components p) p m else m) []
       ([trace_path, run_log_path] @ map (\<lambda>(_, p, _). p) artifacts))"

definition validate_redline_evidence ::
  "Files \<Rightarrow> string \<Rightarrow> string \<Rightarrow> string \<Rightarrow> string \<Rightarrow> RedlinePolicy \<Rightarrow> RedlineValidationError + RedlineFinding list" where
  "validate_redline_evidence f workspace trace_path run_log_path artifact_manifest_path policy =
     and_then (ok_or (fs_canonicalize (fl_fs f) workspace) (RedlineInvalidBy ''workspace cannot be resolved: '')) (\<lambda>workspace.
     and_then (canonical_redline_path f workspace trace_path) (\<lambda>trace_path.
     and_then (canonical_redline_path f workspace run_log_path) (\<lambda>run_log_path.
     and_then (canonical_redline_path f workspace artifact_manifest_path) (\<lambda>manifest_path.
     and_then (map_err (\<lambda>_. RedlineIo) (read_to_string (fl_read f) manifest_path)) (\<lambda>text.
     and_then (ok_or (fl_manifest f text) (RedlineInvalidBy ''artifact manifest: '')) (\<lambda>manifest.
     and_then (map_err RedlineArtifacts (validate_artifact_manifest f workspace manifest)) (\<lambda>artifacts.
     redline_scan f (redline_terms (rl_banned_terms policy)) (redline_paths trace_path run_log_path artifacts))))))))"

end
