(* ===== verification/ProbeSpec.thy ===== *)
theory ProbeSpec
  imports ProbeGate ArtifactSpec
begin

text \<open>
  What the channel probe and the redline scan establish: an admitted probe is bound, fresh and
  matched by the raw responses; the scan reports exactly the terms that occur, and the search for
  an attempt number finds every occurrence.
\<close>

section \<open>The channel probe\<close>

lemma canonical_channel_probe_path_in:
  "canonical_channel_probe_path f ws x = Inr p \<Longrightarrow> in_workspace f ws p"
  by (auto simp: canonical_channel_probe_path_def in_workspace_def Let_def split: if_splits)

lemma probe_sha256_file_ok:
  "probe_sha256_file f p = Inr h \<longleftrightarrow> (\<exists>bytes. fl_read f p = Some bytes \<and> h = sha256_bytes (fl_sha256 f) bytes)"
  by (auto simp: probe_sha256_file_def sha256_file_def)

text \<open>A response file of the workspace that has the declared hash and parses to \<open>v\<close>.\<close>

definition response_backed :: "Files \<Rightarrow> string \<Rightarrow> string \<Rightarrow> string \<Rightarrow> JsonValue \<Rightarrow> bool" where
  "response_backed f ws p declared v \<longleftrightarrow>
     in_workspace f ws p \<and> is_hex 64 declared
     \<and> (\<exists>bytes. fl_read f p = Some bytes \<and> eq_ignore_ascii_case (sha256_bytes (fl_sha256 f) bytes) declared
          \<and> fl_json f bytes = Some v)"

lemma read_to_string_ok: "read_to_string read p = Inr t \<longleftrightarrow> read p = Some t \<and> utf8_valid t"
  by (auto simp: read_to_string_def split: option.splits if_splits)

lemma validate_channel_probe_evidence_ok:
  assumes "validate_channel_probe_evidence f pj workspace pp cp ap ch now_ms max_age_ms = Inr probe"
  shows "probe_bound probe ch now_ms max_age_ms \<and> grader_evidence probe \<and> cp_worker_queue_ok probe \<noteq> Some False
    \<and> (\<exists>ws c a challenge attempts h. fs_canonicalize (fl_fs f) workspace = Some ws
         \<and> cp_attempts_response_sha256 probe = Some h
         \<and> response_backed f ws c (cp_challenge_response_sha256 probe) challenge \<and> challenge_bound challenge ch
         \<and> response_backed f ws a h attempts \<and> \<not> list_ex (foreign_attempt ch) (attempt_entries attempts))"
proof -
  obtain ws p c a ah ch' at' cv av where
    ws: "fs_canonicalize (fl_fs f) workspace = Some ws"
    and paths: "canonical_channel_probe_path f ws pp = Inr p" "canonical_channel_probe_path f ws cp = Inr c"
      "canonical_channel_probe_path f ws ap = Inr a"
    and hex: "is_hex 64 (cp_challenge_response_sha256 probe)" "cp_attempts_response_sha256 probe = Some ah" "is_hex 64 ah"
    and bound: "probe_bound probe ch now_ms max_age_ms" "grader_evidence probe" "cp_worker_queue_ok probe \<noteq> Some False"
    and challenge: "fl_read f c = Some ch'" "fl_json f ch' = Some cv" "challenge_bound cv ch"
      "eq_ignore_ascii_case (sha256_bytes (fl_sha256 f) ch') (cp_challenge_response_sha256 probe)"
    and attempts: "fl_read f a = Some at'" "fl_json f at' = Some av"
      "eq_ignore_ascii_case (sha256_bytes (fl_sha256 f) at') ah"
      "\<not> list_ex (foreign_attempt ch) (attempt_entries av)"
    using assms unfolding validate_channel_probe_evidence_def
    by (clarsimp simp: probe_read_def read_to_string_ok probe_sha256_file_ok require_sha256_def split: if_splits)
  have "response_backed f ws c (cp_challenge_response_sha256 probe) cv" "response_backed f ws a ah av"
    using challenge attempts hex paths [THEN canonical_channel_probe_path_in]
    by (auto simp: response_backed_def)
  then show ?thesis
    using ws bound hex(2) challenge(3) attempts(4) by blast
qed

section \<open>Attempt numbers\<close>

lemma after_first_Some:
  "after_first n s = Some r \<Longrightarrow> \<exists>pre. s = pre @ n @ r"
proof (induction n s rule: after_first.induct)
  case (1 n)
  then show ?case by (auto split: if_splits)
next
  case (2 n c cs)
  show ?case
  proof (cases "prefix n (c # cs)")
    case True
    then have "c # cs = [] @ n @ r"
      using "2.prems" by (auto simp: prefix_def)
    then show ?thesis by blast
  next
    case False
    then obtain pre where "cs = pre @ n @ r"
      using 2 by auto
    then have "c # cs = (c # pre) @ n @ r" by simp
    then show ?thesis by blast
  qed
qed

text \<open>No occurrence starts before the first one that is found.\<close>

lemma after_first_first:
  "s = pre @ n @ u \<Longrightarrow> \<exists>r. after_first n s = Some r \<and> length u \<le> length r"
proof (induction n s arbitrary: pre rule: after_first.induct)
  case (1 n)
  then show ?case by simp
next
  case (2 n c cs)
  show ?case
  proof (cases "prefix n (c # cs)")
    case True
    moreover have "length (c # cs) = length pre + length n + length u"
      using "2.prems" by simp
    ultimately show ?thesis by auto
  next
    case False
    then obtain pre' where "cs = pre' @ n @ u"
      using "2.prems" by (cases pre) (auto simp: prefix_def)
    then show ?thesis
      using "2.IH" [OF False] False by simp
  qed
qed

lemma longer_prefix: "a @ u = b @ v \<Longrightarrow> length b \<le> length a \<Longrightarrow> \<exists>m. a = b @ m"
  by (metis append_eq_append_conv_if append_take_drop_id)

text \<open>The word cannot overlap itself: its first letter does not occur again in it.\<close>

lemma attempt_no_overlap:
  assumes "pre @ ''attempt'' @ u = pre0 @ ''attempt'' @ r" and "length u \<le> length r"
  shows "u = r \<or> (\<exists>mid. r = mid @ ''attempt'' @ u)"
proof (cases "length pre < length pre0 + 7")
  case True
  have len: "length pre + length u = length pre0 + length r"
    using arg_cong [OF assms(1), of length] by simp
  define k where "k = length pre - length pre0"
  have k: "k < 7" "length pre = length pre0 + k"
    using True len assms(2) by (auto simp: k_def)
  have "(pre0 @ ''attempt'' @ r) ! length pre = CHR ''a''"
    unfolding assms(1) [symmetric] by (simp add: nth_append)
  then have "(''attempt'' @ r) ! k = CHR ''a''"
    using k(2) by (simp add: nth_append)
  then have "k = 0"
    using k(1) by (auto simp: less_Suc_eq numeral_eq_Suc)
  then show ?thesis
    using assms(1) k(2) by (simp add: append_eq_append_conv)
next
  case False
  have "pre @ (''attempt'' @ u) = (pre0 @ ''attempt'') @ r"
    using assms(1) by simp
  moreover have "length (pre0 @ ''attempt'') \<le> length pre"
    using False by simp
  ultimately obtain mid where mid: "pre = (pre0 @ ''attempt'') @ mid"
    using longer_prefix by blast
  then have "r = mid @ ''attempt'' @ u"
    using assms(1) unfolding mid by simp
  then show ?thesis by blast
qed

lemma contains_attempt_number_correct:
  "contains_attempt_number s \<longleftrightarrow> (\<exists>pre u. s = pre @ ''attempt'' @ u \<and> numbered_suffix u)"
proof (induction s rule: contains_attempt_number.induct)
  case (1 s)
  show ?case
  proof (cases "after_first ''attempt'' s")
    case None
    then show ?thesis
      using after_first_first [of s _ "''attempt''"] by (subst contains_attempt_number.simps) force
  next
    case (Some r)
    obtain pre0 where s: "s = pre0 @ ''attempt'' @ r"
      using after_first_Some [OF Some] by blast
    have IH: "\<not> numbered_suffix r \<Longrightarrow>
        contains_attempt_number r \<longleftrightarrow> (\<exists>pre u. r = pre @ ''attempt'' @ u \<and> numbered_suffix u)"
      by (rule "1.IH" [OF Some])
    have step: "contains_attempt_number s \<longleftrightarrow> numbered_suffix r \<or> contains_attempt_number r"
      using Some by (subst contains_attempt_number.simps) simp
    show ?thesis
    proof
      assume "contains_attempt_number s"
      then consider "numbered_suffix r" | pre u where "r = pre @ ''attempt'' @ u" "numbered_suffix u"
        using step IH by blast
      then show "\<exists>pre u. s = pre @ ''attempt'' @ u \<and> numbered_suffix u"
      proof cases
        case 1
        then show ?thesis using s by blast
      next
        case 2
        then have "s = (pre0 @ ''attempt'' @ pre) @ ''attempt'' @ u" using s by simp
        then show ?thesis using 2 by blast
      qed
    next
      assume "\<exists>pre u. s = pre @ ''attempt'' @ u \<and> numbered_suffix u"
      then obtain pre u where u: "s = pre @ ''attempt'' @ u" "numbered_suffix u" by blast
      have "length u \<le> length r"
        using after_first_first [OF u(1)] Some by simp
      then have "u = r \<or> (\<exists>mid. r = mid @ ''attempt'' @ u)"
        using u(1) s by (intro attempt_no_overlap [of pre u pre0]) simp_all
      then show "contains_attempt_number s"
        using step IH u(2) by blast
    qed
  qed
qed

section \<open>The scan\<close>

text \<open>The terms are the built-in ones and the policy's, in lower case; sorting loses none.\<close>

lemma set_redline_terms:
  "set (redline_terms terms) =
     set BUILTIN_REDLINE_TERMS \<union> to_ascii_lowercase ` {t \<in> set terms. \<not> is_blank t}"
  by (auto simp: redline_terms_def)

text \<open>A finding of a text: a term that occurs in its lower-case form, or an attempt number.\<close>

definition finding_in :: "string list \<Rightarrow> string \<Rightarrow> string \<Rightarrow> bool" where
  "finding_in terms content t \<longleftrightarrow>
     (let lower = to_ascii_lowercase content
      in t \<in> set terms \<and> str_contains lower t \<or> t = ''attempt number'' \<and> contains_attempt_number lower)"

lemma text_findings_set:
  "set (text_findings terms p content) = {\<lparr> rf_path = p, rf_term = t \<rparr> | t. finding_in terms content t}"
  by (auto simp: text_findings_def finding_in_def Let_def)

lemma redline_scan_ok:
  "redline_scan f terms ps = Inr findings \<Longrightarrow>
     set findings = {\<lparr> rf_path = p, rf_term = t \<rparr> | p t content.
        p \<in> set ps \<and> read_to_string (fl_read f) p = Inr content \<and> finding_in terms content t}"
proof (induction f terms ps arbitrary: findings rule: redline_scan.induct)
  case (1 f terms)
  then show ?case by simp
next
  case (2 f terms p ps)
  show ?case
  proof (cases "read_to_string (fl_read f) p")
    case (Inl e)
    then have e: "e = InvalidData"
      using "2.prems" by (cases e) auto
    then have "redline_scan f terms ps = Inr findings"
      using "2.prems" Inl by simp
    then show ?thesis
      using "2.IH"(1) [OF Inl e] Inl by auto
  next
    case (Inr content)
    then obtain rest where rest: "redline_scan f terms ps = Inr rest" "findings = text_findings terms p content @ rest"
      using "2.prems" by auto
    show ?thesis
      using "2.IH"(2) [OF Inr rest(1)] Inr rest(2) by (auto simp: text_findings_set)
  qed
qed

text \<open>Every path is scanned, once.\<close>

definition add_path :: "(string list \<times> string) list \<Rightarrow> string \<Rightarrow> (string list \<times> string) list" where
  "add_path m p = (if map_of m (components p) = None then btree_insert (components p) p m else m)"

lemma add_paths:
  "btree_inv (foldl add_path [] ps)
   \<and> (\<forall>k p. map_of (foldl add_path [] ps) k = Some p \<longrightarrow> p \<in> set ps \<and> k = components p)
   \<and> (\<forall>p \<in> set ps. map_of (foldl add_path [] ps) (components p) \<noteq> None)"
proof (induction ps rule: rev_induct)
  case Nil
  then show ?case by simp
next
  case (snoc p ps)
  let ?m = "foldl add_path [] ps"
  have inv: "btree_inv ?m" and sound: "\<And>k q. map_of ?m k = Some q \<Longrightarrow> q \<in> set ps \<and> k = components q"
    and complete: "\<And>q. q \<in> set ps \<Longrightarrow> map_of ?m (components q) \<noteq> None"
    using snoc by blast+
  have get: "map_of (add_path ?m p) k =
      (if k = components p \<and> map_of ?m (components p) = None then Some p else map_of ?m k)" for k
    using inv by (simp add: add_path_def btree.get_put)
  have "btree_inv (add_path ?m p)"
    using inv by (simp add: add_path_def)
  moreover have "q \<in> set (ps @ [p]) \<and> k = components q" if "map_of (add_path ?m p) k = Some q" for k q
    using that sound [of k q] by (auto simp: get split: if_splits)
  moreover have "map_of (add_path ?m p) (components q) \<noteq> None" if "q \<in> set (ps @ [p])" for q
    using that complete [of q] by (auto simp: get simp del: not_None_eq)
  ultimately show ?case
    by (simp del: not_None_eq map_of_eq_Some_iff)
qed

lemma redline_paths_components:
  "components ` set (redline_paths t l arts) = components ` ({t, l} \<union> (\<lambda>(_, p, _). p) ` set arts)"
  "set (redline_paths t l arts) \<subseteq> {t, l} \<union> (\<lambda>(_, p, _). p) ` set arts"
proof -
  let ?ps = "[t, l] @ map (\<lambda>(_, p, _). p) arts"
  let ?m = "foldl add_path [] ?ps"
  have paths: "redline_paths t l arts = map snd ?m"
    by (simp add: redline_paths_def add_path_def [abs_def])
  note inv = conjunct1 [OF add_paths [of ?ps]]
  have sound: "\<And>k q. map_of ?m k = Some q \<Longrightarrow> q \<in> set ?ps \<and> k = components q"
    and complete: "\<And>q. q \<in> set ?ps \<Longrightarrow> map_of ?m (components q) \<noteq> None"
    using add_paths [of ?ps] by blast+
  have mem: "q \<in> set (redline_paths t l arts) \<longleftrightarrow> (\<exists>k. map_of ?m k = Some q)" for q
    unfolding paths using btree_entries [OF inv] by force
  show sub: "set (redline_paths t l arts) \<subseteq> {t, l} \<union> (\<lambda>(_, p, _). p) ` set arts"
    using mem sound by auto
  have "components q \<in> components ` set (redline_paths t l arts)" if q: "q \<in> set ?ps" for q
  proof -
    obtain q' where "map_of ?m (components q) = Some q'"
      using complete [OF q] by (cases "map_of ?m (components q)") auto
    then show ?thesis
      using sound [of "components q" q'] mem [of q'] by (auto simp: image_iff)
  qed
  then have "components ` set ?ps \<subseteq> components ` set (redline_paths t l arts)"
    by blast
  moreover have "set ?ps = {t, l} \<union> (\<lambda>(_, p, _). p) ` set arts"
    by simp
  ultimately show "components ` set (redline_paths t l arts) = components ` ({t, l} \<union> (\<lambda>(_, p, _). p) ` set arts)"
    using sub by (metis image_mono subset_antisym)
qed

text \<open>The files a scan covers: the trace, the log and every verified artifact of the manifest.\<close>

definition scanned_files :: "Files \<Rightarrow> string \<Rightarrow> string \<Rightarrow> string \<Rightarrow> ArtifactManifest \<Rightarrow> string set \<Rightarrow> bool" where
  "scanned_files f ws trace lg manifest ps \<longleftrightarrow>
     (\<forall>p \<in> ps. p = trace \<or> p = lg \<or> (\<exists>a \<in> set manifest. \<exists>h. entry_verified f ws a p h))
     \<and> components trace \<in> components ` ps \<and> components lg \<in> components ` ps
     \<and> (\<forall>a \<in> set manifest. \<exists>p h. entry_verified f ws a p h \<and> components p \<in> components ` ps)"

lemma scanned_filesI:
  assumes "manifest_verified f ws manifest arts"
  shows "scanned_files f ws trace lg manifest (set (redline_paths trace lg arts))"
proof -
  let ?ps = "set (redline_paths trace lg arts)"
  have inv: "btree_inv arts"
    and known: "\<And>a. a \<in> set manifest \<Longrightarrow> \<exists>p h. entry_verified f ws a p h \<and> map_of arts (components p) = Some (p, h)"
    and sound: "\<And>k p h. map_of arts k = Some (p, h) \<Longrightarrow> \<exists>a \<in> set manifest. entry_verified f ws a p h"
    using assms unfolding manifest_verified_def by blast+
  have "p = trace \<or> p = lg \<or> (\<exists>a \<in> set manifest. \<exists>h. entry_verified f ws a p h)" if p: "p \<in> ?ps" for p
  proof -
    consider "p = trace" | "p = lg" | k h where "(k, p, h) \<in> set arts"
      using p redline_paths_components(2) [of trace lg arts] by auto
    then show ?thesis
    proof cases
      case (3 k h)
      then have "map_of arts k = Some (p, h)"
        using btree_entries [OF inv] by simp
      then show ?thesis using sound by blast
    qed simp_all
  qed
  moreover have covered: "components p \<in> components ` ?ps" if p: "p \<in> {trace, lg} \<union> (\<lambda>(_, p, _). p) ` set arts" for p
    unfolding redline_paths_components(1) using p by (rule imageI)
  moreover have "\<exists>p h. entry_verified f ws a p h \<and> components p \<in> components ` ?ps" if a: "a \<in> set manifest" for a
  proof -
    obtain p h where p: "entry_verified f ws a p h" "map_of arts (components p) = Some (p, h)"
      using known [OF a] by blast
    have "p \<in> (\<lambda>(_, p, _). p) ` set arts"
      using map_of_SomeD [OF p(2)] by (rule image_eqI [rotated]) simp
    then have "components p \<in> components ` ?ps"
      by (intro covered) simp
    with p(1) show ?thesis by blast
  qed
  ultimately show ?thesis
    unfolding scanned_files_def by simp
qed

lemma canonical_redline_path_in:
  "canonical_redline_path f ws x = Inr p \<Longrightarrow> in_workspace f ws p"
  by (auto simp: canonical_redline_path_def in_workspace_def Let_def split: if_splits)

lemma validate_redline_evidence_ok:
  assumes "validate_redline_evidence f workspace tp lp mp policy = Inr findings"
  shows "\<exists>ws trace lg manifest ps.
    fs_canonicalize (fl_fs f) workspace = Some ws \<and> in_workspace f ws trace \<and> in_workspace f ws lg
    \<and> scanned_files f ws trace lg manifest ps
    \<and> set findings = {\<lparr> rf_path = p, rf_term = t \<rparr> | p t content.
        p \<in> ps \<and> read_to_string (fl_read f) p = Inr content \<and> finding_in (redline_terms (rl_banned_terms policy)) content t}"
proof -
  obtain ws trace lg mf manifest arts where
    ws: "fs_canonicalize (fl_fs f) workspace = Some ws"
    and paths: "canonical_redline_path f ws tp = Inr trace" "canonical_redline_path f ws lp = Inr lg"
      "canonical_redline_path f ws mp = Inr mf"
    and arts: "validate_artifact_manifest f ws manifest = Inr arts"
    and scan: "redline_scan f (redline_terms (rl_banned_terms policy)) (redline_paths trace lg arts) = Inr findings"
    using assms unfolding validate_redline_evidence_def by clarsimp
  show ?thesis
    using ws paths [THEN canonical_redline_path_in] redline_scan_ok [OF scan]
      scanned_filesI [OF conjunct2 [OF validate_artifact_manifest_ok [OF arts]], of trace lg] by blast
qed

end
