(* ===== verification/TextLemmas.thy ===== *)
theory TextLemmas
  imports Json
begin

text \<open>Facts about \<open>trim\<close>, \<open>lines\<close>, line ends and characters that the round trip of a trace rests on.\<close>

section \<open>Trimming\<close>

lemma trim_start_suffix: "\<exists>a. s = a @ trim_start s"
proof (induction s rule: trim_start.induct)
  case (1 s)
  show ?case
  proof (cases "skip_ws s")
    case None
    then show ?thesis by (simp add: trim_start.simps [of s])
  next
    case (Some r)
    then obtain a where "s = a @ r"
      by (auto simp: skip_ws_def split: list.splits if_splits)
    moreover obtain b where "r = b @ trim_start r"
      using "1.IH" [OF Some] by blast
    moreover have "trim_start s = trim_start r"
      using Some by (simp add: trim_start.simps [of s])
    ultimately have "s = (a @ b) @ trim_start s"
      by simp
    then show ?thesis by blast
  qed
qed

lemma trim_end_rev_suffix: "\<exists>a. s = a @ trim_end_rev s"
proof (induction s rule: trim_end_rev.induct)
  case (1 s)
  show ?case
  proof (cases "skip_ws_rev s")
    case None
    then show ?thesis by (simp add: trim_end_rev.simps [of s])
  next
    case (Some r)
    then obtain a where "s = a @ r"
      by (auto simp: skip_ws_rev_def split: list.splits if_splits)
    moreover obtain b where "r = b @ trim_end_rev r"
      using "1.IH" [OF Some] by blast
    moreover have "trim_end_rev s = trim_end_rev r"
      using Some by (simp add: trim_end_rev.simps [of s])
    ultimately have "s = (a @ b) @ trim_end_rev s"
      by simp
    then show ?thesis by blast
  qed
qed

lemma skip_ws_rev_trim_end_rev: "skip_ws_rev (trim_end_rev s) = None"
proof (induction s rule: trim_end_rev.induct)
  case (1 s)
  then show ?case by (cases "skip_ws_rev s") (simp_all add: trim_end_rev.simps [of s])
qed

lemma trim_prefix: "prefix (trim s) (trim_start s)"
proof -
  obtain a where "rev (trim_start s) = a @ trim_end_rev (rev (trim_start s))"
    using trim_end_rev_suffix by blast
  then have "trim_start s = trim s @ rev a"
    by (metis rev_append rev_rev_ident trim_def)
  then show ?thesis by (simp add: prefix_def)
qed

lemma trim_infix: "str_contains s (trim s)"
proof -
  obtain a where "s = a @ trim_start s" using trim_start_suffix by blast
  moreover obtain b where "trim_start s = trim s @ b"
    using trim_prefix by (auto simp: prefix_def)
  ultimately have "s = a @ trim s @ b" by simp
  then show ?thesis by (auto simp: str_contains_iff)
qed

lemma skip_ws_prefix: "prefix t s \<Longrightarrow> skip_ws s = None \<Longrightarrow> skip_ws t = None"
  by (metis not_None_eq prefix_def skip_ws_append)

lemma skip_ws_trim: "skip_ws (trim s) = None"
  by (rule skip_ws_prefix [OF trim_prefix skip_ws_trim_start])

lemma trim_trim [simp]: "trim (trim s) = trim s"
proof -
  have "trim_start (trim s) = trim s"
    by (simp add: trim_start.simps [of "trim s"] skip_ws_trim)
  moreover have "trim_end_rev (rev (trim s)) = rev (trim s)"
    using skip_ws_rev_trim_end_rev [of "rev (trim_start s)"]
    by (simp add: trim_def trim_end_rev.simps [of "trim_end_rev _"])
  ultimately show ?thesis
    by (simp add: trim_def [of "trim s"])
qed

lemma not_blank_prefix: "prefix t (trim s) \<Longrightarrow> t \<noteq> [] \<Longrightarrow> \<not> is_blank t"
  using skip_ws_prefix [OF _ skip_ws_trim] by (simp add: is_blank_start trim_start.simps [of t])

lemma trim_no_space: "prefix t (trim s) \<Longrightarrow> \<not> starts_with t '' ''"
  using skip_ws_prefix [OF _ skip_ws_trim, of t s]
  by (cases t) (auto simp: starts_with_def skip_ws_def ws1_def)

section \<open>Line ends\<close>

lemma crlf_to_lf_length: "length (crlf_to_lf s) \<le> length s"
  by (induction s rule: crlf_to_lf.induct) auto

lemma crlf_to_lf_fixed: "crlf_to_lf s = s \<longleftrightarrow> \<not> str_contains s [CHR 0x0D, CHR 0x0A]"
proof (induction s rule: crlf_to_lf.induct)
  case (3 c d s)
  show ?case
  proof (cases "c = CHR 0x0D \<and> d = CHR 0x0A")
    case True
    then have "length (crlf_to_lf (c # d # s)) < length (c # d # s)"
      using crlf_to_lf_length [of s] by simp
    then have "crlf_to_lf (c # d # s) \<noteq> c # d # s" by auto
    then show ?thesis using True by simp
  next
    case False
    then show ?thesis using 3(2) by auto
  qed
qed auto

lemma crlf_to_lf_infix:
  assumes "crlf_to_lf s = s" and "str_contains s t"
  shows "crlf_to_lf t = t"
proof -
  have "\<not> str_contains t [CHR 0x0D, CHR 0x0A]"
  proof
    assume "str_contains t [CHR 0x0D, CHR 0x0A]"
    then obtain a b where "t = a @ [CHR 0x0D, CHR 0x0A] @ b" by (auto simp: str_contains_iff)
    moreover obtain c d where "s = c @ t @ d" using assms(2) by (auto simp: str_contains_iff)
    ultimately have "s = (c @ a) @ [CHR 0x0D, CHR 0x0A] @ (b @ d)" by simp
    then have "str_contains s [CHR 0x0D, CHR 0x0A]" unfolding str_contains_iff by blast
    then show False using assms(1) by (simp add: crlf_to_lf_fixed)
  qed
  then show ?thesis by (simp add: crlf_to_lf_fixed)
qed

section \<open>Characters\<close>

lemma char_count_append [simp]: "char_count (s @ t) = char_count s + char_count t"
  by (simp add: char_count_def)

section \<open>Lines\<close>

definition unlines :: "string list \<Rightarrow> string" where
  "unlines ls = concat (map (\<lambda>l. l @ [CHR 0x0A]) ls)"

text \<open>What is assumed of a printed line: one object in braces, no line feed.\<close>

definition braced :: "string \<Rightarrow> bool" where
  "braced l \<longleftrightarrow> starts_with l ''{'' \<and> ends_with l ''}'' \<and> CHR 0x0A \<notin> set l"

lemma bracedD: "braced l \<Longrightarrow> \<exists>m. l = CHR ''{'' # m @ [CHR ''}'']"
proof -
  assume "braced l"
  then obtain r q where r: "l = CHR ''{'' # r" and q: "l = q @ [CHR ''}'']"
    unfolding braced_def starts_with_iff ends_with_iff by (metis append_Cons append_Nil)
  then have "r \<noteq> []" by (cases q) auto
  then have "r = butlast r @ [CHR ''}'']"
    using r q by (metis append_butlast_last_id last_ConsR last_snoc)
  then show ?thesis using r by blast
qed

lemma split_by_line: "\<forall>c \<in> set t. \<not> p c \<Longrightarrow> p d \<Longrightarrow> split_by p (t @ d # r) = t # split_by p r"
  by (induction t) auto

lemma split_by_last: "\<forall>c \<in> set t. \<not> p c \<Longrightarrow> split_by p t = [t]"
  by (induction t) auto

lemma strip_cr_braced: "braced l \<Longrightarrow> strip_cr l = l"
  by (drule bracedD) (auto simp: strip_cr_def ends_with_def)

lemma split_unlines:
  assumes "ls \<noteq> []" and "list_all braced ls"
  shows "split_by (\<lambda>c. c = CHR 0x0A) (butlast (unlines ls)) = ls"
  using assms
proof (induction ls)
  case (Cons l ls)
  have l: "\<forall>c \<in> set l. \<not> c = CHR 0x0A"
    using Cons.prems by (auto simp: braced_def)
  show ?case
  proof (cases "ls = []")
    case True
    then show ?thesis using split_by_last [OF l] by (simp add: unlines_def)
  next
    case False
    then have "butlast (unlines (l # ls)) = l @ CHR 0x0A # butlast (unlines ls)"
      by (cases ls) (auto simp: unlines_def butlast_append)
    then show ?thesis
      using split_by_line [OF l, of "CHR 0x0A"] Cons False by simp
  qed
qed simp

lemma lines_unlines:
  assumes "ls \<noteq> []" and "list_all braced ls"
  shows "lines (butlast (unlines ls)) = ls"
proof -
  have "braced (last ls)" "\<forall>l \<in> set (butlast ls). braced l"
    using assms by (auto simp: list_all_iff dest: in_set_butlastD)
  then have "last ls \<noteq> []" "map strip_cr (butlast ls) = butlast ls"
    by (auto simp: strip_cr_braced map_idI dest: bracedD)
  then show ?thesis
    using assms by (simp add: lines_def split_unlines Let_def)
qed

lemma trim_unlines:
  assumes "ls \<noteq> []" and "list_all braced ls"
  shows "trim (unlines ls) = butlast (unlines ls)" and "starts_with (butlast (unlines ls)) ''{''"
proof -
  obtain m where hd: "hd ls = CHR ''{'' # m"
    using assms by (metis bracedD list.pred_set list.set_sel(1))
  obtain n where l: "last ls = n @ [CHR ''}'']"
    using assms by (metis append_Cons bracedD last_in_set list.pred_set)
  have "unlines ls = unlines (butlast ls) @ last ls @ [CHR 0x0A]"
    using assms(1) by (metis append_butlast_last_id concat_append concat.simps map_append append.right_neutral list.simps(8,9) unlines_def)
  then have tail: "unlines ls = (unlines (butlast ls) @ n) @ [CHR ''}'', CHR 0x0A]"
    by (simp add: l)
  have head: "\<exists>r. unlines ls = CHR ''{'' # r"
    using hd assms(1) by (cases ls) (auto simp: unlines_def)
  have start: "trim_start (unlines ls) = unlines ls"
    using head by (auto simp: trim_start.simps [of "CHR ''{'' # _"] skip_ws_def ws1_def ws2_def ws3_def split: list.splits)
  have stop: "skip_ws_rev (CHR ''}'' # r) = None" for r
    by (auto simp: skip_ws_rev_def ws1_def ws2_def ws3_def split: list.splits)
  have lf: "skip_ws_rev (CHR 0x0A # r) = Some r" for r
    by (simp add: skip_ws_rev_def ws1_def)
  have "trim_end_rev (rev (unlines ls)) = CHR ''}'' # rev (unlines (butlast ls) @ n)"
    unfolding tail by (simp add: trim_end_rev.simps [of "CHR 0x0A # _"] lf trim_end_rev.simps [of "CHR ''}'' # _"] stop)
  then show "trim (unlines ls) = butlast (unlines ls)"
    unfolding trim_def start by (simp add: tail butlast_append)
  obtain r where r: "unlines ls = CHR ''{'' # r" using head by blast
  have "r \<noteq> []"
    using arg_cong [OF tail, of length] r by auto
  then show "starts_with (butlast (unlines ls)) ''{''"
    by (simp add: r starts_with_def)
qed

end
