(* ===== verification/BuilderSpec.thy ===== *)
theory BuilderSpec
  imports TraceBuilder TraceSpec TextLemmas
begin

text \<open>
  The trace builder meets the provenance gate: what it writes is parsed back to its steps, and the
  steps satisfy the specification of the gate.
\<close>

section \<open>Objects\<close>

lemma json_object_inv: "btree_inv (foldl (\<lambda>m (k, v). btree_insert k v m) [] kvs)"
  by (induction kvs rule: rev_induct) (auto split: prod.splits)

lemma json_get_object [simp]: "json_get (json_object kvs) k = map_of (rev kvs) k"
proof -
  have "map_of (foldl (\<lambda>m (k, v). btree_insert k v m) [] kvs) k = map_of (rev kvs) k"
    by (induction kvs rule: rev_induct) (auto simp: btree.get_put json_object_inv split: prod.splits)
  then show ?thesis by (simp add: json_object_def)
qed

lemma json_get_numbered:
  "json_get (numbered n (json_object kvs)) k =
     (if k = ''step_id'' then Some (JString (''s'' @ pad2 n))
      else if k = ''step_order'' then Some (JNumber (PosInt n)) else map_of (rev kvs) k)"
proof -
  have "map_of (foldl (\<lambda>m (k, v). btree_insert k v m) [] kvs) k = map_of (rev kvs) k"
    using json_get_object [of kvs k] by (simp add: json_object_def)
  then show ?thesis
    by (simp add: numbered_def json_object_def btree.get_put json_object_inv)
qed

lemma as_object_numbered: "as_object (numbered n (json_object kvs)) \<noteq> None"
  by (simp add: numbered_def json_object_def)

section \<open>The anchor\<close>

lemma str_contains_prefix: "str_contains s t \<Longrightarrow> prefix u t \<Longrightarrow> str_contains s u"
  unfolding str_contains_iff prefix_def by (metis append.assoc)

lemma take_chars_length: "length (take_chars n s) \<le> length s"
proof (induction n s rule: take_chars.induct)
  case (3 n c s)
  have "length s = length (takeWhile continuation s) + length (dropWhile continuation s)"
    by (metis length_append takeWhile_dropWhile_id)
  then show ?case using 3 by simp
qed simp_all

text \<open>
  The search stops at its first candidate: the first eighty bytes.  It fails on a body of fewer
  than twelve bytes and panics when the eightieth byte splits a character.
\<close>

lemma log_anchor_short:
  assumes "length (trim s) < 12"
  shows "log_anchor s = Err (BuildFailed ''could not find a 12..=80 char verbatim log anchor'')"
proof -
  have "[0..<length (trim s) - 11] = []" using assms by simp
  moreover have "length (take_chars 80 (trim s)) < 12"
    using take_chars_length [of 80 "trim s"] assms by simp
  ultimately show ?thesis
    by (simp add: log_anchor_def Let_def)
qed

lemma log_anchor_long:
  assumes "12 \<le> length (trim s)"
  shows "log_anchor s =
    (if is_char_boundary (trim s) (min (length (trim s)) 80) then Ok (take 80 (trim s)) else Err BuildPanic)"
proof -
  let ?b = "trim s"
  let ?c = "take 80 ?b"
  have start: "[0..<length ?b - 11] = 0 # [1..<length ?b - 11]"
    using assms by (simp add: upt_conv_Cons)
  have cand: "slice ?b 0 (min (length ?b) 80) =
      (if is_char_boundary ?b (min (length ?b) 80) then Ok ?c else Err BuildPanic)"
    by (simp add: slice_def is_char_boundary_def min_def)
  have len: "12 \<le> length ?c" "length ?c \<le> 80"
    using assms by simp_all
  have "\<not> starts_with ?c '' ''"
    by (rule trim_no_space [OF take_is_prefix])
  moreover have "str_contains s ?c"
    by (rule str_contains_prefix [OF trim_infix take_is_prefix])
  ultimately show ?thesis
    unfolding log_anchor_def Let_def start anchor_search.simps using cand len by (simp add: min_less_iff_disj)
qed

section \<open>The steps\<close>

text \<open>The nine rows: their own fields, duration, cost and tokens.\<close>

type_synonym Plan = "((string \<times> JsonValue) list \<times> rat \<times> rat \<times> nat) list"

definition plan :: "TraceBuildRequest \<Rightarrow> string \<Rightarrow> string \<Rightarrow> Plan" where
  "plan req run_log_text anchor =
     [([(''step_type'', JString ''thought''), (''body'', JString (t1 (trim (tb_problem req))))], 1, 0, 120),
      ([(''step_type'', JString ''thought''), (''body'', JString (t2 (tb_entrypoint req)))], 1, 0, 120),
      ([(''step_type'', JString ''thought''), (''body'', JString t3)], 1, 0, 120),
      ([(''step_type'', JString ''tool_call''), (''tool_name'', JString ''pwsh''),
        (''tool_args'', json_object [(''command'', JString (tb_entrypoint req))]), (''tool_call_id'', JString ''tc01'')], 5 / 10, 0, 10),
      ([(''step_type'', JString ''tool_result''), (''tool_call_id'', JString ''tc01''), (''body'', JString (trim run_log_text))], 2, 0, 40),
      ([(''step_type'', JString ''tool_call''), (''tool_name'', JString ''pwsh''),
        (''tool_args'', json_object [(''command'', JString ''Get-Content analysis/results.json'')]),
        (''tool_call_id'', JString ''tc02'')], 4 / 10, 0, 10),
      ([(''step_type'', JString ''tool_result''), (''tool_call_id'', JString ''tc02''), (''body'', JString anchor)], 1, 0, 20),
      ([(''step_type'', JString ''artifact''), (''artifact_path'', JString (tb_artifact_path req)),
        (''body'', JString (''Result artifact '' @ tb_artifact_path req @ '' written and verified.''))], 3 / 10, 0, 10),
      ([(''step_type'', JString ''decision''),
        (''body'', JString (''Evidence complete; trace assembled deterministically from the real run log. '' @
           ''Proceeding to package and submit.''))], 5 / 10, 1 / 100, 15)]"

definition step_at :: "BuildEnv \<Rightarrow> Plan \<Rightarrow> nat \<Rightarrow> JsonValue" where
  "step_at env ps i = (case ps ! i of (extra, d, c, t) \<Rightarrow> numbered (i + 1) (json_object (extra @ row env i d c t)))"

definition built :: "BuildEnv \<Rightarrow> Plan \<Rightarrow> JsonValue list" where
  "built env ps = map (step_at env ps) [0..<length ps]"

lemma emit_ok: "emit steps s = Inr steps' \<Longrightarrow> steps' = steps @ [numbered (length steps + 1) s]"
  by (auto simp: emit_def Let_def split: if_splits)

lemma plan_length [simp]: "length (plan req l a) = 9"
  by (simp add: plan_def)

lemma upt_9: "[0..<9] = [0, 1, 2, 3, 4, 5, 6, 7, 8]"
  by code_simp

lemma build_steps_ok:
  assumes "build_steps env req run_log_text = Inr (steps, anchor)"
  shows "log_anchor run_log_text = Inr anchor \<and> steps = built env (plan req run_log_text anchor)"
  using assms unfolding build_steps_def
  by (auto dest!: emit_ok simp: built_def upt_9 step_at_def plan_def thought_def tool_call_def tool_result_def
      numeral_eq_Suc)

section \<open>Facts about one row\<close>

lemma row_get:
  assumes "s = numbered n (json_object (extra @ row env i d c t))"
  shows "json_get s ''step_id'' = Some (JString (''s'' @ pad2 n))"
    and "json_get s ''step_order'' = Some (JNumber (PosInt n))"
    and "json_get s ''timestamp'' = Some (JString (ts env i))"
    and "json_get s ''duration_s'' = Some (JNumber (Float (f64_round d)))"
    and "json_get s ''cost_usd'' = Some (JNumber (Float (f64_round c)))"
    and "json_get s ''tokens'' = Some (JNumber (PosInt t))"
    and "k \<notin> set [''step_id'', ''step_order'', ''timestamp'', ''duration_s'', ''cost_usd'', ''tokens''] \<Longrightarrow>
      json_get s k = map_of (rev extra) k"
  using assms by (simp_all add: json_get_numbered row_def)

text \<open>The clock does not run backwards and the printed times read back, to the second.\<close>

definition clock_monotone :: "BuildEnv \<Rightarrow> bool" where
  "clock_monotone env \<longleftrightarrow> list_all (\<lambda>k. be_now env k \<le> be_now env (Suc k)) [0..<8]"

definition times_read_back :: "BuildEnv \<Rightarrow> bool" where
  "times_read_back env \<longleftrightarrow>
     list_all (\<lambda>k. fl_rfc3339 (be_files env) (ts env k) = Some (1000 * ((be_now env k + 1000 * int k) div 1000))) [0..<9]"

lemma row_time:
  assumes "s = numbered n (json_object (extra @ row env i d c t))"
    and "fl_rfc3339 f (ts env i) = Some v"
  shows "has_time f s" and "time_of f s = v"
  using assms(2) by (simp_all add: has_time_def time_of_def parse_timestamp_def row_get(3) [OF assms(1)])

lemma row_amount:
  assumes "s = numbered n (json_object (extra @ row env i d c t))" and "0 \<le> d" "d \<le> 2" "0 \<le> c" "c \<le> 2"
  shows "has_amount s ''duration_s''" "has_amount s ''cost_usd''" "amount_of s ''cost_usd'' = f64_round c"
proof -
  obtain r q where "f64_round d = Fin r" "0 \<le> r" "f64_round c = Fin q" "0 \<le> q"
    using f64_round_between [of d 2] f64_round_between [of c 2] assms(2-) by auto
  then show "has_amount s ''duration_s''" "has_amount s ''cost_usd''" "amount_of s ''cost_usd'' = f64_round c"
    by (simp_all add: has_amount_def amount_of_def row_get [OF assms(1)])
qed

lemma row_header:
  assumes s: "s = numbered (i + 1) (json_object (extra @ row env i d c t))"
    and "0 \<le> d" "d \<le> 2" "0 \<le> c" "c \<le> 2" and "fl_rfc3339 f (ts env i) = Some v" and "t \<le> 1000"
    and "map_of (rev extra) ''step_type'' = Some (JString ty)" and "ty \<in> set ALLOWED"
  shows "header_ok f i s"
proof -
  have "has_tokens s"
    using assms(7) by (simp add: has_tokens_def row_get [OF s] i64_max_def)
  moreover have "get_str s ''step_type'' = Some ty"
    using assms(8) by (simp add: get_str_def row_get(7) [OF s])
  then have "list_ex (\<lambda>t. of_type t s) ALLOWED"
    using assms(9) by (auto simp: list_ex_iff of_type_def)
  moreover have "has_text s ''step_id''"
    by (simp add: has_text_def get_str_def row_get [OF s] non_blank_def)
  ultimately show ?thesis
    using row_amount [OF s assms(2-5)] row_time(1) [OF s assms(6)]
    by (simp add: header_ok_def row_get [OF s])
qed

section \<open>The steps meet the specification\<close>

lemma steps_nth: "i < 9 \<Longrightarrow> built env (plan req l a) ! i = step_at env (plan req l a) i"
  by (simp add: built_def)

lemma steps_length [simp]: "length (built env (plan req l a)) = 9"
  by (simp add: built_def)

text \<open>Every row is allowed, cheap and short; stated on the plan, by evaluation.\<close>

definition row_ok :: "(string \<times> JsonValue) list \<times> rat \<times> rat \<times> nat \<Rightarrow> bool" where
  "row_ok r = (case r of (extra, d, c, t) \<Rightarrow>
     0 \<le> d \<and> d \<le> 2 \<and> 0 \<le> c \<and> c \<le> 2 \<and> t \<le> 1000
     \<and> (\<exists>ty \<in> set ALLOWED. map_of (rev extra) ''step_type'' = Some (JString ty)))"

lemma plan_rows: "list_all row_ok (plan req l a)"
  by (simp add: plan_def row_ok_def ALLOWED_def)

lemma read_back: "times_read_back env \<Longrightarrow> i < 9 \<Longrightarrow>
    fl_rfc3339 (be_files env) (ts env i) = Some (1000 * ((be_now env i + 1000 * int i) div 1000))"
  by (auto simp: times_read_back_def list_all_iff)

lemma built_header:
  assumes "times_read_back env" and i: "i < 9"
  shows "header_ok (be_files env) i (step_at env (plan req l a) i)"
    and "time_of (be_files env) (step_at env (plan req l a) i) = 1000 * ((be_now env i + 1000 * int i) div 1000)"
proof -
  obtain extra d c t where r: "plan req l a ! i = (extra, d, c, t)"
    by (metis prod_cases4)
  have "row_ok (plan req l a ! i)"
    using plan_rows [of req l a] i by (simp add: list_all_length)
  then obtain ty where ok: "0 \<le> d" "d \<le> 2" "0 \<le> c" "c \<le> 2" "t \<le> 1000" "ty \<in> set ALLOWED"
      "map_of (rev extra) ''step_type'' = Some (JString ty)"
    by (auto simp: r row_ok_def)
  have s: "step_at env (plan req l a) i = numbered (i + 1) (json_object (extra @ row env i d c t))"
    by (simp add: step_at_def r)
  show "header_ok (be_files env) i (step_at env (plan req l a) i)"
    by (rule row_header [OF s ok(1-4) read_back [OF assms] ok(5) ok(7,6)])
  show "time_of (be_files env) (step_at env (plan req l a) i) = 1000 * ((be_now env i + 1000 * int i) div 1000)"
    by (rule row_time(2) [OF s read_back [OF assms]])
qed

text \<open>Fields of the rows, in terms of the plan.\<close>

lemma step_at_get:
  assumes "k \<notin> set [''step_id'', ''step_order'', ''timestamp'', ''duration_s'', ''cost_usd'', ''tokens'']"
  shows "json_get (step_at env ps i) k = map_of (rev (fst (ps ! i))) k"
  using assms by (cases "ps ! i") (simp add: step_at_def row_get(7) [OF refl])

lemma step_at_type: "of_type t (step_at env ps i) \<longleftrightarrow> map_of (rev (fst (ps ! i))) ''step_type'' = Some (JString t)"
proof -
  have "as_str v = Some t \<longleftrightarrow> v = JString t" for v by (cases v) auto
  then show ?thesis
    by (auto simp: of_type_def get_str_def step_at_get bind_eq_Some_conv)
qed

lemma step_at_text:
  assumes "k \<notin> set [''step_id'', ''step_order'', ''timestamp'', ''duration_s'', ''cost_usd'', ''tokens'']"
    and "map_of (rev (fst (ps ! i))) k = Some (JString v)"
  shows "text_of (step_at env ps i) k = v" "has_text (step_at env ps i) k \<longleftrightarrow> \<not> is_blank v"
  using assms by (simp_all add: text_of_def has_text_def get_str_def step_at_get non_blank_def)

lemma step_at_id: "text_of (step_at env ps i) ''step_id'' = ''s'' @ pad2 (i + 1)"
  by (cases "ps ! i") (simp add: text_of_def get_str_def step_at_def row_get(1) [OF refl])

lemma step_at_cost:
  assumes "i < 9"
  shows "amount_of (step_at env (plan req l a) i) ''cost_usd'' = f64_round (fst (snd (snd (plan req l a ! i))))"
  by (cases "plan req l a ! i") (simp add: step_at_def amount_of_def row_get(5) [OF refl])

lemmas step_at_simps = step_at_type step_at_text step_at_get plan_def

lemma narrative_not_blank: "\<not> is_blank (t1 p)" "\<not> is_blank (t2 e)" "\<not> is_blank t3"
  by (simp_all add: t1_def t2_def t3_def)

lemma built_body:
  assumes i: "i < 9" and l: "\<not> is_blank (trim l)" and a: "\<not> is_blank a"
  shows "body_ok (prev_step (built env (plan req l a)) i) (step_at env (plan req l a) i)"
proof -
  have prev: "prev_step (built env (plan req l a)) i = (if i = 0 then None else Some (step_at env (plan req l a) (i - 1)))"
    using i by (simp add: prev_step_def steps_nth)
  consider "i = 0" | "i = 1" | "i = 2" | "i = 3" | "i = 4" | "i = 5" | "i = 6" | "i = 7" | "i = 8"
    using i by linarith
  then show ?thesis
    unfolding prev body_ok_def
    by cases (simp_all add: step_at_simps narrative_not_blank l a json_object_def)
qed


lemma clock_step: "clock_monotone env \<Longrightarrow> Suc i < 9 \<Longrightarrow> be_now env i \<le> be_now env (Suc i)"
  by (auto simp: clock_monotone_def list_all_iff)

lemma built_shape:
  assumes "clock_monotone env" and rb: "times_read_back env" and "\<not> is_blank (trim l)" and "\<not> is_blank a"
  shows "trace_shape (be_files env) (built env (plan req l a))"
proof -
  let ?s = "built env (plan req l a)" and ?f = "be_files env"
  have "step_ok ?f (prev_step ?s i) i (?s ! i)" if "i < 9" for i
    using built_header(1) [OF rb that] built_body [OF that assms(3,4)] that by (simp add: step_ok_parts steps_nth)
  moreover have "map (\<lambda>s. text_of s ''step_id'') ?s = map (\<lambda>i. ''s'' @ pad2 (i + 1)) [0..<9]"
    by (simp add: built_def step_at_id)
  moreover have "distinct (map (\<lambda>i. ''s'' @ pad2 (i + 1)) [0..<9])"
    by code_simp
  moreover have "sorted (map (time_of ?f) ?s)"
    unfolding sorted_iff_nth_Suc
  proof (intro allI impI)
    fix i assume i: "Suc i < length (map (time_of ?f) ?s)"
    then have "be_now env i + 1000 * int i \<le> be_now env (Suc i) + 1000 * int (Suc i)"
      using clock_step [OF assms(1), of i] by simp
    then have "(be_now env i + 1000 * int i) div 1000 \<le> (be_now env (Suc i) + 1000 * int (Suc i)) div 1000"
      by (rule zdiv_mono1) simp
    then show "map (time_of ?f) ?s ! i \<le> map (time_of ?f) ?s ! Suc i"
      using i by (simp add: steps_nth built_header(2) [OF rb])
  qed
  ultimately show ?thesis
    by (simp add: trace_shape_def)
qed

lemma built_list:
  "built env (plan req l a) = map (step_at env (plan req l a)) [0, 1, 2, 3, 4, 5, 6, 7, 8]"
  by (simp add: built_def upt_9)

lemma built_calls:
  "call_ids ''tool_call'' (built env (plan req l a)) = [''tc01'', ''tc02'']"
  "call_ids ''tool_result'' (built env (plan req l a)) = [''tc01'', ''tc02'']"
  unfolding call_ids_def built_list by (simp_all add: step_at_simps)

lemma narrative_long: "80 \<le> char_count (t1 p)" "80 \<le> char_count (t2 e)" "80 \<le> char_count t3"
proof -
  have "80 \<le> char_count ''. I will write the solver script, run it with the repository runtime, capture stdout ''"
    "80 \<le> char_count ''admission gate checks, so the tool result bodies below are kept verbatim from it.''"
    "80 \<le> char_count ''The computed output matches the expected physical model and the artifact file exists ''"
    by code_simp+
  then show "80 \<le> char_count (t1 p)" "80 \<le> char_count (t2 e)" "80 \<le> char_count t3"
    unfolding t1_def t2_def t3_def char_count_append by (simp_all only: trans_le_add1 trans_le_add2)
qed

lemma built_thoughts: "3 \<le> length (long_thoughts (built env (plan req l a)))"
  unfolding long_thoughts_def built_list by (simp add: step_at_simps narrative_long)

lemma built_cost: "total_cost (built env (plan req l a)) = COST_FLOOR"
proof -
  have "map (\<lambda>s. amount_of s ''cost_usd'') (built env (plan req l a)) = replicate 8 (Fin 0) @ [f64_round (1 / 100)]"
    unfolding built_list by (simp add: step_at_cost) (simp add: plan_def numeral_eq_Suc)
  then show ?thesis
    unfolding total_cost_map
    by (simp add: f64_add_finite f64_round_cent f64_round_cent_exact [simplified] COST_FLOOR_def numeral_eq_Suc)
qed

lemma built_anchored:
  assumes "l = crlf_to_lf raw" and "crlf_to_lf l = l" and "16 \<le> char_count (trim l)"
  shows "anchored raw (built env (plan req l a))"
proof -
  have "crlf_to_lf (trim l) = trim l"
    by (rule crlf_to_lf_infix [OF assms(2) trim_infix])
  then have "anchors raw (trim l)"
    using assms trim_infix [of l] by (simp add: anchors_def)
  then show ?thesis
    unfolding anchored_def built_list by (simp add: step_at_simps)
qed

lemma built_meets_spec:
  assumes "clock_monotone env" and "times_read_back env" and "l = crlf_to_lf raw" and "crlf_to_lf l = l"
    and "16 \<le> char_count (trim l)" and "log_anchor l = Inr a"
  shows "trace_spec (be_files env) (built env (plan req l a)) raw"
proof -
  have "trim l \<noteq> []"
    using assms(5) by (auto simp: char_count_def)
  then have l: "\<not> is_blank (trim l)"
    by (simp add: is_blank_def)
  have "12 \<le> length (trim l)"
    using log_anchor_short [of l] assms(6) by (metis Inl_Inr_False not_le)
  then have "a = take 80 (trim l)" "a \<noteq> []"
    using log_anchor_long [of l] assms(6) \<open>trim l \<noteq> []\<close> by (auto split: if_splits)
  then have "\<not> is_blank a"
    using not_blank_prefix [of a l] by (simp add: take_is_prefix)
  then show ?thesis
    using built_shape [OF assms(1,2) l] built_anchored [OF assms(3,4,5)]
    by (simp add: trace_spec_def built_calls built_thoughts built_cost f64_lt_def COST_FLOOR_def f64_round_cent)
qed

section \<open>Writing and reading back\<close>

text \<open>What the JSON printer and parser promise of the printed steps.\<close>

definition lines_read_back :: "BuildEnv \<Rightarrow> JsonValue list \<Rightarrow> bool" where
  "lines_read_back env steps \<longleftrightarrow>
     list_all (\<lambda>s. case be_to_json env s of None \<Rightarrow> True
       | Some l \<Rightarrow> braced l \<and> fl_json (be_files env) l = Some s) steps"

lemma print_lines_ok:
  assumes "print_lines env steps = Inr content" and "lines_read_back env steps"
  shows "\<exists>ls. content = unlines ls \<and> list_all braced ls \<and> map (fl_json (be_files env)) ls = map Some steps"
  using assms
proof (induction env steps arbitrary: content rule: print_lines.induct)
  case (1 env)
  then show ?case by (intro exI [of _ "[]"]) (simp add: unlines_def)
next
  case (2 env s ss)
  then obtain l rest where l: "be_to_json env s = Some l" "print_lines env ss = Inr rest" "content = l @ [CHR 0x0A] @ rest"
    by auto
  then obtain ls where ls: "rest = unlines ls" "list_all braced ls" "map (fl_json (be_files env)) ls = map Some ss"
    using "2.IH" "2.prems"(2) by (auto simp: lines_read_back_def)
  have "braced l" "fl_json (be_files env) l = Some s"
    using "2.prems"(2) l(1) by (auto simp: lines_read_back_def)
  then show ?case
    using l(3) ls by (intro exI [of _ "l # ls"]) (simp add: unlines_def)
qed

lemma parse_loop:
  "map (fl_json f) ls = map Some vs \<Longrightarrow>
   foldr (\<lambda>(index, line) rest.
      and_then (ok_or (fl_json f line) (E index)) (\<lambda>v. and_then rest (\<lambda>vs. Ok (v # vs)))) (List.enumerate n ls) (Ok []) = Ok vs"
  by (induction ls arbitrary: vs n) auto

lemma parse_printed:
  assumes "map (fl_json f) ls = map Some steps" and "list_all braced ls"
    and "steps \<noteq> []" and "length steps \<le> 10000" and "list_all (\<lambda>s. as_object s \<noteq> None) steps"
  shows "parse_trace_steps f (unlines ls) = Inr steps"
proof -
  have ne: "ls \<noteq> []" using assms(1,3) by auto
  have "butlast (unlines ls) \<noteq> []" "\<not> starts_with (butlast (unlines ls)) ''[''"
    using trim_unlines(2) [OF ne assms(2)] by (auto simp: starts_with_iff)
  moreover have "\<not> list_ex (\<lambda>s. as_object s = None) steps"
    using assms(5) by (auto simp: list_all_iff list_ex_iff)
  ultimately show ?thesis
    unfolding parse_trace_steps_def Let_def trim_unlines(1) [OF ne assms(2)] lines_unlines [OF ne assms(2)]
      parse_loop [OF assms(1)]
    using assms(3,4) by simp
qed

lemma built_objects: "list_all (\<lambda>s. as_object s \<noteq> None) (built env ps)"
  using as_object_numbered by (auto simp: list_all_iff built_def step_at_def split: prod.splits)

lemma build_trace_ok:
  assumes "build_trace_from_runlog env req = Inr (b, path, content)"
  obtains ws lg raw steps where
    "fs_canonicalize (fl_fs (be_files env)) (tb_workspace req) = Some ws"
    "canonical env (tb_run_log_path req) ws = Inr lg"
    "read_to_string (fl_read (be_files env)) lg = Inr raw"
    "log_anchor (crlf_to_lf raw) = Inr (bt_anchor_body b)"
    "steps = built env (plan req (crlf_to_lf raw) (bt_anchor_body b))"
    "print_lines env steps = Inr content" "path = path_join ws ''evidence/trace.jsonl''"
    "bt_trace_path b = path" "bt_step_count b = 9" "bt_trace_sha256 b = hex_bytes (fl_sha256 (be_files env) content)"
proof -
  obtain ws lg raw steps anchor where
    ws: "fs_canonicalize (fl_fs (be_files env)) (tb_workspace req) = Some ws"
      "canonical env (tb_run_log_path req) ws = Inr lg" "read_to_string (fl_read (be_files env)) lg = Inr raw"
    and steps: "build_steps env req (crlf_to_lf raw) = Inr (steps, anchor)"
    and print: "print_lines env steps = Inr content"
    and b: "path = path_join ws ''evidence/trace.jsonl''"
      "b = \<lparr> bt_trace_path = path, bt_step_count = length steps, bt_anchor_body = anchor,
         bt_trace_sha256 = hex_bytes (fl_sha256 (be_files env) content) \<rparr>"
    using assms unfolding build_trace_from_runlog_def
    by (clarsimp simp: Let_def split: if_splits)
  have "log_anchor (crlf_to_lf raw) = Inr anchor" "steps = built env (plan req (crlf_to_lf raw) anchor)"
    using build_steps_ok [OF steps] by simp_all
  then show thesis
    using that [of ws lg raw steps] ws print b by simp
qed

section \<open>Acceptance depends on the log alone\<close>

lemma char_count_infix: "str_contains s t \<Longrightarrow> char_count t \<le> char_count s"
  by (auto simp: str_contains_iff)

lemma anchors_long: "anchors raw body \<Longrightarrow> 16 \<le> char_count body"
  using char_count_infix [OF trim_infix, of body] by (simp add: anchors_def)

lemma built_not_anchored:
  assumes "char_count (trim l) < 16" and "prefix a (trim l)"
  shows "\<not> anchored raw (built env (plan req l a))"
proof -
  have "char_count a < 16"
    using assms by (auto simp: prefix_def)
  then have "\<not> anchors raw (trim l)" "\<not> anchors raw a"
    using anchors_long [of raw] assms(1) by fastforce+
  then show ?thesis
    unfolding anchored_def built_list by (simp add: step_at_simps)
qed

lemma log_anchor_prefix: "log_anchor l = Inr a \<Longrightarrow> prefix a (trim l)"
  using log_anchor_short [of l] log_anchor_long [of l]
  by (cases "length (trim l) < 12") (auto simp: take_is_prefix split: if_splits)

lemma built_accepted_iff:
  assumes "clock_monotone env" and "times_read_back env" and "crlf_to_lf (crlf_to_lf raw) = crlf_to_lf raw"
    and "log_anchor (crlf_to_lf raw) = Inr a"
  shows "validate_trace_steps (be_files env) (built env (plan req (crlf_to_lf raw) a)) raw = Inr ()
    \<longleftrightarrow> 16 \<le> char_count (trim (crlf_to_lf raw))"
proof (cases "16 \<le> char_count (trim (crlf_to_lf raw))")
  case True
  then show ?thesis
    using built_meets_spec [OF assms(1,2) refl assms(3) _ assms(4)] by (simp add: validate_trace_steps_spec)
next
  case False
  then have "\<not> anchored raw (built env (plan req (crlf_to_lf raw) a))"
    using built_not_anchored log_anchor_prefix [OF assms(4)] by simp
  then show ?thesis
    using False by (simp add: validate_trace_steps_spec trace_spec_def)
qed

section \<open>The builder succeeds\<close>

lemma emit_succeeds:
  assumes "\<not> banned (case get_str s ''body'' of Some b \<Rightarrow> b | None \<Rightarrow> [])" and "\<exists>kvs. s = json_object kvs"
  shows "emit steps s = Ok (steps @ [numbered (length steps + 1) s])"
proof -
  have "get_str (numbered n s) ''body'' = get_str s ''body''" for n
    using assms(2) by (auto simp: get_str_def json_get_numbered)
  then show ?thesis
    using assms(1) by (simp add: emit_def Let_def)
qed

lemma not_banned_constants:
  "\<not> banned []" "\<not> banned t3"
  "\<not> banned (''Evidence complete; trace assembled deterministically from the real run log. '' @
     ''Proceeding to package and submit.'')"
  by code_simp+

lemma banned_infix: "str_contains s t \<Longrightarrow> banned t \<Longrightarrow> banned s"
proof -
  assume st: "str_contains s t" and "banned t"
  then obtain w where w: "w \<in> set BANNED" "str_contains t w" by (auto simp: banned_def list_ex_iff)
  obtain a b c d where "s = a @ t @ b" "t = c @ w @ d" using st w(2) by (auto simp: str_contains_iff)
  then have "s = (a @ c) @ w @ (d @ b)" by simp
  then have "str_contains s w" unfolding str_contains_iff by blast
  with w(1) show "banned s" by (auto simp: banned_def list_ex_iff)
qed

definition clean_request :: "TraceBuildRequest \<Rightarrow> string \<Rightarrow> bool" where
  "clean_request req l \<longleftrightarrow>
     \<not> banned (t1 (trim (tb_problem req))) \<and> \<not> banned (t2 (tb_entrypoint req)) \<and> \<not> banned (trim l)
     \<and> \<not> banned (''Result artifact '' @ tb_artifact_path req @ '' written and verified.'')"

lemma emit_object:
  assumes "\<not> banned (case map_of (rev extra) ''body'' of Some v \<Rightarrow> (case as_str v of Some b \<Rightarrow> b | None \<Rightarrow> []) | None \<Rightarrow> [])"
  shows "emit steps (json_object (extra @ row env k d c t)) =
    Ok (steps @ [numbered (length steps + 1) (json_object (extra @ row env k d c t))])"
proof (rule emit_succeeds)
  have "map_of (rev (extra @ row env k d c t)) ''body'' = map_of (rev extra) ''body''"
    by (simp add: row_def)
  then show "\<not> banned (case get_str (json_object (extra @ row env k d c t)) ''body'' of Some b \<Rightarrow> b | None \<Rightarrow> [])"
    using assms by (auto simp: get_str_def split: option.splits)
qed blast

lemma emit_rows:
  "\<not> banned b \<Longrightarrow> emit steps (thought env b k) = Ok (steps @ [numbered (length steps + 1) (thought env b k)])"
  "emit steps (tool_call env cmd i k d) = Ok (steps @ [numbered (length steps + 1) (tool_call env cmd i k d)])"
  "\<not> banned b \<Longrightarrow>
     emit steps (tool_result env i b k d t) = Ok (steps @ [numbered (length steps + 1) (tool_result env i b k d t)])"
  unfolding thought_def tool_call_def tool_result_def
  by (rule emit_object; simp add: not_banned_constants)+

lemma build_steps_succeeds:
  assumes clean: "clean_request req l" and a: "log_anchor l = Inr a"
  shows "build_steps env req l = Inr (built env (plan req l a), a)"
proof -
  have "str_contains (trim l) a"
    by (rule str_contains_prefix [OF _ log_anchor_prefix [OF a]]) (metis append_Nil append_Nil2 str_contains_iff)
  then have na: "\<not> banned a"
    using clean banned_infix unfolding clean_request_def by blast
  have texts: "\<not> banned (t1 (trim (tb_problem req)))" "\<not> banned (t2 (tb_entrypoint req))" "\<not> banned (trim l)"
    using clean unfolding clean_request_def by blast+
  have artifact: "emit ss (json_object
      ([(''step_type'', JString ''artifact''), (''artifact_path'', JString (tb_artifact_path req)),
        (''body'', JString (''Result artifact '' @ tb_artifact_path req @ '' written and verified.''))] @ row env k d c t)) =
      Ok (ss @ [numbered (length ss + 1) (json_object
      ([(''step_type'', JString ''artifact''), (''artifact_path'', JString (tb_artifact_path req)),
        (''body'', JString (''Result artifact '' @ tb_artifact_path req @ '' written and verified.''))] @ row env k d c t))])"
    for ss k d c t
    using clean by (intro emit_object) (simp add: clean_request_def)
  have decision: "emit ss (json_object ([(''step_type'', JString ''decision''),
        (''body'', JString (''Evidence complete; trace assembled deterministically from the real run log. '' @
           ''Proceeding to package and submit.''))] @ row env k d c t)) =
      Ok (ss @ [numbered (length ss + 1) (json_object ([(''step_type'', JString ''decision''),
        (''body'', JString (''Evidence complete; trace assembled deterministically from the real run log. '' @
           ''Proceeding to package and submit.''))] @ row env k d c t))])" for ss k d c t
    using not_banned_constants(3) by (intro emit_object) simp
  show ?thesis
    unfolding build_steps_def emit_rows(1) [OF texts(1)] and_then_simps emit_rows(1) [OF texts(2)]
      emit_rows(1) [OF not_banned_constants(2)] emit_rows(2) emit_rows(3) [OF texts(3)] a emit_rows(3) [OF na]
      artifact decision built_list
    by (simp add: step_at_def plan_def thought_def tool_call_def tool_result_def numeral_eq_Suc)
qed

text \<open>The self-check never refuses what the builder produces.\<close>

lemma step_at_is_type: "is_type t (step_at env ps i) \<longleftrightarrow> map_of (rev (fst (ps ! i))) ''step_type'' = Some (JString t)"
  by (simp add: is_type_def step_at_get)

lemma built_counts:
  "count_type ''tool_call'' (built env (plan req l a)) = 2" "count_type ''tool_result'' (built env (plan req l a)) = 2"
  "count_type ''thought'' (built env (plan req l a)) = 3"
  unfolding count_type_def built_list by (simp_all add: step_at_is_type plan_def)

lemma built_follows:
  assumes "i < 9"
  shows "follows_call (built env (plan req l a)) (i, built env (plan req l a) ! i) = Ok ()"
proof -
  consider "i = 0" | "i = 1" | "i = 2" | "i = 3" | "i = 4" | "i = 5" | "i = 6" | "i = 7" | "i = 8"
    using assms by linarith
  then show ?thesis
    by cases (simp_all add: follows_call_def steps_nth step_at_is_type, simp_all add: plan_def fail_if_def)
qed

lemma built_sum: "sum_costs (built env (plan req l a)) = COST_FLOOR"
proof -
  have "Option.bind (json_get (step_at env (plan req l a) i) ''cost_usd'') as_f64 =
      Some (amount_of (step_at env (plan req l a) i) ''cost_usd'')" for i
    by (cases "plan req l a ! i") (simp add: step_at_def amount_of_def row_get(5) [OF refl])
  then have "List.map_filter (\<lambda>s. Option.bind (json_get s ''cost_usd'') as_f64) (built env (plan req l a)) =
      map (\<lambda>s. amount_of s ''cost_usd'') (built env (plan req l a))"
    unfolding built_list by (simp add: map_filter_simps)
  then show ?thesis
    using built_cost [of env req l a] by (simp add: sum_costs_def total_cost_map)
qed

lemma built_self_check: "self_check (built env (plan req l a)) = Ok ()"
proof -
  have "list_all (\<lambda>c. c = Inr ()) (map (follows_call (built env (plan req l a))) (List.enumerate 0 (built env (plan req l a))))"
    using built_follows by (auto simp: list_all_length nth_enumerate_eq)
  then show ?thesis
    by (simp add: self_check_def built_counts built_sum f64_lt_def COST_FLOOR_def f64_round_cent)
qed

definition trace_writable :: "BuildEnv \<Rightarrow> string \<Rightarrow> bool" where
  "trace_writable env ws \<longleftrightarrow> be_write env (path_join ws ''evidence/trace.jsonl'')
     \<and> (case path_parent (path_join ws ''evidence/trace.jsonl'') of Some d \<Rightarrow> be_create_dir_all env d | None \<Rightarrow> True)"

lemma build_trace_succeeds:
  assumes "fs_canonicalize (fl_fs (be_files env)) (tb_workspace req) = Some ws"
    and "canonical env (tb_run_log_path req) ws = Inr lg" and "read_to_string (fl_read (be_files env)) lg = Inr raw"
    and "\<not> is_blank (tb_entrypoint req)" and "clean_request req (crlf_to_lf raw)"
    and a: "log_anchor (crlf_to_lf raw) = Inr a" and "trace_writable env ws"
    and "print_lines env (built env (plan req (crlf_to_lf raw) a)) = Inr content"
  shows "build_trace_from_runlog env req = Ok (\<lparr> bt_trace_path = path_join ws ''evidence/trace.jsonl'', bt_step_count = 9,
    bt_anchor_body = a, bt_trace_sha256 = hex_bytes (fl_sha256 (be_files env) content) \<rparr>,
    path_join ws ''evidence/trace.jsonl'', content)"
proof -
  have "trim (crlf_to_lf raw) \<noteq> []"
    using log_anchor_short [of "crlf_to_lf raw"] a by fastforce
  then have "\<not> is_blank (crlf_to_lf raw)"
    by (simp add: is_blank_def)
  then show ?thesis
    unfolding build_trace_from_runlog_def Let_def
    using assms build_steps_succeeds [OF assms(5) a, of env] built_self_check
    by (auto simp: trace_writable_def fail_if_def split: option.splits)
qed

end
