(* ===== verification/Preflight.thy ===== *)
theory Preflight
  imports TextLemmas Contract Roles
begin

text \<open>
  The file-based preflights of \<open>solver-guard/src/lib.rs\<close>: the contract gate shared by spawn and
  resume (\<open>validate_contract_files\<close>, \<open>contract_preflight_allowed\<close>), the wake files of the resident
  supervisor (\<open>collect_wake_files\<close>, \<open>mark_wake_file_consumed\<close>), one turn of the recovery canary
  (\<open>run_canary_turn\<close>) and the signature of a policy (\<open>verify_policy_signature\<close>).

  Parameters are reading a file, SHA-256, the JSON parser of a contract, \<open>hex::decode\<close> and Ed25519.
  An error is its message, a message followed by the text of an outside error, or the error of the
  coordination crate.
\<close>

datatype PreflightError = Preflight string | PreflightBy string | PreflightContract CoordinationError

section \<open>The contract\<close>

definition absolute_path :: "string \<times> string \<Rightarrow> PreflightError + unit" where
  "absolute_path = (\<lambda>(name, path).
     fail_if (path = [] \<or> \<not> is_absolute path) (Preflight (name @ '' must be an absolute path'')))"

definition validate_contract_files ::
  "(string \<Rightarrow> string option) \<Rightarrow> (string \<Rightarrow> string) \<Rightarrow> (string \<Rightarrow> ChallengeContract option) \<Rightarrow>
   string \<Rightarrow> string \<Rightarrow> string \<Rightarrow> Role option \<Rightarrow> int \<Rightarrow> PreflightError + unit" where
  "validate_contract_files read sha256 contract_json contract_file fingerprint_input_file
       expected_challenge_id role_requires_known now_ms =
     and_then (checks (map absolute_path
         [(''ASCODEX_CONTRACT_FILE'', contract_file), (''ASCODEX_CONTRACT_INPUT_FILE'', fingerprint_input_file)])) (\<lambda>_.
     and_then (ok_or (read contract_file) (PreflightBy ''cannot read ChallengeContract: '')) (\<lambda>contract_bytes.
     and_then (ok_or (read fingerprint_input_file)
         (PreflightBy ''cannot read canonical fingerprint input: '')) (\<lambda>fingerprint_input.
     and_then (ok_or (contract_json contract_bytes) (PreflightBy ''invalid ChallengeContract JSON: '')) (\<lambda>contract.
     if cc_challenge_id contract \<noteq> expected_challenge_id
     then Err (Preflight (''contract challenge `'' @ cc_challenge_id contract
            @ ''` does not match expected `'' @ expected_challenge_id @ ''`''))
     else
     and_then (map_err PreflightContract (verify_fingerprint_input sha256 contract fingerprint_input)) (\<lambda>_.
     and_then (map_err PreflightContract (ChallengeContract_validate contract expected_challenge_id now_ms)) (\<lambda>_.
     fail_if (role_requires_known = Some Solver \<and> cc_status contract \<noteq> Known)
       (Preflight ''solver dispatch requires a Known contract'')))))))"

definition contract_preflight_allowed ::
  "(string \<Rightarrow> string option) \<Rightarrow> (string \<Rightarrow> string) \<Rightarrow> (string \<Rightarrow> ChallengeContract option) \<Rightarrow>
   string \<Rightarrow> string \<Rightarrow> string \<Rightarrow> int \<Rightarrow> bool \<Rightarrow> PreflightError + bool" where
  "contract_preflight_allowed read sha256 contract_json contract_file fingerprint_input_file
       expected_challenge_id now_ms solver_mode =
     (if \<not> solver_mode then Ok True
      else and_then (validate_contract_files read sha256 contract_json contract_file fingerprint_input_file
             expected_challenge_id (Some Solver) now_ms) (\<lambda>_. Ok True))"

section \<open>Wake files\<close>

text \<open>\<open>Path::extension\<close> of a file name and \<open>Path::with_extension\<close>.\<close>

definition split_extension :: "string \<Rightarrow> (string \<times> string) option" where
  "split_extension name =
     (if name = ''..'' then None
      else case split_once (CHR ''.'') (rev name) of
        None \<Rightarrow> None
      | Some (ext, stem) \<Rightarrow> if stem = [] then None else Some (rev stem, rev ext))"

definition extension :: "string \<Rightarrow> string option" where
  "extension name = map_option snd (split_extension name)"

definition with_extension :: "string \<Rightarrow> string \<Rightarrow> string" where
  "with_extension name ext =
     (case split_extension name of None \<Rightarrow> name | Some (stem, _) \<Rightarrow> stem) @ ''.'' @ ext"

text \<open>
  A directory is what \<open>read_dir\<close> yields: nothing when it cannot be read, otherwise its entries in
  some order, each a name or an error.
\<close>

definition is_wake_name :: "string \<Rightarrow> bool" where
  "is_wake_name name \<longleftrightarrow> starts_with name ''chief-'' \<and> extension name = Some ''json''"

definition wake_path :: "string \<Rightarrow> string \<Rightarrow> string" where
  "wake_path wakes_dir name = path_join wakes_dir name"

fun wake_entries :: "string \<Rightarrow> string option list \<Rightarrow> PreflightError + string list" where
  "wake_entries wakes_dir [] = Ok []"
| "wake_entries wakes_dir (e # es) =
     and_then (ok_or e (PreflightBy ''cannot read wakes entry: '')) (\<lambda>name.
     and_then (wake_entries wakes_dir es) (\<lambda>files.
     Ok (if is_wake_name name then wake_path wakes_dir name # files else files)))"

definition collect_wake_files :: "string \<Rightarrow> string option list option \<Rightarrow> PreflightError + string list" where
  "collect_wake_files wakes_dir dir =
     and_then (ok_or dir (PreflightBy ''cannot read wakes directory: '')) (\<lambda>entries.
     and_then (wake_entries wakes_dir entries) (\<lambda>files. Ok (sort_key components files)))"

text \<open>
  Renaming inside the directory: the entry disappears under its old name, an entry that had the new
  name is replaced.  \<open>renames\<close> says whether the file system performs it.
\<close>

definition mark_wake_file_consumed ::
  "(string \<Rightarrow> string \<Rightarrow> bool) \<Rightarrow> string \<Rightarrow> string list \<Rightarrow> string \<Rightarrow> PreflightError + string \<times> string list" where
  "mark_wake_file_consumed renames wakes_dir names name =
     (if extension name \<noteq> Some ''json''
      then Err (Preflight (''wake file '' @ wake_path wakes_dir name @ '' is not a .json file''))
      else let consumed = with_extension name ''json.consumed''
           in if name \<in> set names \<and> renames name consumed
              then Ok (wake_path wakes_dir consumed, consumed # filter (\<lambda>n. n \<noteq> name \<and> n \<noteq> consumed) names)
              else Err (PreflightBy (''cannot mark wake file '' @ wake_path wakes_dir name @ '' as consumed: '')))"

section \<open>The canary turn\<close>

definition safe_nonce_char :: "char \<Rightarrow> bool" where
  "safe_nonce_char c \<longleftrightarrow>
     c \<in> set ''0123456789abcdefghijklmnopqrstuvwxyzABCDEFGHIJKLMNOPQRSTUVWXYZ-''"

text \<open>The child thread formats a string and cannot panic; \<open>spawned\<close> says whether it could be started.\<close>

definition run_canary_turn :: "bool \<Rightarrow> string \<Rightarrow> nat \<Rightarrow> PreflightError + string" where
  "run_canary_turn spawned nonce timeout_ms =
     (if nonce = [] \<or> \<not> list_all safe_nonce_char nonce
      then Err (Preflight ''canary nonce must use the safe ASCII alphabet'')
      else if \<not> spawned then Err (PreflightBy ''cannot spawn canary child thread: '')
      else let message = trim (''ASCodex recovery healthy '' @ nonce)
           in if message = [] then Err (Preflight ''canary child produced no terminal message'') else Ok message)"

section \<open>The policy signature\<close>

definition ASCODEX_TRUST_ANCHOR_PUBLIC_KEY_HEX :: string where
  "ASCODEX_TRUST_ANCHOR_PUBLIC_KEY_HEX = ''8d6e0ba83e7c45e247f5d93f6ce39c09b2f6fa95a8b9e851ed7c55f2c3d5a695''"

definition decode_hex_exact :: "(string \<Rightarrow> string option) \<Rightarrow> string \<Rightarrow> nat \<Rightarrow> string \<Rightarrow> PreflightError + string" where
  "decode_hex_exact hex_decode val expected_len what =
     and_then (ok_or (hex_decode val) (Preflight (what @ '' is not valid hex''))) (\<lambda>bytes.
     if length bytes \<noteq> expected_len
     then Err (Preflight (what @ '' must be '' @ decimal expected_len @ '' bytes'')) else Ok bytes)"

definition verify_policy_signature ::
  "(string \<Rightarrow> string option) \<Rightarrow> (string \<Rightarrow> 'k option) \<Rightarrow> ('k \<Rightarrow> string \<Rightarrow> string \<Rightarrow> bool) \<Rightarrow>
   string \<Rightarrow> string \<Rightarrow> string \<Rightarrow> PreflightError + unit" where
  "verify_policy_signature hex_decode key_from_bytes verify_strict data signature_hex public_key_hex =
     (if data = [] then Err (Preflight ''policy signature data is empty'')
      else
      and_then (decode_hex_exact hex_decode signature_hex 64 ''signature'') (\<lambda>signature_bytes.
      and_then (decode_hex_exact hex_decode public_key_hex 32 ''public key'') (\<lambda>public_key_bytes.
      if length public_key_bytes \<noteq> 32 then Err (Preflight ''trust anchor public key is invalid'')
      else if length signature_bytes \<noteq> 64 then Err (Preflight ''policy signature is invalid'')
      else
      and_then (ok_or (key_from_bytes public_key_bytes) (Preflight ''trust anchor public key is invalid'')) (\<lambda>public_key.
      fail_if (\<not> verify_strict public_key data signature_bytes) (Preflight ''policy signature verification failed'')))))"

section \<open>Lemmas\<close>

lemma validate_contract_files_ok:
  assumes "validate_contract_files read sha256 cj cf ff ch role now = Inr ()"
  shows "is_absolute cf \<and> is_absolute ff \<and> (\<exists>cb input c. read cf = Some cb \<and> read ff = Some input \<and> cj cb = Some c
    \<and> verify_fingerprint_input sha256 c input = Inr () \<and> ChallengeContract_validate c ch now = Inr ()
    \<and> cc_challenge_id c = ch \<and> (role = Some Solver \<longrightarrow> cc_status c = Known))"
  using assms unfolding validate_contract_files_def
  by (clarsimp simp: absolute_path_def split: if_splits)

lemma split_extension_dot:
  assumes "CHR ''.'' \<notin> set ext" and "stem \<noteq> []" and "stem @ ''.'' @ ext \<noteq> ''..''"
  shows "split_extension (stem @ ''.'' @ ext) = Some (stem, ext)"
proof -
  have "rev (stem @ ''.'' @ ext) = rev ext @ CHR ''.'' # rev stem" by simp
  then show ?thesis
    using assms by (simp add: split_extension_def)
qed

lemma consumed_extension:
  assumes "extension name = Some ''json''"
  shows "extension (with_extension name ''json.consumed'') = Some ''consumed''"
proof -
  obtain stem where stem: "split_extension name = Some (stem, ''json'')"
    using assms by (auto simp: extension_def)
  then have "with_extension name ''json.consumed'' = (stem @ ''.json'') @ ''.'' @ ''consumed''"
    by (simp add: with_extension_def)
  then show ?thesis
    using split_extension_dot [of "''consumed''" "stem @ ''.json''"] by (simp add: extension_def)
qed

lemma wake_entries_names:
  "wake_entries d (map Some names) = Ok (map (wake_path d) (filter is_wake_name names))"
  by (induction names) simp_all

lemma collect_names:
  "collect_wake_files d (Some (map Some names)) = Ok (sort_key components (map (wake_path d) (filter is_wake_name names)))"
  by (simp add: collect_wake_files_def wake_entries_names)

lemma wake_path_inj: "is_wake_name n \<Longrightarrow> is_wake_name m \<Longrightarrow> wake_path d n = wake_path d m \<Longrightarrow> n = m"
  by (auto simp: wake_path_def path_join_def is_wake_name_def is_absolute_def starts_with_iff split: if_splits)

lemma mark_ok:
  assumes "mark_wake_file_consumed renames d names name = Inr (p, names')"
  shows "extension name = Some ''json'' \<and> name \<in> set names
    \<and> names' = with_extension name ''json.consumed'' # filter (\<lambda>n. n \<noteq> name \<and> n \<noteq> with_extension name ''json.consumed'') names"
  using assms by (auto simp: mark_wake_file_consumed_def Let_def split: if_splits)

lemma collect_after_mark:
  assumes "mark_wake_file_consumed renames d names name = Inr (p, names')" and "is_wake_name name"
    and "collect_wake_files d (Some (map Some names)) = Inr files"
  shows "collect_wake_files d (Some (map Some names')) = Inr (filter (\<lambda>f. f \<noteq> wake_path d name) files)"
proof -
  note m = mark_ok [OF assms(1)]
  have gone: "\<not> is_wake_name (with_extension name ''json.consumed'')"
    using consumed_extension m by (simp add: is_wake_name_def)
  then have "filter is_wake_name names' = filter (\<lambda>n. n \<noteq> name) (filter is_wake_name names)"
    using m by (auto simp: filter_filter intro!: filter_cong)
  moreover have "map (wake_path d) (filter (\<lambda>n. n \<noteq> name) (filter is_wake_name names)) =
      filter (\<lambda>f. f \<noteq> wake_path d name) (map (wake_path d) (filter is_wake_name names))"
    using wake_path_inj assms(2) by (auto simp: filter_map comp_def intro!: arg_cong [of _ _ "map _"] filter_cong)
  moreover have "files = sort_key components (map (wake_path d) (filter is_wake_name names))"
    using assms(3) by (simp add: collect_names)
  ultimately show ?thesis
    by (simp add: collect_names filter_sort)
qed

end
