(* ===== verification/GateSafety.thy ===== *)
theory GateSafety
  imports SampleEvidence ExecutionSpec ProbeSpec BuilderSpec Preflight
begin

text \<open>
  The properties of the evidence gates, the trace builder and the wake files, each with its instance
  on the sample bundle.
\<close>

section \<open>The provenance gate\<close>

text \<open>
  C19. The one-pass validator of trace steps accepts exactly the traces that meet a specification stated on
  the list of steps: every step is well-formed at its position (contiguous order, allowed type, an
  identifier, finite non-negative amounts, a readable time, the fields of its type), identifiers are
  unique and times do not decrease; the identifiers of calls and of results are the same set, each
  used once, and there is at least one; at least three thoughts have 80 characters; the summed cost
  reaches the floor; and some result of at least 16 characters occurs in the run log up to line ends.
\<close>

theorem trace_gate_is_its_specification:
  "validate_trace_steps f steps run_log = Ok () \<longleftrightarrow> trace_spec f steps run_log"
  by (rule validate_trace_steps_spec)

text \<open>
  C18. Accepted trace evidence is derived from the supplied files, not claimed. If \<open>validate_trace_evidence\<close>
  accepts, then each of the three supplied paths names, by its canonical form, a file of the canonical
  workspace; the file at the trace path parses to steps that meet the specification against the
  contents of the file at the log path; every entry of the manifest at the manifest path names a file
  of the workspace that is no evidence file and has the declared SHA-256; and the trace has artifact
  steps, each of which resolves, from the directory of the trace, to such a file.
\<close>

theorem accepted_trace_evidence_is_backed:
  assumes "validate_trace_evidence f workspace trace_path run_log_path manifest_path = Ok e"
  shows "\<exists>ws trace steps run_log manifest.
    fs_canonicalize (fl_fs f) workspace = Some ws
    \<and> evidence_backed f ws trace_path run_log_path manifest_path trace steps run_log manifest
    \<and> trace_spec f steps run_log \<and> artifacts_backed f ws trace steps manifest
    \<and> te_real_execution e \<and> te_paired_tool_events e \<and> te_artifact_provenance e"
proof -
  obtain ws trace steps run_log manifest arts where
    ok: "fs_canonicalize (fl_fs f) workspace = Some ws"
      "evidence_backed f ws trace_path run_log_path manifest_path trace steps run_log manifest"
      "validate_trace_steps f steps run_log = Ok ()" "validate_artifact_manifest f ws manifest = Ok arts"
      "validate_trace_artifact_refs f steps trace arts = Ok ()"
    and e: "e = \<lparr> te_real_execution = True, te_paired_tool_events = True, te_artifact_provenance = True \<rparr>"
    using assms by (rule validate_trace_evidence_ok)
  have "trace_spec f steps run_log"
    using ok(3) by (simp add: validate_trace_steps_spec)
  moreover have "artifacts_backed f ws trace steps manifest"
    by (rule artifacts_backedI [OF ok(4,5)])
  moreover have "te_real_execution e" "te_paired_tool_events e" "te_artifact_provenance e"
    by (simp_all add: e)
  ultimately show ?thesis
    using ok(1,2) by blast
qed

theorem accepted_trace_evidence_is_backed_witness:
  "\<exists>ws trace steps run_log manifest.
    fs_canonicalize (fl_fs sample_files) ''/w'' = Some ws
    \<and> evidence_backed sample_files ws ''trace.jsonl'' ''run.log'' ''artifacts.json'' trace steps run_log manifest
    \<and> trace_spec sample_files steps run_log \<and> artifacts_backed sample_files ws trace steps manifest"
  using accepted_trace_evidence_is_backed [OF sample_trace_accepted] by blast

text \<open>
  The pairing is by set, not by neighbour: a trace whose two results answer each other's calls is
  accepted, although a result is meant to follow its own call.
\<close>

definition crossed_steps :: "JsonValue list" where
  "crossed_steps = [thought_step 1, thought_step 2, thought_step 3, call_step 4 ''a'', result_step 5 ''b'',
     call_step 6 ''b'', result_step 7 ''a'']"

theorem crossed_results_are_accepted:
  "validate_trace_steps sample_files crossed_steps sample_log = Ok ()
   \<and> get_str (crossed_steps ! 4) ''tool_call_id'' \<noteq> get_str (crossed_steps ! 3) ''tool_call_id''"
proof
  have "trace_shape sample_files crossed_steps"
    by code_simp
  moreover have "call_ids ''tool_call'' crossed_steps = [''a'', ''b'']" "call_ids ''tool_result'' crossed_steps = [''b'', ''a'']"
    "length (long_thoughts crossed_steps) = 3" "anchored sample_log crossed_steps"
    by code_simp+
  moreover have "map (\<lambda>s. amount_of s ''cost_usd'') crossed_steps = [Fin 1, Fin 0, Fin 0, Fin 0, Fin 0, Fin 0, Fin 0]"
    by code_simp
  ultimately show "validate_trace_steps sample_files crossed_steps sample_log = Ok ()"
    unfolding validate_trace_steps_spec trace_spec_def total_cost_map
    by (auto simp: f64_add_finite COST_FLOOR_def f64_round_cent)
  show "get_str (crossed_steps ! 4) ''tool_call_id'' \<noteq> get_str (crossed_steps ! 3) ''tool_call_id''"
    by code_simp
qed

section \<open>The execution record\<close>

text \<open>
  C21. An accepted execution is the one its manifest reports, and fits its window. If the execution record
  and its cross references are both accepted for the same execution manifest, the record has the
  identities, command, status, exit code zero, times, log, directory and declared artifacts of the
  execution object in the file at that path; the status is a success and the identities are not
  blank; the log it reports is the file at the supplied log path, the recorded hash is the hash of
  that file's bytes and is the declared one where one is declared; the working directory lies in the
  workspace; every step of the trace at the supplied trace path and the log's modification time lie in
  the window from five minutes before the run to five minutes after its wall time (saturating at the
  ends of \<open>i64\<close>), and the artifacts it declares lie in the workspace. Every entry of the artifact manifest
  at the supplied path, which has one, is a verified file; each declared artifact is one of them with
  the same hash; and when none is declared, every one of them was modified inside the window.
\<close>

theorem accepted_execution_fits_its_window:
  assumes "validate_execution_record f workspace execution_path trace_path run_log_path = Ok r"
    and "validate_cross_references f workspace execution_path manifest_path = Ok ()"
  shows "execution_accepted f workspace execution_path trace_path run_log_path manifest_path r"
  by (rule execution_acceptedI [OF assms])

lemma sample_execution_accepted:
  "is_ok (validate_execution_record sample_files ''/w'' ''execution.json'' ''trace.jsonl'' ''run.log'')"
  by code_simp

lemma sample_cross_accepted:
  "validate_cross_references sample_files ''/w'' ''execution.json'' ''artifacts.json'' = Ok ()"
  by code_simp

theorem accepted_execution_fits_its_window_witness:
  "\<exists>r. execution_accepted sample_files ''/w'' ''execution.json'' ''trace.jsonl'' ''run.log'' ''artifacts.json'' r"
proof -
  obtain r where "validate_execution_record sample_files ''/w'' ''execution.json'' ''trace.jsonl'' ''run.log'' = Ok r"
    using sample_execution_accepted
    by (cases "validate_execution_record sample_files ''/w'' ''execution.json'' ''trace.jsonl'' ''run.log''") simp_all
  from accepted_execution_fits_its_window [OF this sample_cross_accepted] show ?thesis
    by blast
qed

text \<open>
  The 24-hour limit applies to a wall time in seconds only: then the window ends at most 24 hours and
  five minutes after the run. A wall time in milliseconds is not limited.
\<close>

theorem declared_seconds_bound_the_window:
  assumes "wall_time_seconds ob = Ok w" and "in_window t0 w t" and "i64_min \<le> t0" and "t0 \<le> i64_max"
  shows "t0 - 300000 \<le> t \<and> t \<le> t0 + 86400000 + 300000"
  using wall_time_seconds_bounds [OF assms(1)] window_bounds [OF assms(2-4)] by auto

theorem declared_milliseconds_are_unbounded:
  assumes "map_of ob ''wall_time_ms'' = Some (JNumber (PosInt (nat i64_max)))"
    and "0 \<le> t0" and "window_start t0 \<le> t" and "t \<le> i64_max"
  shows "parse_execution_wall_time ob = Ok i64_max \<and> in_window t0 i64_max t"
  by (rule unbounded_window [OF assms])

section \<open>The channel probe\<close>

text \<open>
  C22. An admitted channel probe is bound, fresh and matched by its raw responses. It has the schema, the
  requested challenge and its two routes, was made with \<open>GET\<close> and without a platform write, at a time
  that is not in the future and not older than the limit; a grader with a name is registered and the
  worker queue is not observed as stalled; both response files lie in the workspace and have the
  declared hashes, the challenge response names the challenge, and no attempt of the attempts response
  belongs to another one.
\<close>

theorem admitted_probe_is_fresh_and_bound:
  assumes "validate_channel_probe_evidence f probe_json workspace probe_path challenge_path attempts_path ch now_ms max_age_ms
    = Ok p"
  shows "cp_challenge_id p = ch \<and> cp_challenge_route p = ''/api/challenges/'' @ ch
    \<and> cp_attempts_route p = ''/api/challenges/'' @ ch @ ''/attempts'' \<and> cp_method p = ''GET''
    \<and> \<not> cp_platform_write_attempted p
    \<and> 0 \<le> cp_probe_at_ms p \<and> cp_probe_at_ms p \<le> now_ms \<and> now_ms - cp_probe_at_ms p \<le> max_age_ms
    \<and> cp_grader_registered p = Some True \<and> cp_s2 p = Some False \<and> \<not> none_or_empty (cp_grader_name p)
    \<and> cp_worker_queue_ok p \<noteq> Some False
    \<and> (\<exists>ws c a challenge attempts h. fs_canonicalize (fl_fs f) workspace = Some ws
         \<and> cp_attempts_response_sha256 p = Some h
         \<and> response_backed f ws c (cp_challenge_response_sha256 p) challenge \<and> challenge_bound challenge ch
         \<and> response_backed f ws a h attempts \<and> \<not> list_ex (foreign_attempt ch) (attempt_entries attempts))"
  using validate_channel_probe_evidence_ok [OF assms]
  by (simp add: probe_bound_def grader_evidence_def not_less)

definition sample_probe :: ChannelProbeEvidence where
  "sample_probe =
     \<lparr> cp_schema_version = ''ascodex-channel-probe/v1'', cp_challenge_id = ''c1'', cp_probe_at_ms = 10,
       cp_challenge_route = ''/api/challenges/c1'', cp_attempts_route = ''/api/challenges/c1/attempts'',
       cp_challenge_response_sha256 = sample_hash, cp_attempts_response_sha256 = Some sample_hash,
       cp_grader_name = Some ''grader'', cp_s2 = Some False, cp_grader_registered = Some True,
       cp_harbor_active = None, cp_observed_attempt_count = None, cp_newest_attempt_updated_ms = None,
       cp_worker_queue_ok = None, cp_worker_queue_stale_after_ms = 10, cp_recent_attempt_limit = 5,
       cp_method = ''GET'', cp_platform_write_attempted = False, cp_quota_cost = ''none'' \<rparr>"

definition sample_probe_json :: "string \<Rightarrow> ChannelProbeEvidence option" where
  "sample_probe_json t = (if t = ''probe'' then Some sample_probe else None)"

lemma sample_probe_facts:
  "is_blank ''c1'' = False" "(60 \<le> (0 :: int)) = False"
  "fs_canonicalize (fl_fs sample_files) ''/w'' = Some ''/w''"
  "canonical_channel_probe_path sample_files ''/w'' ''probe.json'' = Ok ''/w/probe.json''"
  "canonical_channel_probe_path sample_files ''/w'' ''challenge.json'' = Ok ''/w/challenge.json''"
  "canonical_channel_probe_path sample_files ''/w'' ''attempts.json'' = Ok ''/w/attempts.json''"
  "probe_read sample_files ''/w/probe.json'' = Ok ''probe''" "sample_probe_json ''probe'' = Some sample_probe"
  "require_sha256 (cp_challenge_response_sha256 sample_probe) ''challenge response hash'' = Ok ()"
  "cp_attempts_response_sha256 sample_probe = Some sample_hash"
  "require_sha256 sample_hash ''attempts response hash'' = Ok ()"
  "probe_bound sample_probe ''c1'' 60 60 = True"
  "probe_sha256_file sample_files ''/w/challenge.json'' = Ok sample_hash"
  "probe_sha256_file sample_files ''/w/attempts.json'' = Ok sample_hash"
  "eq_ignore_ascii_case sample_hash (cp_challenge_response_sha256 sample_probe) = True"
  "eq_ignore_ascii_case sample_hash sample_hash = True" "grader_evidence sample_probe = True"
  "(cp_worker_queue_ok sample_probe = Some False) = False"
  "probe_read sample_files ''/w/challenge.json'' = Ok ''challenge''"
  "fl_json sample_files ''challenge'' = Some (JObject [(''id'', JString ''c1'')])"
  "challenge_bound (JObject [(''id'', JString ''c1'')]) ''c1'' = True"
  "probe_read sample_files ''/w/attempts.json'' = Ok ''attempts''"
  "fl_json sample_files ''attempts'' = Some (JObject [(''items'', JArray [JObject [(''challenge_id'', JString ''c1'')]])])"
  "list_ex (foreign_attempt ''c1'')
     (attempt_entries (JObject [(''items'', JArray [JObject [(''challenge_id'', JString ''c1'')]])])) = False"
  by code_simp+

lemma sample_probe_admitted:
  "validate_channel_probe_evidence sample_files sample_probe_json ''/w'' ''probe.json'' ''challenge.json'' ''attempts.json''
     ''c1'' 60 60 = Ok sample_probe"
proof -
  have small: "(MAX_PROBE_BYTES < length ''probe'') = False"
    by (simp add: MAX_PROBE_BYTES_def)
  show ?thesis
    by (simp only: validate_channel_probe_evidence_def sample_probe_facts small and_then_simps ok_or_simps
        if_False if_True not_False_eq_True not_True_eq_False)
qed

theorem admitted_probe_is_fresh_and_bound_witness:
  "cp_method sample_probe = ''GET'' \<and> 60 - cp_probe_at_ms sample_probe \<le> 60
   \<and> (\<exists>ws c a challenge attempts h. fs_canonicalize (fl_fs sample_files) ''/w'' = Some ws
         \<and> cp_attempts_response_sha256 sample_probe = Some h
         \<and> response_backed sample_files ws c (cp_challenge_response_sha256 sample_probe) challenge
         \<and> challenge_bound challenge ''c1'' \<and> response_backed sample_files ws a h attempts)"
  using admitted_probe_is_fresh_and_bound [OF sample_probe_admitted] by blast

section \<open>The redline scan\<close>

text \<open>
  The search for an attempt number, which skips a match it has read past, misses none: it succeeds
  exactly when some occurrence of the word in the text is followed by blanks, at most one hyphen or
  underscore with further blanks, and a digit.
\<close>

theorem attempt_number_search_is_complete:
  "contains_attempt_number s \<longleftrightarrow> (\<exists>pre u. s = pre @ ''attempt'' @ u \<and> numbered_suffix u)"
  by (rule contains_attempt_number_correct)

text \<open>
  The redline scan reports exactly what occurs. It covers the trace, the log and every verified
  artifact of the manifest, identified by their path components, and its findings are precisely the
  pairs of a covered file that is valid UTF-8 and a term, built-in or non-blank from the policy and in
  lower case, that its lower-cased text contains, or an attempt number. A file that is not valid
  UTF-8 contributes nothing.
\<close>

theorem redline_findings_are_exact:
  assumes "validate_redline_evidence f workspace trace_path run_log_path manifest_path policy = Ok findings"
  shows "\<exists>ws trace lg manifest ps.
    fs_canonicalize (fl_fs f) workspace = Some ws \<and> in_workspace f ws trace \<and> in_workspace f ws lg
    \<and> scanned_files f ws trace lg manifest ps
    \<and> set findings = {\<lparr> rf_path = p, rf_term = t \<rparr> | p t content.
        p \<in> ps \<and> read_to_string (fl_read f) p = Ok content \<and> finding_in (redline_terms (rl_banned_terms policy)) content t}"
  by (rule validate_redline_evidence_ok [OF assms])

definition sample_policy :: RedlinePolicy where
  "sample_policy = \<lparr> rl_clean = True, rl_banned_terms = [''Light_Time'', '' ''] \<rparr>"

lemma sample_redline:
  "validate_redline_evidence sample_files ''/w'' ''trace.jsonl'' ''run.log'' ''artifacts.json'' sample_policy =
     Ok [\<lparr> rf_path = ''/w/run.log'', rf_term = ''light_time'' \<rparr>]"
  by code_simp

theorem redline_findings_are_exact_witness:
  "\<exists>ws trace lg manifest ps.
    scanned_files sample_files ws trace lg manifest ps
    \<and> {\<lparr> rf_path = ''/w/run.log'', rf_term = ''light_time'' \<rparr>} = {\<lparr> rf_path = p, rf_term = t \<rparr> | p t content.
        p \<in> ps \<and> read_to_string (fl_read sample_files) p = Ok content
        \<and> finding_in (redline_terms (rl_banned_terms sample_policy)) content t}"
proof -
  note ex = redline_findings_are_exact [OF sample_redline, unfolded list.set]
  then show ?thesis
    by (elim exE conjE) (intro exI conjI)
qed

section \<open>The trace builder\<close>

text \<open>The log the builder reads.\<close>

definition run_log_of :: "BuildEnv \<Rightarrow> TraceBuildRequest \<Rightarrow> string option" where
  "run_log_of env req =
     Option.bind (fs_canonicalize (fl_fs (be_files env)) (tb_workspace req)) (\<lambda>ws.
       case canonical env (tb_run_log_path req) ws of
         Inl _ \<Rightarrow> None
       | Inr p \<Rightarrow> (case read_to_string (fl_read (be_files env)) p of Inl _ \<Rightarrow> None | Inr raw \<Rightarrow> Some raw))"

text \<open>
  C20. What the trace builder writes, the gate reads, and it accepts the trace exactly for logs that are
  long enough. Let the clock not run backwards, the printed times and lines read back, and no carriage
  return remain before a line feed once the line ends are normalised. Then the file of a successful
  build parses to the nine steps that were built, the anchor is a verbatim part of the normalised log,
  and the gate's validation of those steps against the log succeeds if and only if the trimmed log has
  at least 16 characters.
\<close>

theorem built_trace_passes_the_gate:
  assumes "build_trace_from_runlog env req = Ok (b, path, content)" and "run_log_of env req = Some raw"
    and "crlf_to_lf (crlf_to_lf raw) = crlf_to_lf raw" and "clock_monotone env" and "times_read_back env"
    and "lines_read_back env (built env (plan req (crlf_to_lf raw) (bt_anchor_body b)))"
  shows "\<exists>steps. parse_trace_steps (be_files env) content = Ok steps \<and> length steps = bt_step_count b
    \<and> str_contains (crlf_to_lf raw) (bt_anchor_body b)
    \<and> (validate_trace_steps (be_files env) steps raw = Ok () \<longleftrightarrow> 16 \<le> char_count (trim (crlf_to_lf raw)))"
proof -
  obtain ws lg raw' steps where
    ok: "fs_canonicalize (fl_fs (be_files env)) (tb_workspace req) = Some ws"
      "canonical env (tb_run_log_path req) ws = Ok lg" "read_to_string (fl_read (be_files env)) lg = Ok raw'"
    and a: "log_anchor (crlf_to_lf raw') = Ok (bt_anchor_body b)"
    and steps: "steps = built env (plan req (crlf_to_lf raw') (bt_anchor_body b))" "print_lines env steps = Ok content"
    and n: "bt_step_count b = 9"
    using assms(1) by (rule build_trace_ok)
  have raw: "raw' = raw"
    using assms(2) ok by (simp add: run_log_of_def)
  obtain ls where ls: "content = unlines ls" "list_all braced ls" "map (fl_json (be_files env)) ls = map Some steps"
    using print_lines_ok [OF steps(2)] assms(6) steps(1) raw by blast
  have "length steps = 9" "list_all (\<lambda>s. as_object s \<noteq> None) steps"
    using built_objects [of env] steps(1) by simp_all
  then have "parse_trace_steps (be_files env) content = Ok steps"
    using parse_printed [OF ls(3,2)] ls(1) by fastforce
  moreover have "str_contains (crlf_to_lf raw) (bt_anchor_body b)"
    using str_contains_prefix [OF trim_infix log_anchor_prefix [OF a]] raw by simp
  moreover note built_accepted_iff [OF assms(4,5,3), of "bt_anchor_body b" req]
  ultimately show ?thesis
    using a raw steps(1) n \<open>length steps = 9\<close> by auto
qed

definition sample_request :: TraceBuildRequest where
  "sample_request =
     \<lparr> tb_workspace = ''/w'', tb_run_log_path = ''run.log'', tb_entrypoint = ''python solve.py'',
       tb_artifact_path = ''out.json'', tb_problem = ''compute a light time'' \<rparr>"

definition sample_clock :: BuildEnv where
  "sample_clock =
     \<lparr> be_files = sample_files\<lparr> fl_rfc3339 := map_of (map (\<lambda>k. (decimal k, 1000 * int k)) [5..<14]) \<rparr>,
       be_now = (\<lambda>_. 5000), be_rfc3339 = (\<lambda>t. decimal (nat (t div 1000))),
       be_to_json = (\<lambda>s. map_option sample_line (Option.bind (json_get s ''step_order'') as_u64)),
       be_create_dir_all = (\<lambda>_. True), be_write = (\<lambda>_. True) \<rparr>"

definition sample_built :: "JsonValue list" where
  "sample_built = built sample_clock (plan sample_request (crlf_to_lf sample_log) ''light_time 2.383432'')"

definition sample_build_env :: BuildEnv where
  "sample_build_env = sample_clock\<lparr> be_files := (be_files sample_clock)
     \<lparr> fl_json := map_of (zip (map sample_line [1..<10]) sample_built) \<rparr> \<rparr>"

lemma sample_env_steps: "built sample_build_env ps = built sample_clock ps"
proof -
  have "ts sample_build_env = ts sample_clock"
    by (simp add: ts_def [abs_def] sample_build_env_def)
  then have "row sample_build_env = row sample_clock"
    by (simp add: row_def [abs_def])
  then show ?thesis
    by (simp add: built_def step_at_def)
qed

lemma sample_env_fields:
  "fl_fs (be_files sample_build_env) = fl_fs sample_files" "fl_read (be_files sample_build_env) = fl_read sample_files"
  by (simp_all add: sample_build_env_def sample_clock_def)

lemma sample_env_clock: "clock_monotone sample_build_env" "times_read_back sample_build_env"
proof -
  have "times_read_back sample_clock"
    by code_simp
  then show "times_read_back sample_build_env"
    by (simp add: times_read_back_def ts_def sample_build_env_def)
  show "clock_monotone sample_build_env"
    by (simp add: clock_monotone_def sample_build_env_def sample_clock_def list_all_iff)
qed

lemma sample_log_facts:
  "crlf_to_lf sample_log = ''light_time 2.383432'' @ [CHR 0x0A]"
  "log_anchor (''light_time 2.383432'' @ [CHR 0x0A]) = Ok ''light_time 2.383432''"
  "crlf_to_lf (''light_time 2.383432'' @ [CHR 0x0A]) = ''light_time 2.383432'' @ [CHR 0x0A]"
  "char_count (trim (''light_time 2.383432'' @ [CHR 0x0A])) = 19"
  "clean_request sample_request (''light_time 2.383432'' @ [CHR 0x0A])"
  "\<not> is_blank (tb_entrypoint sample_request)"
  by code_simp+

lemma sample_log_read:
  "fs_canonicalize (fl_fs sample_files) (tb_workspace sample_request) = Some ''/w''"
  "canonical sample_build_env (tb_run_log_path sample_request) ''/w'' = Ok ''/w/run.log''"
  "read_to_string (fl_read sample_files) ''/w/run.log'' = Ok sample_log"
proof -
  show "fs_canonicalize (fl_fs sample_files) (tb_workspace sample_request) = Some ''/w''"
    "read_to_string (fl_read sample_files) ''/w/run.log'' = Ok sample_log"
    by code_simp+
  have "is_absolute ''run.log'' = False" "path_join ''/w'' ''run.log'' = ''/w/run.log''"
    "fs_canonicalize (fl_fs sample_files) ''/w/run.log'' = Some ''/w/run.log''" "path_starts_with ''/w/run.log'' ''/w''"
    by code_simp+
  then show "canonical sample_build_env (tb_run_log_path sample_request) ''/w'' = Ok ''/w/run.log''"
    by (simp add: canonical_def sample_env_fields sample_request_def Let_def)
qed

lemma sample_lines:
  assumes "i < 9"
  shows "be_to_json sample_build_env (sample_built ! i) = Some (sample_line (i + 1))"
    and "fl_json (be_files sample_build_env) (sample_line (i + 1)) = Some (sample_built ! i)"
    and "braced (sample_line (i + 1))"
proof -
  show "be_to_json sample_build_env (sample_built ! i) = Some (sample_line (i + 1))"
    using assms by (simp add: sample_build_env_def sample_clock_def sample_built_def steps_nth step_at_def
        row_get(2) [OF refl] split: prod.splits)
  have keys: "distinct (map sample_line [1..<10])"
    by code_simp
  have "map_of (zip (map sample_line [1..<10]) sample_built) (map sample_line [1..<10] ! i) = Some (sample_built ! i)"
    using assms keys by (intro map_of_zip_nth) (simp_all add: sample_built_def)
  then show "fl_json (be_files sample_build_env) (sample_line (i + 1)) = Some (sample_built ! i)"
    using assms by (simp add: sample_build_env_def)
  have "list_all (\<lambda>i. braced (sample_line (i + 1))) [0..<9]"
    by code_simp
  then show "braced (sample_line (i + 1))"
    using assms by (simp add: list_all_iff)
qed

lemma sample_lines_read_back: "lines_read_back sample_build_env sample_built"
  using sample_lines by (auto simp: lines_read_back_def list_all_length sample_built_def)

lemma print_lines_total:
  "list_all (\<lambda>s. be_to_json env s \<noteq> None) steps \<Longrightarrow> \<exists>content. print_lines env steps = Ok content"
  by (induction env steps rule: print_lines.induct) auto

lemma sample_build:
  "\<exists>b path content. build_trace_from_runlog sample_build_env sample_request = Ok (b, path, content)
     \<and> bt_anchor_body b = ''light_time 2.383432''"
proof -
  have steps: "built sample_build_env (plan sample_request (crlf_to_lf sample_log) ''light_time 2.383432'') = sample_built"
    by (simp add: sample_built_def sample_env_steps)
  have "list_all (\<lambda>s. be_to_json sample_build_env s \<noteq> None) sample_built"
    using sample_lines(1) by (auto simp: list_all_length sample_built_def)
  then obtain content where content: "print_lines sample_build_env sample_built = Ok content"
    using print_lines_total by blast
  have "trace_writable sample_build_env ''/w''"
    by (auto simp: trace_writable_def sample_build_env_def sample_clock_def split: option.splits)
  moreover have "fs_canonicalize (fl_fs (be_files sample_build_env)) (tb_workspace sample_request) = Some ''/w''"
    "read_to_string (fl_read (be_files sample_build_env)) ''/w/run.log'' = Ok sample_log"
    by (simp_all only: sample_env_fields sample_log_read)
  moreover have "clean_request sample_request (crlf_to_lf sample_log)"
    "log_anchor (crlf_to_lf sample_log) = Ok ''light_time 2.383432''"
    by (simp_all only: sample_log_facts)
  moreover have "print_lines sample_build_env
      (built sample_build_env (plan sample_request (crlf_to_lf sample_log) ''light_time 2.383432'')) = Ok content"
    by (simp only: steps content)
  ultimately have "build_trace_from_runlog sample_build_env sample_request = Ok (\<lparr> bt_trace_path = path_join ''/w'' ''evidence/trace.jsonl'',
      bt_step_count = 9, bt_anchor_body = ''light_time 2.383432'',
      bt_trace_sha256 = hex_bytes (fl_sha256 (be_files sample_build_env) content) \<rparr>,
      path_join ''/w'' ''evidence/trace.jsonl'', content)"
    using sample_log_facts(6) sample_log_read(2) by (intro build_trace_succeeds)
  then show ?thesis
    by (intro exI conjI) (assumption, simp only: BuiltTrace.select_convs)
qed

theorem built_trace_passes_the_gate_witness:
  "\<exists>b path content steps. build_trace_from_runlog sample_build_env sample_request = Ok (b, path, content)
    \<and> parse_trace_steps (be_files sample_build_env) content = Ok steps \<and> length steps = 9
    \<and> validate_trace_steps (be_files sample_build_env) steps sample_log = Ok ()"
proof -
  obtain b path content where b: "build_trace_from_runlog sample_build_env sample_request = Ok (b, path, content)"
    "bt_anchor_body b = ''light_time 2.383432''"
    using sample_build by blast
  have raw: "run_log_of sample_build_env sample_request = Some sample_log"
    by (simp add: run_log_of_def sample_env_fields sample_log_read)
  have lines: "lines_read_back sample_build_env
      (built sample_build_env (plan sample_request (crlf_to_lf sample_log) (bt_anchor_body b)))"
    using sample_lines_read_back by (simp add: b(2) sample_env_steps sample_built_def)
  have ends: "crlf_to_lf (crlf_to_lf sample_log) = crlf_to_lf sample_log"
    by (simp only: sample_log_facts)
  obtain steps where "parse_trace_steps (be_files sample_build_env) content = Ok steps" "length steps = bt_step_count b"
    "validate_trace_steps (be_files sample_build_env) steps sample_log = Ok ()"
    using built_trace_passes_the_gate [OF b(1) raw ends sample_env_clock lines]
    by (auto simp only: sample_log_facts)
  moreover have "bt_step_count b = 9"
    using b(1) by (rule build_trace_ok)
  ultimately show ?thesis
    using b(1) by auto
qed

text \<open>
  The anchor is the first eighty bytes of the trimmed log; a log of fewer than twelve bytes is refused,
  and one whose eightieth byte lies inside a character makes the builder panic.
\<close>

theorem anchor_is_the_first_window:
  "log_anchor l =
     (if length (trim l) < 12 then Err (BuildFailed ''could not find a 12..=80 char verbatim log anchor'')
      else if is_char_boundary (trim l) (min (length (trim l)) 80) then Ok (take 80 (trim l)) else Err BuildPanic)"
  using log_anchor_short [of l] log_anchor_long [of l] by simp

section \<open>Preflight and wake files\<close>

text \<open>
  Solver mode is fail-closed: it is admitted only with a contract file and a fingerprint input, both at
  absolute paths, whose contract names the expected challenge, matches the hash of the input, is valid
  now and is known.
\<close>

theorem solver_preflight_needs_a_known_contract:
  assumes "contract_preflight_allowed read sha256 contract_json contract_file input_file ch now_ms True = Ok b"
  shows "is_absolute contract_file \<and> is_absolute input_file \<and> (\<exists>raw input c. read contract_file = Some raw
    \<and> read input_file = Some input \<and> contract_json raw = Some c
    \<and> verify_fingerprint_input sha256 c input = Ok () \<and> ChallengeContract_validate c ch now_ms = Ok ()
    \<and> cc_challenge_id c = ch \<and> cc_status c = Known)"
proof -
  have "validate_contract_files read sha256 contract_json contract_file input_file ch (Some Solver) now_ms = Ok ()"
    using assms by (auto simp: contract_preflight_allowed_def)
  from validate_contract_files_ok [OF this] show ?thesis by simp
qed

text \<open>
  A consumed wake file is not read again. After a wake file was marked as consumed, the next listing
  of the directory is the previous listing without exactly that file: nothing else disappears, and the
  renamed file is not picked up again.
\<close>

theorem consumed_wake_is_not_collected_again:
  assumes "collect_wake_files d (Some (map Some names)) = Ok files" and "is_wake_name name"
    and "mark_wake_file_consumed renames d names name = Ok (consumed, names')"
  shows "collect_wake_files d (Some (map Some names')) = Ok (filter (\<lambda>f. f \<noteq> wake_path d name) files)"
  by (rule collect_after_mark [OF assms(3,2,1)])

definition sample_wakes :: "string list" where
  "sample_wakes = [''chief-b.json'', ''notes.json'', ''chief-a.json'']"

theorem consumed_wake_is_not_collected_again_witness:
  "collect_wake_files ''/wakes'' (Some (map Some sample_wakes)) = Ok [''/wakes/chief-a.json'', ''/wakes/chief-b.json'']
   \<and> collect_wake_files ''/wakes'' (Some (map Some (''chief-a.json.consumed''
        # filter (\<lambda>n. n \<noteq> ''chief-a.json'' \<and> n \<noteq> ''chief-a.json.consumed'') sample_wakes))) = Ok [''/wakes/chief-b.json'']"
proof -
  have c: "collect_wake_files ''/wakes'' (Some (map Some sample_wakes)) = Ok [''/wakes/chief-a.json'', ''/wakes/chief-b.json'']"
    and n: "is_wake_name ''chief-a.json''"
    and m: "mark_wake_file_consumed (\<lambda>_ _. True) ''/wakes'' sample_wakes ''chief-a.json'' =
      Ok (''/wakes/chief-a.json.consumed'', ''chief-a.json.consumed''
        # filter (\<lambda>n. n \<noteq> ''chief-a.json'' \<and> n \<noteq> ''chief-a.json.consumed'') sample_wakes)"
    and p: "filter (\<lambda>f. f \<noteq> wake_path ''/wakes'' ''chief-a.json'') [''/wakes/chief-a.json'', ''/wakes/chief-b.json''] =
      [''/wakes/chief-b.json'']"
    by code_simp+
  show ?thesis
    using c consumed_wake_is_not_collected_again [OF c n m] unfolding p by (rule conjI)
qed

end
