(* ===== verification/Runtime.thy ===== *)
theory Runtime
  imports CycleLedger WorkspaceAcl TextLemmas
begin

text \<open>
  The runtime bridge \<open>ascodex-runtime/src/lib.rs\<close>: it loads a stage brief, from a bundle or from the
  ledger, verifies every file the brief refers to below a canonical policy root, renders the bounded
  context card, and derives the file visibility of the role.

  Parameters are the file system, SHA-256 and the JSON parser of a bundle; the ledger is the model's,
  or nothing when the file cannot be opened.
\<close>

text \<open>\<open>InvalidBundleCause\<close> and \<open>InvalidBundleLedger\<close> are \<open>InvalidBundle\<close> with the text of the error they carry.\<close>

datatype StageBriefRuntimeError = BundlePathNotAbsolute | InvalidBundle string | InvalidBundleCause CoordinationError
  | InvalidBundleLedger LedgerError | RuntimeIo | RuntimeJson | RuntimeAcl WorkspaceAclError

record StageBriefBundle =
  bu_schema_version :: string
  bu_workspace_root :: string
  bu_capability_map_path :: string
  bu_briefs :: "StageBrief list"

record VerifiedStageBrief =
  vb_brief_id :: string
  vb_cycle_id :: "string option"
  vb_cycle_event_version :: "nat option"
  vb_role :: Role
  vb_policy_root :: string
  vb_workspace_root :: string
  vb_clean_room :: bool
  vb_skills :: "SkillRef list"
  vb_rendered :: string

record RuntimeEnv =
  re_fs :: FileSystem
  re_read :: "string \<Rightarrow> string option"
  re_sha256 :: "string \<Rightarrow> string"
  re_bundle :: "string \<Rightarrow> StageBriefBundle option"

definition BUNDLE_SCHEMA_VERSION :: string where
  "BUNDLE_SCHEMA_VERSION = ''ascodex-stage-brief-bundle/v1''"

section \<open>Files\<close>

definition resolve_relative_file :: "RuntimeEnv \<Rightarrow> string \<Rightarrow> string \<Rightarrow> StageBriefRuntimeError + string" where
  "resolve_relative_file env base path =
     (if path = [] \<or> is_absolute path \<or> ''..'' \<in> set (components path)
      then Err (InvalidBundle ''bundle path must be workspace-relative without parent traversal'')
      else
      and_then (ok_or (fs_canonicalize (re_fs env) (path_join base path)) RuntimeIo) (\<lambda>canonical.
      if \<not> path_starts_with canonical base \<or> \<not> fs_is_file (re_fs env) canonical
      then Err (InvalidBundle ''bundle path escapes workspace or is not a file'') else Ok canonical))"

definition digest_file :: "RuntimeEnv \<Rightarrow> string \<Rightarrow> StageBriefRuntimeError + string" where
  "digest_file env path = 
     and_then (ok_or (re_read env path) RuntimeIo) (\<lambda>bytes. Ok (hex_bytes (re_sha256 env bytes)))"

section \<open>Rendering\<close>

text \<open>The derived \<open>Debug\<close> form of a stage.\<close>

definition stage_debug :: "ResearchStage \<Rightarrow> string" where
  "stage_debug s = (case s of Intake \<Rightarrow> ''Intake'' | SolverExperiment \<Rightarrow> ''SolverExperiment''
     | MonitorObservation \<Rightarrow> ''MonitorObservation'' | IntelObservation \<Rightarrow> ''IntelObservation''
     | PreSubmit \<Rightarrow> ''PreSubmit'' | StuckJudge \<Rightarrow> ''StuckJudge'' | StuckRedTeam \<Rightarrow> ''StuckRedTeam''
     | JudgeAnalysis \<Rightarrow> ''JudgeAnalysis'' | Closure \<Rightarrow> ''Closure'' | CloudCompute \<Rightarrow> ''CloudCompute''
     | Handover \<Rightarrow> ''Handover'')"

definition skill_line :: "SkillRef \<Rightarrow> string" where
  "skill_line k =
     ''- '' @ sk_name k @ '': '' @ sk_source_path k @ '' ('' @ sk_selection_reason k @ '')'' @ [CHR 0x0A]"

definition brief_text :: "StageBrief \<Rightarrow> string" where
  "brief_text b =
     ''Verified ASCodex research brief. Campaign: '' @ sb_campaign_id b @ ''. Challenge: '' @ sb_challenge_id b
     @ ''. Stage: '' @ stage_debug (sb_stage b)
     @ ''. Read the selected skill files before acting; this brief grants no tool, identity, lease, ''
     @ ''network, or submission permission.'' @ [CHR 0x0A]
     @ concat (map skill_line (sb_skills b)) @ ''Selection: '' @ sb_selection_reason b"

definition render_brief :: "StageBrief \<Rightarrow> StageBriefRuntimeError + string" where
  "render_brief b =
     (if sb_max_bytes b < length (brief_text b) \<or> sb_estimated_bytes b < length (brief_text b)
      then Err (InvalidBundle ''rendered brief exceeds its declared context budget'') else Ok (brief_text b))"

section \<open>Verification\<close>

definition verify_skill :: "RuntimeEnv \<Rightarrow> string \<Rightarrow> SkillRef \<Rightarrow> StageBriefRuntimeError + unit" where
  "verify_skill env policy_root k =
     and_then (resolve_relative_file env policy_root (sk_source_path k)) (\<lambda>path.
     and_then (digest_file env path) (\<lambda>digest.
     fail_if (digest \<noteq> to_ascii_lowercase (sk_sha256 k))
       (InvalidBundle (''skill digest does not match: '' @ sk_name k))))"

definition matches_target :: "StageBrief \<Rightarrow> string \<Rightarrow> string \<Rightarrow> Role \<Rightarrow> bool" where
  "matches_target b campaign_id ch role \<longleftrightarrow>
     sb_campaign_id b = campaign_id \<and> sb_challenge_id b = ch \<and> sb_target_role b = role"

definition verify_and_render_brief ::
  "RuntimeEnv \<Rightarrow> StageBrief \<Rightarrow> string \<Rightarrow> string \<Rightarrow> string \<Rightarrow> string \<Rightarrow> Role \<Rightarrow> int \<Rightarrow>
   StageBriefRuntimeError + VerifiedStageBrief" where
  "verify_and_render_brief env b workspace_root capability_map_path campaign_id ch role now_ms =
     (if \<not> matches_target b campaign_id ch role
      then Err (InvalidBundle ''stage brief does not match its worker target'')
      else
      and_then (ok_or (fs_canonicalize (re_fs env) workspace_root) RuntimeIo) (\<lambda>policy_root.
      if \<not> fs_is_dir (re_fs env) policy_root then Err (InvalidBundle ''policy root is not a directory'')
      else
      and_then (ok_or (fs_canonicalize (re_fs env) (sb_challenge_workspace_root b)) RuntimeIo) (\<lambda>challenge_workspace_root.
      if \<not> fs_is_dir (re_fs env) challenge_workspace_root \<or> path_starts_with policy_root challenge_workspace_root
      then Err (InvalidBundle ''challenge workspace must be a directory and cannot contain the policy root'')
      else
      and_then (resolve_relative_file env policy_root capability_map_path) (\<lambda>capability_map.
      and_then (map_err InvalidBundleCause (StageBrief_validate b now_ms)) (\<lambda>_.
      and_then (digest_file env capability_map) (\<lambda>digest.
      if digest \<noteq> to_ascii_lowercase (sb_capability_map_sha256 b)
      then Err (InvalidBundle ''capability map digest does not match the brief'')
      else
      and_then (checks (map (verify_skill env policy_root) (sb_skills b))) (\<lambda>_.
      and_then (render_brief b) (\<lambda>rendered.
      Ok \<lparr> vb_brief_id = sb_brief_id b, vb_cycle_id = None, vb_cycle_event_version = None,
           vb_role = sb_target_role b, vb_policy_root = policy_root, vb_workspace_root = challenge_workspace_root,
           vb_clean_room = sb_clean_room b, vb_skills = sb_skills b, vb_rendered = rendered \<rparr>))))))))"

definition load_and_render_brief ::
  "RuntimeEnv \<Rightarrow> string \<Rightarrow> string \<Rightarrow> string \<Rightarrow> Role \<Rightarrow> int \<Rightarrow> StageBriefRuntimeError + VerifiedStageBrief" where
  "load_and_render_brief env bundle_path campaign_id ch role now_ms =
     (if \<not> is_absolute bundle_path then Err BundlePathNotAbsolute
      else
      and_then (map_err (\<lambda>_. RuntimeIo) (read_to_string (re_read env) bundle_path)) (\<lambda>raw.
      and_then (ok_or (re_bundle env raw) RuntimeJson) (\<lambda>bundle.
      if bu_schema_version bundle \<noteq> BUNDLE_SCHEMA_VERSION
      then Err (InvalidBundle ''unsupported bundle schema version'')
      else (case filter (\<lambda>b. matches_target b campaign_id ch role) (bu_briefs bundle) of
          [b] \<Rightarrow> verify_and_render_brief env b (bu_workspace_root bundle) (bu_capability_map_path bundle)
                   campaign_id ch role now_ms
        | _ \<Rightarrow> Err (InvalidBundle ''bundle must contain exactly one matching brief'')))))"

text \<open>\<open>ledger\<close> is nothing when \<open>Ledger::open_file\<close> fails.\<close>

definition load_and_render_issued_brief ::
  "RuntimeEnv \<Rightarrow> Env \<Rightarrow> string \<Rightarrow> Ledger option \<Rightarrow> string \<Rightarrow> string \<Rightarrow> string \<Rightarrow> Role \<Rightarrow> int \<Rightarrow>
   StageBriefRuntimeError + VerifiedStageBrief" where
  "load_and_render_issued_brief env lenv ledger_path ledger cycle_id campaign_id ch role now_ms =
     (if \<not> is_absolute ledger_path then Err BundlePathNotAbsolute
      else
      and_then (ok_or ledger (InvalidBundle ''cannot open issued stage brief ledger'')) (\<lambda>l.
      and_then (map_err InvalidBundleLedger (load_stage_brief_issuance lenv l cycle_id campaign_id ch role now_ms)) (\<lambda>persisted.
      and_then (verify_and_render_brief env (pb_stage_brief persisted) (pb_workspace_root persisted)
          (pb_capability_map_path persisted) campaign_id ch role now_ms) (\<lambda>verified.
      Ok (verified\<lparr> vb_cycle_id := Some (pb_cycle_id persisted),
                    vb_cycle_event_version := Some (pb_cycle_event_version persisted) \<rparr>)))))"

section \<open>Visibility\<close>

fun add_skill_files :: "RuntimeEnv \<Rightarrow> string \<Rightarrow> SkillRef list \<Rightarrow> string list \<Rightarrow> StageBriefRuntimeError + string list" where
  "add_skill_files env policy_root [] rs = Ok rs"
| "add_skill_files env policy_root (k # ks) rs =
     and_then (resolve_relative_file env policy_root (sk_source_path k)) (\<lambda>path.
     add_skill_files env policy_root ks (if list_ex (\<lambda>r. path_eq r path) rs then rs else rs @ [path]))"

definition role_workspace_acl :: "RuntimeEnv \<Rightarrow> VerifiedStageBrief \<Rightarrow> string list \<Rightarrow> StageBriefRuntimeError + WorkspaceAcl" where
  "role_workspace_acl env v parent_roots =
     and_then (map_err RuntimeAcl (for_role (re_fs env) (vb_workspace_root v) (vb_role v))) (\<lambda>acl.
     if vb_clean_room v \<noteq> (vb_role v = RedTeam) then Err (RuntimeAcl CleanRoomOverlapsParent)
     else
     and_then (map_err RuntimeAcl (validate_clean_room_isolation (re_fs env) acl parent_roots)) (\<lambda>_.
     and_then (add_skill_files env (vb_policy_root v) (vb_skills v) (wa_readable_roots acl)) (\<lambda>rs.
     Ok (acl\<lparr> wa_readable_roots := rs \<rparr>))))"

section \<open>Lemmas\<close>

lemma resolve_relative_file_ok:
  "resolve_relative_file env base path = Inr p \<longleftrightarrow>
     path \<noteq> [] \<and> \<not> is_absolute path \<and> ''..'' \<notin> set (components path)
     \<and> fs_canonicalize (re_fs env) (path_join base path) = Some p \<and> path_starts_with p base \<and> fs_is_file (re_fs env) p"
  by (auto simp: resolve_relative_file_def)

definition file_verified :: "RuntimeEnv \<Rightarrow> string \<Rightarrow> string \<Rightarrow> string \<Rightarrow> bool" where
  "file_verified env policy_root path declared \<longleftrightarrow>
     (\<exists>p bytes. resolve_relative_file env policy_root path = Ok p \<and> re_read env p = Some bytes
        \<and> hex_bytes (re_sha256 env bytes) = to_ascii_lowercase declared)"

lemma digest_file_ok: "digest_file env p = Inr d \<longleftrightarrow> (\<exists>bytes. re_read env p = Some bytes \<and> d = hex_bytes (re_sha256 env bytes))"
  by (auto simp: digest_file_def)

lemma verify_skill_ok: "verify_skill env policy_root k = Inr () \<Longrightarrow> file_verified env policy_root (sk_source_path k) (sk_sha256 k)"
  by (auto simp: verify_skill_def file_verified_def digest_file_ok)

lemma verify_and_render_brief_ok:
  assumes "verify_and_render_brief env b w c camp ch role now = Inr v"
  shows "matches_target b camp ch role \<and> StageBrief_validate b now = Inr ()
    \<and> file_verified env (vb_policy_root v) c (sb_capability_map_sha256 b)
    \<and> list_all (\<lambda>k. file_verified env (vb_policy_root v) (sk_source_path k) (sk_sha256 k)) (sb_skills b)
    \<and> fs_canonicalize (re_fs env) w = Some (vb_policy_root v)
    \<and> fs_canonicalize (re_fs env) (sb_challenge_workspace_root b) = Some (vb_workspace_root v)
    \<and> \<not> path_starts_with (vb_policy_root v) (vb_workspace_root v)
    \<and> vb_rendered v = brief_text b \<and> length (vb_rendered v) \<le> sb_estimated_bytes b
    \<and> vb_role v = role \<and> vb_clean_room v = sb_clean_room b \<and> vb_skills v = sb_skills b"
  using assms unfolding verify_and_render_brief_def
  by (auto simp: digest_file_ok render_brief_def matches_target_def list_all_iff file_verified_def
      split: if_splits dest!: verify_skill_ok [unfolded file_verified_def])

lemma add_skill_files_set:
  "add_skill_files env policy_root ks rs = Inr rs' \<Longrightarrow>
     set rs \<subseteq> set rs' \<and> (\<forall>r \<in> set rs'. r \<in> set rs \<or>
       (\<exists>k \<in> set ks. resolve_relative_file env policy_root (sk_source_path k) = Inr r))"
proof (induction env policy_root ks rs arbitrary: rs' rule: add_skill_files.induct)
  case (1 env policy_root rs)
  then show ?case by simp
next
  case (2 env policy_root k ks rs)
  then obtain p where p: "resolve_relative_file env policy_root (sk_source_path k) = Inr p"
    and rest: "add_skill_files env policy_root ks (if list_ex (\<lambda>r. path_eq r p) rs then rs else rs @ [p]) = Inr rs'"
    by auto
  show ?case
    using "2.IH" [OF p rest] p by (auto split: if_splits)
qed

end
