(* ===== verification/RuntimeSafety.thy ===== *)
theory RuntimeSafety
  imports Runtime SampleHistory
begin

text \<open>
  What the runtime bridge guarantees of the card it hands to a worker and of the files the worker sees.
\<close>

section \<open>Issued briefs\<close>

text \<open>
  C29. A worker gets a context card from the ledger only for a brief that was issued and is still live:
  the cycle and the brief are unrevoked rows of the requested campaign, challenge and role, the stored
  cycle contains the brief, both validate now, the capability map and every skill file of the brief lie
  below the canonical policy root and have the declared digests, the policy root is not inside the
  challenge workspace, and the card is the text of that brief, within its declared budget.
\<close>

theorem runtime_brief_is_issued_and_verified:
  assumes "load_and_render_issued_brief env lenv lp (Some l) i camp ch role now = Ok v"
  shows "\<exists>b c cyc brief. b \<in> set (stage_brief_issuances l) \<and> c \<in> set (research_cycle_issuances l)
    \<and> bf_cycle_id b = i \<and> cy_cycle_id c = i \<and> bf_role b = role_name role
    \<and> cy_revoked_at_ms c = None \<and> bf_revoked_at_ms b = None
    \<and> js_from_str (en_brief lenv) (bf_brief_json b) = Some brief
    \<and> js_from_str (en_cycle lenv) (cy_cycle_json c) = Some cyc \<and> brief \<in> set (rc_stage_briefs cyc)
    \<and> ResearchCycleRecord_validate cyc now = Ok () \<and> StageBrief_validate brief now = Ok ()
    \<and> matches_target brief camp ch role
    \<and> file_verified env (vb_policy_root v) (bf_capability_map_path b) (sb_capability_map_sha256 brief)
    \<and> list_all (\<lambda>k. file_verified env (vb_policy_root v) (sk_source_path k) (sk_sha256 k)) (vb_skills v)
    \<and> vb_skills v = sb_skills brief
    \<and> fs_canonicalize (re_fs env) (bf_workspace_root b) = Some (vb_policy_root v)
    \<and> \<not> path_starts_with (vb_policy_root v) (vb_workspace_root v)
    \<and> vb_role v = role \<and> vb_cycle_id v = Some i
    \<and> vb_rendered v = brief_text brief \<and> length (vb_rendered v) \<le> sb_estimated_bytes brief"
proof -
  obtain pb v' where pb: "load_stage_brief_issuance lenv l i camp ch role now = Ok pb"
    and v': "verify_and_render_brief env (pb_stage_brief pb) (pb_workspace_root pb) (pb_capability_map_path pb)
      camp ch role now = Ok v'"
    and v: "v = v'\<lparr> vb_cycle_id := Some (pb_cycle_id pb), vb_cycle_event_version := Some (pb_cycle_event_version pb) \<rparr>"
    using assms by (auto simp: load_and_render_issued_brief_def split: if_splits)
  obtain b c cyc where "b \<in> set (stage_brief_issuances l)" "c \<in> set (research_cycle_issuances l)"
    "bf_cycle_id b = i" "cy_cycle_id c = i" "bf_role b = role_name role"
    "cy_revoked_at_ms c = None" "bf_revoked_at_ms b = None"
    "js_from_str (en_brief lenv) (bf_brief_json b) = Some (pb_stage_brief pb)"
    "js_from_str (en_cycle lenv) (cy_cycle_json c) = Some cyc" "pb_stage_brief pb \<in> set (rc_stage_briefs cyc)"
    "ResearchCycleRecord_validate cyc now = Ok ()" "pb_cycle_id pb = i"
    "pb_workspace_root pb = bf_workspace_root b" "pb_capability_map_path pb = bf_capability_map_path b"
    using pb by (auto simp: load_stage_brief_issuance_def split: if_splits dest!: fetch_optional_SomeD)
  with verify_and_render_brief_ok [OF v'] v show ?thesis
    by (intro exI [of _ b] exI [of _ c] exI [of _ cyc] exI [of _ "pb_stage_brief pb"]) auto
qed

section \<open>File visibility\<close>

text \<open>
  C30. The files a worker sees are its own workspace and the signed skills of its brief: whatever the
  boundary of a verified brief lets it read resolves inside the challenge workspace or is one of those
  skill files; it can write exactly when it is the solver, and then only inside the challenge workspace;
  and a red-team worker reads nothing of a parent workspace but a signed skill file.
\<close>

theorem role_sees_its_workspace_and_signed_skills_only:
  assumes "role_workspace_acl env v parents = Ok acl" and "fs_canonicalize (re_fs env) p = Some x"
    and "can_read (re_fs env) acl p"
  shows "(path_starts_with x (wa_challenge_root acl) \<or>
      (\<exists>k \<in> set (vb_skills v). \<exists>r. resolve_relative_file env (vb_policy_root v) (sk_source_path k) = Ok r
         \<and> path_starts_with x r))
    \<and> (can_write (re_fs env) acl p \<longleftrightarrow> vb_role v = Solver \<and> path_starts_with x (wa_challenge_root acl))
    \<and> (vb_role v = RedTeam \<and> parent \<in> set parents \<and> fs_canonicalize (re_fs env) parent = Some base
        \<and> path_starts_with x base \<longrightarrow>
      (\<exists>k \<in> set (vb_skills v). \<exists>r. resolve_relative_file env (vb_policy_root v) (sk_source_path k) = Ok r
         \<and> path_starts_with x r))"
proof -
  obtain acl0 rs where acl0: "for_role (re_fs env) (vb_workspace_root v) (vb_role v) = Ok acl0"
    and iso: "validate_clean_room_isolation (re_fs env) acl0 parents = Ok ()"
    and rs: "add_skill_files env (vb_policy_root v) (vb_skills v) (wa_readable_roots acl0) = Ok rs"
    and acl: "acl = acl0\<lparr> wa_readable_roots := rs \<rparr>"
    using assms(1) by (auto simp: role_workspace_acl_def split: if_splits)
  note ok = for_role_ok [OF acl0]
  obtain r where r: "r \<in> set rs" "path_starts_with x r"
    using assms(2,3) acl by (auto simp: can_read_def is_within_any_def list_ex_iff)
  have workspace: "can_read (re_fs env) acl0 p \<and> path_starts_with x (wa_challenge_root acl)"
    if "r \<in> set (wa_readable_roots acl0)"
    using that r(2) assms(2) acl readable_in_root [OF acl0] path_starts_with_trans
    by (fastforce simp: can_read_def is_within_any_def list_ex_iff)
  have kinds: "r \<in> set (wa_readable_roots acl0) \<or>
      (\<exists>k \<in> set (vb_skills v). resolve_relative_file env (vb_policy_root v) (sk_source_path k) = Ok r)"
    using add_skill_files_set [OF rs] r(1) by blast
  have writes: "can_write (re_fs env) acl p \<longleftrightarrow> vb_role v = Solver \<and> path_starts_with x (wa_challenge_root acl)"
    using ok acl assms(2) by (auto simp: can_write_def is_within_any_def)
  have "\<not> can_read (re_fs env) acl0 p"
    if "vb_role v = RedTeam" "parent \<in> set parents" "fs_canonicalize (re_fs env) parent = Some base"
      "path_starts_with x base"
    using isolated_from_parents [OF _ iso] acl0 that assms(2) by metis
  then show ?thesis
    using kinds workspace writes r(2) by blast
qed

section \<open>A verified solver brief\<close>

text \<open>The issued brief of the sample history, with the two files it refers to below \<open>/p\<close>.\<close>

definition sample_runtime :: RuntimeEnv where
  "sample_runtime =
     \<lparr> re_fs = \<lparr> fs_canonicalize = (\<lambda>p. if p \<in> set [''/p'', ''/w'', ''/w/a'', ''/p/map'',
            ''/p/.agents/skills/bohrium-bohr/SKILL.md''] then Some p else None),
          fs_is_dir = (\<lambda>p. p \<in> set [''/p'', ''/w'']),
          fs_is_file = (\<lambda>p. p \<in> set [''/w/a'', ''/p/map'', ''/p/.agents/skills/bohrium-bohr/SKILL.md'']) \<rparr>,
       re_read = (\<lambda>p. if p = ''/p/map'' then Some ''map'' else Some ''skill''),
       re_sha256 = (\<lambda>b. replicate 32 (if b = ''map'' then CHR 0xBB else CHR 0xAA)),
       re_bundle = (\<lambda>_. None) \<rparr>"

definition sample_verified :: VerifiedStageBrief where
  "sample_verified =
     (case verify_and_render_brief sample_runtime (sample_brief\<lparr> sb_challenge_id := ''c1'' \<rparr>) ''/p'' ''map'' ''camp'' ''c1''
             Solver 60 of Inr v \<Rightarrow> v)"

lemma sample_verification:
  "verify_and_render_brief sample_runtime (sample_brief\<lparr> sb_challenge_id := ''c1'' \<rparr>) ''/p'' ''map'' ''camp'' ''c1''
     Solver 60 = Ok sample_verified"
proof -
  have "\<not> isl (verify_and_render_brief sample_runtime (sample_brief\<lparr> sb_challenge_id := ''c1'' \<rparr>) ''/p'' ''map'' ''camp'' ''c1''
     Solver 60)"
    by code_simp
  then show ?thesis
    by (auto simp: sample_verified_def split: sum.splits)
qed

lemma sample_issued_load:
  "load_stage_brief_issuance run_env sample_issued ''cycle0'' ''camp'' ''c1'' Solver 60 =
     Ok \<lparr> pb_cycle_id = ''cycle0'', pb_campaign_id = ''camp'', pb_challenge_id = ''c1'', pb_role = Solver,
          pb_stage_brief = sample_brief\<lparr> sb_challenge_id := ''c1'' \<rparr>, pb_workspace_root = ''/p'',
          pb_capability_map_path = ''map'', pb_cycle_event_version = 1 \<rparr>"
  by (simp add: load_stage_brief_issuance_def sample_issued_def sample_documents sample_research_fields sample_names
      role_name_def)

lemma sample_runtime_load:
  "load_and_render_issued_brief sample_runtime run_env ''/l'' (Some sample_issued) ''cycle0'' ''camp'' ''c1'' Solver 60 =
     Ok (sample_verified\<lparr> vb_cycle_id := Some ''cycle0'', vb_cycle_event_version := Some 1 \<rparr>)"
  by (simp add: load_and_render_issued_brief_def sample_issued_load sample_verification is_absolute_def starts_with_def)

theorem runtime_brief_is_issued_and_verified_witness:
  "\<exists>v. load_and_render_issued_brief sample_runtime run_env ''/l'' (Some sample_issued) ''cycle0'' ''camp'' ''c1'' Solver 60 = Ok v
     \<and> vb_role v = Solver \<and> vb_cycle_id v = Some ''cycle0''"
  using runtime_brief_is_issued_and_verified [OF sample_runtime_load] sample_runtime_load by blast

lemma sample_visibility:
  "\<exists>acl. role_workspace_acl sample_runtime sample_verified [] = Ok acl \<and> wa_challenge_root acl = ''/w''
     \<and> can_read (re_fs sample_runtime) acl ''/w/a''"
proof -
  have "case role_workspace_acl sample_runtime sample_verified [] of
      Inr acl \<Rightarrow> wa_challenge_root acl = ''/w'' \<and> can_read (re_fs sample_runtime) acl ''/w/a'' | Inl _ \<Rightarrow> False"
    by code_simp
  then show ?thesis
    by (auto split: sum.splits)
qed

theorem role_sees_its_workspace_and_signed_skills_only_witness:
  "\<exists>acl. role_workspace_acl sample_runtime sample_verified [] = Ok acl
     \<and> can_read (re_fs sample_runtime) acl ''/w/a'' \<and> can_write (re_fs sample_runtime) acl ''/w/a''"
proof -
  obtain acl where acl: "role_workspace_acl sample_runtime sample_verified [] = Ok acl" "wa_challenge_root acl = ''/w''"
    "can_read (re_fs sample_runtime) acl ''/w/a''"
    using sample_visibility by blast
  have facts: "fs_canonicalize (re_fs sample_runtime) ''/w/a'' = Some ''/w/a''" "path_starts_with ''/w/a'' ''/w''"
    "vb_role sample_verified = Solver"
    by code_simp+
  have "can_write (re_fs sample_runtime) acl ''/w/a''"
    using role_sees_its_workspace_and_signed_skills_only [OF acl(1) facts(1) acl(3)] facts acl(2) by simp
  with acl show ?thesis
    by blast
qed

end
