(* ===== verification/SubmitGate.thy ===== *)
theory SubmitGate
  imports ExecutionGate ProbeGate TraceBuilder Preflight Reservations IdentityPool ThreadBindings
begin

text \<open>
  The submission tool of the agent: \<open>SolverGuardSubmitHandler\<close> with \<open>validate_policy_file_digest\<close> and
  \<open>validate_submission_contract_files\<close> of \<open>core/src/tools/handlers/solver_guard.rs\<close>.  The tool composes
  every gate of the guard with the ledger.

  \<open>SubmitEnv\<close> holds what the process gives it: the environment variables (nothing for one that is unset
  or not Unicode), the clock, the identity of the live thread, the process id, the value of
  \<open>DRY_RUN_SEQUENCE\<close>, the typed parsers, \<open>hex\<close> and Ed25519, and the files.  The ledger is the model's, or
  nothing when it cannot be opened; a file that does not exist yet is the empty ledger.
\<close>

record SolverGuardSubmitArgs =
  sa_channel :: "string option"
  sa_identity :: "string option"
  sa_identity_class :: "string option"
  sa_campaign_id :: "string option"
  sa_lease_id :: "string option"
  sa_challenge_id :: "string option"
  sa_owner :: "string option"
  sa_cli_path :: string
  sa_workspace :: string
  sa_estimated_cost_usd :: "f64 option"
  sa_trace_path :: string
  sa_run_log_path :: string
  sa_artifact_manifest_path :: string
  sa_execution_manifest_path :: string
  sa_channel_probe_path :: string
  sa_channel_challenge_response_path :: string
  sa_channel_attempts_response_path :: string
  sa_provider :: "string option"
  sa_model :: "string option"
  sa_content_sha256 :: string
  sa_dry_run :: bool

record SubmitEnv =
  su_var :: "string \<Rightarrow> string option"
  su_now_ms :: "int option"
  su_session_id :: string
  su_thread_id :: string
  su_pid :: nat
  su_sequence :: nat
  su_files :: Files
  su_policy :: "string \<Rightarrow> Policy option"
  su_contract :: "string \<Rightarrow> ChallengeContract option"
  su_probe :: "string \<Rightarrow> ChannelProbeEvidence option"
  su_hex :: "string \<Rightarrow> string option"
  su_key :: "string \<Rightarrow> (string \<Rightarrow> string \<Rightarrow> bool) option"
  su_ledger_env :: Env

text \<open>The ledger and the gates see the same files.\<close>

definition submit_env :: "SubmitEnv \<Rightarrow> Env" where
  "submit_env env = (su_ledger_env env)\<lparr> en_fs := fl_fs (su_files env), en_read := fl_read (su_files env),
     en_sha256 := fl_sha256 (su_files env) \<rparr>"

definition var_or_default :: "SubmitEnv \<Rightarrow> string \<Rightarrow> string" where
  "var_or_default env name = (case su_var env name of Some v \<Rightarrow> v | None \<Rightarrow> [])"

definition non_empty :: "string option \<Rightarrow> string option" where
  "non_empty v = (case v of Some s \<Rightarrow> if is_blank s then None else Some s | None \<Rightarrow> None)"

lemma non_empty_Some [simp]: "non_empty v = Some s \<longleftrightarrow> v = Some s \<and> \<not> is_blank s"
  by (auto simp: non_empty_def split: option.splits)

section \<open>The policy file\<close>

text \<open>A message, a message with the text of an outside error, or the error of a called gate.\<close>

datatype FileGateError = FileGate string | FileGateBy string | FileGateContract CoordinationError
  | FileGateSignature PreflightError

definition MAX_FILE_BYTES :: nat where
  "MAX_FILE_BYTES = 1024 * 1024"

definition MAX_CONTRACT_BYTES :: nat where
  "MAX_CONTRACT_BYTES = 256 * 1024"

definition validate_policy_file_digest :: "SubmitEnv \<Rightarrow> string \<Rightarrow> string \<Rightarrow> FileGateError + unit" where
  "validate_policy_file_digest env policy_file expected_digest =
     (let f = su_files env in
      if is_blank policy_file then Err (FileGate ''policy file is required'')
      else if \<not> is_absolute policy_file then Err (FileGate ''policy file must be an absolute path'')
      else if \<not> is_hex 64 expected_digest
      then Err (FileGate ''ASCODEX_POLICY_SHA256 must be a 64-character SHA-256'')
      else
      and_then (ok_or (fl_read f policy_file) (FileGateBy ''cannot read Guard policy for digest: '')) (\<lambda>policy_bytes.
      if MAX_FILE_BYTES < length policy_bytes then Err (FileGate ''Guard policy exceeds 1 MiB'')
      else let actual_digest = sha256_bytes (fl_sha256 f) policy_bytes
      in if \<not> eq_ignore_ascii_case actual_digest expected_digest
      then Err (FileGate (''policy digest mismatch: expected '' @ expected_digest @ '', got '' @ actual_digest))
      else
      and_then (map_err (\<lambda>_. FileGateBy ''cannot read policy signature file: '')
          (read_to_string (fl_read f) (policy_file @ ''.sig''))) (\<lambda>signature_text.
      map_err FileGateSignature (verify_policy_signature (su_hex env) (su_key env) (\<lambda>k. k) policy_bytes
        (trim signature_text) ASCODEX_TRUST_ANCHOR_PUBLIC_KEY_HEX))))"

section \<open>The contract\<close>

definition contract_path_ok :: "Files \<Rightarrow> string \<Rightarrow> string \<times> string \<Rightarrow> FileGateError + unit" where
  "contract_path_ok f workspace = (\<lambda>(name, path).
     if \<not> is_absolute path then Err (FileGate (name @ '' must be an absolute path''))
     else
     and_then (ok_or (fs_canonicalize (fl_fs f) path) (FileGateBy (''cannot resolve '' @ name @ '': ''))) (\<lambda>canonical.
     and_then (ok_or (fs_canonicalize (fl_fs f) workspace) (FileGateBy ''cannot resolve workspace: '')) (\<lambda>canonical_workspace.
     fail_if (\<not> path_starts_with canonical canonical_workspace)
       (FileGate (name @ '' is outside the assigned workspace'')))))"

definition validate_submission_contract_files ::
  "SubmitEnv \<Rightarrow> string \<Rightarrow> string \<Rightarrow> string \<Rightarrow> string \<Rightarrow> int \<Rightarrow> FileGateError + unit" where
  "validate_submission_contract_files env workspace contract_file fingerprint_input_file expected_challenge_id now_ms =
     (let f = su_files env in
      if is_blank contract_file \<or> is_blank fingerprint_input_file
      then Err (FileGate ''ASCODEX_CONTRACT_FILE and ASCODEX_CONTRACT_INPUT_FILE are required'')
      else
      and_then (checks (map (contract_path_ok f workspace)
          [(''ASCODEX_CONTRACT_FILE'', contract_file), (''ASCODEX_CONTRACT_INPUT_FILE'', fingerprint_input_file)])) (\<lambda>_.
      and_then (ok_or (fl_read f contract_file) (FileGateBy ''cannot read typed ChallengeContract: '')) (\<lambda>contract_bytes.
      if MAX_CONTRACT_BYTES < length contract_bytes
      then Err (FileGate ''typed ChallengeContract exceeds 256 KiB'')
      else
      and_then (ok_or (su_contract env contract_bytes) (FileGateBy ''invalid typed ChallengeContract: '')) (\<lambda>contract.
      if cc_challenge_id contract \<noteq> expected_challenge_id
      then Err (FileGate (''contract challenge `'' @ cc_challenge_id contract
             @ ''` does not match submission challenge `'' @ expected_challenge_id @ ''`''))
      else
      and_then (ok_or (fl_read f fingerprint_input_file)
          (FileGateBy ''cannot read canonical fingerprint input: '')) (\<lambda>fingerprint_input.
      if MAX_FILE_BYTES < length fingerprint_input
      then Err (FileGate ''canonical fingerprint input exceeds 1 MiB'')
      else
      and_then (map_err FileGateContract (verify_fingerprint_input (fl_sha256 f) contract fingerprint_input)) (\<lambda>_.
      map_err FileGateContract (formal_admission contract expected_challenge_id now_ms)))))))"

section \<open>The response\<close>

datatype SubmitReason = Said string | SaidBy string | PolicyGate FileGateError | ContractGate FileGateError
  | TraceFailed TraceValidationError | ExecutionFailed TraceValidationError | CrossFailed TraceValidationError
  | RedlineFailed RedlineValidationError | ProbeFailed ChannelProbeValidationError | PoolFailed LedgerError
  | BindingFailed LedgerError | ReserveFailed BrokerError | ReleaseFailed BrokerError

text \<open>The JSON object; a field that is absent is nothing, \<open>dry_run\<close> is present and true, or absent.\<close>

record SubmitResponse =
  sr_allowed :: bool
  sr_status :: string
  sr_dry_run :: bool
  sr_reason :: "SubmitReason option"
  sr_failures :: "GateFailure list option"
  sr_redline_findings :: "RedlineFinding list option"
  sr_reservation :: "string option"

definition refused :: "string \<Rightarrow> bool \<Rightarrow> SubmitReason \<Rightarrow> SubmitResponse" where
  "refused status dry reason =
     \<lparr> sr_allowed = False, sr_status = status, sr_dry_run = dry, sr_reason = Some reason, sr_failures = None,
       sr_redline_findings = None, sr_reservation = None \<rparr>"

definition blocked :: "SubmitReason \<Rightarrow> SubmitResponse" where
  "blocked reason = refused ''blocked'' True reason"

definition gated_ok :: SubmitResponse where
  "gated_ok =
     \<lparr> sr_allowed = True, sr_status = ''gated_ok'', sr_dry_run = True, sr_reason = None, sr_failures = Some [],
       sr_redline_findings = None, sr_reservation = Some ''reserved_then_released'' \<rparr>"

section \<open>The request\<close>

definition resolve_field :: "SubmitEnv \<Rightarrow> string option \<Rightarrow> string \<Rightarrow> string \<Rightarrow> string" where
  "resolve_field env supplied env_name policy_value =
     (case non_empty supplied of
        Some v \<Rightarrow> v
      | None \<Rightarrow> (case non_empty (su_var env env_name) of Some v \<Rightarrow> v | None \<Rightarrow> policy_value))"

definition identity_class_default :: "Policy \<Rightarrow> string \<Rightarrow> string \<Rightarrow> string \<Rightarrow> string" where
  "identity_class_default p identity ch owner =
     (case List.find (\<lambda>e. ip_name e = identity \<and> ip_challenge_id e = ch \<and> ip_owner e = owner) (po_identity_pool p) of
        Some e \<Rightarrow> ip_identity_class e | None \<Rightarrow> [])"

definition TraceEvidence_default :: TraceEvidence where
  "TraceEvidence_default =
     \<lparr> te_real_execution = False, te_paired_tool_events = False, te_artifact_provenance = False \<rparr>"

text \<open>The request, until the trace evidence is known with its default.\<close>

definition submission_request :: "SubmitEnv \<Rightarrow> SolverGuardSubmitArgs \<Rightarrow> Policy \<Rightarrow> int \<Rightarrow> AdmissionRequest" where
  "submission_request env a p now_ms =
     (let ch = resolve_field env (sa_challenge_id a) ''ASCODEX_CHALLENGE_ID'' (id_challenge_id (po_identity p));
          identity = resolve_field env (sa_identity a) ''ASCODEX_IDENTITY'' (id_name (po_identity p));
          owner = resolve_field env (sa_owner a) ''ASCODEX_OWNER'' (id_owner (po_identity p))
      in \<lparr> rq_channel = resolve_field env (sa_channel a) ''ASCODEX_CHANNEL'' ''harbor'', rq_identity = identity,
           rq_identity_class = resolve_field env (sa_identity_class a) ''ASCODEX_IDENTITY_CLASS''
             (identity_class_default p identity ch owner),
           rq_challenge_id = ch, rq_owner = owner, rq_cli_path = sa_cli_path a, rq_workspace = sa_workspace a,
           rq_estimated_cost_usd = (case sa_estimated_cost_usd a of Some c \<Rightarrow> c | None \<Rightarrow> Fin 0),
           rq_trace = TraceEvidence_default,
           rq_provider = resolve_field env (sa_provider a) ''ASCODEX_MODEL_PROVIDER'' (mo_provider (po_model p)),
           rq_model = resolve_field env (sa_model a) ''ASCODEX_MODEL'' (mo_model (po_model p)),
           rq_content_sha256 = sa_content_sha256 a, rq_now_ms = now_ms, rq_bohr_job = None \<rparr>)"

definition submission_campaign :: "SubmitEnv \<Rightarrow> SolverGuardSubmitArgs \<Rightarrow> Policy \<Rightarrow> string" where
  "submission_campaign env a p =
     resolve_field env (sa_campaign_id a) ''ASCODEX_CAMPAIGN_ID'' (id_challenge_id (po_identity p))"

section \<open>The gates before the ledger\<close>

definition load_policy :: "SubmitEnv \<Rightarrow> SubmitResponse + Policy" where
  "load_policy env =
     and_then (ok_or (non_empty (su_var env ''ASCODEX_SOLVER_POLICY_FILE''))
         (refused ''blocked'' False (Said ''ASCODEX_SOLVER_POLICY_FILE is not configured''))) (\<lambda>policy_path.
     and_then (map_err (\<lambda>e. blocked (PolicyGate e))
         (validate_policy_file_digest env policy_path (var_or_default env ''ASCODEX_POLICY_SHA256''))) (\<lambda>_.
     and_then (map_err (\<lambda>_. refused ''blocked'' False (SaidBy ''cannot read Guard policy: ''))
         (read_to_string (fl_read (su_files env)) policy_path)) (\<lambda>yaml.
     ok_or (su_policy env yaml) (refused ''blocked'' False (SaidBy ''invalid Guard policy: '')))))"

definition evidence_gates ::
  "SubmitEnv \<Rightarrow> SolverGuardSubmitArgs \<Rightarrow> Policy \<Rightarrow> string \<Rightarrow> int \<Rightarrow> SubmitResponse + TraceEvidence" where
  "evidence_gates env a p ch now_ms =
     (let f = su_files env; workspace = sa_workspace a in
      and_then (map_err (\<lambda>e. blocked (ContractGate e))
          (validate_submission_contract_files env workspace (var_or_default env ''ASCODEX_CONTRACT_FILE'')
             (var_or_default env ''ASCODEX_CONTRACT_INPUT_FILE'') ch now_ms)) (\<lambda>_.
      and_then (map_err (\<lambda>e. blocked (TraceFailed e))
          (validate_trace_evidence f workspace (sa_trace_path a) (sa_run_log_path a) (sa_artifact_manifest_path a))) (\<lambda>evidence.
      and_then (map_err (\<lambda>e. blocked (ExecutionFailed e))
          (validate_execution_record f workspace (sa_execution_manifest_path a) (sa_trace_path a) (sa_run_log_path a))) (\<lambda>execution.
      if xr_session_id execution \<noteq> su_session_id env \<or> xr_agent_id execution \<noteq> su_thread_id env
      then Err (blocked (Said ''execution record session/agent does not match the live invocation''))
      else
      and_then (map_err (\<lambda>e. blocked (CrossFailed e))
          (validate_cross_references f workspace (sa_execution_manifest_path a) (sa_artifact_manifest_path a))) (\<lambda>_.
      and_then (map_err (\<lambda>e. blocked (RedlineFailed e))
          (validate_redline_evidence f workspace (sa_trace_path a) (sa_run_log_path a) (sa_artifact_manifest_path a)
             (po_redline p))) (\<lambda>findings.
      if findings \<noteq> []
      then Err ((blocked (Said ''submission artifacts contain platform-feedback or external-solver references''))
                  \<lparr> sr_redline_findings := Some findings \<rparr>)
      else
      and_then (map_err (\<lambda>e. blocked (ProbeFailed e))
          (validate_channel_probe_evidence f (su_probe env) workspace (sa_channel_probe_path a)
             (sa_channel_challenge_response_path a) (sa_channel_attempts_response_path a) ch now_ms
             (cp_channel_probe_max_age_ms (po_channel p)))) (\<lambda>_.
      Ok evidence)))))))"

section \<open>The gates of the ledger\<close>

definition reservation_id :: "SubmitEnv \<Rightarrow> AdmissionRequest \<Rightarrow> string" where
  "reservation_id env q =
     ''dry-run-'' @ decimal (su_pid env) @ ''-'' @ decimal_int (rq_now_ms q) @ ''-''
     @ take_chars 16 (rq_content_sha256 q) @ ''-'' @ decimal (su_sequence env)"

definition open_ledger :: "SubmitEnv \<Rightarrow> Ledger option \<Rightarrow> SubmitResponse + Ledger" where
  "open_ledger env ledger =
     and_then (ok_or (non_empty (su_var env ''ASCODEX_SOLVER_LEDGER_FILE''))
         (blocked (Said ''ASCODEX_SOLVER_LEDGER_FILE is not configured''))) (\<lambda>ledger_path.
     if \<not> is_absolute ledger_path then Err (blocked (Said ''ASCODEX_SOLVER_LEDGER_FILE must be absolute''))
     else ok_or ledger (refused ''ledger_unavailable'' True (SaidBy ''cannot open Guard ledger: '')))"

text \<open>The pool of the ledger replaces the pool of the policy once it has an active entry.\<close>

definition effective_policy :: "Ledger \<Rightarrow> Policy \<Rightarrow> AdmissionRequest \<Rightarrow> SubmitResponse + Policy" where
  "effective_policy l p q =
     (case resolve_identity_pool l (rq_identity q) (rq_challenge_id q) (rq_owner q) (rq_identity_class q) of
        Inl e \<Rightarrow> Err (blocked (PoolFailed e))
      | Inr None \<Rightarrow> Ok p
      | Inr (Some e) \<Rightarrow> Ok (p\<lparr> po_identity_pool := [e] \<rparr>))"

definition ledger_gates ::
  "SubmitEnv \<Rightarrow> Ledger \<Rightarrow> Policy \<Rightarrow> AdmissionRequest \<Rightarrow> string \<Rightarrow> SubmitResponse + Policy" where
  "ledger_gates env l p q campaign_id =
     and_then (effective_policy l p q) (\<lambda>p.
     let admission = admit (en_fs (submit_env env)) (en_read (submit_env env)) (en_sha256 (submit_env env)) p q
     in if \<not> ad_allowed admission
     then Err \<lparr> sr_allowed = False, sr_status = ''blocked'', sr_dry_run = True, sr_reason = None,
            sr_failures = Some (ad_failures admission), sr_redline_findings = None, sr_reservation = None \<rparr>
     else
     and_then (map_err (\<lambda>e. blocked (BindingFailed e))
         (resolve_thread_cycle_binding_for_live_thread (submit_env env) l (su_thread_id env) (su_session_id env)
            Solver (rq_now_ms q))) (\<lambda>binding.
     if tb_challenge_id binding \<noteq> rq_challenge_id q \<or> tb_campaign_id binding \<noteq> campaign_id
     then Err (blocked (Said ''cycle binding challenge/campaign does not match the submission''))
     else Ok p))"

text \<open>The reservation is made and released; the ledger is what is stored afterwards.\<close>

definition hold_and_release :: "SubmitEnv \<Rightarrow> Ledger \<Rightarrow> Policy \<Rightarrow> AdmissionRequest \<Rightarrow> SubmitResponse \<times> Ledger" where
  "hold_and_release env l p q =
     (let i = reservation_id env q in
      case prepare (submit_env env) \<lparr> sb_policy = p, sb_ledger = l \<rparr> q i (ca_max_estimated_cost_usd (po_cadence p)) of
        Inl e \<Rightarrow> (blocked (ReserveFailed e), l)
      | Inr b \<Rightarrow>
          (case broker_release b i of
             Inl e \<Rightarrow> (refused ''ledger_degraded'' True (ReleaseFailed e), sb_ledger b)
           | Inr b' \<Rightarrow> (gated_ok, sb_ledger b')))"

section \<open>The tool\<close>

definition submission ::
  "SubmitEnv \<Rightarrow> SolverGuardSubmitArgs \<Rightarrow> SubmitResponse + Policy \<times> AdmissionRequest" where
  "submission env a =
     (if \<not> sa_dry_run a
      then Err (refused ''executor_unavailable'' False
             (Said ''ASCodex network submit executor is not enabled; use dry_run=true''))
      else
      and_then (ok_or (su_now_ms env) (blocked (SaidBy ''cannot read trusted Core time: ''))) (\<lambda>now_ms.
      and_then (load_policy env) (\<lambda>p.
      let q = submission_request env a p now_ms
      in if is_blank (rq_identity_class q)
      then Err (blocked (Said ''identity_class is required: supply it or bind the identity to the policy pool''))
      else
      and_then (evidence_gates env a p (rq_challenge_id q) now_ms) (\<lambda>evidence.
      Ok (p, q\<lparr> rq_trace := evidence \<rparr>)))))"

definition submit_preflight ::
  "SubmitEnv \<Rightarrow> SolverGuardSubmitArgs \<Rightarrow> Ledger option \<Rightarrow> SubmitResponse \<times> Ledger option" where
  "submit_preflight env a ledger =
     (case and_then (submission env a) (\<lambda>(p, q).
         and_then (open_ledger env ledger) (\<lambda>l.
         and_then (ledger_gates env l p q (submission_campaign env a p)) (\<lambda>p'. Ok (l, p', q)))) of
        Inl response \<Rightarrow> (response, ledger)
      | Inr (l, p, q) \<Rightarrow> (let (response, l') = hold_and_release env l p q in (response, Some l')))"

end
