(* ===== verification/SubmitSpec.thy ===== *)
theory SubmitSpec
  imports SubmitGate ExecutionSpec ProbeSpec
begin

text \<open>
  What an admitted submission has passed, and what the tool leaves in the ledger.
\<close>

section \<open>What the gates establish\<close>

definition policy_trusted :: "SubmitEnv \<Rightarrow> Policy \<Rightarrow> bool" where
  "policy_trusted env p \<longleftrightarrow>
     (\<exists>path bytes signature. su_var env ''ASCODEX_SOLVER_POLICY_FILE'' = Some path \<and> is_absolute path
        \<and> fl_read (su_files env) path = Some bytes \<and> length bytes \<le> MAX_FILE_BYTES
        \<and> eq_ignore_ascii_case (sha256_bytes (fl_sha256 (su_files env)) bytes) (var_or_default env ''ASCODEX_POLICY_SHA256'')
        \<and> fl_read (su_files env) (path @ ''.sig'') = Some signature
        \<and> verify_policy_signature (su_hex env) (su_key env) (\<lambda>k. k) bytes (trim signature)
            ASCODEX_TRUST_ANCHOR_PUBLIC_KEY_HEX = Ok ()
        \<and> su_policy env bytes = Some p)"

definition below :: "Files \<Rightarrow> string \<Rightarrow> string \<Rightarrow> bool" where
  "below f workspace path \<longleftrightarrow>
     (\<exists>ws p. fs_canonicalize (fl_fs f) workspace = Some ws \<and> fs_canonicalize (fl_fs f) path = Some p \<and> path_starts_with p ws)"

definition contract_admits :: "SubmitEnv \<Rightarrow> string \<Rightarrow> string \<Rightarrow> int \<Rightarrow> bool" where
  "contract_admits env workspace ch now_ms \<longleftrightarrow>
     (\<exists>cf inf raw input c. cf = var_or_default env ''ASCODEX_CONTRACT_FILE'' \<and> inf = var_or_default env ''ASCODEX_CONTRACT_INPUT_FILE''
        \<and> below (su_files env) workspace cf \<and> below (su_files env) workspace inf
        \<and> fl_read (su_files env) cf = Some raw \<and> fl_read (su_files env) inf = Some input
        \<and> su_contract env raw = Some c \<and> verify_fingerprint_input (fl_sha256 (su_files env)) c input = Ok ()
        \<and> formal_admission c ch now_ms = Ok ())"

text \<open>
  Trace, log, artifacts and run are backed by the files at the paths of the arguments, the run is of
  this session and thread, and the evidence is free of findings.
\<close>

definition evidence_admits :: "SubmitEnv \<Rightarrow> SolverGuardSubmitArgs \<Rightarrow> Policy \<Rightarrow> string \<Rightarrow> int \<Rightarrow> bool" where
  "evidence_admits env a p ch now_ms \<longleftrightarrow>
     (\<exists>ws trace steps run_log manifest x probe.
        fs_canonicalize (fl_fs (su_files env)) (sa_workspace a) = Some ws
        \<and> evidence_backed (su_files env) ws (sa_trace_path a) (sa_run_log_path a) (sa_artifact_manifest_path a)
            trace steps run_log manifest
        \<and> trace_spec (su_files env) steps run_log \<and> artifacts_backed (su_files env) ws trace steps manifest
        \<and> validate_execution_record (su_files env) (sa_workspace a) (sa_execution_manifest_path a) (sa_trace_path a)
            (sa_run_log_path a) = Ok x
        \<and> xr_session_id x = su_session_id env \<and> xr_agent_id x = su_thread_id env
        \<and> validate_cross_references (su_files env) (sa_workspace a) (sa_execution_manifest_path a)
            (sa_artifact_manifest_path a) = Ok ()
        \<and> execution_accepted (su_files env) (sa_workspace a) (sa_execution_manifest_path a) (sa_trace_path a)
            (sa_run_log_path a) (sa_artifact_manifest_path a) x
        \<and> validate_redline_evidence (su_files env) (sa_workspace a) (sa_trace_path a) (sa_run_log_path a)
            (sa_artifact_manifest_path a) (po_redline p) = Ok []
        \<and> validate_channel_probe_evidence (su_files env) (su_probe env) (sa_workspace a) (sa_channel_probe_path a)
            (sa_channel_challenge_response_path a) (sa_channel_attempts_response_path a) ch now_ms
            (cp_channel_probe_max_age_ms (po_channel p)) = Ok probe
        \<and> cp_challenge_id probe = ch)"

lemma validate_policy_file_digest_ok:
  assumes "validate_policy_file_digest env path d = Inr ()"
  shows "\<exists>bytes signature. is_absolute path \<and> fl_read (su_files env) path = Some bytes \<and> length bytes \<le> MAX_FILE_BYTES
    \<and> eq_ignore_ascii_case (sha256_bytes (fl_sha256 (su_files env)) bytes) d
    \<and> fl_read (su_files env) (path @ ''.sig'') = Some signature
    \<and> verify_policy_signature (su_hex env) (su_key env) (\<lambda>k. k) bytes (trim signature)
        ASCODEX_TRUST_ANCHOR_PUBLIC_KEY_HEX = Ok ()"
  using assms
  by (auto simp: validate_policy_file_digest_def Let_def read_to_string_def not_less split: if_splits option.splits)

lemma load_policy_ok: "load_policy env = Inr p \<Longrightarrow> policy_trusted env p"
  unfolding load_policy_def policy_trusted_def
  by (auto simp: read_to_string_def dest!: validate_policy_file_digest_ok split: if_splits option.splits)

lemma contract_path_ok: "contract_path_ok f workspace (n, path) = Inr () \<Longrightarrow> below f workspace path"
  by (auto simp: contract_path_ok_def below_def split: if_splits)

lemma validate_submission_contract_files_ok:
  assumes "validate_submission_contract_files env workspace (var_or_default env ''ASCODEX_CONTRACT_FILE'')
    (var_or_default env ''ASCODEX_CONTRACT_INPUT_FILE'') ch now_ms = Inr ()"
  shows "contract_admits env workspace ch now_ms"
  using assms unfolding validate_submission_contract_files_def contract_admits_def
  by (auto simp: Let_def dest!: contract_path_ok split: if_splits)

lemma evidence_gates_ok:
  assumes "evidence_gates env a p ch now_ms = Inr e"
  shows "contract_admits env (sa_workspace a) ch now_ms \<and> evidence_admits env a p ch now_ms"
proof -
  obtain x probe where contract: "validate_submission_contract_files env (sa_workspace a)
        (var_or_default env ''ASCODEX_CONTRACT_FILE'') (var_or_default env ''ASCODEX_CONTRACT_INPUT_FILE'') ch now_ms = Inr ()"
    and trace: "validate_trace_evidence (su_files env) (sa_workspace a) (sa_trace_path a) (sa_run_log_path a)
        (sa_artifact_manifest_path a) = Inr e"
    and x: "validate_execution_record (su_files env) (sa_workspace a) (sa_execution_manifest_path a) (sa_trace_path a)
        (sa_run_log_path a) = Inr x" "xr_session_id x = su_session_id env" "xr_agent_id x = su_thread_id env"
    and rest: "validate_cross_references (su_files env) (sa_workspace a) (sa_execution_manifest_path a)
        (sa_artifact_manifest_path a) = Inr ()"
      "validate_redline_evidence (su_files env) (sa_workspace a) (sa_trace_path a) (sa_run_log_path a)
        (sa_artifact_manifest_path a) (po_redline p) = Inr []"
    and probe: "validate_channel_probe_evidence (su_files env) (su_probe env) (sa_workspace a) (sa_channel_probe_path a)
        (sa_channel_challenge_response_path a) (sa_channel_attempts_response_path a) ch now_ms
        (cp_channel_probe_max_age_ms (po_channel p)) = Inr probe"
    using assms unfolding evidence_gates_def Let_def by (auto split: if_splits)
  obtain ws tr steps run_log manifest arts where
    ok: "fs_canonicalize (fl_fs (su_files env)) (sa_workspace a) = Some ws"
      "evidence_backed (su_files env) ws (sa_trace_path a) (sa_run_log_path a) (sa_artifact_manifest_path a)
        tr steps run_log manifest"
      "validate_trace_steps (su_files env) steps run_log = Inr ()"
      "validate_artifact_manifest (su_files env) ws manifest = Inr arts"
      "validate_trace_artifact_refs (su_files env) steps tr arts = Inr ()"
    using trace by (rule validate_trace_evidence_ok)
  have "cp_challenge_id probe = ch"
    using validate_channel_probe_evidence_ok [OF probe] by (simp add: probe_bound_def)
  then have "evidence_admits env a p ch now_ms"
    unfolding evidence_admits_def
    using ok(1,2,3) artifacts_backedI [OF ok(4,5)] x rest probe execution_acceptedI [OF x(1) rest(1)]
      validate_trace_steps_spec by metis
  with validate_submission_contract_files_ok [OF contract] show ?thesis ..
qed

lemma submission_ok:
  assumes "submission env a = Inr (p, q)"
  shows "\<exists>now_ms e. sa_dry_run a \<and> su_now_ms env = Some now_ms \<and> policy_trusted env p
    \<and> q = (submission_request env a p now_ms)\<lparr> rq_trace := e \<rparr> \<and> \<not> is_blank (rq_identity_class q)
    \<and> contract_admits env (sa_workspace a) (rq_challenge_id q) now_ms \<and> evidence_admits env a p (rq_challenge_id q) now_ms"
  using assms unfolding submission_def Let_def
  by (auto dest!: load_policy_ok evidence_gates_ok split: if_splits)

text \<open>The policy under which the request is admitted: the pool of the ledger first, once it has an active entry.\<close>

definition pool_of_ledger :: "Ledger \<Rightarrow> Policy \<Rightarrow> AdmissionRequest \<Rightarrow> Policy \<Rightarrow> bool" where
  "pool_of_ledger l p q p' \<longleftrightarrow>
     (\<exists>x. resolve_identity_pool l (rq_identity q) (rq_challenge_id q) (rq_owner q) (rq_identity_class q) = Ok x
        \<and> p' = (case x of None \<Rightarrow> p | Some e \<Rightarrow> p\<lparr> po_identity_pool := [e] \<rparr>))"

lemma ledger_gates_ok:
  assumes "ledger_gates env l p q camp = Inr p'"
  shows "pool_of_ledger l p q p'"
    and "ad_allowed (admit (en_fs (submit_env env)) (en_read (submit_env env)) (en_sha256 (submit_env env)) p' q)"
    and "\<exists>r \<in> set (thread_cycle_bindings l). bd_thread_id r = su_thread_id env \<and> bd_session_id r = su_session_id env
      \<and> bd_role r = role_name Solver \<and> bd_revoked_at_ms r = None
      \<and> bd_challenge_id r = rq_challenge_id q \<and> bd_campaign_id r = camp
      \<and> (\<exists>pb. load_stage_brief_issuance (submit_env env) l (bd_cycle_id r) camp (rq_challenge_id q) Solver (rq_now_ms q) = Ok pb)"
proof -
  obtain b where e: "effective_policy l p q = Inr p'"
    and adm: "ad_allowed (admit (en_fs (submit_env env)) (en_read (submit_env env)) (en_sha256 (submit_env env)) p' q)"
    and b: "resolve_thread_cycle_binding_for_live_thread (submit_env env) l (su_thread_id env) (su_session_id env)
      Solver (rq_now_ms q) = Inr b" "tb_challenge_id b = rq_challenge_id q" "tb_campaign_id b = camp"
    using assms unfolding ledger_gates_def Let_def by (auto split: if_splits)
  show "pool_of_ledger l p q p'"
    using e by (auto simp: effective_policy_def pool_of_ledger_def split: sum.splits option.splits)
  show "ad_allowed (admit (en_fs (submit_env env)) (en_read (submit_env env)) (en_sha256 (submit_env env)) p' q)"
    by (rule adm)
  obtain aid parent where "resolve_thread_cycle_binding (submit_env env) l (su_thread_id env) aid (su_session_id env)
      parent Solver (rq_now_ms q) = Inr b"
    using resolve_live_thread [OF b(1)] by blast
  then show "\<exists>r \<in> set (thread_cycle_bindings l). bd_thread_id r = su_thread_id env \<and> bd_session_id r = su_session_id env
      \<and> bd_role r = role_name Solver \<and> bd_revoked_at_ms r = None
      \<and> bd_challenge_id r = rq_challenge_id q \<and> bd_campaign_id r = camp
      \<and> (\<exists>pb. load_stage_brief_issuance (submit_env env) l (bd_cycle_id r) camp (rq_challenge_id q) Solver (rq_now_ms q) = Ok pb)"
    by (rule resolve_binding_row) (use b(2,3) in auto)
qed

text \<open>A gate that does not pass answers with a refusal.\<close>

definition refusal :: "SubmitResponse \<Rightarrow> bool" where
  "refusal r \<longleftrightarrow> \<not> sr_allowed r \<and> sr_status r \<noteq> ''ledger_degraded''"

lemma refusal_simps [simp]:
  "refusal (blocked reason)" "refusal (refused ''blocked'' dry reason)" "refusal (refused ''executor_unavailable'' dry reason)"
  "refusal (refused ''ledger_unavailable'' dry reason)" "refusal ((blocked reason)\<lparr> sr_redline_findings := fs \<rparr>)"
  "refusal \<lparr> sr_allowed = False, sr_status = ''blocked'', sr_dry_run = d, sr_reason = why, sr_failures = gs,
     sr_redline_findings = fs, sr_reservation = v \<rparr>"
  by (simp_all add: refusal_def refused_def blocked_def)

definition refusing :: "SubmitResponse + 'a \<Rightarrow> bool" where
  "refusing x \<longleftrightarrow> (\<forall>r. x = Inl r \<longrightarrow> refusal r)"

lemma refusing_simps [simp]:
  "refusing (Inr y)" "refusing (Inl r) \<longleftrightarrow> refusal r"
  by (simp_all add: refusing_def)

lemma refusing_ok_or [simp]: "refusal r \<Longrightarrow> refusing (ok_or v r)"
  by (cases v) simp_all

lemma refusing_map_err [simp]: "(\<And>e. refusal (g e)) \<Longrightarrow> refusing (map_err g z)"
  by (cases z) (simp_all add: map_err_def)

lemma refusing_and_then [intro]: "refusing x \<Longrightarrow> (\<And>y. refusing (f y)) \<Longrightarrow> refusing (and_then x f)"
  by (cases x) simp_all

lemma refusing_if [intro]: "(b \<Longrightarrow> refusing x) \<Longrightarrow> (\<not> b \<Longrightarrow> refusing y) \<Longrightarrow> refusing (if b then x else y)"
  by simp

lemma gates_refuse: "refusing (submission env a)" "refusing (open_ledger env ledger)" "refusing (ledger_gates env l p q camp)"
proof -
  have policy: "refusing (load_policy env)"
    unfolding load_policy_def by (intro refusing_and_then) simp_all
  have evidence: "refusing (evidence_gates env a p ch now_ms)" for p ch now_ms
    unfolding evidence_gates_def Let_def by (intro refusing_and_then refusing_if) simp_all
  show "refusing (submission env a)"
    unfolding submission_def Let_def by (intro refusing_and_then refusing_if) (simp_all add: policy evidence)
  show "refusing (open_ledger env ledger)"
    unfolding open_ledger_def by (intro refusing_and_then refusing_if) simp_all
  have "refusing (effective_policy l p q)"
    by (auto simp: effective_policy_def split: sum.splits option.splits)
  then show "refusing (ledger_gates env l p q camp)"
    unfolding ledger_gates_def Let_def by (intro refusing_and_then refusing_if) simp_all
qed

lemma submit_preflight_cases:
  assumes "submit_preflight env a (Some l) = (r, l')"
  obtains (refused) "refusal r" "l' = Some l"
  | (held) p q p' where "submission env a = Inr (p, q)" "ledger_gates env l p q (submission_campaign env a p) = Inr p'"
    "hold_and_release env l p' q = (r, the l')" "l' \<noteq> None"
proof -
  let ?x = "and_then (submission env a) (\<lambda>(p, q).
         and_then (open_ledger env (Some l)) (\<lambda>l.
         and_then (ledger_gates env l p q (submission_campaign env a p)) (\<lambda>p'. Ok (l, p', q))))"
  have "refusing ?x"
    by (auto intro!: refusing_and_then gates_refuse)
  moreover have "open_ledger env (Some l) = Inr l0 \<Longrightarrow> l0 = l" for l0
    by (auto simp: open_ledger_def split: if_splits)
  ultimately show ?thesis
    using assms refused held
    by (cases ?x) (fastforce simp: submit_preflight_def split: prod.splits)+
qed

section \<open>What is left in the ledger\<close>

lemma released_row:
  assumes "i \<notin> rs_id ` set rs"
  shows "map (hit_state i state) (rs @ [reservation_row i ch owner cost]) = rs @ [(reservation_row i ch owner cost)\<lparr> rs_state := state \<rparr>]"
proof -
  have "map (hit_state i state) rs = rs"
    using assms by (intro map_idI) (auto simp: hit_state_def)
  then show ?thesis
    by (simp add: hit_state_def reservation_row_def)
qed

lemma broker_held:
  assumes "prepare env b q i budget = Inr b'" and "books_ok (sb_ledger b)"
  obtains l2 where "broker_release b' i = Inr (b'\<lparr> sb_ledger := l2 \<rparr>)" "books_ok l2"
    "reservations l2 = reservations (sb_ledger b)
       @ [(reservation_row i (rq_challenge_id q) (rq_owner q) (rq_estimated_cost_usd q))\<lparr> rs_state := ''released'' \<rparr>]"
    "l2 = (sb_ledger b)\<lparr> reservations := reservations l2, attempts := attempts l2, reservation_dimensions := reservation_dimensions l2 \<rparr>"
proof -
  obtain limits l1 where l1: "reserve_with_identity_quota env (sb_ledger b) i (rq_challenge_id q) (rq_owner q) (rq_identity q)
      (rq_identity_class q) (rq_estimated_cost_usd q) budget (rq_content_sha256 q) (rq_now_ms q)
      (ca_min_interval_seconds (po_cadence (sb_policy b))) limits = Inr l1" and b': "b' = b\<lparr> sb_ledger := l1 \<rparr>"
    using assms(1) by (auto simp: prepare_def Let_def split: if_splits)
  note made = reserve_ok [OF l1]
  have ok: "books_ok l1"
    by (rule books_ok_reserve [OF l1 assms(2)])
  have "reservation_row i (rq_challenge_id q) (rq_owner q) (rq_estimated_cost_usd q) \<in> set (reservations l1)"
    by (simp add: made(1))
  then have "\<not> isl (release l1 i)"
    using finish_reserved_row [OF ok] unfolding release_def by (simp add: reservation_row_def)
  then obtain l2 where l2: "release l1 i = Inr l2"
    by (cases "release l1 i") simp_all
  note finished = finish_ok [OF l2 [unfolded release_def]]
  show ?thesis
  proof (rule that)
    show "broker_release b' i = Inr (b'\<lparr> sb_ledger := l2 \<rparr>)"
      by (simp add: broker_release_def b' l2)
    show "books_ok l2"
      by (rule books_ok_release [OF l2 ok])
    show "reservations l2 = reservations (sb_ledger b)
       @ [(reservation_row i (rq_challenge_id q) (rq_owner q) (rq_estimated_cost_usd q))\<lparr> rs_state := ''released'' \<rparr>]"
      unfolding finished(1) made(1) by (rule released_row [OF made(4)])
    show "l2 = (sb_ledger b)\<lparr> reservations := reservations l2, attempts := attempts l2, reservation_dimensions := reservation_dimensions l2 \<rparr>"
    proof -
      have "reservation_dimensions l2 = reservation_dimensions l1"
        by (subst finished(3)) simp
      then show ?thesis
        by (intro trans [OF finished(3)]) (subst made(6), simp)
    qed
  qed
qed

lemma hold_and_release_kept:
  assumes "books_ok l" and "hold_and_release env l p q = (r, l')"
  shows "books_ok l' \<and> sr_status r \<noteq> ''ledger_degraded''
    \<and> (\<forall>ch. challenge_reserved l' ch = challenge_reserved l ch)
    \<and> (if sr_allowed r then \<exists>row. rs_state row = ''released'' \<and> reservations l' = reservations l @ [row] else l' = l)
    \<and> l' = l\<lparr> reservations := reservations l', attempts := attempts l',
        reservation_dimensions := reservation_dimensions l' \<rparr>"
proof (cases "prepare (submit_env env) \<lparr> sb_policy = p, sb_ledger = l \<rparr> q (reservation_id env q)
    (ca_max_estimated_cost_usd (po_cadence p))")
  case (Inl e)
  then have "r = blocked (ReserveFailed e)" "l' = l"
    using assms(2) by (simp_all add: hold_and_release_def)
  then show ?thesis
    using assms(1) by (simp add: blocked_def refused_def)
next
  case (Inr b)
  let ?row = "(reservation_row (reservation_id env q) (rq_challenge_id q) (rq_owner q) (rq_estimated_cost_usd q))
    \<lparr> rs_state := ''released'' \<rparr>"
  obtain l2 where l2: "broker_release b (reservation_id env q) = Inr (b\<lparr> sb_ledger := l2 \<rparr>)" "books_ok l2"
      "reservations l2 = reservations l @ [?row]"
      "l2 = l\<lparr> reservations := reservations l2, attempts := attempts l2, reservation_dimensions := reservation_dimensions l2 \<rparr>"
    using broker_held [OF Inr] assms(1) by auto
  have "r = gated_ok" "l' = l2"
    using assms(2) by (simp_all add: hold_and_release_def Inr l2(1))
  then show ?thesis
    using l2(2-4) by (auto simp: gated_ok_def challenge_reserved_def is_reserved_def)
qed

lemma admission_gates:
  "ad_allowed (admit fs read sha256 p q) \<Longrightarrow> gate_passes fs read sha256 p q g"
  using admission_checks_ok [of fs read sha256 p q]
  by (cases "checks (admission_checks fs read sha256 p q)") (auto simp: admit_def denied_def)

end
