(* ===== verification/SubmitSafety.thy ===== *)
theory SubmitSafety
  imports SubmitSpec GateSafety SampleHistory
begin

text \<open>
  The two properties of the submission tool, with a submission that is admitted on the sample bundle,
  the sample policy and the ledger of the sample history.
\<close>

section \<open>A submission that is admitted\<close>

definition submit_policy :: Policy where
  "submit_policy =
     \<lparr> po_channel = \<lparr> cp_harbor_only = True, cp_workspace_root = ''/w'', cp_trusted_cli_root = None,
         cp_trusted_cli_sha256 = sample_hash, cp_channel_probe_max_age_ms = 60, cp_egress = EgressPolicy_default \<rparr>,
       po_identity = \<lparr> id_name = ''id'', id_challenge_id = ''c1'', id_owner = ''owner'' \<rparr>, po_identity_pool = [],
       po_cadence = \<lparr> ca_min_interval_seconds = 60, ca_max_estimated_cost_usd = Fin 5 \<rparr>,
       po_redline = \<lparr> rl_clean = True, rl_banned_terms = [] \<rparr>,
       po_trace = \<lparr> tp_real_execution = True, tp_paired_tool_events = True, tp_artifact_provenance = True \<rparr>,
       po_model = \<lparr> mo_provider = ''provider'', mo_model = ''model'' \<rparr>, po_bohr = BohrPolicy_default \<rparr>"

definition submit_vars :: "string \<Rightarrow> string option" where
  "submit_vars = map_of
     [(''ASCODEX_SOLVER_POLICY_FILE'', ''/w/policy.yaml''), (''ASCODEX_POLICY_SHA256'', sample_hash),
      (''ASCODEX_CONTRACT_FILE'', ''/w/contract.json''), (''ASCODEX_CONTRACT_INPUT_FILE'', ''/w/input.json''),
      (''ASCODEX_SOLVER_LEDGER_FILE'', ''/w/ledger''), (''ASCODEX_CAMPAIGN_ID'', ''camp'')]"

definition sample_submit_env :: SubmitEnv where
  "sample_submit_env =
     \<lparr> su_var = submit_vars, su_now_ms = Some 60, su_session_id = ''s1'', su_thread_id = ''worker'', su_pid = 7,
       su_sequence = 0, su_files = sample_files, su_policy = (\<lambda>t. if t = ''policy'' then Some submit_policy else None),
       su_contract = (\<lambda>t. if t = ''contract'' then Some (sample_contract None None) else None),
       su_probe = sample_probe_json,
       su_hex = (\<lambda>t. Some (replicate (if t = ''signature'' then 64 else 32) (CHR 0x01))),
       su_key = (\<lambda>_. Some (\<lambda>_ _. True)), su_ledger_env = run_env \<rparr>"

definition sample_args :: SolverGuardSubmitArgs where
  "sample_args =
     \<lparr> sa_channel = None, sa_identity = None, sa_identity_class = Some ''gold'', sa_campaign_id = None, sa_lease_id = None,
       sa_challenge_id = None, sa_owner = None, sa_cli_path = ''/w/cli'', sa_workspace = ''/w'',
       sa_estimated_cost_usd = None, sa_trace_path = ''trace.jsonl'', sa_run_log_path = ''run.log'',
       sa_artifact_manifest_path = ''artifacts.json'', sa_execution_manifest_path = ''execution.json'',
       sa_channel_probe_path = ''probe.json'', sa_channel_challenge_response_path = ''challenge.json'',
       sa_channel_attempts_response_path = ''attempts.json'', sa_provider = None, sa_model = None,
       sa_content_sha256 = sample_hash, sa_dry_run = True \<rparr>"

definition sample_admission :: AdmissionRequest where
  "sample_admission =
     \<lparr> rq_channel = ''harbor'', rq_identity = ''id'', rq_identity_class = ''gold'', rq_challenge_id = ''c1'',
       rq_owner = ''owner'', rq_cli_path = ''/w/cli'', rq_workspace = ''/w'', rq_estimated_cost_usd = Fin 0,
       rq_trace = TraceEvidence_default, rq_provider = ''provider'', rq_model = ''model'',
       rq_content_sha256 = sample_hash, rq_now_ms = 60, rq_bohr_job = None \<rparr>"

definition sample_backed :: TraceEvidence where
  "sample_backed = \<lparr> te_real_execution = True, te_paired_tool_events = True, te_artifact_provenance = True \<rparr>"

lemma sample_request_built: "submission_request sample_submit_env sample_args submit_policy 60 = sample_admission"
  by code_simp

lemma sample_campaign: "submission_campaign sample_submit_env sample_args submit_policy = ''camp''"
  by code_simp

lemma submit_env_fields:
  "su_files sample_submit_env = sample_files" "su_now_ms sample_submit_env = Some 60"
  "su_session_id sample_submit_env = ''s1''" "su_thread_id sample_submit_env = ''worker''"
  "su_policy sample_submit_env ''policy'' = Some submit_policy" "su_probe sample_submit_env = sample_probe_json"
  "su_contract sample_submit_env ''contract'' = Some (sample_contract None None)"
  by (simp_all add: sample_submit_env_def)

lemma submit_env_vars:
  "non_empty (su_var sample_submit_env ''ASCODEX_SOLVER_POLICY_FILE'') = Some ''/w/policy.yaml''"
  "var_or_default sample_submit_env ''ASCODEX_POLICY_SHA256'' = sample_hash"
  "var_or_default sample_submit_env ''ASCODEX_CONTRACT_FILE'' = ''/w/contract.json''"
  "var_or_default sample_submit_env ''ASCODEX_CONTRACT_INPUT_FILE'' = ''/w/input.json''"
  "non_empty (su_var sample_submit_env ''ASCODEX_SOLVER_LEDGER_FILE'') = Some ''/w/ledger''"
  by code_simp+

lemma sample_args_fields:
  "sa_dry_run sample_args" "sa_workspace sample_args = ''/w''" "sa_trace_path sample_args = ''trace.jsonl''"
  "sa_run_log_path sample_args = ''run.log''" "sa_artifact_manifest_path sample_args = ''artifacts.json''"
  "sa_execution_manifest_path sample_args = ''execution.json''" "sa_channel_probe_path sample_args = ''probe.json''"
  "sa_channel_challenge_response_path sample_args = ''challenge.json''"
  "sa_channel_attempts_response_path sample_args = ''attempts.json''"
  by (simp_all add: sample_args_def)

lemma small_files:
  "\<not> MAX_FILE_BYTES < length ''policy''" "\<not> MAX_CONTRACT_BYTES < length ''contract''" "\<not> MAX_FILE_BYTES < length ''input''"
  by (simp_all add: MAX_FILE_BYTES_def MAX_CONTRACT_BYTES_def)

lemma policy_facts:
  "is_blank ''/w/policy.yaml'' = False" "is_absolute ''/w/policy.yaml'' = True" "is_hex 64 sample_hash = True"
  "fl_read sample_files ''/w/policy.yaml'' = Some ''policy''"
  "eq_ignore_ascii_case (sha256_bytes (fl_sha256 sample_files) ''policy'') sample_hash = True"
  "read_to_string (fl_read sample_files) (''/w/policy.yaml'' @ ''.sig'') = Ok ''signature''"
  "read_to_string (fl_read sample_files) ''/w/policy.yaml'' = Ok ''policy''"
  "verify_policy_signature (su_hex sample_submit_env) (su_key sample_submit_env) (\<lambda>k. k) ''policy'' (trim ''signature'')
     ASCODEX_TRUST_ANCHOR_PUBLIC_KEY_HEX = Ok ()"
  by code_simp+

lemma sample_policy_loaded: "load_policy sample_submit_env = Ok submit_policy"
  by (simp only: load_policy_def validate_policy_file_digest_def submit_env_fields submit_env_vars policy_facts small_files Let_def
      and_then_simps ok_or_simps map_err_def sum.case if_False if_True not_True_eq_False not_False_eq_True)

lemma contract_facts:
  "is_blank ''/w/contract.json'' = False" "is_blank ''/w/input.json'' = False"
  "checks (map (contract_path_ok sample_files ''/w'')
     [(''ASCODEX_CONTRACT_FILE'', ''/w/contract.json''), (''ASCODEX_CONTRACT_INPUT_FILE'', ''/w/input.json'')]) = Ok ()"
  "fl_read sample_files ''/w/contract.json'' = Some ''contract''" "fl_read sample_files ''/w/input.json'' = Some ''input''"
  "verify_fingerprint_input (fl_sha256 sample_files) (sample_contract None None) ''input'' = Ok ()"
  "(cc_challenge_id (sample_contract None None) \<noteq> ''c1'') = False"
  by code_simp+

lemma sample_contract_accepted:
  "validate_submission_contract_files sample_submit_env ''/w'' ''/w/contract.json'' ''/w/input.json'' ''c1'' 60 = Ok ()"
proof -
  have "formal_admission (sample_contract None None) ''c1'' 60 = Ok ()"
    by simp
  then show ?thesis
    by (simp only: validate_submission_contract_files_def submit_env_fields contract_facts small_files Let_def
        and_then_simps ok_or_simps map_err_def sum.case if_False simp_thms)
qed

lemma evidence_facts:
  "xr_session_id x = ''s1'' \<Longrightarrow> xr_agent_id x = ''worker'' \<Longrightarrow>
     (xr_session_id x \<noteq> su_session_id sample_submit_env \<or> xr_agent_id x \<noteq> su_thread_id sample_submit_env) = False"
  "validate_redline_evidence sample_files ''/w'' ''trace.jsonl'' ''run.log'' ''artifacts.json'' (po_redline submit_policy) = Ok []"
  "cp_channel_probe_max_age_ms (po_channel submit_policy) = 60"
  by (simp add: submit_env_fields, code_simp, simp add: submit_policy_def)

definition sample_run :: ExecutionRecord where
  "sample_run = (case validate_execution_record sample_files ''/w'' ''execution.json'' ''trace.jsonl'' ''run.log'' of
     Inr x \<Rightarrow> x | Inl _ \<Rightarrow> undefined)"

lemma sample_run_accepted:
  "validate_execution_record sample_files ''/w'' ''execution.json'' ''trace.jsonl'' ''run.log'' = Ok sample_run"
  using sample_execution_accepted by (auto simp: sample_run_def split: sum.splits)

lemma sample_run_identity: "xr_session_id sample_run = ''s1''" "xr_agent_id sample_run = ''worker''"
  by code_simp+

lemma sample_evidence_admitted: "evidence_gates sample_submit_env sample_args submit_policy ''c1'' 60 = Ok sample_backed"
  by (simp only: evidence_gates_def Let_def submit_env_fields submit_env_vars sample_args_fields sample_contract_accepted
      sample_trace_accepted sample_run_accepted evidence_facts sample_run_identity sample_cross_accepted sample_probe_admitted
      sample_backed_def and_then_simps map_err_def sum.case if_False if_True simp_thms)

definition sample_submission :: AdmissionRequest where
  "sample_submission = sample_admission\<lparr> rq_trace := sample_backed \<rparr>"

lemma submission_fields:
  "rq_identity_class sample_admission = ''gold''" "rq_challenge_id sample_admission = ''c1''"
  "rq_challenge_id sample_submission = ''c1''" "rq_now_ms sample_submission = 60"
  "is_blank ''gold'' = False"
  by (simp_all add: sample_submission_def sample_admission_def)

lemma sample_submission_accepted:
  "submission sample_submit_env sample_args = Ok (submit_policy, sample_submission)"
  by (simp only: submission_def submit_env_fields sample_args_fields sample_policy_loaded sample_request_built
      submission_fields sample_evidence_admitted sample_submission_def Let_def and_then_simps ok_or_simps if_False if_True
      simp_thms)

lemma sample_admitted:
  "admit (en_fs (submit_env sample_submit_env)) (en_read (submit_env sample_submit_env))
     (en_sha256 (submit_env sample_submit_env)) submit_policy sample_submission = allow"
proof -
  have "en_fs (submit_env sample_submit_env) = fl_fs sample_files"
    "en_read (submit_env sample_submit_env) = fl_read sample_files"
    "en_sha256 (submit_env sample_submit_env) = fl_sha256 sample_files"
    by (simp_all add: submit_env_def submit_env_fields)
  moreover have "admit (fl_fs sample_files) (fl_read sample_files) (fl_sha256 sample_files) submit_policy sample_submission = allow"
    by code_simp
  ultimately show ?thesis
    by (simp only:)
qed

lemma submit_ledger_env:
  "en_brief (submit_env sample_submit_env) = en_brief run_env" "en_cycle (submit_env sample_submit_env) = en_cycle run_env"
  "sha256_bytes (en_sha256 (submit_env sample_submit_env)) v = digest CHR ''a''"
  by (simp_all add: submit_env_def sample_submit_env_def sample_files_def sha256_bytes_def sample_digest)

lemma sample_live:
  "\<exists>b. resolve_thread_cycle_binding_for_live_thread (submit_env sample_submit_env) sample_bound ''worker'' ''s1'' Solver 60 = Ok b
     \<and> tb_challenge_id b = ''c1'' \<and> tb_campaign_id b = ''camp''"
proof -
  have tables: "research_cycle_issuances sample_bound = research_cycle_issuances sample_issued"
    "stage_brief_issuances sample_bound = stage_brief_issuances sample_issued"
    by (simp_all add: sample_bound_def)
  have "\<exists>pb. load_stage_brief_issuance (submit_env sample_submit_env) sample_bound ''cycle0'' ''camp'' ''c1'' Solver 60 = Ok pb"
    by (simp add: tables load_stage_brief_issuance_def sample_issued_def submit_ledger_env sample_documents
        sample_research_fields sample_names role_name_def)
  moreover have "load_active_cycle_for_binding (submit_env sample_submit_env) sample_bound ''cycle0'' ''camp'' ''c1'' ''lease-chief'' 1 60
      = Ok sample_research"
    by (simp add: tables load_active_cycle_for_binding_def sample_issued_def submit_ledger_env sample_documents
        sample_research_fields sample_names)
  moreover obtain t where "thread_cycle_bindings sample_bound = t" "t = thread_cycle_bindings sample_bound"
    by blast
  ultimately show ?thesis
    by (auto simp: resolve_thread_cycle_binding_for_live_thread_def resolve_thread_cycle_binding_def sample_bound_def
        sample_issued_def sample_names role_name_def parse_role_name_def)
qed

lemma sample_gates:
  "ledger_gates sample_submit_env sample_bound submit_policy sample_submission ''camp'' = Ok submit_policy"
proof -
  obtain b where b: "resolve_thread_cycle_binding_for_live_thread (submit_env sample_submit_env) sample_bound ''worker'' ''s1'' Solver 60 = Ok b"
    "tb_challenge_id b = ''c1''" "tb_campaign_id b = ''camp''"
    using sample_live by blast
  have pool: "effective_policy sample_bound submit_policy sample_submission = Ok submit_policy"
    by code_simp
  have allowed: "ad_allowed allow"
    by (simp add: allow_def)
  show ?thesis
    by (simp only: ledger_gates_def pool sample_admitted allowed submission_fields submit_env_fields b Let_def and_then_simps
        map_err_def sum.case if_False if_True simp_thms)
qed

lemma sample_books: "reservations sample_bound = []" "attempts sample_bound = []" "reservation_dimensions sample_bound = []"
  by (simp_all add: sample_bound_def sample_issued_def sample_logged_def sample_leases_def initialize_def)

lemma sample_submission_prepared:
  "\<exists>b. prepare (submit_env sample_submit_env) \<lparr> sb_policy = submit_policy, sb_ledger = sample_bound \<rparr> sample_submission
     i (Fin 5) = Ok b"
proof -
  have fields: "po_identity_pool submit_policy = []" "ca_min_interval_seconds (po_cadence submit_policy) = 60"
    "rq_challenge_id sample_submission = ''c1''" "rq_owner sample_submission = ''owner''" "rq_identity sample_submission = ''id''"
    "rq_estimated_cost_usd sample_submission = Fin 0" "ad_allowed allow"
    by (simp_all add: submit_policy_def sample_submission_def sample_admission_def allow_def)
  show ?thesis
    by (simp add: prepare_def sample_admitted fields prepare_quota_def reserve_with_identity_quota_def
        reserve_input_checks_def challenge_reserved_def counted_attempts_def sample_books sql_sum_def sql_max_def
        reservation_inserts_def insert_row_def too_soon_def f64_add_finite)
qed

lemma sample_bound_books: "books_ok sample_bound"
  by (simp add: books_ok_def sample_books)

lemma sample_opened: "open_ledger sample_submit_env (Some sample_bound) = Ok sample_bound"
proof -
  have "is_absolute ''/w/ledger''"
    by code_simp
  then show ?thesis
    by (simp only: open_ledger_def submit_env_vars and_then_simps ok_or_simps if_False simp_thms)
qed

lemma sample_budget: "ca_max_estimated_cost_usd (po_cadence submit_policy) = Fin 5"
  by (simp add: submit_policy_def)

lemma sample_submitted:
  "\<exists>l. submit_preflight sample_submit_env sample_args (Some sample_bound) = (gated_ok, Some l)"
proof -
  let ?i = "reservation_id sample_submit_env sample_submission"
  obtain b where b: "prepare (submit_env sample_submit_env) \<lparr> sb_policy = submit_policy, sb_ledger = sample_bound \<rparr>
      sample_submission ?i (Fin 5) = Inr b"
    using sample_submission_prepared by blast
  obtain l where l: "broker_release b ?i = Inr (b\<lparr> sb_ledger := l \<rparr>)"
    by (rule broker_held [OF b]) (simp_all add: sample_bound_books)
  have "hold_and_release sample_submit_env sample_bound submit_policy sample_submission = (gated_ok, l)"
    by (simp add: hold_and_release_def sample_budget b l)
  then show ?thesis
    by (simp add: submit_preflight_def sample_submission_accepted sample_opened sample_campaign sample_gates)
qed

section \<open>Properties\<close>

text \<open>
  C23. An admitted submission has passed every gate, whatever the arguments claim.  If the tool answers
  that the submission is allowed, it was a dry run, under a policy whose bytes have the configured
  digest and a signature of the built-in key, with a contract of the workspace that admits the
  challenge at that time; the files at its own trace, log and manifest paths are in the workspace and
  back the trace and the artifacts, the run its execution manifest reports fits them and is of the live
  session and thread, and the probe gate and the redline scan of its paths found nothing against it;
  the request built from
  arguments, variables and policy passes all seven gates under the pool of the ledger; and the ledger
  holds an unrevoked solver binding of the live thread for the same challenge and campaign whose stage
  brief is loadable.
\<close>

theorem admitted_submission_passed_every_gate:
  assumes "submit_preflight env a (Some l) = (r, l')" and "sr_allowed r"
  shows "\<exists>now_ms p e q p'. sa_dry_run a \<and> su_now_ms env = Some now_ms \<and> policy_trusted env p
    \<and> q = (submission_request env a p now_ms)\<lparr> rq_trace := e \<rparr>
    \<and> contract_admits env (sa_workspace a) (rq_challenge_id q) now_ms
    \<and> evidence_admits env a p (rq_challenge_id q) now_ms \<and> pool_of_ledger l p q p'
    \<and> (\<forall>g. gate_passes (en_fs (submit_env env)) (en_read (submit_env env)) (en_sha256 (submit_env env)) p' q g)
    \<and> (\<exists>b \<in> set (thread_cycle_bindings l). bd_thread_id b = su_thread_id env \<and> bd_session_id b = su_session_id env
         \<and> bd_role b = role_name Solver \<and> bd_revoked_at_ms b = None \<and> bd_challenge_id b = rq_challenge_id q
         \<and> bd_campaign_id b = submission_campaign env a p
         \<and> (\<exists>brief. load_stage_brief_issuance (submit_env env) l (bd_cycle_id b) (submission_campaign env a p)
              (rq_challenge_id q) Solver now_ms = Ok brief))"
  using assms(1)
proof (cases rule: submit_preflight_cases)
  case refused
  then show ?thesis
    using assms(2) by (simp add: refusal_def)
next
  case (held p q p')
  obtain now_ms e where s: "sa_dry_run a" "su_now_ms env = Some now_ms" "policy_trusted env p"
      "q = (submission_request env a p now_ms)\<lparr> rq_trace := e \<rparr>"
      "contract_admits env (sa_workspace a) (rq_challenge_id q) now_ms"
      "evidence_admits env a p (rq_challenge_id q) now_ms"
    using submission_ok [OF held(1)] by blast
  have now: "rq_now_ms q = now_ms"
    by (simp add: s(4) submission_request_def Let_def)
  show ?thesis
    using s ledger_gates_ok [OF held(2)] admission_gates unfolding now by blast
qed

theorem admitted_submission_passed_every_gate_witness:
  "\<exists>p q p'. policy_trusted sample_submit_env p
    \<and> contract_admits sample_submit_env ''/w'' (rq_challenge_id q) 60
    \<and> evidence_admits sample_submit_env sample_args p (rq_challenge_id q) 60
    \<and> pool_of_ledger sample_bound p q p'"
proof -
  obtain l where l: "submit_preflight sample_submit_env sample_args (Some sample_bound) = (gated_ok, Some l)"
    using sample_submitted by blast
  have "sr_allowed gated_ok"
    by (simp add: gated_ok_def)
  from admitted_submission_passed_every_gate [OF l this] show ?thesis
    unfolding sample_args_fields submit_env_fields option.inject by metis
qed

text \<open>
  C24. The tool leaves no hold.  Over a ledger whose books agree, whatever it answers, the reservation it
  makes is released again: the books of the ledger it stores agree, the reserved amounts of every
  challenge are those before, the release never fails, an allowed submission adds exactly one row,
  which is released, a refused one changes nothing, and no other table is touched.
\<close>

theorem submission_leaves_no_hold:
  assumes "books_ok l" and "submit_preflight env a (Some l) = (r, Some l')"
  shows "books_ok l' \<and> sr_status r \<noteq> ''ledger_degraded''
    \<and> (\<forall>ch. challenge_reserved l' ch = challenge_reserved l ch)
    \<and> (if sr_allowed r then \<exists>row. rs_state row = ''released'' \<and> reservations l' = reservations l @ [row] else l' = l)
    \<and> l' = l\<lparr> reservations := reservations l', attempts := attempts l',
        reservation_dimensions := reservation_dimensions l' \<rparr>"
  using assms(2)
proof (cases rule: submit_preflight_cases)
  case refused
  then show ?thesis
    using assms(1) by (simp add: refusal_def)
next
  case (held p q p')
  then show ?thesis
    using hold_and_release_kept [OF assms(1), of env p' q] by simp
qed

theorem submission_leaves_no_hold_witness:
  "\<exists>l row. submit_preflight sample_submit_env sample_args (Some sample_bound) = (gated_ok, Some l)
    \<and> books_ok l \<and> rs_state row = ''released'' \<and> reservations l = [row]"
proof -
  obtain l where l: "submit_preflight sample_submit_env sample_args (Some sample_bound) = (gated_ok, Some l)"
    using sample_submitted by blast
  have "sr_allowed gated_ok"
    by (simp add: gated_ok_def)
  with submission_leaves_no_hold [OF sample_bound_books l] l sample_books show ?thesis
    by auto
qed

end
