(* ===== verification/ToolDispatch.thy ===== *)
theory ToolDispatch
  imports SubmitGate
begin

text \<open>
  The guard on the way of every tool call of a solver to its handler:
  \<open>solver_guard_blocks_invocation\<close> and \<open>solver_guard_egress_blocks\<close> of \<open>core/src/tools/registry.rs\<close>, and
  the part of the dispatcher that calls them, before and after the pre-tool hook.

  Parameters besides those of the submission tool: \<open>Value::to_string\<close>, \<open>String::from_utf8_lossy\<close>, the
  hook, and whether the handler accepts the kind of payload.
\<close>

record ToolName =
  tn_name :: string
  tn_namespace :: "string option"

definition DEFAULT_FUNCTION_NAMESPACE :: string where
  "DEFAULT_FUNCTION_NAMESPACE = ''functions''"

definition plain :: "string \<Rightarrow> ToolName" where
  "plain name = \<lparr> tn_name = name, tn_namespace = None \<rparr>"

definition is_default_namespace :: "ToolName \<Rightarrow> bool" where
  "is_default_namespace n \<longleftrightarrow> tn_namespace n \<in> set [None, Some [], Some DEFAULT_FUNCTION_NAMESPACE]"

definition flat_tool_name :: "ToolName \<Rightarrow> string" where
  "flat_tool_name n =
     (if is_default_namespace n then tn_name n
      else case tn_namespace n of Some ns \<Rightarrow> ns @ tn_name n | None \<Rightarrow> tn_name n)"

text \<open>
  The name under which a tool of the client is registered (\<open>DynamicToolHandler::from_parts\<close>); of the
  specification of a dynamic tool and of its namespace only the names are modelled.
\<close>

record DynamicToolFunctionSpec =
  df_name :: string

record DynamicToolNamespaceSpec =
  dn_name :: string

definition dynamic_tool_name :: "DynamicToolFunctionSpec \<Rightarrow> DynamicToolNamespaceSpec option \<Rightarrow> ToolName" where
  "dynamic_tool_name tool namespace = \<lparr> tn_name = df_name tool, tn_namespace = map_option dn_name namespace \<rparr>"

record SearchToolCallParams =
  sp_query :: string
  sp_limit :: "nat option"

datatype ToolPayload = Function string | ToolSearch SearchToolCallParams | Custom string

record ToolInvocation =
  ti_tool_name :: ToolName
  ti_payload :: ToolPayload

record ToolEnv =
  tl_process :: SubmitEnv
  tl_json_text :: "JsonValue \<Rightarrow> string"
  tl_utf8_lossy :: "string \<Rightarrow> string"

definition solver_mode_on :: "SubmitEnv \<Rightarrow> bool" where
  "solver_mode_on env \<longleftrightarrow>
     (case su_var env ''ASCODEX_SOLVER_MODE'' of Some v \<Rightarrow> v \<in> set [''1'', ''true'', ''TRUE''] | None \<Rightarrow> False)"

definition guard_input :: "ToolEnv \<Rightarrow> ToolPayload \<Rightarrow> JsonValue" where
  "guard_input env payload =
     (case payload of
        Function arguments \<Rightarrow> (case fl_json (su_files (tl_process env)) arguments of Some v \<Rightarrow> v | None \<Rightarrow> JNull)
      | _ \<Rightarrow> JNull)"

text \<open>The steps of \<open>solver_guard_egress_blocks\<close> that end in a policy; each failure blocks the call.\<close>

definition egress_policy :: "ToolEnv \<Rightarrow> Policy option" where
  "egress_policy env =
     (let p = tl_process env; f = su_files p in
      Option.bind (non_empty (su_var p ''ASCODEX_SOLVER_POLICY_FILE'')) (\<lambda>policy_path.
      Option.bind (fs_canonicalize (fl_fs f) policy_path) (\<lambda>canonical_path.
      Option.bind (fl_read f canonical_path) (\<lambda>policy_bytes.
      let actual_digest = sha256_bytes (fl_sha256 f) policy_bytes;
          expected_digest = var_or_default p ''ASCODEX_POLICY_SHA256''
      in if \<not> is_hex 64 expected_digest \<or> \<not> eq_ignore_ascii_case actual_digest expected_digest then None
      else
        let signature_hex =
              (case read_to_string (fl_read f) (canonical_path @ ''.sig'') of Inr text \<Rightarrow> trim text | Inl _ \<Rightarrow> [])
        in case verify_policy_signature (su_hex p) (su_key p) (\<lambda>k. k) policy_bytes signature_hex
                  ASCODEX_TRUST_ANCHOR_PUBLIC_KEY_HEX of
             Inl _ \<Rightarrow> None
           | Inr _ \<Rightarrow> su_policy p (tl_utf8_lossy env policy_bytes)))))"

definition solver_guard_egress_blocks :: "ToolEnv \<Rightarrow> string \<Rightarrow> JsonValue \<Rightarrow> RpcDecision" where
  "solver_guard_egress_blocks env tool_name input =
     (case egress_policy env of
        None \<Rightarrow> Block
      | Some p \<Rightarrow> network_tool_egress_preflight (\<lambda>v. get_str v ''url'') tool_name input (cp_egress (po_channel p)) True)"

definition solver_guard_blocks_invocation :: "ToolEnv \<Rightarrow> ToolInvocation \<Rightarrow> bool" where
  "solver_guard_blocks_invocation env i =
     (let input = guard_input env (ti_payload i);
          solver_mode = solver_mode_on (tl_process env);
          tool_name = flat_tool_name (ti_tool_name i)
      in if tool_preflight_with_input (tl_json_text env) tool_name input solver_mode = Block then True
         else if solver_mode \<and> solver_guard_egress_blocks env tool_name input = Block then True
         else False)"

section \<open>Dispatch\<close>

text \<open>
  The hook runs only for tools that have a pre-tool payload; it may block the call or rewrite its input,
  which the tool may refuse.
\<close>

datatype PreToolUseHookResult = Blocked string | Continue "(string + ToolInvocation) option"

datatype DispatchError = IncompatiblePayload string | GuardBlocked string | HookBlocked string | RewriteFailed string
  | RewrittenBlocked string

definition guarded_dispatch ::
  "ToolEnv \<Rightarrow> (ToolInvocation \<Rightarrow> bool) \<Rightarrow> (ToolInvocation \<Rightarrow> PreToolUseHookResult option) \<Rightarrow> ToolInvocation \<Rightarrow>
   DispatchError + ToolInvocation" where
  "guarded_dispatch env matches_kind hook i =
     (let name = flat_tool_name (ti_tool_name i) in
      if \<not> matches_kind i then Err (IncompatiblePayload name)
      else if solver_guard_blocks_invocation env i then Err (GuardBlocked name)
      else case hook i of
        None \<Rightarrow> Ok i
      | Some (Blocked message) \<Rightarrow> Err (HookBlocked message)
      | Some (Continue None) \<Rightarrow> Ok i
      | Some (Continue (Some (Inl e))) \<Rightarrow> Err (RewriteFailed e)
      | Some (Continue (Some (Inr updated))) \<Rightarrow>
          if solver_guard_blocks_invocation env updated then Err (RewrittenBlocked name) else Ok updated)"

section \<open>What the guard lets through\<close>

text \<open>
  The policy of a call: parsed from the bytes at the canonical form of the configured path, which have
  the configured digest and, in the file beside them, a signature of the built-in key.
\<close>

definition trusted_policy :: "ToolEnv \<Rightarrow> Policy \<Rightarrow> bool" where
  "trusted_policy env p \<longleftrightarrow>
     (\<exists>path canonical bytes signature.
        su_var (tl_process env) ''ASCODEX_SOLVER_POLICY_FILE'' = Some path \<and> \<not> is_blank path
        \<and> fs_canonicalize (fl_fs (su_files (tl_process env))) path = Some canonical
        \<and> fl_read (su_files (tl_process env)) canonical = Some bytes
        \<and> eq_ignore_ascii_case (sha256_bytes (fl_sha256 (su_files (tl_process env))) bytes)
            (var_or_default (tl_process env) ''ASCODEX_POLICY_SHA256'')
        \<and> signature = (case read_to_string (fl_read (su_files (tl_process env))) (canonical @ ''.sig'') of
             Inr content \<Rightarrow> trim content | Inl _ \<Rightarrow> [])
        \<and> verify_policy_signature (su_hex (tl_process env)) (su_key (tl_process env)) (\<lambda>k. k) bytes signature
            ASCODEX_TRUST_ANCHOR_PUBLIC_KEY_HEX = Ok ()
        \<and> su_policy (tl_process env) (tl_utf8_lossy env bytes) = Some p)"

lemma egress_policy_trusted:
  assumes "egress_policy env = Some p"
  shows "trusted_policy env p"
  using assms unfolding egress_policy_def trusted_policy_def Let_def
  by (auto split: if_splits sum.splits Option.bind_splits)

text \<open>
  The name does not end in the name of a submission tool and does not start with the prefixes the guard
  takes for MCP and dynamic tools, and the text of a shell call has no marker.
\<close>

definition name_admitted :: "string \<Rightarrow> string \<Rightarrow> bool" where
  "name_admitted name text \<longleftrightarrow>
     (\<forall>n \<in> set SUBMISSION_TOOLS. \<not> ends_with name n)
     \<and> \<not> starts_with (to_ascii_lowercase name) ''mcp__'' \<and> \<not> starts_with (to_ascii_lowercase name) ''dynamic__''
     \<and> (to_ascii_lowercase name \<in> set [''exec_command'', ''shell_command'', ''unified_exec'']
          \<longrightarrow> (\<forall>m \<in> set SUBMISSION_MARKERS. \<not> str_contains (to_ascii_lowercase text) m))"

lemma tool_preflight_admitted:
  "tool_preflight_with_input render name input True \<noteq> Block \<longleftrightarrow> name_admitted name (render input)"
proof -
  have "ends_with name name" for name :: string
    by (simp add: ends_with_iff)
  then show ?thesis
    by (auto simp: tool_preflight_with_input_def tool_preflight_def name_admitted_def list_ex_iff Let_def)
qed

text \<open>The URL of a network tool names a host the egress policy admits.\<close>

definition url_admitted :: "EgressPolicy \<Rightarrow> string \<Rightarrow> JsonValue \<Rightarrow> bool" where
  "url_admitted policy name input \<longleftrightarrow>
     (is_network_tool name \<longrightarrow>
        (\<exists>url host. get_str input ''url'' = Some url \<and> extract_network_host url = Ok host \<and> validate_egress host policy = Ok ()))"

lemma egress_preflight_admitted:
  assumes "network_tool_egress_preflight (\<lambda>v. get_str v ''url'') name input policy True \<noteq> Block"
  shows "url_admitted policy name input"
  using assms unfolding network_tool_egress_preflight_def url_admitted_def
  by (auto split: if_splits option.splits sum.splits)

lemma dispatched:
  assumes "guarded_dispatch env matches_kind hook i = Inr i'"
  shows "\<not> solver_guard_blocks_invocation env i'" "i' = i \<or> hook i = Some (Continue (Some (Inr i')))"
  using assms
  by (auto simp: guarded_dispatch_def Let_def split: if_splits option.splits PreToolUseHookResult.splits sum.splits)

lemma unblocked:
  assumes "\<not> solver_guard_blocks_invocation env i" and "solver_mode_on (tl_process env)"
  shows "name_admitted (flat_tool_name (ti_tool_name i)) (tl_json_text env (guard_input env (ti_payload i)))"
    and "\<exists>p. egress_policy env = Some p
      \<and> url_admitted (cp_egress (po_channel p)) (flat_tool_name (ti_tool_name i)) (guard_input env (ti_payload i))"
  using assms
  by (auto simp: solver_guard_blocks_invocation_def solver_guard_egress_blocks_def tool_preflight_admitted [symmetric] Let_def
      intro!: egress_preflight_admitted split: if_splits option.splits)

end
