(* ===== verification/ToolSafety.thy ===== *)
theory ToolSafety
  imports ToolDispatch SubmitSafety
begin

text \<open>
  What reaches a tool's handler in solver mode, on the sample environment of the submission tool.
\<close>

text \<open>
  C25. Whatever a hook does to a tool call, the call that reaches its handler in solver mode has passed
  the guard.  The invocation is the original one or the hook's rewriting of it; its flat name does not
  end in the name of a submission tool and does not start, in either case, with \<open>mcp__\<close> or
  \<open>dynamic__\<close>; the arguments of a shell call contain no submission marker; the policy was read from
  the configured path in its canonical form, with the configured digest and, in the file beside it, a
  signature of the built-in key; and the URL of a network tool names a host that policy admits.  The
  guard tells an MCP or dynamic tool by these prefixes only.
\<close>

theorem executed_call_passed_the_guard:
  assumes "guarded_dispatch env matches_kind hook i = Ok i'" and "solver_mode_on (tl_process env)"
  shows "(i' = i \<or> hook i = Some (Continue (Some (Ok i'))))
    \<and> name_admitted (flat_tool_name (ti_tool_name i')) (tl_json_text env (guard_input env (ti_payload i')))
    \<and> (\<exists>p. trusted_policy env p
        \<and> url_admitted (cp_egress (po_channel p)) (flat_tool_name (ti_tool_name i')) (guard_input env (ti_payload i')))"
proof -
  note passed = unblocked [OF dispatched(1) [OF assms(1)] assms(2)]
  then obtain p where p: "egress_policy env = Some p"
      "url_admitted (cp_egress (po_channel p)) (flat_tool_name (ti_tool_name i')) (guard_input env (ti_payload i'))"
    by blast
  show ?thesis
    using dispatched(2) [OF assms(1)] passed(1) egress_policy_trusted [OF p(1)] p(2) by blast
qed

definition fetch_input :: JsonValue where
  "fetch_input = JObject [(''url'', JString ''https://API.example.org/v1'')]"

definition sample_tool_env :: ToolEnv where
  "sample_tool_env =
     \<lparr> tl_process = sample_submit_env
         \<lparr> su_var := submit_vars(''ASCODEX_SOLVER_MODE'' \<mapsto> ''1''),
           su_files := sample_files\<lparr> fl_json := (\<lambda>t. if t = ''fetch'' then Some fetch_input else None) \<rparr>,
           su_policy := (\<lambda>t. Some (submit_policy\<lparr> po_channel := (po_channel submit_policy)\<lparr> cp_egress := sample_egress \<rparr> \<rparr>)) \<rparr>,
       tl_json_text = (\<lambda>v. if v = JNull then ''null'' else ''object''), tl_utf8_lossy = (\<lambda>t. t) \<rparr>"

definition call_of :: "string \<Rightarrow> string \<Rightarrow> ToolInvocation" where
  "call_of name arguments =
     \<lparr> ti_tool_name = plain name, ti_payload = Function arguments \<rparr>"

text \<open>A hook that turns a local call into a fetch of an admitted host, and one into a submission.\<close>

lemma sample_dispatched:
  "guarded_dispatch sample_tool_env (\<lambda>_. True) (\<lambda>_. Some (Continue (Some (Inr (call_of ''web_fetch'' ''fetch'')))))
     (call_of ''view_image'' ''x'') = Ok (call_of ''web_fetch'' ''fetch'')"
  "guarded_dispatch sample_tool_env (\<lambda>_. True) (\<lambda>_. Some (Continue (Some (Inr (call_of ''playground_submit'' ''x'')))))
     (call_of ''view_image'' ''x'') = Inl (RewrittenBlocked ''view_image'')"
  "solver_mode_on (tl_process sample_tool_env)"
  by code_simp+

theorem executed_call_passed_the_guard_witness:
  "name_admitted ''web_fetch'' (tl_json_text sample_tool_env fetch_input)
   \<and> (\<exists>p. trusted_policy sample_tool_env p
        \<and> url_admitted (cp_egress (po_channel p)) ''web_fetch'' fetch_input)"
proof -
  have "flat_tool_name (ti_tool_name (call_of ''web_fetch'' ''fetch'')) = ''web_fetch''"
    "guard_input sample_tool_env (ti_payload (call_of ''web_fetch'' ''fetch'')) = fetch_input"
    by (simp_all add: call_of_def plain_def flat_tool_name_def is_default_namespace_def guard_input_def sample_tool_env_def)
  with executed_call_passed_the_guard [OF sample_dispatched(1,3)] show ?thesis
    by metis
qed

text \<open>A name the guard admits whatever the call says, and that is no network tool, is dispatched.\<close>

lemma plainly_named_call_is_dispatched:
  assumes "egress_policy env = Some p" and flat: "flat_tool_name (ti_tool_name i) = name"
    and named: "\<And>t. name_admitted name t" and local: "\<not> is_network_tool name"
  shows "guarded_dispatch env (\<lambda>_. True) (\<lambda>_. None) i = Ok i"
proof -
  have "tool_preflight_with_input render name v on \<noteq> Block" for render and v :: JsonValue and on
    using tool_preflight_admitted [of render name v] named
    by (cases on) (simp_all add: tool_preflight_with_input_def tool_preflight_def)
  moreover have "network_tool_egress_preflight (\<lambda>v. get_str v ''url'') name v policy on \<noteq> Block" for v policy on
    using local by (simp add: network_tool_egress_preflight_def)
  ultimately have "\<not> solver_guard_blocks_invocation env i"
    by (simp add: solver_guard_blocks_invocation_def solver_guard_egress_blocks_def assms(1) flat)
  then show ?thesis
    by (simp add: guarded_dispatch_def)
qed

text \<open>
  Only the start of a shell is scanned: a call of \<open>write_stdin\<close>, which types its text into a shell that
  is already running, reaches the handler whatever that text is, as soon as the policy is trusted.
\<close>

theorem standard_input_is_not_scanned:
  assumes "egress_policy env = Some p"
  shows "guarded_dispatch env (\<lambda>_. True) (\<lambda>_. None) (call_of ''write_stdin'' arguments) = Ok (call_of ''write_stdin'' arguments)"
proof (rule plainly_named_call_is_dispatched [OF assms])
  show "flat_tool_name (ti_tool_name (call_of ''write_stdin'' arguments)) = ''write_stdin''"
    by (simp add: call_of_def plain_def flat_tool_name_def is_default_namespace_def)
  show "name_admitted ''write_stdin'' t" for t
    by (simp add: name_admitted_def) code_simp
qed code_simp

text \<open>
  A dynamic tool is registered under the name its client gave it, and its calls carry that name: they
  have no prefix for the guard to see, and reach their handler as soon as the policy is trusted.
\<close>

theorem unprefixed_dynamic_tool_is_dispatched:
  assumes "egress_policy env = Some p"
    and "i = \<lparr> ti_tool_name = dynamic_tool_name \<lparr> df_name = ''lookup_ticket'' \<rparr> namespace, ti_payload = payload \<rparr>"
    and "namespace \<in> {None, Some \<lparr> dn_name = ''tickets'' \<rparr>}"
  shows "guarded_dispatch env (\<lambda>_. True) (\<lambda>_. None) i = Ok i"
proof -
  have admitted: "name_admitted n t \<and> \<not> is_network_tool n" if "n \<in> {''lookup_ticket'', ''ticketslookup_ticket''}" for n t
    using that by (elim insertE) (simp_all add: name_admitted_def, code_simp+)
  have "flat_tool_name (ti_tool_name i) \<in> {''lookup_ticket'', ''ticketslookup_ticket''}"
    using assms(2,3)
    by (auto simp: dynamic_tool_name_def flat_tool_name_def is_default_namespace_def DEFAULT_FUNCTION_NAMESPACE_def)
  then show ?thesis
    using plainly_named_call_is_dispatched [OF assms(1) refl] admitted by blast
qed

end
