(* ===== verification/ChildPermissions.thy ===== *)
theory ChildPermissions
  imports Runtime Preflight IdentityPool
begin

text \<open>
  The permissions a worker starts with: the permission profiles of \<open>protocol/src/models.rs\<close> and
  \<open>permissions.rs\<close> as far as the spawn path uses them, and \<open>enforce_solver_role_permissions_by_name\<close> and
  \<open>apply_stage_brief_workspace_acl\<close> of \<open>core/src/agent/control/spawn.rs\<close>, on a Unix target.

  \<open>ConfigEnv\<close> holds what is outside: whether the managed constraints accept a profile, the roots the
  parent configuration makes effective, and \<open>AbsolutePathBuf::from_absolute_path\<close>.  Deny entries that managed
  constraints add to a profile they accept, missing-path behaviour and glob depth are not modelled.
\<close>

section \<open>Profiles\<close>

datatype FileSystemAccessMode = Read | Write | Deny

datatype FileSystemSpecialPath = Root | Minimal | ProjectRoots "string option" | Tmpdir | SlashTmp
  | UnknownPath string "string option"

datatype FileSystemPath = Path string | GlobPattern string | Special FileSystemSpecialPath

record FileSystemSandboxEntry =
  fe_path :: FileSystemPath
  fe_access :: FileSystemAccessMode

datatype NetworkSandboxPolicy = Restricted | Enabled

datatype ManagedFileSystemPermissions = RestrictedTo "FileSystemSandboxEntry list" | Unrestricted

datatype PermissionProfile = Managed ManagedFileSystemPermissions NetworkSandboxPolicy | Disabled
  | External NetworkSandboxPolicy

definition read_only_file_system_entries :: "FileSystemSandboxEntry list" where
  "read_only_file_system_entries = [\<lparr> fe_path = Special Root, fe_access = Read \<rparr>]"

definition narrowed :: "FileSystemAccessMode \<Rightarrow> FileSystemAccessMode" where
  "narrowed access = (case access of Deny \<Rightarrow> Deny | _ \<Rightarrow> Read)"

definition intersect_with_read_only :: "PermissionProfile \<Rightarrow> PermissionProfile option" where
  "intersect_with_read_only profile =
     (let restricted = (\<lambda>entries. Some (Managed (RestrictedTo entries) Restricted))
      in case profile of
           Managed (RestrictedTo entries) _ \<Rightarrow> restricted (map (\<lambda>e. e\<lparr> fe_access := narrowed (fe_access e) \<rparr>) entries)
         | Managed Unrestricted _ \<Rightarrow> restricted read_only_file_system_entries
         | Disabled \<Rightarrow> restricted read_only_file_system_entries
         | External _ \<Rightarrow> None)"

section \<open>The configuration of a worker\<close>

record Config =
  cg_ephemeral :: bool
  cg_permission_profile :: PermissionProfile
  cg_workspace_roots :: "string list"
  cg_cwd :: string

record ConfigEnv =
  ce_runtime :: RuntimeEnv
  ce_profile_allowed :: "PermissionProfile \<Rightarrow> bool"
  ce_effective_workspace_roots :: "Config \<Rightarrow> string list"
  ce_from_absolute_path :: "string \<Rightarrow> string option"

text \<open>A message, a message with the text of an outside error, or the error of a called gate.\<close>

datatype SpawnError = InvalidRequest string | InvalidRequestBy string | BindingBlocked string LedgerError
  | ContractBlocked PreflightError | StageBriefBlocked StageBriefRuntimeError | AclBlocked StageBriefRuntimeError
  | ThreadNotFound string

definition set_permission_profile :: "ConfigEnv \<Rightarrow> Config \<Rightarrow> PermissionProfile \<Rightarrow> string \<Rightarrow> SpawnError + Config" where
  "set_permission_profile env c profile failed =
     (if ce_profile_allowed env profile then Ok (c\<lparr> cg_permission_profile := profile \<rparr>)
      else Err (InvalidRequestBy failed))"

definition enforce_solver_role_permissions_by_name :: "ConfigEnv \<Rightarrow> Config \<Rightarrow> string option \<Rightarrow> SpawnError + Config" where
  "enforce_solver_role_permissions_by_name env c agent_role =
     and_then (ok_or agent_role
         (InvalidRequest ''ASCodex solver profile requires an explicit child role for permission admission'')) (\<lambda>role_name.
     and_then (ok_or (role_from_solver_role_name role_name)
         (InvalidRequest (''ASCodex solver profile does not recognize child role `'' @ role_name @ ''`''))) (\<lambda>role.
     if is_read_only role then
       and_then (ok_or (intersect_with_read_only (cg_permission_profile c))
           (InvalidRequest ''ASCodex read-only child requires a managed parent permission profile'')) (\<lambda>narrowed.
       set_permission_profile env c narrowed ''ASCodex read-only child permission narrowing failed: '')
     else if role \<noteq> Solver then Err (InvalidRequest ''ASCodex solver profile child role is not executable'')
     else Ok c))"

definition entries_for :: "ConfigEnv \<Rightarrow> FileSystemAccessMode \<Rightarrow> string \<Rightarrow> string list \<Rightarrow> SpawnError + FileSystemSandboxEntry list" where
  "entries_for env access failed roots =
     collect (map (\<lambda>r. and_then (ok_or (ce_from_absolute_path env r) (InvalidRequest failed))
       (\<lambda>absolute. Ok \<lparr> fe_path = Path absolute, fe_access = access \<rparr>)) roots)"

definition apply_stage_brief_workspace_acl :: "ConfigEnv \<Rightarrow> Config \<Rightarrow> VerifiedStageBrief \<Rightarrow> SpawnError + Config" where
  "apply_stage_brief_workspace_acl env c brief =
     (let parent_roots = ce_effective_workspace_roots env c in
      and_then (map_err AclBlocked (role_workspace_acl (ce_runtime env) brief parent_roots)) (\<lambda>acl.
      and_then (entries_for env Read ''ASCodex ACL contains a non-absolute readable root'' (wa_readable_roots acl)) (\<lambda>readable.
      and_then (entries_for env Write ''ASCodex ACL contains a non-absolute writable root'' (wa_writable_roots acl)) (\<lambda>writable.
      let entries = readable @ writable
      in if entries = [] then Err (InvalidRequest ''ASCodex workspace ACL produced no filesystem entries'')
      else
      and_then (set_permission_profile env c (Managed (RestrictedTo entries) Restricted)
          ''ASCodex workspace ACL permission narrowing failed: '') (\<lambda>c.
      and_then (collect (map (\<lambda>r. ok_or (ce_from_absolute_path env r)
            (InvalidRequest ''ASCodex ACL contains an invalid workspace root'')) (wa_readable_roots acl @ wa_writable_roots acl))) (\<lambda>roots.
      and_then (ok_or (ce_from_absolute_path env (wa_cwd acl)) (InvalidRequest ''ASCodex ACL cwd is not absolute'')) (\<lambda>cwd.
      Ok (c\<lparr> cg_workspace_roots := roots, cg_cwd := cwd \<rparr>))))))))"

section \<open>Lemmas\<close>

definition readable_entry :: "ConfigEnv \<Rightarrow> WorkspaceAcl \<Rightarrow> FileSystemSandboxEntry \<Rightarrow> bool" where
  "readable_entry env acl e \<longleftrightarrow>
     (\<exists>r p. fe_path e = Path p \<and> ce_from_absolute_path env r = Some p
        \<and> (r \<in> set (wa_readable_roots acl) \<and> fe_access e = Read \<or> r \<in> set (wa_writable_roots acl) \<and> fe_access e = Write))"

lemma collect_set:
  "collect rs = Inr ys \<Longrightarrow> y \<in> set ys \<Longrightarrow> Inr y \<in> set rs"
  by (induction rs arbitrary: ys) auto

lemma entries_for_set:
  assumes "entries_for env access failed roots = Inr es" "e \<in> set es"
  shows "\<exists>r p. r \<in> set roots \<and> ce_from_absolute_path env r = Some p \<and> e = \<lparr> fe_path = Path p, fe_access = access \<rparr>"
proof -
  obtain r where "r \<in> set roots" "and_then (ok_or (ce_from_absolute_path env r) (InvalidRequest failed))
      (\<lambda>absolute. Ok \<lparr> fe_path = Path absolute, fe_access = access \<rparr>) = Inr e"
    using collect_set [OF assms(1) [unfolded entries_for_def] assms(2)] unfolding list.set_map image_iff by metis
  then show ?thesis by auto
qed

lemma apply_acl_ok:
  assumes "apply_stage_brief_workspace_acl env c v = Inr c'"
  obtains acl entries where "role_workspace_acl (ce_runtime env) v (ce_effective_workspace_roots env c) = Inr acl"
    "cg_permission_profile c' = Managed (RestrictedTo entries) Restricted" "entries \<noteq> []"
    "\<And>e. e \<in> set entries \<Longrightarrow> readable_entry env acl e" "ce_profile_allowed env (cg_permission_profile c')"
    "ce_from_absolute_path env (wa_cwd acl) = Some (cg_cwd c')" "cg_ephemeral c' = cg_ephemeral c"
proof -
  obtain acl readable writable c1 roots cwd where
    ok: "role_workspace_acl (ce_runtime env) v (ce_effective_workspace_roots env c) = Inr acl"
      "entries_for env Read ''ASCodex ACL contains a non-absolute readable root'' (wa_readable_roots acl) = Inr readable"
      "entries_for env Write ''ASCodex ACL contains a non-absolute writable root'' (wa_writable_roots acl) = Inr writable"
      "readable @ writable \<noteq> []"
      "set_permission_profile env c (Managed (RestrictedTo (readable @ writable)) Restricted)
          ''ASCodex workspace ACL permission narrowing failed: '' = Inr c1"
      "ce_from_absolute_path env (wa_cwd acl) = Some cwd" "c' = c1\<lparr> cg_workspace_roots := roots, cg_cwd := cwd \<rparr>"
    using assms unfolding apply_stage_brief_workspace_acl_def Let_def by (auto split: if_splits)
  have c1: "c1 = c\<lparr> cg_permission_profile := Managed (RestrictedTo (readable @ writable)) Restricted \<rparr>"
    "ce_profile_allowed env (Managed (RestrictedTo (readable @ writable)) Restricted)"
    using ok(5) by (simp_all add: set_permission_profile_def split: if_splits)
  have "readable_entry env acl e" if "e \<in> set (readable @ writable)" for e
    using that entries_for_set [OF ok(2)] entries_for_set [OF ok(3)] by (fastforce simp: readable_entry_def)
  then show thesis
    using that [OF ok(1)] ok(4,6,7) c1 by simp
qed

end
