(* ===== verification/BriefHistory.thy ===== *)
theory BriefHistory
  imports GuardGates
begin

text \<open>
  Stage briefs in a recorded conversation.  \<open>ASCodexStageBrief\<close> (\<open>core/src/context/ascodex_stage_brief.rs\<close>)
  with the marker test of \<open>context-fragments/src/fragment.rs\<close>, the annotated content of a message
  (\<open>annotated_content.rs\<close>), the items of a recorded history with the session data the resume reads
  (\<open>history/src/lib.rs\<close>), and \<open>remove_ascodex_stage_briefs\<close> of \<open>core/src/agent/control/spawn.rs\<close>, which takes the
  briefs out of the response items of a history before it is resumed.

  Of a message its role, content and classifications are modelled, of an item that is none of the four
  kinds looked at only its identity.  Strings are UTF-8 bytes; a marker is ASCII, so a slice
  that equals one up to case lies on character boundaries.
\<close>

section \<open>The fragment\<close>

definition START_MARKER :: string where
  "START_MARKER = ''<ascodex_stage_brief>''"

definition END_MARKER :: string where
  "END_MARKER = ''</ascodex_stage_brief>''"

definition trim_end :: "string \<Rightarrow> string" where
  "trim_end s = rev (trim_end_rev (rev s))"

definition matches_marked_text :: "string \<Rightarrow> string \<Rightarrow> string \<Rightarrow> bool" where
  "matches_marked_text start_marker end_marker t =
     (if start_marker = [] \<or> end_marker = [] then False
      else
        let trimmed = trim_start t;
            starts_with_marker = eq_ignore_ascii_case (take (length start_marker) trimmed) start_marker;
            trimmed = trim_end trimmed;
            ends_with_marker = eq_ignore_ascii_case (drop (length trimmed - length end_marker) trimmed) end_marker
        in starts_with_marker \<and> ends_with_marker)"

definition matches_text :: "string \<Rightarrow> bool" where
  "matches_text t = matches_marked_text START_MARKER END_MARKER t"

definition render_fragment_text :: "string \<Rightarrow> string" where
  "render_fragment_text brief = START_MARKER @ ([CHR 0x0A] @ brief @ [CHR 0x0A]) @ END_MARKER"

section \<open>Messages\<close>

datatype ContentItem = InputText string | InputImage string "string option" | InputAudio string | OutputText string

type_synonym AnnotatedContent = "ContentItem \<times> string"

record MessageItem =
  mi_role :: string
  mi_content :: "ContentItem list"
  mi_content_item_kinds :: "string list option"

datatype ResponseItem = Message MessageItem | OtherResponse string

definition to_annotated_content :: "ResponseItem \<Rightarrow> AnnotatedContent list option" where
  "to_annotated_content item =
     (case item of
        OtherResponse _ \<Rightarrow> None
      | Message m \<Rightarrow>
          let kinds = (case mi_content_item_kinds m of Some ks \<Rightarrow> ks | None \<Rightarrow> [])
          in Some (zip (mi_content m) (kinds @ replicate (length (mi_content m)) ''unknown'')))"

definition set_annotated_content :: "ResponseItem \<Rightarrow> AnnotatedContent list \<Rightarrow> ResponseItem option" where
  "set_annotated_content item annotated =
     (case item of
        OtherResponse _ \<Rightarrow> None
      | Message m \<Rightarrow> Some (Message (m\<lparr> mi_content := map fst annotated, mi_content_item_kinds := Some (map snd annotated) \<rparr>)))"

definition is_developer :: "ResponseItem \<Rightarrow> bool" where
  "is_developer item = (case item of Message m \<Rightarrow> mi_role m = ''developer'' | OtherResponse _ \<Rightarrow> False)"

definition keeps_content :: "AnnotatedContent \<Rightarrow> bool" where
  "keeps_content c = (case fst c of InputText t \<Rightarrow> \<not> matches_text t | _ \<Rightarrow> True)"

text \<open>The item that is kept, or nothing.\<close>

definition retain_without_ascodex_stage_brief :: "ResponseItem \<Rightarrow> ResponseItem option" where
  "retain_without_ascodex_stage_brief item =
     (if \<not> is_developer item then Some item
      else case to_annotated_content item of
             None \<Rightarrow> None
           | Some content \<Rightarrow>
               let content = filter keeps_content content
               in if content = [] then None else set_annotated_content item content)"

section \<open>Histories\<close>

datatype MultiAgentVersion = Disabled | V1 | V2

datatype SubAgentSource = Review | Compact
  | ThreadSpawn string int "string option" "string option" "string option"
  | MemoryConsolidation | OtherSource string

text \<open>The fields of \<open>ThreadSpawn\<close> are parent thread, depth, agent path, nickname and role.\<close>

datatype SessionSource = Cli | VSCode | Exec | Mcp | CustomSource string | Internal string | SubAgent SubAgentSource | Unknown

definition is_non_root_agent :: "SessionSource \<Rightarrow> bool" where
  "is_non_root_agent s = (case s of Internal _ \<Rightarrow> True | SubAgent _ \<Rightarrow> True | _ \<Rightarrow> False)"

record SessionMeta =
  sm_id :: string
  sm_source :: SessionSource
  sm_multi_agent_version :: "MultiAgentVersion option"

datatype RolloutItem = SessionMetaItem SessionMeta | Response ResponseItem
  | Compacted "ResponseItem list option" | TurnContext "MultiAgentVersion option" | OtherItem string

fun remove_ascodex_stage_briefs :: "RolloutItem list \<Rightarrow> RolloutItem list" where
  "remove_ascodex_stage_briefs [] = []"
| "remove_ascodex_stage_briefs (item # items) =
     (case item of
        Response r \<Rightarrow>
          (case retain_without_ascodex_stage_brief r of
             Some r' \<Rightarrow> Response r' # remove_ascodex_stage_briefs items
           | None \<Rightarrow> remove_ascodex_stage_briefs items)
      | _ \<Rightarrow> item # remove_ascodex_stage_briefs items)"

record ResumedHistory =
  rh_conversation_id :: string
  rh_history :: "RolloutItem list"

datatype InitialHistory = New | Cleared | Resumed ResumedHistory | Forked "RolloutItem list"

fun find_map :: "('a \<Rightarrow> 'b option) \<Rightarrow> 'a list \<Rightarrow> 'b option" where
  "find_map f [] = None"
| "find_map f (x # xs) = (case f x of Some y \<Rightarrow> Some y | None \<Rightarrow> find_map f xs)"

definition multi_agent_version_from_items :: "RolloutItem list \<Rightarrow> string option \<Rightarrow> MultiAgentVersion option" where
  "multi_agent_version_from_items items thread_id =
     (case find_map (\<lambda>item. case item of
             SessionMetaItem m \<Rightarrow>
               if (case thread_id of None \<Rightarrow> True | Some i \<Rightarrow> sm_id m = i) then sm_multi_agent_version m else None
           | _ \<Rightarrow> None) (rev items) of
        Some v \<Rightarrow> Some v
      | None \<Rightarrow> find_map (\<lambda>item. case item of TurnContext v \<Rightarrow> v | _ \<Rightarrow> None) (rev items))"

definition get_multi_agent_version :: "InitialHistory \<Rightarrow> MultiAgentVersion option" where
  "get_multi_agent_version h =
     (case h of
        New \<Rightarrow> None | Cleared \<Rightarrow> None
      | Resumed r \<Rightarrow> multi_agent_version_from_items (rh_history r) (Some (rh_conversation_id r))
      | Forked items \<Rightarrow> multi_agent_version_from_items items None)"

definition get_resumed_session_meta :: "InitialHistory \<Rightarrow> SessionMeta option" where
  "get_resumed_session_meta h =
     (case h of
        Resumed r \<Rightarrow> find_map (\<lambda>item. case item of SessionMetaItem m \<Rightarrow> Some m | _ \<Rightarrow> None) (rh_history r)
      | _ \<Rightarrow> None)"

definition get_resumed_session_sources :: "InitialHistory \<Rightarrow> SessionSource option" where
  "get_resumed_session_sources h = map_option sm_source (get_resumed_session_meta h)"

section \<open>Lemmas\<close>

lemma trim_end_stop: "skip_ws_rev (rev s) = None \<Longrightarrow> trim_end s = s"
  by (simp add: trim_end_def trim_end_rev.simps)

lemma trim_start_stop: "skip_ws s = None \<Longrightarrow> trim_start s = s"
  by (simp add: trim_start.simps)

lemma rendered_brief_matches: "matches_text (render_fragment_text brief)"
proof -
  let ?t = "render_fragment_text brief"
  have "skip_ws ?t = None"
    by (simp add: render_fragment_text_def START_MARKER_def skip_ws_def ws1_def ws2_def ws3_def split: list.splits)
  moreover have "skip_ws_rev (rev ?t) = None"
    by (simp add: render_fragment_text_def END_MARKER_def skip_ws_rev_def ws1_def ws2_def ws3_def split: list.splits)
  ultimately have "trim_start ?t = ?t" "trim_end ?t = ?t"
    by (simp_all add: trim_start_stop trim_end_stop)
  moreover have "take (length START_MARKER) ?t = START_MARKER"
    "drop (length ?t - length END_MARKER) ?t = END_MARKER"
    by (simp_all add: render_fragment_text_def)
  moreover have "START_MARKER \<noteq> []" "END_MARKER \<noteq> []"
    by (simp_all add: START_MARKER_def END_MARKER_def)
  ultimately show ?thesis
    by (simp add: matches_text_def matches_marked_text_def eq_ignore_ascii_case_def)
qed

text \<open>The text of a brief in the content of a message, and the kept part of a developer message.\<close>

definition brief_texts :: "ResponseItem \<Rightarrow> string list" where
  "brief_texts item =
     (case item of
        Message m \<Rightarrow> (if mi_role m = ''developer''
          then [t. InputText t \<leftarrow> mi_content m, matches_text t] else [])
      | OtherResponse _ \<Rightarrow> [])"

definition kept_content :: "MessageItem \<Rightarrow> AnnotatedContent list" where
  "kept_content m = filter keeps_content
     (zip (mi_content m)
        ((case mi_content_item_kinds m of Some ks \<Rightarrow> ks | None \<Rightarrow> []) @ replicate (length (mi_content m)) ''unknown''))"

definition without_briefs :: "MessageItem \<Rightarrow> MessageItem" where
  "without_briefs m = m\<lparr> mi_content := map fst (kept_content m), mi_content_item_kinds := Some (map snd (kept_content m)) \<rparr>"

lemma retain_message:
  "retain_without_ascodex_stage_brief (Message m) =
     (if mi_role m \<noteq> ''developer'' then Some (Message m)
      else if kept_content m = [] then None else Some (Message (without_briefs m)))"
  by (simp add: retain_without_ascodex_stage_brief_def is_developer_def to_annotated_content_def
      set_annotated_content_def kept_content_def without_briefs_def Let_def)

lemma kept_content_items: "map fst (kept_content m) = filter (\<lambda>c. keeps_content (c, k)) (mi_content m)"
proof -
  let ?ks = "(case mi_content_item_kinds m of Some ks \<Rightarrow> ks | None \<Rightarrow> []) @ replicate (length (mi_content m)) ''unknown''"
  have "map fst (filter keeps_content (zip cs ks)) = filter (\<lambda>c. keeps_content (c, k)) cs" if "length cs \<le> length ks" for cs ks
    using that
  proof (induction cs arbitrary: ks)
    case (Cons c cs)
    then show ?case
      by (cases ks) (auto simp: keeps_content_def)
  qed simp
  then show ?thesis
    by (simp add: kept_content_def)
qed

lemma retain_no_briefs:
  assumes "retain_without_ascodex_stage_brief r = Some r'"
  shows "brief_texts r' = []"
proof (cases r)
  case (Message m)
  have "brief_texts (Message (without_briefs m)) = []"
    by (auto simp: brief_texts_def without_briefs_def kept_content_items [of m undefined] keeps_content_def
        split: ContentItem.splits)
  then show ?thesis
    using assms by (auto simp: Message retain_message brief_texts_def split: if_splits)
next
  case (OtherResponse i)
  then show ?thesis
    using assms by (auto simp: retain_without_ascodex_stage_brief_def is_developer_def brief_texts_def)
qed

lemma removed_no_briefs:
  "Response r \<in> set (remove_ascodex_stage_briefs items) \<Longrightarrow> brief_texts r = []"
  by (induction items rule: remove_ascodex_stage_briefs.induct)
     (auto dest: retain_no_briefs split: RolloutItem.splits option.splits)

text \<open>What happens to one item: a developer message loses its briefs, and is dropped when nothing is left.\<close>

definition without_brief_item :: "RolloutItem \<Rightarrow> RolloutItem list" where
  "without_brief_item item =
     (case item of
        Response (Message m) \<Rightarrow>
          if mi_role m \<noteq> ''developer'' then [item]
          else if kept_content m = [] then [] else [Response (Message (without_briefs m))]
      | _ \<Rightarrow> [item])"

lemma removed_concat: "remove_ascodex_stage_briefs items = concat (map without_brief_item items)"
proof (induction items rule: remove_ascodex_stage_briefs.induct)
  case (2 item items)
  have "retain_without_ascodex_stage_brief (OtherResponse i) = Some (OtherResponse i)" for i
    by (simp add: retain_without_ascodex_stage_brief_def is_developer_def)
  with 2 show ?case
    by (auto simp: without_brief_item_def retain_message split: RolloutItem.splits ResponseItem.splits)
qed simp

lemma find_map_append: "find_map f (xs @ ys) = (case find_map f xs of Some y \<Rightarrow> Some y | None \<Rightarrow> find_map f ys)"
  by (induction xs) (auto split: option.splits)

lemma find_map_removed:
  assumes "\<And>r. f (Response r) = None"
  shows "find_map f (remove_ascodex_stage_briefs items) = find_map f items"
    and "find_map f (rev (remove_ascodex_stage_briefs items)) = find_map f (rev items)"
proof -
  have one: "find_map f (without_brief_item item) = f item" "find_map f (rev (without_brief_item item)) = f item" for item
    by (auto simp: without_brief_item_def assms split: RolloutItem.splits ResponseItem.splits option.splits)
  show "find_map f (remove_ascodex_stage_briefs items) = find_map f items"
    unfolding removed_concat by (induction items) (simp_all add: find_map_append one split: option.splits)
  show "find_map f (rev (remove_ascodex_stage_briefs items)) = find_map f (rev items)"
    unfolding removed_concat by (induction items) (simp_all add: find_map_append one split: option.splits)
qed

lemma removed_version:
  "multi_agent_version_from_items (remove_ascodex_stage_briefs items) i = multi_agent_version_from_items items i"
  unfolding multi_agent_version_from_items_def by (subst (1 2) find_map_removed(2)) simp_all

lemma removed_session_data:
  assumes "h' = h\<lparr> rh_history := remove_ascodex_stage_briefs (rh_history h) \<rparr>"
  shows "get_multi_agent_version (Resumed h') = get_multi_agent_version (Resumed h)"
    and "get_resumed_session_sources (Resumed h') = get_resumed_session_sources (Resumed h)"
  by (simp_all add: assms get_multi_agent_version_def removed_version get_resumed_session_sources_def
      get_resumed_session_meta_def find_map_removed)

section \<open>Properties\<close>

text \<open>
  C28. The response items of a resumed history carry no stage brief.  After the removal no developer message
  among the response items of the history contains a text between the markers, such as every injected
  brief is; developer messages lose exactly those texts, keep the other contents with their
  classifications, and are dropped when nothing is left; every other item is kept in its place as it
  was, which holds of the checkpoint of a compaction too, with any brief in its replacement history;
  and the session data the resume decides on is that of the original history.
\<close>

theorem resumed_items_carry_no_brief:
  assumes "h' = h\<lparr> rh_history := remove_ascodex_stage_briefs (rh_history h) \<rparr>"
  shows "(\<forall>r. Response r \<in> set (rh_history h') \<longrightarrow> brief_texts r = [])
    \<and> matches_text (render_fragment_text brief)
    \<and> rh_history h' = concat (map without_brief_item (rh_history h))
    \<and> get_multi_agent_version (Resumed h') = get_multi_agent_version (Resumed h)
    \<and> get_resumed_session_sources (Resumed h') = get_resumed_session_sources (Resumed h)"
  using removed_no_briefs [of _ "rh_history h"] rendered_brief_matches removed_session_data [OF assms]
  by (simp add: assms removed_concat [symmetric])

definition briefed_message :: "string \<Rightarrow> string \<Rightarrow> ResponseItem" where
  "briefed_message r brief = Message
     \<lparr> mi_role = r, mi_content = [InputText (render_fragment_text brief), InputText ''kept''], mi_content_item_kinds = None \<rparr>"

definition briefed_history :: ResumedHistory where
  "briefed_history =
     \<lparr> rh_conversation_id = ''worker'',
       rh_history = [SessionMetaItem \<lparr> sm_id = ''worker'', sm_source = Cli, sm_multi_agent_version = Some V1 \<rparr>,
         Response (briefed_message ''developer'' ''old''), Response (briefed_message ''user'' ''old'')] \<rparr>"

theorem resumed_items_carry_no_brief_witness:
  "(\<exists>h'. h' = briefed_history\<lparr> rh_history := remove_ascodex_stage_briefs (rh_history briefed_history) \<rparr>
     \<and> length (rh_history h') = 3 \<and> get_multi_agent_version (Resumed h') = Some V1)
   \<and> brief_texts (briefed_message ''developer'' ''old'') \<noteq> []"
proof -
  let ?h = "briefed_history\<lparr> rh_history := remove_ascodex_stage_briefs (rh_history briefed_history) \<rparr>"
  have "length (concat (map without_brief_item (rh_history briefed_history))) = 3"
    "get_multi_agent_version (Resumed briefed_history) = Some V1"
    "brief_texts (briefed_message ''developer'' ''old'') \<noteq> []"
    by code_simp+
  with resumed_items_carry_no_brief [OF refl, of briefed_history "''old''"] show ?thesis
    by metis
qed

text \<open>
  The removal looks at the items of the history only, not into the checkpoint of a compaction, whose
  items replace the history when the conversation is rebuilt: a brief recorded there stays.
\<close>

theorem checkpoint_keeps_its_briefs:
  "remove_ascodex_stage_briefs [Compacted (Some [briefed_message ''developer'' brief])]
     = [Compacted (Some [briefed_message ''developer'' brief])]
   \<and> brief_texts (briefed_message ''developer'' brief) \<noteq> []"
  by (simp add: briefed_message_def brief_texts_def rendered_brief_matches)

end
