(* ===== verification/SpawnGate.thy ===== *)
theory SpawnGate
  imports ChildPermissions BriefHistory ToolDispatch ObservationLedger
begin

text \<open>
  Starting and resuming a worker: the solver gates of \<open>spawn_agent_internal\<close>,
  \<open>admit_resumed_v1_solver_thread\<close> and \<open>ensure_v2_agent_loaded\<close> with the functions they call, in
  \<open>core/src/agent/control/spawn.rs\<close>.  A thread id is its text.

  \<open>SpawnEnv\<close> is the process of the submission tool with the configuration environment, the live threads
  and the system clock in milliseconds since the epoch, nothing when it is set before it, and whether a
  live thread stops when it is asked to, an answer the code does not look at.  The ledger
  is the model's, or nothing when it cannot be opened; the admission of one worker sees one ledger and
  one reading of the clock, the binding made after its start another.
\<close>

record ParentThread =
  pt_session_id :: string
  pt_same_control :: bool
  pt_time_ms :: "int option"

record SpawnEnv =
  sn_process :: SubmitEnv
  sn_config :: ConfigEnv
  sn_threads :: "string \<Rightarrow> ParentThread option"
  sn_clock_ms :: "nat option"
  sn_shutdown :: "string \<Rightarrow> bool"

definition spawn_ledger_env :: "SpawnEnv \<Rightarrow> Env" where
  "spawn_ledger_env env = submit_env (sn_process env)"

definition now_unix_timestamp_ms :: "SpawnEnv \<Rightarrow> int" where
  "now_unix_timestamp_ms env = (case sn_clock_ms env of Some n \<Rightarrow> min (int n) i64_max | None \<Rightarrow> 0)"

definition required_ascodex_env :: "SpawnEnv \<Rightarrow> string \<Rightarrow> SpawnError + string" where
  "required_ascodex_env env name =
     ok_or (non_empty (su_var (sn_process env) name)) (InvalidRequest (''ASCodex solver profile requires '' @ name))"

definition open_for :: "string \<Rightarrow> Ledger option \<Rightarrow> SpawnError + Ledger" where
  "open_for message ledger = ok_or ledger (InvalidRequestBy message)"

section \<open>The chief behind a spawn\<close>

text \<open>\<open>str::parse::<u64>\<close>.\<close>

definition parse_u64 :: "string \<Rightarrow> nat option" where
  "parse_u64 s =
     (let ds = (case s of c # cs \<Rightarrow> if c = CHR ''+'' then cs else s | [] \<Rightarrow> []);
          n = foldl (\<lambda>n c. 10 * n + (of_char c - 48)) 0 ds
      in if ds = [] \<or> \<not> list_all (\<lambda>c. c \<in> set ''0123456789'') ds \<or> u64_max < n then None else Some n)"

definition resolve_parent_cycle_binding ::
  "SpawnEnv \<Rightarrow> Ledger option \<Rightarrow> string \<Rightarrow> string \<Rightarrow> int \<Rightarrow> SpawnError + ThreadCycleBinding" where
  "resolve_parent_cycle_binding env ledger parent_thread_id session_id now_ms =
     and_then (open_for ''ASCodex cycle binding blocked: cannot open existing Guard ledger: '' ledger) (\<lambda>l.
     map_err (BindingBlocked ''ASCodex cycle binding blocked: '')
       (resolve_thread_cycle_binding_for_live_thread (spawn_ledger_env env) l parent_thread_id session_id Chief now_ms))"

definition verify_chief_spawn_lease ::
  "SpawnEnv \<Rightarrow> Ledger option \<Rightarrow> string \<Rightarrow> string \<Rightarrow> string \<Rightarrow> string \<Rightarrow> string \<Rightarrow> string \<Rightarrow> string \<Rightarrow> nat \<Rightarrow> int \<Rightarrow>
   SpawnError + unit" where
  "verify_chief_spawn_lease env ledger chief_lease_id live_agent_id live_session_id live_thread_id campaign_id
       ch cycle_id cycle_event_version now_ms =
     and_then (open_for ''ASCodex Chief spawn lease blocked: cannot open existing Guard ledger: '' ledger) (\<lambda>l.
     map_err (BindingBlocked ''ASCodex Chief spawn lease blocked: '')
       (and_then (resolve_chief_spawn_context (spawn_ledger_env env) l chief_lease_id live_agent_id live_session_id
          live_thread_id campaign_id ch cycle_id cycle_event_version now_ms) (\<lambda>_. Ok ())))"

definition env_agrees :: "SpawnEnv \<Rightarrow> string \<times> string \<Rightarrow> SpawnError + unit" where
  "env_agrees env = (\<lambda>(name, actual).
     fail_if (case non_empty (su_var (sn_process env) name) of Some expected \<Rightarrow> expected \<noteq> actual | None \<Rightarrow> False)
       (InvalidRequest (''ASCodex Chief spawn lease blocked: '' @ name @ '' disagrees with durable thread cycle binding'')))"

definition authorize_solver_spawn_from_chief ::
  "SpawnEnv \<Rightarrow> Ledger option \<Rightarrow> string \<Rightarrow> SpawnError + ThreadCycleBinding" where
  "authorize_solver_spawn_from_chief env ledger parent_thread_id =
     and_then (ok_or (sn_threads env parent_thread_id)
         (InvalidRequestBy ''ASCodex Chief spawn lease blocked: live parent thread is unavailable: '')) (\<lambda>parent.
     if pt_session_id parent \<noteq> su_session_id (sn_process env) \<or> \<not> pt_same_control parent
     then Err (InvalidRequest
       ''ASCodex Chief spawn lease blocked: parent does not belong to this live agent-control session'')
     else
     and_then (ok_or (pt_time_ms parent)
         (InvalidRequestBy ''ASCodex Chief spawn lease blocked: cannot read trusted Core time: '')) (\<lambda>now_ms.
     and_then (required_ascodex_env env ''ASCODEX_SOLVER_LEDGER_FILE'') (\<lambda>ledger_file.
     and_then (required_ascodex_env env ''ASCODEX_CHIEF_LEASE_ID'') (\<lambda>chief_lease_id.
     and_then (resolve_parent_cycle_binding env ledger parent_thread_id (pt_session_id parent) now_ms) (\<lambda>binding.
     and_then (checks (map (env_agrees env)
         [(''ASCODEX_CAMPAIGN_ID'', tb_campaign_id binding), (''ASCODEX_CHALLENGE_ID'', tb_challenge_id binding),
          (''ASCODEX_CYCLE_ID'', tb_cycle_id binding)])) (\<lambda>_.
     and_then (fail_if (case non_empty (su_var (sn_process env) ''ASCODEX_CYCLE_EVENT_VERSION'') of
           Some version \<Rightarrow> parse_u64 version \<noteq> Some (tb_cycle_event_version binding) | None \<Rightarrow> False)
         (InvalidRequest ''ASCodex Chief spawn lease blocked: cycle event version disagrees with durable thread cycle binding'')) (\<lambda>_.
     and_then (verify_chief_spawn_lease env ledger chief_lease_id (tb_agent_id binding) (tb_session_id binding)
         parent_thread_id (tb_campaign_id binding) (tb_challenge_id binding) (tb_cycle_id binding)
         (tb_cycle_event_version binding) now_ms) (\<lambda>_.
     if chief_lease_id \<noteq> tb_chief_lease_id binding
     then Err (InvalidRequest ''ASCodex Chief spawn lease blocked: lease does not match durable cycle binding'')
     else Ok binding))))))))"

section \<open>Contract and brief\<close>

definition validate_contract_for_spawn ::
  "SpawnEnv \<Rightarrow> ThreadCycleBinding \<Rightarrow> Role \<Rightarrow> int \<Rightarrow> SpawnError + unit" where
  "validate_contract_for_spawn env binding role now_ms =
     (let p = sn_process env in
      and_then (required_ascodex_env env ''ASCODEX_CONTRACT_FILE'') (\<lambda>contract_file.
      and_then (required_ascodex_env env ''ASCODEX_CONTRACT_INPUT_FILE'') (\<lambda>fingerprint_input_file.
      map_err ContractBlocked (validate_contract_files (fl_read (su_files p)) (fl_sha256 (su_files p)) (su_contract p)
        contract_file fingerprint_input_file (tb_challenge_id binding) (Some role) now_ms))))"

definition load_stage_brief_for_spawn ::
  "SpawnEnv \<Rightarrow> Ledger option \<Rightarrow> string option \<Rightarrow> ThreadCycleBinding \<Rightarrow> SpawnError + VerifiedStageBrief" where
  "load_stage_brief_for_spawn env ledger agent_role binding =
     and_then (ok_or agent_role (InvalidRequest ''ASCodex solver profile requires an explicit child role'')) (\<lambda>worker_role.
     and_then (ok_or (role_from_solver_role_name worker_role)
         (InvalidRequest (''ASCodex solver profile does not recognize child role `'' @ worker_role @ ''`''))) (\<lambda>role.
     and_then (ok_or (su_var (sn_process env) ''ASCODEX_SOLVER_LEDGER_FILE'')
         (InvalidRequest ''ASCodex solver profile requires ASCODEX_SOLVER_LEDGER_FILE'')) (\<lambda>ledger_file.
     and_then (ok_or (sn_clock_ms env) (InvalidRequest ''ASCodex system clock precedes Unix epoch'')) (\<lambda>now.
     if i64_max < int now then Err (InvalidRequest ''ASCodex system clock is out of range'')
     else map_err StageBriefBlocked (load_and_render_issued_brief (ce_runtime (sn_config env)) (spawn_ledger_env env)
       ledger_file ledger (tb_cycle_id binding) (tb_campaign_id binding) (tb_challenge_id binding) role (int now))))))"

section \<open>Spawning\<close>

definition admit_thread_spawn ::
  "SpawnEnv \<Rightarrow> Ledger option \<Rightarrow> string \<Rightarrow> int \<Rightarrow> string option \<Rightarrow> Config \<Rightarrow>
   SpawnError + VerifiedStageBrief option \<times> Config" where
  "admit_thread_spawn env ledger parent_thread_id depth agent_role c =
     (let solver_mode = solver_mode_on (sn_process env);
          lineage = \<lparr> lr_parent_present = sn_threads env parent_thread_id \<noteq> None, lr_depth = depth,
                      lr_role = agent_role, lr_ephemeral = cg_ephemeral c \<rparr>
      in
      and_then (map_err (\<lambda>reason. InvalidRequest (''ASCodex solver lineage blocked: '' @ reason))
          (lineage_preflight lineage solver_mode)) (\<lambda>_.
      and_then (map_err (\<lambda>reason. InvalidRequest (''ASCodex solver dispatch blocked: '' @ reason))
          (solver_spawn_depth_preflight depth solver_mode)) (\<lambda>_.
      if \<not> solver_mode then Ok (None, c)
      else
      and_then (authorize_solver_spawn_from_chief env ledger parent_thread_id) (\<lambda>cycle_binding.
      and_then (ok_or agent_role (InvalidRequest ''ASCodex contract gate blocked: missing child role'')) (\<lambda>worker_role.
      and_then (ok_or (role_from_solver_role_name worker_role) (InvalidRequest ''ASCodex child role is invalid'')) (\<lambda>role.
      and_then (validate_contract_for_spawn env cycle_binding role (now_unix_timestamp_ms env)) (\<lambda>_.
      and_then (enforce_solver_role_permissions_by_name (sn_config env) c agent_role) (\<lambda>c.
      and_then (load_stage_brief_for_spawn env ledger agent_role cycle_binding) (\<lambda>brief.
      and_then (apply_stage_brief_workspace_acl (sn_config env) c brief) (\<lambda>c.
      Ok (Some brief, c)))))))))))"

definition admit_spawn ::
  "SpawnEnv \<Rightarrow> Ledger option \<Rightarrow> SessionSource option \<Rightarrow> Config \<Rightarrow> SpawnError + VerifiedStageBrief option \<times> Config" where
  "admit_spawn env ledger source c =
     (case source of
        Some (SubAgent (ThreadSpawn parent_thread_id depth _ _ agent_role)) \<Rightarrow>
          admit_thread_spawn env ledger parent_thread_id depth agent_role c
      | _ \<Rightarrow> Ok (None, c))"

text \<open>The binding of the started thread, in solver mode and for a source with a role; else nothing is done.\<close>

definition bind_spawned ::
  "SpawnEnv \<Rightarrow> Ledger option \<Rightarrow> string \<Rightarrow> string \<Rightarrow> string \<Rightarrow> SpawnError + LedgerError + Ledger" where
  "bind_spawned env ledger parent worker_role child =
     and_then (required_ascodex_env env ''ASCODEX_SOLVER_LEDGER_FILE'') (\<lambda>ledger_file.
     and_then (ok_or (role_from_solver_role_name worker_role) (InvalidRequest ''ASCodex child role is invalid'')) (\<lambda>role.
     and_then (open_for ''ASCodex cycle binding blocked: '' ledger) (\<lambda>l.
     Ok (and_then (bind_child_thread_to_cycle (spawn_ledger_env env) l parent child child
          (su_session_id (sn_process env)) role (''child:'' @ child) (now_unix_timestamp_ms env)) (\<lambda>(_, l'). Ok l')))))"

text \<open>
  The whole spawn up to the binding.  \<open>start\<close> starts the thread with the admitted configuration: it reserves
  a slot, prepares metadata and history, and returns the id of the running thread.  The outcome is
  the answer, the thread that is running afterwards and the stored ledger.
\<close>

record SpawnOutcome =
  so_result :: "SpawnError + string"
  so_running :: "string option"
  so_ledger :: "Ledger option"

definition finish_spawn ::
  "SpawnEnv \<Rightarrow> Ledger option \<Rightarrow> SessionSource option \<Rightarrow> string \<Rightarrow> SpawnOutcome" where
  "finish_spawn env ledger source child =
     (case source of
        Some (SubAgent (ThreadSpawn parent _ _ _ (Some worker_role))) \<Rightarrow>
          if \<not> solver_mode_on (sn_process env)
          then \<lparr> so_result = Ok child, so_running = Some child, so_ledger = ledger \<rparr>
          else (case bind_spawned env ledger parent worker_role child of
                  Inl e \<Rightarrow> \<lparr> so_result = Err e, so_running = Some child, so_ledger = ledger \<rparr>
                | Inr (Inl e) \<Rightarrow> \<lparr> so_result = Err (BindingBlocked ''ASCodex cycle binding blocked: '' e),
                    so_running = (if sn_shutdown env child then None else Some child), so_ledger = ledger \<rparr>
                | Inr (Inr l) \<Rightarrow> \<lparr> so_result = Ok child, so_running = Some child, so_ledger = Some l \<rparr>)
      | _ \<Rightarrow> \<lparr> so_result = Ok child, so_running = Some child, so_ledger = ledger \<rparr>)"

definition spawn_agent_internal ::
  "SpawnEnv \<Rightarrow> (Config \<Rightarrow> SpawnError + string) \<Rightarrow> Ledger option \<Rightarrow> Ledger option \<Rightarrow> SessionSource option \<Rightarrow> Config \<Rightarrow>
   SpawnOutcome" where
  "spawn_agent_internal env start admission_ledger binding_ledger source c =
     (case and_then (admit_spawn env admission_ledger source c) (\<lambda>(_, c). start c) of
        Inl e \<Rightarrow> \<lparr> so_result = Err e, so_running = None, so_ledger = binding_ledger \<rparr>
      | Inr child \<Rightarrow> finish_spawn env binding_ledger source child)"

section \<open>Resuming\<close>

definition ensure_recovery_canary_for_resume ::
  "SpawnEnv \<Rightarrow> Ledger option \<Rightarrow> string \<Rightarrow> int \<Rightarrow> SpawnError + unit" where
  "ensure_recovery_canary_for_resume env ledger thread_id now_ms =
     and_then (open_for ''ASCodex recovery blocked: cannot open existing Guard ledger: '' ledger) (\<lambda>l.
     and_then (required_ascodex_env env ''ASCODEX_RECOVERY_ID'') (\<lambda>recovery_id.
     and_then (required_ascodex_env env ''ASCODEX_RUNTIME_INSTANCE_ID'') (\<lambda>runtime_instance_id.
     and_then (map_err (BindingBlocked ''ASCodex recovery blocked: isolated canary is not valid for this runtime: '')
         (load_recovery_canary (spawn_ledger_env env) l recovery_id runtime_instance_id now_ms)) (\<lambda>persisted.
     if list_ex (\<lambda>e. phase (re_evidence e) = RecoveryPhase.Failed) (tr_events (pc_trace persisted))
     then Err (InvalidRequest ''ASCodex recovery blocked: canary recorded a terminal failure'')
     else if \<not> rehydration_allowed (en_sha256 (spawn_ledger_env env)) (pc_trace persisted) now_ms \<or> is_blank thread_id
     then Err (InvalidRequest ''ASCodex recovery blocked: canary has not reached the rehydration boundary'')
     else Ok ()))))"

definition solver_resume_role :: "SessionSource \<Rightarrow> SpawnError + string" where
  "solver_resume_role source =
     (case source of
        SubAgent (ThreadSpawn _ depth _ _ (Some role)) \<Rightarrow>
          and_then (map_err (\<lambda>reason. InvalidRequest (''ASCodex solver resume blocked: '' @ reason))
            (solver_spawn_depth_preflight depth True)) (\<lambda>_. Ok role)
      | _ \<Rightarrow> Err (InvalidRequest
          ''ASCodex solver resume requires a persisted ThreadSpawn source with an explicit role''))"

definition resolve_thread_cycle_binding_for_resume ::
  "SpawnEnv \<Rightarrow> Ledger option \<Rightarrow> string \<Rightarrow> string \<Rightarrow> string option \<Rightarrow> Role \<Rightarrow> int \<Rightarrow> SpawnError + ThreadCycleBinding" where
  "resolve_thread_cycle_binding_for_resume env ledger thread_id session_id parent_thread_id role now_ms =
     and_then (open_for ''ASCodex cycle binding blocked: cannot open existing Guard ledger: '' ledger) (\<lambda>l.
     map_err (BindingBlocked ''ASCodex cycle binding blocked: '')
       (resolve_thread_cycle_binding (spawn_ledger_env env) l thread_id thread_id session_id parent_thread_id role now_ms))"

definition resume_role :: "string \<Rightarrow> SpawnError + Role" where
  "resume_role worker_role =
     ok_or (role_from_solver_role_name worker_role)
       (InvalidRequest (''ASCodex solver resume blocked: unknown role `'' @ worker_role @ ''`''))"

definition admit_resumed_v1_solver_thread_with_gate ::
  "SpawnEnv \<Rightarrow> Ledger option \<Rightarrow> bool \<Rightarrow> Config \<Rightarrow> InitialHistory \<Rightarrow> SpawnError + Config \<times> InitialHistory" where
  "admit_resumed_v1_solver_thread_with_gate env ledger solver_mode c h =
     (case h of
        Resumed r \<Rightarrow>
          if \<not> solver_mode \<or> get_multi_agent_version h = Some V2 then Ok (c, h)
          else
          and_then (ok_or (get_resumed_session_sources h)
              (InvalidRequest ''ASCodex solver resume requires a persisted session source'')) (\<lambda>source.
          if \<not> is_non_root_agent source then Ok (c, h)
          else case source of
            SubAgent (ThreadSpawn parent_thread_id _ _ _ _) \<Rightarrow>
              (let thread_id = rh_conversation_id r; now_ms = now_unix_timestamp_ms env in
               and_then (ensure_recovery_canary_for_resume env ledger thread_id now_ms) (\<lambda>_.
               and_then (solver_resume_role source) (\<lambda>worker_role.
               let r = r\<lparr> rh_history := remove_ascodex_stage_briefs (rh_history r) \<rparr> in
               and_then (enforce_solver_role_permissions_by_name (sn_config env) c (Some worker_role)) (\<lambda>c.
               and_then (resume_role worker_role) (\<lambda>role.
               and_then (resolve_thread_cycle_binding_for_resume env ledger thread_id (su_session_id (sn_process env))
                   (Some parent_thread_id) role now_ms) (\<lambda>binding.
               and_then (validate_contract_for_spawn env binding role now_ms) (\<lambda>_.
               and_then (load_stage_brief_for_spawn env ledger (Some worker_role) binding) (\<lambda>brief.
               and_then (apply_stage_brief_workspace_acl (sn_config env) c brief) (\<lambda>c.
               Ok (c, Resumed r))))))))))
          | _ \<Rightarrow> Err (InvalidRequest ''ASCodex solver resume only accepts persisted ThreadSpawn child sources''))
      | _ \<Rightarrow> Ok (c, h))"

definition admit_resumed_v1_solver_thread ::
  "SpawnEnv \<Rightarrow> Ledger option \<Rightarrow> Config \<Rightarrow> InitialHistory \<Rightarrow> SpawnError + Config \<times> InitialHistory" where
  "admit_resumed_v1_solver_thread env ledger c h =
     (if \<not> solver_mode_on (sn_process env) then Ok (c, h)
      else and_then (required_ascodex_env env ''ASCODEX_SOLVER_LEDGER_FILE'') (\<lambda>_.
        admit_resumed_v1_solver_thread_with_gate env ledger True c h))"

text \<open>
  The solver steps of \<open>ensure_v2_agent_loaded\<close>, from the canary to the last change of the configuration: \<open>stored\<close>
  is the source of the stored thread, \<open>restore\<close> the steps between the two applications of the boundary,
  which check the recorded parent and apply the role's configuration.
\<close>

definition parent_thread_id :: "SessionSource \<Rightarrow> string option" where
  "parent_thread_id s = (case s of SubAgent (ThreadSpawn parent _ _ _ _) \<Rightarrow> Some parent | _ \<Rightarrow> None)"

definition admit_reloaded_v2_solver_thread ::
  "SpawnEnv \<Rightarrow> Ledger option \<Rightarrow> (Config \<Rightarrow> SpawnError + Config) \<Rightarrow> SessionSource \<Rightarrow> ResumedHistory \<Rightarrow> Config \<Rightarrow>
   SpawnError + Config \<times> InitialHistory" where
  "admit_reloaded_v2_solver_thread env ledger restore stored r c =
     (let thread_id = rh_conversation_id r; now_ms = now_unix_timestamp_ms env in
      and_then (required_ascodex_env env ''ASCODEX_SOLVER_LEDGER_FILE'') (\<lambda>_.
      and_then (ensure_recovery_canary_for_resume env ledger thread_id now_ms) (\<lambda>_.
      and_then (solver_resume_role stored) (\<lambda>stored_role.
      let h = Resumed (r\<lparr> rh_history := remove_ascodex_stage_briefs (rh_history r) \<rparr>) in
      if get_multi_agent_version h \<noteq> Some V2 then Err (ThreadNotFound thread_id)
      else
      let source = (case get_resumed_session_sources h of Some s \<Rightarrow> s | None \<Rightarrow> stored) in
      and_then (solver_resume_role source) (\<lambda>worker_role.
      if stored_role \<noteq> worker_role
      then Err (InvalidRequest ''ASCodex solver resume blocked: persisted session sources disagree on child role'')
      else
      and_then (resume_role worker_role) (\<lambda>role.
      and_then (resolve_thread_cycle_binding_for_resume env ledger thread_id (su_session_id (sn_process env))
          (parent_thread_id source) role now_ms) (\<lambda>binding.
      and_then (validate_contract_for_spawn env binding role now_ms) (\<lambda>_.
      and_then (load_stage_brief_for_spawn env ledger (Some worker_role) binding) (\<lambda>brief.
      and_then (apply_stage_brief_workspace_acl (sn_config env) c brief) (\<lambda>c.
      and_then (restore c) (\<lambda>c.
      and_then (enforce_solver_role_permissions_by_name (sn_config env) c (Some worker_role)) (\<lambda>c.
      and_then (apply_stage_brief_workspace_acl (sn_config env) c brief) (\<lambda>c.
      Ok (c, h))))))))))))))"

end
