(* ===== verification/SpawnSpec.thy ===== *)
theory SpawnSpec
  imports SpawnGate
begin

text \<open>
  What the gates of a spawn and of a resume establish: the contract and the brief of the worker, the
  boundary it starts with, the chief behind it, the proof of recovery and its binding.
\<close>

text \<open>The contract of the challenge, under the role, from the two configured files.\<close>

definition spawn_contract :: "SpawnEnv \<Rightarrow> string \<Rightarrow> Role \<Rightarrow> int \<Rightarrow> bool" where
  "spawn_contract env ch role now_ms \<longleftrightarrow>
     (\<exists>cf inf raw input c. su_var (sn_process env) ''ASCODEX_CONTRACT_FILE'' = Some cf
        \<and> su_var (sn_process env) ''ASCODEX_CONTRACT_INPUT_FILE'' = Some inf \<and> is_absolute cf \<and> is_absolute inf
        \<and> fl_read (su_files (sn_process env)) cf = Some raw \<and> fl_read (su_files (sn_process env)) inf = Some input
        \<and> su_contract (sn_process env) raw = Some c
        \<and> verify_fingerprint_input (fl_sha256 (su_files (sn_process env))) c input = Ok ()
        \<and> ChallengeContract_validate c ch now_ms = Ok () \<and> cc_challenge_id c = ch
        \<and> (role = Solver \<longrightarrow> cc_status c = Known))"

text \<open>
  The sandbox is restricted without network, every entry is a root of the boundary of the brief with
  its mode, and only a solver has a writable one.
\<close>

definition confined :: "ConfigEnv \<Rightarrow> VerifiedStageBrief \<Rightarrow> Config \<Rightarrow> bool" where
  "confined env v c \<longleftrightarrow>
     (\<exists>parents acl entries. role_workspace_acl (ce_runtime env) v parents = Ok acl
        \<and> cg_permission_profile c = Managed (RestrictedTo entries) Restricted
        \<and> list_all (readable_entry env acl) entries
        \<and> (vb_role v \<noteq> Solver \<longrightarrow> list_all (\<lambda>e. fe_access e = Read) entries)
        \<and> ce_from_absolute_path env (wa_cwd acl) = Some (cg_cwd c))"

definition prepared :: "SpawnEnv \<Rightarrow> Ledger \<Rightarrow> string \<Rightarrow> string \<Rightarrow> string \<Rightarrow> Role \<Rightarrow> Config \<Rightarrow> bool" where
  "prepared env l cycle_id campaign_id ch role c \<longleftrightarrow>
     spawn_contract env ch role (now_unix_timestamp_ms env)
     \<and> (\<exists>path v. load_and_render_issued_brief (ce_runtime (sn_config env)) (spawn_ledger_env env) path (Some l)
            cycle_id campaign_id ch role (now_unix_timestamp_ms env) = Ok v
          \<and> vb_role v = role \<and> confined (sn_config env) v c)"

text \<open>An unrevoked row of the thread in this session, with its cycle active and, for a worker, its brief loadable.\<close>

definition bound_row :: "SpawnEnv \<Rightarrow> Ledger \<Rightarrow> string \<Rightarrow> string option \<Rightarrow> Role \<Rightarrow> int \<Rightarrow> BindingRow \<Rightarrow> bool" where
  "bound_row env l thread_id parent role now_ms b \<longleftrightarrow>
     b \<in> set (thread_cycle_bindings l) \<and> bd_thread_id b = thread_id \<and> bd_parent_thread_id b = parent
     \<and> bd_session_id b = su_session_id (sn_process env) \<and> bd_role b = role_name role \<and> bd_revoked_at_ms b = None
     \<and> (\<exists>cyc. load_active_cycle_for_binding (spawn_ledger_env env) l (bd_cycle_id b) (bd_campaign_id b) (bd_challenge_id b)
          (bd_chief_lease_id b) (nat (bd_cycle_event_version b)) now_ms = Ok cyc)"

definition recovery_proved :: "SpawnEnv \<Rightarrow> Ledger \<Rightarrow> bool" where
  "recovery_proved env l \<longleftrightarrow>
     (\<exists>recovery inst pc. su_var (sn_process env) ''ASCODEX_RECOVERY_ID'' = Some recovery
        \<and> su_var (sn_process env) ''ASCODEX_RUNTIME_INSTANCE_ID'' = Some inst
        \<and> load_recovery_canary (spawn_ledger_env env) l recovery inst (now_unix_timestamp_ms env) = Ok pc
        \<and> rehydration_allowed (en_sha256 (spawn_ledger_env env)) (pc_trace pc) (now_unix_timestamp_ms env)
        \<and> list_all (\<lambda>e. phase (re_evidence e) \<noteq> RecoveryPhase.Failed) (tr_events (pc_trace pc)))"

section \<open>Lemmas\<close>

lemma required_env_Some [simp]:
  "required_ascodex_env env name = Inr v \<longleftrightarrow> su_var (sn_process env) name = Some v \<and> \<not> is_blank v"
  by (simp add: required_ascodex_env_def)

lemma open_for_Some [simp]: "open_for message ledger = Inr l \<longleftrightarrow> ledger = Some l"
  by (simp add: open_for_def)

lemma validate_contract_for_spawn_ok:
  "validate_contract_for_spawn env b role now_ms = Inr () \<Longrightarrow> spawn_contract env (tb_challenge_id b) role now_ms"
  unfolding validate_contract_for_spawn_def spawn_contract_def Let_def by (auto dest!: validate_contract_files_ok)

lemma apply_acl_confined:
  assumes "apply_stage_brief_workspace_acl env c v = Inr c'"
  shows "confined env v c'"
proof -
  obtain acl entries where ok: "role_workspace_acl (ce_runtime env) v (ce_effective_workspace_roots env c) = Inr acl"
    "cg_permission_profile c' = Managed (RestrictedTo entries) Restricted"
    "\<And>e. e \<in> set entries \<Longrightarrow> readable_entry env acl e" "ce_from_absolute_path env (wa_cwd acl) = Some (cg_cwd c')"
    using assms by (rule apply_acl_ok) blast
  obtain acl0 where "for_role (re_fs (ce_runtime env)) (vb_workspace_root v) (vb_role v) = Inr acl0"
    "wa_writable_roots acl = wa_writable_roots acl0"
    using ok(1) by (auto simp: role_workspace_acl_def split: if_splits)
  then have "wa_writable_roots acl = []" if "vb_role v \<noteq> Solver"
    using for_role_ok that by fastforce
  then have "fe_access e = Read" if "vb_role v \<noteq> Solver" "e \<in> set entries" for e
    using that ok(3) by (auto simp: readable_entry_def)
  then show ?thesis
    using ok unfolding confined_def list_all_iff by blast
qed

lemma load_stage_brief_for_spawn_ok:
  assumes "load_stage_brief_for_spawn env ledger agent_role b = Inr v"
  obtains l path name role where "ledger = Some l" "agent_role = Some name" "role_from_solver_role_name name = Some role"
    "load_and_render_issued_brief (ce_runtime (sn_config env)) (spawn_ledger_env env) path (Some l)
       (tb_cycle_id b) (tb_campaign_id b) (tb_challenge_id b) role (now_unix_timestamp_ms env) = Inr v" "vb_role v = role"
proof -
  obtain path name role now where ok: "agent_role = Some name" "role_from_solver_role_name name = Some role"
      "sn_clock_ms env = Some now" "int now \<le> i64_max"
      "load_and_render_issued_brief (ce_runtime (sn_config env)) (spawn_ledger_env env) path ledger
         (tb_cycle_id b) (tb_campaign_id b) (tb_challenge_id b) role (int now) = Inr v"
    using assms unfolding load_stage_brief_for_spawn_def by (auto simp: not_less split: if_splits)
  obtain l where l: "ledger = Some l"
    using ok(5) unfolding load_and_render_issued_brief_def by (auto split: if_splits)
  have w: "vb_role v = role"
    using ok(5) unfolding load_and_render_issued_brief_def by (auto split: if_splits dest!: verify_and_render_brief_ok)
  have "now_unix_timestamp_ms env = int now"
    using ok(3,4) by (simp add: now_unix_timestamp_ms_def)
  then show thesis
    using that ok l w by simp
qed

lemma resolved_row:
  assumes "resolve_thread_cycle_binding (spawn_ledger_env env) l thread_id agent_id (su_session_id (sn_process env)) parent role now_ms = Inr b"
  obtains r where "bound_row env l thread_id parent role now_ms r" "tb_cycle_id b = bd_cycle_id r"
    "tb_campaign_id b = bd_campaign_id r" "tb_challenge_id b = bd_challenge_id r" "tb_chief_lease_id b = bd_chief_lease_id r"
  using assms by (elim resolve_binding_row) (auto simp: bound_row_def)

text \<open>The chief behind a spawn: a live thread of this session, its binding, and its lease for spawning.\<close>

definition chief_authorized :: "SpawnEnv \<Rightarrow> Ledger \<Rightarrow> string \<Rightarrow> BindingRow \<Rightarrow> bool" where
  "chief_authorized env l parent b \<longleftrightarrow>
     (\<exists>t now_ms above cx agent ver. sn_threads env parent = Some t \<and> pt_session_id t = su_session_id (sn_process env)
        \<and> pt_same_control t \<and> pt_time_ms t = Some now_ms \<and> bound_row env l parent above Chief now_ms b
        \<and> su_var (sn_process env) ''ASCODEX_CHIEF_LEASE_ID'' = Some (bd_chief_lease_id b)
        \<and> resolve_chief_spawn_context (spawn_ledger_env env) l (bd_chief_lease_id b) agent (su_session_id (sn_process env))
            parent (bd_campaign_id b) (bd_challenge_id b) (bd_cycle_id b) ver now_ms = Ok cx)"

lemma resolved_session:
  "resolve_thread_cycle_binding env l tid aid sid parent role now = Inr b \<Longrightarrow> tb_session_id b = sid"
  by (auto simp: resolve_thread_cycle_binding_def split: if_splits)

lemma authorize_spawn_ok:
  assumes "authorize_solver_spawn_from_chief env ledger parent = Inr b"
  obtains l r where "ledger = Some l" "chief_authorized env l parent r" "tb_cycle_id b = bd_cycle_id r"
    "tb_campaign_id b = bd_campaign_id r" "tb_challenge_id b = bd_challenge_id r"
proof -
  obtain l t now_ms lease cx where ok: "ledger = Some l" "sn_threads env parent = Some t"
      "pt_session_id t = su_session_id (sn_process env)" "pt_same_control t" "pt_time_ms t = Some now_ms"
      "su_var (sn_process env) ''ASCODEX_CHIEF_LEASE_ID'' = Some lease"
      "resolve_thread_cycle_binding_for_live_thread (spawn_ledger_env env) l parent (pt_session_id t) Chief now_ms = Inr b"
      "resolve_chief_spawn_context (spawn_ledger_env env) l lease (tb_agent_id b) (tb_session_id b) parent
         (tb_campaign_id b) (tb_challenge_id b) (tb_cycle_id b) (tb_cycle_event_version b) now_ms = Inr cx"
      "lease = tb_chief_lease_id b"
    using assms unfolding authorize_solver_spawn_from_chief_def resolve_parent_cycle_binding_def verify_chief_spawn_lease_def
    by (auto split: if_splits)
  obtain aid above where bound: "resolve_thread_cycle_binding (spawn_ledger_env env) l parent aid (su_session_id (sn_process env))
      above Chief now_ms = Inr b"
    using resolve_live_thread [OF ok(7)] ok(3) by auto
  note session = resolved_session [OF bound]
  obtain r where r: "bound_row env l parent above Chief now_ms r" "tb_cycle_id b = bd_cycle_id r"
      "tb_campaign_id b = bd_campaign_id r" "tb_challenge_id b = bd_challenge_id r" "tb_chief_lease_id b = bd_chief_lease_id r"
    using bound by (rule resolved_row)
  have "chief_authorized env l parent r"
    using ok(2-6,8,9) r session unfolding chief_authorized_def by auto
  then show thesis
    using that ok(1) r by blast
qed

lemma canary_ok:
  assumes "ensure_recovery_canary_for_resume env ledger thread_id (now_unix_timestamp_ms env) = Inr ()"
  obtains l where "ledger = Some l" "recovery_proved env l"
  using assms unfolding ensure_recovery_canary_for_resume_def recovery_proved_def
  by (auto simp: list_all_iff list_ex_iff split: if_splits)

lemma resume_binding_ok:
  assumes "resolve_thread_cycle_binding_for_resume env ledger thread_id (su_session_id (sn_process env)) parent role now_ms = Inr b"
  obtains l r where "ledger = Some l" "bound_row env l thread_id parent role now_ms r" "tb_cycle_id b = bd_cycle_id r"
    "tb_campaign_id b = bd_campaign_id r" "tb_challenge_id b = bd_challenge_id r"
  using assms unfolding resolve_thread_cycle_binding_for_resume_def by (auto elim!: resolved_row)

end
