(* ===== verification/SpawnSafety.thy ===== *)
theory SpawnSafety
  imports SpawnSpec SubmitSafety RuntimeSafety
begin

text \<open>
  The properties of spawning and resuming a worker, with a worker spawned and one resumed on the ledger
  of the sample history.
\<close>

section \<open>Lemmas\<close>

text \<open>The stored row of a new worker: a child of an unrevoked chief row of the same session.\<close>

definition child_row :: "Ledger \<Rightarrow> string \<Rightarrow> string \<Rightarrow> string \<Rightarrow> Role \<Rightarrow> BindingRow \<Rightarrow> bool" where
  "child_row l parent child session_id role b \<longleftrightarrow>
     bd_thread_id b = child \<and> bd_agent_id b = child \<and> bd_parent_thread_id b = Some parent
     \<and> bd_session_id b = session_id \<and> bd_role b = role_name role \<and> bd_revoked_at_ms b = None
     \<and> (\<exists>p \<in> set (thread_cycle_bindings l). bd_thread_id p = parent \<and> bd_role p = role_name Chief
          \<and> bd_revoked_at_ms p = None \<and> bd_session_id p = session_id \<and> bd_campaign_id b = bd_campaign_id p
          \<and> bd_challenge_id b = bd_challenge_id p \<and> bd_chief_lease_id b = bd_chief_lease_id p)"

lemma bind_child_row:
  assumes "bind_child_thread_to_cycle env l parent child child sid role bid now = Inr (b, l')"
  obtains row where "l' = l\<lparr> thread_cycle_bindings := thread_cycle_bindings l @ [row] \<rparr>" "child_row l parent child sid role row"
proof -
  have "insert_thread_cycle_binding l b = Inr l' \<and> child_row l parent child sid role (binding_row b v)" for v
    using assms
    by (auto simp: bind_child_thread_to_cycle_def Let_def child_row_def binding_row_def split: if_splits
        dest!: fetch_optional_SomeD)
  then have "insert_thread_cycle_binding l b = Inr l'" "\<And>v. child_row l parent child sid role (binding_row b v)"
    by blast+
  then show thesis
    using that by (auto simp: insert_thread_cycle_binding_def insert_row_def split: if_splits)
qed

lemma bind_spawned_row:
  assumes "bind_spawned env ledger parent name child = Inr (Inr l')"
  obtains l role row where "ledger = Some l" "role_from_solver_role_name name = Some role"
    "l' = l\<lparr> thread_cycle_bindings := thread_cycle_bindings l @ [row] \<rparr>"
    "child_row l parent child (su_session_id (sn_process env)) role row"
  using assms unfolding bind_spawned_def by (auto elim!: bind_child_row)

lemma admit_thread_spawn_ok:
  assumes "admit_thread_spawn env ledger parent depth agent_role c = Inr (brief, c')" "solver_mode_on (sn_process env)"
  obtains l r role name where "ledger = Some l" "agent_role = Some name" "role_from_solver_role_name name = Some role"
    "depth = 1" "\<not> cg_ephemeral c" "chief_authorized env l parent r"
    "prepared env l (bd_cycle_id r) (bd_campaign_id r) (bd_challenge_id r) role c'"
proof -
  obtain b name role c1 v where ok: "depth = 1" "\<not> cg_ephemeral c"
      "authorize_solver_spawn_from_chief env ledger parent = Inr b"
      "agent_role = Some name" "role_from_solver_role_name name = Some role"
      "validate_contract_for_spawn env b role (now_unix_timestamp_ms env) = Inr ()"
      "load_stage_brief_for_spawn env ledger agent_role b = Inr v"
      "apply_stage_brief_workspace_acl (sn_config env) c1 v = Inr c'"
    using assms unfolding admit_thread_spawn_def Let_def lineage_preflight_def solver_spawn_depth_preflight_def
    by (auto split: if_splits option.splits)
  obtain l r where l: "ledger = Some l" "chief_authorized env l parent r" "tb_cycle_id b = bd_cycle_id r"
      "tb_campaign_id b = bd_campaign_id r" "tb_challenge_id b = bd_challenge_id r"
    by (rule authorize_spawn_ok [OF ok(3)])
  have "prepared env l (bd_cycle_id r) (bd_campaign_id r) (bd_challenge_id r) role c'"
    using load_stage_brief_for_spawn_ok [OF ok(7)] validate_contract_for_spawn_ok [OF ok(6)] apply_acl_confined [OF ok(8)]
      ok(4,5) l unfolding prepared_def by (metis option.inject)
  then show thesis
    using that ok(1,2,4,5) l by blast
qed

lemma solver_resume_role_ok:
  assumes "solver_resume_role source = Inr name"
  obtains parent path nick where "source = SubAgent (ThreadSpawn parent 1 path nick (Some name))"
  using assms unfolding solver_resume_role_def solver_spawn_depth_preflight_def
  by (auto split: SessionSource.splits SubAgentSource.splits option.splits if_splits)

lemma resume_gates_ok:
  assumes "ensure_recovery_canary_for_resume env ledger tid (now_unix_timestamp_ms env) = Inr ()"
    "resume_role name = Inr role"
    "resolve_thread_cycle_binding_for_resume env ledger tid (su_session_id (sn_process env)) (Some parent) role
       (now_unix_timestamp_ms env) = Inr b"
    "validate_contract_for_spawn env b role (now_unix_timestamp_ms env) = Inr ()"
    "load_stage_brief_for_spawn env ledger (Some name) b = Inr v"
    "apply_stage_brief_workspace_acl (sn_config env) c v = Inr c'"
  obtains l r where "ledger = Some l" "role_from_solver_role_name name = Some role" "recovery_proved env l"
    "bound_row env l tid (Some parent) role (now_unix_timestamp_ms env) r"
    "prepared env l (bd_cycle_id r) (bd_campaign_id r) (bd_challenge_id r) role c'"
proof -
  obtain l where l: "ledger = Some l" "recovery_proved env l"
    by (rule canary_ok [OF assms(1)])
  obtain r where r: "bound_row env l tid (Some parent) role (now_unix_timestamp_ms env) r" "tb_cycle_id b = bd_cycle_id r"
      "tb_campaign_id b = bd_campaign_id r" "tb_challenge_id b = bd_challenge_id r"
    using resume_binding_ok [OF assms(3)] l(1) by (metis option.inject)
  have role: "role_from_solver_role_name name = Some role"
    using assms(2) by (auto simp: resume_role_def)
  have "prepared env l (bd_cycle_id r) (bd_campaign_id r) (bd_challenge_id r) role c'"
    using load_stage_brief_for_spawn_ok [OF assms(5)] validate_contract_for_spawn_ok [OF assms(4)]
      apply_acl_confined [OF assms(6)] role l(1) r unfolding prepared_def by (metis option.inject)
  then show thesis
    using that l r role by blast
qed

section \<open>A worker that is spawned and one that is resumed\<close>

definition spawn_vars :: "string \<Rightarrow> string option" where
  "spawn_vars = submit_vars(''ASCODEX_SOLVER_MODE'' \<mapsto> ''1'', ''ASCODEX_CHIEF_LEASE_ID'' \<mapsto> ''lease-chief'',
     ''ASCODEX_RECOVERY_ID'' \<mapsto> ''r'', ''ASCODEX_RUNTIME_INSTANCE_ID'' \<mapsto> ''i'')"

text \<open>A canary that ran in twenty-five milliseconds.\<close>

definition spawn_trace :: RecoveryCanaryTrace where
  "spawn_trace =
     (let ev = (\<lambda>i t e. \<lparr> re_event_id = i, re_observed_at_ms = t, re_evidence = e \<rparr>);
          turn = canary_turn (fl_sha256 sample_files) ''c'' ''s'';
          d = digest CHR ''a''
      in RecoveryCanary.sample_trace
        \<lparr> tr_events :=
            [ev ''boot'' 0 RecoveryCanaryEvidence.Boot, ev ''ledger'' 1 (RecoveryCanaryEvidence.LedgerChecked d),
             ev ''spawn'' 2 (RecoveryCanaryEvidence.CanarySpawned
               \<lparr> sp_root_thread_id = ''root'', sp_child_thread_id = ''c'', sp_session_id = ''s'',
                 sp_effective_model_route = ''provider/model'', sp_permission_profile_sha256 = d,
                 sp_ephemeral = True, sp_network_disabled = True, sp_filesystem_write_disabled = True \<rparr>),
             ev ''turn-1'' 13 (RecoveryCanaryEvidence.InitialTurnCompleted (turn ''turn-1'' ''0123456789abcdef'' 3 13)),
             ev ''turn-2'' 24 (RecoveryCanaryEvidence.ContinuationTurnCompleted (turn ''turn-2'' ''fedcba9876543210'' 14 24)),
             ev ''passed'' 25 (RecoveryCanaryEvidence.CanaryPassed True)] \<rparr>)"

definition sample_spawn_env :: SpawnEnv where
  "sample_spawn_env =
     \<lparr> sn_process = sample_submit_env\<lparr> su_var := spawn_vars,
         su_ledger_env := run_env\<lparr> en_trace := json_table [(spawn_trace, ''trace'')] \<rparr> \<rparr>,
       sn_config = \<lparr> ce_runtime = sample_runtime, ce_profile_allowed = (\<lambda>_. True), ce_effective_workspace_roots = (\<lambda>_. []),
         ce_from_absolute_path = Some \<rparr>,
       sn_threads = (\<lambda>i. if i = ''thread-chief''
         then Some \<lparr> pt_session_id = ''s1'', pt_same_control = True, pt_time_ms = Some 60 \<rparr> else None),
       sn_clock_ms = Some 60, sn_shutdown = (\<lambda>_. True) \<rparr>"

definition sample_config :: Config where
  "sample_config = \<lparr> cg_ephemeral = False, cg_permission_profile = ChildPermissions.Disabled, cg_workspace_roots = [''/w''], cg_cwd = ''/w'' \<rparr>"

definition sample_recovered_ledger :: Ledger where
  "sample_recovered_ledger = sample_bound\<lparr> recovery_canaries := [\<lparr> cn_recovery_id = ''r'', cn_event_id = ''e3'', cn_runtime_instance_id = ''i'',
     cn_recovery_attempt = 1, cn_trace_json = ''trace'', cn_trace_sha256 = digest CHR ''a'', cn_recorded_at_ms = 60 \<rparr>] \<rparr>"

lemma sample_recovered:
  "ensure_recovery_canary_for_resume sample_spawn_env (Some sample_recovered_ledger) ''worker'' 60 = Ok ()"
  by code_simp

definition sample_chief_binding :: ThreadCycleBinding where
  "sample_chief_binding =
     \<lparr> tb_binding_id = ''chief:thread-chief:cycle0'', tb_thread_id = ''thread-chief'', tb_parent_thread_id = None,
       tb_agent_id = ''agent-chief'', tb_session_id = ''s1'', tb_campaign_id = ''camp'', tb_challenge_id = ''c1'',
       tb_cycle_id = ''cycle0'', tb_cycle_event_version = 1, tb_chief_lease_id = ''lease-chief'', tb_role = Chief,
       tb_issued_at_ms = 50, tb_revoked_at_ms = None \<rparr>"

lemma sample_authorized:
  "authorize_solver_spawn_from_chief sample_spawn_env (Some sample_issued) ''thread-chief'' = Ok sample_chief_binding"
  by code_simp

definition sample_issued_brief :: VerifiedStageBrief where
  "sample_issued_brief = sample_verified\<lparr> vb_cycle_id := Some ''cycle0'', vb_cycle_event_version := Some 1 \<rparr>"

lemma sample_boundary:
  "case apply_stage_brief_workspace_acl (sn_config sample_spawn_env) sample_config sample_issued_brief of Inr _ \<Rightarrow> True | Inl _ \<Rightarrow> False"
  by code_simp

lemma spawn_env_docs:
  "en_brief (spawn_ledger_env sample_spawn_env) = en_brief run_env" "en_cycle (spawn_ledger_env sample_spawn_env) = en_cycle run_env"
  "sha256_bytes (en_sha256 (spawn_ledger_env sample_spawn_env)) v = digest CHR ''a''"
  by (simp_all add: spawn_ledger_env_def submit_env_def sample_spawn_env_def sample_submit_env_def sample_files_def sha256_bytes_def sample_digest)

lemma sample_spawn_clock: "now_unix_timestamp_ms sample_spawn_env = 60"
  by (simp add: now_unix_timestamp_ms_def sample_spawn_env_def i64_max_def)

lemma sample_spawn_load:
  assumes "research_cycle_issuances l = research_cycle_issuances sample_issued"
    "stage_brief_issuances l = stage_brief_issuances sample_issued"
  shows "load_stage_brief_issuance (spawn_ledger_env sample_spawn_env) l ''cycle0'' ''camp'' ''c1'' Solver 60 =
     Ok \<lparr> pb_cycle_id = ''cycle0'', pb_campaign_id = ''camp'', pb_challenge_id = ''c1'', pb_role = Solver,
          pb_stage_brief = sample_brief\<lparr> sb_challenge_id := ''c1'' \<rparr>, pb_workspace_root = ''/p'',
          pb_capability_map_path = ''map'', pb_cycle_event_version = 1 \<rparr>"
  by (simp add: assms load_stage_brief_issuance_def sample_issued_def sample_documents sample_research_fields sample_names
      role_name_def spawn_env_docs)

lemma sample_chief_contract: "validate_contract_for_spawn sample_spawn_env sample_chief_binding Solver 60 = Ok ()"
  by code_simp

lemma sample_bound_child:
  "case bind_spawned sample_spawn_env (Some sample_issued) ''thread-chief'' ''bohrium-solver'' ''worker'' of
    Inr (Inr _) \<Rightarrow> True | _ \<Rightarrow> False"
  by code_simp

definition sample_worker_binding :: ThreadCycleBinding where
  "sample_worker_binding = sample_chief_binding
     \<lparr> tb_binding_id := ''b-1'', tb_thread_id := ''worker'', tb_parent_thread_id := Some ''thread-chief'',
       tb_agent_id := ''worker'', tb_role := Solver, tb_issued_at_ms := 60 \<rparr>"

lemma sample_resumed_binding:
  "resolve_thread_cycle_binding_for_resume sample_spawn_env (Some sample_recovered_ledger) ''worker'' ''s1'' (Some ''thread-chief'') Solver 60
    = Ok sample_worker_binding"
  by code_simp

lemma sample_process:
  "ce_runtime (sn_config sample_spawn_env) = sample_runtime" "sn_clock_ms sample_spawn_env = Some 60"
  by (simp_all add: sample_spawn_env_def)

lemma sample_process_text:
  "su_var (sn_process sample_spawn_env) ''ASCODEX_SOLVER_LEDGER_FILE'' = Some ''/w/ledger''"
  "su_session_id (sn_process sample_spawn_env) = ''s1''"
  "solver_mode_on (sn_process sample_spawn_env)" "is_blank ''/w/ledger'' = False" "is_absolute ''/w/ledger''"
  "role_from_solver_role_name ''bohrium-solver'' = Some Solver" "sn_threads sample_spawn_env ''thread-chief'' \<noteq> None"
  by code_simp+

lemma sample_brief_for_spawn:
  assumes "research_cycle_issuances l = research_cycle_issuances sample_issued"
    "stage_brief_issuances l = stage_brief_issuances sample_issued"
    "tb_cycle_id b = ''cycle0''" "tb_campaign_id b = ''camp''" "tb_challenge_id b = ''c1''"
  shows "load_stage_brief_for_spawn sample_spawn_env (Some l) (Some ''bohrium-solver'') b = Ok sample_issued_brief"
  using sample_process sample_process_text
  by (simp add: load_stage_brief_for_spawn_def i64_max_def load_and_render_issued_brief_def assms sample_spawn_load [OF assms(1,2)]
      sample_verification sample_issued_brief_def)

lemma sample_enforced:
  "enforce_solver_role_permissions_by_name (sn_config sample_spawn_env) c (Some ''bohrium-solver'') = Ok c"
  by (simp add: enforce_solver_role_permissions_by_name_def sample_process_text is_read_only_def)

lemma sample_confined:
  "\<exists>c'. apply_stage_brief_workspace_acl (sn_config sample_spawn_env) sample_config sample_issued_brief = Ok c'"
  using sample_boundary by (auto split: sum.splits)

lemma sample_contract_for_spawn:
  assumes "tb_challenge_id b = ''c1''"
  shows "validate_contract_for_spawn sample_spawn_env b Solver 60 = Ok ()"
  using sample_chief_contract assms by (simp add: validate_contract_for_spawn_def sample_chief_binding_def)

lemma sample_lineage:
  "lineage_preflight \<lparr> lr_parent_present = True, lr_depth = 1,
     lr_role = Some ''bohrium-solver'', lr_ephemeral = cg_ephemeral sample_config \<rparr> True = Ok ()"
  by code_simp

lemma sample_spawn_admitted:
  "\<exists>c'. admit_thread_spawn sample_spawn_env (Some sample_issued) ''thread-chief'' 1 (Some ''bohrium-solver'') sample_config
     = Ok (Some sample_issued_brief, c')"
proof -
  obtain c' where c': "apply_stage_brief_workspace_acl (sn_config sample_spawn_env) sample_config sample_issued_brief = Ok c'"
    using sample_confined ..
  have "load_stage_brief_for_spawn sample_spawn_env (Some sample_issued) (Some ''bohrium-solver'') sample_chief_binding
      = Ok sample_issued_brief" "validate_contract_for_spawn sample_spawn_env sample_chief_binding Solver 60 = Ok ()"
    by (rule sample_brief_for_spawn, simp_all add: sample_contract_for_spawn sample_chief_binding_def)
  then show ?thesis
    by (simp add: admit_thread_spawn_def sample_process_text sample_lineage solver_spawn_depth_preflight_def
        sample_authorized sample_spawn_clock sample_enforced c')
qed

definition sample_worker_history :: ResumedHistory where
  "sample_worker_history =
     \<lparr> rh_conversation_id = ''worker'',
       rh_history =
         [SessionMetaItem \<lparr> sm_id = ''worker'',
            sm_source = SubAgent (ThreadSpawn ''thread-chief'' 1 None None (Some ''bohrium-solver'')),
            sm_multi_agent_version = Some V1 \<rparr>] \<rparr>"

lemma sample_worker_source:
  "get_resumed_session_sources (Resumed sample_worker_history)
     = Some (SubAgent (ThreadSpawn ''thread-chief'' 1 None None (Some ''bohrium-solver'')))"
  "is_non_root_agent (SubAgent (ThreadSpawn ''thread-chief'' 1 None None (Some ''bohrium-solver'')))"
  "get_multi_agent_version (Resumed sample_worker_history) = Some V1" "rh_conversation_id sample_worker_history = ''worker''"
  by code_simp+

lemma sample_resume_admitted:
  "\<exists>c'. admit_resumed_v1_solver_thread sample_spawn_env (Some sample_recovered_ledger) sample_config (Resumed sample_worker_history)
     = Ok (c', Resumed (sample_worker_history\<lparr> rh_history := remove_ascodex_stage_briefs (rh_history sample_worker_history) \<rparr>))"
proof -
  obtain c' where c': "apply_stage_brief_workspace_acl (sn_config sample_spawn_env) sample_config sample_issued_brief = Ok c'"
    using sample_confined ..
  have parts: "load_stage_brief_for_spawn sample_spawn_env (Some sample_recovered_ledger) (Some ''bohrium-solver'') sample_worker_binding
      = Ok sample_issued_brief" "validate_contract_for_spawn sample_spawn_env sample_worker_binding Solver 60 = Ok ()"
    by (rule sample_brief_for_spawn,
        simp_all add: sample_contract_for_spawn sample_worker_binding_def sample_chief_binding_def sample_recovered_ledger_def sample_bound_def)
  have "solver_resume_role (SubAgent (ThreadSpawn ''thread-chief'' 1 None None (Some ''bohrium-solver''))) = Ok ''bohrium-solver''"
    "resume_role ''bohrium-solver'' = Ok Solver"
    by (simp_all add: solver_resume_role_def solver_spawn_depth_preflight_def resume_role_def sample_process_text)
  then have "admit_resumed_v1_solver_thread_with_gate sample_spawn_env (Some sample_recovered_ledger) True sample_config
      (Resumed sample_worker_history)
    = Ok (c', Resumed (sample_worker_history\<lparr> rh_history := remove_ascodex_stage_briefs (rh_history sample_worker_history) \<rparr>))"
    by (simp only: admit_resumed_v1_solver_thread_with_gate_def InitialHistory.case sample_worker_source SessionSource.case
        SubAgentSource.case option.inject MultiAgentVersion.distinct simp_thms if_False if_True and_then_simps ok_or_simps Let_def
        sample_recovered sample_spawn_clock sample_resumed_binding sample_process_text sample_enforced parts c')
  moreover have "required_ascodex_env sample_spawn_env ''ASCODEX_SOLVER_LEDGER_FILE'' = Ok ''/w/ledger''"
    using sample_process_text by simp
  ultimately show ?thesis
    by (simp only: admit_resumed_v1_solver_thread_def sample_process_text simp_thms if_False and_then_simps) blast
qed

lemma sample_spawned:
  "\<exists>stored. spawn_agent_internal sample_spawn_env (\<lambda>_. Ok ''worker'') (Some sample_issued) (Some sample_issued)
     (Some (SubAgent (ThreadSpawn ''thread-chief'' 1 None None (Some ''bohrium-solver'')))) sample_config
     = \<lparr> so_result = Ok ''worker'', so_running = Some ''worker'', so_ledger = Some stored \<rparr>"
proof -
  obtain c' where admitted: "admit_thread_spawn sample_spawn_env (Some sample_issued) ''thread-chief'' 1 (Some ''bohrium-solver'')
      sample_config = Ok (Some sample_issued_brief, c')"
    using sample_spawn_admitted ..
  obtain l where bound: "bind_spawned sample_spawn_env (Some sample_issued) ''thread-chief'' ''bohrium-solver'' ''worker'' = Inr (Inr l)"
    using sample_bound_child by (auto split: sum.splits)
  show ?thesis
    by (simp add: spawn_agent_internal_def admit_spawn_def finish_spawn_def admitted bound sample_process_text)
qed

section \<open>Properties\<close>

text \<open>
  C26. In solver mode a spawned worker has full authority behind it.  If the spawn of a thread answers
  with a running child, the child is a direct, persistent child with an approved worker role; its
  parent was a live thread of this session with an unrevoked chief binding whose lease, the configured
  one, resolves for spawning on an active cycle; the configured contract admits the challenge and the
  role; the thread was started with a configuration confined to the boundary of an issued, live and
  verified brief of that cycle, challenge and role, with no network and nothing writable for any role
  but the solver; and the ledger now holds exactly one new row, the child's unrevoked binding under a
  chief row of the same parent and session.
\<close>

theorem spawned_worker_is_authorized:
  assumes "solver_mode_on (sn_process env)"
    and "spawn_agent_internal env start ledger ledger' (Some (SubAgent (ThreadSpawn parent depth path nick agent_role))) c
      = \<lparr> so_result = Ok child, so_running = running, so_ledger = stored \<rparr>"
  shows "\<exists>l r role c' l' b. ledger = Some l \<and> ledger' = Some l' \<and> running = Some child
    \<and> depth = 1 \<and> \<not> cg_ephemeral c \<and> agent_role = approved_solver_role_name role \<and> role \<noteq> Chief
    \<and> chief_authorized env l parent r
    \<and> prepared env l (bd_cycle_id r) (bd_campaign_id r) (bd_challenge_id r) role c' \<and> start c' = Ok child
    \<and> stored = Some (l'\<lparr> thread_cycle_bindings := thread_cycle_bindings l' @ [b] \<rparr>)
    \<and> child_row l' parent child (su_session_id (sn_process env)) role b"
proof -
  obtain brief c' where admitted: "admit_thread_spawn env ledger parent depth agent_role c = Inr (brief, c')"
      and started: "start c' = Inr child"
      and finished: "finish_spawn env ledger' (Some (SubAgent (ThreadSpawn parent depth path nick agent_role))) child
        = \<lparr> so_result = Ok child, so_running = running, so_ledger = stored \<rparr>"
    using assms(2) unfolding spawn_agent_internal_def admit_spawn_def finish_spawn_def
    by (auto split: sum.splits option.splits if_splits)
  obtain l r role name where gates: "ledger = Some l" "agent_role = Some name" "role_from_solver_role_name name = Some role"
      "depth = 1" "\<not> cg_ephemeral c" "chief_authorized env l parent r"
      "prepared env l (bd_cycle_id r) (bd_campaign_id r) (bd_challenge_id r) role c'"
    by (rule admit_thread_spawn_ok [OF admitted assms(1)])
  obtain bound where bound: "bind_spawned env ledger' parent name child = Inr (Inr bound)" "stored = Some bound"
      "running = Some child"
    using finished assms(1) gates(2) by (auto simp: finish_spawn_def split: sum.splits)
  obtain l' b where "ledger' = Some l'" "bound = l'\<lparr> thread_cycle_bindings := thread_cycle_bindings l' @ [b] \<rparr>"
      "child_row l' parent child (su_session_id (sn_process env)) role b"
    by (rule bind_spawned_row [OF bound(1)]) (use gates(3) in auto)
  moreover have "agent_role = approved_solver_role_name role" "role \<noteq> Chief"
    using gates(2,3) solver_role_names_agree by (metis, metis)
  ultimately show ?thesis
    using gates started bound(2,3) by blast
qed

theorem spawned_worker_is_authorized_witness:
  "\<exists>r role c' l b. chief_authorized sample_spawn_env sample_issued ''thread-chief'' r
     \<and> prepared sample_spawn_env sample_issued (bd_cycle_id r) (bd_campaign_id r) (bd_challenge_id r) role c'
     \<and> Some ''bohrium-solver'' = approved_solver_role_name role
     \<and> child_row l ''thread-chief'' ''worker'' ''s1'' role b"
proof -
  obtain stored where "spawn_agent_internal sample_spawn_env (\<lambda>_. Ok ''worker'') (Some sample_issued) (Some sample_issued)
     (Some (SubAgent (ThreadSpawn ''thread-chief'' 1 None None (Some ''bohrium-solver'')))) sample_config
     = \<lparr> so_result = Ok ''worker'', so_running = Some ''worker'', so_ledger = Some stored \<rparr>"
    using sample_spawned ..
  note spawned = spawned_worker_is_authorized [OF sample_process_text(3) this, unfolded sample_process_text(2)]
  then obtain l r role c' l' b where "Some sample_issued = Some l" "Some ''bohrium-solver'' = approved_solver_role_name role"
      "chief_authorized sample_spawn_env l ''thread-chief'' r"
      "prepared sample_spawn_env l (bd_cycle_id r) (bd_campaign_id r) (bd_challenge_id r) role c'"
      "child_row l' ''thread-chief'' ''worker'' ''s1'' role b"
    by (elim exE conjE)
  then show ?thesis
    unfolding option.inject by metis
qed

text \<open>
  C27. In solver mode no worker comes back on the word of its history.  The source of a resumed thread is
  the recorded one, or that of the stored thread where the second protocol finds none recorded.  A
  resumed thread of the first protocol that is not a root by it, and a reloaded one of the second, was
  a direct child with an approved role; the current runtime instance has a recorded recovery canary that allows rehydration and
  recorded no failure; the thread has an unrevoked row of this session with that role and parent on an
  active cycle; its configuration was prepared from the contract and the brief of that cycle; and
  the history it continues is the recorded one without its stage briefs.
\<close>

theorem resumed_worker_proved_recovery:
  assumes "solver_mode_on (sn_process env)"
    and "source = (case get_resumed_session_sources (Resumed r) of Some s \<Rightarrow> s | None \<Rightarrow> stored)"
    and "get_multi_agent_version (Resumed r) \<noteq> Some V2 \<and> is_non_root_agent source
        \<and> admit_resumed_v1_solver_thread env ledger c (Resumed r) = Ok (c', h)
      \<or> admit_reloaded_v2_solver_thread env ledger restore stored r c = Ok (c', h)"
  shows "\<exists>l parent path nick role b. source = SubAgent (ThreadSpawn parent 1 path nick (approved_solver_role_name role))
    \<and> role \<noteq> Chief \<and> ledger = Some l \<and> recovery_proved env l
    \<and> bound_row env l (rh_conversation_id r) (Some parent) role (now_unix_timestamp_ms env) b
    \<and> prepared env l (bd_cycle_id b) (bd_campaign_id b) (bd_challenge_id b) role c'
    \<and> h = Resumed (r\<lparr> rh_history := remove_ascodex_stage_briefs (rh_history r) \<rparr>)"
proof -
  have source: "(case get_resumed_session_sources (Resumed (r\<lparr> rh_history := remove_ascodex_stage_briefs (rh_history r) \<rparr>)) of
      Some s \<Rightarrow> s | None \<Rightarrow> stored) = source"
    using removed_session_data(2) [OF refl] assms(2) by simp
  obtain parent path nick name role b v c0 where gates:
      "source = SubAgent (ThreadSpawn parent 1 path nick (Some name))"
      "ensure_recovery_canary_for_resume env ledger (rh_conversation_id r) (now_unix_timestamp_ms env) = Inr ()"
      "resume_role name = Inr role"
      "resolve_thread_cycle_binding_for_resume env ledger (rh_conversation_id r) (su_session_id (sn_process env)) (Some parent) role
         (now_unix_timestamp_ms env) = Inr b"
      "validate_contract_for_spawn env b role (now_unix_timestamp_ms env) = Inr ()"
      "load_stage_brief_for_spawn env ledger (Some name) b = Inr v"
      "apply_stage_brief_workspace_acl (sn_config env) c0 v = Inr c'"
      "h = Resumed (r\<lparr> rh_history := remove_ascodex_stage_briefs (rh_history r) \<rparr>)"
    using assms(3)
  proof
    assume v1: "get_multi_agent_version (Resumed r) \<noteq> Some V2 \<and> is_non_root_agent source
      \<and> admit_resumed_v1_solver_thread env ledger c (Resumed r) = Ok (c', h)"
    have recorded: "get_resumed_session_sources (Resumed r) = Some source"
    proof (cases "get_resumed_session_sources (Resumed r)")
      case None
      then show ?thesis
        using v1 assms(1) by (auto simp: admit_resumed_v1_solver_thread_def admit_resumed_v1_solver_thread_with_gate_def)
    qed (use assms(2) in simp)
    from v1 show thesis
      using that assms(1) recorded
      unfolding admit_resumed_v1_solver_thread_def admit_resumed_v1_solver_thread_with_gate_def Let_def
      by (auto split: SessionSource.splits SubAgentSource.splits elim!: solver_resume_role_ok)
  next
    assume v2: "admit_reloaded_v2_solver_thread env ledger restore stored r c = Ok (c', h)"
    then show thesis
      using that source unfolding admit_reloaded_v2_solver_thread_def Let_def
      by (auto simp: parent_thread_id_def split: if_splits elim!: solver_resume_role_ok)
  qed
  obtain l b' where l: "ledger = Some l" "role_from_solver_role_name name = Some role" "recovery_proved env l"
      "bound_row env l (rh_conversation_id r) (Some parent) role (now_unix_timestamp_ms env) b'"
      "prepared env l (bd_cycle_id b') (bd_campaign_id b') (bd_challenge_id b') role c'"
    by (rule resume_gates_ok [OF gates(2-7)])
  moreover have "Some name = approved_solver_role_name role" "role \<noteq> Chief"
    using l(2) solver_role_names_agree by (metis, metis)
  ultimately show ?thesis
    using gates(1,8) by metis
qed

theorem resumed_worker_proved_recovery_witness:
  "\<exists>role b c'. recovery_proved sample_spawn_env sample_recovered_ledger
     \<and> bound_row sample_spawn_env sample_recovered_ledger ''worker'' (Some ''thread-chief'') role 60 b
     \<and> prepared sample_spawn_env sample_recovered_ledger (bd_cycle_id b) (bd_campaign_id b) (bd_challenge_id b) role c'"
proof -
  obtain c' h where admitted: "admit_resumed_v1_solver_thread sample_spawn_env (Some sample_recovered_ledger) sample_config
      (Resumed sample_worker_history) = Ok (c', h)"
    using sample_resume_admitted by blast
  have version: "get_multi_agent_version (Resumed sample_worker_history) \<noteq> Some V2"
    by (simp add: sample_worker_source)
  have source: "SubAgent (ThreadSpawn ''thread-chief'' 1 None None (Some ''bohrium-solver''))
      = (case get_resumed_session_sources (Resumed sample_worker_history) of Some s \<Rightarrow> s | None \<Rightarrow> Cli)"
    by (simp only: sample_worker_source option.case)
  note resumed = resumed_worker_proved_recovery [OF sample_process_text(3) source
        disjI1 [OF conjI [OF version conjI [OF sample_worker_source(2) admitted]]],
      unfolded sample_worker_source(4) sample_spawn_clock]
  then obtain l parent path nick role b where
      "SubAgent (ThreadSpawn ''thread-chief'' 1 None None (Some ''bohrium-solver''))
        = SubAgent (ThreadSpawn parent 1 path nick (approved_solver_role_name role))"
      "Some sample_recovered_ledger = Some l" "recovery_proved sample_spawn_env l" "bound_row sample_spawn_env l ''worker'' (Some parent) role 60 b"
      "prepared sample_spawn_env l (bd_cycle_id b) (bd_campaign_id b) (bd_challenge_id b) role c'"
    by (elim exE conjE)
  then show ?thesis
    unfolding SessionSource.inject SubAgentSource.inject option.inject by metis
qed

text \<open>
  A worker that was started but not bound keeps running when the ledger cannot be opened for its binding:
  the spawn answers with an error and the thread is not asked to stop, as it is on a refused binding.
\<close>

theorem unbound_worker_keeps_running:
  assumes "solver_mode_on (sn_process env)"
    and "admit_thread_spawn env ledger parent depth (Some name) c = Ok (brief, c')" and "start c' = Ok child"
  shows "spawn_agent_internal env start ledger None (Some (SubAgent (ThreadSpawn parent depth path nick (Some name)))) c
    = \<lparr> so_result = Err (InvalidRequestBy ''ASCodex cycle binding blocked: ''), so_running = Some child, so_ledger = None \<rparr>"
proof -
  obtain role where "role_from_solver_role_name name = Some role"
    using admit_thread_spawn_ok [OF assms(2,1)] by blast
  moreover obtain b where "authorize_solver_spawn_from_chief env ledger parent = Inr b"
    using assms(1,2) unfolding admit_thread_spawn_def Let_def by (auto split: if_splits)
  then obtain path where ledger: "required_ascodex_env env ''ASCODEX_SOLVER_LEDGER_FILE'' = Inr path"
    unfolding authorize_solver_spawn_from_chief_def by (auto split: if_splits)
  ultimately have "bind_spawned env None parent name child = Inl (InvalidRequestBy ''ASCodex cycle binding blocked: '')"
    by (simp add: bind_spawned_def open_for_def ledger)
  then show ?thesis
    using assms by (simp add: spawn_agent_internal_def admit_spawn_def finish_spawn_def)
qed

end
