(* ===== verification/Spec2Isabelle.thy ===== *)
theory Spec2Isabelle
  imports Coordinator Ooda Contract StageBrief WorkspaceAcl AutoPush ResearchCycle RecoveryCanary
    Reconciliation GuardGates LedgerSafety LedgerBooks LedgerEvidence GateSafety RuntimeSafety
    SubmitSafety ToolSafety SpawnSafety
begin

text \<open>
  A verification development for the ASCodex crates: the coordination kernel that lets a chief agent
  run solver, monitor, intelligence, judge and red-team agents on a challenge campaign, and the guard
  that stands between those agents and the outside world.  The sources are
  \<open>src/codex/codex-rs/ascodex-coordination/src\<close> (\<open>lib.rs\<close>, \<open>contract.rs\<close>, \<open>stage_brief.rs\<close>,
  \<open>workspace_acl.rs\<close>, \<open>auto_push.rs\<close>, \<open>research_cycle.rs\<close>, \<open>recovery_canary.rs\<close>,
  \<open>reconciliation.rs\<close>), \<open>src/codex/codex-rs/solver-guard/src\<close> (\<open>lib.rs\<close>: the gates, the evidence
  gates and the ledger; \<open>trace_builder.rs\<close>), \<open>src/codex/codex-rs/ascodex-runtime/src/lib.rs\<close> and, in
  \<open>src/codex/codex-rs/core/src\<close>, the places where the agent calls them: \<open>tools/handlers/solver_guard.rs\<close>
  (the submission tool), \<open>tools/registry.rs\<close> (the guard around every tool call) and
  \<open>agent/control/spawn.rs\<close> (the gates of spawning and resuming a worker).

  \<^bold>\<open>The program.\<close>  Agents act under a role.  \<open>authorize_action\<close> fixes what a role may do at all; a
  lease in an \<open>ActorContext\<close> narrows that to a session, a thread, a campaign and a time window.  The
  \<open>Coordinator\<close> holds the campaign state and the agent registry; every change is an event with an
  expected version and an idempotency key, appended to a log from which a snapshot is restored by
  replay.  Work is planned and reported in \<open>ExperimentPlan\<close>, \<open>WorkerReport\<close> and
  \<open>PlatformObservation\<close> records made of hashed references; a chief records each turn of the loop as a
  \<open>ResearchCycleRecord\<close>, which contains an OODA record, stage briefs, a contract and closure evidence.
  Platform facts enter by the reconciliation reducer.  After a restart a canary trace decides whether
  threads may be rehydrated.  Before anything leaves the machine the guard's gates decide, and the
  guard's SQLite \<open>Ledger\<close> keeps what they rest on: the audit log, reservations of budget, the identity
  pool, actor leases, issued cycles with their briefs and thread bindings, canaries, observations,
  reconciliation snapshots and penalties, confirmations and wake requests.  What a
  solver says it did is judged by its files: the trace, the run log, the artifact manifest, the
  execution manifest and the channel probe go through gates of their own, and a builder writes traces
  for the first of them.  The runtime bridge turns an issued brief into the context card and the file
  visibility of a worker.  In the agent itself the submission tool collects the evidence, asks every gate
  and holds the budget for the answer; the tool registry asks the guard before and after the hooks
  that may rewrite a call; spawning and resuming a worker admits the chief, the contract, the brief
  and the boundary before the thread runs, and removes the briefs of the previous life from the response
  items of its history.

  \<^bold>\<open>Theories and what they correspond to.\<close>

  \<^item> \<open>Prelude\<close>: results, fail-fast check sequences, the part of \<open>str\<close> the sources use, integers at
    their width, \<open>BTreeMap\<close> as an ordered list of entries, runs of events, and the locales
    \<open>keyed_store\<close> and \<open>lifecycle\<close>.  \<open>Float64\<close>: IEEE binary64 classification, comparison and rounded
    addition and subtraction.
  \<^item> \<open>Roles\<close>: \<open>Role\<close>, \<open>Action\<close>, \<open>CoordinationError\<close>, role names and \<open>authorize_action\<close>.
  \<^item> \<open>Lifecycles\<close>: the four state machines \<open>CampaignState\<close>, \<open>AgentState\<close>, \<open>AttemptState\<close> and
    \<open>ReceiptStatus\<close>, their \<open>transition\<close> functions and debug labels.
  \<^item> \<open>Evidence\<close>: evidence references, plans, reports, decisions, observations and confirmation.
  \<^item> \<open>Leases\<close>: leases, actor contexts, message envelopes and their context-bound validation.
  \<^item> \<open>Coordinator\<close>: the event-sourced coordinator with every operation, the context-bound entry
    points and \<open>from_snapshot\<close>; an abstract effect on campaign state and registry, refined by the
    calls, and the reachable coordinators as an inductive predicate.
  \<^item> \<open>Ooda\<close>: OODA records, closure evidence and \<open>detect_stuck\<close>.  \<open>Contract\<close>: challenge contracts.
    \<open>StageBrief\<close>: stage briefs and the skill routes.  \<open>ResearchCycle\<close>: cycle records on every outcome
    and the successor relation.  \<open>AutoPush\<close>: strong and weak closure.
  \<^item> \<open>WorkspaceAcl\<close>: readable and writable roots per role and clean-room isolation, over paths as
    component lists.  \<open>RecoveryCanary\<close>: canary traces and the runner's own trace
    (\<open>build_recovery_canary_trace\<close> of \<open>solver-guard\<close>).  \<open>Reconciliation\<close>: page items, facts, the
    snapshot reducer \<open>apply\<close> and the local submission records.
  \<^item> \<open>GuardGates\<close>: lineage, RPC, tool and network preflights, the policy records, the Bohr policy,
    \<open>Policy::admit\<close>, \<open>next_backoff_ms\<close> and the persisted role names.
  \<^item> \<open>LedgerStore\<close>: the tables of the ledger as lists of rows with their primary keys and unique indexes,
    \<open>SELECT\<close>, \<open>INSERT\<close> and \<open>UPDATE\<close> on them, and the environment \<open>Env\<close> of parameters.  \<open>EventLog\<close>: the
    audit log and the shape of an audited operation.
  \<^item> One theory per group of operations of \<open>Ledger\<close>: \<open>Reservations\<close> (with \<open>SubmissionBroker\<close>),
    \<open>IdentityPool\<close>, \<open>LeaseRegistry\<close>, \<open>CycleLedger\<close>, \<open>ThreadBindings\<close>, \<open>ObservationLedger\<close> (canaries,
    observations, confirmations) and \<open>WakeLedger\<close> (reconciliation and wakes).
  \<^item> \<open>LedgerRun\<close>: \<open>ledger_step\<close>, one rule for each changing operation, the reachable ledgers and their
    joint invariant \<open>ledger_ok\<close>.  \<open>SampleHistory\<close>: a concrete history for examples.  \<open>LedgerSafety\<close>,
    \<open>LedgerBooks\<close> and \<open>LedgerEvidence\<close>: what holds over whole histories.
  \<^item> \<open>Json\<close>: \<open>serde_json::Value\<close>, UTF-8, lines and file reads as the evidence gates use them.
    \<open>TraceGate\<close>: \<open>validate_trace_evidence\<close> with the trace steps and the artifact manifest.
    \<open>ExecutionGate\<close>: \<open>validate_execution_record\<close> and \<open>validate_cross_references\<close>.  \<open>ProbeGate\<close>: the
    channel probe and the redline scan.  \<open>TraceBuilder\<close>: \<open>build_trace_from_runlog\<close>.  \<open>Preflight\<close>: the
    contract files, the wake files, one canary turn and the policy signature.
  \<^item> \<open>TraceSpec\<close>, \<open>ArtifactSpec\<close>, \<open>ExecutionSpec\<close>, \<open>ProbeSpec\<close> and \<open>BuilderSpec\<close>: what the gates and the
    builder compute, stated without their loops and states, with the lemmas that connect the two;
    \<open>TextLemmas\<close>: trimming, lines and substrings.  \<open>SampleEvidence\<close>: a concrete workspace.
    \<open>GateSafety\<close>: the properties of the gates.
  \<^item> \<open>Runtime\<close>: the whole of \<open>ascodex-runtime\<close>.  \<open>RuntimeSafety\<close>: its properties, which join the ledger,
    the brief, the file system and the workspace boundary.
  \<^item> \<open>SubmitGate\<close>: \<open>SolverGuardSubmitHandler::preflight\<close> from the arguments to the answer, with the files
    it reads and the ledger it opens.  \<open>SubmitSpec\<close>: what an admitted submission has passed.
    \<open>SubmitSafety\<close>: its properties.  \<open>ToolDispatch\<close>: \<open>solver_guard_blocks_invocation\<close>, the egress check
    and the part of \<open>dispatch_any\<close> between lookup and execution, over any hook, and the name a dynamic
    tool is registered under.  \<open>ToolSafety\<close>: no executed call escapes the guard, and what the guard
    does not look at.
  \<^item> \<open>ChildPermissions\<close>: permission profiles, file system entries and the two steps that narrow a
    worker's configuration to its role and its brief.  \<open>BriefHistory\<close>: rollout items and the removal of
    stage briefs from a resumed history.  \<open>SpawnGate\<close>: the solver steps of \<open>spawn_agent_internal\<close>, of
    \<open>admit_resumed_v1_solver_thread\<close> and of \<open>ensure_v2_agent_loaded\<close>.  \<open>SpawnSpec\<close>: what each gate
    establishes.  \<open>SpawnSafety\<close>: its properties, with a spawn and a resume on the sample history.

  \<^bold>\<open>Interfaces.\<close>  \<open>keyed_store\<close> states what the clients rely on of an ordered map and is interpreted
  on the \<open>BTreeMap\<close> model.  \<open>lifecycle\<close> and its extension \<open>ranked_lifecycle\<close> carry the facts about
  accepted event sequences (necessary events in order, finality, bounded length) and are interpreted
  on the four state machines and their transition functions.  \<open>append_only_log\<close> and \<open>event_sourced\<close>
  state what the coordinator promises of its log and of replay, and are interpreted on the
  coordinator's own operations.  \<open>unique_table\<close> states what a table with unique indexes promises, its
  extension \<open>revocable_table\<close> what a table promises whose rows are appended and closed once; they are
  interpreted on the ledger's tables.  \<open>audited_operation\<close> is what a client may rely on of an operation
  that writes the log, and is interpreted on the audited operations of the ledger.

  \<^bold>\<open>What is proved.\<close>  The log, its index and the registry lineage are invariants of every reachable
  coordinator under any interleaving of calls; calls refine an abstract effect with optimistic
  concurrency; retries are idempotent; snapshots round-trip and an accepted snapshot's state is earned
  by its log.  No event sequence reaches a verified score or a closed campaign without the full chain
  of evidence.  Reconciliation is atomic, monotone and deduplicating; no item takes a recorded fact away, though a
  later one may state another value for it.  Canary
  traces prove two live turns of an isolated child and an unchanged ledger.  Closure approval needs
  the whole closure case at the ceiling of known results.  Leases are bounded capabilities.  Role
  boundaries are confined to the canonical workspace and a clean room reads nothing of its parents.
  Admission is the conjunction of seven gates and egress is confined to allowed domains.  Over every
  history of ledger operations, in any order and by any callers: the log is append-only, contiguous
  and idempotent; a reservation is settled exactly once and the held costs of a challenge never exceed
  its budget; a revoked lease is never resolved again and a retired cycle never yields a brief, a
  binding or a child; every resolved caller was provisioned and every bound worker has a chief, a
  cycle and a brief behind it; every observation, penalty and wake is backed by the log; and wakes,
  canaries and confirmations read back as they were recorded.  The trace gate accepts exactly the traces of a declarative specification; what
  it, the execution gate and the channel-probe gate accept is backed by the files the supplied paths
  name in the workspace, their hashes and their times; the redline scan reports exactly what occurs; a built trace passes the gate
  exactly when its log is long enough; a consumed wake file is never collected again.  A worker's card
  comes from a live issued brief whose files were verified, and a worker reads its own workspace and
  signed skill files only.  A submission the tool answers with success has passed every gate with its
  binding, and whatever the answer no budget stays held.  In solver mode no tool call runs that the
  guard refuses, also when a hook rewrites it; the guard knows MCP and dynamic tools by a prefix of the
  name, which a registered dynamic tool does not need to have.  A spawned worker has a live chief, its lease, a
  contract, a brief, a confined configuration and a stored binding behind it; a resumed one also a
  recovery canary of the running instance.  The response items of a resumed history carry no
  stage brief; what lies in a checkpoint stays.

  \<^bold>\<open>Modelling choices.\<close>  A \<open>str\<close> is its byte list.  An \<open>i64\<close>, \<open>i32\<close> is an \<open>int\<close>, a \<open>u64\<close>, \<open>u32\<close>,
  \<open>usize\<close> a \<open>nat\<close>; saturating operations saturate, and an unchecked operation that can leave its type
  returns \<open>None\<close> for the panic of the checked profile, so that theorems about results also say when
  there is one.  No fuel is used: every loop is a fold or a structural recursion over the data.
  SHA-256, the file system, the JSON parsers and printers, the RFC 3339 parser, the clock, \<open>hex\<close> and
  Ed25519 are parameters; the only law assumed of SHA-256 is its digest length.  The theorem about built
  traces assumes that the clock does not run backwards (\<open>clock_monotone\<close>), that a printed time reads back
  (\<open>times_read_back\<close>) and that a printed line does (\<open>lines_read_back\<close>); its witness has an instance.

  In the ledger a transaction is a function from database to database: one connection serves all
  calls, an error rolls back, and failures of the storage itself are outside the model.  SQLite's \<open>SUM\<close>
  and \<open>serde_json\<close> for each stored type are parameters; where a theorem needs it, the first is assumed
  exact on costs that are multiples of \<open>2 ^ -20\<close> dollars, and the second to read back what it wrote for
  the types that hold strings, integers, flags and enumerations (contexts, briefs, canary traces, wake
  requests).  Of a type that also holds floats this is not assumed, since without the \<open>float_roundtrip\<close>
  feature a float may be read off by a digit: of a cycle only that the other fields agree when it reads
  (\<open>same_but_floats\<close>), of a confirmation that all but the retained entry do (\<open>confirmation_reads_back\<close>),
  and of a snapshot nothing.

  The parts of \<open>core\<close> are modelled as far as the solver gates go.  The environment variables, the files,
  the clock, the live threads, the hooks and the configuration calls they use are fields of \<open>SubmitEnv\<close>,
  \<open>ConfigEnv\<close> and \<open>SpawnEnv\<close>; the start of the thread, with its slot, metadata and history, is a
  function argument of \<open>spawn_agent_internal\<close>.  One admission sees one ledger and one reading of the
  clock; the binding made after the start sees another.  The target is a Unix system: the branch of
  \<open>apply_stage_brief_workspace_acl\<close> for Windows, which keeps the parent's file system profile, is left
  out.  Paths are UTF-8, so that \<open>to_string_lossy\<close> is the identity on them.

  \<^bold>\<open>Not modelled.\<close>  The command-line programs in \<open>solver-guard/src/bin\<close> (argument parsing, process
  control and printing around the calls that are modelled), the rest of the Codex crates under
  \<open>core\<close> (session loop, model client, tool execution; in \<open>spawn.rs\<close> forking, slot reservation, and the
  cold resume path, which calls the same gates), serde (de)serialisation itself, and the other Codex
  crates.
\<close>

end
